(* ===== verification/Prelude.thy ===== *)
theory Prelude
  imports
    Main
    "HOL-Library.AList"
    "HOL-Library.Char_ord"
    "HOL-Library.List_Lexorder"
    "HOL-Library.Product_Lexorder"
    "HOL-Library.Multiset"
begin

text \<open>
  Shared vocabulary of the development: Python dictionaries as association
  lists in insertion order, the string methods the backend uses, decimal
  printing, stable sorting, and results that carry an error.

  A Python \<open>dict\<close> keeps its insertion order, and assigning to a present key
  keeps the position; \<^const>\<open>AList.update\<close> does the same.  Strings are lists of
  8-bit characters; case conversion is the ASCII one.
\<close>

named_theorems dict_simps \<open>laws of dictionary lookup after an update\<close>
named_theorems run_simps \<open>equations of result-carrying operations\<close>

section \<open>Results\<close>

type_synonym ('e, 'a) result = "'e + 'a"

abbreviation Err :: "'e \<Rightarrow> ('e, 'a) result" where "Err \<equiv> Inl"
abbreviation Ok :: "'a \<Rightarrow> ('e, 'a) result" where "Ok \<equiv> Inr"

fun is_ok :: "('e, 'a) result \<Rightarrow> bool" where
  "is_ok (Inl _) = False"
| "is_ok (Inr _) = True"

lemma is_ok_iff: "is_ok r \<longleftrightarrow> (\<exists>x. r = Inr x)"
  by (cases r) auto

lemma not_is_ok_iff: "\<not> is_ok r \<longleftrightarrow> (\<exists>e. r = Inl e)"
  by (cases r) auto

fun bind_ok :: "('e, 'a) result \<Rightarrow> ('a \<Rightarrow> ('e, 'b) result) \<Rightarrow> ('e, 'b) result" where
  "bind_ok (Inl e) f = Inl e"
| "bind_ok (Inr x) f = f x"

lemma bind_ok_eq_Inr [run_simps]: "bind_ok r f = Inr y \<longleftrightarrow> (\<exists>x. r = Inr x \<and> f x = Inr y)"
  by (cases r) auto

text \<open>An operation on a state that fails without a trace.\<close>

definition rolls_back :: "'s \<Rightarrow> ('e, 'a) result \<times> 's \<Rightarrow> bool" where
  "rolls_back s r = (is_ok (fst r) \<or> snd r = s)"

lemma rolls_back_Ok: "rolls_back s (Ok x, s')"
  by (simp add: rolls_back_def)

lemma rolls_back_Err: "rolls_back s (Err e, s)"
  by (simp add: rolls_back_def)

lemma rolls_back_if: "rolls_back s x \<Longrightarrow> rolls_back s y \<Longrightarrow> rolls_back s (if c then x else y)"
  by simp

lemma rolls_back_option:
  "rolls_back s x \<Longrightarrow> (\<And>v. rolls_back s (f v)) \<Longrightarrow> rolls_back s (case z of None \<Rightarrow> x | Some v \<Rightarrow> f v)"
  by (cases z) auto

lemma rolls_back_prod: "(\<And>a b. rolls_back s (f a b)) \<Longrightarrow> rolls_back s (case z of (a, b) \<Rightarrow> f a b)"
  by (cases z) auto

lemma rolls_back_let: "(\<And>a. rolls_back s (f a)) \<Longrightarrow> rolls_back s (let a = x in f a)"
  by (simp add: Let_def)

lemmas rolls_back_intros =
  rolls_back_Ok rolls_back_Err rolls_back_if rolls_back_option rolls_back_prod rolls_back_let

lemma rolls_backD: "rolls_back s r \<Longrightarrow> \<not> is_ok (fst r) \<Longrightarrow> snd r = s"
  by (simp add: rolls_back_def)

lemma option_eq_Some_iff: "(\<And>v. x = Some v \<longleftrightarrow> y = Some v) \<Longrightarrow> x = y"
  by (cases x; cases y) auto

lemma no_Some_pair [simp]: "(\<forall>a b. x \<noteq> Some (a, b)) \<longleftrightarrow> x = None"
  by (cases x) auto

lemma no_Some_triple [simp]: "(\<forall>a b c. x \<noteq> Some (a, b, c)) \<longleftrightarrow> x = None"
  by (cases x) auto

lemma map_snd_mem: "(i, b) \<in> set (map (\<lambda>(i, a). (i, f a)) xs) \<longleftrightarrow> (\<exists>a. (i, a) \<in> set xs \<and> b = f a)"
  by force

section \<open>Dictionaries\<close>

type_synonym ('k, 'v) dict = "('k \<times> 'v) list"

abbreviation dict_get :: "('k, 'v) dict \<Rightarrow> 'k \<Rightarrow> 'v option" where
  "dict_get \<equiv> map_of"

abbreviation dict_set :: "('k, 'v) dict \<Rightarrow> 'k \<Rightarrow> 'v \<Rightarrow> ('k, 'v) dict" where
  "dict_set d k v \<equiv> AList.update k v d"

abbreviation dict_del :: "('k, 'v) dict \<Rightarrow> 'k \<Rightarrow> ('k, 'v) dict" where
  "dict_del d k \<equiv> AList.delete k d"

abbreviation dict_keys :: "('k, 'v) dict \<Rightarrow> 'k list" where
  "dict_keys \<equiv> map fst"

definition dict_get_or :: "('k, 'v) dict \<Rightarrow> 'k \<Rightarrow> 'v \<Rightarrow> 'v" where
  "dict_get_or d k dflt = (case dict_get d k of None \<Rightarrow> dflt | Some v \<Rightarrow> v)"

text \<open>\<open>{**d, **e}\<close> and \<open>d.update(e)\<close>.\<close>

definition dict_merge :: "('k, 'v) dict \<Rightarrow> ('k, 'v) dict \<Rightarrow> ('k, 'v) dict" where
  "dict_merge d e = fold (\<lambda>(k, v) acc. dict_set acc k v) e d"

lemma dict_get_set [dict_simps]:
  "dict_get (dict_set d k v) k' = (if k' = k then Some v else dict_get d k')"
  by (simp add: AList.update_conv)

lemma dict_get_del [dict_simps]:
  "dict_get (dict_del d k) k' = (if k' = k then None else dict_get d k')"
  by (simp add: AList.delete_conv)

lemma dict_get_or_set [dict_simps]:
  "dict_get_or (dict_set d k v) k' x = (if k' = k then v else dict_get_or d k' x)"
  by (simp add: dict_get_or_def dict_get_set)

lemma dict_get_filter [dict_simps]:
  "dict_get (filter (\<lambda>e. P (fst e)) d) k = (if P k then dict_get d k else None)"
  by (induction d) auto

lemma dict_keys_set [dict_simps]: "fst ` set (dict_set d k v) = insert k (fst ` set d)"
  by (induction d) auto

lemma distinct_dict_set [simp, intro]:
  "distinct (dict_keys d) \<Longrightarrow> distinct (dict_keys (dict_set d k v))"
  by (rule AList.distinct_update)

lemma distinct_dict_del [simp, intro]:
  "distinct (dict_keys d) \<Longrightarrow> distinct (dict_keys (dict_del d k))"
  by (rule AList.distinct_delete)

lemma dict_keys_del [dict_simps]: "fst ` set (dict_del d k) = fst ` set d - {k}"
  by (auto simp: AList.delete_eq)

lemma dict_get_None_iff: "dict_get d k = None \<longleftrightarrow> k \<notin> fst ` set d"
  by (simp add: map_of_eq_None_iff)

lemma dict_set_fresh: "k \<notin> fst ` set d \<Longrightarrow> dict_set d k v = d @ [(k, v)]"
  by (induction d) auto

lemma dict_merge_Nil [simp]: "dict_merge d [] = d"
  by (simp add: dict_merge_def)

lemma dict_merge_snoc [simp]: "dict_merge d (e @ [(k, v)]) = dict_set (dict_merge d e) k v"
  by (simp add: dict_merge_def)

lemma dict_get_merge_rev:
  "dict_get (dict_merge d e) k = (case dict_get (rev e) k of Some v \<Rightarrow> Some v | None \<Rightarrow> dict_get d k)"
  by (induction e rule: rev_induct) (auto simp: dict_get_set)

lemma dict_get_rev: "distinct (dict_keys e) \<Longrightarrow> dict_get (rev e) k = dict_get e k"
  by (metis distinct_rev map_of_inject_set rev_map set_rev)

lemma dict_get_merge [dict_simps]:
  "distinct (dict_keys e) \<Longrightarrow>
   dict_get (dict_merge d e) k = (case dict_get e k of Some v \<Rightarrow> Some v | None \<Rightarrow> dict_get d k)"
  by (simp add: dict_get_merge_rev dict_get_rev)

lemma distinct_dict_merge [simp, intro]:
  "distinct (dict_keys d) \<Longrightarrow> distinct (dict_keys (dict_merge d e))"
proof (induction e rule: rev_induct)
  case (snoc kv e)
  then show ?case by (cases kv) auto
qed simp

section \<open>Strings\<close>

definition is_space :: "char \<Rightarrow> bool" where
  "is_space c = (let n = (of_char c :: nat) in (9 \<le> n \<and> n \<le> 13) \<or> (28 \<le> n \<and> n \<le> 32))"

definition lower_char :: "char \<Rightarrow> char" where
  "lower_char c = (let n = (of_char c :: nat) in if 65 \<le> n \<and> n \<le> 90 then char_of (n + 32) else c)"

definition upper_char :: "char \<Rightarrow> char" where
  "upper_char c = (let n = (of_char c :: nat) in if 97 \<le> n \<and> n \<le> 122 then char_of (n - 32) else c)"

definition py_lower :: "string \<Rightarrow> string" where "py_lower = map lower_char"
definition py_upper :: "string \<Rightarrow> string" where "py_upper = map upper_char"

lemma py_lower_idem [simp]: "py_lower (py_lower s) = py_lower s"
proof -
  have "lower_char (lower_char c) = lower_char c" for c
    by (auto simp: lower_char_def Let_def)
  then show ?thesis by (simp add: py_lower_def)
qed

text \<open>\<open>s.strip()\<close>, \<open>s.split()\<close>, \<open>s.startswith(p)\<close>, \<open>p in s\<close>, \<open>sep.join(xs)\<close>.\<close>

definition py_strip :: "string \<Rightarrow> string" where
  "py_strip s = rev (dropWhile is_space (rev (dropWhile is_space s)))"

fun split_ws_aux :: "string \<Rightarrow> string \<Rightarrow> string list" where
  "split_ws_aux acc [] = (if acc = [] then [] else [rev acc])"
| "split_ws_aux acc (c # cs) =
     (if is_space c then (if acc = [] then split_ws_aux [] cs else rev acc # split_ws_aux [] cs)
      else split_ws_aux (c # acc) cs)"

definition split_ws :: "string \<Rightarrow> string list" where "split_ws = split_ws_aux []"

definition starts_with :: "string \<Rightarrow> string \<Rightarrow> bool" where
  "starts_with p s = (take (length p) s = p)"

fun py_in :: "string \<Rightarrow> string \<Rightarrow> bool" where
  "py_in p [] = (p = [])"
| "py_in p (c # cs) = (starts_with p (c # cs) \<or> py_in p cs)"

fun py_join :: "string \<Rightarrow> string list \<Rightarrow> string" where
  "py_join sep [] = []"
| "py_join sep [x] = x"
| "py_join sep (x # y # zs) = x @ sep @ py_join sep (y # zs)"

lemma starts_with_append [simp]: "starts_with p (p @ s)"
  by (simp add: starts_with_def)

lemma starts_with_iff: "starts_with p s \<longleftrightarrow> (\<exists>t. s = p @ t)"
  by (metis append_eq_conv_conj append_take_drop_id starts_with_def)

lemma py_in_iff: "py_in p s \<longleftrightarrow> (\<exists>a b. s = a @ p @ b)"
proof (induction s)
  case (Cons c cs)
  have "(\<exists>a b. c # cs = a @ p @ b) \<longleftrightarrow> (\<exists>b. c # cs = p @ b) \<or> (\<exists>a b. cs = a @ p @ b)"
    by (auto simp: Cons_eq_append_conv)
  with Cons show ?case by (simp add: starts_with_iff)
qed auto

lemma py_in_Nil [simp]: "py_in [] s"
  by (cases s) (auto simp: starts_with_def)

lemma split_ws_aux_word:
  "list_all (\<lambda>c. \<not> is_space c) acc \<Longrightarrow> w \<in> set (split_ws_aux acc s)
   \<Longrightarrow> w \<noteq> [] \<and> list_all (\<lambda>c. \<not> is_space c) w"
proof (induction s arbitrary: acc)
  case (Cons c cs)
  show ?case
  proof (cases "is_space c")
    case True
    with Cons.prems have "w \<in> set (split_ws_aux [] cs) \<or> (acc \<noteq> [] \<and> w = rev acc)"
      by (auto split: if_splits)
    with Cons.IH [of "[]"] Cons.prems(1) show ?thesis by auto
  next
    case False
    with Cons.IH [of "c # acc"] Cons.prems show ?thesis by simp
  qed
qed (simp split: if_splits)

lemma split_ws_word: "w \<in> set (split_ws s) \<Longrightarrow> w \<noteq> [] \<and> list_all (\<lambda>c. \<not> is_space c) w"
  using split_ws_aux_word [of "[]" w s] by (simp add: split_ws_def)

section \<open>Decimal printing\<close>

definition digit_char :: "nat \<Rightarrow> char" where "digit_char d = char_of (48 + d)"

fun show_nat :: "nat \<Rightarrow> string" where
  "show_nat n = (if n < 10 then [digit_char n] else show_nat (n div 10) @ [digit_char (n mod 10)])"

declare show_nat.simps [simp del]

definition show_int :: "int \<Rightarrow> string" where
  "show_int i = (if i < 0 then ''-'' @ show_nat (nat (- i)) else show_nat (nat i))"

definition read_digits :: "string \<Rightarrow> nat" where
  "read_digits = foldl (\<lambda>a c. 10 * a + (of_char c - 48)) 0"

lemma of_char_digit_char: "d < 10 \<Longrightarrow> of_char (digit_char d) = 48 + d"
  by (simp add: digit_char_def)

lemma read_show_nat: "read_digits (show_nat n) = n"
proof (induction n rule: show_nat.induct)
  case (1 n)
  then show ?case
    by (subst show_nat.simps) (auto simp: read_digits_def of_char_digit_char)
qed

lemma show_nat_inject [simp]: "show_nat m = show_nat n \<longleftrightarrow> m = n"
  by (metis read_show_nat)

lemma show_nat_hd: "\<exists>d cs. show_nat n = digit_char d # cs \<and> d < 10"
proof (induction n rule: show_nat.induct)
  case (1 n)
  show ?case
  proof (cases "n < 10")
    case False
    with 1 obtain d cs where "show_nat (n div 10) = digit_char d # cs" "d < 10" by auto
    with False show ?thesis by (subst show_nat.simps) auto
  qed (subst show_nat.simps, auto)
qed

lemma digit_char_not_minus: "d < 10 \<Longrightarrow> digit_char d \<noteq> CHR ''-''"
proof
  assume "d < 10" and "digit_char d = CHR ''-''"
  then have "48 + d = (of_char (CHR ''-'') :: nat)" by (metis of_char_digit_char)
  then show False by simp
qed

lemma show_int_inject [simp]: "show_int i = show_int j \<longleftrightarrow> i = j"
proof -
  have ne: "CHR ''-'' # xs \<noteq> show_nat n" for xs n
    using show_nat_hd [of n] digit_char_not_minus by (metis list.inject)
  show ?thesis
    by (auto simp: show_int_def ne ne [symmetric])
qed

section \<open>Python integers read from text\<close>

definition is_digit :: "char \<Rightarrow> bool" where
  "is_digit c = (let n = (of_char c :: nat) in 48 \<le> n \<and> n \<le> 57)"

fun digits_grouped :: "string \<Rightarrow> bool" where
  "digits_grouped [] = False"
| "digits_grouped [c] = is_digit c"
| "digits_grouped (c # d # cs) =
     (is_digit c \<and> (if d = CHR ''_'' then digits_grouped cs else digits_grouped (d # cs)))"

definition py_int :: "string \<Rightarrow> int option" where
  "py_int s =
     (let t = py_strip s;
          (sgn, body) = (case t of
              [] \<Rightarrow> (1, [])
            | c # r \<Rightarrow> if c = CHR ''-'' then (-1, r) else if c = CHR ''+'' then (1, r) else (1, t))
      in if digits_grouped body then Some (sgn * int (read_digits (filter (\<lambda>c. c \<noteq> CHR ''_'') body)))
         else None)"

lemma is_digit_digit_char: "d < 10 \<Longrightarrow> is_digit (digit_char d)"
  by (simp add: is_digit_def of_char_digit_char)

lemma show_nat_digits: "list_all is_digit (show_nat n)"
proof (induction n rule: show_nat.induct)
  case (1 n)
  then show ?case by (subst show_nat.simps) (simp add: is_digit_digit_char)
qed

lemma show_nat_not_Nil [simp]: "show_nat n \<noteq> []"
  by (subst show_nat.simps) simp

lemma digits_no_sep: "is_digit c \<Longrightarrow> c \<noteq> CHR ''_'' \<and> c \<noteq> CHR ''-'' \<and> c \<noteq> CHR ''+'' \<and> \<not> is_space c"
  by (auto simp: is_digit_def is_space_def Let_def)

lemma digits_grouped_all: "list_all is_digit s \<Longrightarrow> s \<noteq> [] \<Longrightarrow> digits_grouped s"
  by (induction s rule: digits_grouped.induct) (auto dest: digits_no_sep)

lemma strip_no_space: "list_all (\<lambda>c. \<not> is_space c) s \<Longrightarrow> py_strip s = s"
proof -
  assume "list_all (\<lambda>c. \<not> is_space c) s"
  moreover from this have "list_all (\<lambda>c. \<not> is_space c) (rev s)" by simp
  ultimately show ?thesis
    by (metis (mono_tags, lifting) dropWhile_eq_self_iff hd_in_set list_all_iff py_strip_def rev_rev_ident)
qed

lemma py_int_show_int: "py_int (show_int i) = Some i"
proof -
  have d: "list_all is_digit (show_nat n)" for n by (rule show_nat_digits)
  have dg: "digits_grouped (show_nat n)" "filter (\<lambda>c. c \<noteq> CHR ''_'') (show_nat n) = show_nat n" for n
    using d [of n] digits_no_sep by (auto simp: digits_grouped_all list_all_iff filter_id_conv)
  have ns: "list_all (\<lambda>c. \<not> is_space c) (show_nat n)" for n
    using d [of n] digits_no_sep by (auto simp: list_all_iff)
  have m: "\<not> is_space (CHR ''-'')" by (simp add: is_space_def Let_def)
  show ?thesis
  proof (cases "i < 0")
    case True
    then have "show_int i = CHR ''-'' # show_nat (nat (- i))" by (simp add: show_int_def)
    moreover from this have "py_strip (show_int i) = show_int i"
      using ns m by (simp add: strip_no_space)
    ultimately show ?thesis using True dg by (simp add: py_int_def read_show_nat)
  next
    case False
    then have si: "show_int i = show_nat (nat i)" by (simp add: show_int_def)
    then have st: "py_strip (show_int i) = show_nat (nat i)" using ns by (simp add: strip_no_space)
    obtain c cs where cs: "show_nat (nat i) = c # cs" by (cases "show_nat (nat i)") auto
    then have "c \<noteq> CHR ''-'' \<and> c \<noteq> CHR ''+''" using d [of "nat i"] digits_no_sep by auto
    then show ?thesis using False dg [of "nat i"] st cs
      by (simp add: py_int_def) (metis cs int_nat_eq linorder_not_less read_show_nat)
  qed
qed

section \<open>Lists\<close>

text \<open>\<open>sorted(xs, key=f, reverse=True)\<close>: descending, and still stable.\<close>

definition sort_key_desc :: "('a \<Rightarrow> 'b::linorder) \<Rightarrow> 'a list \<Rightarrow> 'a list" where
  "sort_key_desc f xs = rev (sort_key f (rev xs))"

lemma set_sort_key_desc [simp]: "set (sort_key_desc f xs) = set xs"
  by (simp add: sort_key_desc_def)

lemma length_sort_key_desc [simp]: "length (sort_key_desc f xs) = length xs"
  by (simp add: sort_key_desc_def)

lemma mset_sort_key_desc [simp]: "mset (sort_key_desc f xs) = mset xs"
  by (simp add: sort_key_desc_def)

lemma sort_key_desc_sorted: "sorted_wrt (\<ge>) (map f (sort_key_desc f xs))"
proof -
  have "sorted_wrt (\<le>) (map f (sort_key f (rev xs)))" by simp
  then show ?thesis by (simp add: sort_key_desc_def rev_map [symmetric] sorted_wrt_rev)
qed

lemma sort_key_desc_stable:
  "filter (\<lambda>x. f x = k) (sort_key_desc f xs) = filter (\<lambda>x. f x = k) xs"
proof -
  have "filter (\<lambda>x. f x = k) (sort_key f (rev xs)) = filter (\<lambda>x. f x = k) (rev xs)"
    by (rule sort_key_stable)
  then show ?thesis by (simp add: sort_key_desc_def rev_filter [symmetric])
qed

section \<open>JSON-like values\<close>

text \<open>The values a Python dictionary of plain data holds; a float is the text Python prints for it.\<close>

datatype json =
    JNull
  | JBool bool
  | JInt int
  | JFloat string
  | JStr string
  | JList "json list"
  | JObj "(string \<times> json) list"

type_synonym metadata = "(string, json) dict"

fun truthy :: "json \<Rightarrow> bool" where
  "truthy JNull = False"
| "truthy (JBool b) = b"
| "truthy (JInt i) = (i \<noteq> 0)"
| "truthy (JFloat s) = (s \<noteq> ''0.0'' \<and> s \<noteq> ''-0.0'')"
| "truthy (JStr s) = (s \<noteq> [])"
| "truthy (JList xs) = (xs \<noteq> [])"
| "truthy (JObj d) = (d \<noteq> [])"

text \<open>Python's \<open>a or b\<close> on an optional value that is false when missing or empty.\<close>

definition or_str :: "string option \<Rightarrow> string \<Rightarrow> string" where
  "or_str x d = (case x of Some (c # cs) \<Rightarrow> c # cs | _ \<Rightarrow> d)"

definition or_int :: "int option \<Rightarrow> int \<Rightarrow> int" where
  "or_int x d = (case x of Some i \<Rightarrow> (if i \<noteq> 0 then i else d) | None \<Rightarrow> d)"

lemma sort_key_append_sorted:
  "sort_key f (sort_key f xs @ ys) = sort_key f (xs @ ys)"
proof (rule properties_for_sort_key [symmetric])
  show "mset (sort_key f (sort_key f xs @ ys)) = mset (xs @ ys)" by simp
  show "filter (\<lambda>x. f k = f x) (sort_key f (sort_key f xs @ ys)) = filter (\<lambda>x. f k = f x) (xs @ ys)" for k
    using sort_key_stable [of f "f k" "sort_key f xs @ ys"] sort_key_stable [of f "f k" xs]
    by (simp add: eq_commute [of "f k"])
  show "sorted (map f (sort_key f (sort_key f xs @ ys)))" by simp
qed

end
