(* ===== verification/Security_Core.thy ===== *)
theory Security_Core
  imports Prelude
begin

text \<open>
  The exception hierarchy of the security package
  (\<open>security/exceptions.py\<close>) and the contract that the rate limiter and
  the quota manager share: a meter that counts usage per key, charges every
  request, and admits it exactly when the new total stays within the limit.
\<close>

datatype security_error =
    AuthenticationError string
  | AuthorizationError string
  | PolicyViolationError string
  | RateLimitExceededError string
  | QuotaExceededError string
  | ComplianceError string

section \<open>Serving a sequence of requests\<close>

fun serve :: "('k \<Rightarrow> int \<Rightarrow> 's \<Rightarrow> bool \<times> 's) \<Rightarrow> ('k \<times> int) list \<Rightarrow> 's \<Rightarrow> bool list \<times> 's" where
  "serve f [] s = ([], s)"
| "serve f ((k, a) # rs) s =
     (let (b, s') = f k a s; (bs, s'') = serve f rs s' in (b # bs, s''))"

definition charged :: "'k \<Rightarrow> ('k \<times> int) list \<Rightarrow> int" where
  "charged k rs = sum_list (map snd (filter (\<lambda>r. fst r = k) rs))"

definition granted :: "'k \<Rightarrow> ('k \<times> int) list \<Rightarrow> bool list \<Rightarrow> int" where
  "granted k rs bs = sum_list (map (\<lambda>(r, b). if b \<and> fst r = k then snd r else 0) (zip rs bs))"

lemma charged_Nil [simp]: "charged k [] = 0"
  by (simp add: charged_def)

lemma granted_Nil [simp]: "granted k [] bs = 0" "granted k rs [] = 0"
  by (simp_all add: granted_def)

lemma serve_Cons:
  "serve f (r # rs) s =
     (fst (f (fst r) (snd r) s) # fst (serve f rs (snd (f (fst r) (snd r) s))),
      snd (serve f rs (snd (f (fst r) (snd r) s))))"
  by (cases r) (simp add: split_beta)

declare serve.simps(2) [simp del]
declare serve_Cons [simp]

lemma length_serve [simp]: "length (fst (serve f rs s)) = length rs"
  by (induction rs arbitrary: s) auto

lemma serve_append:
  "serve f (rs @ qs) s =
     (fst (serve f rs s) @ fst (serve f qs (snd (serve f rs s))),
      snd (serve f qs (snd (serve f rs s))))"
  by (induction rs arbitrary: s) auto

lemma charged_Cons [simp]: "charged k (r # rs) = (if fst r = k then snd r else 0) + charged k rs"
  by (simp add: charged_def)

lemma granted_Cons [simp]:
  "granted k (r # rs) (b # bs) = (if b \<and> fst r = k then snd r else 0) + granted k rs bs"
  by (simp add: granted_def)

section \<open>The meter contract\<close>

locale usage_meter =
  fixes used :: "'s \<Rightarrow> 'k \<Rightarrow> int"
    and limit_of :: "'s \<Rightarrow> 'k \<Rightarrow> int"
    and enforce :: "'k \<Rightarrow> int \<Rightarrow> 's \<Rightarrow> bool \<times> 's"
    and invar :: "'s \<Rightarrow> bool"
    and amount_ok :: "int \<Rightarrow> bool"
  assumes used_enforce:
      "invar s \<Longrightarrow> amount_ok a \<Longrightarrow> used (snd (enforce k a s)) k' = used s k' + (if k' = k then a else 0)"
    and limit_enforce:
      "invar s \<Longrightarrow> amount_ok a \<Longrightarrow> limit_of (snd (enforce k a s)) k' = limit_of s k'"
    and admit_enforce:
      "invar s \<Longrightarrow> amount_ok a \<Longrightarrow> fst (enforce k a s) \<longleftrightarrow> used s k + a \<le> limit_of s k"
    and invar_enforce:
      "invar s \<Longrightarrow> amount_ok a \<Longrightarrow> invar (snd (enforce k a s))"
    and amount_nonneg: "amount_ok a \<Longrightarrow> 0 \<le> a"
begin

lemma invar_serve:
  "invar s \<Longrightarrow> \<forall>r\<in>set rs. amount_ok (snd r) \<Longrightarrow> invar (snd (serve enforce rs s))"
  by (induction rs arbitrary: s) (simp_all add: invar_enforce)

lemma used_serve:
  "invar s \<Longrightarrow> \<forall>r\<in>set rs. amount_ok (snd r) \<Longrightarrow>
   used (snd (serve enforce rs s)) k = used s k + charged k rs"
  by (induction rs arbitrary: s) (auto simp: invar_enforce used_enforce)

lemma limit_serve:
  "invar s \<Longrightarrow> \<forall>r\<in>set rs. amount_ok (snd r) \<Longrightarrow>
   limit_of (snd (serve enforce rs s)) k = limit_of s k"
  by (induction rs arbitrary: s) (auto simp: invar_enforce limit_enforce)

text \<open>What is granted never takes a key past its limit.\<close>

lemma granted_bound:
  "invar s \<Longrightarrow> \<forall>r\<in>set rs. amount_ok (snd r) \<Longrightarrow>
   granted k rs (fst (serve enforce rs s)) \<le> max 0 (limit_of s k - used s k)"
proof (induction rs arbitrary: s)
  case (Cons r rs)
  let ?s' = "snd (enforce (fst r) (snd r) s)"
  have r: "amount_ok (snd r)" "0 \<le> snd r" using Cons.prems(2) amount_nonneg by auto
  have "granted k rs (fst (serve enforce rs ?s')) \<le> max 0 (limit_of ?s' k - used ?s' k)"
    using Cons by (simp add: invar_enforce)
  then show ?case
    using Cons.prems(1) r
    by (cases "k = fst r") (auto simp: used_enforce limit_enforce admit_enforce)
qed simp

text \<open>With unit charges the meter grants exactly what is left, as long as it is asked for.\<close>

lemma granted_units:
  "invar s \<Longrightarrow> amount_ok 1 \<Longrightarrow> \<forall>r\<in>set rs. snd r = 1 \<Longrightarrow>
   granted k rs (fst (serve enforce rs s)) = min (charged k rs) (max 0 (limit_of s k - used s k))"
proof (induction rs arbitrary: s)
  case (Cons r rs)
  let ?s' = "snd (enforce (fst r) (snd r) s)"
  have "0 \<le> charged k rs"
    using Cons.prems(3) by (auto simp: charged_def intro!: sum_list_nonneg)
  moreover have "granted k rs (fst (serve enforce rs ?s')) =
      min (charged k rs) (max 0 (limit_of ?s' k - used ?s' k))"
    using Cons by (simp add: invar_enforce)
  ultimately show ?case
    using Cons.prems by (auto simp: used_enforce limit_enforce admit_enforce)
qed simp

end

end
