(* ===== verification/Rate_Limiter.thy ===== *)
theory Rate_Limiter
  imports Security_Core
begin

text \<open>
  The fixed-window rate limiter (\<open>security/rate_limiter.py\<close>), the middleware
  that consults it on every request (\<open>middleware/security_middleware.py\<close>),
  the header injection of \<open>security/api_security.py\<close> and the per-user
  dependency of \<open>dependencies/security.py\<close>.

  The module-level \<open>_buckets\<close> is the state: a dictionary from identifiers to
  dictionaries from one-minute windows to counts.  Both levels are
  \<open>defaultdict\<close>s, so reading a missing entry inserts it.  The clock
  \<open>int(time.time())\<close> is the argument \<open>now\<close>.
\<close>

type_synonym buckets = "(string, (int, int) dict) dict"

definition DEFAULT_RATE_LIMIT :: int where "DEFAULT_RATE_LIMIT = 60"

definition current_window :: "int \<Rightarrow> int" where
  "current_window now = now div 60"

definition bucket_of :: "buckets \<Rightarrow> string \<Rightarrow> (int, int) dict" where
  "bucket_of b i = dict_get_or b i []"

definition get_count :: "int \<Rightarrow> string \<Rightarrow> buckets \<Rightarrow> int \<times> buckets" where
  "get_count now i b =
     (let window = current_window now;
          m = filter (\<lambda>e. \<not> fst e < window) (bucket_of b i);
          c = dict_get_or m window 0
      in (c, dict_set b i (if dict_get m window = None then dict_set m window 0 else m)))"

definition increment :: "int \<Rightarrow> string \<Rightarrow> buckets \<Rightarrow> int \<times> buckets" where
  "increment now i b =
     (let window = current_window now;
          m = bucket_of b i;
          c = dict_get_or m window 0 + 1
      in (c, dict_set b i (dict_set m window c)))"

definition is_rate_limited :: "int \<Rightarrow> string \<Rightarrow> int \<Rightarrow> buckets \<Rightarrow> bool \<times> buckets" where
  "is_rate_limited now i limit b =
     (let (c, b') = get_count now i b in (limit \<le> c, b'))"

definition record_request :: "int \<Rightarrow> string \<Rightarrow> buckets \<Rightarrow> int \<times> buckets" where
  "record_request now i b = increment now i b"

definition rate_limit_message :: "int \<Rightarrow> string \<Rightarrow> string" where
  "rate_limit_message limit i =
     ''Rate limit of '' @ show_int limit @ '' requests/minute exceeded for '' @ i @ ''.''"

definition enforce_rate_limit ::
  "int \<Rightarrow> string \<Rightarrow> int \<Rightarrow> buckets \<Rightarrow> (security_error, unit) result \<times> buckets" where
  "enforce_rate_limit now i limit b =
     (let (count, b') = record_request now i b
      in if count > limit then (Err (RateLimitExceededError (rate_limit_message limit i)), b')
         else (Ok (), b'))"

section \<open>The HTTP layer\<close>

text \<open>
  A response is its status code and its headers.  \<open>call_next\<close> is the
  downstream application: it either answers or raises, and the middleware lets
  the exception through.
\<close>

record http_request =
  req_path :: string
  req_user :: "int option"
  req_client_host :: "string option"

record http_response =
  res_status :: int
  res_headers :: "(string, string) dict"
  res_body :: string

definition rate_limit_bypass_prefixes :: "string list" where
  "rate_limit_bypass_prefixes =
     [''/health'', ''/docs'', ''/redoc'', ''/openapi.json'', ''/api/v1/auth'']"

definition add_security_headers :: "http_response \<Rightarrow> http_response" where
  "add_security_headers r =
     (let h = res_headers r;
          self = [CHR 0x27] @ ''self'' @ [CHR 0x27];
          h = dict_set h ''Content-Security-Policy''
                (''default-src '' @ self @ ''; script-src '' @ self @ ''; style-src '' @ self);
          h = dict_set h ''X-Content-Type-Options'' ''nosniff'';
          h = dict_set h ''X-Frame-Options'' ''DENY'';
          h = dict_set h ''Referrer-Policy'' ''strict-origin-when-cross-origin''
      in r\<lparr>res_headers := h\<rparr>)"

definition request_identifier :: "http_request \<Rightarrow> string" where
  "request_identifier r =
     (case req_user r of
        Some uid \<Rightarrow> ''user:'' @ show_int uid
      | None \<Rightarrow> ''ip:'' @ (case req_client_host r of Some h \<Rightarrow> h | None \<Rightarrow> ''unknown''))"

definition bypasses_rate_limit :: "http_request \<Rightarrow> bool" where
  "bypasses_rate_limit r = list_ex (\<lambda>p. starts_with p (req_path r)) rate_limit_bypass_prefixes"

definition too_many_requests :: "string \<Rightarrow> http_response" where
  "too_many_requests i =
     \<lparr>res_status = 429, res_headers = [], res_body = rate_limit_message DEFAULT_RATE_LIMIT i\<rparr>"

definition forward :: "(http_request \<Rightarrow> 'e + http_response) \<Rightarrow> http_request \<Rightarrow> 'e + http_response" where
  "forward call_next r =
     (case call_next r of Inl e \<Rightarrow> Inl e | Inr resp \<Rightarrow> Inr (add_security_headers resp))"

definition dispatch ::
  "(http_request \<Rightarrow> 'e + http_response) \<Rightarrow> int \<Rightarrow> http_request \<Rightarrow> buckets
   \<Rightarrow> ('e + http_response) \<times> buckets" where
  "dispatch call_next now r b =
     (if bypasses_rate_limit r then (forward call_next r, b)
      else case enforce_rate_limit now (request_identifier r) DEFAULT_RATE_LIMIT b of
             (Inl _, b') \<Rightarrow> (Inr (too_many_requests (request_identifier r)), b')
           | (Inr _, b') \<Rightarrow> (forward call_next r, b'))"

text \<open>The per-user dependency: HTTP 429 on a breach, nothing otherwise.\<close>

datatype http_error = HTTPException int string | Propagated security_error

definition check_rate_limit :: "int \<Rightarrow> int \<Rightarrow> buckets \<Rightarrow> (http_error, unit) result \<times> buckets" where
  "check_rate_limit now user_id b =
     (case enforce_rate_limit now (''user:'' @ show_int user_id) DEFAULT_RATE_LIMIT b of
        (Inl (RateLimitExceededError m), b') \<Rightarrow> (Err (HTTPException 429 m), b')
      | (Inl e, b') \<Rightarrow> (Err (Propagated e), b')
      | (Inr u, b') \<Rightarrow> (Ok u, b'))"

section \<open>The limiter as a meter\<close>

text \<open>The meter's key is an identifier together with a window.\<close>

definition rl_used :: "buckets \<Rightarrow> string \<times> int \<Rightarrow> int" where
  "rl_used b k = dict_get_or (bucket_of b (fst k)) (snd k) 0"

definition rl_enforce :: "int \<Rightarrow> string \<times> int \<Rightarrow> int \<Rightarrow> buckets \<Rightarrow> bool \<times> buckets" where
  "rl_enforce limit k a b =
     map_prod is_ok id (enforce_rate_limit (60 * snd k) (fst k) limit b)"

lemma bucket_of_set [dict_simps]:
  "bucket_of (dict_set b i m) j = (if j = i then m else bucket_of b j)"
  by (simp add: bucket_of_def dict_simps)

lemma rl_used_increment [simp]:
  "rl_used (snd (increment now i b)) k =
     rl_used b k + (if k = (i, current_window now) then 1 else 0)"
  by (cases k) (auto simp: rl_used_def increment_def Let_def bucket_of_set dict_get_or_set)

lemma fst_increment [simp]: "fst (increment now i b) = rl_used b (i, current_window now) + 1"
  by (simp add: increment_def rl_used_def Let_def)

lemma enforce_state [simp]: "snd (enforce_rate_limit now i limit b) = snd (increment now i b)"
  by (simp add: enforce_rate_limit_def record_request_def split_beta)

lemma enforce_outcome:
  "fst (enforce_rate_limit now i limit b) =
     (if rl_used b (i, current_window now) < limit then Ok ()
      else Err (RateLimitExceededError (rate_limit_message limit i)))"
  by (simp add: enforce_rate_limit_def record_request_def split_beta)

lemma increment_window: "increment now i b = increment (60 * current_window now) i b"
  by (simp add: increment_def current_window_def)

lemma enforce_window:
  "enforce_rate_limit now i limit b = enforce_rate_limit (60 * current_window now) i limit b"
  by (simp add: enforce_rate_limit_def record_request_def increment_window [of now])

interpretation rl: usage_meter rl_used "\<lambda>_ _. limit" "rl_enforce limit" "\<lambda>_. True" "\<lambda>a. a = 1"
  for limit
  by unfold_locales
    (auto simp: rl_enforce_def enforce_outcome current_window_def map_prod_def split_beta)

section \<open>Sequences of requests\<close>

text \<open>\<open>enforce_rate_limit\<close> on a sequence of (clock, identifier) pairs.\<close>

fun enforce_all :: "int \<Rightarrow> (int \<times> string) list \<Rightarrow> buckets
    \<Rightarrow> (security_error, unit) result list \<times> buckets" where
  "enforce_all limit [] b = ([], b)"
| "enforce_all limit ((now, i) # rs) b =
     (let (r, b') = enforce_rate_limit now i limit b; (os, b'') = enforce_all limit rs b'
      in (r # os, b''))"

definition in_window :: "string \<Rightarrow> int \<Rightarrow> int \<times> string \<Rightarrow> bool" where
  "in_window i w r \<longleftrightarrow> snd r = i \<and> current_window (fst r) = w"

definition admitted :: "string \<Rightarrow> int \<Rightarrow> (int \<times> string) list \<Rightarrow> (security_error, unit) result list \<Rightarrow> int" where
  "admitted i w rs os = int (length (filter (\<lambda>(r, o'). in_window i w r \<and> is_ok o') (zip rs os)))"

definition meter_requests :: "(int \<times> string) list \<Rightarrow> ((string \<times> int) \<times> int) list" where
  "meter_requests rs = map (\<lambda>(now, i). ((i, current_window now), 1)) rs"

lemma meter_requests_Cons [simp]:
  "meter_requests ((now, i) # rs) = ((i, current_window now), 1) # meter_requests rs"
  by (simp add: meter_requests_def)

lemma enforce_all_serve:
  "serve (rl_enforce limit) (meter_requests rs) b =
     (map is_ok (fst (enforce_all limit rs b)), snd (enforce_all limit rs b))"
proof (induction limit rs b rule: enforce_all.induct)
  case (2 limit now i rs b)
  obtain r b' where e: "enforce_rate_limit now i limit b = (r, b')" by fastforce
  then have "rl_enforce limit (i, current_window now) 1 b = (is_ok r, b')"
    using enforce_window [of now i limit b] by (simp add: rl_enforce_def)
  with 2 e show ?case by (simp add: split_beta)
qed (simp add: meter_requests_def)

lemma admitted_granted:
  "admitted i w rs os = granted (i, w) (meter_requests rs) (map is_ok os)"
proof (induction rs arbitrary: os)
  case (Cons r rs)
  then show ?case
    by (cases r; cases os) (auto simp: admitted_def in_window_def)
qed (simp add: admitted_def meter_requests_def)

lemma charged_window:
  "charged (i, w) (meter_requests rs) = int (length (filter (in_window i w) rs))"
  by (induction rs) (auto simp: meter_requests_def in_window_def)

lemma meter_requests_units: "\<forall>r\<in>set (meter_requests rs). snd r = 1"
  by (auto simp: meter_requests_def)

text \<open>
  C38: in every one-minute window the limiter admits exactly the first
  \<open>limit\<close> requests of an identifier: whatever the interleaving with other
  identifiers and windows, from any state the number admitted is the number
  asked for, capped by what the window has left.
\<close>

theorem rate_limit_exact:
  "admitted i w rs (fst (enforce_all limit rs b)) =
     min (int (length (filter (in_window i w) rs))) (max 0 (limit - rl_used b (i, w)))"
proof -
  have "granted (i, w) (meter_requests rs) (fst (serve (rl_enforce limit) (meter_requests rs) b)) =
      min (charged (i, w) (meter_requests rs)) (max 0 (limit - rl_used b (i, w)))"
    by (rule rl.granted_units) (auto simp: meter_requests_units)
  then show ?thesis
    by (simp add: enforce_all_serve admitted_granted charged_window)
qed

section \<open>The read-only check\<close>

lemma rl_used_get_count:
  "current_window now \<le> snd k \<Longrightarrow> rl_used (snd (get_count now i b)) k = rl_used b k"
  by (cases k)
    (auto simp: rl_used_def get_count_def Let_def bucket_of_set dict_get_or_def dict_get_set
        dict_get_filter [where P = "\<lambda>w. \<not> w < current_window now"] split: option.splits)

text \<open>
  The boolean check agrees with enforcement: \<open>is_rate_limited\<close> answers true
  exactly when the next \<open>enforce_rate_limit\<close> of the same identifier in the
  same window raises.
\<close>

theorem is_rate_limited_predicts:
  "fst (is_rate_limited now i limit b) \<longleftrightarrow>
     \<not> is_ok (fst (enforce_rate_limit now i limit (snd (is_rate_limited now i limit b))))"
proof -
  have "fst (get_count now i b) = rl_used b (i, current_window now)"
    by (simp add: get_count_def rl_used_def Let_def dict_get_or_def
        dict_get_filter [where P = "\<lambda>w. \<not> w < current_window now"])
  moreover have "rl_used (snd (get_count now i b)) (i, current_window now) = rl_used b (i, current_window now)"
    by (simp add: rl_used_get_count)
  ultimately show ?thesis
    by (simp add: is_rate_limited_def split_beta enforce_outcome not_less)
qed

section \<open>Middleware\<close>

lemma dispatch_cases:
  "dispatch call_next now r b =
     (if bypasses_rate_limit r then (forward call_next r, b)
      else (if rl_used b (request_identifier r, current_window now) < DEFAULT_RATE_LIMIT
            then forward call_next r else Inr (too_many_requests (request_identifier r)),
            snd (increment now (request_identifier r) b)))"
proof -
  obtain o' b' where e: "enforce_rate_limit now (request_identifier r) DEFAULT_RATE_LIMIT b = (o', b')"
    by fastforce
  then show ?thesis
    using enforce_outcome [of now "request_identifier r" DEFAULT_RATE_LIMIT b]
      enforce_state [of now "request_identifier r" DEFAULT_RATE_LIMIT b]
    by (auto simp: dispatch_def split: if_splits)
qed

lemma forward_status: "forward call_next r = Inr resp \<Longrightarrow> \<exists>resp0. call_next r = Inr resp0 \<and> res_status resp = res_status resp0"
  by (auto simp: forward_def add_security_headers_def Let_def split: sum.splits)

definition security_header_names :: "string list" where
  "security_header_names =
     [''Content-Security-Policy'', ''X-Content-Type-Options'', ''X-Frame-Options'', ''Referrer-Policy'']"

lemma headers_added:
  "h \<in> set security_header_names \<Longrightarrow> dict_get (res_headers (add_security_headers resp)) h \<noteq> None"
  by (auto simp: security_header_names_def add_security_headers_def Let_def dict_get_set)

lemma headers_kept:
  "h \<notin> set security_header_names \<Longrightarrow>
   dict_get (res_headers (add_security_headers resp)) h = dict_get (res_headers resp) h"
  by (auto simp: security_header_names_def add_security_headers_def Let_def dict_get_set)

text \<open>
  The middleware's whole behaviour.  A path outside the bypass prefixes is
  charged to the identifier of its user, or else of its client host; past the
  sixtieth request of a window the answer is 429 and the application is not
  called; in every other case the application's answer is returned with its
  status and its other headers unchanged and all four security headers set, and
  its exceptions pass through.  The 429 answer itself carries no header.
\<close>

theorem dispatch_behaviour:
  "fst (dispatch call_next now r b) =
     (if \<not> bypasses_rate_limit r \<and> 60 \<le> rl_used b (request_identifier r, current_window now)
      then Inr \<lparr>res_status = 429, res_headers = [],
                res_body = rate_limit_message 60 (request_identifier r)\<rparr>
      else map_sum id add_security_headers (call_next r))
   \<and> rl_used (snd (dispatch call_next now r b)) k =
       rl_used b k + (if \<not> bypasses_rate_limit r \<and> k = (request_identifier r, current_window now) then 1 else 0)
   \<and> (if h \<in> set security_header_names
       then dict_get (res_headers (add_security_headers resp)) h \<noteq> None
       else dict_get (res_headers (add_security_headers resp)) h = dict_get (res_headers resp) h)"
  using headers_added [of h resp] headers_kept [of h resp]
  by (auto simp: dispatch_cases DEFAULT_RATE_LIMIT_def too_many_requests_def forward_def split: sum.split)

section \<open>Memory held by enforcement\<close>

definition windows_held :: "buckets \<Rightarrow> string \<Rightarrow> int set" where
  "windows_held b i = set (dict_keys (bucket_of b i))"

lemma windows_held_increment:
  "windows_held (snd (increment now i b)) j =
     (if j = i then insert (current_window now) (windows_held b i) else windows_held b j)"
  by (simp add: windows_held_def increment_def Let_def bucket_of_set dict_keys_set)

lemma windows_held_enforce_all:
  "windows_held (snd (enforce_all limit rs b)) i =
     windows_held b i \<union> {current_window now | now. (now, i) \<in> set rs}"
proof (induction rs arbitrary: b)
  case (Cons r rs)
  obtain now j where r: "r = (now, j)" by fastforce
  have "snd (enforce_all limit (r # rs) b) = snd (enforce_all limit rs (snd (increment now j b)))"
    using enforce_state [of now j limit b] by (simp add: r split_beta)
  with Cons show ?case
    by (auto simp: windows_held_increment r)
qed simp

text \<open>
  Enforcement never evicts.  After any sequence of requests the limiter
  still holds one counter for every window in which the identifier was ever
  seen, old ones included; only the boolean check drops stale windows, and
  neither the middleware nor the dependency calls it.
\<close>

theorem enforcement_never_evicts:
  "windows_held (snd (enforce_all limit rs [])) i = {current_window now | now. (now, i) \<in> set rs}
   \<and> windows_held (snd (is_rate_limited now i limit b)) i =
       insert (current_window now) {w \<in> windows_held b i. current_window now \<le> w}"
proof
  show "windows_held (snd (enforce_all limit rs [])) i = {current_window now | now. (now, i) \<in> set rs}"
    using windows_held_enforce_all [of limit rs "[]" i]
    by (simp add: windows_held_def [of "[]"] bucket_of_def dict_get_or_def)
  show "windows_held (snd (is_rate_limited now i limit b)) i =
       insert (current_window now) {w \<in> windows_held b i. current_window now \<le> w}"
    by (auto simp: windows_held_def is_rate_limited_def get_count_def split_beta Let_def bucket_of_set
        dict_keys_set dict_get_None_iff image_iff not_less)
qed

end
