(* ===== verification/Tables.thy ===== *)
theory Tables
  imports Prelude
begin

text \<open>
  The generic repository (\<open>repositories/base_repository.py\<close>) over a database
  table.  A table is the list of its rows in insertion order, each with its
  primary key.  The database chooses the key of a new row, so \<open>repo_create\<close>
  takes it as an argument; that it is fresh is the database's promise and a
  hypothesis wherever it is needed.  The session is one transaction at a time:
  \<open>commit\<close> is the point where the new table replaces the old.
\<close>

type_synonym 'r table = "(int \<times> 'r) list"

datatype service_error =
    ValueError string
  | IntegrityError
  | HttpError int string

definition repo_get :: "'r table \<Rightarrow> int \<Rightarrow> 'r option" where
  "repo_get t i = map_of t i"

definition repo_get_all :: "'r table \<Rightarrow> (int \<times> 'r) list" where
  "repo_get_all t = t"

definition repo_create :: "int \<Rightarrow> 'r \<Rightarrow> 'r table \<Rightarrow> 'r table" where
  "repo_create nid r t = t @ [(nid, r)]"

definition repo_update :: "int \<Rightarrow> 'r \<Rightarrow> 'r table \<Rightarrow> 'r table" where
  "repo_update i r t = map (\<lambda>(j, q). (j, if j = i then r else q)) t"

definition repo_delete :: "int \<Rightarrow> 'r table \<Rightarrow> 'r table" where
  "repo_delete i t = filter (\<lambda>(j, _). j \<noteq> i) t"

definition repo_exists :: "'r table \<Rightarrow> int \<Rightarrow> bool" where
  "repo_exists t i = (repo_get t i \<noteq> None)"

text \<open>\<open>select(Model).where(P)\<close>: all rows, and the first row, that satisfy \<open>P\<close>.\<close>

definition repo_where :: "('r \<Rightarrow> bool) \<Rightarrow> 'r table \<Rightarrow> (int \<times> 'r) list" where
  "repo_where P t = filter (\<lambda>(_, r). P r) t"

definition repo_first :: "('r \<Rightarrow> bool) \<Rightarrow> 'r table \<Rightarrow> (int \<times> 'r) option" where
  "repo_first P t = find (\<lambda>(_, r). P r) t"

definition ids :: "'r table \<Rightarrow> int set" where
  "ids t = fst ` set t"

definition rows :: "'r table \<Rightarrow> 'r set" where
  "rows t = snd ` set t"

text \<open>One possible choice of keys: one past the largest in use.\<close>

definition serial_id :: "'r table \<Rightarrow> int" where
  "serial_id t = foldr max (map fst t) 0 + 1"

definition table_wf :: "'r table \<Rightarrow> bool" where
  "table_wf t = distinct (map fst t)"

lemma serial_id_above: "i \<in> ids t \<Longrightarrow> i < serial_id t"
proof -
  have "i \<in> set xs \<Longrightarrow> i \<le> foldr max xs 0" for xs :: "int list"
    by (induction xs) auto
  then show "i \<in> ids t \<Longrightarrow> i < serial_id t" by (force simp: ids_def serial_id_def)
qed

lemma serial_id_fresh: "serial_id t \<notin> ids t"
  using serial_id_above [of "serial_id t" t] by blast

lemma ids_Nil [simp]: "ids [] = {}"
  by (simp add: ids_def)

lemma ids_create [simp]: "ids (repo_create nid r t) = insert nid (ids t)"
  by (auto simp: ids_def repo_create_def)

lemma ids_update [simp]: "ids (repo_update i r t) = ids t"
  by (force simp: ids_def repo_update_def)

lemma ids_delete [simp]: "ids (repo_delete i t) = ids t - {i}"
  by (force simp: ids_def repo_delete_def)

lemma repo_get_None_iff: "repo_get t i = None \<longleftrightarrow> i \<notin> ids t"
  by (simp add: repo_get_def ids_def dict_get_None_iff)

lemma repo_get_SomeD: "repo_get t i = Some r \<Longrightarrow> i \<in> ids t"
  by (metis option.distinct(1) repo_get_None_iff)

lemma table_wf_create [intro]: "table_wf t \<Longrightarrow> nid \<notin> ids t \<Longrightarrow> table_wf (repo_create nid r t)"
  by (auto simp: table_wf_def repo_create_def ids_def)

lemma table_wf_update [intro]: "table_wf t \<Longrightarrow> table_wf (repo_update i r t)"
  by (simp add: table_wf_def repo_update_def comp_def split_beta)

lemma table_wf_delete [intro]: "table_wf t \<Longrightarrow> table_wf (repo_delete i t)"
  by (auto simp: table_wf_def repo_delete_def distinct_map split_beta intro: inj_on_subset)

lemma repo_get_create:
  "nid \<notin> ids t \<Longrightarrow> repo_get (repo_create nid r t) i = (if i = nid then Some r else repo_get t i)"
  using dict_get_None_iff [of t nid]
  by (auto simp: repo_get_def repo_create_def ids_def map_add_def split: option.split)

lemma repo_get_update:
  "repo_get (repo_update i r t) j = (if j = i \<and> i \<in> ids t then Some r else repo_get t j)"
  by (induction t) (force simp: repo_get_def repo_update_def ids_def)+

lemma repo_get_delete:
  "repo_get (repo_delete i t) j = (if j = i then None else repo_get t j)"
  by (induction t) (auto simp: repo_get_def repo_delete_def)

lemma repo_first_None_iff: "repo_first P t = None \<longleftrightarrow> (\<forall>r\<in>rows t. \<not> P r)"
  by (auto simp: repo_first_def find_None_iff rows_def)

lemma repo_first_SomeD: "repo_first P t = Some (i, r) \<Longrightarrow> (i, r) \<in> set t \<and> P r"
  by (auto simp: repo_first_def find_Some_iff in_set_conv_nth)

lemma repo_get_in_set: "table_wf t \<Longrightarrow> (i, r) \<in> set t \<longleftrightarrow> repo_get t i = Some r"
  by (simp add: table_wf_def repo_get_def)

lemma rows_iff: "table_wf t \<Longrightarrow> r \<in> rows t \<longleftrightarrow> (\<exists>i. repo_get t i = Some r)"
  by (force simp: rows_def repo_get_in_set [symmetric])

lemma rows_create [simp]: "rows (repo_create nid r t) = insert r (rows t)"
  by (auto simp: rows_def repo_create_def)

lemma repo_where_set: "table_wf t \<Longrightarrow> (i, r) \<in> set (repo_where P t) \<longleftrightarrow> repo_get t i = Some r \<and> P r"
  by (simp add: repo_where_def repo_get_in_set)

lemma ids_iff: "i \<in> ids t \<longleftrightarrow> repo_get t i \<noteq> None"
  by (simp add: repo_get_None_iff)

text \<open>The query for a key and a condition on the row.\<close>

lemma find_key_none: "i \<notin> ids t \<Longrightarrow> find (\<lambda>(j, r). j = i \<and> Q r) t = None"
  by (induction t) (auto simp: ids_def)

lemma find_key:
  "table_wf t \<Longrightarrow> find (\<lambda>(j, r). j = i \<and> Q r) t = map_option (Pair i) (Option.bind (repo_get t i) (\<lambda>r. if Q r then Some r else None))"
proof (induction t)
  case (Cons x t)
  obtain j r where x: "x = (j, r)" by (cases x)
  with Cons.prems have "j \<notin> ids t" "table_wf t" by (auto simp: table_wf_def ids_def)
  with Cons.IH show ?case
    by (cases "i = j") (auto simp: x repo_get_def find_key_none)
qed (simp add: repo_get_def)

section \<open>Unique columns\<close>

text \<open>
  \<open>unique_by key t\<close>: no two rows of the table agree on the column (or group of
  columns) \<open>key\<close>; \<open>lookup_by\<close> is the query for the row with a given value.
\<close>

definition unique_by :: "('r \<Rightarrow> 'k) \<Rightarrow> 'r table \<Rightarrow> bool" where
  "unique_by key t = (table_wf t \<and> distinct (map (\<lambda>ir. key (snd ir)) t))"

definition lookup_by :: "('r \<Rightarrow> 'k) \<Rightarrow> 'r table \<Rightarrow> 'k \<Rightarrow> (int \<times> 'r) option" where
  "lookup_by key t k = repo_first (\<lambda>r. key r = k) t"

lemma distinct_key_iff:
  "table_wf t \<Longrightarrow> distinct (map (\<lambda>ir. key (snd ir)) t) \<longleftrightarrow>
   (\<forall>i j r q. repo_get t i = Some r \<and> repo_get t j = Some q \<and> key r = key q \<longrightarrow> i = j)"
proof -
  assume wf: "table_wf t"
  have d: "distinct t" using wf by (auto simp: table_wf_def distinct_map)
  have "distinct (map (\<lambda>ir. key (snd ir)) t) \<longleftrightarrow> inj_on (\<lambda>ir. key (snd ir)) (set t)"
    using d by (simp add: distinct_map)
  also have "\<dots> \<longleftrightarrow> (\<forall>i j r q. repo_get t i = Some r \<and> repo_get t j = Some q \<and> key r = key q \<longrightarrow> i = j)"
  proof
    assume "inj_on (\<lambda>ir. key (snd ir)) (set t)"
    then show "\<forall>i j r q. repo_get t i = Some r \<and> repo_get t j = Some q \<and> key r = key q \<longrightarrow> i = j"
      using inj_onD [of "\<lambda>ir. key (snd ir)" "set t"] repo_get_in_set [OF wf] by fastforce
  next
    assume "\<forall>i j r q. repo_get t i = Some r \<and> repo_get t j = Some q \<and> key r = key q \<longrightarrow> i = j"
    then show "inj_on (\<lambda>ir. key (snd ir)) (set t)"
      using repo_get_in_set [OF wf] by (fastforce intro!: inj_onI)
  qed
  finally show ?thesis .
qed

lemma unique_by_iff:
  "unique_by key t \<longleftrightarrow> table_wf t \<and>
   (\<forall>i j r q. repo_get t i = Some r \<and> repo_get t j = Some q \<and> key r = key q \<longrightarrow> i = j)"
  using distinct_key_iff [of t key] by (auto simp: unique_by_def)

lemma unique_by_wf: "unique_by key t \<Longrightarrow> table_wf t"
  by (simp add: unique_by_def)

lemma lookup_by_None_iff:
  "table_wf t \<Longrightarrow> lookup_by key t k = None \<longleftrightarrow> (\<forall>i r. repo_get t i = Some r \<longrightarrow> key r \<noteq> k)"
  unfolding lookup_by_def repo_first_None_iff using rows_iff [of t] by blast

lemma lookup_by_SomeD:
  "table_wf t \<Longrightarrow> lookup_by key t k = Some (i, r) \<Longrightarrow> repo_get t i = Some r \<and> key r = k"
  using repo_first_SomeD [of "\<lambda>r. key r = k" t i r] repo_get_in_set [of t i r]
  by (simp add: lookup_by_def)

lemma lookup_by_Some_iff:
  assumes "unique_by key t"
  shows "lookup_by key t k = Some (i, r) \<longleftrightarrow> repo_get t i = Some r \<and> key r = k"
proof
  assume "lookup_by key t k = Some (i, r)"
  then show "repo_get t i = Some r \<and> key r = k"
    by (rule lookup_by_SomeD [OF unique_by_wf [OF assms]])
next
  assume ir: "repo_get t i = Some r \<and> key r = k"
  then have "lookup_by key t k \<noteq> None"
    using lookup_by_None_iff [OF unique_by_wf [OF assms], of key k] by blast
  then obtain j q where jq: "lookup_by key t k = Some (j, q)" by fastforce
  then have "repo_get t j = Some q \<and> key q = k"
    by (rule lookup_by_SomeD [OF unique_by_wf [OF assms]])
  with ir have "i = j" using assms unfolding unique_by_iff by metis
  with ir jq \<open>repo_get t j = Some q \<and> key q = k\<close> show "lookup_by key t k = Some (i, r)" by simp
qed

lemma unique_by_create:
  "unique_by key t \<Longrightarrow> nid \<notin> ids t \<Longrightarrow> lookup_by key t (key r) = None \<Longrightarrow>
   unique_by key (repo_create nid r t)"
  unfolding unique_by_iff
  by (simp add: lookup_by_None_iff repo_get_create table_wf_create) (metis option.inject)

lemma unique_by_update:
  "unique_by key t \<Longrightarrow> (\<And>j q. repo_get t j = Some q \<Longrightarrow> key q = key r \<Longrightarrow> j = i) \<Longrightarrow>
   unique_by key (repo_update i r t)"
  unfolding unique_by_iff
  by (simp add: repo_get_update table_wf_update) (metis option.inject)

lemma unique_by_delete: "unique_by key t \<Longrightarrow> unique_by key (repo_delete i t)"
  unfolding unique_by_iff
  by (simp add: repo_get_delete table_wf_delete)

lemma lookup_by_eqI:
  assumes "unique_by key t"
    and "\<And>i r. x = Some (i, r) \<longleftrightarrow> repo_get t i = Some r \<and> key r = k"
  shows "lookup_by key t k = x"
proof (rule option_eq_Some_iff)
  show "lookup_by key t k = Some v \<longleftrightarrow> x = Some v" for v
    using lookup_by_Some_iff [OF assms(1)] assms(2) by (cases v) simp
qed

lemma lookup_by_create:
  assumes "unique_by key t" and "nid \<notin> ids t" and "lookup_by key t (key r) = None"
  shows "lookup_by key (repo_create nid r t) k = (if k = key r then Some (nid, r) else lookup_by key t k)"
proof (rule lookup_by_eqI)
  show "unique_by key (repo_create nid r t)" using assms by (rule unique_by_create)
  have none: "repo_get t i = Some q \<Longrightarrow> key q \<noteq> key r" for i q
    using assms(3) lookup_by_None_iff [OF unique_by_wf [OF assms(1)]] by metis
  have nid: "repo_get t nid = None" using assms(2) by (simp add: repo_get_None_iff)
  show "(if k = key r then Some (nid, r) else lookup_by key t k) = Some (i, q) \<longleftrightarrow>
      repo_get (repo_create nid r t) i = Some q \<and> key q = k" for i q
    using none nid assms(2) lookup_by_Some_iff [OF assms(1), of k i q]
    by (cases "i = nid"; cases "k = key r") (auto simp: repo_get_create)
qed

lemma lookup_by_update_same:
  assumes "unique_by key t" and "repo_get t i = Some q" and "key r = key q"
  shows "lookup_by key (repo_update i r t) k = (if k = key r then Some (i, r) else lookup_by key t k)"
proof (rule lookup_by_eqI)
  have u: "j = i" if "repo_get t j = Some p" "key p = key r" for j p
    using assms that unfolding unique_by_iff by metis
  show "unique_by key (repo_update i r t)" by (rule unique_by_update [OF assms(1) u])
  show "(if k = key r then Some (i, r) else lookup_by key t k) = Some (j, p) \<longleftrightarrow>
      repo_get (repo_update i r t) j = Some p \<and> key p = k" for j p
    using assms(2,3) repo_get_SomeD [OF assms(2)] lookup_by_Some_iff [OF assms(1), of k j p]
    by (cases "j = i"; cases "k = key r") (auto simp: repo_get_update dest: u)
qed

section \<open>The repository contract\<close>

locale repository =
  fixes invar :: "'t \<Rightarrow> bool"
    and keys :: "'t \<Rightarrow> int set"
    and get :: "'t \<Rightarrow> int \<Rightarrow> 'r option"
    and create :: "int \<Rightarrow> 'r \<Rightarrow> 't \<Rightarrow> 't"
    and update :: "int \<Rightarrow> 'r \<Rightarrow> 't \<Rightarrow> 't"
    and delete :: "int \<Rightarrow> 't \<Rightarrow> 't"
  assumes get_dom: "get t i = None \<longleftrightarrow> i \<notin> keys t"
    and get_create: "invar t \<Longrightarrow> n \<notin> keys t \<Longrightarrow> get (create n r t) i = (if i = n then Some r else get t i)"
    and get_update: "invar t \<Longrightarrow> get (update i r t) j = (if j = i \<and> i \<in> keys t then Some r else get t j)"
    and get_delete: "invar t \<Longrightarrow> get (delete i t) j = (if j = i then None else get t j)"
    and invar_create: "invar t \<Longrightarrow> n \<notin> keys t \<Longrightarrow> invar (create n r t)"
    and invar_update: "invar t \<Longrightarrow> invar (update i r t)"
    and invar_delete: "invar t \<Longrightarrow> invar (delete i t)"
begin

lemma create_delete:
  "invar t \<Longrightarrow> n \<notin> keys t \<Longrightarrow> get (delete n (create n r t)) = get t"
  using get_dom [of t n] by (auto simp: get_delete get_create invar_create)

lemma update_last_wins: "invar t \<Longrightarrow> get (update i r (update i q t)) = get (update i r t)"
proof
  fix j assume "invar t"
  moreover from this have "i \<in> keys (update i q t) \<longleftrightarrow> i \<in> keys t"
    using get_dom [of t i] get_dom [of "update i q t" i] get_update [of t i q i] by auto
  ultimately show "get (update i r (update i q t)) j = get (update i r t) j"
    by (simp add: get_update invar_update)
qed

lemma delete_idem: "invar t \<Longrightarrow> get (delete i (delete i t)) = get (delete i t)"
  by (auto simp: get_delete invar_delete)

lemma delete_commute: "invar t \<Longrightarrow> get (delete i (delete j t)) = get (delete j (delete i t))"
  by (auto simp: get_delete invar_delete)

lemma keys_create: "invar t \<Longrightarrow> n \<notin> keys t \<Longrightarrow> keys (create n r t) = insert n (keys t)"
proof (rule set_eqI)
  fix i assume "invar t" and "n \<notin> keys t"
  then show "i \<in> keys (create n r t) \<longleftrightarrow> i \<in> insert n (keys t)"
    using get_dom [of "create n r t" i] get_dom [of t i] by (auto simp: get_create split: if_splits)
qed

end

interpretation tab: repository table_wf ids repo_get repo_create repo_update repo_delete
  by unfold_locales
    (auto simp: repo_get_None_iff repo_get_create repo_get_update repo_get_delete)

text \<open>
  The repository implements a keyed store: on a table with unique keys a
  created row is found under its new key and only there, an update changes just
  the row it names and never creates one, a delete removes just its row, the
  keys stay unique, and deleting what was just created restores every lookup.
\<close>

theorem repository_is_keyed_store:
  assumes "table_wf t" and "n \<notin> ids t"
  shows "repo_get (repo_create n r t) i = (if i = n then Some r else repo_get t i)
    \<and> repo_get (repo_update j r t) i = (if i = j \<and> repo_exists t j then Some r else repo_get t i)
    \<and> repo_get (repo_delete j t) i = (if i = j then None else repo_get t i)
    \<and> repo_get (repo_delete n (repo_create n r t)) = repo_get t
    \<and> table_wf (repo_create n r t) \<and> table_wf (repo_update j r t) \<and> table_wf (repo_delete j t)"
  using assms tab.create_delete [of t n r]
  by (auto simp: repo_exists_def repo_get_None_iff tab.get_create tab.get_update tab.get_delete)

theorem repository_is_keyed_store_witness:
  "repo_get (repo_create 2 CHR ''b'' [(1, CHR ''a'')]) 2 = Some CHR ''b''
   \<and> repo_get (repo_delete 2 (repo_create 2 CHR ''b'' [(1, CHR ''a'')])) = repo_get [(1, CHR ''a'')]"
proof -
  have wf: "table_wf [(1, CHR ''a'')]" and n: "2 \<notin> ids [(1, CHR ''a'')]"
    by (simp_all add: table_wf_def ids_def)
  from repository_is_keyed_store [OF wf n, of "CHR ''b''" 2] show ?thesis by simp
qed

end
