(* ===== verification/Quota.thy ===== *)
theory Quota
  imports Security_Core Tables
begin

text \<open>
  Usage quotas: the \<open>QuotaUsage\<close> row (\<open>models/quota_usage.py\<close>), its
  repository, the quota manager (\<open>security/quota_manager.py\<close>) and the service
  over it (\<open>services/quota_service.py\<close>).  The table is the state; the clock and
  the key the database gives to a new row are arguments.
\<close>

record quota_usage =
  q_entity_id :: int
  q_quota_type :: string
  q_used :: int
  q_limit :: "int option"
  q_period_start :: int

type_synonym quota_table = "quota_usage table"

definition DEFAULT_AI_TOKENS_QUOTA :: int where "DEFAULT_AI_TOKENS_QUOTA = 1000000"

section \<open>The row\<close>

definition q_reset :: "int \<Rightarrow> quota_usage \<Rightarrow> quota_usage" where
  "q_reset now u = u\<lparr>q_used := 0, q_period_start := now\<rparr>"

definition q_remaining :: "quota_usage \<Rightarrow> int option" where
  "q_remaining u = (case q_limit u of None \<Rightarrow> None | Some l \<Rightarrow> Some (max 0 (l - q_used u)))"

definition q_is_exceeded :: "quota_usage \<Rightarrow> bool" where
  "q_is_exceeded u = (case q_limit u of None \<Rightarrow> False | Some l \<Rightarrow> q_used u > l)"

section \<open>The manager\<close>

definition is_quota :: "int \<Rightarrow> string \<Rightarrow> quota_usage \<Rightarrow> bool" where
  "is_quota e q u = (q_entity_id u = e \<and> q_quota_type u = q)"

definition get_quota_usage :: "quota_table \<Rightarrow> int \<Rightarrow> string \<Rightarrow> (int \<times> quota_usage) option" where
  "get_quota_usage t e q = repo_first (is_quota e q) t"

definition get_all_for_entity :: "quota_table \<Rightarrow> int \<Rightarrow> (int \<times> quota_usage) list" where
  "get_all_for_entity t e = repo_where (\<lambda>u. q_entity_id u = e) t"

definition get_or_create_quota ::
  "int \<Rightarrow> int \<Rightarrow> int \<Rightarrow> string \<Rightarrow> quota_table \<Rightarrow> (int \<times> quota_usage) \<times> quota_table" where
  "get_or_create_quota nid now e q t =
     (case get_quota_usage t e q of
        Some iu \<Rightarrow> (iu, t)
      | None \<Rightarrow>
          (let u = \<lparr>q_entity_id = e, q_quota_type = q, q_used = 0,
                    q_limit = Some DEFAULT_AI_TOKENS_QUOTA, q_period_start = now\<rparr>
           in ((nid, u), repo_create nid u t)))"

definition increment_quota ::
  "int \<Rightarrow> int \<Rightarrow> int \<Rightarrow> string \<Rightarrow> int \<Rightarrow> quota_table \<Rightarrow> (int \<times> quota_usage) \<times> quota_table" where
  "increment_quota nid now e q amount t =
     (let ((i, u), t') = get_or_create_quota nid now e q t;
          u' = u\<lparr>q_used := q_used u + amount\<rparr>
      in ((i, u'), repo_update i u' t'))"

definition reset_quota ::
  "int \<Rightarrow> int \<Rightarrow> int \<Rightarrow> string \<Rightarrow> quota_table \<Rightarrow> (int \<times> quota_usage) \<times> quota_table" where
  "reset_quota nid now e q t =
     (let ((i, u), t') = get_or_create_quota nid now e q t;
          u' = u\<lparr>q_used := 0, q_period_start := now\<rparr>
      in ((i, u'), repo_update i u' t'))"

text \<open>\<open>limit if limit is not None else (usage.limit or DEFAULT_AI_TOKENS_QUOTA)\<close>.\<close>

definition effective_limit :: "int option \<Rightarrow> quota_usage \<Rightarrow> int" where
  "effective_limit limit u =
     (case limit of
        Some l \<Rightarrow> l
      | None \<Rightarrow> (case q_limit u of
                   Some l \<Rightarrow> (if l \<noteq> 0 then l else DEFAULT_AI_TOKENS_QUOTA)
                 | None \<Rightarrow> DEFAULT_AI_TOKENS_QUOTA))"

definition quota_message :: "string \<Rightarrow> int \<Rightarrow> int \<Rightarrow> int \<Rightarrow> string" where
  "quota_message q e used lim =
     ''Quota '' @ [CHR 0x27] @ q @ [CHR 0x27] @ '' exceeded for entity '' @ show_int e @ '': ''
       @ show_int used @ ''/'' @ show_int lim @ '' units used.''"

definition enforce_quota ::
  "int \<Rightarrow> int \<Rightarrow> int \<Rightarrow> string \<Rightarrow> int \<Rightarrow> int option \<Rightarrow> quota_table
   \<Rightarrow> (security_error, int \<times> quota_usage) result \<times> quota_table" where
  "enforce_quota nid now e q amount limit t =
     (let ((i, u), t') = increment_quota nid now e q amount t;
          l = effective_limit limit u
      in if q_used u > l then (Err (QuotaExceededError (quota_message q e (q_used u) l)), t')
         else (Ok (i, u), t'))"

section \<open>The service\<close>

definition qs_get_usage where "qs_get_usage = get_or_create_quota"

definition qs_consume where "qs_consume = enforce_quota"

definition qs_increment where "qs_increment = increment_quota"

definition qs_reset where "qs_reset = reset_quota"

section \<open>Well-formed quota tables\<close>

text \<open>Nothing in the schema makes (entity, type) unique; the manager keeps it so.\<close>

definition quota_key :: "quota_usage \<Rightarrow> int \<times> string" where
  "quota_key u = (q_entity_id u, q_quota_type u)"

abbreviation quota_wf :: "quota_table \<Rightarrow> bool" where
  "quota_wf \<equiv> unique_by quota_key"

definition q_used_of :: "quota_table \<Rightarrow> int \<times> string \<Rightarrow> int" where
  "q_used_of t k = (case get_quota_usage t (fst k) (snd k) of None \<Rightarrow> 0 | Some iu \<Rightarrow> q_used (snd iu))"

definition limit_in_force :: "int option \<Rightarrow> quota_table \<Rightarrow> int \<times> string \<Rightarrow> int" where
  "limit_in_force limit t k =
     (case get_quota_usage t (fst k) (snd k) of
        None \<Rightarrow> (case limit of None \<Rightarrow> DEFAULT_AI_TOKENS_QUOTA | Some l \<Rightarrow> l)
      | Some iu \<Rightarrow> effective_limit limit (snd iu))"

lemma get_quota_usage_lookup: "get_quota_usage t e q = lookup_by quota_key t (e, q)"
proof -
  have "is_quota e q = (\<lambda>u. quota_key u = (e, q))"
    by (auto simp: is_quota_def quota_key_def)
  then show ?thesis by (simp add: get_quota_usage_def lookup_by_def)
qed

definition fresh_usage :: "int \<Rightarrow> int \<Rightarrow> string \<Rightarrow> quota_usage" where
  "fresh_usage now e q = \<lparr>q_entity_id = e, q_quota_type = q, q_used = 0,
     q_limit = Some DEFAULT_AI_TOKENS_QUOTA, q_period_start = now\<rparr>"

lemma quota_key_simps [simp]:
  "quota_key (fresh_usage now e q) = (e, q)"
  "quota_key (u\<lparr>q_used := n\<rparr>) = quota_key u"
  "quota_key (u\<lparr>q_period_start := n\<rparr>) = quota_key u"
  by (simp_all add: quota_key_def fresh_usage_def)

lemma get_or_create_spec:
  assumes "quota_wf t" and "nid \<notin> ids t" and "get_or_create_quota nid now e q t = ((i, u), t')"
  shows "quota_wf t'" and "repo_get t' i = Some u" and "quota_key u = (e, q)"
    and "lookup_by quota_key t' k = (if k = (e, q) then Some (i, u) else lookup_by quota_key t k)"
    and "lookup_by quota_key t (e, q) = Some (i, u) \<or>
         lookup_by quota_key t (e, q) = None \<and> i = nid \<and> u = fresh_usage now e q"
proof -
  have g: "(case lookup_by quota_key t (e, q) of Some iu \<Rightarrow> (iu, t)
      | None \<Rightarrow> ((nid, fresh_usage now e q), repo_create nid (fresh_usage now e q) t)) = ((i, u), t')"
    using assms(3)
    by (auto simp: get_or_create_quota_def get_quota_usage_lookup fresh_usage_def Let_def split: option.splits)
  show "quota_wf t'" and "repo_get t' i = Some u" and "quota_key u = (e, q)"
    and "lookup_by quota_key t' k = (if k = (e, q) then Some (i, u) else lookup_by quota_key t k)"
    and "lookup_by quota_key t (e, q) = Some (i, u) \<or>
         lookup_by quota_key t (e, q) = None \<and> i = nid \<and> u = fresh_usage now e q"
    using g assms(1,2)
    by (auto split: option.splits simp: unique_by_create lookup_by_create repo_get_create lookup_by_Some_iff)
qed

lemma increment_spec:
  assumes "quota_wf t" and "nid \<notin> ids t" and "increment_quota nid now e q amount t = ((i, u), t')"
  shows "quota_wf t'" and "repo_get t' i = Some u"
    and "lookup_by quota_key t' k = (if k = (e, q) then Some (i, u) else lookup_by quota_key t k)"
    and "q_used u = q_used_of t (e, q) + amount"
    and "effective_limit limit u = limit_in_force limit t (e, q)"
proof -
  obtain j v t1 where g: "get_or_create_quota nid now e q t = ((j, v), t1)" by (metis prod.exhaust)
  note s = get_or_create_spec [OF assms(1,2) g]
  have eq: "i = j" "u = v\<lparr>q_used := q_used v + amount\<rparr>" "t' = repo_update i u t1"
    using assms(3) by (auto simp: increment_quota_def g Let_def)
  have key: "quota_key u = quota_key v" by (simp add: eq)
  have uq: "l = i" if "repo_get t1 l = Some p" "quota_key p = quota_key u" for l p
    using s(1,2) that key eq(1) unfolding unique_by_iff by metis
  show "quota_wf t'" unfolding eq(3) by (rule unique_by_update [OF s(1) uq])
  show "repo_get t' i = Some u"
    using repo_get_SomeD [OF s(2)] by (simp add: eq(1,3) repo_get_update)
  show "lookup_by quota_key t' k = (if k = (e, q) then Some (i, u) else lookup_by quota_key t k)"
    using lookup_by_update_same [OF s(1) s(2) key, of k] s(3,4) key by (simp add: eq(1,3))
  show "q_used u = q_used_of t (e, q) + amount"
    using s(5) by (auto simp: eq(2) q_used_of_def get_quota_usage_lookup fresh_usage_def)
  show "effective_limit limit u = limit_in_force limit t (e, q)"
    using s(5) by (auto simp: eq(2) limit_in_force_def get_quota_usage_lookup fresh_usage_def
        effective_limit_def DEFAULT_AI_TOKENS_QUOTA_def split: option.split)
qed

lemma reset_spec:
  assumes "quota_wf t" and "nid \<notin> ids t" and "reset_quota nid now e q t = ((i, u), t')"
  shows "quota_wf t'" and "q_used u = 0" and "q_period_start u = now"
    and "lookup_by quota_key t' k = (if k = (e, q) then Some (i, u) else lookup_by quota_key t k)"
    and "effective_limit limit u = limit_in_force limit t (e, q)"
proof -
  obtain j v t1 where g: "get_or_create_quota nid now e q t = ((j, v), t1)" by (metis prod.exhaust)
  note s = get_or_create_spec [OF assms(1,2) g]
  have eq: "i = j" "u = v\<lparr>q_used := 0, q_period_start := now\<rparr>" "t' = repo_update i u t1"
    using assms(3) by (auto simp: reset_quota_def g Let_def)
  have key: "quota_key u = quota_key v" by (simp add: eq)
  have uq: "l = i" if "repo_get t1 l = Some p" "quota_key p = quota_key u" for l p
    using s(1,2) that key eq(1) unfolding unique_by_iff by metis
  show "quota_wf t'" unfolding eq(3) by (rule unique_by_update [OF s(1) uq])
  show "q_used u = 0" and "q_period_start u = now" by (simp_all add: eq(2))
  show "lookup_by quota_key t' k = (if k = (e, q) then Some (i, u) else lookup_by quota_key t k)"
    using lookup_by_update_same [OF s(1) s(2) key, of k] s(3,4) key by (simp add: eq(1,3))
  show "effective_limit limit u = limit_in_force limit t (e, q)"
    using s(5) by (auto simp: eq(2) limit_in_force_def get_quota_usage_lookup fresh_usage_def
        effective_limit_def DEFAULT_AI_TOKENS_QUOTA_def split: option.split)
qed

lemma used_after:
  "lookup_by quota_key t' k = (if k = k0 then Some (i, u) else lookup_by quota_key t k) \<Longrightarrow>
   q_used_of t' k = (if k = k0 then q_used u else q_used_of t k)"
  by (simp add: q_used_of_def get_quota_usage_lookup)

lemma limit_after:
  "lookup_by quota_key t' k = (if k = k0 then Some (i, u) else lookup_by quota_key t k) \<Longrightarrow>
   effective_limit limit u = limit_in_force limit t k0 \<Longrightarrow>
   limit_in_force limit t' k = limit_in_force limit t k"
  by (simp add: limit_in_force_def get_quota_usage_lookup split: option.split)

section \<open>The manager as a meter\<close>

text \<open>\<open>new_id\<close> stands for the database's choice of primary keys.\<close>

definition quota_enforce ::
  "(quota_table \<Rightarrow> int) \<Rightarrow> int \<Rightarrow> int option \<Rightarrow> int \<times> string \<Rightarrow> int \<Rightarrow> quota_table \<Rightarrow> bool \<times> quota_table" where
  "quota_enforce new_id now limit k a t =
     map_prod is_ok id (qs_consume (new_id t) now (fst k) (snd k) a limit t)"

lemma quota_enforce_spec:
  assumes "quota_wf t" and "new_id t \<notin> ids t"
  shows "q_used_of (snd (quota_enforce new_id now limit k a t)) k' =
           q_used_of t k' + (if k' = k then a else 0)"
    and "limit_in_force l (snd (quota_enforce new_id now limit k a t)) k' = limit_in_force l t k'"
    and "fst (quota_enforce new_id now limit k a t) \<longleftrightarrow>
           q_used_of t k + a \<le> limit_in_force limit t k"
    and "quota_wf (snd (quota_enforce new_id now limit k a t))"
proof -
  obtain i u t' where inc: "increment_quota (new_id t) now (fst k) (snd k) a t = ((i, u), t')"
    by (metis prod.exhaust)
  note s = increment_spec [OF assms inc]
  have e: "quota_enforce new_id now limit k a t = (q_used u \<le> effective_limit limit u, t')"
    by (auto simp: quota_enforce_def qs_consume_def enforce_quota_def inc Let_def)
  show "q_used_of (snd (quota_enforce new_id now limit k a t)) k' =
           q_used_of t k' + (if k' = k then a else 0)"
    using used_after [OF s(3) [of k']] s(4) by (simp add: e)
  show "limit_in_force l (snd (quota_enforce new_id now limit k a t)) k' = limit_in_force l t k'"
    using limit_after [OF s(3) [of k'] s(5) [of l]] by (simp add: e)
  show "fst (quota_enforce new_id now limit k a t) \<longleftrightarrow> q_used_of t k + a \<le> limit_in_force limit t k"
    using s(4,5) by (simp add: e)
  show "quota_wf (snd (quota_enforce new_id now limit k a t))"
    using s(1) by (simp add: e)
qed

lemma quota_usage_meter:
  assumes "\<And>t. new_id t \<notin> ids t"
  shows "usage_meter q_used_of (limit_in_force limit) (quota_enforce new_id now limit) quota_wf (\<lambda>a. 0 \<le> a)"
  using assms by unfold_locales (auto simp: quota_enforce_spec)

interpretation qm: usage_meter q_used_of "limit_in_force limit"
    "quota_enforce serial_id now limit" quota_wf "\<lambda>a. 0 \<le> a"
  for limit now
  by (rule quota_usage_meter [OF serial_id_fresh])

text \<open>
  Quotas are never overspent.  Over any sequence of consumptions of
  non-negative amounts, in any interleaving of entities and quota types, the
  units granted to a key never exceed what its limit in force leaves; but the
  counter advances by every attempt, the refused ones included, because the
  increment is committed before the limit is compared.
\<close>

theorem quota_never_overspent:
  assumes fresh: "\<And>t. new_id t \<notin> ids t"
    and wf: "quota_wf t" and amounts: "\<forall>r\<in>set rs. 0 \<le> snd r"
  shows "granted k rs (fst (serve (quota_enforce new_id now limit) rs t))
           \<le> max 0 (limit_in_force limit t k - q_used_of t k)
       \<and> q_used_of (snd (serve (quota_enforce new_id now limit) rs t)) k = q_used_of t k + charged k rs
       \<and> quota_wf (snd (serve (quota_enforce new_id now limit) rs t))"
  using usage_meter.granted_bound [OF quota_usage_meter [OF fresh] wf amounts]
    usage_meter.used_serve [OF quota_usage_meter [OF fresh] wf amounts]
    usage_meter.invar_serve [OF quota_usage_meter [OF fresh] wf amounts] by blast

theorem quota_never_overspent_witness:
  "granted (1::int, ''t'') [((1, ''t''), 7), ((1, ''t''), 5)]
       (fst (serve (quota_enforce serial_id 0 (Some 10)) [((1, ''t''), 7), ((1, ''t''), 5)] [])) \<le> 10
   \<and> q_used_of (snd (serve (quota_enforce serial_id 0 (Some 10)) [((1, ''t''), 7), ((1, ''t''), 5)] [])) (1, ''t'') = 12"
proof -
  let ?rs = "[((1, ''t''), 7), ((1, ''t''), 5)] :: ((int \<times> string) \<times> int) list"
  let ?out = "serve (quota_enforce serial_id 0 (Some 10)) ?rs []"
  have "quota_wf []" by (simp add: unique_by_def table_wf_def)
  from quota_never_overspent [OF serial_id_fresh this, of ?rs "(1, ''t'')" 0 "Some 10"]
  have "granted (1, ''t'') ?rs (fst ?out) \<le> max 0 (limit_in_force (Some 10) [] (1, ''t'') - q_used_of [] (1, ''t''))
      \<and> q_used_of (snd ?out) (1, ''t'') = q_used_of [] (1, ''t'') + charged (1, ''t'') ?rs"
    by simp
  moreover have "limit_in_force (Some 10) [] (1, ''t'') = 10" "q_used_of [] (1, ''t'') = 0"
      "charged (1, ''t'') ?rs = 12"
    by (simp_all add: limit_in_force_def q_used_of_def get_quota_usage_def repo_first_def)
  ultimately show ?thesis by (simp del: serve_Cons granted_Cons)
qed

text \<open>
  A reset starts a new period: the counter of the key is zero and its
  period starts now, its limit in force and every other counter are unchanged,
  and the next consumption succeeds exactly when its amount alone is within the
  limit.
\<close>

theorem reset_restores_budget:
  assumes "quota_wf t" and "nid \<notin> ids t" and "nid' \<notin> ids (snd (qs_reset nid now e q t))"
  shows "q_used_of (snd (qs_reset nid now e q t)) k = (if k = (e, q) then 0 else q_used_of t k)
       \<and> limit_in_force limit (snd (qs_reset nid now e q t)) k = limit_in_force limit t k
       \<and> (is_ok (fst (qs_consume nid' now' e q a limit (snd (qs_reset nid now e q t))))
            \<longleftrightarrow> a \<le> limit_in_force limit t (e, q))"
proof -
  obtain i u t' where r: "reset_quota nid now e q t = ((i, u), t')" by (metis prod.exhaust)
  note s = reset_spec [OF assms(1,2) r]
  have k: "q_used_of t' k = (if k = (e, q) then 0 else q_used_of t k)"
      "limit_in_force limit t' k = limit_in_force limit t k" for k
    using used_after [OF s(4) [of k]] s(2) limit_after [OF s(4) [of k] s(5) [of limit]] by simp_all
  have "nid' \<notin> ids t'" using assms(3) by (simp add: qs_reset_def r)
  then show ?thesis
    using quota_enforce_spec(3) [OF s(1), of "\<lambda>_. nid'" now' limit "(e, q)" a] k
    by (simp add: quota_enforce_def qs_reset_def r)
qed

theorem reset_restores_budget_witness:
  "is_ok (fst (qs_consume 3 0 7 ''t'' 10 (Some 10)
      (snd (qs_reset 2 0 7 ''t'' [(1, fresh_usage 0 7 ''t''\<lparr>q_used := 10\<rparr>)]))))
   \<longleftrightarrow> 10 \<le> limit_in_force (Some 10) [(1, fresh_usage 0 7 ''t''\<lparr>q_used := 10\<rparr>)] (7, ''t'')"
proof -
  let ?t = "[(1, fresh_usage 0 7 ''t''\<lparr>q_used := 10\<rparr>)]"
  have "quota_wf ?t" "2 \<notin> ids ?t" by (simp_all add: unique_by_def table_wf_def ids_def)
  moreover have "3 \<notin> ids (snd (qs_reset 2 0 7 ''t'' ?t))"
    by (simp add: qs_reset_def reset_quota_def get_or_create_quota_def get_quota_usage_def
        repo_first_def is_quota_def fresh_usage_def ids_def repo_update_def Let_def)
  ultimately show ?thesis using reset_restores_budget [of ?t 2 3 0 7 "''t''"] by simp
qed

text \<open>
  A stored limit of zero does not block consumption.  Enforcement reads the
  limit as \<open>usage.limit or DEFAULT\<close>, so a row whose limit is 0 is enforced
  against one million units, while the row itself reports that it is exceeded.
\<close>

theorem zero_limit_enforced_as_default:
  assumes "get_quota_usage t e q = Some (i, u)" and "q_limit u = Some 0"
    and "0 < q_used u + a" and "q_used u + a \<le> 1000000"
  shows "\<exists>u'. fst (qs_consume nid now e q a None t) = Ok (i, u')
           \<and> q_used u' = q_used u + a \<and> q_is_exceeded u' \<and> q_remaining u' = Some 0"
  using assms
  by (simp add: qs_consume_def enforce_quota_def increment_quota_def get_or_create_quota_def Let_def
      effective_limit_def DEFAULT_AI_TOKENS_QUOTA_def q_is_exceeded_def q_remaining_def)

theorem zero_limit_enforced_as_default_witness:
  "\<exists>u'. fst (qs_consume 2 0 7 ''t'' 5 None [(1, fresh_usage 0 7 ''t''\<lparr>q_limit := Some 0\<rparr>)]) = Ok (1, u')
      \<and> q_used u' = 5 \<and> q_is_exceeded u' \<and> q_remaining u' = Some 0"
  using zero_limit_enforced_as_default
    [of "[(1, fresh_usage 0 7 ''t''\<lparr>q_limit := Some 0\<rparr>)]" 7 "''t''" 1
        "fresh_usage 0 7 ''t''\<lparr>q_limit := Some 0\<rparr>" 5 2 0]
  by (simp add: get_quota_usage_def repo_first_def is_quota_def fresh_usage_def)

end
