(* ===== verification/Access_Control.thy ===== *)
theory Access_Control
  imports Tables
begin

text \<open>
  Role-based access control and the tenant directory: users, roles,
  permissions, organizations, teams, tools and the association tables between
  them (\<open>models/*.py\<close>), with the services that edit them
  (\<open>role_service\<close>, \<open>permission_service\<close>, \<open>user_role_service\<close>,
  \<open>role_permission_service\<close>, \<open>organization_service\<close>,
  \<open>organization_member_service\<close>, \<open>team_service\<close>, \<open>team_member_service\<close>,
  \<open>tool_service\<close>, \<open>agent_tool_service\<close>, \<open>user_service\<close>).

  The database is one record of tables.  What it enforces itself is written
  out: a violated unique column or foreign key refuses the statement
  (\<^const>\<open>IntegrityError\<close>) and leaves the tables as they were, and a delete
  takes the dependent rows with it as the relationships declare.
\<close>

section \<open>Rows and tables\<close>

record user_row =
  u_full_name :: string
  u_email :: string
  u_password_hash :: string
  u_is_active :: bool
  u_is_superuser :: bool

record named_row =
  n_name :: string
  n_description :: "string option"

record org_row =
  o_name :: string
  o_slug :: string
  o_description :: "string option"
  o_is_active :: bool

record team_row =
  t_organization_id :: int
  t_name :: string
  t_description :: "string option"

record tool_row =
  tl_name :: string
  tl_description :: string

record agent_row =
  a_organization_id :: int
  a_team_id :: "int option"
  a_name :: string

type_synonym pair_table = "(int \<times> int) table"

record acdb =
  users :: "user_row table"
  roles :: "named_row table"
  permissions :: "named_row table"
  user_roles :: pair_table
  role_permissions :: pair_table
  organizations :: "org_row table"
  organization_members :: pair_table
  teams :: "team_row table"
  team_members :: pair_table
  tools :: "tool_row table"
  agents :: "agent_row table"
  agent_tools :: pair_table

type_synonym 'x op = "acdb \<Rightarrow> (service_error, 'x) result \<times> acdb"

section \<open>Association rows\<close>

definition get_pair :: "pair_table \<Rightarrow> int \<Rightarrow> int \<Rightarrow> (int \<times> int \<times> int) option" where
  "get_pair t a b = lookup_by (\<lambda>p. p) t (a, b)"

definition drop_left :: "int \<Rightarrow> pair_table \<Rightarrow> pair_table" where
  "drop_left a t = filter (\<lambda>(_, x, _). x \<noteq> a) t"

definition drop_right :: "int \<Rightarrow> pair_table \<Rightarrow> pair_table" where
  "drop_right b t = filter (\<lambda>(_, _, y). y \<noteq> b) t"

definition assign_role :: "int \<Rightarrow> int \<Rightarrow> int \<Rightarrow> int op" where
  "assign_role nid user_id role_id db =
     (if repo_get (users db) user_id = None then (Err (ValueError ''User not found.''), db)
      else if repo_get (roles db) role_id = None then (Err (ValueError ''Role not found.''), db)
      else if get_pair (user_roles db) user_id role_id \<noteq> None
        then (Err (ValueError ''User already has this role.''), db)
      else (Ok nid, db\<lparr>user_roles := repo_create nid (user_id, role_id) (user_roles db)\<rparr>))"

definition remove_role :: "int \<Rightarrow> int \<Rightarrow> unit op" where
  "remove_role user_id role_id db =
     (case get_pair (user_roles db) user_id role_id of
        None \<Rightarrow> (Err (ValueError ''Role assignment not found.''), db)
      | Some (i, _) \<Rightarrow> (Ok (), db\<lparr>user_roles := repo_delete i (user_roles db)\<rparr>))"

definition assign_permission :: "int \<Rightarrow> int \<Rightarrow> int \<Rightarrow> int op" where
  "assign_permission nid role_id permission_id db =
     (if repo_get (roles db) role_id = None then (Err (ValueError ''Role not found.''), db)
      else if repo_get (permissions db) permission_id = None
        then (Err (ValueError ''Permission not found.''), db)
      else if get_pair (role_permissions db) role_id permission_id \<noteq> None
        then (Err (ValueError ''Permission already assigned.''), db)
      else (Ok nid, db\<lparr>role_permissions := repo_create nid (role_id, permission_id) (role_permissions db)\<rparr>))"

definition remove_permission :: "int \<Rightarrow> int \<Rightarrow> unit op" where
  "remove_permission role_id permission_id db =
     (case get_pair (role_permissions db) role_id permission_id of
        None \<Rightarrow> (Err (ValueError ''Permission assignment not found.''), db)
      | Some (i, _) \<Rightarrow> (Ok (), db\<lparr>role_permissions := repo_delete i (role_permissions db)\<rparr>))"

text \<open>
  The membership and tool services do not look the two ends up; the foreign
  keys of the table do.
\<close>

definition add_organization_member :: "int \<Rightarrow> int \<Rightarrow> int \<Rightarrow> int op" where
  "add_organization_member nid organization_id user_id db =
     (if get_pair (organization_members db) organization_id user_id \<noteq> None
        then (Err (ValueError ''User is already a member of this organization.''), db)
      else if organization_id \<notin> ids (organizations db) \<or> user_id \<notin> ids (users db)
        then (Err IntegrityError, db)
      else (Ok nid, db\<lparr>organization_members :=
              repo_create nid (organization_id, user_id) (organization_members db)\<rparr>))"

definition remove_organization_member :: "int \<Rightarrow> int \<Rightarrow> unit op" where
  "remove_organization_member organization_id user_id db =
     (case get_pair (organization_members db) organization_id user_id of
        None \<Rightarrow> (Err (ValueError ''Membership not found.''), db)
      | Some (i, _) \<Rightarrow> (Ok (), db\<lparr>organization_members := repo_delete i (organization_members db)\<rparr>))"

definition add_team_member :: "int \<Rightarrow> int \<Rightarrow> int \<Rightarrow> int op" where
  "add_team_member nid team_id user_id db =
     (if get_pair (team_members db) team_id user_id \<noteq> None
        then (Err (ValueError ''User is already a member of this team.''), db)
      else if team_id \<notin> ids (teams db) \<or> user_id \<notin> ids (users db) then (Err IntegrityError, db)
      else (Ok nid, db\<lparr>team_members := repo_create nid (team_id, user_id) (team_members db)\<rparr>))"

definition remove_team_member :: "int \<Rightarrow> int \<Rightarrow> unit op" where
  "remove_team_member team_id user_id db =
     (case get_pair (team_members db) team_id user_id of
        None \<Rightarrow> (Err (ValueError ''Member not found.''), db)
      | Some (i, _) \<Rightarrow> (Ok (), db\<lparr>team_members := repo_delete i (team_members db)\<rparr>))"

definition assign_tool :: "int \<Rightarrow> int \<Rightarrow> int \<Rightarrow> int op" where
  "assign_tool nid agent_id tool_id db =
     (if get_pair (agent_tools db) agent_id tool_id \<noteq> None
        then (Err (ValueError ''Tool is already assigned to this agent.''), db)
      else if agent_id \<notin> ids (agents db) \<or> tool_id \<notin> ids (tools db) then (Err IntegrityError, db)
      else (Ok nid, db\<lparr>agent_tools := repo_create nid (agent_id, tool_id) (agent_tools db)\<rparr>))"

definition remove_tool :: "int \<Rightarrow> int \<Rightarrow> unit op" where
  "remove_tool agent_id tool_id db =
     (case get_pair (agent_tools db) agent_id tool_id of
        None \<Rightarrow> (Err (ValueError ''Tool assignment not found.''), db)
      | Some (i, _) \<Rightarrow> (Ok (), db\<lparr>agent_tools := repo_delete i (agent_tools db)\<rparr>))"

definition list_agent_tools :: "int \<Rightarrow> acdb \<Rightarrow> (int \<times> int \<times> int) list" where
  "list_agent_tools agent_id db = repo_where (\<lambda>(a, _). a = agent_id) (agent_tools db)"

definition get_team_members :: "int \<Rightarrow> acdb \<Rightarrow> (int \<times> int \<times> int) list" where
  "get_team_members team_id db = repo_where (\<lambda>(t, _). t = team_id) (team_members db)"

definition get_user_organizations :: "int \<Rightarrow> acdb \<Rightarrow> (int \<times> int \<times> int) list" where
  "get_user_organizations user_id db = repo_where (\<lambda>(_, u). u = user_id) (organization_members db)"

definition get_organization_members :: "int \<Rightarrow> acdb \<Rightarrow> (int \<times> int \<times> int) list" where
  "get_organization_members organization_id db =
     repo_where (\<lambda>(g, _). g = organization_id) (organization_members db)"

section \<open>Roles and permissions\<close>

definition create_role :: "int \<Rightarrow> string \<Rightarrow> string option \<Rightarrow> int op" where
  "create_role nid name descr db =
     (if lookup_by n_name (roles db) name \<noteq> None then (Err (ValueError ''Role already exists.''), db)
      else (Ok nid, db\<lparr>roles := repo_create nid \<lparr>n_name = name, n_description = descr\<rparr> (roles db)\<rparr>))"

text \<open>The update of a row that would repeat a unique column is refused by the database.\<close>

definition put_named :: "int \<Rightarrow> named_row \<Rightarrow> named_row table \<Rightarrow> named_row table option" where
  "put_named i r t =
     (case lookup_by n_name t (n_name r) of
        None \<Rightarrow> Some (repo_update i r t)
      | Some (j, _) \<Rightarrow> if j = i then Some (repo_update i r t) else None)"

definition patch_named :: "string option \<Rightarrow> string option \<Rightarrow> named_row \<Rightarrow> named_row" where
  "patch_named name descr r =
     (let r1 = (case name of None \<Rightarrow> r | Some n \<Rightarrow> r\<lparr>n_name := n\<rparr>)
      in case descr of None \<Rightarrow> r1 | Some d \<Rightarrow> r1\<lparr>n_description := Some d\<rparr>)"

definition update_role :: "int \<Rightarrow> string option \<Rightarrow> string option \<Rightarrow> named_row op" where
  "update_role role_id name descr db =
     (case repo_get (roles db) role_id of
        None \<Rightarrow> (Err (ValueError ''Role not found.''), db)
      | Some r \<Rightarrow>
          (let r' = patch_named name descr r
           in case put_named role_id r' (roles db) of
                None \<Rightarrow> (Err IntegrityError, db)
              | Some t \<Rightarrow> (Ok r', db\<lparr>roles := t\<rparr>)))"

definition delete_role :: "int \<Rightarrow> unit op" where
  "delete_role role_id db =
     (case repo_get (roles db) role_id of
        None \<Rightarrow> (Err (ValueError ''Role not found.''), db)
      | Some _ \<Rightarrow>
          (Ok (), db\<lparr>roles := repo_delete role_id (roles db),
                     user_roles := drop_right role_id (user_roles db),
                     role_permissions := drop_left role_id (role_permissions db)\<rparr>))"

definition create_permission :: "int \<Rightarrow> string \<Rightarrow> string option \<Rightarrow> int op" where
  "create_permission nid name descr db =
     (if lookup_by n_name (permissions db) name \<noteq> None
        then (Err (ValueError ''Permission already exists.''), db)
      else (Ok nid, db\<lparr>permissions :=
              repo_create nid \<lparr>n_name = name, n_description = descr\<rparr> (permissions db)\<rparr>))"

definition update_permission :: "int \<Rightarrow> string option \<Rightarrow> string option \<Rightarrow> named_row op" where
  "update_permission permission_id name descr db =
     (case repo_get (permissions db) permission_id of
        None \<Rightarrow> (Err (ValueError ''Permission not found.''), db)
      | Some r \<Rightarrow>
          (let r' = patch_named name descr r
           in case put_named permission_id r' (permissions db) of
                None \<Rightarrow> (Err IntegrityError, db)
              | Some t \<Rightarrow> (Ok r', db\<lparr>permissions := t\<rparr>)))"

definition delete_permission :: "int \<Rightarrow> unit op" where
  "delete_permission permission_id db =
     (case repo_get (permissions db) permission_id of
        None \<Rightarrow> (Err (ValueError ''Permission not found.''), db)
      | Some _ \<Rightarrow>
          (Ok (), db\<lparr>permissions := repo_delete permission_id (permissions db),
                     role_permissions := drop_right permission_id (role_permissions db)\<rparr>))"

section \<open>Users, organizations, teams, tools\<close>

definition get_by_email :: "string \<Rightarrow> acdb \<Rightarrow> (int \<times> user_row) option" where
  "get_by_email email db = lookup_by u_email (users db) email"

definition get_active_users :: "acdb \<Rightarrow> (int \<times> user_row) list" where
  "get_active_users db = repo_where u_is_active (users db)"

definition create_user :: "int \<Rightarrow> user_row \<Rightarrow> int op" where
  "create_user nid u db =
     (if get_by_email (u_email u) db \<noteq> None then (Err IntegrityError, db)
      else (Ok nid, db\<lparr>users := repo_create nid u (users db)\<rparr>))"

text \<open>
  The tables of this model lose their rows with the user; the knowledge bases, documents, goals, memories and sessions a
  user has created keep the user from being deleted.  \<open>referenced\<close> says whether there is such a row.
\<close>

definition delete_user :: "(int \<Rightarrow> bool) \<Rightarrow> int \<Rightarrow> unit op" where
  "delete_user referenced user_id db =
     (if referenced user_id then (Err IntegrityError, db)
      else (Ok (), db\<lparr>users := repo_delete user_id (users db),
        user_roles := drop_left user_id (user_roles db),
        organization_members := drop_right user_id (organization_members db),
        team_members := drop_right user_id (team_members db)\<rparr>))"

definition create_organization :: "int \<Rightarrow> string \<Rightarrow> string \<Rightarrow> string option \<Rightarrow> int op" where
  "create_organization nid name slug descr db =
     (if lookup_by o_name (organizations db) name \<noteq> None
        then (Err (ValueError ''Organization name already exists.''), db)
      else if lookup_by o_slug (organizations db) slug \<noteq> None
        then (Err (ValueError ''Organization slug already exists.''), db)
      else (Ok nid, db\<lparr>organizations :=
              repo_create nid \<lparr>o_name = name, o_slug = slug, o_description = descr, o_is_active = True\<rparr>
                (organizations db)\<rparr>))"

definition create_team :: "int \<Rightarrow> int \<Rightarrow> string \<Rightarrow> string option \<Rightarrow> int op" where
  "create_team nid organization_id name descr db =
     (if repo_first (\<lambda>t. t_organization_id t = organization_id \<and> t_name t = name) (teams db) \<noteq> None
        then (Err (ValueError ''A team with this name already exists.''), db)
      else if organization_id \<notin> ids (organizations db) then (Err IntegrityError, db)
      else (Ok nid, db\<lparr>teams :=
              repo_create nid \<lparr>t_organization_id = organization_id, t_name = name, t_description = descr\<rparr>
                (teams db)\<rparr>))"

definition list_teams :: "int \<Rightarrow> acdb \<Rightarrow> (int \<times> team_row) list" where
  "list_teams organization_id db = repo_where (\<lambda>t. t_organization_id t = organization_id) (teams db)"

text \<open>Deleting a team removes its members and detaches its agents (\<open>SET NULL\<close>).\<close>

definition detach_team :: "int \<Rightarrow> agent_row table \<Rightarrow> agent_row table" where
  "detach_team team_id = map (\<lambda>(i, a). (i, if a_team_id a = Some team_id then a\<lparr>a_team_id := None\<rparr> else a))"

definition delete_team :: "int \<Rightarrow> acdb \<Rightarrow> acdb" where
  "delete_team team_id db =
     db\<lparr>teams := repo_delete team_id (teams db),
        team_members := drop_left team_id (team_members db),
        agents := detach_team team_id (agents db)\<rparr>"

definition create_tool :: "int \<Rightarrow> string \<Rightarrow> string \<Rightarrow> int op" where
  "create_tool nid name descr db =
     (if lookup_by tl_name (tools db) name \<noteq> None
        then (Err (ValueError ''A tool with this name already exists.''), db)
      else (Ok nid, db\<lparr>tools := repo_create nid \<lparr>tl_name = name, tl_description = descr\<rparr> (tools db)\<rparr>))"

definition delete_tool :: "int \<Rightarrow> acdb \<Rightarrow> acdb" where
  "delete_tool tool_id db =
     db\<lparr>tools := repo_delete tool_id (tools db), agent_tools := drop_right tool_id (agent_tools db)\<rparr>"

text \<open>Deleting an organization takes its members, its teams with their members,
  and its agents with their tools.\<close>

definition delete_organization :: "int \<Rightarrow> acdb \<Rightarrow> acdb" where
  "delete_organization organization_id db =
     (let gone_teams = map fst (list_teams organization_id db);
          gone_agents = map fst (repo_where (\<lambda>a. a_organization_id a = organization_id) (agents db))
      in db\<lparr>organizations := repo_delete organization_id (organizations db),
            organization_members := drop_left organization_id (organization_members db),
            teams := filter (\<lambda>(i, _). i \<notin> set gone_teams) (teams db),
            team_members := fold drop_left gone_teams (team_members db),
            agents := fold detach_team gone_teams (filter (\<lambda>(i, _). i \<notin> set gone_agents) (agents db)),
            agent_tools := fold drop_left gone_agents (agent_tools db)\<rparr>)"

section \<open>Partial updates\<close>

text \<open>
  An update writes the fields the request names (\<open>exclude_unset\<close>); a field may be
  named with the value null.  The database refuses null in a column that has to have a
  value, and a second row with the same unique column.
\<close>

datatype 'a field = Unset | Given 'a

fun patch :: "'a field \<Rightarrow> 'a \<Rightarrow> 'a" where
  "patch Unset old = old"
| "patch (Given v) old = v"

fun patch_required :: "'a option field \<Rightarrow> 'a \<Rightarrow> 'a option" where
  "patch_required Unset old = Some old"
| "patch_required (Given v) old = v"

definition taken :: "('r \<Rightarrow> 'k) \<Rightarrow> 'r table \<Rightarrow> int \<Rightarrow> 'r \<Rightarrow> bool" where
  "taken key t i r = list_ex (\<lambda>(j, q). j \<noteq> i \<and> key q = key r) t"

definition update_user :: "int \<Rightarrow> user_row \<Rightarrow> user_row op" where
  "update_user i u db =
     (if taken u_email (users db) i u then (Err IntegrityError, db) else (Ok u, db\<lparr>users := repo_update i u (users db)\<rparr>))"

record org_update =
  ou_name :: "string option field"
  ou_slug :: "string option field"
  ou_description :: "string option field"
  ou_is_active :: "bool option field"

definition update_organization :: "int \<Rightarrow> org_row \<Rightarrow> org_update \<Rightarrow> org_row op" where
  "update_organization i r upd db =
     (case (patch_required (ou_name upd) (o_name r), patch_required (ou_slug upd) (o_slug r),
            patch_required (ou_is_active upd) (o_is_active r)) of
        (Some name, Some slug, Some active) \<Rightarrow>
          (let r' = \<lparr>o_name = name, o_slug = slug, o_description = patch (ou_description upd) (o_description r), o_is_active = active\<rparr>
           in if taken o_name (organizations db) i r' \<or> taken o_slug (organizations db) i r' then (Err IntegrityError, db)
              else (Ok r', db\<lparr>organizations := repo_update i r' (organizations db)\<rparr>))
      | _ \<Rightarrow> (Err IntegrityError, db))"

definition update_team :: "int \<Rightarrow> team_row \<Rightarrow> string option field \<Rightarrow> string option field \<Rightarrow> team_row op" where
  "update_team i r name descr db =
     (case patch_required name (t_name r) of
        None \<Rightarrow> (Err IntegrityError, db)
      | Some n \<Rightarrow>
          (let r' = r\<lparr>t_name := n, t_description := patch descr (t_description r)\<rparr>
           in (Ok r', db\<lparr>teams := repo_update i r' (teams db)\<rparr>)))"

definition update_tool :: "int \<Rightarrow> tool_row \<Rightarrow> string option field \<Rightarrow> string option field \<Rightarrow> tool_row op" where
  "update_tool i r name descr db =
     (case (patch_required name (tl_name r), patch_required descr (tl_description r)) of
        (Some n, Some d) \<Rightarrow>
          (let r' = \<lparr>tl_name = n, tl_description = d\<rparr>
           in if taken tl_name (tools db) i r' then (Err IntegrityError, db)
              else (Ok r', db\<lparr>tools := repo_update i r' (tools db)\<rparr>))
      | _ \<Rightarrow> (Err IntegrityError, db))"

section \<open>Associations\<close>

text \<open>
  The contract of the five assignment services: a pair is present or absent,
  assigning an absent pair whose ends exist adds it and nothing else, removing a
  present pair drops it and nothing else, and every refusal leaves the database
  as it was.
\<close>

datatype assoc_op = Assign int int int | Remove int int

fun assoc_spec :: "(int \<times> int \<Rightarrow> bool) \<Rightarrow> assoc_op list \<Rightarrow> (int \<times> int) set \<Rightarrow> (int \<times> int) set" where
  "assoc_spec can [] S = S"
| "assoc_spec can (Assign n a b # ops) S = assoc_spec can ops (if can (a, b) then insert (a, b) S else S)"
| "assoc_spec can (Remove a b # ops) S = assoc_spec can ops (S - {(a, b)})"

fun assoc_run :: "(int \<Rightarrow> int \<Rightarrow> int \<Rightarrow> 's \<Rightarrow> 'x \<times> 's) \<Rightarrow> (int \<Rightarrow> int \<Rightarrow> 's \<Rightarrow> 'y \<times> 's)
    \<Rightarrow> assoc_op list \<Rightarrow> 's \<Rightarrow> 's" where
  "assoc_run assign remove [] s = s"
| "assoc_run assign remove (Assign n a b # ops) s = assoc_run assign remove ops (snd (assign n a b s))"
| "assoc_run assign remove (Remove a b # ops) s = assoc_run assign remove ops (snd (remove a b s))"

fun keys_ok :: "int set \<Rightarrow> assoc_op list \<Rightarrow> bool" where
  "keys_ok K [] = True"
| "keys_ok K (Assign n a b # ops) = (n \<notin> K \<and> keys_ok (insert n K) ops)"
| "keys_ok K (Remove a b # ops) = keys_ok K ops"

locale association =
  fixes pairs :: "'s \<Rightarrow> pair_table"
    and can :: "'s \<Rightarrow> int \<times> int \<Rightarrow> bool"
    and assign :: "int \<Rightarrow> int \<Rightarrow> int \<Rightarrow> 's \<Rightarrow> (service_error, int) result \<times> 's"
    and remove :: "int \<Rightarrow> int \<Rightarrow> 's \<Rightarrow> (service_error, unit) result \<times> 's"
  assumes assign_ok: "is_ok (fst (assign n a b s)) \<longleftrightarrow> can s (a, b) \<and> (a, b) \<notin> rows (pairs s)"
    and assign_adds: "is_ok (fst (assign n a b s)) \<Longrightarrow>
          pairs (snd (assign n a b s)) = repo_create n (a, b) (pairs s)"
    and assign_rolls_back: "rolls_back s (assign n a b s)"
    and assign_can: "can (snd (assign n a b s)) = can s"
    and remove_ok: "is_ok (fst (remove a b s)) \<longleftrightarrow> (a, b) \<in> rows (pairs s)"
    and remove_drops: "is_ok (fst (remove a b s)) \<Longrightarrow>
          \<exists>i. lookup_by (\<lambda>p. p) (pairs s) (a, b) = Some (i, (a, b)) \<and> pairs (snd (remove a b s)) = repo_delete i (pairs s)"
    and remove_rolls_back: "rolls_back s (remove a b s)"
    and remove_can: "can (snd (remove a b s)) = can s"
begin

lemmas assign_refused = rolls_backD [OF assign_rolls_back]
lemmas remove_refused = rolls_backD [OF remove_rolls_back]

lemma assign_rows:
  "rows (pairs (snd (assign n a b s))) =
     (if can s (a, b) then insert (a, b) (rows (pairs s)) else rows (pairs s))"
proof (cases "is_ok (fst (assign n a b s))")
  case True
  then show ?thesis using assign_ok [of n a b s] by (simp add: assign_adds)
next
  case False
  then show ?thesis using assign_ok [of n a b s] by (auto simp: assign_refused)
qed

lemma assign_ids:
  "ids (pairs (snd (assign n a b s))) \<subseteq> insert n (ids (pairs s))"
  by (cases "is_ok (fst (assign n a b s))") (auto simp: assign_adds assign_refused)

lemma assign_unique:
  assumes "unique_by (\<lambda>p. p) (pairs s)" and "n \<notin> ids (pairs s)"
  shows "unique_by (\<lambda>p. p) (pairs (snd (assign n a b s)))"
proof (cases "is_ok (fst (assign n a b s))")
  case True
  then have "lookup_by (\<lambda>p. p) (pairs s) (a, b) = None"
    using assign_ok [of n a b s] by (auto simp: lookup_by_def repo_first_None_iff)
  with True assms show ?thesis by (simp add: assign_adds unique_by_create)
qed (use assms in \<open>simp add: assign_refused\<close>)

lemma remove_rows:
  assumes "unique_by (\<lambda>p. p) (pairs s)"
  shows "rows (pairs (snd (remove a b s))) = rows (pairs s) - {(a, b)}"
proof (cases "is_ok (fst (remove a b s))")
  case True
  then obtain i where i: "repo_get (pairs s) i = Some (a, b)"
      "pairs (snd (remove a b s)) = repo_delete i (pairs s)"
    using remove_drops lookup_by_Some_iff [OF assms] by blast
  have "table_wf (pairs s)" and "table_wf (repo_delete i (pairs s))"
    using unique_by_wf [OF assms] by auto
  then have "p \<in> rows (repo_delete i (pairs s)) \<longleftrightarrow> p \<in> rows (pairs s) \<and> p \<noteq> (a, b)" for p
    using assms i(1) unfolding unique_by_iff by (simp add: rows_iff repo_get_delete) (metis option.inject)
  with i(2) show ?thesis by auto
next
  case False
  then show ?thesis using remove_ok [of a b s] by (auto simp: remove_refused)
qed

lemma remove_unique: "unique_by (\<lambda>p. p) (pairs s) \<Longrightarrow> unique_by (\<lambda>p. p) (pairs (snd (remove a b s)))"
  using remove_drops [of a b s] remove_refused [of a b s] unique_by_delete by metis

lemma remove_ids: "ids (pairs (snd (remove a b s))) \<subseteq> ids (pairs s)"
  using remove_drops [of a b s] remove_refused [of a b s] ids_delete
  by (metis Diff_subset order_refl)

lemma assign_twice: "can s (a, b) \<Longrightarrow> \<not> is_ok (fst (assign m a b (snd (assign n a b s))))"
  by (simp add: assign_ok assign_rows)

lemma assign_remove:
  assumes "unique_by (\<lambda>p. p) (pairs s)" and "n \<notin> ids (pairs s)" and "is_ok (fst (assign n a b s))"
  shows "is_ok (fst (remove a b (snd (assign n a b s))))"
    and "rows (pairs (snd (remove a b (snd (assign n a b s))))) = rows (pairs s)"
  using assms assign_ok [of n a b s]
  by (auto simp: remove_ok assign_rows remove_rows assign_unique)

lemma run_refines_set:
  "unique_by (\<lambda>p. p) (pairs s) \<Longrightarrow> ids (pairs s) \<subseteq> K \<Longrightarrow> keys_ok K ops \<Longrightarrow>
   rows (pairs (assoc_run assign remove ops s)) = assoc_spec (can s) ops (rows (pairs s))"
proof (induction ops arbitrary: s K)
  case (Cons p ops)
  show ?case
  proof (cases p)
    case (Assign n a b)
    have "unique_by (\<lambda>p. p) (pairs (snd (assign n a b s)))"
      by (rule assign_unique [OF Cons.prems(1)]) (use Cons.prems Assign in auto)
    moreover have "ids (pairs (snd (assign n a b s))) \<subseteq> insert n K"
      using assign_ids Cons.prems(2) by blast
    ultimately show ?thesis
      using Cons.IH [of "snd (assign n a b s)" "insert n K"] Cons.prems(3) Assign
      by (simp add: assign_rows assign_can)
  next
    case (Remove a b)
    have "ids (pairs (snd (remove a b s))) \<subseteq> K" using remove_ids Cons.prems(2) by blast
    then show ?thesis
      using Cons.IH [of "snd (remove a b s)" K] Cons.prems Remove
      by (simp add: remove_rows remove_unique remove_can)
  qed
qed simp

end

lemma get_pair_None_iff: "get_pair t a b = None \<longleftrightarrow> (a, b) \<notin> rows t"
  by (auto simp: get_pair_def lookup_by_def repo_first_None_iff)

lemma get_pair_SomeD: "get_pair t a b = Some (i, p) \<Longrightarrow> p = (a, b) \<and> (a, b) \<in> rows t"
  using repo_first_SomeD [of "\<lambda>r. r = (a, b)" t i p]
  by (force simp: get_pair_def lookup_by_def rows_def)

definition ends_exist :: "'a table \<Rightarrow> 'b table \<Rightarrow> int \<times> int \<Rightarrow> bool" where
  "ends_exist A B p = (fst p \<in> ids A \<and> snd p \<in> ids B)"

lemmas assoc_simps =
  get_pair_None_iff repo_get_None_iff ends_exist_def is_ok.simps

lemmas assign_defs =
  assign_role_def assign_permission_def add_organization_member_def add_team_member_def assign_tool_def

lemmas remove_defs =
  remove_role_def remove_permission_def remove_organization_member_def remove_team_member_def remove_tool_def

interpretation ur: association user_roles "\<lambda>db. ends_exist (users db) (roles db)"
    assign_role remove_role
proof (unfold_locales, goal_cases)
  case 3 show ?case unfolding assign_defs by (intro rolls_back_intros)
next
  case 7 show ?case unfolding remove_defs by (intro rolls_back_intros)
qed (auto simp: assign_defs remove_defs assoc_simps get_pair_def [symmetric]
    split: option.splits if_splits dest: get_pair_SomeD)

interpretation rp: association role_permissions "\<lambda>db. ends_exist (roles db) (permissions db)"
    assign_permission remove_permission
proof (unfold_locales, goal_cases)
  case 3 show ?case unfolding assign_defs by (intro rolls_back_intros)
next
  case 7 show ?case unfolding remove_defs by (intro rolls_back_intros)
qed (auto simp: assign_defs remove_defs assoc_simps get_pair_def [symmetric]
    split: option.splits if_splits dest: get_pair_SomeD)

interpretation om: association organization_members "\<lambda>db. ends_exist (organizations db) (users db)"
    add_organization_member remove_organization_member
proof (unfold_locales, goal_cases)
  case 3 show ?case unfolding assign_defs by (intro rolls_back_intros)
next
  case 7 show ?case unfolding remove_defs by (intro rolls_back_intros)
qed (auto simp: assign_defs remove_defs assoc_simps get_pair_def [symmetric]
    split: option.splits if_splits dest: get_pair_SomeD)

interpretation tm: association team_members "\<lambda>db. ends_exist (teams db) (users db)"
    add_team_member remove_team_member
proof (unfold_locales, goal_cases)
  case 3 show ?case unfolding assign_defs by (intro rolls_back_intros)
next
  case 7 show ?case unfolding remove_defs by (intro rolls_back_intros)
qed (auto simp: assign_defs remove_defs assoc_simps get_pair_def [symmetric]
    split: option.splits if_splits dest: get_pair_SomeD)

interpretation ag: association agent_tools "\<lambda>db. ends_exist (agents db) (tools db)"
    assign_tool remove_tool
proof (unfold_locales, goal_cases)
  case 3 show ?case unfolding assign_defs by (intro rolls_back_intros)
next
  case 7 show ?case unfolding remove_defs by (intro rolls_back_intros)
qed (auto simp: assign_defs remove_defs assoc_simps get_pair_def [symmetric]
    split: option.splits if_splits dest: get_pair_SomeD)

end
