(* ===== verification/Access_Invariant.thy ===== *)
theory Access_Invariant
  imports Access_Control
begin

text \<open>
  The integrity invariant of the access-control database and its preservation
  by every operation of the services: primary keys and unique columns stay
  unique, and every foreign key refers to a row that exists.  Reachable
  databases are those an operation sequence produces from an empty one, the
  database choosing a fresh primary key for every inserted row.
\<close>

definition refs :: "pair_table \<Rightarrow> 'a table \<Rightarrow> 'b table \<Rightarrow> bool" where
  "refs t A B = list_all (\<lambda>ip. ends_exist A B (snd ip)) t"

definition agent_refs :: "agent_row table \<Rightarrow> org_row table \<Rightarrow> team_row table \<Rightarrow> bool" where
  "agent_refs ags gs ts = list_all (\<lambda>(_, a). a_organization_id a \<in> ids gs
      \<and> (case a_team_id a of None \<Rightarrow> True | Some t \<Rightarrow> t \<in> ids ts)) ags"

definition unique_ok :: "acdb \<Rightarrow> bool" where
  "unique_ok db =
     (unique_by u_email (users db) \<and> unique_by n_name (roles db) \<and> unique_by n_name (permissions db)
    \<and> unique_by o_name (organizations db) \<and> unique_by o_slug (organizations db)
    \<and> table_wf (teams db) \<and> unique_by tl_name (tools db) \<and> table_wf (agents db)
    \<and> unique_by (\<lambda>p. p) (user_roles db) \<and> unique_by (\<lambda>p. p) (role_permissions db)
    \<and> unique_by (\<lambda>p. p) (organization_members db) \<and> unique_by (\<lambda>p. p) (team_members db)
    \<and> unique_by (\<lambda>p. p) (agent_tools db))"

definition refs_ok :: "acdb \<Rightarrow> bool" where
  "refs_ok db =
     (refs (user_roles db) (users db) (roles db)
    \<and> refs (role_permissions db) (roles db) (permissions db)
    \<and> refs (organization_members db) (organizations db) (users db)
    \<and> refs (team_members db) (teams db) (users db)
    \<and> refs (agent_tools db) (agents db) (tools db)
    \<and> list_all (\<lambda>(_, t). t_organization_id t \<in> ids (organizations db)) (teams db)
    \<and> agent_refs (agents db) (organizations db) (teams db))"

definition acdb_wf :: "acdb \<Rightarrow> bool" where
  "acdb_wf db = (unique_ok db \<and> refs_ok db)"

section \<open>Tables under filtering\<close>

lemma unique_by_filter: "unique_by key t \<Longrightarrow> unique_by key (filter P t)"
  by (auto simp: unique_by_def table_wf_def distinct_map inj_on_def)

lemma table_wf_filter: "table_wf t \<Longrightarrow> table_wf (filter P t)"
  by (auto simp: table_wf_def distinct_map inj_on_def)

lemma unique_by_drop [intro]:
  "unique_by key t \<Longrightarrow> unique_by key (drop_left a t)"
  "unique_by key t \<Longrightarrow> unique_by key (drop_right a t)"
  by (simp_all add: drop_left_def drop_right_def unique_by_filter)

lemma unique_by_fold_drop [intro]: "unique_by key t \<Longrightarrow> unique_by key (fold drop_left as t)"
  by (induction as arbitrary: t) auto

lemma set_drop: "set (drop_left a t) = {(i, x, y) \<in> set t. x \<noteq> a}"
    "set (drop_right a t) = {(i, x, y) \<in> set t. y \<noteq> a}"
  by (auto simp: drop_left_def drop_right_def)

lemma set_fold_drop: "set (fold drop_left as t) = {(i, x, y) \<in> set t. x \<notin> set as}"
  by (induction as arbitrary: t) (auto simp: set_drop)

lemma set_repo_delete: "set (repo_delete i t) = {(j, r) \<in> set t. j \<noteq> i}"
  by (auto simp: repo_delete_def)

lemma set_repo_create: "set (repo_create n r t) = insert (n, r) (set t)"
  by (auto simp: repo_create_def)

lemma refs_iff: "refs t A B \<longleftrightarrow> (\<forall>(i, x, y)\<in>set t. x \<in> ids A \<and> y \<in> ids B)"
  by (auto simp: refs_def list_all_iff ends_exist_def)

lemma refs_mono: "refs t A B \<Longrightarrow> ids A \<subseteq> ids A' \<Longrightarrow> ids B \<subseteq> ids B' \<Longrightarrow> refs t A' B'"
  by (fastforce simp: refs_iff)

lemma refs_subset: "refs t A B \<Longrightarrow> set t' \<subseteq> set t \<Longrightarrow> refs t' A B"
  by (fastforce simp: refs_iff)

lemma refs_create: "refs t A B \<Longrightarrow> ends_exist A B p \<Longrightarrow> refs (repo_create n p t) A B"
  by (cases p) (auto simp: refs_iff set_repo_create ends_exist_def)

lemma ids_detach [simp]: "ids (detach_team t ags) = ids ags"
  by (force simp: ids_def detach_team_def)

lemma refs_grow:
  "refs t A B \<Longrightarrow> refs t (repo_create n r A) B"
  "refs t A B \<Longrightarrow> refs t A (repo_create m q B)"
  by (auto simp: refs_iff)

lemma refs_shrink_detach: "refs t A B \<Longrightarrow> refs t (detach_team i A) B"
  by (simp add: refs_iff)

lemma refs_cong: "ids A' = ids A \<Longrightarrow> ids B' = ids B \<Longrightarrow> refs t A' B' = refs t A B"
  by (simp add: refs_iff)

lemma refs_delete_ends:
  "refs t A B \<Longrightarrow> refs (drop_left a t) (repo_delete a A) B"
  "refs t A B \<Longrightarrow> refs (drop_right b t) A (repo_delete b B)"
  by (auto simp: refs_iff set_drop)

lemma refs_delete_row: "refs t A B \<Longrightarrow> refs (repo_delete i t) A B"
  by (rule refs_subset) (auto simp: set_repo_delete)

lemma table_wf_detach [simp]: "table_wf (detach_team t ags) = table_wf ags"
  by (simp add: table_wf_def detach_team_def comp_def split_beta)

lemma ids_fold_detach [simp]: "ids (fold detach_team ts ags) = ids ags"
  by (induction ts arbitrary: ags) auto

lemma table_wf_fold_detach [simp]: "table_wf (fold detach_team ts ags) = table_wf ags"
  by (induction ts arbitrary: ags) auto

lemma agent_refs_iff:
  "agent_refs ags gs ts \<longleftrightarrow>
   (\<forall>(i, a)\<in>set ags. a_organization_id a \<in> ids gs \<and> (\<forall>t. a_team_id a = Some t \<longrightarrow> t \<in> ids ts))"
  by (auto simp: agent_refs_def list_all_iff split: option.splits)

lemma agent_refs_mono:
  "agent_refs ags gs ts \<Longrightarrow> ids gs \<subseteq> ids gs' \<Longrightarrow> ids ts \<subseteq> ids ts' \<Longrightarrow> agent_refs ags gs' ts'"
  by (fastforce simp: agent_refs_iff)

lemma set_detach:
  "(i, a') \<in> set (detach_team t ags) \<longleftrightarrow>
   (\<exists>a. (i, a) \<in> set ags \<and> a' = (if a_team_id a = Some t then a\<lparr>a_team_id := None\<rparr> else a))"
  unfolding detach_team_def by (rule map_snd_mem)

lemma agent_refs_grow:
  "agent_refs ags gs ts \<Longrightarrow> agent_refs ags (repo_create n g gs) ts"
  "agent_refs ags gs ts \<Longrightarrow> agent_refs ags gs (repo_create m t ts)"
  by (rule agent_refs_mono; auto)+

lemma agent_refs_detach:
  assumes "agent_refs ags gs ts"
  shows "agent_refs (detach_team t ags) gs (repo_delete t ts)"
  unfolding agent_refs_iff
proof safe
  fix i a'
  assume "(i, a') \<in> set (detach_team t ags)"
  then obtain a where a: "(i, a) \<in> set ags" "a' = (if a_team_id a = Some t then a\<lparr>a_team_id := None\<rparr> else a)"
    by (auto simp: set_detach)
  with assms have r: "a_organization_id a \<in> ids gs" "\<And>u. a_team_id a = Some u \<Longrightarrow> u \<in> ids ts"
    by (auto simp: agent_refs_iff)
  show "a_organization_id a' \<in> ids gs" using r(1) a(2) by simp
  show "u \<in> ids (repo_delete t ts)" if "a_team_id a' = Some u" for u
    using that a(2) r(2) by (auto split: if_splits)
qed

lemma fold_detach_mem:
  "(i, a') \<in> set (fold detach_team ts ags) \<Longrightarrow>
   \<exists>a. (i, a) \<in> set ags \<and> a_organization_id a' = a_organization_id a \<and>
     (\<forall>t. a_team_id a' = Some t \<longrightarrow> a_team_id a = Some t \<and> t \<notin> set ts)"
proof (induction ts arbitrary: ags)
  case (Cons t ts)
  then obtain a where a: "(i, a) \<in> set (detach_team t ags)" "a_organization_id a' = a_organization_id a"
      "\<forall>u. a_team_id a' = Some u \<longrightarrow> a_team_id a = Some u \<and> u \<notin> set ts"
    by auto
  from a(1) obtain b where "(i, b) \<in> set ags" "a = (if a_team_id b = Some t then b\<lparr>a_team_id := None\<rparr> else b)"
    by (auto simp: set_detach)
  with a(2,3) show ?case by (intro exI [of _ b]) (auto split: if_splits)
qed auto

section \<open>Preservation\<close>

lemmas wf_defs = acdb_wf_def unique_ok_def refs_ok_def

lemmas wf_intros = unique_by_create unique_by_delete refs_grow refs_delete_ends agent_refs_grow

lemma acdb_wf_create_role:
  "acdb_wf db \<Longrightarrow> n \<notin> ids (roles db) \<Longrightarrow> acdb_wf (snd (create_role n nm d db))"
  by (auto simp: wf_defs create_role_def intro!: wf_intros)

lemma acdb_wf_create_permission:
  "acdb_wf db \<Longrightarrow> n \<notin> ids (permissions db) \<Longrightarrow> acdb_wf (snd (create_permission n nm d db))"
  by (auto simp: wf_defs create_permission_def intro!: wf_intros)

lemma put_named_unique: "unique_by n_name t \<Longrightarrow> put_named i r t = Some t' \<Longrightarrow> unique_by n_name t' \<and> ids t' = ids t"
proof -
  assume u: "unique_by n_name t" and p: "put_named i r t = Some t'"
  have t': "t' = repo_update i r t"
    using p by (auto simp: put_named_def split: option.splits if_splits)
  have "j = i" if "repo_get t j = Some q" "n_name q = n_name r" for j q
    using p lookup_by_Some_iff [OF u, of "n_name r" j q] that
    by (auto simp: put_named_def split: option.splits if_splits)
  then show ?thesis using u t' by (simp add: unique_by_update)
qed

lemma acdb_wf_update_role: "acdb_wf db \<Longrightarrow> acdb_wf (snd (update_role i nm d db))"
proof -
  assume wf: "acdb_wf db"
  have "acdb_wf (db\<lparr>roles := t\<rparr>)" if "put_named i r (roles db) = Some t" for r t
    using wf put_named_unique [OF _ that] by (simp add: wf_defs refs_iff)
  then show ?thesis using wf by (simp add: update_role_def Let_def split: option.split)
qed

lemma acdb_wf_update_permission: "acdb_wf db \<Longrightarrow> acdb_wf (snd (update_permission i nm d db))"
proof -
  assume wf: "acdb_wf db"
  have "acdb_wf (db\<lparr>permissions := t\<rparr>)" if "put_named i r (permissions db) = Some t" for r t
    using wf put_named_unique [OF _ that] by (simp add: wf_defs refs_iff)
  then show ?thesis using wf by (simp add: update_permission_def Let_def split: option.split)
qed

lemma acdb_wf_delete_role: "acdb_wf db \<Longrightarrow> acdb_wf (snd (delete_role i db))"
  by (auto simp: wf_defs delete_role_def intro!: wf_intros split: option.split)

lemma acdb_wf_delete_permission: "acdb_wf db \<Longrightarrow> acdb_wf (snd (delete_permission i db))"
  by (auto simp: wf_defs delete_permission_def intro!: wf_intros split: option.split)

lemma acdb_wf_create_user:
  "acdb_wf db \<Longrightarrow> n \<notin> ids (users db) \<Longrightarrow> acdb_wf (snd (create_user n u db))"
  by (auto simp: wf_defs create_user_def get_by_email_def intro!: wf_intros)

lemma acdb_wf_delete_user: "acdb_wf db \<Longrightarrow> acdb_wf (snd (delete_user referenced i db))"
  by (auto simp: wf_defs delete_user_def intro!: wf_intros)

lemma acdb_wf_create_organization:
  "acdb_wf db \<Longrightarrow> n \<notin> ids (organizations db) \<Longrightarrow> acdb_wf (snd (create_organization n nm sl d db))"
  by (auto simp: wf_defs create_organization_def list_all_iff intro!: wf_intros)

lemma acdb_wf_create_team:
  "acdb_wf db \<Longrightarrow> n \<notin> ids (teams db) \<Longrightarrow> acdb_wf (snd (create_team n g nm d db))"
  by (auto simp: wf_defs create_team_def list_all_iff set_repo_create intro!: wf_intros)

lemma acdb_wf_delete_team: "acdb_wf db \<Longrightarrow> acdb_wf (delete_team i db)"
  by (auto simp: wf_defs delete_team_def list_all_iff set_repo_delete
      intro!: wf_intros agent_refs_detach refs_shrink_detach)

lemma acdb_wf_create_tool:
  "acdb_wf db \<Longrightarrow> n \<notin> ids (tools db) \<Longrightarrow> acdb_wf (snd (create_tool n nm d db))"
  by (auto simp: wf_defs create_tool_def intro!: wf_intros)

lemma acdb_wf_delete_tool: "acdb_wf db \<Longrightarrow> acdb_wf (delete_tool i db)"
  by (auto simp: wf_defs delete_tool_def intro!: wf_intros)

lemma acdb_wf_delete_organization: "acdb_wf db \<Longrightarrow> acdb_wf (delete_organization g db)"
proof -
  assume wf: "acdb_wf db"
  let ?ts = "map fst (list_teams g db)"
  let ?as = "map fst (repo_where (\<lambda>a. a_organization_id a = g) (agents db))"
  let ?db = "delete_organization g db"
  have tw: "table_wf (teams db)" "table_wf (agents db)"
    using wf by (auto simp: wf_defs dest: unique_by_wf)
  have team_kept: "t_organization_id t \<noteq> g" if "(i, t) \<in> set (teams db)" "i \<notin> set ?ts" for i t
    using that by (force simp: list_teams_def repo_where_def)
  have agent_kept: "a_organization_id a \<noteq> g" if "(i, a) \<in> set (agents db)" "i \<notin> set ?as" for i a
    using that by (force simp: repo_where_def)
  have ids_t: "ids (teams ?db) = ids (teams db) - set ?ts"
    by (force simp: delete_organization_def Let_def ids_def)
  have ids_a: "ids (agents ?db) = ids (agents db) - set ?as"
    by (simp add: delete_organization_def Let_def) (force simp: ids_def)
  have "unique_ok ?db"
    using wf unfolding wf_defs delete_organization_def Let_def
    by (auto intro!: unique_by_delete unique_by_filter table_wf_filter simp del: set_map)
  moreover have "refs_ok ?db"
    unfolding refs_ok_def
  proof (intro conjI)
    show "refs (user_roles ?db) (users ?db) (roles ?db)"
      "refs (role_permissions ?db) (roles ?db) (permissions ?db)"
      using wf by (simp_all add: wf_defs delete_organization_def Let_def)
    show "refs (organization_members ?db) (organizations ?db) (users ?db)"
      using wf by (simp add: wf_defs delete_organization_def Let_def refs_delete_ends)
    show "refs (team_members ?db) (teams ?db) (users ?db)"
      using wf unfolding refs_iff ids_t
      by (auto simp: wf_defs refs_iff delete_organization_def Let_def set_fold_drop simp del: set_map)
    show "refs (agent_tools ?db) (agents ?db) (tools ?db)"
      using wf unfolding refs_iff ids_a
      by (auto simp: wf_defs refs_iff delete_organization_def Let_def set_fold_drop simp del: set_map)
    show "list_all (\<lambda>(_, t). t_organization_id t \<in> ids (organizations ?db)) (teams ?db)"
      using wf team_kept
      by (fastforce simp: wf_defs list_all_iff delete_organization_def Let_def simp del: set_map)
    show "agent_refs (agents ?db) (organizations ?db) (teams ?db)"
      unfolding agent_refs_iff
    proof safe
      fix i a' assume "(i, a') \<in> set (agents ?db)"
      then obtain a where a: "(i, a) \<in> set (agents db)" "i \<notin> set ?as"
          "a_organization_id a' = a_organization_id a"
          "\<forall>t. a_team_id a' = Some t \<longrightarrow> a_team_id a = Some t \<and> t \<notin> set ?ts"
        by (auto simp: delete_organization_def Let_def simp del: set_map dest!: fold_detach_mem)
      have old: "a_organization_id a \<in> ids (organizations db)"
          "\<And>t. a_team_id a = Some t \<Longrightarrow> t \<in> ids (teams db)"
        using wf a(1) by (auto simp: wf_defs agent_refs_iff)
      show "a_organization_id a' \<in> ids (organizations ?db)"
        using a(3) old(1) agent_kept [OF a(1,2)] by (simp add: delete_organization_def Let_def)
      show "t \<in> ids (teams ?db)" if "a_team_id a' = Some t" for t
        using that a(4) old(2) ids_t by auto
    qed
  qed
  ultimately show ?thesis by (simp add: acdb_wf_def)
qed

lemma not_taken: "table_wf t \<Longrightarrow> \<not> taken key t i r \<Longrightarrow> repo_get t j = Some q \<Longrightarrow> key q = key r \<Longrightarrow> j = i"
  by (auto simp: taken_def list_ex_iff repo_get_in_set [symmetric])

lemma unique_by_not_taken: "unique_by key t \<Longrightarrow> \<not> taken key t i r \<Longrightarrow> unique_by key (repo_update i r t)"
  by (rule unique_by_update) (auto dest: not_taken unique_by_wf)

lemma refs_update: "refs t (repo_update i r A) B = refs t A B" "refs t A (repo_update i q B) = refs t A B"
  by (simp_all add: refs_iff)

lemma agent_refs_update:
  "agent_refs ags (repo_update i r gs) ts = agent_refs ags gs ts" "agent_refs ags gs (repo_update i q ts) = agent_refs ags gs ts"
  by (simp_all add: agent_refs_iff)

lemma acdb_wf_update_organization: "acdb_wf db \<Longrightarrow> acdb_wf (snd (update_organization i r upd db))"
  by (auto simp: update_organization_def wf_defs Let_def refs_update agent_refs_update list_all_iff
      intro!: unique_by_not_taken split: option.split)

lemma acdb_wf_update_user: "acdb_wf db \<Longrightarrow> acdb_wf (snd (update_user i u db))"
  by (auto simp: update_user_def wf_defs refs_update intro!: unique_by_not_taken)

lemma acdb_wf_update_team:
  "acdb_wf db \<Longrightarrow> repo_get (teams db) i = Some r \<Longrightarrow> acdb_wf (snd (update_team i r nm d db))"
proof -
  assume wf: "acdb_wf db" and r: "repo_get (teams db) i = Some r"
  have tw: "table_wf (teams db)" using wf by (simp add: wf_defs)
  then have "t_organization_id r \<in> ids (organizations db)"
    using wf r by (auto simp: wf_defs list_all_iff repo_get_in_set [symmetric])
  then have "list_all (\<lambda>(_, t). t_organization_id t \<in> ids (organizations db)) (repo_update i (r\<lparr>t_name := n, t_description := e\<rparr>) (teams db))" for n e
    using wf by (auto simp: wf_defs list_all_iff repo_update_def)
  then show ?thesis using wf tw
    by (auto simp: update_team_def wf_defs Let_def refs_update agent_refs_update split: option.split)
qed

lemma acdb_wf_update_tool: "acdb_wf db \<Longrightarrow> acdb_wf (snd (update_tool i r nm d db))"
  by (auto simp: update_tool_def wf_defs Let_def refs_update intro!: unique_by_not_taken split: option.split)

lemma acdb_wf_assign_role:
  "acdb_wf db \<Longrightarrow> n \<notin> ids (user_roles db) \<Longrightarrow> acdb_wf (snd (assign_role n u r db))"
  by (auto simp: wf_defs assign_role_def get_pair_def repo_get_None_iff ends_exist_def
      intro!: unique_by_create refs_create dest: repo_get_SomeD)

lemma acdb_wf_assign_permission:
  "acdb_wf db \<Longrightarrow> n \<notin> ids (role_permissions db) \<Longrightarrow> acdb_wf (snd (assign_permission n r p db))"
  by (auto simp: wf_defs assign_permission_def get_pair_def repo_get_None_iff ends_exist_def
      intro!: unique_by_create refs_create dest: repo_get_SomeD)

lemma acdb_wf_add_organization_member:
  "acdb_wf db \<Longrightarrow> n \<notin> ids (organization_members db) \<Longrightarrow> acdb_wf (snd (add_organization_member n g u db))"
  by (auto simp: wf_defs add_organization_member_def get_pair_def ends_exist_def intro!: unique_by_create refs_create)

lemma acdb_wf_add_team_member:
  "acdb_wf db \<Longrightarrow> n \<notin> ids (team_members db) \<Longrightarrow> acdb_wf (snd (add_team_member n t u db))"
  by (auto simp: wf_defs add_team_member_def get_pair_def ends_exist_def intro!: unique_by_create refs_create)

lemma acdb_wf_assign_tool:
  "acdb_wf db \<Longrightarrow> n \<notin> ids (agent_tools db) \<Longrightarrow> acdb_wf (snd (assign_tool n a t db))"
  by (auto simp: wf_defs assign_tool_def get_pair_def ends_exist_def intro!: unique_by_create refs_create)

lemma acdb_wf_removes:
  assumes "acdb_wf db"
  shows "acdb_wf (snd (remove_role a b db))" and "acdb_wf (snd (remove_permission a b db))"
    and "acdb_wf (snd (remove_organization_member a b db))" and "acdb_wf (snd (remove_team_member a b db))"
    and "acdb_wf (snd (remove_tool a b db))"
  using assms
  by (auto simp: wf_defs remove_defs intro!: unique_by_delete refs_delete_row split: option.split)

section \<open>Reachable databases\<close>

definition empty_acdb :: "agent_row table \<Rightarrow> acdb" where
  "empty_acdb ags = \<lparr>users = [], roles = [], permissions = [], user_roles = [], role_permissions = [],
     organizations = [], organization_members = [], teams = [], team_members = [], tools = [],
     agents = ags, agent_tools = []\<rparr>"

lemma acdb_wf_empty: "acdb_wf (empty_acdb [])"
  by (simp add: wf_defs empty_acdb_def unique_by_def table_wf_def refs_def agent_refs_def)

inductive ac_step :: "acdb \<Rightarrow> acdb \<Rightarrow> bool" where
  "n \<notin> ids (roles db) \<Longrightarrow> ac_step db (snd (create_role n nm d db))"
| "ac_step db (snd (update_role i nm' d db))"
| "ac_step db (snd (delete_role i db))"
| "n \<notin> ids (permissions db) \<Longrightarrow> ac_step db (snd (create_permission n nm d db))"
| "ac_step db (snd (update_permission i nm' d db))"
| "ac_step db (snd (delete_permission i db))"
| "n \<notin> ids (user_roles db) \<Longrightarrow> ac_step db (snd (assign_role n a b db))"
| "ac_step db (snd (remove_role a b db))"
| "n \<notin> ids (role_permissions db) \<Longrightarrow> ac_step db (snd (assign_permission n a b db))"
| "ac_step db (snd (remove_permission a b db))"
| "n \<notin> ids (users db) \<Longrightarrow> ac_step db (snd (create_user n u db))"
| "ac_step db (snd (delete_user referenced i db))"
| "n \<notin> ids (organizations db) \<Longrightarrow> ac_step db (snd (create_organization n nm sl d db))"
| "ac_step db (delete_organization i db)"
| "n \<notin> ids (organization_members db) \<Longrightarrow> ac_step db (snd (add_organization_member n a b db))"
| "ac_step db (snd (remove_organization_member a b db))"
| "n \<notin> ids (teams db) \<Longrightarrow> ac_step db (snd (create_team n a nm d db))"
| "ac_step db (delete_team i db)"
| "n \<notin> ids (team_members db) \<Longrightarrow> ac_step db (snd (add_team_member n a b db))"
| "ac_step db (snd (remove_team_member a b db))"
| "n \<notin> ids (tools db) \<Longrightarrow> ac_step db (snd (create_tool n nm ds db))"
| "ac_step db (delete_tool i db)"
| "n \<notin> ids (agent_tools db) \<Longrightarrow> ac_step db (snd (assign_tool n a b db))"
| "ac_step db (snd (remove_tool a b db))"
| "ac_step db (snd (update_organization i r upd db))"
| "repo_get (teams db) i = Some r' \<Longrightarrow> ac_step db (snd (update_team i r' nf df db))"
| "ac_step db (snd (update_tool i r'' nf df db))"
| "ac_step db (snd (update_user i u db))"

lemma ac_step_wf: "ac_step db db' \<Longrightarrow> acdb_wf db \<Longrightarrow> acdb_wf db'"
  by (induction rule: ac_step.induct)
    (simp_all add: acdb_wf_create_role acdb_wf_update_role acdb_wf_delete_role acdb_wf_create_permission
      acdb_wf_update_permission acdb_wf_delete_permission acdb_wf_assign_role acdb_wf_assign_permission
      acdb_wf_create_user acdb_wf_delete_user acdb_wf_create_organization acdb_wf_delete_organization
      acdb_wf_add_organization_member acdb_wf_create_team acdb_wf_delete_team acdb_wf_add_team_member
      acdb_wf_create_tool acdb_wf_delete_tool acdb_wf_assign_tool acdb_wf_removes
      acdb_wf_update_organization acdb_wf_update_team acdb_wf_update_tool acdb_wf_update_user)

text \<open>
  C10: database integrity is an invariant.  Every sequence of operations of the
  role, permission, assignment, user, organization, team and tool services
  keeps primary keys and unique columns unique and every foreign key pointing
  at an existing row; in particular deleting a role, user, permission,
  organization, team or tool leaves no dangling assignment behind.
\<close>

theorem access_integrity_invariant:
  assumes "ac_step\<^sup>*\<^sup>* db db'" and "acdb_wf db"
  shows "acdb_wf db'"
  using assms by (induction rule: rtranclp_induct) (auto intro: ac_step_wf)

theorem access_integrity_invariant_witness:
  "acdb_wf (snd (delete_role 1 (snd (assign_role 1 7 1 (snd (create_role 1 ''admin'' None
     (snd (create_user 7 \<lparr>u_full_name = ''A'', u_email = ''a@x'', u_password_hash = ''h'',
        u_is_active = True, u_is_superuser = False\<rparr> (empty_acdb [])))))))))"
  (is "acdb_wf ?d4")
proof -
  let ?d1 = "snd (create_user 7 \<lparr>u_full_name = ''A'', u_email = ''a@x'', u_password_hash = ''h'',
        u_is_active = True, u_is_superuser = False\<rparr> (empty_acdb []))"
  let ?d2 = "snd (create_role 1 ''admin'' None ?d1)"
  let ?d3 = "snd (assign_role 1 7 1 ?d2)"
  have "ac_step (empty_acdb []) ?d1" by (rule ac_step.intros) (simp add: empty_acdb_def)
  moreover have "ac_step ?d1 ?d2"
    by (rule ac_step.intros) (simp add: empty_acdb_def create_user_def get_by_email_def lookup_by_def repo_first_def)
  moreover have "ac_step ?d2 ?d3"
    by (rule ac_step.intros) (simp add: empty_acdb_def create_user_def create_role_def get_by_email_def lookup_by_def repo_first_def)
  moreover have "ac_step ?d3 ?d4" by (rule ac_step.intros)
  ultimately have "ac_step\<^sup>*\<^sup>* (empty_acdb []) ?d4" by (meson rtranclp.rtrancl_into_rtrancl rtranclp.rtrancl_refl)
  moreover note acdb_wf_empty
  ultimately show ?thesis by (rule access_integrity_invariant)
qed

text \<open>
  C37: role and permission assignment implement a set of pairs.  Any sequence of
  assignments and removals, with whatever refusals happen on the way, leaves in
  the association table exactly the pairs the set operations leave: an
  assignment inserts its pair when both ends exist, a removal deletes it.
\<close>

theorem assignments_refine_sets:
  assumes "acdb_wf db" and "keys_ok (ids (user_roles db)) ops" and "keys_ok (ids (role_permissions db)) ops'"
  shows "rows (user_roles (assoc_run assign_role remove_role ops db)) =
           assoc_spec (ends_exist (users db) (roles db)) ops (rows (user_roles db))
       \<and> rows (role_permissions (assoc_run assign_permission remove_permission ops' db)) =
           assoc_spec (ends_exist (roles db) (permissions db)) ops' (rows (role_permissions db))"
  using assms ur.run_refines_set [of db "ids (user_roles db)" ops]
    rp.run_refines_set [of db "ids (role_permissions db)" ops']
  by (simp add: wf_defs)

theorem assignments_refine_sets_witness:
  "rows (user_roles (assoc_run assign_role remove_role [Assign 1 7 7, Remove 7 7] (empty_acdb []))) =
     assoc_spec (ends_exist (users (empty_acdb [])) (roles (empty_acdb []))) [Assign 1 7 7, Remove 7 7] {}"
proof -
  from assignments_refine_sets [OF acdb_wf_empty, of "[Assign 1 7 7, Remove 7 7]" "[]"] show ?thesis
    by (simp add: empty_acdb_def rows_def)
qed

end
