(* ===== verification/Authorization.thy ===== *)
theory Authorization
  imports Access_Invariant
begin

text \<open>
  Registration and login (\<open>services/auth_service.py\<close>), access tokens
  (\<open>core/jwt.py\<close>), the authentication dependencies
  (\<open>dependencies/auth.py\<close>) and the permission checks
  (\<open>dependencies/permissions.py\<close>, \<open>dependencies/security.py\<close>,
  \<open>security/authorization.py\<close>).

  The password hash and the token library are parameters: \<open>hash\<close> and
  \<open>verify\<close> stand for passlib, \<open>encode\<close> and \<open>decode\<close> for PyJWT, whose
  \<open>decode\<close> gives the subject of a valid token and nothing for an invalid or
  expired one.  Times are in seconds.
\<close>

section \<open>Registration, login, tokens\<close>

definition email_normalized :: "string \<Rightarrow> string" where
  "email_normalized e = py_lower (py_strip e)"

definition register :: "(string \<Rightarrow> string) \<Rightarrow> int \<Rightarrow> string \<Rightarrow> string \<Rightarrow> string \<Rightarrow> int op" where
  "register hash nid full_name email password db =
     (if get_by_email (email_normalized email) db \<noteq> None
        then (Err (HttpError 409 ''Email already exists.''), db)
      else if length password < 8
        then (Err (HttpError 400 ''Password must be at least 8 characters long.''), db)
      else create_user nid \<lparr>u_full_name = full_name, u_email = email_normalized email,
             u_password_hash = hash password, u_is_active = True, u_is_superuser = False\<rparr> db)"

definition create_access_token :: "(string \<Rightarrow> int \<Rightarrow> string) \<Rightarrow> int \<Rightarrow> string \<Rightarrow> int \<Rightarrow> string" where
  "create_access_token encode now subject expires_minutes = encode subject (now + 60 * expires_minutes)"

definition decode_access_token :: "(int \<Rightarrow> string \<Rightarrow> string option) \<Rightarrow> int \<Rightarrow> string \<Rightarrow> string option" where
  "decode_access_token decode now token = decode now token"

definition login ::
  "(string \<Rightarrow> string \<Rightarrow> bool) \<Rightarrow> (string \<Rightarrow> int \<Rightarrow> string) \<Rightarrow> int \<Rightarrow> string \<Rightarrow> string \<Rightarrow> acdb
   \<Rightarrow> (service_error, string) result" where
  "login verify encode now email password db =
     (case get_by_email (email_normalized email) db of
        None \<Rightarrow> Err (HttpError 401 ''Invalid credentials.'')
      | Some (i, u) \<Rightarrow>
          if \<not> u_is_active u then Err (HttpError 403 ''Inactive user.'')
          else if \<not> verify password (u_password_hash u) then Err (HttpError 401 ''Invalid credentials.'')
          else Ok (create_access_token encode now (show_int i) 60))"

definition get_current_user ::
  "(int \<Rightarrow> string \<Rightarrow> string option) \<Rightarrow> int \<Rightarrow> string \<Rightarrow> acdb \<Rightarrow> (service_error, int \<times> user_row) result" where
  "get_current_user decode now token db =
     (case decode_access_token decode now token of
        None \<Rightarrow> Err (HttpError 401 ''Invalid authentication credentials.'')
      | Some sub \<Rightarrow>
          (case py_int sub of
             None \<Rightarrow> Err (HttpError 401 ''Invalid authentication credentials.'')
           | Some user_id \<Rightarrow>
               (case repo_get (users db) user_id of
                  None \<Rightarrow> Err (HttpError 401 ''User not found.'')
                | Some u \<Rightarrow> Ok (user_id, u))))"

definition get_current_active_user :: "(service_error, int \<times> user_row) result \<Rightarrow> (service_error, int \<times> user_row) result" where
  "get_current_active_user current_user =
     bind_ok current_user (\<lambda>(i, u). if \<not> u_is_active u then Err (HttpError 403 ''Inactive user.'') else Ok (i, u))"

definition get_current_superuser :: "(service_error, int \<times> user_row) result \<Rightarrow> (service_error, int \<times> user_row) result" where
  "get_current_superuser current_user =
     bind_ok (get_current_active_user current_user)
       (\<lambda>(i, u). if \<not> u_is_superuser u then Err (HttpError 403 ''Insufficient privileges.'') else Ok (i, u))"

section \<open>Permission checks\<close>

text \<open>The join of permissions, role permissions and user roles.\<close>

definition permission_query :: "int \<Rightarrow> string \<Rightarrow> acdb \<Rightarrow> (int \<times> named_row) list" where
  "permission_query user_id name db =
     [(pid, p). (pid, p) \<leftarrow> permissions db, (_, rid, pid') \<leftarrow> role_permissions db,
        (_, uid, rid') \<leftarrow> user_roles db,
        pid = pid' \<and> rid' = rid \<and> uid = user_id \<and> n_name p = name]"

definition scalar :: "'a list \<Rightarrow> 'a option" where
  "scalar xs = (case xs of [] \<Rightarrow> None | x # _ \<Rightarrow> Some x)"

definition RequirePermission :: "string \<Rightarrow> int \<times> user_row \<Rightarrow> acdb \<Rightarrow> (service_error, int \<times> user_row) result" where
  "RequirePermission permission_name current_user db =
     (if u_is_superuser (snd current_user) then Ok current_user
      else if scalar (permission_query (fst current_user) permission_name db) = None
        then Err (HttpError 403 ''Permission denied.'')
      else Ok current_user)"

definition require_permission :: "string \<Rightarrow> int \<times> user_row \<Rightarrow> acdb \<Rightarrow> (service_error, int \<times> user_row) result" where
  "require_permission permission current_user db =
     (if u_is_superuser (snd current_user) then Ok current_user
      else if scalar (permission_query (fst current_user) permission db) = None
        then Err (HttpError 403 (''Permission '' @ [CHR 0x27] @ permission @ [CHR 0x27] @ '' required.''))
      else Ok current_user)"

text \<open>
  \<open>security.authorization.has_permission\<close> calls the generator function
  \<open>get_db\<close> without iterating it, so \<open>db.scalar\<close> is an attribute lookup on a
  generator object.
\<close>

datatype python_error = AttributeError string

definition has_permission :: "int \<times> user_row \<Rightarrow> string \<Rightarrow> (python_error, bool) result" where
  "has_permission user permission =
     (if u_is_superuser (snd user) then Ok True
      else Err (AttributeError ''generator object has no attribute scalar''))"

definition holds_permission :: "int \<Rightarrow> string \<Rightarrow> acdb \<Rightarrow> bool" where
  "holds_permission user_id name db \<longleftrightarrow>
     (\<exists>role_id pid p. (user_id, role_id) \<in> rows (user_roles db) \<and> (role_id, pid) \<in> rows (role_permissions db)
        \<and> (pid, p) \<in> set (permissions db) \<and> n_name p = name)"

lemma scalar_None_iff [simp]: "scalar xs = None \<longleftrightarrow> xs = []"
  by (simp add: scalar_def split: list.split)

lemma pair_rows_iff: "(a, b) \<in> rows t \<longleftrightarrow> (\<exists>i. (i, a, b) \<in> set t)"
  by (force simp: rows_def)

lemma concat_mapI: "y \<in> set xs \<Longrightarrow> x \<in> set (f y) \<Longrightarrow> x \<in> set (concat (map f xs))"
  by auto

lemma permission_query_mem:
  "(pid, p) \<in> set (permission_query user_id name db) \<longleftrightarrow>
     (pid, p) \<in> set (permissions db) \<and> n_name p = name \<and>
     (\<exists>rid. (rid, pid) \<in> rows (role_permissions db) \<and> (user_id, rid) \<in> rows (user_roles db))"
  unfolding pair_rows_iff
proof
  assume "(pid, p) \<in> set (permission_query user_id name db)"
  then show "(pid, p) \<in> set (permissions db) \<and> n_name p = name \<and>
     (\<exists>rid. (\<exists>i. (i, rid, pid) \<in> set (role_permissions db)) \<and> (\<exists>i. (i, user_id, rid) \<in> set (user_roles db)))"
    by (auto simp: permission_query_def split: if_splits)
next
  assume "(pid, p) \<in> set (permissions db) \<and> n_name p = name \<and>
     (\<exists>rid. (\<exists>i. (i, rid, pid) \<in> set (role_permissions db)) \<and> (\<exists>i. (i, user_id, rid) \<in> set (user_roles db)))"
  then obtain i j rid where "(pid, p) \<in> set (permissions db)" "n_name p = name"
      "(i, rid, pid) \<in> set (role_permissions db)" "(j, user_id, rid) \<in> set (user_roles db)"
    by blast
  note f = this
  show "(pid, p) \<in> set (permission_query user_id name db)"
    unfolding permission_query_def
    by (rule concat_mapI [OF f(1)], simp only: prod.case, rule concat_mapI [OF f(3)],
        simp only: prod.case, rule concat_mapI [OF f(4)], simp add: f(2))
qed

lemma permission_query_empty: "permission_query user_id name db = [] \<longleftrightarrow> \<not> holds_permission user_id name db"
proof -
  have "permission_query user_id name db \<noteq> [] \<longleftrightarrow> (\<exists>pid p. (pid, p) \<in> set (permission_query user_id name db))"
    by (cases "permission_query user_id name db") auto
  also have "\<dots> \<longleftrightarrow> holds_permission user_id name db"
    unfolding holds_permission_def permission_query_mem by blast
  finally show ?thesis by blast
qed

lemma RequirePermission_ok:
  "is_ok (RequirePermission name cu db) \<longleftrightarrow> u_is_superuser (snd cu) \<or> holds_permission (fst cu) name db"
  by (simp add: RequirePermission_def permission_query_empty)

lemma require_permission_ok:
  "is_ok (require_permission name cu db) \<longleftrightarrow> u_is_superuser (snd cu) \<or> holds_permission (fst cu) name db"
  by (simp add: require_permission_def permission_query_empty)

text \<open>
  C1: the permission dependencies decide exactly role-based access: the user is
  let through, and returned unchanged, if and only if it is a superuser or some
  role assigned to it carries a permission of the required name; the two
  dependencies agree and differ only in the text of the 403.
\<close>

theorem permission_check_exact:
  "(RequirePermission name cu db = Ok cu \<longleftrightarrow> u_is_superuser (snd cu) \<or> holds_permission (fst cu) name db)
   \<and> (\<not> is_ok (RequirePermission name cu db) \<longleftrightarrow>
        RequirePermission name cu db = Err (HttpError 403 ''Permission denied.''))
   \<and> is_ok (require_permission name cu db) = is_ok (RequirePermission name cu db)"
  by (simp add: RequirePermission_def require_permission_def permission_query_empty)

definition holds_via :: "(int \<Rightarrow> bool) \<Rightarrow> int \<Rightarrow> string \<Rightarrow> acdb \<Rightarrow> bool" where
  "holds_via ok_role user_id name db \<longleftrightarrow>
     (\<exists>role_id pid p. ok_role role_id \<and> (user_id, role_id) \<in> rows (user_roles db)
        \<and> (role_id, pid) \<in> rows (role_permissions db)
        \<and> (pid, p) \<in> set (permissions db) \<and> n_name p = name)"

lemma remove_role_frame [simp]:
  "role_permissions (snd (remove_role u r db)) = role_permissions db"
  "permissions (snd (remove_role u r db)) = permissions db"
  by (simp_all add: remove_role_def split: option.split)

lemma rows_drop:
  "rows (drop_left a t) = {(x, y) \<in> rows t. x \<noteq> a}" "rows (drop_right a t) = {(x, y) \<in> rows t. y \<noteq> a}"
  by (auto simp: pair_rows_iff set_drop)

lemma holds_filter:
  assumes "\<And>r'. (u', r') \<in> rows (user_roles db') \<longleftrightarrow> ok r' \<and> (u', r') \<in> rows (user_roles db)"
    and "\<And>r' p. ok r' \<Longrightarrow> (r', p) \<in> rows (role_permissions db') \<longleftrightarrow> (r', p) \<in> rows (role_permissions db)"
    and "permissions db' = permissions db"
  shows "holds_permission u' name db' \<longleftrightarrow> holds_via ok u' name db"
  unfolding holds_permission_def holds_via_def assms(1,3) using assms(2) by blast

text \<open>
  C20: revocation takes effect at once and is exact: after a role is removed
  from a user, that user holds a permission only if another of its roles
  carries it, and nobody else is affected; after a role is deleted, every
  user holds just the permissions its other roles carry.
\<close>

theorem revocation_exact:
  assumes "acdb_wf db"
  shows "(holds_permission u' name (snd (remove_role u r db))
            \<longleftrightarrow> holds_via (\<lambda>r'. (u', r') \<noteq> (u, r)) u' name db)
       \<and> (holds_permission u' name (snd (delete_role r db)) \<longleftrightarrow> holds_via (\<lambda>r'. r' \<noteq> r) u' name db)"
proof
  have "rows (user_roles (snd (remove_role u r db))) = rows (user_roles db) - {(u, r)}"
    using assms by (intro ur.remove_rows) (simp add: wf_defs)
  then show "holds_permission u' name (snd (remove_role u r db))
      \<longleftrightarrow> holds_via (\<lambda>r'. (u', r') \<noteq> (u, r)) u' name db"
    by (intro holds_filter) auto
  show "holds_permission u' name (snd (delete_role r db)) \<longleftrightarrow> holds_via (\<lambda>r'. r' \<noteq> r) u' name db"
  proof (cases "repo_get (roles db) r")
    case None
    have "r' \<noteq> r" if "(u', r') \<in> rows (user_roles db)" for r'
      using assms that None by (auto simp: wf_defs refs_iff pair_rows_iff repo_get_None_iff)
    then show ?thesis
      by (intro holds_filter) (auto simp: delete_role_def None)
  next
    case (Some x)
    then show ?thesis
      by (intro holds_filter) (auto simp: delete_role_def rows_drop)
  qed
qed

theorem revocation_exact_witness:
  "\<not> holds_permission 7 ''users:read'' (snd (remove_role 7 1
      (empty_acdb []\<lparr>users := [(7, \<lparr>u_full_name = ''A'', u_email = ''a@x'', u_password_hash = ''h'',
            u_is_active = True, u_is_superuser = False\<rparr>)],
         roles := [(1, \<lparr>n_name = ''reader'', n_description = None\<rparr>)],
         permissions := [(4, \<lparr>n_name = ''users:read'', n_description = None\<rparr>)],
         user_roles := [(1, 7, 1)], role_permissions := [(1, 1, 4)]\<rparr>)))"
  (is "\<not> holds_permission 7 ''users:read'' (snd (remove_role 7 1 ?db))")
proof -
  have "acdb_wf ?db"
    by (simp add: wf_defs empty_acdb_def unique_by_def table_wf_def refs_def agent_refs_def ends_exist_def ids_def)
  from revocation_exact [OF this, of 7 "''users:read''" 7 1]
  have "holds_permission 7 ''users:read'' (snd (remove_role 7 1 ?db)) \<longleftrightarrow>
      holds_via (\<lambda>r'. (7 :: int, r') \<noteq> (7, 1)) 7 ''users:read'' ?db" by blast
  moreover have "\<not> holds_via (\<lambda>r'. (7 :: int, r') \<noteq> (7, 1)) 7 ''users:read'' ?db"
    by (simp add: holds_via_def rows_def empty_acdb_def)
  ultimately show ?thesis by blast
qed

text \<open>
  \<open>security.authorization.has_permission\<close> never answers for an ordinary
  user: whatever the roles, it raises instead of returning a truth value,
  while the dependencies decide the same question.
\<close>

theorem has_permission_unusable:
  "is_ok (has_permission cu name) \<longleftrightarrow> u_is_superuser (snd cu)"
  by (simp add: has_permission_def)

section \<open>From registration to an authenticated request\<close>

lemma email_normalized_lookup:
  "email_normalized e' = email_normalized e \<Longrightarrow>
   get_by_email (email_normalized e') db = get_by_email (email_normalized e) db"
  by simp

lemma register_ok:
  assumes "acdb_wf db" and "n \<notin> ids (users db)" and "get_by_email (email_normalized e) db = None"
    and "8 \<le> length pw"
  shows "fst (register hash n nm e pw db) = Ok n"
    and "get_by_email (email_normalized e) (snd (register hash n nm e pw db)) =
      Some (n, \<lparr>u_full_name = nm, u_email = email_normalized e, u_password_hash = hash pw,
                u_is_active = True, u_is_superuser = False\<rparr>)"
    and "repo_get (users (snd (register hash n nm e pw db))) n =
      Some \<lparr>u_full_name = nm, u_email = email_normalized e, u_password_hash = hash pw,
            u_is_active = True, u_is_superuser = False\<rparr>"
  using assms
  by (simp_all add: register_def create_user_def get_by_email_def lookup_by_create repo_get_create wf_defs)

text \<open>
  C26: registration, login and authentication fit together.  A new account with
  an acceptable password can log in at once with any spelling of its address
  that differs only in case and surrounding space; the token it gets is
  accepted for sixty minutes as that user, active and not a superuser, and
  refused with 401 afterwards; and a second registration under any such
  spelling is refused with 409.
\<close>

theorem register_login_authenticate:
  assumes verify: "\<And>p. verify p (hash p)"
    and jwt: "\<And>sub exp t. decode t (encode sub exp) = (if t < exp then Some sub else None)"
    and wf: "acdb_wf db" and fresh: "n \<notin> ids (users db)"
    and new: "get_by_email (email_normalized e) db = None" and pw: "8 \<le> length pw"
    and same: "email_normalized e' = email_normalized e"
  shows "\<exists>token. login verify encode now e' pw (snd (register hash n nm e pw db)) = Ok token
      \<and> (\<forall>t. case get_current_active_user (get_current_user decode t token (snd (register hash n nm e pw db))) of
               Inr (i, u) \<Rightarrow> t < now + 3600 \<and> i = n \<and> \<not> u_is_superuser u
             | Inl err \<Rightarrow> now + 3600 \<le> t \<and> err = HttpError 401 ''Invalid authentication credentials.'')
      \<and> fst (register hash m nm' e' pw' (snd (register hash n nm e pw db))) = Err (HttpError 409 ''Email already exists.'')"
proof -
  let ?db = "snd (register hash n nm e pw db)"
  note r = register_ok [OF wf fresh new pw, of hash nm]
  have "login verify encode now e' pw ?db = Ok (encode (show_int n) (now + 3600))"
    by (simp add: login_def same r(2) verify create_access_token_def)
  moreover have "fst (register hash m nm' e' pw' ?db) = Err (HttpError 409 ''Email already exists.'')"
    using r(2) same by (simp add: register_def [of hash m])
  ultimately show ?thesis
    using r(3)
    by (auto simp: get_current_user_def decode_access_token_def jwt py_int_show_int get_current_active_user_def)
qed

definition plain_encode :: "string \<Rightarrow> int \<Rightarrow> string" where
  "plain_encode sub exp = show_int exp @ ''|'' @ sub"

definition plain_decode :: "int \<Rightarrow> string \<Rightarrow> string option" where
  "plain_decode t token =
     (case py_int (takeWhile (\<lambda>c. c \<noteq> CHR ''|'') token) of
        None \<Rightarrow> None
      | Some exp \<Rightarrow> if t < exp then Some (drop 1 (dropWhile (\<lambda>c. c \<noteq> CHR ''|'') token)) else None)"

lemma plain_jwt: "plain_decode t (plain_encode sub exp) = (if t < exp then Some sub else None)"
proof -
  have "c \<noteq> CHR ''|''" if "is_digit c" for c using that by (auto simp: is_digit_def Let_def)
  then have "\<forall>c\<in>set (show_int exp). c \<noteq> CHR ''|''"
    using show_nat_digits by (auto simp: show_int_def list_all_iff split: if_splits)
  then have "takeWhile (\<lambda>c. c \<noteq> CHR ''|'') (plain_encode sub exp) = show_int exp"
      "dropWhile (\<lambda>c. c \<noteq> CHR ''|'') (plain_encode sub exp) = ''|'' @ sub"
    by (simp_all add: plain_encode_def)
  then show ?thesis by (simp add: plain_decode_def py_int_show_int)
qed

theorem register_login_authenticate_witness:
  "\<exists>token. login (\<lambda>p h. h = p) plain_encode 0 '' A@x '' ''password''
       (snd (register (\<lambda>p. p) 1 ''A'' ''a@x'' ''password'' (empty_acdb []))) = Ok token"
proof -
  have "1 \<notin> ids (users (empty_acdb []))" "get_by_email (email_normalized ''a@x'') (empty_acdb []) = None"
    by (simp_all add: empty_acdb_def get_by_email_def lookup_by_def repo_first_def)
  moreover have "email_normalized '' A@x '' = email_normalized ''a@x''" by code_simp
  ultimately show ?thesis
    using register_login_authenticate [of "\<lambda>p h. h = p" "\<lambda>p. p" plain_decode plain_encode "empty_acdb []" 1
        "''a@x''" "''password''" "'' A@x ''" 0 "''A''" 2 "''B''" "[]"] plain_jwt acdb_wf_empty by auto
qed

end
