(* ===== verification/Policy_Engine.thy ===== *)
theory Policy_Engine
  imports Security_Core Tables
begin

text \<open>
  Security policies: the row (\<open>models/security_policy.py\<close>), the engine that
  caches and evaluates them (\<open>security/policy_engine.py\<close>), and the service
  that edits them and invalidates the cache
  (\<open>services/security_policy_service.py\<close>).

  The state is the policy table with the module-level cache: the policies
  last loaded and the time of loading.  Clock readings are integers in
  microseconds; the cache lives for sixty seconds.  The caller's UTC time of
  day \<open>HH:MM\<close> is an argument, and so are the functions of the \<open>ipaddress\<close>
  module: \<open>valid_ip\<close> tells whether an address parses, \<open>in_network\<close> whether an
  address lies in a CIDR range, with nothing for a range that does not parse.
  The role of the caller is \<open>getattr(user, "role", None)\<close>.
\<close>

record policy_condition =
  c_user_role :: "string option"
  c_org_id :: "int option"
  c_time_from :: "string option"
  c_time_until :: "string option"
  c_allowed_ips :: "string list option"

record security_policy =
  p_name :: string
  p_resource :: string
  p_action :: string
  p_effect :: string
  p_condition :: "policy_condition option"
  p_is_active :: bool

record request_context =
  rc_user_role :: "string option"
  rc_org_id :: "int option"
  rc_resource :: string
  rc_action :: string
  rc_client_ip :: "string option"

record policy_state =
  ps_table :: "security_policy table"
  ps_cache :: "security_policy list"
  ps_loaded_at :: int

record ip_library =
  valid_ip :: "string \<Rightarrow> bool"
  in_network :: "string \<Rightarrow> string \<Rightarrow> bool option"

definition CACHE_TTL :: int where "CACHE_TTL = 60 * 1000000"

definition policy_matches :: "security_policy \<Rightarrow> request_context \<Rightarrow> bool" where
  "policy_matches p c =
     (if \<not> p_is_active p then False
      else if p_resource p \<noteq> rc_resource c then False
      else if p_action p \<noteq> rc_action c then False
      else True)"

section \<open>Loading and the cache\<close>

definition get_active :: "security_policy table \<Rightarrow> (int \<times> security_policy) list" where
  "get_active t = repo_where p_is_active t"

definition get_for_resource :: "string \<Rightarrow> string \<Rightarrow> security_policy table \<Rightarrow> (int \<times> security_policy) list" where
  "get_for_resource resource action t =
     repo_where (\<lambda>p. p_resource p = resource \<and> p_action p = action \<and> p_is_active p) t"

definition load_policies :: "int \<Rightarrow> policy_state \<Rightarrow> security_policy list \<times> policy_state" where
  "load_policies now s =
     (let s' = (if now - ps_loaded_at s > CACHE_TTL
                then s\<lparr>ps_cache := map snd (get_active (ps_table s)), ps_loaded_at := now\<rparr> else s)
      in (ps_cache s', s'))"

definition invalidate_policy_cache :: "policy_state \<Rightarrow> policy_state" where
  "invalidate_policy_cache s = s\<lparr>ps_loaded_at := 0\<rparr>"

section \<open>Conditions\<close>

text \<open>A Python string or list is false when it is empty.\<close>

definition given :: "'a list option \<Rightarrow> 'a list option" where
  "given x = (case x of Some [] \<Rightarrow> None | _ \<Rightarrow> x)"

definition check_time :: "string \<Rightarrow> policy_condition \<Rightarrow> bool" where
  "check_time current_hm c =
     ((case given (c_time_from c) of None \<Rightarrow> True | Some f \<Rightarrow> \<not> current_hm < f)
    \<and> (case given (c_time_until c) of None \<Rightarrow> True | Some u \<Rightarrow> \<not> current_hm > u))"

fun any_network :: "(string \<Rightarrow> string \<Rightarrow> bool option) \<Rightarrow> string \<Rightarrow> string list \<Rightarrow> bool option" where
  "any_network inn ip [] = Some False"
| "any_network inn ip (cidr # rest) =
     (case inn ip cidr of None \<Rightarrow> None | Some True \<Rightarrow> Some True | Some False \<Rightarrow> any_network inn ip rest)"

definition check_ip :: "ip_library \<Rightarrow> policy_condition \<Rightarrow> string option \<Rightarrow> bool" where
  "check_ip L c client_ip =
     (case given (c_allowed_ips c) of
        None \<Rightarrow> True
      | Some allowed \<Rightarrow>
          (case given client_ip of
             None \<Rightarrow> False
           | Some ip \<Rightarrow> valid_ip L ip \<and> any_network (in_network L) ip allowed = Some True))"

definition evaluate_condition :: "ip_library \<Rightarrow> string \<Rightarrow> policy_condition option \<Rightarrow> request_context \<Rightarrow> bool" where
  "evaluate_condition L current_hm condition c =
     (case condition of
        None \<Rightarrow> True
      | Some cd \<Rightarrow>
          (case given (c_user_role cd) of None \<Rightarrow> True | Some r \<Rightarrow> rc_user_role c = Some r)
        \<and> (case c_org_id cd of None \<Rightarrow> True | Some g \<Rightarrow> rc_org_id c = Some g)
        \<and> check_time current_hm cd \<and> check_ip L cd (rc_client_ip c))"

section \<open>Evaluation\<close>

definition violation :: "security_policy \<Rightarrow> request_context \<Rightarrow> security_error" where
  "violation p c = PolicyViolationError (''Policy '' @ [CHR 0x27] @ p_name p @ [CHR 0x27] @ '' denies ''
     @ rc_action c @ '' on '' @ rc_resource c @ ''.'')"

fun evaluate_list :: "ip_library \<Rightarrow> string \<Rightarrow> request_context \<Rightarrow> security_policy list \<Rightarrow> (security_error, bool) result" where
  "evaluate_list L hm c [] = Ok False"
| "evaluate_list L hm c (p # ps) =
     (if \<not> policy_matches p c then evaluate_list L hm c ps
      else if p_effect p = ''deny'' then Err (violation p c)
      else if p_effect p = ''allow'' then Ok True
      else if p_effect p = ''conditional'' \<and> evaluate_condition L hm (p_condition p) c then Ok True
      else evaluate_list L hm c ps)"

definition evaluate_policies ::
  "ip_library \<Rightarrow> int \<Rightarrow> string \<Rightarrow> request_context \<Rightarrow> policy_state \<Rightarrow> (security_error, bool) result \<times> policy_state" where
  "evaluate_policies L now hm c s =
     (let (policies, s') = load_policies now s in (evaluate_list L hm c policies, s'))"

section \<open>The service\<close>

definition create_policy :: "int \<Rightarrow> security_policy \<Rightarrow> policy_state \<Rightarrow> (service_error, int) result \<times> policy_state" where
  "create_policy nid p s =
     (if lookup_by p_name (ps_table s) (p_name p) \<noteq> None then (Err IntegrityError, s)
      else (Ok nid, invalidate_policy_cache (s\<lparr>ps_table := repo_create nid p (ps_table s)\<rparr>)))"

text \<open>The keyword arguments of \<open>update\<close>, in the order given.\<close>

datatype policy_field =
    F_name string | F_resource string | F_action string | F_effect string
  | F_condition "policy_condition option" | F_is_active bool | F_unknown string

fun set_policy_field :: "policy_field \<Rightarrow> security_policy \<Rightarrow> security_policy" where
  "set_policy_field (F_name x) p = p\<lparr>p_name := x\<rparr>"
| "set_policy_field (F_resource x) p = p\<lparr>p_resource := x\<rparr>"
| "set_policy_field (F_action x) p = p\<lparr>p_action := x\<rparr>"
| "set_policy_field (F_effect x) p = p\<lparr>p_effect := x\<rparr>"
| "set_policy_field (F_condition x) p = p\<lparr>p_condition := x\<rparr>"
| "set_policy_field (F_is_active x) p = p\<lparr>p_is_active := x\<rparr>"
| "set_policy_field (F_unknown x) p = p"

definition update_policy :: "int \<Rightarrow> policy_field list \<Rightarrow> policy_state
    \<Rightarrow> (service_error, security_policy option) result \<times> policy_state" where
  "update_policy policy_id kwargs s =
     (case repo_get (ps_table s) policy_id of
        None \<Rightarrow> (Ok None, s)
      | Some p \<Rightarrow>
          (let p' = fold set_policy_field kwargs p
           in case lookup_by p_name (repo_delete policy_id (ps_table s)) (p_name p') of
                Some _ \<Rightarrow> (Err IntegrityError, s)
              | None \<Rightarrow> (Ok (Some p'), invalidate_policy_cache (s\<lparr>ps_table := repo_update policy_id p' (ps_table s)\<rparr>))))"

definition delete_policy :: "int \<Rightarrow> policy_state \<Rightarrow> bool \<times> policy_state" where
  "delete_policy policy_id s =
     (case repo_get (ps_table s) policy_id of
        None \<Rightarrow> (False, s)
      | Some _ \<Rightarrow> (True, invalidate_policy_cache (s\<lparr>ps_table := repo_delete policy_id (ps_table s)\<rparr>)))"

section \<open>What evaluation decides\<close>

definition decisive :: "ip_library \<Rightarrow> string \<Rightarrow> request_context \<Rightarrow> security_policy \<Rightarrow> bool" where
  "decisive L hm c p \<longleftrightarrow> policy_matches p c \<and>
     (p_effect p = ''deny'' \<or> p_effect p = ''allow''
      \<or> p_effect p = ''conditional'' \<and> evaluate_condition L hm (p_condition p) c)"

lemma evaluate_list_find:
  "evaluate_list L hm c ps =
     (case find (decisive L hm c) ps of
        None \<Rightarrow> Ok False
      | Some p \<Rightarrow> if p_effect p = ''deny'' then Err (violation p c) else Ok True)"
  by (induction ps) (auto simp: decisive_def)

text \<open>
  A request is decided by the first policy, in load order, that settles it:
  one that matches resource and action and either denies, or allows, or is
  conditional with its condition satisfied.  A deny raises, the others allow,
  and with no such policy the answer is no.  So an \<open>allow\<close> that comes first
  overrides every later matching \<open>deny\<close>.
\<close>

theorem first_decisive_policy_wins:
  "evaluate_list L hm c ps =
     (case find (decisive L hm c) ps of
        None \<Rightarrow> Ok False
      | Some p \<Rightarrow> if p_effect p = ''deny'' then Err (violation p c) else Ok True)
   \<and> evaluate_list L hm c (\<lparr>p_name = n, p_resource = rc_resource c, p_action = rc_action c,
        p_effect = ''allow'', p_condition = cd, p_is_active = True\<rparr> # ps) = Ok True"
  by (simp add: evaluate_list_find policy_matches_def decisive_def)

text \<open>
  A condition on the user's role is never satisfied by the application's
  own users: the model class has roles but no attribute \<open>role\<close>, so the engine
  reads none, and a conditional policy that requires a role decides nothing.
\<close>

theorem role_condition_unsatisfiable:
  assumes "rc_user_role c = None" and "c_user_role cd = Some (x # xs)"
    and "p_effect p = ''conditional''" and "p_condition p = Some cd"
  shows "\<not> decisive L hm c p \<and> evaluate_list L hm c (p # ps) = evaluate_list L hm c ps"
  using assms by (simp add: decisive_def evaluate_condition_def given_def)

theorem role_condition_unsatisfiable_witness:
  "\<not> decisive \<lparr>valid_ip = (\<lambda>_. True), in_network = (\<lambda>_ _. None)\<rparr> ''10:00''
      \<lparr>rc_user_role = None, rc_org_id = None, rc_resource = ''r'', rc_action = ''a'', rc_client_ip = None\<rparr>
      \<lparr>p_name = ''p'', p_resource = ''r'', p_action = ''a'', p_effect = ''conditional'',
       p_condition = Some \<lparr>c_user_role = Some ''admin'', c_org_id = None, c_time_from = None,
          c_time_until = None, c_allowed_ips = None\<rparr>, p_is_active = True\<rparr>"
  using role_condition_unsatisfiable
    [of "\<lparr>rc_user_role = None, rc_org_id = None, rc_resource = ''r'', rc_action = ''a'', rc_client_ip = None\<rparr>"
        "\<lparr>c_user_role = Some ''admin'', c_org_id = None, c_time_from = None,
          c_time_until = None, c_allowed_ips = None\<rparr>" "CHR ''a''" "''dmin''"
        "\<lparr>p_name = ''p'', p_resource = ''r'', p_action = ''a'', p_effect = ''conditional'',
       p_condition = Some \<lparr>c_user_role = Some ''admin'', c_org_id = None, c_time_from = None,
          c_time_until = None, c_allowed_ips = None\<rparr>, p_is_active = True\<rparr>"]
  by simp

section \<open>Cache coherence\<close>

text \<open>The operations of one process, each with the clock at which it runs.\<close>

datatype policy_op =
    PCreate int security_policy
  | PUpdate int "policy_field list"
  | PDelete int
  | PEvaluate ip_library string request_context

fun policy_step :: "int \<Rightarrow> policy_op \<Rightarrow> policy_state \<Rightarrow> policy_state" where
  "policy_step now (PCreate nid p) s = snd (create_policy nid p s)"
| "policy_step now (PUpdate i kw) s = snd (update_policy i kw s)"
| "policy_step now (PDelete i) s = snd (delete_policy i s)"
| "policy_step now (PEvaluate L hm c) s = snd (evaluate_policies L now hm c s)"

definition coherent :: "policy_state \<Rightarrow> bool" where
  "coherent s \<longleftrightarrow> ps_loaded_at s = 0 \<or> ps_cache s = map snd (get_active (ps_table s))"

lemma coherent_load: "coherent s \<Longrightarrow> coherent (snd (load_policies now s))"
  by (simp add: coherent_def load_policies_def Let_def)

lemma coherent_step: "coherent s \<Longrightarrow> coherent (policy_step now op s)"
proof (cases op)
  case (PEvaluate L hm c)
  then show "coherent s \<Longrightarrow> ?thesis"
    using coherent_load [of s now] by (simp add: evaluate_policies_def split_beta)
qed (auto simp: coherent_def create_policy_def update_policy_def delete_policy_def
    invalidate_policy_cache_def Let_def split: option.splits)

lemma coherent_run: "coherent s \<Longrightarrow> coherent (fold (\<lambda>(now, op). policy_step now op) ops s)"
  by (induction ops arbitrary: s) (auto simp: coherent_step)

lemma load_coherent:
  "coherent s \<Longrightarrow> CACHE_TTL < now \<Longrightarrow> fst (load_policies now s) = map snd (get_active (ps_table s))"
  by (auto simp: coherent_def load_policies_def Let_def)

text \<open>
  The cache is coherent.  Within one process, after any sequence of
  creations, updates, deletions and evaluations through the service, an
  evaluation decides by exactly the active policies the table holds at that
  moment: every edit invalidates the cache, so the sixty seconds of its
  lifetime never serve a policy that was changed.
\<close>

theorem evaluation_uses_current_policies:
  assumes "coherent s" and "60000000 < now"
    and "s' = fold (\<lambda>(t, op). policy_step t op) ops s"
  shows "fst (evaluate_policies L now hm c s') = evaluate_list L hm c (map snd (get_active (ps_table s')))"
proof -
  have "coherent s'" using assms(1,3) by (simp add: coherent_run)
  then have "fst (load_policies now s') = map snd (get_active (ps_table s'))"
    using assms(2) by (simp add: load_coherent CACHE_TTL_def)
  then show ?thesis by (simp add: evaluate_policies_def split_beta)
qed

theorem evaluation_uses_current_policies_witness:
  "let s = \<lparr>ps_table = [], ps_cache = [], ps_loaded_at = 0\<rparr>;
       L = \<lparr>valid_ip = (\<lambda>_. True), in_network = (\<lambda>_ _. None)\<rparr>;
       c = \<lparr>rc_user_role = None, rc_org_id = None, rc_resource = ''r'', rc_action = ''a'', rc_client_ip = None\<rparr>;
       p = \<lparr>p_name = ''p'', p_resource = ''r'', p_action = ''a'', p_effect = ''deny'',
            p_condition = None, p_is_active = True\<rparr>;
       s' = fold (\<lambda>(t, op). policy_step t op) [(70000000, PEvaluate L ''10:00'' c), (70000001, PCreate 1 p)] s
   in fst (evaluate_policies L 70000002 ''10:00'' c s') = Err (violation p c)"
  unfolding Let_def
  by (subst evaluation_uses_current_policies [OF _ _ refl])
    (simp_all add: coherent_def evaluate_policies_def load_policies_def create_policy_def CACHE_TTL_def
      get_active_def repo_where_def repo_create_def lookup_by_def repo_first_def
      invalidate_policy_cache_def Let_def policy_matches_def)

end
