(* ===== verification/Secrets.thy ===== *)
theory Secrets
  imports Prelude
begin

text \<open>
  The secret manager (\<open>security/secret_manager.py\<close>) and field encryption with
  key rotation (\<open>security/encryption.py\<close>).  The process environment is the
  state, a dictionary of strings.  Fernet is a parameter: a check of key syntax,
  authenticated encryption under a key with the randomness of the call as an
  argument, and decryption, which yields nothing for a token that the key does
  not authenticate.
\<close>

type_synonym environ = "(string, string) dict"

datatype secret_error = NotImplementedError string | FernetKeyError | InvalidToken

datatype backend = EnvBackend | VaultBackend | AWSBackend | AzureBackend | GCPBackend

definition env_name :: "string \<Rightarrow> string" where
  "env_name name = ''AGENTCORP_SECRET_'' @ py_upper name"

definition stub_message :: "backend \<Rightarrow> string" where
  "stub_message b = (case b of
       EnvBackend \<Rightarrow> ''''
     | VaultBackend \<Rightarrow> ''VaultBackend requires hvac client and VAULT_ADDR/VAULT_TOKEN configuration.''
     | AWSBackend \<Rightarrow> ''AWSBackend requires boto3 and AWS_ACCESS_KEY_ID/AWS_SECRET_ACCESS_KEY configuration.''
     | AzureBackend \<Rightarrow> ''AzureBackend requires azure-keyvault-secrets and AZURE_KEY_VAULT_URL configuration.''
     | GCPBackend \<Rightarrow> ''GCPBackend requires google-cloud-secret-manager and GCP_PROJECT_ID configuration.'')"

definition backend_get :: "backend \<Rightarrow> string \<Rightarrow> environ \<Rightarrow> (secret_error, string option) result" where
  "backend_get b name env =
     (case b of EnvBackend \<Rightarrow> Ok (dict_get env (env_name name))
      | _ \<Rightarrow> Err (NotImplementedError (stub_message b)))"

definition backend_set :: "backend \<Rightarrow> string \<Rightarrow> string \<Rightarrow> environ \<Rightarrow> (secret_error, environ) result" where
  "backend_set b name v env =
     (case b of EnvBackend \<Rightarrow> Ok (dict_set env (env_name name) v)
      | _ \<Rightarrow> Err (NotImplementedError (stub_message b)))"

definition BACKENDS :: "(string, backend) dict" where
  "BACKENDS = [(''env'', EnvBackend), (''vault'', VaultBackend), (''aws'', AWSBackend),
     (''azure'', AzureBackend), (''gcp'', GCPBackend)]"

definition get_backend :: "environ \<Rightarrow> backend" where
  "get_backend env =
     dict_get_or BACKENDS (py_lower (dict_get_or env ''SECRET_BACKEND'' ''env'')) EnvBackend"

definition get_secret :: "string \<Rightarrow> environ \<Rightarrow> (secret_error, string option) result" where
  "get_secret name env = backend_get (get_backend env) name env"

definition set_secret :: "string \<Rightarrow> string \<Rightarrow> environ \<Rightarrow> (secret_error, environ) result" where
  "set_secret name v env = backend_set (get_backend env) name v env"

section \<open>Keys\<close>

record fernet =
  key_ok :: "string \<Rightarrow> bool"
  fencrypt :: "string \<Rightarrow> string \<Rightarrow> string \<Rightarrow> string"
  fdecrypt :: "string \<Rightarrow> string \<Rightarrow> string option"

text \<open>\<open>generated\<close> is the key that \<open>Fernet.generate_key()\<close> would return.\<close>

definition load_primary_key :: "string \<Rightarrow> environ \<Rightarrow> (secret_error, string \<times> environ) result" where
  "load_primary_key generated env =
     bind_ok (get_secret ''ENCRYPTION_KEY'' env) (\<lambda>raw.
       case raw of
         Some (c # cs) \<Rightarrow> Ok (c # cs, env)
       | _ \<Rightarrow> Ok (generated, dict_set env ''AGENTCORP_SECRET_ENCRYPTION_KEY'' generated))"

fun rotation_keys :: "nat list \<Rightarrow> environ \<Rightarrow> (secret_error, string list) result" where
  "rotation_keys [] env = Ok []"
| "rotation_keys (i # is) env =
     bind_ok (get_secret (''ENCRYPTION_KEY_'' @ show_nat i) env) (\<lambda>raw.
       case raw of
         Some (c # cs) \<Rightarrow> bind_ok (rotation_keys is env) (\<lambda>ks. Ok ((c # cs) # ks))
       | _ \<Rightarrow> Ok [])"

definition load_all_keys :: "string \<Rightarrow> environ \<Rightarrow> (secret_error, string list \<times> environ) result" where
  "load_all_keys generated env =
     bind_ok (load_primary_key generated env) (\<lambda>(k, env').
     bind_ok (rotation_keys [1..<11] env') (\<lambda>ks. Ok (k # ks, env')))"

section \<open>Encryption\<close>

definition encrypt :: "fernet \<Rightarrow> string \<Rightarrow> string \<Rightarrow> string \<Rightarrow> environ \<Rightarrow> (secret_error, string \<times> environ) result" where
  "encrypt F generated rnd v env =
     bind_ok (load_primary_key generated env) (\<lambda>(k, env').
       if key_ok F k then Ok (fencrypt F k rnd v, env') else Err FernetKeyError)"

fun try_keys :: "fernet \<Rightarrow> string list \<Rightarrow> string \<Rightarrow> string option" where
  "try_keys F [] token = None"
| "try_keys F (k # ks) token = (case fdecrypt F k token of Some v \<Rightarrow> Some v | None \<Rightarrow> try_keys F ks token)"

definition decrypt :: "fernet \<Rightarrow> string \<Rightarrow> string \<Rightarrow> environ \<Rightarrow> (secret_error, string \<times> environ) result" where
  "decrypt F generated token env =
     bind_ok (load_all_keys generated env) (\<lambda>(ks, env').
       if list_all (key_ok F) ks
       then (case try_keys F ks token of None \<Rightarrow> Err InvalidToken | Some v \<Rightarrow> Ok (v, env'))
       else Err FernetKeyError)"

section \<open>Lookup after storing\<close>

lemma env_name_not_backend [simp]: "''SECRET_BACKEND'' \<noteq> env_name n"
  by (simp add: env_name_def)

lemma env_name_inject [simp]: "env_name m = env_name n \<longleftrightarrow> py_upper m = py_upper n"
  by (simp add: env_name_def)

lemma get_backend_set [simp]: "get_backend (dict_set env (env_name n) v) = get_backend env"
  by (simp add: get_backend_def dict_get_or_set)

text \<open>
  A stored secret is read back under any spelling of its name that agrees
  up to case, every other secret is left alone, and the backend in use does not
  change; the stub backends refuse both operations.
\<close>

theorem secret_round_trip:
  "case set_secret n v env of
     Inr env' \<Rightarrow> get_backend env = EnvBackend
       \<and> get_secret m env' = (if py_upper m = py_upper n then Ok (Some v) else get_secret m env)
   | Inl _ \<Rightarrow> get_backend env \<noteq> EnvBackend \<and> \<not> is_ok (get_secret m env)"
  by (cases "get_backend env")
    (auto simp: set_secret_def get_secret_def backend_set_def backend_get_def dict_get_set)

section \<open>Rotation\<close>

definition slot_name :: "nat \<Rightarrow> string" where
  "slot_name i = ''ENCRYPTION_KEY_'' @ show_nat i"

definition stored :: "environ \<Rightarrow> string \<Rightarrow> string option" where
  "stored env name = dict_get env (env_name name)"

lemma upper_digit: "d < 10 \<Longrightarrow> upper_char (digit_char d) = digit_char d"
  by (simp add: upper_char_def of_char_digit_char Let_def)

lemma upper_show_nat: "py_upper (show_nat n) = show_nat n"
proof (induction n rule: show_nat.induct)
  case (1 n)
  then show ?case by (subst (1 2) show_nat.simps) (simp add: py_upper_def upper_digit)
qed

lemma env_name_slot_inject [simp]: "py_upper (slot_name i) = py_upper (slot_name j) \<longleftrightarrow> i = j"
proof -
  have "py_upper (slot_name i) = py_upper ''ENCRYPTION_KEY_'' @ show_nat i" for i
    using upper_show_nat [of i] by (simp add: slot_name_def py_upper_def)
  then show ?thesis by simp
qed

lemma rotation_keys_all:
  "get_backend env = EnvBackend \<Longrightarrow> \<forall>i\<in>set is. \<exists>c cs. stored env (slot_name i) = Some (c # cs) \<Longrightarrow>
   rotation_keys (is @ js) env = map_sum id (\<lambda>ks. map (\<lambda>i. the (stored env (slot_name i))) is @ ks) (rotation_keys js env)"
proof (induction "is")
  case Nil
  show ?case by (cases "rotation_keys js env") auto
next
  case (Cons i "is")
  then obtain c cs where "get_secret (''ENCRYPTION_KEY_'' @ show_nat i) env = Ok (Some (c # cs))"
      "the (stored env (slot_name i)) = c # cs"
    by (force simp: get_secret_def backend_get_def stored_def slot_name_def)
  with Cons show ?case by (cases "rotation_keys js env") auto
qed

lemma rotation_keys_ok: "get_backend env = EnvBackend \<Longrightarrow> is_ok (rotation_keys is env)"
  by (induction "is") (auto simp: get_secret_def backend_get_def is_ok_iff split: option.split list.split)

lemma try_keys_authentic:
  "k \<in> set ks \<Longrightarrow> fdecrypt F k token = Some v \<Longrightarrow> (\<And>k'. k' \<noteq> k \<Longrightarrow> fdecrypt F k' token = None) \<Longrightarrow>
   try_keys F ks token = Some v"
proof (induction ks)
  case (Cons k' ks)
  then show ?case by (cases "k' = k") auto
qed simp

lemma load_all_keys_slots:
  assumes env: "get_backend env = EnvBackend" and primary: "stored env ''ENCRYPTION_KEY'' = Some (c # cs)"
    and slots: "\<forall>i\<in>{1..n}. \<exists>d ds. stored env (slot_name i) = Some (d # ds)" and n: "n \<le> 10"
  shows "\<exists>rest. load_all_keys g env = Ok ((c # cs) # map (\<lambda>i. the (stored env (slot_name i))) [1..<n + 1] @ rest, env)"
proof -
  have split: "[1..<11] = [1..<n + 1] @ [n + 1..<11]"
  proof -
    have "n + 1 + (10 - n) = 11" using n by simp
    then show ?thesis using upt_add_eq_append [of 1 "n + 1" "10 - n"] by (metis le_add2)
  qed
  obtain rest where "rotation_keys [n + 1..<11] env = Ok rest"
    using rotation_keys_ok [OF env, of "[n + 1..<11]"] by (auto simp: is_ok_iff)
  moreover have "rotation_keys ([1..<n + 1] @ [n + 1..<11]) env =
      map_sum id (\<lambda>ks. map (\<lambda>i. the (stored env (slot_name i))) [1..<n + 1] @ ks) (rotation_keys [n + 1..<11] env)"
    using slots by (intro rotation_keys_all [OF env]) auto
  moreover have "load_primary_key g env = Ok (c # cs, env)"
    using env primary by (simp add: load_primary_key_def get_secret_def backend_get_def stored_def)
  ultimately show ?thesis
    unfolding load_all_keys_def split by (simp del: upt_Suc)
qed

text \<open>
  Data stays readable across key rotation.  With keys in the primary slot
  and in the first \<open>n\<close> rotation slots (at most ten), every token encrypted
  under any of them is decrypted to its plaintext, whatever the order of the
  keys; a token of the primary key is the special case of no rotation.
\<close>

theorem decrypt_after_rotation:
  assumes valid: "\<And>ks e. load_all_keys g env = Ok (ks, e) \<Longrightarrow> list_all (key_ok F) ks"
    and correct: "\<And>k r v. key_ok F k \<Longrightarrow> fdecrypt F k (fencrypt F k r v) = Some v"
    and authentic: "\<And>k k' r v. k' \<noteq> k \<Longrightarrow> fdecrypt F k' (fencrypt F k r v) = None"
    and env: "get_backend env = EnvBackend" and primary: "stored env ''ENCRYPTION_KEY'' = Some (c # cs)"
    and slots: "\<forall>i\<in>{1..n}. \<exists>d ds. stored env (slot_name i) = Some (d # ds)" and n: "n \<le> 10"
    and key: "k = c # cs \<or> (\<exists>i\<in>{1..n}. stored env (slot_name i) = Some k)"
  shows "decrypt F g (fencrypt F k rnd v) env = Ok (v, env)"
proof -
  obtain rest where keys: "load_all_keys g env =
      Ok ((c # cs) # map (\<lambda>i. the (stored env (slot_name i))) [1..<n + 1] @ rest, env)"
    using load_all_keys_slots [OF env primary slots n] by blast
  have k: "k \<in> set ((c # cs) # map (\<lambda>i. the (stored env (slot_name i))) [1..<n + 1] @ rest)"
    using key by force
  with valid [OF keys] have "key_ok F k" by (simp add: list_all_iff del: upt_Suc) blast
  then have "try_keys F ((c # cs) # map (\<lambda>i. the (stored env (slot_name i))) [1..<n + 1] @ rest)
      (fencrypt F k rnd v) = Some v"
    using correct authentic by (intro try_keys_authentic [OF k]) auto
  with valid [OF keys] show ?thesis
    unfolding decrypt_def keys by (simp only: bind_ok.simps prod.case if_True option.case)
qed

text \<open>A Fernet stand-in whose tokens carry the key they were made with.\<close>

definition tag :: "string \<Rightarrow> string" where
  "tag k = replicate (length k) (CHR ''1'') @ CHR ''0'' # k"

definition toy_fernet :: fernet where
  "toy_fernet = \<lparr>key_ok = (\<lambda>_. True), fencrypt = (\<lambda>k r v. tag k @ v),
     fdecrypt = (\<lambda>k t. if starts_with (tag k) t then Some (drop (length (tag k)) t) else None)\<rparr>"

lemma tag_prefix: "tag k' @ u = tag k @ v \<Longrightarrow> k' = k"
proof -
  assume eq: "tag k' @ u = tag k @ v"
  have "length (takeWhile (\<lambda>c. c = CHR ''1'') (tag k @ v)) = length k" for k v
    by (simp add: tag_def takeWhile_append)
  with eq have "length k' = length k" by metis
  with eq show ?thesis by (simp add: tag_def)
qed

lemma toy_fernet_laws:
  "fdecrypt toy_fernet k (fencrypt toy_fernet k r v) = Some v"
  "k' \<noteq> k \<Longrightarrow> fdecrypt toy_fernet k' (fencrypt toy_fernet k r v) = None"
  using tag_prefix by (auto simp: toy_fernet_def starts_with_iff)

theorem decrypt_after_rotation_witness:
  "decrypt toy_fernet ''gen'' (fencrypt toy_fernet ''old'' ''r'' ''data'')
     [(env_name ''ENCRYPTION_KEY'', ''new''), (env_name (slot_name 1), ''old'')]
   = Ok (''data'', [(env_name ''ENCRYPTION_KEY'', ''new''), (env_name (slot_name 1), ''old'')])"
proof (rule decrypt_after_rotation [where n = 1 and c = "CHR ''n''" and cs = "''ew''"])
  have "py_upper ''ENCRYPTION_KEY'' \<noteq> py_upper (slot_name 1)"
    by (simp add: py_upper_def slot_name_def)
  then show "\<forall>i\<in>{1..1}. \<exists>d ds. stored [(env_name ''ENCRYPTION_KEY'', ''new''), (env_name (slot_name 1), ''old'')]
      (slot_name i) = Some (d # ds)"
    and "''old'' = CHR ''n'' # ''ew'' \<or> (\<exists>i\<in>{1..1}. stored [(env_name ''ENCRYPTION_KEY'', ''new''),
      (env_name (slot_name 1), ''old'')] (slot_name i) = Some ''old'')"
    by (simp_all add: stored_def)
  show "get_backend [(env_name ''ENCRYPTION_KEY'', ''new''), (env_name (slot_name 1), ''old'')] = EnvBackend"
    by (simp add: get_backend_def dict_get_or_def BACKENDS_def) (code_simp)
qed (simp_all add: toy_fernet_laws stored_def list_all_iff, simp add: toy_fernet_def)

end
