(* ===== verification/Goals.thy ===== *)
theory Goals
  imports Prelude
begin

text \<open>
  Goals of the runtime (\<open>runtime/goal_management.py\<close>): the immutable report,
  the engine that creates, updates, closes, cancels and orders goals, and the
  parsers for stored priorities and states.  Time stamps are ISO strings and
  the clock is an argument.
\<close>

datatype goal_state =
    G_CREATED | G_ANALYZED | G_PLANNED | G_READY | G_ACTIVE | G_BLOCKED
  | G_COMPLETED | G_FAILED | G_CANCELLED

datatype goal_priority = LOW | MEDIUM | HIGH | URGENT

record goal_link =
  gl_goal_id :: int
  gl_relation :: string

record milestone =
  ms_title :: string
  ms_description :: "string option"
  ms_achieved :: bool
  ms_achieved_at :: "string option"

record goal_report =
  g_goal_id :: "int option"
  g_title :: string
  g_description :: "string option"
  g_objective :: string
  g_owner_id :: "int option"
  g_organization_id :: "int option"
  g_priority :: goal_priority
  g_status :: goal_state
  g_dependencies :: "goal_link list"
  g_parent_goal_id :: "int option"
  g_child_goal_ids :: "int list"
  g_milestones :: "milestone list"
  g_created_at :: string
  g_updated_at :: string
  g_completed_at :: "string option"
  g_metadata :: metadata

definition priority_rank :: "goal_priority \<Rightarrow> nat" where
  "priority_rank p = (case p of URGENT \<Rightarrow> 0 | HIGH \<Rightarrow> 1 | MEDIUM \<Rightarrow> 2 | LOW \<Rightarrow> 3)"

definition priority_value :: "goal_priority \<Rightarrow> string" where
  "priority_value p = (case p of LOW \<Rightarrow> ''low'' | MEDIUM \<Rightarrow> ''medium'' | HIGH \<Rightarrow> ''high'' | URGENT \<Rightarrow> ''urgent'')"

definition state_value :: "goal_state \<Rightarrow> string" where
  "state_value s = (case s of
      G_CREATED \<Rightarrow> ''CREATED'' | G_ANALYZED \<Rightarrow> ''ANALYZED'' | G_PLANNED \<Rightarrow> ''PLANNED''
    | G_READY \<Rightarrow> ''READY'' | G_ACTIVE \<Rightarrow> ''ACTIVE'' | G_BLOCKED \<Rightarrow> ''BLOCKED''
    | G_COMPLETED \<Rightarrow> ''COMPLETED'' | G_FAILED \<Rightarrow> ''FAILED'' | G_CANCELLED \<Rightarrow> ''CANCELLED'')"

section \<open>The engine\<close>

definition create_goal ::
  "string \<Rightarrow> string \<Rightarrow> string \<Rightarrow> int \<Rightarrow> int \<Rightarrow> string option \<Rightarrow> goal_priority \<Rightarrow> int option
   \<Rightarrow> goal_link list \<Rightarrow> metadata option \<Rightarrow> goal_report" where
  "create_goal now title objective owner_id organization_id descr priority parent dependencies meta =
     \<lparr>g_goal_id = None, g_title = title, g_description = descr, g_objective = objective,
      g_owner_id = Some owner_id, g_organization_id = Some organization_id, g_priority = priority,
      g_status = G_CREATED, g_dependencies = dependencies, g_parent_goal_id = parent,
      g_child_goal_ids = [], g_milestones = [], g_created_at = now, g_updated_at = now,
      g_completed_at = None, g_metadata = (case meta of None \<Rightarrow> [] | Some m \<Rightarrow> m)\<rparr>"

definition goal_terminal :: "goal_state \<Rightarrow> bool" where
  "goal_terminal s = (s = G_COMPLETED \<or> s = G_CANCELLED \<or> s = G_FAILED)"

definition update_goal ::
  "string \<Rightarrow> goal_state option \<Rightarrow> goal_priority option \<Rightarrow> milestone list option \<Rightarrow> metadata option
   \<Rightarrow> goal_report \<Rightarrow> goal_report" where
  "update_goal now status priority milestones meta g =
     g\<lparr>g_priority := (case priority of None \<Rightarrow> g_priority g | Some p \<Rightarrow> p),
       g_status := (case status of None \<Rightarrow> g_status g | Some s \<Rightarrow> s),
       g_milestones := (case milestones of Some (m # ms) \<Rightarrow> m # ms | _ \<Rightarrow> g_milestones g),
       g_updated_at := now,
       g_completed_at := (case status of
           Some s \<Rightarrow> (if goal_terminal s then Some now else g_completed_at g)
         | None \<Rightarrow> g_completed_at g),
       g_metadata := dict_merge (g_metadata g) (case meta of None \<Rightarrow> [] | Some m \<Rightarrow> m)\<rparr>"

definition close_goal :: "string \<Rightarrow> bool \<Rightarrow> goal_report \<Rightarrow> goal_report" where
  "close_goal now completed g = update_goal now (Some (if completed then G_COMPLETED else G_FAILED)) None None None g"

definition cancel_goal :: "string \<Rightarrow> goal_report \<Rightarrow> goal_report" where
  "cancel_goal now g = update_goal now (Some G_CANCELLED) None None None g"

definition goal_key :: "goal_report \<Rightarrow> nat \<times> string \<times> int" where
  "goal_key g = (priority_rank (g_priority g), g_created_at g, or_int (g_goal_id g) 0)"

definition prioritize_goals :: "goal_report list \<Rightarrow> goal_report list" where
  "prioritize_goals goals = sort_key goal_key goals"

definition goal_dependencies_met :: "goal_report \<Rightarrow> int set \<Rightarrow> bool" where
  "goal_dependencies_met g existing = list_all (\<lambda>l. gl_goal_id l \<in> existing) (g_dependencies g)"

definition track_milestone :: "string \<Rightarrow> milestone \<Rightarrow> goal_report \<Rightarrow> goal_report" where
  "track_milestone now m g = update_goal now None None (Some (g_milestones g @ [m])) None g"

definition priority_from_string :: "string \<Rightarrow> goal_priority" where
  "priority_from_string v =
     (let n = py_lower v in
      if n = ''urgent'' then URGENT else if n = ''high'' then HIGH
      else if n = ''medium'' then MEDIUM else if n = ''low'' then LOW else MEDIUM)"

definition status_from_string :: "string \<Rightarrow> goal_state" where
  "status_from_string v =
     (let n = py_upper v in
      if n = ''CREATED'' then G_CREATED else if n = ''ANALYZED'' then G_ANALYZED
      else if n = ''PLANNED'' then G_PLANNED else if n = ''READY'' then G_READY
      else if n = ''ACTIVE'' then G_ACTIVE else if n = ''BLOCKED'' then G_BLOCKED
      else if n = ''COMPLETED'' then G_COMPLETED else if n = ''FAILED'' then G_FAILED
      else if n = ''CANCELLED'' then G_CANCELLED else G_CREATED)"

lemma priority_round_trip: "priority_from_string (priority_value p) = p"
  by (cases p; simp only:; code_simp)

lemma status_round_trip: "status_from_string (state_value s) = s"
  by (cases s; simp only:; code_simp)

lemma prioritize_goals_perm: "mset (prioritize_goals gs) = mset gs"
  by (simp add: prioritize_goals_def)

lemma prioritize_goals_sorted:
  "sorted (map goal_key (prioritize_goals gs))"
  by (simp add: prioritize_goals_def)

lemma urgent_first:
  "i < j \<Longrightarrow> j < length gs \<Longrightarrow>
   priority_rank (g_priority (prioritize_goals gs ! i)) \<le> priority_rank (g_priority (prioritize_goals gs ! j))"
proof -
  assume ij: "i < j" "j < length gs"
  have "map goal_key (prioritize_goals gs) ! i \<le> map goal_key (prioritize_goals gs) ! j"
    using ij prioritize_goals_sorted [of gs]
    by (intro sorted_nth_mono) (auto simp: prioritize_goals_def)
  then show ?thesis using ij by (auto simp: goal_key_def prioritize_goals_def less_eq_prod_def)
qed

text \<open>
  Goal updates keep the identity of a goal and its time stamps consistent:
  id, title, objective, owner, organization, links and creation time never
  change, metadata keys are only added or overwritten, closing or cancelling
  stamps the completion time, a non-terminal update keeps it, and tracking
  milestones appends.
\<close>

theorem goal_update_frame:
  "let g' = update_goal now st pr msl meta g
   in g_goal_id g' = g_goal_id g \<and> g_title g' = g_title g \<and> g_objective g' = g_objective g
    \<and> g_owner_id g' = g_owner_id g \<and> g_organization_id g' = g_organization_id g
    \<and> g_dependencies g' = g_dependencies g \<and> g_created_at g' = g_created_at g \<and> g_updated_at g' = now
    \<and> dom (dict_get (g_metadata g)) \<subseteq> dom (dict_get (g_metadata g'))
    \<and> g_completed_at (close_goal now ok g) = Some now \<and> g_completed_at (cancel_goal now g) = Some now
    \<and> g_completed_at (track_milestone now m g) = g_completed_at g
    \<and> g_milestones (track_milestone now m g) = g_milestones g @ [m]
    \<and> status_from_string (state_value (g_status g')) = g_status g'
    \<and> priority_from_string (priority_value (g_priority g')) = g_priority g'"
proof -
  have dom: "\<exists>z. dict_get (dict_merge (g_metadata g) e) x = Some z"
    if "dict_get (g_metadata g) x = Some y" for e x y
    using that by (auto simp: dict_get_merge_rev split: option.split)
  show ?thesis
    by (auto simp: Let_def update_goal_def close_goal_def cancel_goal_def track_milestone_def goal_terminal_def
        priority_round_trip status_round_trip dom split: list.split)
qed

end
