(* ===== verification/Tasks.thy ===== *)
theory Tasks
  imports Goals
begin

text \<open>
  Tasks of the runtime (\<open>runtime/task_management.py\<close>): the report, the
  priority queue, and the manager that splits a goal into tasks, updates,
  orders and inspects them.  The deadline a goal's metadata carries is a string
  or missing, as the schedule's type says.
\<close>

datatype task_state =
    T_CREATED | T_READY | T_BLOCKED | T_WAITING | T_RUNNING | T_COMPLETED | T_FAILED | T_CANCELLED

record task_dependency =
  td_task_id :: string
  td_relation :: string

record task_schedule =
  sc_earliest_start :: "string option"
  sc_latest_finish :: "string option"
  sc_deadline :: "string option"
  sc_retry_eligible :: bool
  sc_estimated_duration :: "int option"

record task_report =
  tk_task_id :: "string option"
  tk_goal_id :: "int option"
  tk_parent_task_id :: "string option"
  tk_child_task_ids :: "string list"
  tk_title :: string
  tk_description :: "string option"
  tk_capability :: string
  tk_priority :: goal_priority
  tk_status :: task_state
  tk_dependencies :: "task_dependency list"
  tk_estimated_duration :: "int option"
  tk_schedule :: task_schedule
  tk_milestones :: "milestone list"
  tk_created_at :: string
  tk_updated_at :: string
  tk_completed_at :: "string option"
  tk_metadata :: metadata

record queue_snapshot =
  qs_queue_size :: nat
  qs_ready_count :: nat
  qs_blocked_count :: nat
  qs_completed_count :: nat
  qs_dependency_summary :: "(string, nat) dict"
  qs_priority_summary :: "(string, nat) dict"
  qs_queued_tasks :: "task_report list"

section \<open>The queue\<close>

definition task_key :: "task_report \<Rightarrow> bool \<times> nat \<times> string \<times> string \<times> string" where
  "task_key t = (tk_status t \<noteq> T_READY, priority_rank (tk_priority t),
     or_str (sc_deadline (tk_schedule t)) ''9999-12-31T23:59:59+00:00'',
     tk_created_at t, or_str (tk_task_id t) [])"

definition ordered :: "task_report list \<Rightarrow> task_report list" where
  "ordered ts = sort_key task_key ts"

definition enqueue :: "task_report \<Rightarrow> task_report list \<Rightarrow> task_report list" where
  "enqueue t q = ordered (q @ [t])"

definition dequeue :: "task_report list \<Rightarrow> task_report option \<times> task_report list" where
  "dequeue q = (case q of [] \<Rightarrow> (None, []) | t # ts \<Rightarrow> (Some t, ts))"

definition reorder :: "task_report list \<Rightarrow> task_report list" where
  "reorder ts = ordered ts"

definition count_if :: "('a \<Rightarrow> bool) \<Rightarrow> 'a list \<Rightarrow> nat" where
  "count_if P xs = length (filter P xs)"

definition snapshot :: "task_report list \<Rightarrow> queue_snapshot" where
  "snapshot ts =
     \<lparr>qs_queue_size = length ts,
      qs_ready_count = count_if (\<lambda>t. tk_status t = T_READY) ts,
      qs_blocked_count = count_if (\<lambda>t. tk_status t = T_BLOCKED) ts,
      qs_completed_count = count_if (\<lambda>t. tk_status t = T_COMPLETED) ts,
      qs_dependency_summary =
        [(''with_dependencies'', count_if (\<lambda>t. tk_dependencies t \<noteq> []) ts),
         (''without_dependencies'', count_if (\<lambda>t. tk_dependencies t = []) ts)],
      qs_priority_summary =
        map (\<lambda>p. (priority_value p, count_if (\<lambda>t. tk_priority t = p) ts)) [LOW, MEDIUM, HIGH, URGENT],
      qs_queued_tasks = ts\<rparr>"

section \<open>The manager\<close>

definition goal_prefix :: "goal_report \<Rightarrow> string" where
  "goal_prefix g = (case g_goal_id g of Some i \<Rightarrow> (if i \<noteq> 0 then show_int i else ''goal'') | None \<Rightarrow> ''goal'')"

definition task_id_of :: "goal_report \<Rightarrow> nat \<Rightarrow> string" where
  "task_id_of g i = goal_prefix g @ ''-task-'' @ show_nat i"

definition base_count :: "goal_report \<Rightarrow> nat" where
  "base_count g =
     (let q = length (split_ws (g_objective g)) div 4
      in max 1 (min 3 (if q = 0 then 1 else q)))"

definition deadline_of :: "metadata \<Rightarrow> string option" where
  "deadline_of m = (case dict_get m ''deadline'' of Some (JStr s) \<Rightarrow> Some s | _ \<Rightarrow> None)"

definition make_task :: "string \<Rightarrow> goal_report \<Rightarrow> nat \<Rightarrow> task_report" where
  "make_task now g index =
     \<lparr>tk_task_id = Some (task_id_of g (index + 1)), tk_goal_id = g_goal_id g, tk_parent_task_id = None,
      tk_child_task_ids = [], tk_title = g_title g @ '' - Step '' @ show_nat (index + 1),
      tk_description = Some (if index = 0 then g_objective g else ''Continue: '' @ g_objective g),
      tk_capability = (if index = 0 then ''analysis'' else ''planning''),
      tk_priority = g_priority g,
      tk_status = (if index = 0 then T_READY else T_BLOCKED),
      tk_dependencies = (if index > 0
        then [\<lparr>td_task_id = task_id_of g index, td_relation = ''prerequisite''\<rparr>] else []),
      tk_estimated_duration = Some (15 + int index * 10),
      tk_schedule = \<lparr>sc_earliest_start = Some now, sc_latest_finish = None,
        sc_deadline = deadline_of (g_metadata g), sc_retry_eligible = True,
        sc_estimated_duration = Some (15 + int index * 10)\<rparr>,
      tk_milestones = [], tk_created_at = now, tk_updated_at = now, tk_completed_at = None,
      tk_metadata = dict_merge [(''goal_objective'', JStr (g_objective g))] (g_metadata g)\<rparr>"

definition create_tasks :: "string \<Rightarrow> goal_report \<Rightarrow> task_report list" where
  "create_tasks now g = map (make_task now g) [0..<base_count g]"

definition split_goal :: "string \<Rightarrow> goal_report \<Rightarrow> task_report list" where
  "split_goal now g = create_tasks now g"

definition update_task :: "string \<Rightarrow> string \<Rightarrow> task_state option \<Rightarrow> metadata option \<Rightarrow> task_report \<Rightarrow> task_report" where
  "update_task now now' status meta t =
     t\<lparr>tk_status := (case status of None \<Rightarrow> tk_status t | Some s \<Rightarrow> s),
       tk_updated_at := now,
       tk_completed_at := (if status = Some T_COMPLETED then Some now' else tk_completed_at t),
       tk_metadata := dict_merge (tk_metadata t) (case meta of None \<Rightarrow> [] | Some m \<Rightarrow> m)\<rparr>"

definition cancel_task :: "string \<Rightarrow> task_report \<Rightarrow> task_report" where
  "cancel_task now t = update_task now now (Some T_CANCELLED) None t"

definition complete_task :: "string \<Rightarrow> string \<Rightarrow> task_report \<Rightarrow> task_report" where
  "complete_task now now' t = update_task now now' (Some T_COMPLETED) None t"

definition prioritize_tasks :: "task_report list \<Rightarrow> task_report list" where
  "prioritize_tasks ts = ordered ts"

definition dependencies_met :: "task_report \<Rightarrow> string list \<Rightarrow> bool" where
  "dependencies_met t completed = list_all (\<lambda>d. td_task_id d \<in> set completed) (tk_dependencies t)"

definition ready_tasks :: "task_report list \<Rightarrow> task_report list" where
  "ready_tasks ts = filter (\<lambda>t. tk_status t = T_READY) (prioritize_tasks ts)"

definition blocked_tasks :: "task_report list \<Rightarrow> task_report list" where
  "blocked_tasks ts = filter (\<lambda>t. tk_status t = T_BLOCKED) ts"

definition analyze_goal :: "string \<Rightarrow> goal_report \<Rightarrow> task_report option" where
  "analyze_goal now g = (case create_tasks now g of [] \<Rightarrow> None | t # _ \<Rightarrow> Some t)"

definition build_dependency_graph :: "task_report list \<Rightarrow> (string, string list) dict" where
  "build_dependency_graph ts =
     fold (\<lambda>(i, t) d. dict_set d (or_str (tk_task_id t) (''task-'' @ show_nat i)) (map td_task_id (tk_dependencies t)))
       (enumerate 0 ts) []"

definition queue_of :: "task_report list \<Rightarrow> task_report list" where
  "queue_of ts = fold enqueue ts []"

definition queue_snapshot_of :: "task_report list \<Rightarrow> queue_snapshot" where
  "queue_snapshot_of ts = snapshot (queue_of ts)"

section \<open>The queue contract\<close>

fun drain :: "('q \<Rightarrow> 'a option \<times> 'q) \<Rightarrow> nat \<Rightarrow> 'q \<Rightarrow> 'a list" where
  "drain deq 0 q = []"
| "drain deq (Suc n) q = (case deq q of (None, q') \<Rightarrow> [] | (Some x, q') \<Rightarrow> x # drain deq n q')"

locale ordered_queue =
  fixes key :: "'a \<Rightarrow> 'k::linorder"
    and elems :: "'q \<Rightarrow> 'a list"
    and invar :: "'q \<Rightarrow> bool"
    and enq :: "'a \<Rightarrow> 'q \<Rightarrow> 'q"
    and deq :: "'q \<Rightarrow> 'a option \<times> 'q"
  assumes invar_enq: "invar q \<Longrightarrow> invar (enq x q)"
    and elems_enq: "invar q \<Longrightarrow> elems (enq x q) = sort_key key (elems q @ [x])"
    and deq_none: "fst (deq q) = None \<longleftrightarrow> elems q = []"
    and deq_some: "invar q \<Longrightarrow> deq q = (Some x, q') \<Longrightarrow> elems q = x # elems q' \<and> invar q'"
    and invar_sorted: "invar q \<Longrightarrow> sorted (map key (elems q))"
begin

lemma enq_all: "invar q \<Longrightarrow> elems (fold enq xs q) = sort_key key (elems q @ xs) \<and> invar (fold enq xs q)"
proof (induction xs arbitrary: q)
  case Nil
  then show ?case by (simp add: invar_sorted sort_key_id_if_sorted)
next
  case (Cons x xs)
  then show ?case
    using sort_key_append_sorted [of key "elems q @ [x]" xs] by (simp add: invar_enq elems_enq)
qed

lemma drain_elems: "invar q \<Longrightarrow> length (elems q) \<le> n \<Longrightarrow> drain deq n q = elems q"
proof (induction n arbitrary: q)
  case (Suc n)
  obtain r q' where d: "deq q = (r, q')" by fastforce
  show ?case
  proof (cases r)
    case None
    then show ?thesis using d deq_none [of q] by simp
  next
    case (Some x)
    then show ?thesis using d Suc deq_some [of q x q'] by simp
  qed
qed simp

lemma drain_sorts: "invar q \<Longrightarrow> elems q = [] \<Longrightarrow> drain deq (length xs) (fold enq xs q) = sort_key key xs"
  using enq_all [of q xs] by (simp add: drain_elems)

lemma deq_minimal: "invar q \<Longrightarrow> deq q = (Some x, q') \<Longrightarrow> y \<in> set (elems q) \<Longrightarrow> key x \<le> key y"
  using deq_some [of q x q'] invar_sorted [of q] by auto

end

interpretation tq: ordered_queue task_key "\<lambda>q. q" "\<lambda>q. sorted (map task_key q)" enqueue dequeue
  by unfold_locales (auto simp: enqueue_def ordered_def dequeue_def split: list.splits)

lemma queue_of_ordered: "queue_of ts = ordered ts"
  using tq.enq_all [of "[]" ts] by (simp add: queue_of_def ordered_def)

text \<open>
  The task queue is a stable priority queue.  Tasks enqueued one by one in
  any number come out in the order the manager's own sort gives the whole
  list: ready before not ready, then by priority, deadline, creation time and
  id, and first-in first-out among equals; the snapshot of the queue counts
  every task exactly once.
\<close>

theorem task_queue_drains_sorted:
  "drain dequeue (length ts) (fold enqueue ts []) = prioritize_tasks ts
   \<and> mset (qs_queued_tasks (queue_snapshot_of ts)) = mset ts
   \<and> sum_list (map snd (qs_priority_summary (queue_snapshot_of ts))) = qs_queue_size (queue_snapshot_of ts)
   \<and> qs_queue_size (queue_snapshot_of ts) = length ts"
proof -
  have p: "count_if (\<lambda>t. tk_priority t = LOW) xs + (count_if (\<lambda>t. tk_priority t = MEDIUM) xs +
      (count_if (\<lambda>t. tk_priority t = HIGH) xs + count_if (\<lambda>t. tk_priority t = URGENT) xs)) = length xs" for xs
  proof (induction xs)
    case (Cons t xs)
    then show ?case by (cases "tk_priority t") (simp_all add: count_if_def)
  qed (simp add: count_if_def)
  have "drain dequeue (length ts) (fold enqueue ts []) = prioritize_tasks ts"
    using tq.drain_sorts [of "[]" ts] by (simp add: prioritize_tasks_def ordered_def)
  then show ?thesis
    using p [of "sort_key task_key ts"]
    by (simp add: queue_snapshot_of_def queue_of_ordered snapshot_def ordered_def)
qed

section \<open>Tasks of a goal\<close>

lemma task_id_inject [simp]: "task_id_of g i = task_id_of g j \<longleftrightarrow> i = j"
  by (simp add: task_id_of_def)

lemma base_count_bounds: "1 \<le> base_count g \<and> base_count g \<le> 3"
  by (simp add: base_count_def Let_def)

lemma base_count_one_iff: "base_count g = 1 \<longleftrightarrow> length (split_ws (g_objective g)) < 8"
  by (auto simp: base_count_def Let_def min_def max_def)

text \<open>
  Splitting a goal yields a chain of one to three tasks with distinct ids:
  exactly the first is ready and has no prerequisite, every later one is
  blocked and depends on just the task before it, so the dependency graph is
  acyclic and only names tasks of the goal.
\<close>

theorem split_goal_is_chain:
  "length (split_goal now g) = base_count g \<and> 1 \<le> base_count g \<and> base_count g \<le> 3
   \<and> distinct (map tk_task_id (split_goal now g))
   \<and> build_dependency_graph (split_goal now g) =
       map (\<lambda>i. (task_id_of g (i + 1), if i = 0 then [] else [task_id_of g i])) [0..<base_count g]
   \<and> map tk_status (split_goal now g) = T_READY # replicate (base_count g - 1) T_BLOCKED"
proof -
  have ne: "or_str (Some (task_id_of g i)) d = task_id_of g i" for i d
    by (cases "task_id_of g i") (auto simp: or_str_def task_id_of_def)
  have "distinct (map tk_task_id (split_goal now g))"
    by (simp add: split_goal_def create_tasks_def distinct_map inj_on_def make_task_def)
  moreover have "base_count g = 1 \<or> base_count g = 2 \<or> base_count g = 3"
    using base_count_bounds [of g] by linarith
  then have "build_dependency_graph (split_goal now g) =
       map (\<lambda>i. (task_id_of g (i + 1), if i = 0 then [] else [task_id_of g i])) [0..<base_count g]
   \<and> map tk_status (split_goal now g) = T_READY # replicate (base_count g - 1) T_BLOCKED"
    by (elim disjE)
      (simp_all add: split_goal_def create_tasks_def build_dependency_graph_def make_task_def ne
        upt_rec numeral_2_eq_2 numeral_3_eq_3)
  ultimately show ?thesis
    using base_count_bounds [of g] by (simp add: split_goal_def create_tasks_def)
qed

end
