(* ===== verification/Autonomous.thy ===== *)
theory Autonomous
  imports Tasks
begin

text \<open>
  The autonomous execution loop (\<open>runtime/autonomous_execution.py\<close>).  The
  runtime that executes one task is a parameter: given the message and the
  state of the world (the database and whatever else \<open>execute_chat\<close> reads or
  writes) it returns nothing on success or the text of the exception, and the
  world it leaves, which the loop hands on to the next task.  The clock
  readings of one run are only ever stored, never compared with one another,
  and are one argument.  Registration of traces with the diagnostics store is
  output and left out.
\<close>

datatype execution_decision = EXECUTABLE | BLOCKED | WAITING | SKIPPED | CANCELLED

definition decide :: "task_report \<Rightarrow> string list \<Rightarrow> execution_decision \<times> string" where
  "decide t completed_task_ids =
     (if tk_status t = T_CANCELLED then (CANCELLED, ''Task is cancelled.'')
      else if tk_status t = T_COMPLETED then (SKIPPED, ''Task already completed.'')
      else if \<not> dependencies_met t completed_task_ids then (BLOCKED, ''Dependencies are not satisfied.'')
      else if tk_status t = T_READY then (EXECUTABLE, ''Task is ready for execution.'')
      else (WAITING, ''Task is waiting for readiness.''))"

record 'w loop_state =
  ls_tasks :: "task_report list"
  ls_completed :: "task_report list"
  ls_failed :: "task_report list"
  ls_blocked :: "task_report list"
  ls_completed_ids :: "string list"
  ls_world :: 'w

definition replace_id :: "string option \<Rightarrow> (task_report \<Rightarrow> task_report) \<Rightarrow> task_report list \<Rightarrow> task_report list" where
  "replace_id i f ts = map (\<lambda>t. if tk_task_id t = i then f t else t) ts"

definition task_message :: "task_report \<Rightarrow> string" where
  "task_message t = or_str (tk_description t) (tk_title t)"

type_synonym 'w runtime = "string \<Rightarrow> 'w \<Rightarrow> string option \<times> 'w"

definition run_task :: "'w runtime \<Rightarrow> string \<Rightarrow> task_report \<Rightarrow> 'w loop_state \<Rightarrow> 'w loop_state" where
  "run_task run now active s =
     (let reserved = update_task now now (Some T_RUNNING) None active
      in case run (task_message reserved) (ls_world s) of
           (None, w) \<Rightarrow>
             (let finished = complete_task now now reserved
              in s\<lparr>ls_completed := ls_completed s @ [finished],
                   ls_completed_ids := ls_completed_ids s @ [or_str (tk_task_id finished) []],
                   ls_tasks := replace_id (tk_task_id finished) (\<lambda>_. finished) (ls_tasks s), ls_world := w\<rparr>)
         | (Some err, w) \<Rightarrow>
             (let failed = update_task now now (Some T_FAILED) (Some [(''error'', JStr err)]) reserved
              in s\<lparr>ls_failed := ls_failed s @ [failed],
                   ls_tasks := replace_id (tk_task_id failed) (\<lambda>_. failed) (ls_tasks s), ls_world := w\<rparr>))"

definition skip_task :: "string \<Rightarrow> execution_decision \<Rightarrow> task_report \<Rightarrow> 'w loop_state \<Rightarrow> 'w loop_state" where
  "skip_task now d active s =
     (case d of
        BLOCKED \<Rightarrow> s\<lparr>ls_blocked := ls_blocked s @ [active],
                     ls_tasks := replace_id (tk_task_id active) (update_task now now (Some T_BLOCKED) None) (ls_tasks s)\<rparr>
      | CANCELLED \<Rightarrow> s\<lparr>ls_tasks := replace_id (tk_task_id active) (cancel_task now) (ls_tasks s)\<rparr>
      | _ \<Rightarrow> s\<lparr>ls_tasks := replace_id (tk_task_id active) (update_task now now (Some T_WAITING) None) (ls_tasks s)\<rparr>)"

definition loop_step :: "'w runtime \<Rightarrow> string \<Rightarrow> 'w loop_state \<Rightarrow> 'w loop_state option" where
  "loop_step run now s =
     (case ready_tasks (ls_tasks s) of
        [] \<Rightarrow> None
      | active # _ \<Rightarrow>
          (let d = fst (decide active (ls_completed_ids s))
           in if d \<noteq> EXECUTABLE then Some (skip_task now d active s) else Some (run_task run now active s)))"

section \<open>Termination\<close>

definition ready_count :: "task_report list \<Rightarrow> nat" where
  "ready_count ts = count_if (\<lambda>t. tk_status t = T_READY) ts"

lemma replace_id_ready:
  assumes "t \<in> set ts" and "tk_status t = T_READY" and "\<And>u. tk_status (f u) \<noteq> T_READY"
  shows "ready_count (replace_id (tk_task_id t) f ts) < ready_count ts"
proof -
  have le: "ready_count (replace_id i f xs) \<le> ready_count xs" for i xs
    using assms(3) by (induction xs) (auto simp: ready_count_def count_if_def replace_id_def)
  show ?thesis
    using assms(1)
  proof (induction ts)
    case (Cons u ts)
    show ?case
    proof (cases "u = t")
      case True
      then show ?thesis using assms(2,3) le [of "tk_task_id t" ts]
        by (auto simp: ready_count_def count_if_def replace_id_def)
    next
      case False
      then show ?thesis using Cons assms(3) by (auto simp: ready_count_def count_if_def replace_id_def)
    qed
  qed simp
qed

lemma status_update_task [simp]: "tk_status (update_task n n' (Some st) m t) = st"
  by (simp add: update_task_def)

lemma task_id_update_task [simp]: "tk_task_id (update_task n n' st m t) = tk_task_id t"
  by (simp add: update_task_def)

lemma status_complete_task [simp]: "tk_status (complete_task n n' t) = T_COMPLETED"
  "tk_task_id (complete_task n n' t) = tk_task_id t" "tk_status (cancel_task n t) = T_CANCELLED"
  by (simp_all add: complete_task_def cancel_task_def)

lemma ready_tasks_Cons:
  "ready_tasks ts = t # rest \<Longrightarrow> t \<in> set ts \<and> tk_status t = T_READY"
proof -
  assume "ready_tasks ts = t # rest"
  then have "t \<in> set (ready_tasks ts)" by simp
  then show ?thesis by (simp add: ready_tasks_def prioritize_tasks_def ordered_def)
qed

lemma loop_step_decreases:
  assumes "loop_step run now s = Some s'"
  shows "ready_count (ls_tasks s') < ready_count (ls_tasks s)"
proof -
  obtain t rest where r: "ready_tasks (ls_tasks s) = t # rest"
    using assms by (auto simp: loop_step_def split: list.splits)
  have t: "t \<in> set (ls_tasks s)" "tk_status t = T_READY" using ready_tasks_Cons [OF r] by auto
  obtain f where "ls_tasks s' = replace_id (tk_task_id t) f (ls_tasks s)" "\<And>u. tk_status (f u) \<noteq> T_READY"
    using assms r
    by (auto simp: loop_step_def skip_task_def run_task_def Let_def split: if_splits prod.splits option.splits execution_decision.splits)
  then show ?thesis using replace_id_ready [OF t] by simp
qed

function auto_loop :: "'w runtime \<Rightarrow> string \<Rightarrow> 'w loop_state \<Rightarrow> 'w loop_state" where
  "auto_loop run now s = (case loop_step run now s of None \<Rightarrow> s | Some s' \<Rightarrow> auto_loop run now s')"
  by pat_completeness auto

termination auto_loop
  by (relation "measure (\<lambda>(run, now, s). ready_count (ls_tasks s))") (auto simp: loop_step_decreases)

declare auto_loop.simps [simp del]

section \<open>Executing a goal\<close>

record execution_report =
  er_goal :: goal_report
  er_tasks :: "task_report list"
  er_completed :: "task_report list"
  er_failed :: "task_report list"
  er_blocked :: "task_report list"
  er_queue_snapshot :: queue_snapshot
  er_started_at :: string
  er_completed_at :: string
  er_summary :: string

definition execute_goal :: "'w runtime \<Rightarrow> string \<Rightarrow> goal_report \<Rightarrow> 'w \<Rightarrow> execution_report \<times> 'w" where
  "execute_goal run now g w =
     (let tasks = prioritize_tasks (split_goal now g);
          s = auto_loop run now \<lparr>ls_tasks = tasks, ls_completed = [], ls_failed = [], ls_blocked = [], ls_completed_ids = [], ls_world = w\<rparr>;
          status = (if ls_failed s = [] \<and> ls_blocked s = [] \<and> length (ls_completed s) = length tasks
                    then G_COMPLETED else G_ACTIVE)
      in (\<lparr>er_goal = g\<lparr>g_status := status,
             g_completed_at := (if status = G_COMPLETED then Some now else g_completed_at g)\<rparr>,
          er_tasks = ls_tasks s, er_completed = ls_completed s, er_failed = ls_failed s,
          er_blocked = ls_blocked s, er_queue_snapshot = queue_snapshot_of (ls_tasks s),
          er_started_at = now, er_completed_at = now,
          er_summary = ''Executed '' @ show_nat (length (ls_completed s)) @ '' task(s) with ''
             @ show_nat (length (ls_failed s)) @ '' failure(s).''\<rparr>, ls_world s))"

section \<open>Properties of the loop\<close>

lemma ready_tasks_Nil_iff: "ready_tasks ts = [] \<longleftrightarrow> ready_count ts = 0"
  by (simp add: ready_tasks_def prioritize_tasks_def ordered_def ready_count_def count_if_def filter_empty_conv)

lemma loop_step_None_iff: "loop_step run now s = None \<longleftrightarrow> ready_count (ls_tasks s) = 0"
  by (simp add: loop_step_def Let_def ready_tasks_Nil_iff [symmetric] split: list.split)

lemma auto_loop_induct [case_names Stop Step]:
  assumes "\<And>s. loop_step run now s = None \<Longrightarrow> P s s"
    and "\<And>s s' s''. loop_step run now s = Some s' \<Longrightarrow> P s' s'' \<Longrightarrow> P s s''"
  shows "P s (auto_loop run now s)"
proof (induction "ready_count (ls_tasks s)" arbitrary: s rule: less_induct)
  case less
  show ?case
  proof (cases "loop_step run now s")
    case None
    then show ?thesis using assms(1) by (simp add: auto_loop.simps)
  next
    case (Some s')
    then have "P s' (auto_loop run now s')" using less loop_step_decreases by blast
    then show ?thesis using assms(2) Some by (simp add: auto_loop.simps [of run now s])
  qed
qed

definition prerequisites_done :: "'w runtime \<Rightarrow> 'w loop_state \<Rightarrow> bool" where
  "prerequisites_done run s \<longleftrightarrow>
     ls_completed_ids s = map (\<lambda>t. or_str (tk_task_id t) []) (ls_completed s)
     \<and> (\<forall>i < length (ls_completed s). dependencies_met (ls_completed s ! i) (take i (ls_completed_ids s)))
     \<and> (\<forall>t \<in> set (ls_failed s). dependencies_met t (ls_completed_ids s))
     \<and> (\<forall>t \<in> set (ls_completed s). tk_status t = T_COMPLETED \<and> (\<exists>w. fst (run (task_message t) w) = None))
     \<and> (\<forall>t \<in> set (ls_failed s). tk_status t = T_FAILED \<and> (\<exists>w. fst (run (task_message t) w) \<noteq> None))"

lemma dependencies_met_append: "dependencies_met t ids \<Longrightarrow> dependencies_met t (ids @ xs)"
  by (auto simp: dependencies_met_def list_all_iff)

lemma dependencies_update [simp]:
  "dependencies_met (update_task n n' st m t) ids = dependencies_met t ids"
  "dependencies_met (complete_task n n' t) ids = dependencies_met t ids"
  by (simp_all add: dependencies_met_def update_task_def complete_task_def)

lemma message_update [simp]:
  "task_message (update_task n n' st m t) = task_message t" "task_message (complete_task n n' t) = task_message t"
  by (simp_all add: task_message_def update_task_def complete_task_def)

lemma run_task_cases:
  "run_task run now t s =
     (case fst (run (task_message t) (ls_world s)) of
        None \<Rightarrow>
          (let finished = complete_task now now (update_task now now (Some T_RUNNING) None t)
           in s\<lparr>ls_completed := ls_completed s @ [finished], ls_completed_ids := ls_completed_ids s @ [or_str (tk_task_id t) []],
                ls_tasks := replace_id (tk_task_id t) (\<lambda>_. finished) (ls_tasks s), ls_world := snd (run (task_message t) (ls_world s))\<rparr>)
      | Some err \<Rightarrow>
          (let failed = update_task now now (Some T_FAILED) (Some [(''error'', JStr err)]) (update_task now now (Some T_RUNNING) None t)
           in s\<lparr>ls_failed := ls_failed s @ [failed],
                ls_tasks := replace_id (tk_task_id t) (\<lambda>_. failed) (ls_tasks s), ls_world := snd (run (task_message t) (ls_world s))\<rparr>))"
  by (simp add: run_task_def Let_def split: prod.split option.split)

lemma prerequisites_run:
  assumes d: "dependencies_met t (ls_completed_ids s)" and p: "prerequisites_done run s"
  shows "prerequisites_done run (run_task run now t s)"
proof (cases "fst (run (task_message t) (ls_world s))")
  case None
  have "length (ls_completed_ids s) = length (ls_completed s)" using p by (simp add: prerequisites_done_def)
  with None d p show ?thesis
    by (auto simp: run_task_cases prerequisites_done_def Let_def nth_append less_Suc_eq intro: dependencies_met_append)
next
  case (Some err)
  then have "\<exists>w. fst (run (task_message t) w) \<noteq> None" by (metis option.distinct(1))
  with Some d p show ?thesis by (auto simp: run_task_cases prerequisites_done_def Let_def)
qed

lemma prerequisites_skip: "prerequisites_done run s \<Longrightarrow> prerequisites_done run (skip_task now d t s)"
  by (auto simp: skip_task_def prerequisites_done_def split: execution_decision.split)

lemma prerequisites_step:
  assumes "loop_step run now s = Some s'" and "prerequisites_done run s"
  shows "prerequisites_done run s'"
proof -
  obtain t rest where r: "ready_tasks (ls_tasks s) = t # rest"
    using assms(1) by (auto simp: loop_step_def split: list.splits)
  show ?thesis
  proof (cases "fst (decide t (ls_completed_ids s)) = EXECUTABLE")
    case True
    then have "dependencies_met t (ls_completed_ids s)" by (auto simp: decide_def split: if_splits)
    with True assms r show ?thesis by (auto simp: loop_step_def intro: prerequisites_run)
  next
    case False
    with assms r show ?thesis by (auto simp: loop_step_def Let_def intro: prerequisites_skip)
  qed
qed

lemma executed_step:
  "loop_step run now s = Some s' \<Longrightarrow>
   length (ls_completed s') + length (ls_failed s') + ready_count (ls_tasks s')
     \<le> length (ls_completed s) + length (ls_failed s) + ready_count (ls_tasks s)
   \<and> length (ls_tasks s') = length (ls_tasks s)"
  using loop_step_decreases [of run now s s']
  by (auto simp: loop_step_def run_task_cases skip_task_def replace_id_def Let_def
      split: list.splits if_splits option.splits execution_decision.splits)

lemma auto_loop_facts:
  "prerequisites_done run s \<Longrightarrow>
   prerequisites_done run (auto_loop run now s) \<and> ready_count (ls_tasks (auto_loop run now s)) = 0
   \<and> length (ls_completed (auto_loop run now s)) + length (ls_failed (auto_loop run now s))
       \<le> length (ls_completed s) + length (ls_failed s) + ready_count (ls_tasks s)
   \<and> length (ls_tasks (auto_loop run now s)) = length (ls_tasks s)"
proof (induction rule: auto_loop_induct)
  case (Stop s)
  then show ?case by (simp add: loop_step_None_iff)
next
  case (Step s s' s'')
  then show ?case using prerequisites_step [OF Step(1)] executed_step [OF Step(1)] by auto
qed

text \<open>
  C32: the autonomous loop always stops, whatever the tasks and however the
  runtime behaves.  When it stops no task is ready, no more tasks were executed
  than were ready at the start and no task is lost.  The completed tasks are
  tasks that some state of the world lets the runtime execute without an exception, and the failed ones tasks it
  raises one for in some state; the keys recorded as completed are exactly those of the
  completed tasks, and every task that was executed had all its prerequisites
  among the tasks that were completed: a completed task among those completed
  before it, a failed one among the completed ones.
\<close>

theorem autonomous_loop_correct:
  assumes "ls_completed s = []" and "ls_failed s = []" and "ls_completed_ids s = []"
  shows "ready_tasks (ls_tasks (auto_loop run now s)) = []
    \<and> length (ls_completed (auto_loop run now s)) + length (ls_failed (auto_loop run now s))
        \<le> length (ready_tasks (ls_tasks s))
    \<and> length (ls_tasks (auto_loop run now s)) = length (ls_tasks s)
    \<and> (\<forall>t \<in> set (ls_completed (auto_loop run now s)). tk_status t = T_COMPLETED \<and> (\<exists>w. fst (run (task_message t) w) = None))
    \<and> (\<forall>t \<in> set (ls_failed (auto_loop run now s)). tk_status t = T_FAILED \<and> (\<exists>w. fst (run (task_message t) w) \<noteq> None))
    \<and> ls_completed_ids (auto_loop run now s) = map (\<lambda>t. or_str (tk_task_id t) []) (ls_completed (auto_loop run now s))
    \<and> (\<forall>i < length (ls_completed (auto_loop run now s)).
          dependencies_met (ls_completed (auto_loop run now s) ! i)
            (map (\<lambda>t. or_str (tk_task_id t) []) (take i (ls_completed (auto_loop run now s)))))
    \<and> (\<forall>t \<in> set (ls_failed (auto_loop run now s)).
          dependencies_met t (map (\<lambda>t. or_str (tk_task_id t) []) (ls_completed (auto_loop run now s))))"
proof -
  have "prerequisites_done run s" using assms by (simp add: prerequisites_done_def)
  from auto_loop_facts [OF this, of now] have facts:
    "prerequisites_done run (auto_loop run now s)" "ready_count (ls_tasks (auto_loop run now s)) = 0"
    "length (ls_completed (auto_loop run now s)) + length (ls_failed (auto_loop run now s)) \<le> ready_count (ls_tasks s)"
    "length (ls_tasks (auto_loop run now s)) = length (ls_tasks s)"
    using assms by simp_all
  have "ready_count (ls_tasks s) = length (ready_tasks (ls_tasks s))"
    by (simp add: ready_count_def count_if_def ready_tasks_def prioritize_tasks_def ordered_def filter_sort)
  with facts show ?thesis by (auto simp: ready_tasks_Nil_iff prerequisites_done_def take_map)
qed

definition demo_goal :: "string \<Rightarrow> goal_report" where
  "demo_goal objective = create_goal ''2024'' ''Demo'' objective 1 1 None MEDIUM None [] None"

theorem autonomous_loop_correct_witness:
  "ready_tasks (ls_tasks (auto_loop (\<lambda>_ w. (None, Suc w)) ''2024''
     \<lparr>ls_tasks = split_goal ''2024'' (demo_goal ''do it''), ls_completed = [], ls_failed = [],
      ls_blocked = [], ls_completed_ids = [], ls_world = 0\<rparr>)) = []"
  using autonomous_loop_correct [of "\<lparr>ls_tasks = split_goal ''2024'' (demo_goal ''do it''), ls_completed = [],
      ls_failed = [], ls_blocked = [], ls_completed_ids = [], ls_world = 0\<rparr>" "\<lambda>_ w. (None, Suc w)" "''2024''"]
  by simp

section \<open>The outcome of a goal\<close>

lemma split_goal_ready: "filter (\<lambda>t. tk_status t = T_READY) (split_goal now g) = [make_task now g 0]"
proof -
  have "[0..<base_count g] = 0 # [1..<base_count g]"
    using base_count_bounds [of g] by (simp add: upt_rec)
  then show ?thesis
    by (simp add: split_goal_def create_tasks_def make_task_def filter_empty_conv)
qed

lemma ready_tasks_split: "ready_tasks (prioritize_tasks (split_goal now g)) = [make_task now g 0]"
  by (simp add: ready_tasks_def prioritize_tasks_def ordered_def filter_sort split_goal_ready)

lemma execute_goal_loop:
  fixes g now
  defines "s0 w \<equiv> \<lparr>ls_tasks = prioritize_tasks (split_goal now g), ls_completed = [], ls_failed = [],
      ls_blocked = [], ls_completed_ids = [], ls_world = w\<rparr>"
  shows "auto_loop run now (s0 w) = run_task run now (make_task now g 0) (s0 w)"
proof -
  have "ready_tasks (ls_tasks (s0 w)) = [make_task now g 0]" by (simp add: s0_def ready_tasks_split)
  moreover have "fst (decide (make_task now g 0) (ls_completed_ids (s0 w))) = EXECUTABLE"
    by (simp add: decide_def make_task_def dependencies_met_def s0_def)
  ultimately have step: "loop_step run now (s0 w) = Some (run_task run now (make_task now g 0) (s0 w))"
    by (simp add: loop_step_def)
  have "ready_count (ls_tasks (s0 w)) = 1"
    by (simp add: s0_def ready_count_def count_if_def prioritize_tasks_def ordered_def filter_sort split_goal_ready)
  then have "loop_step run now (run_task run now (make_task now g 0) (s0 w)) = None"
    using loop_step_decreases [OF step] by (simp add: loop_step_None_iff)
  with step show ?thesis by (simp add: auto_loop.simps)
qed

text \<open>The world after a goal is the one that one run of its first task leaves.\<close>

lemma execute_goal_world: "snd (execute_goal run now g w) = snd (run (task_message (make_task now g 0)) w)"
  by (simp add: execute_goal_def execute_goal_loop run_task_cases Let_def split: option.split)

text \<open>
  C40: what executing a goal achieves.  Exactly one task is executed, the first
  of the chain, whatever the length of the objective: it is the only one among
  the completed and the failed tasks and the world is left as its one run leaves
  it.  The goal is reported completed exactly when that run succeeds and the
  task was the only one, that is when the objective has fewer than eight words.
  A longer objective is left active for ever: its later tasks are blocked on
  prerequisites and nothing makes them ready when those complete.
\<close>

theorem execute_goal_outcome:
  "map tk_task_id (er_completed (fst (execute_goal run now g w)) @ er_failed (fst (execute_goal run now g w)))
       = [tk_task_id (make_task now g 0)]
   \<and> length (er_completed (fst (execute_goal run now g w))) + length (er_failed (fst (execute_goal run now g w))) = 1
   \<and> (er_failed (fst (execute_goal run now g w)) = [] \<longleftrightarrow> fst (run (task_message (make_task now g 0)) w) = None)
   \<and> snd (execute_goal run now g w) = snd (run (task_message (make_task now g 0)) w)
   \<and> (g_status (er_goal (fst (execute_goal run now g w))) = G_COMPLETED \<longleftrightarrow>
        fst (run (task_message (make_task now g 0)) w) = None \<and> length (split_ws (g_objective g)) < 8)
   \<and> (g_status (er_goal (fst (execute_goal run now g w))) = G_COMPLETED
      \<or> g_status (er_goal (fst (execute_goal run now g w))) = G_ACTIVE)"
proof -
  have len: "length (prioritize_tasks (split_goal now g)) = base_count g"
    by (simp add: prioritize_tasks_def ordered_def split_goal_def create_tasks_def)
  show ?thesis
    unfolding execute_goal_world using base_count_one_iff [of g] len
    by (auto simp: execute_goal_def execute_goal_loop run_task_cases Let_def split: option.split)
qed

end
