(* ===== verification/Json.thy ===== *)
theory Json
  imports Prelude
begin

text \<open>
  The part of Python's \<open>json\<close> module that the backend uses: \<open>json.dumps\<close> with
  its default separators, the size of a string in UTF-8, and the nesting depth
  of a value.  Characters are code points below 256.
\<close>

definition hex_char :: "nat \<Rightarrow> char" where
  "hex_char d = (if d < 10 then char_of (48 + d) else char_of (87 + d))"

definition escape_char :: "bool \<Rightarrow> char \<Rightarrow> string" where
  "escape_char ascii c =
     (let n = (of_char c :: nat) in
      if c = CHR 0x22 then [CHR 0x5C, CHR 0x22]
      else if c = CHR 0x5C then [CHR 0x5C, CHR 0x5C]
      else if n = 10 then [CHR 0x5C, CHR ''n'']
      else if n = 13 then [CHR 0x5C, CHR ''r'']
      else if n = 9 then [CHR 0x5C, CHR ''t'']
      else if n = 8 then [CHR 0x5C, CHR ''b'']
      else if n = 12 then [CHR 0x5C, CHR ''f'']
      else if n < 32 \<or> (ascii \<and> 127 < n)
        then [CHR 0x5C, CHR ''u'', CHR ''0'', CHR ''0'', hex_char (n div 16), hex_char (n mod 16)]
      else [c])"

definition quote_string :: "bool \<Rightarrow> string \<Rightarrow> string" where
  "quote_string ascii s = [CHR 0x22] @ concat (map (escape_char ascii) s) @ [CHR 0x22]"

fun json_dumps :: "bool \<Rightarrow> json \<Rightarrow> string" where
  "json_dumps ascii JNull = ''null''"
| "json_dumps ascii (JBool b) = (if b then ''true'' else ''false'')"
| "json_dumps ascii (JInt i) = show_int i"
| "json_dumps ascii (JFloat s) = s"
| "json_dumps ascii (JStr s) = quote_string ascii s"
| "json_dumps ascii (JList xs) = ''['' @ py_join '', '' (map (json_dumps ascii) xs) @ '']''"
| "json_dumps ascii (JObj d) =
     ''{'' @ py_join '', '' (map (\<lambda>(k, v). quote_string ascii k @ '': '' @ json_dumps ascii v) d) @ ''}''"

definition utf8_length :: "string \<Rightarrow> nat" where
  "utf8_length s = sum_list (map (\<lambda>c. if (of_char c :: nat) < 128 then 1 else 2) s)"

section \<open>Nesting depth\<close>

definition max_list :: "nat list \<Rightarrow> nat" where
  "max_list xs = foldr max xs 0"

lemma max_list_Cons [simp]: "max_list (x # xs) = max x (max_list xs)"
  by (simp add: max_list_def)

lemma max_list_Nil [simp]: "max_list [] = 0"
  by (simp add: max_list_def)

lemma max_list_le_iff: "max_list xs \<le> n \<longleftrightarrow> (\<forall>x\<in>set xs. x \<le> n)"
  by (induction xs) auto

lemma max_list_shift: "xs \<noteq> [] \<Longrightarrow> Suc (c + max_list xs) \<le> n \<longleftrightarrow> (\<forall>x\<in>set xs. Suc (c + x) \<le> n)"
proof (cases "Suc c \<le> n")
  case True
  then have "Suc (c + m) \<le> n \<longleftrightarrow> m \<le> n - Suc c" for m by arith
  then show ?thesis by (simp add: max_list_le_iff)
next
  case False
  moreover assume "xs \<noteq> []"
  ultimately show ?thesis by (cases xs) auto
qed

fun json_depth :: "json \<Rightarrow> nat" where
  "json_depth (JObj d) = (if d = [] then 0 else Suc (max_list (map (\<lambda>(k, v). json_depth v) d)))"
| "json_depth (JList xs) = (if xs = [] then 0 else Suc (max_list (map json_depth xs)))"
| "json_depth _ = 0"

text \<open>The sandbox's bounded descent: it stops as soon as the limit is passed.\<close>

fun depth_at :: "nat \<Rightarrow> nat \<Rightarrow> json \<Rightarrow> nat" where
  "depth_at limit current (JObj d) =
     (if current > limit then current else if d = [] then current
      else max_list (map (\<lambda>(k, v). depth_at limit (current + 1) v) d))"
| "depth_at limit current (JList xs) =
     (if current > limit then current else if xs = [] then current
      else max_list (map (depth_at limit (current + 1)) xs))"
| "depth_at limit current _ = current"

lemma depth_at_bound:
  "current \<le> Suc limit \<Longrightarrow> depth_at limit current v \<le> limit \<longleftrightarrow> current + json_depth v \<le> limit"
proof (induction limit current v rule: depth_at.induct)
  case (1 limit current d)
  show ?case
  proof (cases "current > limit \<or> d = []")
    case False
    then have "depth_at limit (current + 1) v \<le> limit \<longleftrightarrow> current + 1 + json_depth v \<le> limit"
      if "(k, v) \<in> set d" for k v
      using 1 that by fastforce
    with False show ?thesis
      by (simp add: max_list_le_iff max_list_shift split_beta) force
  qed auto
next
  case (2 limit current xs)
  show ?case
  proof (cases "current > limit \<or> xs = []")
    case False
    then have "depth_at limit (current + 1) v \<le> limit \<longleftrightarrow> current + 1 + json_depth v \<le> limit"
      if "v \<in> set xs" for v
      using 2 that by fastforce
    with False show ?thesis
      by (simp add: max_list_le_iff max_list_shift)
  qed auto
qed auto

end
