(* ===== verification/Tool_Engine.thy ===== *)
theory Tool_Engine
  imports Json Access_Control
begin

text \<open>
  The tool calling engine (\<open>tools/*.py\<close>, \<open>schemas/tool_execution.py\<close>,
  \<open>services/tool_execution_service.py\<close>): the registry of callables, the sandbox
  checks, the validator, the executor with its retry loop, the dispatcher that
  composes them, and the batch service.

  The state is the registry; the validator reads the access-control database.
  A tool function is a parameter of its entry: given the number of the attempt
  and the arguments it returns a value or raises.  Running it under the
  sandbox's timeout may raise the timeout or cancellation error, so those are
  among the exceptions it may raise.  Latencies and back-off pauses are not
  modelled.  \<open>execute\<close> reports, beside the result, how often the function ran.
\<close>

section \<open>Schemas and exceptions\<close>

record tool_parameter =
  pm_type :: string
  pm_description :: "string option"
  pm_enum :: "string list option"
  pm_default :: "json option"
  pm_items :: "(string, json) dict option"
  pm_minimum :: "json option"
  pm_maximum :: "json option"
  pm_min_length :: "int option"
  pm_max_length :: "int option"

record tool_schema =
  sch_type :: string
  sch_properties :: "(string, tool_parameter) dict"
  sch_required :: "string list"
  sch_additional_properties :: bool

text \<open>The values of the fields a schema leaves out.\<close>

definition plain_parameter :: "string \<Rightarrow> string option \<Rightarrow> tool_parameter" where
  "plain_parameter ty descr = \<lparr>pm_type = ty, pm_description = descr, pm_enum = None, pm_default = None, pm_items = None,
     pm_minimum = None, pm_maximum = None, pm_min_length = None, pm_max_length = None\<rparr>"

definition object_schema :: "(string, tool_parameter) dict \<Rightarrow> string list \<Rightarrow> tool_schema" where
  "object_schema ps required = \<lparr>sch_type = ''object'', sch_properties = ps, sch_required = required, sch_additional_properties = False\<rparr>"

record tool_metadata =
  tmd_id :: int
  tmd_name :: string
  tmd_description :: string
  tmd_parameters :: tool_schema
  tmd_version :: string
  tmd_max_retries :: int
  tmd_enabled :: bool

datatype tool_exc =
    ToolNotFoundError string
  | ToolDisabledError string
  | ToolPermissionDeniedError string
  | ToolValidationError string "(string, string) dict"
  | ToolExecutionTimeoutError string
  | ToolExecutionCancelledError string
  | ToolExecutionFailedError string bool
  | ToolRecursionLimitExceededError string
  | ToolSerializationError string
  | OtherException string string

fun exc_class :: "tool_exc \<Rightarrow> string" where
  "exc_class (ToolNotFoundError _) = ''ToolNotFoundError''"
| "exc_class (ToolDisabledError _) = ''ToolDisabledError''"
| "exc_class (ToolPermissionDeniedError _) = ''ToolPermissionDeniedError''"
| "exc_class (ToolValidationError _ _) = ''ToolValidationError''"
| "exc_class (ToolExecutionTimeoutError _) = ''ToolExecutionTimeoutError''"
| "exc_class (ToolExecutionCancelledError _) = ''ToolExecutionCancelledError''"
| "exc_class (ToolExecutionFailedError _ _) = ''ToolExecutionFailedError''"
| "exc_class (ToolRecursionLimitExceededError _) = ''ToolRecursionLimitExceededError''"
| "exc_class (ToolSerializationError _) = ''ToolSerializationError''"
| "exc_class (OtherException c _) = c"

fun exc_str :: "tool_exc \<Rightarrow> string" where
  "exc_str (ToolNotFoundError m) = m"
| "exc_str (ToolDisabledError m) = m"
| "exc_str (ToolPermissionDeniedError m) = m"
| "exc_str (ToolValidationError m _) = m"
| "exc_str (ToolExecutionTimeoutError m) = m"
| "exc_str (ToolExecutionCancelledError m) = m"
| "exc_str (ToolExecutionFailedError m _) = m"
| "exc_str (ToolRecursionLimitExceededError m) = m"
| "exc_str (ToolSerializationError m) = m"
| "exc_str (OtherException _ m) = m"

text \<open>\<open>isinstance(exc, ToolExecutionError)\<close> and its \<open>retryable\<close> attribute.\<close>

fun is_execution_error :: "tool_exc \<Rightarrow> bool" where
  "is_execution_error (ToolExecutionTimeoutError _) = True"
| "is_execution_error (ToolExecutionCancelledError _) = True"
| "is_execution_error (ToolExecutionFailedError _ _) = True"
| "is_execution_error (ToolRecursionLimitExceededError _) = True"
| "is_execution_error _ = False"

fun exc_retryable :: "tool_exc \<Rightarrow> bool" where
  "exc_retryable (ToolExecutionTimeoutError _) = True"
| "exc_retryable (ToolExecutionFailedError _ r) = r"
| "exc_retryable _ = False"

type_synonym arguments = "(string, json) dict"

record tool_entry =
  te_metadata :: tool_metadata
  te_fn :: "nat \<Rightarrow> arguments \<Rightarrow> tool_exc + json"

type_synonym registry = "(string, tool_entry) dict"

record tool_call_request =
  rq_call_id :: string
  rq_tool_name :: string
  rq_arguments :: arguments
  rq_agent_id :: "int option"
  rq_organization_id :: "int option"
  rq_conversation_id :: "int option"
  rq_recursion_depth :: int

record tool_call_result =
  rs_call_id :: string
  rs_tool_name :: string
  rs_success :: bool
  rs_content :: string
  rs_error_code :: "string option"
  rs_retries_used :: nat

record tool_validation_result =
  vr_valid :: bool
  vr_tool_name :: string
  vr_error_code :: "string option"
  vr_error_message :: "string option"
  vr_field_errors :: "(string, string) dict"

section \<open>Registry\<close>

definition quoted :: "string \<Rightarrow> string" where
  "quoted s = [CHR 0x27] @ s @ [CHR 0x27]"

definition register_tool :: "tool_metadata \<Rightarrow> (nat \<Rightarrow> arguments \<Rightarrow> tool_exc + json) \<Rightarrow> registry \<Rightarrow> registry" where
  "register_tool meta fn r = dict_set r (tmd_name meta) \<lparr>te_metadata = meta, te_fn = fn\<rparr>"

definition unregister_tool :: "string \<Rightarrow> registry \<Rightarrow> registry" where
  "unregister_tool name r = dict_del r name"

definition is_registered :: "string \<Rightarrow> registry \<Rightarrow> bool" where
  "is_registered name r = (dict_get r name \<noteq> None)"

definition get_callable :: "string \<Rightarrow> registry \<Rightarrow> tool_exc + tool_entry" where
  "get_callable name r =
     (case dict_get r name of
        None \<Rightarrow> Inl (ToolNotFoundError (''Tool '' @ quoted name @ '' is not registered in the Tool Registry.''))
      | Some e \<Rightarrow> Inr e)"

definition get_metadata :: "string \<Rightarrow> registry \<Rightarrow> tool_exc + tool_metadata" where
  "get_metadata name r = map_sum id te_metadata (get_callable name r)"

definition list_all_tools :: "registry \<Rightarrow> tool_metadata list" where
  "list_all_tools r = map (te_metadata \<circ> snd) r"

definition list_enabled :: "registry \<Rightarrow> tool_metadata list" where
  "list_enabled r = filter tmd_enabled (list_all_tools r)"

definition update_metadata :: "string \<Rightarrow> (tool_metadata \<Rightarrow> tool_metadata) \<Rightarrow> registry \<Rightarrow> registry" where
  "update_metadata name f r =
     (case dict_get r name of
        None \<Rightarrow> r
      | Some e \<Rightarrow> dict_set r name (e\<lparr>te_metadata := f (te_metadata e)\<rparr>))"

definition sync_db_id :: "string \<Rightarrow> int \<Rightarrow> registry \<Rightarrow> registry" where
  "sync_db_id name db_id r = update_metadata name (\<lambda>md. md\<lparr>tmd_id := db_id\<rparr>) r"

definition set_enabled :: "string \<Rightarrow> bool \<Rightarrow> registry \<Rightarrow> registry" where
  "set_enabled name b r = update_metadata name (\<lambda>md. md\<lparr>tmd_enabled := b\<rparr>) r"

section \<open>Sandbox\<close>

definition MAX_RECURSION_DEPTH :: int where "MAX_RECURSION_DEPTH = 5"
definition MAX_PAYLOAD_BYTES :: nat where "MAX_PAYLOAD_BYTES = 256 * 1024"
definition MAX_RESULT_BYTES :: nat where "MAX_RESULT_BYTES = 512 * 1024"
definition MAX_ARGUMENTS_DEPTH :: nat where "MAX_ARGUMENTS_DEPTH = 5"

definition check_recursion_depth :: "int \<Rightarrow> string \<Rightarrow> tool_exc option" where
  "check_recursion_depth depth name =
     (if depth > MAX_RECURSION_DEPTH
      then Some (ToolRecursionLimitExceededError (''Recursion limit of '' @ show_int MAX_RECURSION_DEPTH
             @ '' exceeded at depth '' @ show_int depth @ '' for tool '' @ quoted name @ ''.''))
      else None)"

definition check_argument_payload_size :: "arguments \<Rightarrow> string \<Rightarrow> tool_exc option" where
  "check_argument_payload_size args name =
     (let size = utf8_length (json_dumps True (JObj args))
      in if size > MAX_PAYLOAD_BYTES
         then Some (ToolValidationError (''Arguments payload for tool '' @ quoted name @ '' is '' @ show_nat size
                @ '' bytes (limit '' @ show_nat MAX_PAYLOAD_BYTES @ '' bytes).'') [])
         else None)"

definition check_argument_nesting_depth :: "arguments \<Rightarrow> string \<Rightarrow> tool_exc option" where
  "check_argument_nesting_depth args name =
     (let d = depth_at MAX_ARGUMENTS_DEPTH 0 (JObj args)
      in if d > MAX_ARGUMENTS_DEPTH
         then Some (ToolValidationError (''Arguments for tool '' @ quoted name @ '' have nesting depth '' @ show_nat d
                @ '' (limit '' @ show_nat MAX_ARGUMENTS_DEPTH @ '').'') [])
         else None)"

definition check_result_payload_size :: "string \<Rightarrow> string \<Rightarrow> tool_exc option" where
  "check_result_payload_size content name =
     (let size = utf8_length content
      in if size > MAX_RESULT_BYTES
         then Some (ToolValidationError (''Result from tool '' @ quoted name @ '' is '' @ show_nat size
                @ '' bytes (limit '' @ show_nat MAX_RESULT_BYTES @ '' bytes). ''
                @ ''Consider paginating or summarising the tool output.'') [])
         else None)"

section \<open>Validator\<close>

fun type_name :: "json \<Rightarrow> string" where
  "type_name JNull = ''NoneType''"
| "type_name (JBool _) = ''bool''"
| "type_name (JInt _) = ''int''"
| "type_name (JFloat _) = ''float''"
| "type_name (JStr _) = ''str''"
| "type_name (JList _) = ''list''"
| "type_name (JObj _) = ''dict''"

text \<open>\<open>isinstance\<close> against the Python types the validator names; \<open>bool\<close> is a subclass of \<open>int\<close>.\<close>

definition type_ok :: "string \<Rightarrow> json \<Rightarrow> bool" where
  "type_ok ty v =
     (if ty = ''string'' then (case v of JStr _ \<Rightarrow> True | _ \<Rightarrow> False)
      else if ty = ''integer'' then (case v of JInt _ \<Rightarrow> True | JBool _ \<Rightarrow> True | _ \<Rightarrow> False)
      else if ty = ''number'' then (case v of JInt _ \<Rightarrow> True | JBool _ \<Rightarrow> True | JFloat _ \<Rightarrow> True | _ \<Rightarrow> False)
      else if ty = ''boolean'' then (case v of JBool _ \<Rightarrow> True | _ \<Rightarrow> False)
      else True)"

definition required_errors :: "tool_schema \<Rightarrow> arguments \<Rightarrow> (string, string) dict \<Rightarrow> (string, string) dict" where
  "required_errors sch args errs =
     fold (\<lambda>req errs. if dict_get args req = None then dict_set errs req ''Missing required parameter'' else errs)
       (sch_required sch) errs"

definition type_errors :: "tool_schema \<Rightarrow> arguments \<Rightarrow> (string, string) dict \<Rightarrow> (string, string) dict" where
  "type_errors sch args errs =
     fold (\<lambda>(name, pm) errs.
         case dict_get args name of
           None \<Rightarrow> errs
         | Some v \<Rightarrow> if type_ok (pm_type pm) v then errs
                     else dict_set errs name (''Expected type '' @ pm_type pm @ '', got '' @ type_name v))
       (sch_properties sch) errs"

definition field_errors :: "tool_schema \<Rightarrow> arguments \<Rightarrow> (string, string) dict" where
  "field_errors sch args = type_errors sch args (required_errors sch args [])"

definition validation_exc :: "tool_call_request \<Rightarrow> acdb \<Rightarrow> registry \<Rightarrow> tool_exc option \<times> registry" where
  "validation_exc rq db r =
     (let name = rq_tool_name rq in
      case dict_get r name of
        None \<Rightarrow> (Some (ToolNotFoundError (''Tool '' @ quoted name @ '' not found in registry.'')), r)
      | Some entry \<Rightarrow>
          (if \<not> tmd_enabled (te_metadata entry)
             then (Some (ToolDisabledError (''Tool '' @ quoted name @ '' is disabled.'')), r)
           else case lookup_by tl_name (tools db) name of
             None \<Rightarrow> (Some (ToolNotFoundError (''Tool '' @ quoted name @ '' not registered in database.'')), r)
           | Some (tool_id, _) \<Rightarrow>
               (let r' = sync_db_id name tool_id r;
                    errs = field_errors (tmd_parameters (te_metadata entry)) (rq_arguments rq)
                in if (case rq_agent_id rq of None \<Rightarrow> False
                        | Some agent \<Rightarrow> get_pair (agent_tools db) agent tool_id = None)
                     then (Some (ToolPermissionDeniedError (''Tool '' @ quoted name @ '' is not assigned to agent ''
                             @ show_int (case rq_agent_id rq of None \<Rightarrow> 0 | Some a \<Rightarrow> a) @ ''.'')), r')
                   else if errs \<noteq> []
                     then (Some (ToolValidationError (''Parameter validation failed for tool '' @ quoted name @ ''.'') errs), r')
                   else (None, r'))))"

definition validate_request :: "tool_call_request \<Rightarrow> acdb \<Rightarrow> registry \<Rightarrow> tool_validation_result \<times> registry" where
  "validate_request rq db r =
     (case validation_exc rq db r of
        (None, r') \<Rightarrow> (\<lparr>vr_valid = True, vr_tool_name = rq_tool_name rq, vr_error_code = None,
                        vr_error_message = None, vr_field_errors = []\<rparr>, r')
      | (Some e, r') \<Rightarrow> (\<lparr>vr_valid = False, vr_tool_name = rq_tool_name rq, vr_error_code = Some (exc_class e),
                          vr_error_message = Some (exc_str e),
                          vr_field_errors = (case e of ToolValidationError _ fe \<Rightarrow> fe | _ \<Rightarrow> [])\<rparr>, r'))"

section \<open>Executor\<close>

definition json_dump_safe :: "json \<Rightarrow> string" where
  "json_dump_safe v = json_dumps False v"

definition result_content :: "json \<Rightarrow> string" where
  "result_content v = (case v of JStr s \<Rightarrow> s | _ \<Rightarrow> json_dump_safe v)"

text \<open>One pass through the \<open>try\<close> block; the number says whether the function ran.\<close>

definition attempt :: "tool_entry \<Rightarrow> tool_call_request \<Rightarrow> nat \<Rightarrow> (tool_exc + string) \<times> nat" where
  "attempt entry rq n =
     (case check_argument_payload_size (rq_arguments rq) (rq_tool_name rq) of
        Some e \<Rightarrow> (Inl e, 0)
      | None \<Rightarrow>
          (case check_argument_nesting_depth (rq_arguments rq) (rq_tool_name rq) of
             Some e \<Rightarrow> (Inl e, 0)
           | None \<Rightarrow>
               (case te_fn entry n (rq_arguments rq) of
                  Inl e \<Rightarrow> (Inl e, 1)
                | Inr v \<Rightarrow>
                    (case check_result_payload_size (result_content v) (rq_tool_name rq) of
                       Some e \<Rightarrow> (Inl e, 1)
                     | None \<Rightarrow> (Inr (result_content v), 1)))))"

text \<open>The exception handler: wrap what is not an execution error, and say whether to retry.\<close>

definition handle_exc :: "tool_exc \<Rightarrow> tool_exc \<times> bool" where
  "handle_exc e =
     (if is_execution_error e then (e, exc_retryable e)
      else (ToolExecutionFailedError (''Tool execution failed: '' @ exc_str e) True, True))"

function exec_loop :: "tool_entry \<Rightarrow> tool_call_request \<Rightarrow> nat \<Rightarrow> nat \<Rightarrow> (tool_exc + string) \<times> nat \<times> nat" where
  "exec_loop entry rq used runs =
     (case attempt entry rq used of
        (Inr content, k) \<Rightarrow> (Inr content, used, runs + k)
      | (Inl e, k) \<Rightarrow>
          (let (e', retry) = handle_exc e
           in if retry \<and> int used < tmd_max_retries (te_metadata entry)
              then exec_loop entry rq (used + 1) (runs + k)
              else (Inl e', used, runs + k)))"
  by pat_completeness auto

termination exec_loop
  by (relation "measure (\<lambda>(entry, rq, used, runs). nat (tmd_max_retries (te_metadata entry) - int used))") auto

declare exec_loop.simps [simp del]

definition execute_tool :: "tool_call_request \<Rightarrow> registry \<Rightarrow> (tool_exc, tool_call_result) result \<times> nat" where
  "execute_tool rq r =
     (case get_callable (rq_tool_name rq) r of
        Inl e \<Rightarrow> (Err e, 0)
      | Inr entry \<Rightarrow>
          (case exec_loop entry rq 0 0 of
             (Inr content, used, runs) \<Rightarrow>
               (Ok \<lparr>rs_call_id = rq_call_id rq, rs_tool_name = rq_tool_name rq, rs_success = True,
                    rs_content = content, rs_error_code = None, rs_retries_used = used\<rparr>, runs)
           | (Inl e, used, runs) \<Rightarrow>
               (Ok \<lparr>rs_call_id = rq_call_id rq, rs_tool_name = rq_tool_name rq, rs_success = False,
                    rs_content = exc_str e, rs_error_code = Some (exc_class e), rs_retries_used = used\<rparr>, runs)))"

section \<open>Dispatcher and service\<close>

definition unexpected :: "tool_call_request \<Rightarrow> tool_exc \<Rightarrow> tool_call_result" where
  "unexpected rq e =
     \<lparr>rs_call_id = rq_call_id rq, rs_tool_name = rq_tool_name rq, rs_success = False,
      rs_content = ''An unexpected dispatcher error occurred: '' @ exc_str e,
      rs_error_code = Some (exc_class e), rs_retries_used = 0\<rparr>"

definition dispatch_tool :: "tool_call_request \<Rightarrow> acdb \<Rightarrow> registry \<Rightarrow> tool_call_result \<times> registry \<times> nat" where
  "dispatch_tool rq db r =
     (case check_recursion_depth (rq_recursion_depth rq) (rq_tool_name rq) of
        Some e \<Rightarrow> (unexpected rq e, r, 0)
      | None \<Rightarrow>
          (let (v, r') = validate_request rq db r
           in if \<not> vr_valid v
              then (\<lparr>rs_call_id = rq_call_id rq, rs_tool_name = rq_tool_name rq, rs_success = False,
                     rs_content = or_str (vr_error_message v) ''Validation failed.'',
                     rs_error_code = vr_error_code v, rs_retries_used = 0\<rparr>, r', 0)
              else (case execute_tool rq r' of
                      (Inl e, runs) \<Rightarrow> (unexpected rq e, r', runs)
                    | (Inr res, runs) \<Rightarrow> (res, r', runs))))"

definition inject_context :: "int \<Rightarrow> int \<Rightarrow> int \<Rightarrow> tool_call_request \<Rightarrow> tool_call_request" where
  "inject_context agent_id organization_id conversation_id rq =
     rq\<lparr>rq_agent_id := Some agent_id, rq_organization_id := Some organization_id,
        rq_conversation_id := Some conversation_id\<rparr>"

fun execute_batch :: "int \<Rightarrow> int \<Rightarrow> int \<Rightarrow> acdb \<Rightarrow> tool_call_request list \<Rightarrow> registry
    \<Rightarrow> (tool_call_result list \<times> bool) \<times> registry" where
  "execute_batch agent org conv db [] r = (([], True), r)"
| "execute_batch agent org conv db (rq # rqs) r =
     (let (res, r', _) = dispatch_tool (inject_context agent org conv rq) db r;
          ((results, all_ok), r'') = execute_batch agent org conv db rqs r'
      in ((res # results, rs_success res \<and> all_ok), r''))"

fun discover_tools :: "(int \<times> int \<times> int) list \<Rightarrow> acdb \<Rightarrow> registry \<Rightarrow> tool_metadata list \<times> registry" where
  "discover_tools [] db r = ([], r)"
| "discover_tools ((_, _, tool_id) # rest) db r =
     (case repo_get (tools db) tool_id of
        None \<Rightarrow> discover_tools rest db r
      | Some t \<Rightarrow>
          (if is_registered (tl_name t) r
           then (let r' = sync_db_id (tl_name t) tool_id r;
                     (mds, r'') = discover_tools rest db r'
                 in ((case get_metadata (tl_name t) r' of Inr md \<Rightarrow> [md] | Inl _ \<Rightarrow> []) @ mds, r''))
           else discover_tools rest db r))"

definition discover_agent_tools :: "int \<Rightarrow> acdb \<Rightarrow> registry \<Rightarrow> tool_metadata list \<times> registry" where
  "discover_agent_tools agent_id db r = discover_tools (list_agent_tools agent_id db) db r"

section \<open>Sandbox and validator\<close>

lemma nesting_check_exact:
  "check_argument_nesting_depth args name = None \<longleftrightarrow> json_depth (JObj args) \<le> 5"
  using depth_at_bound [of 0 5 "JObj args"]
  by (auto simp: check_argument_nesting_depth_def MAX_ARGUMENTS_DEPTH_def Let_def)

lemma required_errors_Nil:
  "required_errors sch args errs = [] \<longleftrightarrow> errs = [] \<and> (\<forall>req\<in>set (sch_required sch). dict_get args req \<noteq> None)"
proof -
  have ne: "dict_set d k v \<noteq> []" for d :: "(string, string) dict" and k v
    by (cases d) auto
  have "fold (\<lambda>req errs. if dict_get args req = None then dict_set errs req m else errs) rqs errs = [] \<longleftrightarrow>
      errs = [] \<and> (\<forall>req\<in>set rqs. dict_get args req \<noteq> None)" for rqs m
    by (induction rqs arbitrary: errs) (auto simp: ne)
  then show ?thesis by (simp add: required_errors_def)
qed

lemma type_errors_Nil:
  "type_errors sch args errs = [] \<longleftrightarrow> errs = [] \<and>
     (\<forall>(name, pm)\<in>set (sch_properties sch). \<forall>v. dict_get args name = Some v \<longrightarrow> type_ok (pm_type pm) v)"
proof -
  have ne: "dict_set d k v \<noteq> []" for d :: "(string, string) dict" and k v
    by (cases d) auto
  have "fold (\<lambda>(name, pm) errs. case dict_get args name of None \<Rightarrow> errs
       | Some v \<Rightarrow> if type_ok (pm_type pm) v then errs else dict_set errs name (m pm v)) ps errs = [] \<longleftrightarrow>
      errs = [] \<and> (\<forall>(name, pm)\<in>set ps. \<forall>v. dict_get args name = Some v \<longrightarrow> type_ok (pm_type pm) v)" for ps m
    by (induction ps arbitrary: errs) (auto simp: ne split: option.splits if_splits)
  then show ?thesis by (simp add: type_errors_def)
qed

definition required_and_typed :: "tool_schema \<Rightarrow> arguments \<Rightarrow> bool" where
  "required_and_typed sch args \<longleftrightarrow>
     (\<forall>req\<in>set (sch_required sch). dict_get args req \<noteq> None) \<and>
     (\<forall>(name, pm)\<in>set (sch_properties sch). \<forall>v. dict_get args name = Some v \<longrightarrow> type_ok (pm_type pm) v)"

lemma schema_fields [simp]:
  "pm_type (plain_parameter ty d) = ty" "sch_properties (object_schema ps req) = ps" "sch_required (object_schema ps req) = req"
  by (simp_all add: plain_parameter_def object_schema_def)

text \<open>
  What the validator does not check.  Leaving a parameter nothing but its type, that is dropping its allowed
  values, its item schema and its bounds, and leaving out arguments that the schema does not know, although it
  forbids them, makes no difference to the errors.
\<close>

definition type_only :: "tool_schema \<Rightarrow> tool_schema" where
  "type_only sch = sch\<lparr>sch_properties := map (\<lambda>(n, pm). (n, plain_parameter (pm_type pm) None)) (sch_properties sch)\<rparr>"

definition known_arguments :: "tool_schema \<Rightarrow> arguments \<Rightarrow> arguments" where
  "known_arguments sch args = filter (\<lambda>e. fst e \<in> set (map fst (sch_properties sch) @ sch_required sch)) args"

theorem declared_constraints_unchecked:
  "field_errors sch args = field_errors (type_only sch) args \<and> field_errors sch args = field_errors sch (known_arguments sch args)"
proof
  have ps: "sch_properties (type_only sch) = map (\<lambda>(n, pm). (n, plain_parameter (pm_type pm) None)) (sch_properties sch)"
    by (simp add: type_only_def)
  have "type_errors (type_only sch) args errs = type_errors sch args errs" for errs
    unfolding type_errors_def ps by (simp only: fold_map comp_def case_prod_beta' fst_conv snd_conv schema_fields)
  then show "field_errors sch args = field_errors (type_only sch) args"
    by (simp add: field_errors_def required_errors_def type_only_def)
  have k: "dict_get (known_arguments sch args) n = dict_get args n" if "n \<in> set (map fst (sch_properties sch) @ sch_required sch)" for n
    unfolding known_arguments_def dict_get_filter [where P = "\<lambda>n. n \<in> set (map fst (sch_properties sch) @ sch_required sch)"]
    by (rule if_P [OF that])
  then have r: "required_errors sch (known_arguments sch args) errs = required_errors sch args errs" for errs
    unfolding required_errors_def by (intro fold_cong) auto
  have "type_errors sch (known_arguments sch args) errs = type_errors sch args errs" for errs
    unfolding type_errors_def using k by (intro fold_cong) (force split: option.split)+
  with r show "field_errors sch args = field_errors sch (known_arguments sch args)" by (simp add: field_errors_def)
qed

lemma field_errors_Nil: "field_errors sch args = [] \<longleftrightarrow> required_and_typed sch args"
  by (simp add: field_errors_def required_and_typed_def type_errors_Nil required_errors_Nil)

text \<open>What a request needs to be executed.\<close>

definition may_run :: "tool_call_request \<Rightarrow> acdb \<Rightarrow> registry \<Rightarrow> bool" where
  "may_run rq db r \<longleftrightarrow>
     (\<exists>entry tool_id t. dict_get r (rq_tool_name rq) = Some entry \<and> tmd_enabled (te_metadata entry)
        \<and> lookup_by tl_name (tools db) (rq_tool_name rq) = Some (tool_id, t)
        \<and> (\<forall>agent. rq_agent_id rq = Some agent \<longrightarrow> (agent, tool_id) \<in> rows (agent_tools db))
        \<and> required_and_typed (tmd_parameters (te_metadata entry)) (rq_arguments rq))"

lemma validate_request_exact: "vr_valid (fst (validate_request rq db r)) \<longleftrightarrow> may_run rq db r"
  by (auto simp: validate_request_def validation_exc_def may_run_def Let_def field_errors_Nil
      get_pair_None_iff split: option.splits if_splits)

lemma dict_get_update_metadata:
  "dict_get (update_metadata name f r) n =
     (if n = name then map_option (\<lambda>e. e\<lparr>te_metadata := f (te_metadata e)\<rparr>) (dict_get r n) else dict_get r n)"
  by (auto simp: update_metadata_def dict_get_set split: option.split)

lemma validated_entry:
  assumes "may_run rq db r" and "dict_get r (rq_tool_name rq) = Some entry"
  shows "\<exists>i. dict_get (snd (validate_request rq db r)) (rq_tool_name rq) =
     Some (entry\<lparr>te_metadata := te_metadata entry\<lparr>tmd_id := i\<rparr>\<rparr>)"
proof -
  obtain tid t where "lookup_by tl_name (tools db) (rq_tool_name rq) = Some (tid, t)"
      "tmd_enabled (te_metadata entry)"
    using assms by (auto simp: may_run_def)
  then have "snd (validate_request rq db r) = sync_db_id (rq_tool_name rq) tid r"
    using assms(2) by (auto simp: validate_request_def validation_exc_def Let_def split: option.split)
  then show ?thesis using assms(2) by (auto simp: sync_db_id_def dict_get_update_metadata)
qed

section \<open>Executor\<close>

lemma attempt_runs: "snd (attempt entry rq n) \<le> 1"
  by (auto simp: attempt_def split: option.split sum.split)

lemma exec_loop_bounds:
  "int used \<le> max 0 m \<Longrightarrow> tmd_max_retries (te_metadata entry) = m \<Longrightarrow>
   (case exec_loop entry rq used runs of (_, used', runs') \<Rightarrow>
      int used' \<le> max 0 m \<and> runs' + used \<le> runs + used' + 1)"
proof (induction entry rq used runs rule: exec_loop.induct)
  case (1 entry rq used runs)
  obtain o' k where a: "attempt entry rq used = (o', k)" by fastforce
  have k: "k \<le> 1" using attempt_runs [of entry rq used] a by simp
  show ?case
  proof (cases o')
    case (Inr c)
    then show ?thesis using a k 1(2) by (simp add: exec_loop.simps [of entry rq used runs])
  next
    case (Inl e)
    obtain e' rt where h: "handle_exc e = (e', rt)" by fastforce
    show ?thesis
    proof (cases "rt \<and> int used < m")
      case True
      have "case exec_loop entry rq (used + 1) (runs + k) of (_, used', runs') \<Rightarrow>
          int used' \<le> max 0 m \<and> runs' + (used + 1) \<le> runs + k + used' + 1"
        using 1(1) [OF a [symmetric] Inl h [symmetric] refl] True 1(3) by auto
      then show ?thesis
        using a Inl h True k 1(3) by (auto simp: exec_loop.simps [of entry rq used runs] split: prod.splits)
    next
      case False
      then show ?thesis using a Inl h k 1(2,3) by (auto simp: exec_loop.simps [of entry rq used runs])
    qed
  qed
qed

lemma exec_loop_refused:
  assumes "\<And>n. attempt entry rq n = (Inl e, 0)" and "\<not> is_execution_error e"
    and "int used \<le> max 0 (tmd_max_retries (te_metadata entry))"
  shows "exec_loop entry rq used runs =
     (Inl (ToolExecutionFailedError (''Tool execution failed: '' @ exc_str e) True),
      nat (max 0 (tmd_max_retries (te_metadata entry))), runs)"
  using assms
proof (induction entry rq used runs rule: exec_loop.induct)
  case (1 entry rq used runs)
  have h: "handle_exc e = (ToolExecutionFailedError (''Tool execution failed: '' @ exc_str e) True, True)"
    using 1(3) by (simp add: handle_exc_def)
  show ?case
  proof (cases "int used < tmd_max_retries (te_metadata entry)")
    case True
    then have "exec_loop entry rq (used + 1) (runs + 0) =
       (Inl (ToolExecutionFailedError (''Tool execution failed: '' @ exc_str e) True),
        nat (max 0 (tmd_max_retries (te_metadata entry))), runs + 0)"
      using 1(1) [OF 1(2) [symmetric] refl h [symmetric] refl] 1(2,3) by auto
    with True 1(2) h show ?thesis by (simp add: exec_loop.simps [of entry rq used runs])
  next
    case False
    with 1(2,4) h show ?thesis by (simp add: exec_loop.simps [of entry rq used runs])
  qed
qed

lemma execute_tool_shape:
  assumes "dict_get r (rq_tool_name rq) = Some entry"
  shows "\<exists>res runs. execute_tool rq r = (Ok res, runs)
     \<and> rs_call_id res = rq_call_id rq \<and> rs_tool_name res = rq_tool_name rq
     \<and> (rs_success res \<longleftrightarrow> rs_error_code res = None)
     \<and> int (rs_retries_used res) \<le> max 0 (tmd_max_retries (te_metadata entry))
     \<and> runs \<le> rs_retries_used res + 1"
proof -
  obtain o' used runs where e: "exec_loop entry rq 0 0 = (o', used, runs)" by (metis prod.exhaust)
  have "int used \<le> max 0 (tmd_max_retries (te_metadata entry)) \<and> runs \<le> used + 1"
    using exec_loop_bounds [where used = 0 and runs = 0 and entry = entry and rq = rq] e by simp
  then show ?thesis
    using assms e by (cases o') (auto simp: execute_tool_def get_callable_def)
qed

section \<open>The pipeline\<close>

lemma dispatch_tool_cases:
  "dispatch_tool rq db r =
     (if 5 < rq_recursion_depth rq
      then (unexpected rq (the (check_recursion_depth (rq_recursion_depth rq) (rq_tool_name rq))), r, 0)
      else if \<not> may_run rq db r
      then (\<lparr>rs_call_id = rq_call_id rq, rs_tool_name = rq_tool_name rq, rs_success = False,
             rs_content = or_str (vr_error_message (fst (validate_request rq db r))) ''Validation failed.'',
             rs_error_code = vr_error_code (fst (validate_request rq db r)), rs_retries_used = 0\<rparr>,
            snd (validate_request rq db r), 0)
      else (case execute_tool rq (snd (validate_request rq db r)) of
              (Inl e, runs) \<Rightarrow> (unexpected rq e, snd (validate_request rq db r), runs)
            | (Inr res, runs) \<Rightarrow> (res, snd (validate_request rq db r), runs)))"
  using validate_request_exact [of rq db r]
  by (auto simp: dispatch_tool_def check_recursion_depth_def MAX_RECURSION_DEPTH_def split_beta Let_def)

lemma invalid_has_code: "\<not> may_run rq db r \<Longrightarrow> vr_error_code (fst (validate_request rq db r)) \<noteq> None"
  using validate_request_exact [of rq db r]
  by (auto simp: validate_request_def split: prod.splits option.splits)

text \<open>
  C4: a tool function runs only for a permitted, well-formed call.  If the
  dispatcher ran it at all, then the tool is registered and enabled, exists in
  the database, is assigned to the calling agent (if the call names one), every argument its
  schema requires is present, every argument with a parameter of type string, integer,
  number or boolean has that type, and the recursion depth is at most five; and it ran at most once more
  than the tool's retry limit.  Nothing else of the schema is a condition, neither allowed
  values nor bounds.
\<close>

theorem tool_runs_only_when_allowed:
  assumes "dispatch_tool rq db r = (res, r', runs)" and "0 < runs"
  shows "may_run rq db r \<and> rq_recursion_depth rq \<le> 5
    \<and> (\<exists>entry. dict_get r (rq_tool_name rq) = Some entry
         \<and> int runs \<le> 1 + max 0 (tmd_max_retries (te_metadata entry)))"
proof -
  have ok: "\<not> 5 < rq_recursion_depth rq" "may_run rq db r"
    using assms by (auto simp: dispatch_tool_cases split: if_splits)
  then obtain entry where e: "dict_get r (rq_tool_name rq) = Some entry" by (auto simp: may_run_def)
  from validated_entry [OF ok(2) e] obtain i where
    "dict_get (snd (validate_request rq db r)) (rq_tool_name rq) =
       Some (entry\<lparr>te_metadata := te_metadata entry\<lparr>tmd_id := i\<rparr>\<rparr>)" by blast
  from execute_tool_shape [OF this] assms(1) ok e show ?thesis
    by (auto simp: dispatch_tool_cases)
qed

text \<open>A database, a registry with one tool, and a call to it.\<close>

definition echo_registry :: registry where
  "echo_registry = register_tool \<lparr>tmd_id = 0, tmd_name = ''echo'', tmd_description = ''Echo'',
     tmd_parameters = object_schema
       [(''message'', (plain_parameter ''string'' (Some ''The message to echo back.''))\<lparr>pm_max_length := Some 1000\<rparr>)] [''message''],
     tmd_version = ''1.0.0'', tmd_max_retries = 1, tmd_enabled = True\<rparr>
     (\<lambda>n args. case dict_get args ''message'' of Some v \<Rightarrow> Inr v | None \<Rightarrow> Inl (OtherException ''TypeError'' ''missing'')) []"

definition echo_db :: acdb where
  "echo_db = \<lparr>users = [], roles = [], permissions = [], user_roles = [], role_permissions = [],
     organizations = [], organization_members = [], teams = [], team_members = [],
     tools = [(3, \<lparr>tl_name = ''echo'', tl_description = ''Echo''\<rparr>)], agents = [], agent_tools = [(1, 7, 3)]\<rparr>"

definition echo_call :: "json \<Rightarrow> tool_call_request" where
  "echo_call v = \<lparr>rq_call_id = ''c1'', rq_tool_name = ''echo'', rq_arguments = [(''message'', v)],
     rq_agent_id = Some 7, rq_organization_id = Some 1, rq_conversation_id = Some 1, rq_recursion_depth = 0\<rparr>"

lemmas echo_defs = echo_registry_def echo_db_def echo_call_def register_tool_def

lemmas payload_simps =
  check_argument_payload_size_def MAX_PAYLOAD_BYTES_def utf8_length_def quote_string_def escape_char_def Let_def

lemma echo_runs: "snd (snd (dispatch_tool (echo_call (JStr ''hi'')) echo_db echo_registry)) = 1"
proof -
  have pay: "check_argument_payload_size [(''message'', JStr ''hi'')] ''echo'' = None"
    by (simp add: payload_simps)
  have nest: "check_argument_nesting_depth [(''message'', JStr ''hi'')] ''echo'' = None"
    by (simp add: nesting_check_exact)
  have res: "check_result_payload_size ''hi'' ''echo'' = None"
    by (simp add: check_result_payload_size_def MAX_RESULT_BYTES_def utf8_length_def)
  show ?thesis
    by (simp add: dispatch_tool_def check_recursion_depth_def MAX_RECURSION_DEPTH_def validate_request_def
        validation_exc_def echo_defs lookup_by_def repo_first_def get_pair_def field_errors_def
        required_errors_def type_errors_def type_ok_def Let_def execute_tool_def get_callable_def
        sync_db_id_def update_metadata_def exec_loop.simps attempt_def pay nest result_content_def res)
qed

theorem tool_runs_only_when_allowed_witness:
  "may_run (echo_call (JStr ''hi'')) echo_db echo_registry"
proof -
  obtain res r' runs where d: "dispatch_tool (echo_call (JStr ''hi'')) echo_db echo_registry = (res, r', runs)"
    by (metis prod.exhaust)
  moreover from this have "0 < runs" using echo_runs by simp
  ultimately show ?thesis using tool_runs_only_when_allowed by blast
qed

text \<open>
  Every call is answered.  The dispatcher always returns a result for the
  call it was given, with its id and tool name, successful exactly when there
  is no error code, whatever the tool function raises; and a batch returns one
  result per request, in order, reporting overall success exactly when every
  call succeeded.
\<close>

theorem every_call_answered:
  "rs_call_id (fst (dispatch_tool rq db r)) = rq_call_id rq
   \<and> rs_tool_name (fst (dispatch_tool rq db r)) = rq_tool_name rq
   \<and> (rs_success (fst (dispatch_tool rq db r)) \<longleftrightarrow> rs_error_code (fst (dispatch_tool rq db r)) = None)
   \<and> map rs_call_id (fst (fst (execute_batch agent org conv db rqs r))) = map rq_call_id rqs
   \<and> (snd (fst (execute_batch agent org conv db rqs r)) \<longleftrightarrow>
        list_all rs_success (fst (fst (execute_batch agent org conv db rqs r))))"
proof -
  have d: "rs_call_id (fst (dispatch_tool rq db r)) = rq_call_id rq
     \<and> rs_tool_name (fst (dispatch_tool rq db r)) = rq_tool_name rq
     \<and> (rs_success (fst (dispatch_tool rq db r)) \<longleftrightarrow> rs_error_code (fst (dispatch_tool rq db r)) = None)" for rq r
  proof (cases "may_run rq db r \<and> \<not> 5 < rq_recursion_depth rq")
    case True
    then obtain entry where "dict_get r (rq_tool_name rq) = Some entry" by (auto simp: may_run_def)
    from validated_entry [OF _ this] True obtain i where
      "dict_get (snd (validate_request rq db r)) (rq_tool_name rq) =
         Some (entry\<lparr>te_metadata := te_metadata entry\<lparr>tmd_id := i\<rparr>\<rparr>)" by blast
    from execute_tool_shape [OF this] True show ?thesis by (auto simp: dispatch_tool_cases)
  next
    case False
    then show ?thesis using invalid_has_code [of rq db r] by (auto simp: dispatch_tool_cases unexpected_def)
  qed
  have "map rs_call_id (fst (fst (execute_batch agent org conv db rqs r))) = map rq_call_id rqs
      \<and> (snd (fst (execute_batch agent org conv db rqs r)) \<longleftrightarrow>
          list_all rs_success (fst (fst (execute_batch agent org conv db rqs r))))"
    by (induction rqs arbitrary: r) (auto simp: split_beta Let_def d inject_context_def)
  with d show ?thesis by blast
qed

text \<open>
  A payload the sandbox rejects is still retried.  When the arguments of an
  otherwise permitted call are nested too deeply, the executor treats the
  rejection as a transient failure: it repeats the check up to the retry limit,
  never runs the tool, and reports \<open>ToolExecutionFailedError\<close> instead of the
  validation error.
\<close>

theorem rejected_payload_is_retried:
  assumes "may_run rq db r" and "rq_recursion_depth rq \<le> 5"
    and "dict_get r (rq_tool_name rq) = Some entry"
    and "check_argument_payload_size (rq_arguments rq) (rq_tool_name rq) = None"
    and "5 < json_depth (JObj (rq_arguments rq))"
  shows "case dispatch_tool rq db r of (res, _, runs) \<Rightarrow>
     runs = 0 \<and> rs_error_code res = Some ''ToolExecutionFailedError''
     \<and> rs_retries_used res = nat (max 0 (tmd_max_retries (te_metadata entry)))"
proof -
  obtain i where e: "dict_get (snd (validate_request rq db r)) (rq_tool_name rq) =
       Some (entry\<lparr>te_metadata := te_metadata entry\<lparr>tmd_id := i\<rparr>\<rparr>)"
    using validated_entry [OF assms(1,3)] by blast
  let ?entry = "entry\<lparr>te_metadata := te_metadata entry\<lparr>tmd_id := i\<rparr>\<rparr>"
  obtain x where x: "check_argument_nesting_depth (rq_arguments rq) (rq_tool_name rq) = Some x"
    using assms(5) nesting_check_exact [of "rq_arguments rq" "rq_tool_name rq"] by fastforce
  then have nx: "\<not> is_execution_error x"
    by (auto simp: check_argument_nesting_depth_def Let_def split: if_splits)
  have "attempt ?entry rq n = (Inl x, 0)" for n
    using assms(4) x by (simp add: attempt_def)
  from exec_loop_refused [OF this nx, of 0 0] show ?thesis
    using assms(1,2) e by (simp add: dispatch_tool_cases execute_tool_def get_callable_def)
qed

definition deep_value :: json where
  "deep_value = JList [JList [JList [JList [JList [JNull]]]]]"

definition list_registry :: registry where
  "list_registry = update_metadata ''echo''
     (\<lambda>md. md\<lparr>tmd_parameters := object_schema [] []\<rparr>) echo_registry"

theorem rejected_payload_is_retried_witness:
  "rs_error_code (fst (dispatch_tool (echo_call deep_value) echo_db list_registry)) =
     Some ''ToolExecutionFailedError''"
proof -
  obtain entry where e: "dict_get list_registry ''echo'' = Some entry"
    by (simp add: list_registry_def update_metadata_def echo_defs)
  have run: "may_run (echo_call deep_value) echo_db list_registry"
    by (simp add: may_run_def list_registry_def update_metadata_def echo_defs lookup_by_def repo_first_def
        rows_def required_and_typed_def)
  have pay: "check_argument_payload_size (rq_arguments (echo_call deep_value)) (rq_tool_name (echo_call deep_value)) = None"
    by (simp add: payload_simps echo_call_def deep_value_def)
  have deep: "5 < json_depth (JObj (rq_arguments (echo_call deep_value)))"
    by (simp add: echo_call_def deep_value_def)
  have "rq_recursion_depth (echo_call deep_value) \<le> 5" "rq_tool_name (echo_call deep_value) = ''echo''"
    by (simp_all add: echo_call_def)
  then show ?thesis
    using rejected_payload_is_retried [OF run _ _ pay deep, of entry] e by (auto split: prod.splits)
qed

end
