(* ===== verification/Workflow.thy ===== *)
theory Workflow
  imports Tables Json
begin

text \<open>
  The workflow engine: the graph and execution rows (\<open>models/workflow.py\<close>), the
  graph check (\<open>workflow/validator.py\<close>), the transition engine
  (\<open>workflow/transition.py\<close>) and the service that runs a workflow node by node
  (\<open>services/workflow_service.py\<close>).

  The services a node calls (memory retrieval, knowledge retrieval, tool
  execution) are one parameter: given the call, the number of steps taken so
  far and the attempt, it yields the node's output or the text of an exception.
  The run of a workflow has no bound in the code, so the loop takes fuel, and
  running out of it is the value \<open>None\<close>.  Durations and time stamps other than
  the completion marker are left out.
\<close>

section \<open>Python text of a value\<close>

definition repr_char :: "char \<Rightarrow> char \<Rightarrow> string" where
  "repr_char q c =
     (let n = (of_char c :: nat) in
      if c = q \<or> c = CHR 0x5C then [CHR 0x5C, c]
      else if n = 10 then [CHR 0x5C, CHR ''n'']
      else if n = 13 then [CHR 0x5C, CHR ''r'']
      else if n = 9 then [CHR 0x5C, CHR ''t'']
      else if n < 32 \<or> (127 \<le> n \<and> n \<le> 160) \<or> n = 173
        then [CHR 0x5C, CHR ''x'', hex_char (n div 16), hex_char (n mod 16)]
      else [c])"

definition repr_string :: "string \<Rightarrow> string" where
  "repr_string s =
     (let q = (if CHR 0x27 \<in> set s \<and> CHR 0x22 \<notin> set s then CHR 0x22 else CHR 0x27)
      in [q] @ concat (map (repr_char q) s) @ [q])"

fun py_repr :: "json \<Rightarrow> string" where
  "py_repr JNull = ''None''"
| "py_repr (JBool b) = (if b then ''True'' else ''False'')"
| "py_repr (JInt i) = show_int i"
| "py_repr (JFloat s) = s"
| "py_repr (JStr s) = repr_string s"
| "py_repr (JList xs) = ''['' @ py_join '', '' (map py_repr xs) @ '']''"
| "py_repr (JObj d) = ''{'' @ py_join '', '' (map (\<lambda>(k, v). repr_string k @ '': '' @ py_repr v) d) @ ''}''"

definition py_str :: "json \<Rightarrow> string" where
  "py_str v = (case v of JStr s \<Rightarrow> s | _ \<Rightarrow> py_repr v)"

text \<open>\<open>s.split(sep)\<close> for a non-empty separator, and \<open>s.strip(chars)\<close>.\<close>

function split_on_aux :: "string \<Rightarrow> string \<Rightarrow> string \<Rightarrow> string list" where
  "split_on_aux sep acc [] = [rev acc]"
| "split_on_aux sep acc (c # cs) =
     (if sep \<noteq> [] \<and> starts_with sep (c # cs)
      then rev acc # split_on_aux sep [] (drop (length sep) (c # cs))
      else split_on_aux sep (c # acc) cs)"
  by pat_completeness auto

termination split_on_aux
  by (relation "measure (\<lambda>(sep, acc, s). length s)") (auto simp: less_Suc_eq_le neq_Nil_conv)

definition split_on :: "string \<Rightarrow> string \<Rightarrow> string list" where
  "split_on sep s = split_on_aux sep [] s"

definition strip_chars :: "char set \<Rightarrow> string \<Rightarrow> string" where
  "strip_chars S s = rev (dropWhile (\<lambda>c. c \<in> S) (rev (dropWhile (\<lambda>c. c \<in> S) s)))"

definition py_or :: "json \<Rightarrow> json \<Rightarrow> json" where
  "py_or a b = (if truthy a then a else b)"

definition obj_get :: "metadata \<Rightarrow> string \<Rightarrow> json" where
  "obj_get d k = dict_get_or d k JNull"

section \<open>Rows\<close>

record wf_node =
  wn_id :: int
  wn_node_type :: string
  wn_name :: string
  wn_configuration :: "metadata option"
  wn_retry_policy :: "metadata option"

record wf_edge =
  we_source :: int
  we_target :: int
  we_condition :: "string option"
  we_priority :: int

record workflow =
  wf_organization_id :: int
  wf_name :: string
  wf_nodes :: "wf_node list"
  wf_edges :: "wf_edge list"

record wf_execution =
  wx_id :: int
  wx_workflow_id :: int
  wx_organization_id :: int
  wx_agent_id :: int
  wx_conversation_id :: "int option"
  wx_status :: string
  wx_current_node :: "int option"
  wx_completed :: bool
  wx_context :: metadata

record wf_step =
  st_node_id :: int
  st_status :: string
  st_output :: metadata
  st_retries :: nat
  st_error :: "string option"

section \<open>Graph check\<close>

text \<open>The message about an orphan names one of the orphans; which one depends on set order.\<close>

datatype graph_error = MissingStart | DuplicateStart | OrphanNode "string list"

definition node_type :: "wf_node \<Rightarrow> string" where
  "node_type n = py_lower (wn_node_type n)"

definition orphans :: "wf_node list \<Rightarrow> wf_edge list \<Rightarrow> wf_node list" where
  "orphans nodes edges =
     filter (\<lambda>n. wn_id n \<notin> we_source ` set edges \<and> wn_id n \<notin> we_target ` set edges \<and> length nodes > 1
        \<and> node_type n \<noteq> ''start'' \<and> node_type n \<noteq> ''end'') nodes"

definition validate_graph :: "workflow \<Rightarrow> (graph_error, unit) result" where
  "validate_graph w =
     (let starts = filter (\<lambda>n. node_type n = ''start'') (wf_nodes w)
      in if starts = [] then Err MissingStart
         else if length starts > 1 then Err DuplicateStart
         else if orphans (wf_nodes w) (wf_edges w) \<noteq> []
           then Err (OrphanNode (map wn_name (orphans (wf_nodes w) (wf_edges w))))
         else Ok ())"

section \<open>Transitions\<close>

fun resolve_parts :: "string list \<Rightarrow> json \<Rightarrow> json" where
  "resolve_parts [] v = v"
| "resolve_parts (p # ps) v = (case v of JObj d \<Rightarrow> resolve_parts ps (obj_get d p) | _ \<Rightarrow> JNull)"

definition resolve_path :: "string \<Rightarrow> metadata \<Rightarrow> json" where
  "resolve_path path ctx = resolve_parts (split_on ''.'' path) (JObj ctx)"

definition condition_holds :: "string \<Rightarrow> metadata \<Rightarrow> bool" where
  "condition_holds cond ctx =
     (py_in ''=='' cond \<and>
      (case split_on ''=='' cond of
         [left, right] \<Rightarrow>
           py_str (resolve_path (py_strip left) ctx) = strip_chars {CHR 0x27, CHR 0x22} (py_strip right)
       | _ \<Rightarrow> False))"

definition edge_open :: "metadata \<Rightarrow> wf_edge \<Rightarrow> bool" where
  "edge_open ctx e =
     (case we_condition e of None \<Rightarrow> True | Some [] \<Rightarrow> True | Some c \<Rightarrow> condition_holds c ctx)"

fun first_open :: "metadata \<Rightarrow> wf_edge list \<Rightarrow> int option" where
  "first_open ctx [] = None"
| "first_open ctx (e # es) = (if edge_open ctx e then Some (we_target e) else first_open ctx es)"

definition evaluate_transition :: "wf_edge list \<Rightarrow> metadata \<Rightarrow> int option" where
  "evaluate_transition edges ctx = first_open ctx (sort_key_desc we_priority edges)"

section \<open>Executing a node\<close>

datatype service_call =
    MemoryCall json json
  | RagCall json json json json
  | ToolCall string json json int

type_synonym services = "service_call \<Rightarrow> nat \<Rightarrow> nat \<Rightarrow> (string, metadata) result"

definition cfg_get :: "wf_node \<Rightarrow> string \<Rightarrow> json \<Rightarrow> json" where
  "cfg_get n k d = dict_get_or (case wn_configuration n of None \<Rightarrow> [] | Some c \<Rightarrow> c) k d"

definition node_query :: "wf_node \<Rightarrow> wf_execution \<Rightarrow> json" where
  "node_query n x = py_or (cfg_get n ''query'' JNull) (dict_get_or (wx_context x) ''objective'' (JStr []))"

definition placeholder :: "bool \<Rightarrow> string \<Rightarrow> metadata" where
  "placeholder ok reason = [(''success'', JBool ok), (''placeholder'', JBool True), (''reason'', JStr reason)]"

definition node_body :: "services \<Rightarrow> nat \<Rightarrow> nat \<Rightarrow> wf_node \<Rightarrow> wf_execution \<Rightarrow> (string, metadata) result" where
  "node_body call tick attempt n x =
     (let t = node_type n in
      if t \<in> {''start'', ''end''} then Ok [(''success'', JBool True), (''node_type'', JStr t)]
      else if t \<in> {''memory'', ''memory_search''}
        then call (MemoryCall (node_query n x) (cfg_get n ''top_k'' (JInt 5))) tick attempt
      else if t \<in> {''rag'', ''knowledge'', ''knowledge_search''}
        then (let kb = py_or (cfg_get n ''kb_id'' JNull) (cfg_get n ''knowledge_base_id'' JNull)
              in if kb = JNull then Ok (placeholder False ''RAG node requires kb_id in configuration.'')
                 else call (RagCall kb (node_query n x) (cfg_get n ''top_k'' (JInt 5))
                        (cfg_get n ''max_tokens'' (JInt 2000))) tick attempt)
      else if t \<in> {''tool'', ''tool_call'', ''execute_tool''}
        then (let tool = py_or (cfg_get n ''tool_name'' JNull) (cfg_get n ''name'' JNull)
              in if \<not> truthy tool then Ok (placeholder False ''Tool node requires tool_name in configuration.'')
                 else call (ToolCall (py_str (py_or (cfg_get n ''call_id'' JNull)
                          (JStr (''workflow-'' @ show_int (wx_id x) @ ''-'' @ show_int (wn_id n)))))
                        tool (cfg_get n ''arguments'' (JObj [])) (or_int (wx_conversation_id x) 0)) tick attempt)
      else Ok (placeholder True (''No executable runtime is registered for node type ''
                 @ [CHR 0x27] @ wn_node_type n @ [CHR 0x27] @ ''.'')))"

text \<open>\<open>int(...)\<close> of the stored retry count; a float is taken when written without an exponent.\<close>

definition int_of_json :: "json \<Rightarrow> (string, int) result" where
  "int_of_json v =
     (case v of
        JInt i \<Rightarrow> Ok i
      | JBool b \<Rightarrow> Ok (if b then 1 else 0)
      | JStr s \<Rightarrow> (case py_int s of Some i \<Rightarrow> Ok i | None \<Rightarrow> Err ''invalid literal for int()'')
      | JFloat s \<Rightarrow> (case py_int (takeWhile (\<lambda>c. c \<noteq> CHR ''.'') s) of Some i \<Rightarrow> Ok i | None \<Rightarrow> Err ''cannot convert float to integer'')
      | _ \<Rightarrow> Err ''int() argument must be a string, a bytes-like object or a real number'')"

fun retry_node :: "services \<Rightarrow> nat \<Rightarrow> nat \<Rightarrow> nat \<Rightarrow> wf_node \<Rightarrow> wf_execution \<Rightarrow> (string, metadata \<times> nat) result" where
  "retry_node call tick attempt 0 n x = Err ''Workflow node execution failed.''"
| "retry_node call tick attempt (Suc left) n x =
     (case node_body call tick attempt n x of
        Inr out \<Rightarrow> Ok (out, attempt)
      | Inl e \<Rightarrow> if left = 0 then Err e else retry_node call tick (attempt + 1) left n x)"

definition execute_node :: "services \<Rightarrow> nat \<Rightarrow> wf_node \<Rightarrow> wf_execution \<Rightarrow> (string, metadata \<times> nat) result" where
  "execute_node call tick n x =
     bind_ok (int_of_json (dict_get_or (case wn_retry_policy n of None \<Rightarrow> [] | Some p \<Rightarrow> p) ''max_retries'' (JInt 0)))
       (\<lambda>m. retry_node call tick 0 (nat (m + 1)) n x)"

section \<open>The execution context\<close>

definition history_entry :: "wf_node \<Rightarrow> metadata \<Rightarrow> json" where
  "history_entry n out = JObj [(''node_id'', JInt (wn_id n)), (''node_name'', JStr (wn_name n)),
     (''node_type'', JStr (wn_node_type n)), (''output'', JObj out)]"

definition merge_execution_context :: "metadata \<Rightarrow> wf_node \<Rightarrow> metadata \<Rightarrow> metadata" where
  "merge_execution_context ctx n out =
     (let vars = (case obj_get ctx ''variables'' of JObj d \<Rightarrow> d | _ \<Rightarrow> []);
          vars = dict_set vars ''status'' (JStr (if truthy (obj_get out ''success'') then ''completed'' else ''failed''));
          vars = dict_set vars (wn_name n) (JObj out);
          updated = dict_set ctx ''variables'' (JObj vars);
          hist = (case obj_get updated ''node_history'' of JList h \<Rightarrow> h | _ \<Rightarrow> [])
      in dict_set updated ''node_history'' (JList (hist @ [history_entry n out])))"

section \<open>The run\<close>

record wf_run =
  wr_execution :: wf_execution
  wr_steps :: "wf_step list"

datatype wf_next = Finished wf_run | Continue wf_node wf_run

definition failed_output :: "string \<Rightarrow> metadata" where
  "failed_output e = [(''success'', JBool False), (''error'', JStr e)]"

definition finish :: "string \<Rightarrow> wf_run \<Rightarrow> wf_run" where
  "finish status r = r\<lparr>wr_execution := (wr_execution r)\<lparr>wx_status := status, wx_completed := True\<rparr>\<rparr>"

definition record_step :: "wf_node \<Rightarrow> (string, metadata \<times> nat) result \<Rightarrow> wf_step" where
  "record_step n res =
     (case res of
        Inr (out, k) \<Rightarrow> \<lparr>st_node_id = wn_id n, st_status = ''COMPLETED'', st_output = out, st_retries = k, st_error = None\<rparr>
      | Inl e \<Rightarrow> \<lparr>st_node_id = wn_id n, st_status = ''FAILED'', st_output = [], st_retries = 0, st_error = Some e\<rparr>)"

definition visit :: "services \<Rightarrow> wf_node \<Rightarrow> wf_run \<Rightarrow> wf_run \<times> bool" where
  "visit call n r =
     (let x = (wr_execution r)\<lparr>wx_current_node := Some (wn_id n)\<rparr>;
          res = execute_node call (length (wr_steps r)) n x;
          out = (case res of Inr (o', _) \<Rightarrow> o' | Inl e \<Rightarrow> failed_output e)
      in (\<lparr>wr_execution = x\<lparr>wx_context := merge_execution_context (wx_context x) n out\<rparr>,
           wr_steps = wr_steps r @ [record_step n res]\<rparr>, is_ok res))"

definition next_node :: "workflow \<Rightarrow> wf_node \<Rightarrow> metadata \<Rightarrow> wf_node option" where
  "next_node w n ctx =
     (case evaluate_transition (filter (\<lambda>e. we_source e = wn_id n) (wf_edges w)) ctx of
        None \<Rightarrow> None
      | Some i \<Rightarrow> if i = 0 then None else find (\<lambda>m. wn_id m = i) (wf_nodes w))"

definition advance :: "services \<Rightarrow> workflow \<Rightarrow> wf_node \<Rightarrow> wf_run \<Rightarrow> wf_next" where
  "advance call w n r =
     (let (r', ok) = visit call n r
      in if \<not> ok then Finished (finish ''FAILED'' r')
         else if node_type n = ''end'' then Finished (finish ''COMPLETED'' r')
         else (case next_node w n (wx_context (wr_execution r')) of
                 None \<Rightarrow> Finished (finish ''COMPLETED'' r')
               | Some m \<Rightarrow> Continue m r'))"

fun wf_loop :: "nat \<Rightarrow> services \<Rightarrow> workflow \<Rightarrow> wf_node \<Rightarrow> wf_run \<Rightarrow> wf_run option" where
  "wf_loop 0 call w n r = None"
| "wf_loop (Suc fuel) call w n r =
     (case advance call w n r of Finished r' \<Rightarrow> Some r' | Continue m r' \<Rightarrow> wf_loop fuel call w m r')"

datatype wf_error = WorkflowNotFound | InvalidGraph graph_error

definition get_by_org_and_id :: "('r \<Rightarrow> int) \<Rightarrow> int \<Rightarrow> int \<Rightarrow> 'r table \<Rightarrow> 'r option" where
  "get_by_org_and_id org_of org_id i t =
     (case repo_get t i of None \<Rightarrow> None | Some r \<Rightarrow> if org_of r = org_id then Some r else None)"

definition initial_execution :: "int \<Rightarrow> int \<Rightarrow> int \<Rightarrow> int \<Rightarrow> wf_execution" where
  "initial_execution nid workflow_id organization_id agent_id =
     \<lparr>wx_id = nid, wx_workflow_id = workflow_id, wx_organization_id = organization_id, wx_agent_id = agent_id,
      wx_conversation_id = None, wx_status = ''RUNNING'', wx_current_node = None, wx_completed = False,
      wx_context = [(''variables'', JObj [(''status'', JStr ''pending'')])]\<rparr>"

definition execute_workflow ::
  "nat \<Rightarrow> services \<Rightarrow> int \<Rightarrow> int \<Rightarrow> int \<Rightarrow> int \<Rightarrow> workflow table \<Rightarrow> (wf_error, wf_run option) result" where
  "execute_workflow fuel call nid workflow_id organization_id agent_id ws =
     (case get_by_org_and_id wf_organization_id organization_id workflow_id ws of
        None \<Rightarrow> Err WorkflowNotFound
      | Some w \<Rightarrow>
          (case validate_graph w of
             Inl e \<Rightarrow> Err (InvalidGraph e)
           | Inr _ \<Rightarrow>
               (let r = \<lparr>wr_execution = initial_execution nid workflow_id organization_id agent_id, wr_steps = []\<rparr>
                in case find (\<lambda>n. node_type n = ''start'') (wf_nodes w) of
                     None \<Rightarrow> Ok (Some (finish ''COMPLETED'' r))
                   | Some n \<Rightarrow> Ok (wf_loop fuel call w n r))))"

text \<open>Lifecycle calls on a stored execution.\<close>

definition set_execution_status ::
  "string \<Rightarrow> bool \<Rightarrow> int \<Rightarrow> int \<Rightarrow> wf_execution table \<Rightarrow> (service_error, wf_execution) result \<times> wf_execution table" where
  "set_execution_status status completes org_id execution_id t =
     (case get_by_org_and_id wx_organization_id org_id execution_id t of
        None \<Rightarrow> (Err (ValueError ''Execution not found.''), t)
      | Some x \<Rightarrow>
          (let x' = x\<lparr>wx_status := status, wx_completed := (completes \<or> wx_completed x)\<rparr>
           in (Ok x', repo_update execution_id x' t)))"

definition pause_execution where "pause_execution = set_execution_status ''PAUSED'' False"
definition resume_execution where "resume_execution = set_execution_status ''RUNNING'' False"
definition cancel_execution where "cancel_execution = set_execution_status ''CANCELLED'' True"

section \<open>Transitions: the best open edge\<close>

lemma first_open_None_iff: "first_open ctx es = None \<longleftrightarrow> (\<forall>e\<in>set es. \<not> edge_open ctx e)"
  by (induction es) auto

lemma first_open_split:
  "first_open ctx es = Some t \<Longrightarrow>
   \<exists>xs e ys. es = xs @ e # ys \<and> we_target e = t \<and> edge_open ctx e \<and> (\<forall>x\<in>set xs. \<not> edge_open ctx x)"
proof (induction es)
  case (Cons e es)
  show ?case
  proof (cases "edge_open ctx e")
    case True
    then show ?thesis using Cons.prems by (intro exI [of _ "[]"] exI [of _ e] exI [of _ es]) auto
  next
    case False
    then obtain xs f ys where "es = xs @ f # ys \<and> we_target f = t \<and> edge_open ctx f
        \<and> (\<forall>x\<in>set xs. \<not> edge_open ctx x)"
      using Cons by auto
    with False show ?thesis by (intro exI [of _ "e # xs"] exI [of _ f] exI [of _ ys]) auto
  qed
qed simp

lemma sort_key_desc_prefix:
  "sort_key_desc f es = xs @ e # ys \<Longrightarrow> y \<in> set ys \<Longrightarrow> f y \<le> f e"
  using sort_key_desc_sorted [of f es] by (simp add: sorted_wrt_append)

text \<open>
  The transition engine follows an open edge of highest priority.  The
  target it returns belongs to an edge whose condition holds, or that has none,
  and no edge of higher priority is open; among open edges of that priority the
  first in the given order wins; it returns nothing exactly when no edge is
  open.
\<close>

theorem best_open_edge_taken:
  fixes edges :: "wf_edge list" and ctx :: metadata
  shows
  "case evaluate_transition edges ctx of
     None \<Rightarrow> \<not> list_ex (edge_open ctx) edges
   | Some t \<Rightarrow> (\<exists>e\<in>set edges. we_target e = t \<and> edge_open ctx e
        \<and> (\<forall>e'\<in>set edges. edge_open ctx e' \<longrightarrow> we_priority e' \<le> we_priority e)
        \<and> (\<exists>rest. filter (\<lambda>x. edge_open ctx x \<and> we_priority x = we_priority e) edges = e # rest))"
proof (cases "evaluate_transition edges ctx")
  case None
  moreover from None have "\<not> list_ex (edge_open ctx) edges"
    by (auto simp: evaluate_transition_def first_open_None_iff list_ex_iff)
  ultimately show ?thesis by simp
next
  case (Some t)
  then obtain xs e ys where s: "sort_key_desc we_priority edges = xs @ e # ys" "we_target e = t"
      "edge_open ctx e" "\<forall>x\<in>set xs. \<not> edge_open ctx x"
    using first_open_split [of ctx "sort_key_desc we_priority edges" t]
    unfolding evaluate_transition_def by blast
  have mem: "x \<in> set edges \<longleftrightarrow> x \<in> set xs \<or> x = e \<or> x \<in> set ys" for x
    using arg_cong [OF s(1), of set] by auto
  have "filter (\<lambda>x. edge_open ctx x \<and> we_priority x = we_priority e) edges =
      filter (edge_open ctx) (filter (\<lambda>x. we_priority x = we_priority e) (sort_key_desc we_priority edges))"
    by (simp add: sort_key_desc_stable conj_commute)
  also have "\<dots> = e # filter (edge_open ctx) (filter (\<lambda>x. we_priority x = we_priority e) ys)"
    using s by (auto simp: filter_empty_conv)
  finally have "\<exists>rest. filter (\<lambda>x. edge_open ctx x \<and> we_priority x = we_priority e) edges = e # rest" by blast
  moreover have "we_priority e' \<le> we_priority e" if "e' \<in> set edges" "edge_open ctx e'" for e'
    using that s mem sort_key_desc_prefix [OF s(1)] by auto
  ultimately show ?thesis using Some s(2,3) mem by auto
qed

theorem best_open_edge_taken_witness:
  "let edges = [\<lparr>we_source = 1, we_target = 2, we_condition = None, we_priority = 0\<rparr>,
      \<lparr>we_source = 1, we_target = 3, we_condition = Some ''variables.status == completed'', we_priority = 5\<rparr>]
   in evaluate_transition edges [(''variables'', JObj [(''status'', JStr ''completed'')])] \<noteq> None"
proof -
  let ?edges = "[\<lparr>we_source = 1, we_target = 2, we_condition = None, we_priority = 0\<rparr>,
      \<lparr>we_source = 1, we_target = 3, we_condition = Some ''variables.status == completed'', we_priority = 5\<rparr>]"
  let ?ctx = "[(''variables'', JObj [(''status'', JStr ''completed'')])]"
  have "list_ex (edge_open ?ctx) ?edges" by (simp add: edge_open_def)
  with best_open_edge_taken [where edges = ?edges and ctx = ?ctx]
  show ?thesis by (cases "evaluate_transition ?edges ?ctx") simp_all
qed

section \<open>Runs\<close>

definition ids_ranked :: "workflow \<Rightarrow> (int \<Rightarrow> nat) \<Rightarrow> bool" where
  "ids_ranked w rank \<longleftrightarrow> (\<forall>e\<in>set (wf_edges w). rank (we_target e) < rank (we_source e))"

lemma next_node_edge:
  assumes "next_node w n ctx = Some m"
  shows "m \<in> set (wf_nodes w) \<and> (\<exists>e\<in>set (wf_edges w). we_source e = wn_id n \<and> we_target e = wn_id m \<and> edge_open ctx e)"
proof -
  obtain i where i: "evaluate_transition (filter (\<lambda>e. we_source e = wn_id n) (wf_edges w)) ctx = Some i"
      "find (\<lambda>m. wn_id m = i) (wf_nodes w) = Some m"
    using assms by (auto simp: next_node_def split: option.splits if_splits)
  have "m \<in> set (wf_nodes w) \<and> wn_id m = i" using i(2) by (auto simp: find_Some_iff in_set_conv_nth)
  moreover obtain xs e ys where "sort_key_desc we_priority (filter (\<lambda>e. we_source e = wn_id n) (wf_edges w)) = xs @ e # ys"
      "we_target e = i" "edge_open ctx e"
    using first_open_split [of ctx _ i] i(1) unfolding evaluate_transition_def by blast
  then have "e \<in> set (filter (\<lambda>e. we_source e = wn_id n) (wf_edges w))"
    by (metis in_set_conv_decomp set_sort_key_desc)
  ultimately show ?thesis using \<open>we_target e = i\<close> \<open>edge_open ctx e\<close> by auto
qed

lemma visit_steps: "wr_steps (fst (visit call n r)) = wr_steps r @ [record_step n (execute_node call (length (wr_steps r)) n
    ((wr_execution r)\<lparr>wx_current_node := Some (wn_id n)\<rparr>))]"
  by (simp add: visit_def Let_def)

lemma visit_ok: "snd (visit call n r) \<longleftrightarrow> st_status (last (wr_steps (fst (visit call n r)))) = ''COMPLETED''"
  by (auto simp: visit_def Let_def record_step_def split: sum.split)

lemma record_step_node [simp]: "st_node_id (record_step n res) = wn_id n"
  by (auto simp: record_step_def split: sum.split)

text \<open>A path of node ids along the edges of the graph.\<close>

fun graph_path :: "workflow \<Rightarrow> int list \<Rightarrow> bool" where
  "graph_path w [] = True"
| "graph_path w [i] = True"
| "graph_path w (i # j # is) = (list_ex (\<lambda>e. we_source e = i \<and> we_target e = j) (wf_edges w) \<and> graph_path w (j # is))"

lemma graph_path_Cons:
  "graph_path w (i # is) \<longleftrightarrow>
     (is = [] \<or> list_ex (\<lambda>e. we_source e = i \<and> we_target e = hd is) (wf_edges w) \<and> graph_path w is)"
  by (cases "is") auto

definition run_ok :: "workflow \<Rightarrow> wf_node \<Rightarrow> wf_step list \<Rightarrow> wf_run \<Rightarrow> bool" where
  "run_ok w n new r \<longleftrightarrow> new \<noteq> [] \<and> st_node_id (hd new) = wn_id n \<and> graph_path w (map st_node_id new)
     \<and> list_all (\<lambda>s. st_status s = ''COMPLETED'') (butlast new)
     \<and> wx_status (wr_execution r) = st_status (last new) \<and> wx_completed (wr_execution r)"

lemma finish_simps [simp]:
  "wr_steps (finish st r) = wr_steps r" "wx_status (wr_execution (finish st r)) = st"
  "wx_completed (wr_execution (finish st r))"
  by (simp_all add: finish_def)

lemma record_step_status: "st_status (record_step n res) = (if is_ok res then ''COMPLETED'' else ''FAILED'')"
  by (auto simp: record_step_def split: sum.split)

lemma advance_cases:
  obtains (Fin) r' s where "advance call w n r = Finished r'" "wr_steps r' = wr_steps r @ [s]" "st_node_id s = wn_id n"
      "wx_status (wr_execution r') = st_status s" "wx_completed (wr_execution r')"
  | (Cont) m r' s where "advance call w n r = Continue m r'" "wr_steps r' = wr_steps r @ [s]" "st_node_id s = wn_id n"
      "st_status s = ''COMPLETED''" "next_node w n (wx_context (wr_execution r')) = Some m"
proof -
  obtain r1 ok where v: "visit call n r = (r1, ok)" by fastforce
  define s where "s = last (wr_steps r1)"
  have s: "wr_steps r1 = wr_steps r @ [s]" "st_node_id s = wn_id n"
      "st_status s = (if ok then ''COMPLETED'' else ''FAILED'')"
    using visit_steps [of call n r] v by (auto simp: s_def record_step_status visit_def Let_def)
  show ?thesis
  proof (cases "ok \<and> node_type n \<noteq> ''end'' \<and> next_node w n (wx_context (wr_execution r1)) \<noteq> None")
    case True
    then obtain m where "next_node w n (wx_context (wr_execution r1)) = Some m" by auto
    with True v s show ?thesis by (intro Cont [of m r1 s]) (auto simp: advance_def)
  next
    case False
    with v s show ?thesis
      by (intro Fin [of "finish (st_status s) r1" s]) (auto simp: advance_def split: option.split)
  qed
qed

lemma wf_loop_ok:
  "wf_loop fuel call w n r = Some r' \<Longrightarrow> \<exists>new. wr_steps r' = wr_steps r @ new \<and> run_ok w n new r'"
proof (induction fuel arbitrary: n r)
  case (Suc fuel)
  show ?case
  proof (cases rule: advance_cases [of call w n r])
    case (Fin r1 s)
    then show ?thesis using Suc.prems by (intro exI [of _ "[s]"]) (auto simp: run_ok_def)
  next
    case (Cont m r1 s)
    then have "wf_loop fuel call w m r1 = Some r'" using Suc.prems by simp
    from Suc.IH [OF this] obtain new where new: "wr_steps r' = wr_steps r1 @ new" "run_ok w m new r'"
      by blast
    have "list_ex (\<lambda>e. we_source e = wn_id n \<and> we_target e = wn_id m) (wf_edges w)"
      using next_node_edge [OF Cont(5)] by (auto simp: list_ex_iff)
    then have "run_ok w n (s # new) r'"
      using new(2) Cont by (auto simp: run_ok_def graph_path_Cons hd_map)
    with new Cont show ?thesis by (intro exI [of _ "s # new"]) auto
  qed
qed simp

lemma wf_loop_acyclic:
  "ids_ranked w rank \<Longrightarrow> rank (wn_id n) < fuel \<Longrightarrow> wf_loop fuel call w n r \<noteq> None"
proof (induction fuel arbitrary: n r)
  case (Suc fuel)
  show ?case
  proof (cases rule: advance_cases [of call w n r])
    case (Cont m r1 s)
    then have "rank (wn_id m) < rank (wn_id n)"
      using next_node_edge [OF Cont(5)] Suc.prems(1) by (auto simp: ids_ranked_def)
    then show ?thesis using Suc Cont(1) by simp
  qed (auto simp del: not_None_eq)
qed simp

text \<open>
  C14: executing a workflow.  On a valid graph without cycles, witnessed by a rank
  that decreases along every edge, the run finishes within as many steps as the
  rank of the start node allows, whatever the services do.  The recorded steps
  follow edges of the graph from the start node, all but the last completed,
  and the execution ends completed or failed as its last step did.
\<close>

theorem acyclic_workflow_finishes:
  assumes w: "get_by_org_and_id wf_organization_id org wid ws = Some w"
    and valid: "validate_graph w = Ok ()" and ranked: "ids_ranked w rank"
    and start: "find (\<lambda>n. node_type n = ''start'') (wf_nodes w) = Some n" and fuel: "rank (wn_id n) < fuel"
  shows "\<exists>r. execute_workflow fuel call nid wid org agent ws = Ok (Some r)
     \<and> st_node_id (hd (wr_steps r)) = wn_id n \<and> graph_path w (map st_node_id (wr_steps r))
     \<and> list_all (\<lambda>s. st_status s = ''COMPLETED'') (butlast (wr_steps r))
     \<and> wx_status (wr_execution r) = st_status (last (wr_steps r)) \<and> wx_completed (wr_execution r)"
proof -
  let ?r = "\<lparr>wr_execution = initial_execution nid wid org agent, wr_steps = []\<rparr>"
  obtain r where "wf_loop fuel call w n ?r = Some r" using wf_loop_acyclic [OF ranked fuel, of call ?r] by blast
  moreover from wf_loop_ok [OF this] have "run_ok w n (wr_steps r) r" by auto
  ultimately show ?thesis
    using w valid start by (auto simp: execute_workflow_def run_ok_def)
qed

definition two_step :: workflow where
  "two_step = \<lparr>wf_organization_id = 1, wf_name = ''w'',
     wf_nodes = [\<lparr>wn_id = 10, wn_node_type = ''Start'', wn_name = ''s'', wn_configuration = None, wn_retry_policy = None\<rparr>,
       \<lparr>wn_id = 20, wn_node_type = ''end'', wn_name = ''e'', wn_configuration = None, wn_retry_policy = None\<rparr>],
     wf_edges = [\<lparr>we_source = 10, we_target = 20, we_condition = None, we_priority = 0\<rparr>]\<rparr>"

theorem acyclic_workflow_finishes_witness:
  "\<exists>r. execute_workflow 2 (\<lambda>_ _ _. Err ''unused'') 1 5 1 7 [(5, two_step)] = Ok (Some r)
     \<and> graph_path two_step (map st_node_id (wr_steps r))"
proof -
  let ?n = "\<lparr>wn_id = 10, wn_node_type = ''Start'', wn_name = ''s'', wn_configuration = None, wn_retry_policy = None\<rparr>"
  have lower: "py_lower ''Start'' = ''start''" "py_lower ''end'' = ''end''" by code_simp+
  have "get_by_org_and_id wf_organization_id 1 5 [(5, two_step)] = Some two_step"
    by (simp add: get_by_org_and_id_def repo_get_def two_step_def)
  moreover have "validate_graph two_step = Ok ()"
    by (simp add: validate_graph_def two_step_def node_type_def orphans_def lower)
  moreover have "ids_ranked two_step (\<lambda>i. if i = 10 then 1 else 0)" by (simp add: ids_ranked_def two_step_def)
  moreover have "find (\<lambda>n. node_type n = ''start'') (wf_nodes two_step) = Some ?n"
    by (simp add: two_step_def node_type_def lower)
  ultimately show ?thesis
    using acyclic_workflow_finishes [where fuel = 2 and n = ?n and org = 1 and wid = 5 and ws = "[(5, two_step)]"
        and w = two_step and rank = "\<lambda>i. if i = 10 then 1 else 0"] by fastforce
qed

section \<open>Cycles\<close>

definition self_loop :: "int \<Rightarrow> workflow" where
  "self_loop org = \<lparr>wf_organization_id = org, wf_name = ''loop'',
     wf_nodes = [\<lparr>wn_id = 1, wn_node_type = ''start'', wn_name = ''s'', wn_configuration = None, wn_retry_policy = None\<rparr>],
     wf_edges = [\<lparr>we_source = 1, we_target = 1, we_condition = None, we_priority = 0\<rparr>]\<rparr>"

lemma self_loop_next:
  "next_node (self_loop org) \<lparr>wn_id = 1, wn_node_type = ''start'', wn_name = ''s'', wn_configuration = None, wn_retry_policy = None\<rparr> ctx
   = Some \<lparr>wn_id = 1, wn_node_type = ''start'', wn_name = ''s'', wn_configuration = None, wn_retry_policy = None\<rparr>"
  by (simp add: next_node_def self_loop_def evaluate_transition_def sort_key_desc_def edge_open_def)

text \<open>
  Nothing bounds a cyclic workflow.  A start node with an unconditional edge
  to itself passes the graph check, and its execution never finishes: no amount
  of fuel gives a result.
\<close>

theorem cyclic_workflow_diverges:
  "validate_graph (self_loop org) = Ok ()
   \<and> execute_workflow fuel call nid wid org agent [(wid, self_loop org)] = Ok None"
proof -
  let ?n = "\<lparr>wn_id = 1, wn_node_type = ''start'', wn_name = ''s'', wn_configuration = None, wn_retry_policy = None\<rparr>"
  have lower: "py_lower ''start'' = ''start''" by code_simp
  have valid: "validate_graph (self_loop org) = Ok ()"
    by (simp add: validate_graph_def self_loop_def node_type_def orphans_def lower)
  have "\<exists>r'. advance call (self_loop org) ?n r = Continue ?n r'" for r
    by (simp add: advance_def visit_def Let_def execute_node_def int_of_json_def dict_get_or_def node_body_def
        node_type_def lower self_loop_next)
  then have "wf_loop fuel call (self_loop org) ?n r = None" for r
  proof (induction fuel arbitrary: r)
    case (Suc fuel)
    obtain r' where "advance call (self_loop org) ?n r = Continue ?n r'" using Suc.prems by blast
    then show ?case using Suc by simp
  qed simp
  then show ?thesis
    using valid
    by (simp add: execute_workflow_def get_by_org_and_id_def repo_get_def) (simp add: self_loop_def node_type_def lower)
qed

end
