(* ===== verification/Agent_Engine.thy ===== *)
theory Agent_Engine
  imports Tables Tasks Workflow
begin

text \<open>
  The agent engine: goals, goal tasks and execution rows (\<open>models/goal.py\<close>), the
  rule-based reasoner, decision, reflection and evaluation steps
  (\<open>agent_engine/\<close>), and the service that creates a goal and runs its tasks
  (\<open>services/agent_engine_service.py\<close>).

  The services an action delegates to (memories, knowledge bases, tools,
  workflows) are the fields of a record, functions on a state \<open>'e\<close> that stands
  for everything they read and write; each may raise, which is the error text.
  The keys of new rows and the foreign key check of the database are arguments.
  Durations are left out, the clock is an argument, and an attribute changed in
  memory reaches its table at the next update of the row.
\<close>

section \<open>Rows\<close>

record agent_goal =
  go_organization_id :: int
  go_agent_id :: int
  go_conversation_id :: "int option"
  go_title :: string
  go_description :: "string option"
  go_objective :: string
  go_priority :: string
  go_status :: string
  go_success_criteria :: "string option"
  go_created_by :: int

record goal_task =
  gt_goal_id :: int
  gt_title :: string
  gt_description :: "string option"
  gt_status :: string
  gt_priority :: string
  gt_order :: int
  gt_execution_type :: string

record agent_execution =
  ax_goal_id :: int
  ax_organization_id :: int
  ax_status :: string
  ax_completed_at :: "string option"
  ax_context :: metadata

record 'e engine_db =
  ed_goals :: "agent_goal table"
  ed_tasks :: "goal_task table"
  ed_executions :: "agent_execution table"
  ed_world :: 'e

section \<open>Reasoning, decision, reflection, evaluation\<close>

datatype action_type =
    THINK | SEARCH_KNOWLEDGE | SEARCH_MEMORY | EXECUTE_TOOL | RUN_WORKFLOW
  | ASK_USER | RESPOND | REFLECT | FINISH

definition action_value :: "action_type \<Rightarrow> string" where
  "action_value a = (case a of
      THINK \<Rightarrow> ''THINK'' | SEARCH_KNOWLEDGE \<Rightarrow> ''SEARCH_KNOWLEDGE'' | SEARCH_MEMORY \<Rightarrow> ''SEARCH_MEMORY''
    | EXECUTE_TOOL \<Rightarrow> ''EXECUTE_TOOL'' | RUN_WORKFLOW \<Rightarrow> ''RUN_WORKFLOW'' | ASK_USER \<Rightarrow> ''ASK_USER''
    | RESPOND \<Rightarrow> ''RESPOND'' | REFLECT \<Rightarrow> ''REFLECT'' | FINISH \<Rightarrow> ''FINISH'')"

definition reason_state :: "string \<Rightarrow> metadata \<Rightarrow> string" where
  "reason_state objective ctx =
     (if py_in ''policy'' objective \<or> py_in ''handbook'' objective then ''RAG_REQUIRED''
      else if py_in ''user'' objective \<or> py_in ''preferences'' objective then ''MEMORY_REQUIRED''
      else ''DEFAULT'')"

definition select_action :: "string \<Rightarrow> metadata \<Rightarrow> action_type" where
  "select_action reasoning ctx =
     (if reasoning = ''RAG_REQUIRED'' then SEARCH_KNOWLEDGE
      else if reasoning = ''MEMORY_REQUIRED'' then SEARCH_MEMORY
      else THINK)"

definition override_action :: "string \<Rightarrow> action_type \<Rightarrow> action_type" where
  "override_action execution_type fallback =
     (let n = py_lower execution_type in
      if py_in ''tool'' n then EXECUTE_TOOL
      else if py_in ''workflow'' n then RUN_WORKFLOW
      else if py_in ''rag'' n \<or> py_in ''knowledge'' n then SEARCH_KNOWLEDGE
      else if py_in ''memory'' n then SEARCH_MEMORY
      else fallback)"

text \<open>The confidence is kept in hundredths.\<close>

record reflection =
  rf_success :: bool
  rf_confidence :: int
  rf_replanning_needed :: bool

definition reflect_outcome :: "string \<Rightarrow> string option \<Rightarrow> reflection" where
  "reflect_outcome action_output success_criteria =
     \<lparr>rf_success = True, rf_confidence = 85, rf_replanning_needed = False\<rparr>"

definition is_goal_achieved :: "string \<Rightarrow> reflection \<Rightarrow> bool" where
  "is_goal_achieved objective r = (rf_success r \<and> rf_confidence r > 80)"

definition reflection_json :: "reflection \<Rightarrow> json" where
  "reflection_json r = JObj [(''success'', JBool (rf_success r)),
     (''confidence'', JFloat (''0.'' @ show_int (rf_confidence r))),
     (''replanning_needed'', JBool (rf_replanning_needed r))]"

section \<open>Actions\<close>

record 'e agent_services =
  sv_memories :: "int \<Rightarrow> int \<Rightarrow> string \<Rightarrow> 'e \<Rightarrow> (string, json list) result \<times> 'e"
  sv_knowledge_bases :: "int \<Rightarrow> 'e \<Rightarrow> (int \<times> string) list"
  sv_context :: "int \<Rightarrow> string \<Rightarrow> 'e \<Rightarrow> (string, string) result \<times> 'e"
  sv_tool :: "string \<Rightarrow> string \<Rightarrow> int \<Rightarrow> int \<Rightarrow> int \<Rightarrow> 'e \<Rightarrow> (string, bool \<times> json list) result \<times> 'e"
  sv_workflow :: "int \<Rightarrow> int \<Rightarrow> int \<Rightarrow> 'e \<Rightarrow> (string, int \<times> string) result \<times> 'e"

definition extract_metadata_value :: "string option \<Rightarrow> string \<Rightarrow> string option" where
  "extract_metadata_value text key =
     (case text of
        None \<Rightarrow> None
      | Some s \<Rightarrow>
          map_option (\<lambda>part. strip_chars (set '' ,;'') (drop (length key + 1) part))
            (find (starts_with (key @ ''='')) (split_ws s)))"

fun knowledge_contexts ::
  "'e agent_services \<Rightarrow> string \<Rightarrow> (int \<times> string) list \<Rightarrow> 'e \<Rightarrow> (string, json list) result \<times> 'e" where
  "knowledge_contexts sv q [] e = (Ok [], e)"
| "knowledge_contexts sv q ((kb, name) # kbs) e =
     (case sv_context sv kb q e of
        (Inl x, e1) \<Rightarrow> (Err x, e1)
      | (Inr c, e1) \<Rightarrow>
          (case knowledge_contexts sv q kbs e1 of
             (Inl x, e2) \<Rightarrow> (Err x, e2)
           | (Inr cs, e2) \<Rightarrow>
               (Ok (if c = [] then cs
                    else JObj [(''knowledge_base_id'', JInt kb), (''name'', JStr name), (''context'', JStr c)] # cs), e2)))"

definition task_output :: "bool \<Rightarrow> int \<Rightarrow> string \<Rightarrow> metadata \<Rightarrow> metadata" where
  "task_output ok task_id summary extra =
     [(''success'', JBool ok), (''task_id'', JInt task_id), (''summary'', JStr summary)] @ extra"

definition placeholder_output :: "int \<Rightarrow> string \<Rightarrow> metadata" where
  "placeholder_output task_id summary =
     [(''success'', JBool False), (''task_id'', JInt task_id), (''placeholder'', JBool True), (''summary'', JStr summary)]"

definition task_query :: "goal_task \<Rightarrow> agent_goal \<Rightarrow> string" where
  "task_query t g = or_str (gt_description t) (if gt_title t \<noteq> [] then gt_title t else go_objective g)"

definition execute_action ::
  "'e agent_services \<Rightarrow> action_type \<Rightarrow> agent_goal \<Rightarrow> int \<times> goal_task \<Rightarrow> 'e \<Rightarrow> (string, metadata) result \<times> 'e" where
  "execute_action sv action g it e =
     (let (tid, t) = it; q = task_query t g in
      if action = SEARCH_MEMORY then
        (case sv_memories sv (go_organization_id g) (go_agent_id g) q e of
           (Inl x, e1) \<Rightarrow> (Err x, e1)
         | (Inr ms, e1) \<Rightarrow>
             (Ok (task_output True tid (''Retrieved '' @ show_nat (length ms) @ '' memory item(s).'')
                    [(''memories'', JList ms)]), e1))
      else if action = SEARCH_KNOWLEDGE then
        (case knowledge_contexts sv q (sv_knowledge_bases sv (go_organization_id g) e) e of
           (Inl x, e1) \<Rightarrow> (Err x, e1)
         | (Inr cs, e1) \<Rightarrow>
             (Ok (task_output True tid (''Retrieved context from '' @ show_nat (length cs) @ '' knowledge base(s).'')
                    [(''knowledge_contexts'', JList cs)]), e1))
      else if action = EXECUTE_TOOL then
        (case or_str (extract_metadata_value (gt_description t) ''tool_name'') [] of
           [] \<Rightarrow> (Ok (placeholder_output tid ''Tool execution requires task metadata containing tool_name.''), e)
         | c # cs \<Rightarrow>
             (case sv_tool sv (''agent-task-'' @ show_int tid) (c # cs) (go_organization_id g) (go_agent_id g)
                     (or_int (go_conversation_id g) 0) e of
                (Inl x, e1) \<Rightarrow> (Err x, e1)
              | (Inr (ok, rs), e1) \<Rightarrow>
                  (Ok (task_output ok tid (''Executed tool '' @ [CHR 0x27] @ (c # cs) @ [CHR 0x27] @ ''.'')
                         [(''tool_results'', JList rs)]), e1)))
      else if action = RUN_WORKFLOW then
        (case or_str (extract_metadata_value (gt_description t) ''workflow_id'') [] of
           [] \<Rightarrow> (Ok (placeholder_output tid ''Workflow execution requires task metadata containing workflow_id.''), e)
         | c # cs \<Rightarrow>
             (case py_int (c # cs) of
                None \<Rightarrow> (Err (''invalid literal for int() with base 10: '' @ repr_string (c # cs)), e)
              | Some wid \<Rightarrow>
                  (case sv_workflow sv wid (go_organization_id g) (go_agent_id g) e of
                     (Inl x, e1) \<Rightarrow> (Err x, e1)
                   | (Inr (xid, status), e1) \<Rightarrow>
                       (Ok (task_output (status = ''COMPLETED'') tid
                              (''Workflow execution '' @ show_int xid @ '' finished with '' @ status @ ''.'')
                              [(''workflow_execution_id'', JInt xid)]), e1))))
      else
        (Ok (task_output True tid ''Reasoning cycle completed with existing planner/reasoner components.''
               [(''placeholder'', JBool (action = THINK))]), e))"

section \<open>Creating a goal\<close>

definition task_state_value :: "task_state \<Rightarrow> string" where
  "task_state_value s = (case s of
      T_CREATED \<Rightarrow> ''CREATED'' | T_READY \<Rightarrow> ''READY'' | T_BLOCKED \<Rightarrow> ''BLOCKED'' | T_WAITING \<Rightarrow> ''WAITING''
    | T_RUNNING \<Rightarrow> ''RUNNING'' | T_COMPLETED \<Rightarrow> ''COMPLETED'' | T_FAILED \<Rightarrow> ''FAILED'' | T_CANCELLED \<Rightarrow> ''CANCELLED'')"

definition goal_from_db :: "string \<Rightarrow> int \<Rightarrow> agent_goal \<Rightarrow> goal_report" where
  "goal_from_db now gid g =
     \<lparr>g_goal_id = Some gid, g_title = go_title g, g_description = go_description g, g_objective = go_objective g,
      g_owner_id = Some (go_created_by g), g_organization_id = Some (go_organization_id g),
      g_priority = priority_from_string (go_priority g), g_status = status_from_string (go_status g),
      g_dependencies = [], g_parent_goal_id = None, g_child_goal_ids = [], g_milestones = [],
      g_created_at = now, g_updated_at = now,
      g_completed_at = (if go_status g \<in> {''COMPLETED'', ''CANCELLED'', ''FAILED''} then Some now else None),
      g_metadata = [(''success_criteria'', case go_success_criteria g of None \<Rightarrow> JNull | Some c \<Rightarrow> JStr c),
                    (''constraints'', JObj [])]\<rparr>"

definition task_row :: "int \<Rightarrow> nat \<Rightarrow> task_report \<Rightarrow> goal_task" where
  "task_row gid index t =
     \<lparr>gt_goal_id = gid, gt_title = tk_title t, gt_description = tk_description t,
      gt_status = task_state_value (tk_status t), gt_priority = priority_value (tk_priority t),
      gt_order = int index, gt_execution_type = tk_capability t\<rparr>"

definition add_task :: "(goal_task table \<Rightarrow> int) \<Rightarrow> int \<Rightarrow> nat \<times> task_report \<Rightarrow> goal_task table \<Rightarrow> goal_task table" where
  "add_task nk gid it ts = repo_create (nk ts) (task_row gid (fst it) (snd it)) ts"

text \<open>The keyword arguments of \<open>create_goal\<close> other than the row's own columns.\<close>

definition create_agent_goal ::
  "string \<Rightarrow> (agent_goal \<Rightarrow> bool) \<Rightarrow> (goal_task table \<Rightarrow> int) \<Rightarrow> int
   \<Rightarrow> string \<Rightarrow> string option \<Rightarrow> string \<Rightarrow> string \<Rightarrow> string option \<Rightarrow> int \<Rightarrow> int \<Rightarrow> int option \<Rightarrow> int
   \<Rightarrow> 'e engine_db \<Rightarrow> (service_error, int) result \<times> 'e engine_db" where
  "create_agent_goal now fk_ok nk gid name descr objective priority criteria org agent conversation user db =
     (let g = \<lparr>go_organization_id = org, go_agent_id = agent, go_conversation_id = conversation, go_title = name,
               go_description = descr, go_objective = objective, go_priority = priority, go_status = ''PENDING'',
               go_success_criteria = criteria, go_created_by = user\<rparr>
      in if \<not> fk_ok g then (Err IntegrityError, db)
         else (Ok gid, db\<lparr>ed_goals := repo_create gid g (ed_goals db),
                 ed_tasks := fold (add_task nk gid) (enumerate 0 (split_goal now (goal_from_db now gid g))) (ed_tasks db)\<rparr>))"

section \<open>Running a goal\<close>

definition list_by_goal :: "int \<Rightarrow> goal_task table \<Rightarrow> (int \<times> goal_task) list" where
  "list_by_goal gid ts = sort_key (\<lambda>it. gt_order (snd it)) (repo_where (\<lambda>t. gt_goal_id t = gid) ts)"

definition plan_entry :: "int \<times> goal_task \<Rightarrow> json" where
  "plan_entry it = JObj [(''task_id'', JInt (fst it)), (''title'', JStr (gt_title (snd it))),
     (''description'', case gt_description (snd it) of None \<Rightarrow> JNull | Some d \<Rightarrow> JStr d),
     (''execution_type'', JStr (gt_execution_type (snd it)))]"

definition new_execution :: "int \<Rightarrow> int \<Rightarrow> agent_goal \<Rightarrow> (int \<times> goal_task) list \<Rightarrow> agent_execution" where
  "new_execution gid org g tasks =
     \<lparr>ax_goal_id = gid, ax_organization_id = org, ax_status = ''RUNNING'', ax_completed_at = None,
      ax_context = [(''iterations'', JInt 0), (''status'', JStr ''active''), (''objective'', JStr (go_objective g)),
        (''plan'', JList (map plan_entry tasks)), (''task_results'', JList []), (''reflections'', JList []),
        (''evaluations'', JList [])]\<rparr>"

definition append_to :: "metadata \<Rightarrow> string \<Rightarrow> json \<Rightarrow> metadata" where
  "append_to ctx k v =
     dict_set ctx k (case dict_get ctx k of Some (JList xs) \<Rightarrow> JList (xs @ [v]) | _ \<Rightarrow> JList [v])"

definition output_message :: "metadata \<Rightarrow> string" where
  "output_message out = (case dict_get out ''summary'' of Some v \<Rightarrow> py_str v | None \<Rightarrow> py_str (JObj out))"

definition output_success :: "metadata \<Rightarrow> bool" where
  "output_success out = truthy (dict_get_or out ''success'' (JBool True))"

definition set_task :: "int \<Rightarrow> goal_task \<Rightarrow> (int \<times> goal_task) list \<Rightarrow> (int \<times> goal_task) list" where
  "set_task tid t ts = map (\<lambda>(i, q). (i, if i = tid then t else q)) ts"

definition checkpoint ::
  "metadata \<Rightarrow> metadata \<Rightarrow> json \<Rightarrow> json \<Rightarrow> string \<Rightarrow> action_type \<Rightarrow> bool \<Rightarrow> metadata" where
  "checkpoint ctx out rfl ev reasoning action achieved =
     dict_set (dict_set (dict_set
       (append_to (append_to (append_to ctx ''task_results'' (JObj out)) ''reflections'' rfl) ''evaluations'' ev)
       ''last_reasoning'' (JStr reasoning)) ''last_action'' (JStr (action_value action)))
       ''status'' (JStr (if achieved then ''completed'' else ''active''))"

text \<open>
  The loop of \<open>execute_goal\<close>: \<open>n\<close> iterations are left, \<open>tasks\<close> are the rows as the
  session holds them.  The result is the flag \<open>goal_achieved\<close>, or the text of the
  exception an action raised.
\<close>

record 'e agent_run =
  ar_db :: "'e engine_db"
  ar_tasks :: "(int \<times> goal_task) list"
  ar_execution :: agent_execution

definition run_goal_task ::
  "'e agent_services \<Rightarrow> agent_goal \<Rightarrow> int \<Rightarrow> int \<times> goal_task \<Rightarrow> 'e agent_run
   \<Rightarrow> (string, bool \<times> metadata \<times> reflection) result \<times> 'e agent_run" where
  "run_goal_task sv g xid it r =
     (let (tid, t) = it; ctx = ax_context (ar_execution r);
          reasoning = reason_state (go_objective g @ [CHR 0x0A] @ or_str (gt_description t) (gt_title t)) ctx;
          action = override_action (gt_execution_type t) (select_action reasoning ctx)
      in case execute_action sv action g it (ed_world (ar_db r)) of
           (Inl x, e) \<Rightarrow> (Err x, r\<lparr>ar_db := (ar_db r)\<lparr>ed_world := e\<rparr>\<rparr>)
         | (Inr out, e) \<Rightarrow>
             (let rfl = reflect_outcome (output_message out) (go_success_criteria g);
                  achieved = is_goal_achieved (go_objective g) rfl;
                  ev = JObj [(''task_id'', JInt tid), (''action'', JStr (action_value action)),
                             (''goal_achieved'', JBool achieved),
                             (''success'', dict_get_or out ''success'' (JBool True))];
                  t' = t\<lparr>gt_status := (if output_success out then ''COMPLETED'' else ''FAILED'')\<rparr>;
                  x' = (ar_execution r)\<lparr>ax_context := checkpoint ctx out (reflection_json rfl) ev reasoning action achieved\<rparr>
              in (Ok (achieved, out, rfl),
                  \<lparr>ar_db = (ar_db r)\<lparr>ed_world := e, ed_tasks := repo_update tid t' (ed_tasks (ar_db r)),
                              ed_executions := repo_update xid x' (ed_executions (ar_db r))\<rparr>,
                   ar_tasks = set_task tid t' (ar_tasks r), ar_execution = x'\<rparr>)))"

definition set_iterations :: "nat \<Rightarrow> 'e agent_run \<Rightarrow> 'e agent_run" where
  "set_iterations i r =
     r\<lparr>ar_execution := (ar_execution r)\<lparr>ax_context :=
         dict_set (ax_context (ar_execution r)) ''iterations'' (JInt (int i))\<rparr>\<rparr>"

fun agent_loop ::
  "'e agent_services \<Rightarrow> agent_goal \<Rightarrow> int \<Rightarrow> nat \<Rightarrow> nat \<Rightarrow> 'e agent_run \<Rightarrow> (string, bool) result \<times> 'e agent_run" where
  "agent_loop sv g xid i 0 r = (Ok False, r)"
| "agent_loop sv g xid i (Suc n) r =
     (let r1 = set_iterations (Suc i) r in
      case find (\<lambda>it. gt_status (snd it) \<noteq> ''COMPLETED'') (ar_tasks r1) of
        None \<Rightarrow> (Ok False, r1)
      | Some it \<Rightarrow>
          (case run_goal_task sv g xid it r1 of
             (Inl x, r2) \<Rightarrow> (Err x, r2)
           | (Inr (achieved, out, rfl), r2) \<Rightarrow>
               if dict_get out ''success'' = Some (JBool False) \<and> \<not> rf_replanning_needed rfl
               then (Ok achieved, r2)
               else if achieved then (Ok True, r2)
               else agent_loop sv g xid (Suc i) n r2))"

definition finish_execution :: "string \<Rightarrow> int \<Rightarrow> int \<Rightarrow> agent_goal \<Rightarrow> bool \<Rightarrow> 'e agent_run \<Rightarrow> agent_execution \<times> 'e engine_db" where
  "finish_execution now xid gid g achieved r =
     (let finished = list_all (\<lambda>it. gt_status (snd it) = ''COMPLETED'') (ar_tasks r);
          x = (ar_execution r)\<lparr>ax_status := (if achieved \<or> finished then ''COMPLETED'' else ''FAILED''),
                              ax_completed_at := Some now\<rparr>
      in (x, (ar_db r)\<lparr>ed_executions := repo_update xid x (ed_executions (ar_db r)),
                       ed_goals := repo_update gid (g\<lparr>go_status := ax_status x\<rparr>) (ed_goals (ar_db r))\<rparr>))"

definition execute_agent_goal ::
  "string \<Rightarrow> 'e agent_services \<Rightarrow> int \<Rightarrow> int \<Rightarrow> int \<Rightarrow> 'e engine_db
   \<Rightarrow> (string, int \<times> agent_execution) result \<times> 'e engine_db" where
  "execute_agent_goal now sv xid gid org db =
     (case get_by_org_and_id go_organization_id org gid (ed_goals db) of
        None \<Rightarrow> (Err ''Goal not found.'', db)
      | Some g \<Rightarrow>
          (let tasks = list_by_goal gid (ed_tasks db);
               x = new_execution gid org g tasks;
               r = \<lparr>ar_db = db\<lparr>ed_executions := repo_create xid x (ed_executions db)\<rparr>, ar_tasks = tasks, ar_execution = x\<rparr>
           in case agent_loop sv g xid 0 (max (length tasks) 1) r of
                (Inl e, r') \<Rightarrow> (Err e, ar_db r')
              | (Inr achieved, r') \<Rightarrow>
                  (let (x', db') = finish_execution now xid gid g achieved r' in (Ok (xid, x'), db'))))"

definition agent_set_status ::
  "string \<Rightarrow> string option \<Rightarrow> int \<Rightarrow> int \<Rightarrow> 'e engine_db \<Rightarrow> (service_error, agent_execution) result \<times> 'e engine_db" where
  "agent_set_status status stamp org xid db =
     (case get_by_org_and_id ax_organization_id org xid (ed_executions db) of
        None \<Rightarrow> (Err (ValueError ''Execution not found.''), db)
      | Some x \<Rightarrow>
          (let x' = x\<lparr>ax_status := status, ax_completed_at := (case stamp of None \<Rightarrow> ax_completed_at x | Some now \<Rightarrow> Some now)\<rparr>
           in (Ok x', db\<lparr>ed_executions := repo_update xid x' (ed_executions db)\<rparr>)))"

definition agent_pause_execution where "agent_pause_execution = agent_set_status ''PAUSED'' None"
definition agent_resume_execution where "agent_resume_execution = agent_set_status ''RUNNING'' None"
definition agent_cancel_execution where "agent_cancel_execution now = agent_set_status ''CANCELLED'' (Some now)"

section \<open>One run of a goal\<close>

definition task_action :: "agent_goal \<Rightarrow> goal_task \<Rightarrow> action_type" where
  "task_action g t = override_action (gt_execution_type t)
     (select_action (reason_state (go_objective g @ [CHR 0x0A] @ or_str (gt_description t) (gt_title t)) []) [])"

definition pending_task :: "(int \<times> goal_task) list \<Rightarrow> (int \<times> goal_task) option" where
  "pending_task ts = find (\<lambda>it. gt_status (snd it) \<noteq> ''COMPLETED'') ts"

lemma always_achieved [simp]: "is_goal_achieved obj (reflect_outcome msg crit)"
  by (simp add: is_goal_achieved_def reflect_outcome_def)

lemma choose_action [simp]:
  "override_action (gt_execution_type t)
     (select_action (reason_state (go_objective g @ CHR 0x0A # or_str (gt_description t) (gt_title t)) ctx) ctx')
   = task_action g t"
  by (simp add: task_action_def select_action_def reason_state_def)

lemma set_iterations_sel [simp]:
  "ar_tasks (set_iterations i r) = ar_tasks r" "ar_db (set_iterations i r) = ar_db r"
  "ax_status (ar_execution (set_iterations i r)) = ax_status (ar_execution r)"
  by (simp_all add: set_iterations_def)

lemma run_goal_task_raises:
  "execute_action sv (task_action g (snd it)) g it (ed_world (ar_db r)) = (Inl x, e) \<Longrightarrow>
   run_goal_task sv g xid it r = (Err x, r\<lparr>ar_db := (ar_db r)\<lparr>ed_world := e\<rparr>\<rparr>)"
  by (cases it) (simp add: run_goal_task_def Let_def)

lemma run_goal_task_returns:
  assumes "execute_action sv (task_action g (snd it)) g it (ed_world (ar_db r)) = (Inr out, e)"
  shows "\<exists>rf x'. let t' = (snd it)\<lparr>gt_status := (if output_success out then ''COMPLETED'' else ''FAILED'')\<rparr> in
     run_goal_task sv g xid it r = (Ok (True, out, rf),
       \<lparr>ar_db = (ar_db r)\<lparr>ed_world := e, ed_tasks := repo_update (fst it) t' (ed_tasks (ar_db r)),
                  ed_executions := repo_update xid x' (ed_executions (ar_db r))\<rparr>,
        ar_tasks = set_task (fst it) t' (ar_tasks r), ar_execution = x'\<rparr>)"
  using assms by (cases it) (auto simp: run_goal_task_def Let_def)

lemma repo_update_twice [simp]: "repo_update i a (repo_update i b t) = repo_update i a t"
  by (auto simp: repo_update_def)

text \<open>What a call to \<open>execute_goal\<close> does to a goal that is found.\<close>

definition goal_run_spec ::
  "string \<Rightarrow> 'e agent_services \<Rightarrow> int \<Rightarrow> int \<Rightarrow> int \<Rightarrow> agent_goal \<Rightarrow> 'e engine_db
   \<Rightarrow> (string, int \<times> agent_execution) result \<times> 'e engine_db \<Rightarrow> bool" where
  "goal_run_spec now sv xid gid org g db res =
     (let ts = list_by_goal gid (ed_tasks db); x0 = new_execution gid org g ts;
          closed = (\<lambda>e tasks'. \<exists>x. ax_status x = ''COMPLETED'' \<and> ax_completed_at x = Some now
             \<and> res = (Ok (xid, x), db\<lparr>ed_world := e, ed_tasks := tasks',
                  ed_executions := repo_update xid x (repo_create xid x0 (ed_executions db)),
                  ed_goals := repo_update gid (g\<lparr>go_status := ''COMPLETED''\<rparr>) (ed_goals db)\<rparr>))
      in case pending_task ts of
           None \<Rightarrow> closed (ed_world db) (ed_tasks db)
         | Some (tid, t) \<Rightarrow>
             (case execute_action sv (task_action g t) g (tid, t) (ed_world db) of
                (Inl err, e) \<Rightarrow> res = (Err err, db\<lparr>ed_world := e, ed_executions := repo_create xid x0 (ed_executions db)\<rparr>)
              | (Inr out, e) \<Rightarrow> closed e (repo_update tid
                   (t\<lparr>gt_status := (if output_success out then ''COMPLETED'' else ''FAILED'')\<rparr>) (ed_tasks db))))"

lemma goal_run_meets_spec:
  assumes "get_by_org_and_id go_organization_id org gid (ed_goals db) = Some g"
  shows "goal_run_spec now sv xid gid org g db (execute_agent_goal now sv xid gid org db)"
proof -
  let ?ts = "list_by_goal gid (ed_tasks db)"
  obtain n where n: "max (length ?ts) 1 = Suc n" by (metis Suc_le_D max.cobounded2 One_nat_def)
  show ?thesis
  proof (cases "pending_task ?ts")
    case None
    then have "list_all (\<lambda>it. gt_status (snd it) = ''COMPLETED'') ?ts"
      by (auto simp: pending_task_def find_None_iff list_all_iff)
    with None n assms show ?thesis
      by (simp add: goal_run_spec_def execute_agent_goal_def Let_def pending_task_def finish_execution_def)
  next
    case (Some it)
    obtain tid t where it: "it = (tid, t)" by fastforce
    obtain res e where act: "execute_action sv (task_action g t) g (tid, t) (ed_world db) = (res, e)" by fastforce
    show ?thesis
    proof (cases res)
      case (Inl err)
      with Some n it assms act show ?thesis
        by (simp add: goal_run_spec_def execute_agent_goal_def Let_def pending_task_def run_goal_task_raises)
    next
      case (Inr out)
      let ?r = "set_iterations (Suc 0) \<lparr>ar_db = db\<lparr>ed_executions := repo_create xid (new_execution gid org g ?ts)
          (ed_executions db)\<rparr>, ar_tasks = ?ts, ar_execution = new_execution gid org g ?ts\<rparr>"
      have "execute_action sv (task_action g (snd it)) g it (ed_world (ar_db ?r)) = (Inr out, e)"
        using act Inr it by simp
      from run_goal_task_returns [OF this, of xid] Some n it assms act Inr show ?thesis
        by (auto simp: goal_run_spec_def execute_agent_goal_def Let_def pending_task_def finish_execution_def)
    qed
  qed
qed

lemma run_completes:
  assumes "execute_agent_goal now sv xid gid org db = (Ok (xid', x), db')"
  shows "xid' = xid \<and> ax_status x = ''COMPLETED''"
proof (cases "get_by_org_and_id go_organization_id org gid (ed_goals db)")
  case (Some g)
  from goal_run_meets_spec [OF Some, of now sv xid] assms show ?thesis
    by (auto simp: goal_run_spec_def Let_def split: option.splits prod.splits sum.splits)
qed (use assms in \<open>simp add: execute_agent_goal_def\<close>)

text \<open>
  C23: a run of a goal attempts exactly one task, the first that is not completed,
  and whatever that task's outcome the goal and its execution end COMPLETED: the
  reflection step reports success with confidence 0.85 for every output.  With
  no task left the run completes without an action; an exception of a service
  reaches the caller with the goal untouched and its new execution row left
  RUNNING.
\<close>

theorem goal_run_outcome:
  assumes "get_by_org_and_id go_organization_id org gid (ed_goals db) = Some g"
  shows "goal_run_spec now sv xid gid org g db (execute_agent_goal now sv xid gid org db)"
  using assms by (rule goal_run_meets_spec)

definition idle_services :: "unit agent_services" where
  "idle_services =
     \<lparr>sv_memories = (\<lambda>_ _ _ e. (Ok [], e)), sv_knowledge_bases = (\<lambda>_ _. []), sv_context = (\<lambda>_ _ e. (Ok [], e)),
      sv_tool = (\<lambda>_ _ _ _ _ e. (Ok (True, []), e)), sv_workflow = (\<lambda>_ _ _ e. (Err ''no such workflow'', e))\<rparr>"

definition sample_goal :: agent_goal where
  "sample_goal = \<lparr>go_organization_id = 7, go_agent_id = 3, go_conversation_id = None, go_title = ''g'',
     go_description = None, go_objective = ''run it'', go_priority = ''medium'', go_status = ''PENDING'',
     go_success_criteria = None, go_created_by = 2\<rparr>"

definition sample_engine :: "unit engine_db" where
  "sample_engine = \<lparr>ed_goals = [(1, sample_goal)],
     ed_tasks = [(4, \<lparr>gt_goal_id = 1, gt_title = ''t'', gt_description = Some ''call a tool'', gt_status = ''READY'',
                     gt_priority = ''medium'', gt_order = 0, gt_execution_type = ''Tool''\<rparr>)],
     ed_executions = [], ed_world = ()\<rparr>"

theorem goal_run_outcome_witness:
  "goal_run_spec ''now'' idle_services 5 1 7 sample_goal sample_engine
      (execute_agent_goal ''now'' idle_services 5 1 7 sample_engine)
   \<and> map (\<lambda>p. gt_status (snd p)) (ed_tasks (snd (execute_agent_goal ''now'' idle_services 5 1 7 sample_engine))) = [''FAILED'']
   \<and> map (\<lambda>p. go_status (snd p)) (ed_goals (snd (execute_agent_goal ''now'' idle_services 5 1 7 sample_engine))) = [''COMPLETED'']"
proof (intro conjI)
  show "goal_run_spec ''now'' idle_services 5 1 7 sample_goal sample_engine
      (execute_agent_goal ''now'' idle_services 5 1 7 sample_engine)"
    by (rule goal_run_outcome) (simp add: sample_engine_def sample_goal_def get_by_org_and_id_def repo_get_def)
qed code_simp+

section \<open>Tasks of a created goal\<close>

lemma add_task_app: "add_task nk gid it tab = tab @ [(nk tab, task_row gid (fst it) (snd it))]"
  by (simp add: add_task_def repo_create_def)

lemma fold_add_task:
  "\<exists>new. fold (add_task nk gid) its tab = tab @ new \<and> map snd new = map (\<lambda>(i, t). task_row gid i t) its"
proof (induction its arbitrary: tab)
  case (Cons it its)
  have a: "add_task nk gid it tab = tab @ [(nk tab, task_row gid (fst it) (snd it))]" by (rule add_task_app)
  from Cons.IH [of "add_task nk gid it tab"] obtain new where
    "fold (add_task nk gid) its (add_task nk gid it tab) = add_task nk gid it tab @ new"
    "map snd new = map (\<lambda>(i, t). task_row gid i t) its" by blast
  then show ?case
    by (intro exI [of _ "(nk tab, task_row gid (fst it) (snd it)) # new"]) (simp add: a split_beta)
qed simp

definition created_row :: "string \<Rightarrow> int \<Rightarrow> agent_goal \<Rightarrow> nat \<Rightarrow> goal_task" where
  "created_row now gid g i = task_row gid i (make_task now (goal_from_db now gid g) i)"

lemma created_row_sel [simp]:
  "gt_goal_id (created_row now gid g i) = gid" "gt_order (created_row now gid g i) = int i"
  "gt_status (created_row now gid g i) = (if i = 0 then ''READY'' else ''BLOCKED'')"
  "gt_execution_type (created_row now gid g i) = (if i = 0 then ''analysis'' else ''planning'')"
  "gt_description (created_row now gid g i) = Some (if i = 0 then go_objective g else ''Continue: '' @ go_objective g)"
  by (simp_all add: created_row_def task_row_def make_task_def task_state_value_def goal_from_db_def)

lemma enumerate_map_upt: "enumerate 0 (map f [0..<n]) = map (\<lambda>i. (i, f i)) [0..<n]"
  by (rule nth_equalityI) (simp_all add: nth_enumerate_eq)

lemma created_rows:
  "map (\<lambda>(i, t). task_row gid i t) (enumerate 0 (split_goal now (goal_from_db now gid g)))
   = map (created_row now gid g) [0..<base_count (goal_from_db now gid g)]"
  by (simp add: split_goal_def create_tasks_def enumerate_map_upt created_row_def)

lemma list_by_goal_new:
  assumes old: "\<forall>t\<in>rows tab. gt_goal_id t \<noteq> gid"
    and new: "map snd new = map (created_row now gid g) [0..<n]"
  shows "list_by_goal gid (tab @ new) = new"
proof -
  have "filter (\<lambda>(_, t). gt_goal_id t = gid) tab = []"
    using old by (auto simp: rows_def filter_empty_conv)
  moreover have "filter (\<lambda>(_, t). gt_goal_id t = gid) new = new"
  proof (rule filter_True, rule ballI)
    fix it assume "it \<in> set new"
    then have "snd it \<in> set (map (created_row now gid g) [0..<n])" using new by (metis image_eqI set_map)
    then show "case it of (_, t) \<Rightarrow> gt_goal_id t = gid" by auto
  qed
  moreover have "map (\<lambda>it. gt_order (snd it)) new = map int [0..<n]"
    using arg_cong [OF new, of "map gt_order"] by (simp add: comp_def)
  then have "sort_key (\<lambda>it. gt_order (snd it)) new = new"
    by (intro sort_key_id_if_sorted) (simp add: sorted_iff_nth_mono)
  ultimately show ?thesis by (simp add: list_by_goal_def repo_where_def)
qed

lemma plain_capability:
  "override_action ''analysis'' a = a" "override_action ''planning'' a = a"
  by (simp_all add: override_action_def) (code_simp+)

lemma created_action: "task_action g (created_row now gid g' i) \<in> {THINK, SEARCH_KNOWLEDGE, SEARCH_MEMORY}"
  by (simp add: task_action_def plain_capability select_action_def)

text \<open>
  Creating a goal stores its row and one task row per step of the split
  goal, in order, the first READY and the others BLOCKED; the tasks of other
  goals stay.  The action a run chooses for such a task only ever thinks or
  searches, it never runs a tool or a workflow: the capabilities the splitter
  writes are not execution types the engine routes.
\<close>

theorem created_goal_tasks:
  assumes fk: "\<And>r. fk_ok r" and fresh: "gid \<notin> ids (ed_goals db)" "\<forall>t\<in>rows (ed_tasks db). gt_goal_id t \<noteq> gid"
    and res: "create_agent_goal now fk_ok nk gid name descr obj prio crit org agent conv user db = (r, db')"
  shows "\<exists>g. r = Ok gid \<and> get_by_org_and_id go_organization_id org gid (ed_goals db') = Some g \<and> go_status g = ''PENDING''
    \<and> (let ts = map snd (list_by_goal gid (ed_tasks db'))
       in ts = map (created_row now gid g) [0..<base_count (goal_from_db now gid g)]
        \<and> ts \<noteq> [] \<and> gt_status (hd ts) = ''READY'' \<and> (\<forall>t\<in>set (tl ts). gt_status t = ''BLOCKED'')
        \<and> (\<forall>t\<in>set ts. task_action g t \<in> {THINK, SEARCH_KNOWLEDGE, SEARCH_MEMORY}))
    \<and> (\<forall>other. other \<noteq> gid \<longrightarrow> list_by_goal other (ed_tasks db') = list_by_goal other (ed_tasks db))"
proof -
  define g where "g = \<lparr>go_organization_id = org, go_agent_id = agent, go_conversation_id = conv, go_title = name,
      go_description = descr, go_objective = obj, go_priority = prio, go_status = ''PENDING'',
      go_success_criteria = crit, go_created_by = user\<rparr>"
  let ?n = "base_count (goal_from_db now gid g)"
  obtain new where new: "fold (add_task nk gid) (enumerate 0 (split_goal now (goal_from_db now gid g))) (ed_tasks db)
      = ed_tasks db @ new" "map snd new = map (created_row now gid g) [0..<?n]"
    using fold_add_task [of nk gid "enumerate 0 (split_goal now (goal_from_db now gid g))" "ed_tasks db"]
    unfolding created_rows by blast
  from res fk have r: "r = Ok gid" and gs: "ed_goals db' = repo_create gid g (ed_goals db)"
    and ts: "ed_tasks db' = ed_tasks db @ new"
    by (auto simp: create_agent_goal_def Let_def g_def [symmetric] new(1))
  have n: "0 < ?n" using base_count_bounds [of "goal_from_db now gid g"] by simp
  then have split: "[0..<?n] = 0 # [1..<?n]" by (simp add: upt_rec)
  have get: "get_by_org_and_id go_organization_id org gid (ed_goals db') = Some g"
    using fresh(1) by (simp add: gs get_by_org_and_id_def repo_get_create) (simp add: g_def)
  have lst: "list_by_goal gid (ed_tasks db') = new" unfolding ts by (rule list_by_goal_new [OF fresh(2) new(2)])
  have other: "list_by_goal other (ed_tasks db') = list_by_goal other (ed_tasks db)" if "other \<noteq> gid" for other
  proof -
    have "gt_goal_id (snd it) = gid" if "it \<in> set new" for it
    proof -
      from that have "snd it \<in> set (map (created_row now gid g) [0..<?n])" unfolding new(2) [symmetric] by simp
      then show ?thesis by auto
    qed
    then have "filter (\<lambda>(_, t). gt_goal_id t = other) new = []" using that by (auto simp: filter_empty_conv)
    then show ?thesis by (simp add: list_by_goal_def repo_where_def ts)
  qed
  have acts: "\<forall>t\<in>set (map (created_row now gid g) [0..<?n]). task_action g t \<in> {THINK, SEARCH_KNOWLEDGE, SEARCH_MEMORY}"
    using created_action by auto
  have first: "gt_status (hd (map (created_row now gid g) [0..<?n])) = ''READY''"
    and later: "\<forall>t\<in>set (tl (map (created_row now gid g) [0..<?n])). gt_status t = ''BLOCKED''"
    unfolding split by auto
  have ne: "map (created_row now gid g) [0..<?n] \<noteq> []" and pend: "go_status g = ''PENDING''"
    using n by (simp_all add: g_def)
  show ?thesis unfolding Let_def lst new(2)
    by (intro exI [of _ g] conjI r get pend refl ne first later acts allI impI other)
qed

theorem created_goal_tasks_witness:
  "let (r, db') = create_agent_goal ''now'' (\<lambda>_. True) serial_id 9 ''g'' None ''read the handbook'' ''high'' None 7 3 None 2 sample_engine
   in r = Ok 9 \<and> map (\<lambda>p. gt_status (snd p)) (list_by_goal 9 (ed_tasks db')) = [''READY'']
    \<and> list_by_goal 1 (ed_tasks db') = list_by_goal 1 (ed_tasks sample_engine)"
proof -
  obtain r db' where res: "create_agent_goal ''now'' (\<lambda>_. True) serial_id 9 ''g'' None ''read the handbook'' ''high''
      None 7 3 None 2 sample_engine = (r, db')" by fastforce
  have "(9::int) \<notin> ids (ed_goals sample_engine)" "\<forall>t\<in>rows (ed_tasks sample_engine). gt_goal_id t \<noteq> 9"
    by (simp_all add: sample_engine_def ids_def rows_def)
  from created_goal_tasks [OF _ this res] have "r = Ok 9"
    "\<forall>other. other \<noteq> 9 \<longrightarrow> list_by_goal other (ed_tasks db') = list_by_goal other (ed_tasks sample_engine)" by auto
  moreover have "map (\<lambda>p. gt_status (snd p)) (list_by_goal 9 (ed_tasks (snd (create_agent_goal ''now'' (\<lambda>_. True) serial_id 9
      ''g'' None ''read the handbook'' ''high'' None 7 3 None 2 sample_engine)))) = [''READY'']"
    by code_simp
  ultimately show ?thesis by (simp add: res)
qed

end
