(* ===== verification/Multi_Agent.thy ===== *)
theory Multi_Agent
  imports Agent_Engine
begin

text \<open>
  Multi-agent sessions: the rows (\<open>models/multi_agent.py\<close>), the queries
  (\<open>repositories/multi_agent_repository.py\<close>), the coordinator, the delegation
  engine, the shared context and the message bus (\<open>multi_agent/\<close>), and the
  service over them (\<open>services/multi_agent_service.py\<close>).  Participants run
  through the agent engine of theory Agent_Engine.

  The keys of new rows and the foreign key checks are arguments.  A callback of
  the message bus is a number; publishing records which callbacks were started
  with which message.  The clock of a call is one argument, and durations are
  left out.  The sub-task column is nullable but always written by the service.
\<close>

section \<open>Rows\<close>

record ma_session =
  se_organization_id :: int
  se_coordinator_agent_id :: int
  se_name :: string
  se_goal :: string
  se_status :: string
  se_shared_context :: metadata
  se_result :: "metadata option"
  se_started_at :: "string option"
  se_completed_at :: "string option"
  se_created_by :: int

record participant =
  pt_session_id :: int
  pt_agent_id :: int
  pt_role :: string
  pt_sub_task :: string
  pt_status :: string
  pt_result :: "metadata option"
  pt_completed_at :: "string option"

record inter_message =
  im_session_id :: int
  im_from_agent_id :: int
  im_to_agent_id :: "int option"
  im_message_type :: string
  im_content :: metadata
  im_delivered :: bool

record delegation =
  dg_session_id :: int
  dg_from_agent_id :: int
  dg_to_agent_id :: int
  dg_task_description :: string
  dg_context :: metadata
  dg_depth :: int
  dg_status :: string
  dg_result :: "metadata option"
  dg_resolved_at :: "string option"

record 'e ma_db =
  sessions :: "ma_session table"
  participants :: "participant table"
  messages :: "inter_message table"
  delegations :: "delegation table"
  subscribers :: "(int, nat list) dict"
  deliveries :: "(nat \<times> metadata) list"
  engine :: "'e engine_db"

datatype ma_error =
    SessionNotFoundError int
  | AgentNotParticipantError int int
  | DelegationNotFoundError int
  | DelegationLimitExceededError int
  | CoordinatorError
  | MaService service_error

section \<open>Coordinator\<close>

record sub_task =
  sb_agent_id :: int
  sb_task :: string
  sb_priority :: nat

definition decompose_goal :: "string \<Rightarrow> int list \<Rightarrow> (ma_error, sub_task list) result" where
  "decompose_goal goal agent_ids =
     (if agent_ids = [] then Err CoordinatorError
      else Ok (map (\<lambda>(idx, a).
        \<lparr>sb_agent_id = a,
         sb_task = ''[Sub-task '' @ show_nat (idx + 1) @ ''/'' @ show_nat (length agent_ids) @ ''] '' @ goal,
         sb_priority = idx\<rparr>) (enumerate 0 agent_ids)))"

definition is_session_complete :: "string list \<Rightarrow> bool" where
  "is_session_complete statuses = (statuses \<noteq> [] \<and> list_all (\<lambda>s. s = ''COMPLETED'') statuses)"

definition merge_results :: "json list \<Rightarrow> metadata" where
  "merge_results results =
     (if results = [] then [(''results'', JList []), (''summary'', JStr ''No results collected.'')]
      else [(''results'', JList results),
            (''summary'', JStr (''Session completed with '' @ show_nat (length results) @ '' agent(s) contributing results.''))])"

section \<open>Delegation engine\<close>

definition MAX_AGENT_DELEGATIONS :: int where "MAX_AGENT_DELEGATIONS = 5"

definition validate_delegation :: "int \<Rightarrow> int \<Rightarrow> int \<Rightarrow> int list \<Rightarrow> (ma_error, unit) result" where
  "validate_delegation depth from_id to_id participant_ids =
     (if depth \<ge> MAX_AGENT_DELEGATIONS then Err (DelegationLimitExceededError depth)
      else if to_id \<notin> set participant_ids
        then Err (MaService (ValueError (''Agent '' @ show_int to_id @ '' is not a participant in this session.'')))
      else if from_id = to_id then Err (MaService (ValueError ''An agent cannot delegate a task to itself.''))
      else Ok ())"

definition build_delegation_payload :: "int \<Rightarrow> int \<Rightarrow> int \<Rightarrow> string \<Rightarrow> metadata option \<Rightarrow> int \<Rightarrow> delegation" where
  "build_delegation_payload sid from_id to_id task ctx depth =
     \<lparr>dg_session_id = sid, dg_from_agent_id = from_id, dg_to_agent_id = to_id, dg_task_description = task,
      dg_context = (case ctx of None \<Rightarrow> [] | Some c \<Rightarrow> c), dg_depth = depth, dg_status = ''PENDING'',
      dg_result = None, dg_resolved_at = None\<rparr>"

section \<open>Shared context\<close>

definition merge_entry :: "string \<times> json \<Rightarrow> metadata \<Rightarrow> metadata" where
  "merge_entry kv ctx =
     (case (snd kv, dict_get ctx (fst kv)) of
        (JObj d, Some (JObj c)) \<Rightarrow> dict_set ctx (fst kv) (JObj (dict_merge c d))
      | _ \<Rightarrow> dict_set ctx (fst kv) (snd kv))"

definition context_merge :: "metadata \<Rightarrow> metadata \<Rightarrow> metadata" where
  "context_merge ctx updates = fold merge_entry updates ctx"

definition context_get :: "metadata \<Rightarrow> string \<Rightarrow> json \<Rightarrow> json" where
  "context_get ctx k dflt = dict_get_or ctx k dflt"

definition context_set :: "metadata \<Rightarrow> string \<Rightarrow> json \<Rightarrow> metadata" where
  "context_set ctx k v = dict_set ctx k v"

definition context_delete :: "metadata \<Rightarrow> string \<Rightarrow> metadata" where
  "context_delete ctx k = dict_del ctx k"

section \<open>Message bus\<close>

definition subscribe :: "int \<Rightarrow> nat \<Rightarrow> 'e ma_db \<Rightarrow> 'e ma_db" where
  "subscribe sid cb db =
     db\<lparr>subscribers := dict_set (subscribers db) sid (dict_get_or (subscribers db) sid [] @ [cb])\<rparr>"

definition unsubscribe :: "int \<Rightarrow> nat \<Rightarrow> 'e ma_db \<Rightarrow> 'e ma_db" where
  "unsubscribe sid cb db =
     db\<lparr>subscribers := dict_set (subscribers db) sid (remove1 cb (dict_get_or (subscribers db) sid []))\<rparr>"

definition publish :: "int \<Rightarrow> metadata \<Rightarrow> 'e ma_db \<Rightarrow> 'e ma_db" where
  "publish sid msg db =
     db\<lparr>deliveries := deliveries db @ map (\<lambda>cb. (cb, msg)) (dict_get_or (subscribers db) sid [])\<rparr>"

definition clear_session :: "int \<Rightarrow> 'e ma_db \<Rightarrow> 'e ma_db" where
  "clear_session sid db = db\<lparr>subscribers := dict_del (subscribers db) sid\<rparr>"

section \<open>Queries\<close>

definition get_session :: "int \<Rightarrow> int \<Rightarrow> 'e ma_db \<Rightarrow> (ma_error, ma_session) result" where
  "get_session org sid db =
     (case get_by_org_and_id se_organization_id org sid (sessions db) of
        None \<Rightarrow> Err (SessionNotFoundError sid) | Some s \<Rightarrow> Ok s)"

definition list_sessions :: "(int \<Rightarrow> string) \<Rightarrow> int \<Rightarrow> string option \<Rightarrow> nat \<Rightarrow> nat \<Rightarrow> 'e ma_db \<Rightarrow> (int \<times> ma_session) list" where
  "list_sessions created_at org status offset n db =
     take n (drop offset (sort_key_desc (\<lambda>i_s. created_at (fst i_s))
       (repo_where (\<lambda>s. se_organization_id s = org \<and> (or_str status [] \<noteq> [] \<longrightarrow> Some (se_status s) = status)) (sessions db))))"

definition list_by_session :: "int \<Rightarrow> participant table \<Rightarrow> (int \<times> participant) list" where
  "list_by_session sid t = repo_where (\<lambda>p. pt_session_id p = sid) t"

definition get_by_session_and_agent :: "int \<Rightarrow> int \<Rightarrow> participant table \<Rightarrow> (int \<times> participant) option" where
  "get_by_session_and_agent sid agent t = repo_first (\<lambda>p. pt_session_id p = sid \<and> pt_agent_id p = agent) t"

definition participant_agent_ids :: "int \<Rightarrow> participant table \<Rightarrow> int list" where
  "participant_agent_ids sid t = map (\<lambda>ip. pt_agent_id (snd ip)) (list_by_session sid t)"

definition session_delegations :: "int \<Rightarrow> delegation table \<Rightarrow> (int \<times> delegation) list" where
  "session_delegations sid t = repo_where (\<lambda>d. dg_session_id d = sid) t"

definition get_depth_for_session :: "int \<Rightarrow> delegation table \<Rightarrow> int" where
  "get_depth_for_session sid t =
     (case map (\<lambda>i_d. dg_depth (snd i_d)) (session_delegations sid t) of
        [] \<Rightarrow> 0 | d # ds \<Rightarrow> fold max ds d)"

section \<open>Session lifecycle\<close>

text \<open>Each participant row is committed on its own: the rows before a refused one stay.\<close>

fun enrol :: "(int \<Rightarrow> bool) \<Rightarrow> (participant table \<Rightarrow> int) \<Rightarrow> int \<Rightarrow> int \<Rightarrow> sub_task list \<Rightarrow> participant table
    \<Rightarrow> (ma_error, unit) result \<times> participant table" where
  "enrol agent_fk nk coordinator sid [] t = (Ok (), t)"
| "enrol agent_fk nk coordinator sid (st # sts) t =
     (if \<not> agent_fk (sb_agent_id st) then (Err (MaService IntegrityError), t)
      else enrol agent_fk nk coordinator sid sts (repo_create (nk t)
        \<lparr>pt_session_id = sid, pt_agent_id = sb_agent_id st,
         pt_role = (if sb_agent_id st = coordinator then ''coordinator'' else ''worker''),
         pt_sub_task = sb_task st, pt_status = ''PENDING'', pt_result = None, pt_completed_at = None\<rparr> t))"

definition create_session ::
  "(ma_session \<Rightarrow> bool) \<Rightarrow> (int \<Rightarrow> bool) \<Rightarrow> (participant table \<Rightarrow> int) \<Rightarrow> int
   \<Rightarrow> int \<Rightarrow> int \<Rightarrow> string \<Rightarrow> string \<Rightarrow> int list \<Rightarrow> metadata option \<Rightarrow> int
   \<Rightarrow> 'e ma_db \<Rightarrow> (ma_error, int) result \<times> 'e ma_db" where
  "create_session session_fk agent_fk nk sid org coordinator name goal agent_ids ctx user db =
     (let s = \<lparr>se_organization_id = org, se_coordinator_agent_id = coordinator, se_name = name, se_goal = goal,
               se_status = ''PENDING'', se_shared_context = (case ctx of None \<Rightarrow> [] | Some c \<Rightarrow> c),
               se_result = None, se_started_at = None, se_completed_at = None, se_created_by = user\<rparr>
      in if \<not> session_fk s then (Err (MaService IntegrityError), db)
         else
           (let db1 = db\<lparr>sessions := repo_create sid s (sessions db)\<rparr>
            in case decompose_goal goal (coordinator # filter (\<lambda>a. a \<noteq> coordinator) agent_ids) of
                 Inl e \<Rightarrow> (Err e, db1)
               | Inr sts \<Rightarrow>
                   (case enrol agent_fk nk coordinator sid sts (participants db1) of
                      (Inl e, t) \<Rightarrow> (Err e, db1\<lparr>participants := t\<rparr>)
                    | (Inr _, t) \<Rightarrow> (Ok sid, db1\<lparr>participants := t\<rparr>))))"

definition put_session :: "int \<Rightarrow> ma_session \<Rightarrow> 'e ma_db \<Rightarrow> 'e ma_db" where
  "put_session sid s db = db\<lparr>sessions := repo_update sid s (sessions db)\<rparr>"

definition put_participant :: "int \<Rightarrow> participant \<Rightarrow> 'e ma_db \<Rightarrow> 'e ma_db" where
  "put_participant pid p db = db\<lparr>participants := repo_update pid p (participants db)\<rparr>"

definition complete_session :: "string \<Rightarrow> int \<Rightarrow> int \<Rightarrow> 'e ma_db \<Rightarrow> (ma_error, ma_session) result \<times> 'e ma_db" where
  "complete_session now org sid db =
     (case get_session org sid db of
        Inl e \<Rightarrow> (Err e, db)
      | Inr s \<Rightarrow>
          (let results = [JObj [(''agent_id'', JInt (pt_agent_id p)), (''output'', JObj r)].
                 (_, p) \<leftarrow> list_by_session sid (participants db), Some r \<leftarrow> [pt_result p]];
               merged = merge_results results;
               s' = s\<lparr>se_status := ''COMPLETED'', se_completed_at := Some now, se_result := Some merged\<rparr>
           in (Ok s', clear_session sid (publish sid
                 [(''event'', JStr ''session_completed''), (''session_id'', JInt sid), (''result'', JObj merged)]
                 (put_session sid s' db)))))"

definition cancel_session :: "string \<Rightarrow> int \<Rightarrow> int \<Rightarrow> 'e ma_db \<Rightarrow> (ma_error, ma_session) result \<times> 'e ma_db" where
  "cancel_session now org sid db =
     (case get_session org sid db of
        Inl e \<Rightarrow> (Err e, db)
      | Inr s \<Rightarrow>
          (let s' = s\<lparr>se_status := ''CANCELLED'', se_completed_at := Some now\<rparr>
           in (Ok s', clear_session sid (put_session sid s' db))))"

text \<open>
  What a start takes from its surroundings: the clock, the services of the agent
  engine, the database's choice of keys, whether it takes the row of a goal (its foreign keys, and a
  title of at most 255 characters: the title is the name of the session with the key of the agent behind it), and the text
  of the exception it raises otherwise.  The connection is usable again after such an exception here; in the code
  it is not before a rollback, which nobody asks for.
\<close>

record 'e engine_env =
  en_now :: string
  en_services :: "'e agent_services"
  en_fk :: "agent_goal \<Rightarrow> bool"
  en_goal_key :: "agent_goal table \<Rightarrow> int"
  en_task_key :: "goal_task table \<Rightarrow> int"
  en_execution_key :: "agent_execution table \<Rightarrow> int"
  en_integrity_text :: string

definition run_agent ::
  "'e engine_env \<Rightarrow> int \<Rightarrow> ma_session \<Rightarrow> participant \<Rightarrow> 'e engine_db
   \<Rightarrow> (string, int \<times> int \<times> agent_execution) result \<times> 'e engine_db" where
  "run_agent env org s p ed =
     (case create_agent_goal (en_now env) (en_fk env) (en_task_key env) (en_goal_key env (ed_goals ed))
             (se_name s @ '': agent '' @ show_int (pt_agent_id p)) (Some (pt_sub_task p)) (pt_sub_task p) ''medium''
             (Some (se_goal s)) org (pt_agent_id p) None (se_created_by s) ed of
        (Inl _, ed1) \<Rightarrow> (Err (en_integrity_text env), ed1)
      | (Inr gid, ed1) \<Rightarrow>
          (case execute_agent_goal (en_now env) (en_services env) (en_execution_key env (ed_executions ed1)) gid org ed1 of
             (Inl x, ed2) \<Rightarrow> (Err x, ed2)
           | (Inr (xid, x), ed2) \<Rightarrow> (Ok (gid, xid, x), ed2)))"

definition event :: "string \<Rightarrow> int \<Rightarrow> int \<Rightarrow> metadata \<Rightarrow> metadata" where
  "event kind sid agent extra =
     [(''event'', JStr kind), (''session_id'', JInt sid), (''agent_id'', JInt agent)] @ extra"

definition participant_result :: "int \<Rightarrow> int \<Rightarrow> agent_execution \<Rightarrow> metadata" where
  "participant_result gid xid x = [(''goal_id'', JInt gid), (''execution_id'', JInt xid),
     (''status'', JStr (ax_status x)), (''execution_context'', JObj (ax_context x))]"

definition run_participant :: "'e engine_env \<Rightarrow> int \<Rightarrow> int \<Rightarrow> ma_session \<Rightarrow> int \<times> participant \<Rightarrow> 'e ma_db \<Rightarrow> 'e ma_db" where
  "run_participant env org sid s ip db =
     (let (pid, p) = ip;
          p1 = p\<lparr>pt_status := ''RUNNING''\<rparr>;
          db1 = publish sid (event ''participant_started'' sid (pt_agent_id p) [(''sub_task'', JStr (pt_sub_task p))])
                  (put_participant pid p1 db)
      in case run_agent env org s p1 (engine db1) of
           (Inr (gid, xid, x), ed) \<Rightarrow>
             (let result = participant_result gid xid x;
                  status = (if ax_status x = ''COMPLETED'' then ''COMPLETED'' else ''FAILED'');
                  p2 = p1\<lparr>pt_status := status, pt_result := Some result, pt_completed_at := Some (en_now env)\<rparr>
              in publish sid (event ''participant_completed'' sid (pt_agent_id p)
                   [(''status'', JStr status), (''result'', JObj result)]) (put_participant pid p2 (db1\<lparr>engine := ed\<rparr>)))
         | (Inl exc, ed) \<Rightarrow>
             (let p2 = p1\<lparr>pt_status := ''FAILED'', pt_result := Some [(''error'', JStr exc)],
                          pt_completed_at := Some (en_now env)\<rparr>
              in publish sid (event ''participant_failed'' sid (pt_agent_id p) [(''error'', JStr exc)])
                   (put_participant pid p2 (db1\<lparr>engine := ed\<rparr>))))"

definition start_session :: "'e engine_env \<Rightarrow> int \<Rightarrow> int \<Rightarrow> 'e ma_db \<Rightarrow> (ma_error, ma_session) result \<times> 'e ma_db" where
  "start_session env org sid db =
     (case get_session org sid db of
        Inl e \<Rightarrow> (Err e, db)
      | Inr s \<Rightarrow>
          if se_status s \<noteq> ''PENDING''
          then (Err (MaService (ValueError (''Session is in state '' @ [CHR 0x27] @ se_status s @ [CHR 0x27] @
                  '' and cannot be started.''))), db)
          else
            (let s' = s\<lparr>se_status := ''RUNNING'', se_started_at := Some (en_now env)\<rparr>;
                 db1 = publish sid [(''event'', JStr ''session_started''), (''session_id'', JInt sid), (''goal'', JStr (se_goal s))]
                         (put_session sid s' db);
                 db2 = fold (run_participant env org sid s') (list_by_session sid (participants db1)) db1
             in if is_session_complete (map (\<lambda>ip. pt_status (snd ip)) (list_by_session sid (participants db2)))
                then complete_session (en_now env) org sid db2
                else (Ok s', db2)))"

text \<open>
  Updating the shared context.  The manager works on the very dictionary of the
  loaded row when that is not empty, so the merge changes the row's loaded value
  in place, and the column is then assigned a copy equal to it; \<open>changed old new\<close>
  is the mapper's test whether a column differs from its loaded value and has to
  be written.  The row is read back after the commit.
\<close>

definition update_shared_context ::
  "(metadata \<Rightarrow> metadata \<Rightarrow> bool) \<Rightarrow> int \<Rightarrow> int \<Rightarrow> metadata \<Rightarrow> 'e ma_db \<Rightarrow> (ma_error, ma_session) result \<times> 'e ma_db" where
  "update_shared_context changed org sid updates db =
     (case get_session org sid db of
        Inl e \<Rightarrow> (Err e, db)
      | Inr s \<Rightarrow>
          (let snap = context_merge (se_shared_context s) updates;
               loaded = (if se_shared_context s = [] then [] else snap);
               s' = (if changed loaded snap then s\<lparr>se_shared_context := snap\<rparr> else s)
           in (Ok s', put_session sid s' db)))"

section \<open>Delegations, messages, participants\<close>

definition delegate_task ::
  "int \<Rightarrow> int \<Rightarrow> int \<Rightarrow> int \<Rightarrow> int \<Rightarrow> string \<Rightarrow> metadata option \<Rightarrow> 'e ma_db \<Rightarrow> (ma_error, delegation) result \<times> 'e ma_db" where
  "delegate_task did org sid from_id to_id task ctx db =
     (case get_session org sid db of
        Inl e \<Rightarrow> (Err e, db)
      | Inr _ \<Rightarrow>
          (let depth = get_depth_for_session sid (delegations db)
           in case validate_delegation depth from_id to_id (participant_agent_ids sid (participants db)) of
                Inl e \<Rightarrow> (Err e, db)
              | Inr _ \<Rightarrow>
                  (let d = build_delegation_payload sid from_id to_id task ctx (depth + 1)
                   in (Ok d, db\<lparr>delegations := repo_create did d (delegations db)\<rparr>))))"

definition resolve_delegation ::
  "string \<Rightarrow> int \<Rightarrow> int \<Rightarrow> int \<Rightarrow> string \<Rightarrow> metadata option \<Rightarrow> 'e ma_db \<Rightarrow> (ma_error, delegation) result \<times> 'e ma_db" where
  "resolve_delegation now org sid did status result db =
     (case get_session org sid db of
        Inl e \<Rightarrow> (Err e, db)
      | Inr _ \<Rightarrow>
          (case repo_get (delegations db) did of
             None \<Rightarrow> (Err (DelegationNotFoundError did), db)
           | Some d \<Rightarrow>
               if dg_session_id d \<noteq> sid then (Err (DelegationNotFoundError did), db)
               else (let d' = d\<lparr>dg_status := status, dg_result := result, dg_resolved_at := Some now\<rparr>
                     in (Ok d', db\<lparr>delegations := repo_update did d' (delegations db)\<rparr>))))"

definition list_delegations :: "int \<Rightarrow> int \<Rightarrow> 'e ma_db \<Rightarrow> (ma_error, (int \<times> delegation) list) result" where
  "list_delegations org sid db = bind_ok (get_session org sid db) (\<lambda>_. Ok (session_delegations sid (delegations db)))"

definition send_message ::
  "int \<Rightarrow> int \<Rightarrow> int \<Rightarrow> int \<Rightarrow> int option \<Rightarrow> string \<Rightarrow> metadata \<Rightarrow> 'e ma_db
   \<Rightarrow> (ma_error, inter_message) result \<times> 'e ma_db" where
  "send_message mid org sid from_id to_id kind content db =
     (case get_session org sid db of
        Inl e \<Rightarrow> (Err e, db)
      | Inr _ \<Rightarrow>
          if from_id \<notin> set (participant_agent_ids sid (participants db))
          then (Err (AgentNotParticipantError from_id sid), db)
          else
            (let m = \<lparr>im_session_id = sid, im_from_agent_id = from_id, im_to_agent_id = to_id,
                      im_message_type = kind, im_content = content, im_delivered = False\<rparr>;
                 db1 = publish sid [(''event'', JStr ''agent_message''), (''message_id'', JInt mid),
                           (''from_agent_id'', JInt from_id),
                           (''to_agent_id'', case to_id of None \<Rightarrow> JNull | Some i \<Rightarrow> JInt i),
                           (''message_type'', JStr kind), (''content'', JObj content)]
                         (db\<lparr>messages := repo_create mid m (messages db)\<rparr>);
                 m' = m\<lparr>im_delivered := True\<rparr>
             in (Ok m', db1\<lparr>messages := repo_update mid m' (messages db1)\<rparr>)))"

definition list_messages :: "int \<Rightarrow> int \<Rightarrow> nat \<Rightarrow> nat \<Rightarrow> 'e ma_db \<Rightarrow> (ma_error, (int \<times> inter_message) list) result" where
  "list_messages org sid offset n db =
     bind_ok (get_session org sid db)
       (\<lambda>_. Ok (take n (drop offset (repo_where (\<lambda>m. im_session_id m = sid) (messages db)))))"

definition update_participant_status ::
  "string \<Rightarrow> int \<Rightarrow> int \<Rightarrow> int \<Rightarrow> string \<Rightarrow> metadata option \<Rightarrow> 'e ma_db \<Rightarrow> (ma_error, participant) result \<times> 'e ma_db" where
  "update_participant_status now org sid agent status result db =
     (case get_session org sid db of
        Inl e \<Rightarrow> (Err e, db)
      | Inr _ \<Rightarrow>
          (case get_by_session_and_agent sid agent (participants db) of
             None \<Rightarrow> (Err (AgentNotParticipantError agent sid), db)
           | Some (pid, p) \<Rightarrow>
               (let p' = p\<lparr>pt_status := status,
                          pt_result := (case result of None \<Rightarrow> pt_result p | Some r \<Rightarrow> Some r),
                          pt_completed_at := (if status = ''COMPLETED'' \<or> status = ''FAILED'' then Some now else pt_completed_at p)\<rparr>
                in (Ok p', put_participant pid p' db))))"

end
