(* ===== verification/Multi_Agent_Invariant.thy ===== *)
theory Multi_Agent_Invariant
  imports Multi_Agent
begin

text \<open>
  What every operation of the multi-agent service keeps: rows refer to sessions
  that exist, messages come from participants and are marked delivered,
  delegations go to another participant of their session, and the delegations of
  a session are numbered 1, 2, ... up to the limit.  Reachable states are those
  of any sequence of service calls, successful or not.  Then the outcome of
  starting a session, and the shared context.
\<close>

section \<open>Links of the participant table\<close>

definition links :: "participant table \<Rightarrow> (int \<times> int \<times> int) list" where
  "links t = map (\<lambda>(i, p). (i, pt_session_id p, pt_agent_id p)) t"

lemma links_keys: "map fst (links t) = map fst t"
  by (simp add: links_def split_beta comp_def)

lemma links_mem: "(i, p) \<in> set t \<Longrightarrow> (i, pt_session_id p, pt_agent_id p) \<in> set (links t)"
  by (force simp: links_def)

lemma participant_ids_links:
  "participant_agent_ids sid t = map (\<lambda>l. snd (snd l)) (filter (\<lambda>l. fst (snd l) = sid) (links t))"
  by (simp add: participant_agent_ids_def list_by_session_def repo_where_def links_def filter_map comp_def case_prod_unfold)

lemma links_update:
  assumes "table_wf t" and "(i, pt_session_id p, pt_agent_id p) \<in> set (links t)"
  shows "links (repo_update i p t) = links t"
proof -
  have "pt_session_id q = pt_session_id p \<and> pt_agent_id q = pt_agent_id p" if "(i, q) \<in> set t" for q
    using that assms eq_key_imp_eq_value [of "links t" i] links_mem [of i q t]
    by (force simp: table_wf_def links_keys)
  then show ?thesis by (auto simp: links_def repo_update_def)
qed

definition keeps_links :: "'e ma_db \<Rightarrow> 'e ma_db \<Rightarrow> bool" where
  "keeps_links db db' =
     (map fst (sessions db') = map fst (sessions db) \<and> links (participants db') = links (participants db)
      \<and> messages db' = messages db \<and> delegations db' = delegations db)"

lemma keeps_links_refl: "keeps_links db db"
  by (simp add: keeps_links_def)

lemma keeps_links_trans: "keeps_links a b \<Longrightarrow> keeps_links b c \<Longrightarrow> keeps_links a c"
  by (simp add: keeps_links_def)

lemma keeps_publish: "keeps_links db (publish sid m db)"
  and keeps_clear: "keeps_links db (clear_session sid db)"
  and keeps_subscribe: "keeps_links db (subscribe sid cb db)"
  and keeps_unsubscribe: "keeps_links db (unsubscribe sid cb db)"
  and keeps_engine: "keeps_links db (db\<lparr>engine := ed\<rparr>)"
  by (simp_all add: keeps_links_def publish_def clear_session_def subscribe_def unsubscribe_def)

lemma keeps_put_session: "keeps_links db (put_session sid s db)"
  by (simp add: keeps_links_def put_session_def repo_update_def comp_def split_beta)

lemma keeps_put_participant:
  "table_wf (participants db) \<Longrightarrow> (pid, pt_session_id p, pt_agent_id p) \<in> set (links (participants db)) \<Longrightarrow>
   keeps_links db (put_participant pid p db)"
  by (simp add: keeps_links_def put_participant_def links_update)

lemma keeps_wf: "keeps_links db db' \<Longrightarrow> table_wf (participants db) \<Longrightarrow> table_wf (participants db')"
  by (metis keeps_links_def links_keys table_wf_def)

lemma keeps_linked: "keeps_links db db' \<Longrightarrow> l \<in> set (links (participants db)) \<Longrightarrow> l \<in> set (links (participants db'))"
  by (simp add: keeps_links_def)

definition linked :: "'e ma_db \<Rightarrow> int \<times> participant \<Rightarrow> bool" where
  "linked db ip = ((fst ip, pt_session_id (snd ip), pt_agent_id (snd ip)) \<in> set (links (participants db)))"

lemma participants_publish [simp]: "participants (publish sid m db) = participants db"
  by (simp add: publish_def)

lemma participants_put [simp]: "participants (put_participant pid p db) = repo_update pid p (participants db)"
  by (simp add: put_participant_def)

lemma participants_put_session [simp]: "participants (put_session sid s db) = participants db"
  by (simp add: put_session_def)

text \<open>The row a participant ends with.\<close>

definition participant_outcome :: "'e engine_env \<Rightarrow> participant \<Rightarrow> participant \<Rightarrow> bool" where
  "participant_outcome env p p' =
     ((\<exists>gid xid x. ax_status x = ''COMPLETED''
         \<and> p' = p\<lparr>pt_status := ''COMPLETED'', pt_result := Some (participant_result gid xid x),
                  pt_completed_at := Some (en_now env)\<rparr>)
      \<or> (\<exists>exc. p' = p\<lparr>pt_status := ''FAILED'', pt_result := Some [(''error'', JStr exc)],
                  pt_completed_at := Some (en_now env)\<rparr>))"

lemma run_agent_completed: "run_agent env org s p ed = (Inr (gid, xid, x), ed') \<Longrightarrow> ax_status x = ''COMPLETED''"
  by (auto simp: run_agent_def split: prod.splits sum.splits dest: run_completes)

lemma run_participant_row:
  "\<exists>p'. participant_outcome env (snd ip) p'
     \<and> participants (run_participant env org sid s ip db) = repo_update (fst ip) p' (participants db)
     \<and> sessions (run_participant env org sid s ip db) = sessions db
     \<and> messages (run_participant env org sid s ip db) = messages db
     \<and> delegations (run_participant env org sid s ip db) = delegations db"
proof -
  obtain pid p where ip: "ip = (pid, p)" by fastforce
  let ?p1 = "p\<lparr>pt_status := ''RUNNING''\<rparr>"
  let ?db1 = "publish sid (event ''participant_started'' sid (pt_agent_id p) [(''sub_task'', JStr (pt_sub_task p))])
                  (put_participant pid ?p1 db)"
  obtain r ed where r: "run_agent env org s ?p1 (engine ?db1) = (r, ed)" by fastforce
  show ?thesis
  proof (cases r)
    case (Inl exc)
    with r show ?thesis
      by (intro exI [of _ "p\<lparr>pt_status := ''FAILED'', pt_result := Some [(''error'', JStr exc)],
            pt_completed_at := Some (en_now env)\<rparr>"])
        (auto simp: run_participant_def ip Let_def participant_outcome_def publish_def put_participant_def)
  next
    case (Inr y)
    obtain gid xid x where y: "y = (gid, xid, x)" by (cases y)
    with Inr r have c: "ax_status x = ''COMPLETED''" by (simp add: run_agent_completed)
    with y Inr r show ?thesis
      by (intro exI [of _ "p\<lparr>pt_status := ''COMPLETED'', pt_result := Some (participant_result gid xid x),
            pt_completed_at := Some (en_now env)\<rparr>"])
        (auto simp: run_participant_def ip Let_def participant_outcome_def publish_def put_participant_def)
  qed
qed

lemma outcome_links: "participant_outcome env p p' \<Longrightarrow> pt_session_id p' = pt_session_id p \<and> pt_agent_id p' = pt_agent_id p"
  by (auto simp: participant_outcome_def)

lemma keeps_run_participant:
  assumes "table_wf (participants db)" and "linked db ip"
  shows "keeps_links db (run_participant env org sid s ip db)"
  using run_participant_row [of env ip org sid s db] assms links_update [of "participants db" "fst ip"]
  by (auto simp: keeps_links_def linked_def dest: outcome_links)

lemma fold_run_participants:
  assumes "table_wf (participants db)" and "\<forall>ip\<in>set ips. linked db ip"
  shows "keeps_links db (fold (run_participant env org sid s) ips db)
    \<and> sessions (fold (run_participant env org sid s) ips db) = sessions db"
  using assms
proof (induction ips arbitrary: db)
  case (Cons ip ips)
  let ?db = "run_participant env org sid s ip db"
  have k: "keeps_links db ?db" using Cons.prems by (auto intro: keeps_run_participant)
  moreover have "sessions ?db = sessions db" using run_participant_row [of env ip org sid s db] by auto
  moreover have "keeps_links ?db (fold (run_participant env org sid s) ips ?db)
      \<and> sessions (fold (run_participant env org sid s) ips ?db) = sessions ?db"
    using Cons.IH [of ?db] keeps_wf [OF k Cons.prems(1)] keeps_linked [OF k] Cons.prems(2)
    by (auto simp: linked_def)
  ultimately show ?case using keeps_links_trans by (metis fold_simps(2))
qed (simp add: keeps_links_refl)


section \<open>The invariant\<close>

definition depths :: "int \<Rightarrow> 'e ma_db \<Rightarrow> int list" where
  "depths sid db = map (\<lambda>i_d. dg_depth (snd i_d)) (session_delegations sid (delegations db))"

definition numbered :: "int list \<Rightarrow> bool" where
  "numbered ds = (ds = map (\<lambda>i. int i + 1) [0..<length ds])"

definition ma_inv :: "'e ma_db \<Rightarrow> bool" where
  "ma_inv db =
     (table_wf (sessions db) \<and> table_wf (participants db) \<and> table_wf (messages db) \<and> table_wf (delegations db)
      \<and> (\<forall>p\<in>rows (participants db). pt_session_id p \<in> ids (sessions db))
      \<and> (\<forall>m\<in>rows (messages db). im_delivered m
            \<and> im_from_agent_id m \<in> set (participant_agent_ids (im_session_id m) (participants db)))
      \<and> (\<forall>d\<in>rows (delegations db). dg_from_agent_id d \<noteq> dg_to_agent_id d
            \<and> dg_to_agent_id d \<in> set (participant_agent_ids (dg_session_id d) (participants db)))
      \<and> (\<forall>sid. numbered (depths sid db) \<and> int (length (depths sid db)) \<le> MAX_AGENT_DELEGATIONS))"

lemma rows_links: "(\<forall>p\<in>rows t. pt_session_id p \<in> S) \<longleftrightarrow> (\<forall>l\<in>set (links t). fst (snd l) \<in> S)"
  by (auto simp: rows_def links_def)

lemma ma_inv_keeps: "keeps_links db db' \<Longrightarrow> ma_inv db \<Longrightarrow> ma_inv db'"
  unfolding ma_inv_def rows_links participant_ids_links depths_def ids_def table_wf_def
  by (simp add: keeps_links_def links_keys [symmetric]) (metis image_set)

lemma depth_numbered:
  assumes "numbered (depths sid db)"
  shows "get_depth_for_session sid (delegations db) = int (length (depths sid db))"
proof (cases "depths sid db")
  case (Cons d ds)
  let ?n = "length (depths sid db)"
  have "get_depth_for_session sid (delegations db) = fold max ds d"
    using Cons by (simp add: get_depth_for_session_def depths_def)
  also have "\<dots> = Max (set (depths sid db))" unfolding Cons by (simp add: Max.set_eq_fold [symmetric])
  also have "\<dots> = int ?n"
  proof (rule Max_eqI)
    have mem: "set (depths sid db) = (\<lambda>i. int i + 1) ` {0..<?n}"
      using assms unfolding numbered_def by (metis set_map set_upt)
    show "y \<le> int ?n" if "y \<in> set (depths sid db)" for y using that unfolding mem by auto
    show "int ?n \<in> set (depths sid db)" unfolding mem by (rule image_eqI [of _ _ "?n - 1"]) (simp_all add: Cons)
  qed simp
  finally show ?thesis .
qed (simp add: get_depth_for_session_def depths_def)

lemma numbered_snoc: "numbered (ds @ [int (length ds) + 1]) \<longleftrightarrow> numbered ds"
  by (simp add: numbered_def)

lemma inv_create_row:
  assumes "ma_inv db" and "sid \<notin> ids (sessions db)"
  shows "ma_inv (db\<lparr>sessions := repo_create sid s (sessions db)\<rparr>)"
  using assms by (auto simp: ma_inv_def depths_def)

lemma participant_ids_create:
  "participant_agent_ids sid (repo_create n p t) =
   participant_agent_ids sid t @ (if pt_session_id p = sid then [pt_agent_id p] else [])"
  by (simp add: participant_agent_ids_def list_by_session_def repo_where_def repo_create_def)

lemma inv_add_participant:
  assumes "ma_inv db" and "pt_session_id p \<in> ids (sessions db)" and "n \<notin> ids (participants db)"
  shows "ma_inv (db\<lparr>participants := repo_create n p (participants db)\<rparr>)"
  using assms by (auto simp: ma_inv_def participant_ids_create depths_def)

lemma inv_enrol:
  assumes "ma_inv (db\<lparr>participants := t\<rparr>)" and "sid \<in> ids (sessions db)" and "\<And>u. nk u \<notin> ids u"
  shows "ma_inv (db\<lparr>participants := snd (enrol agent_fk nk coord sid sts t)\<rparr>)"
  using assms(1)
proof (induction sts arbitrary: t)
  case (Cons st sts)
  have "ma_inv (db\<lparr>participants := repo_create (nk t) p t\<rparr>)" if "pt_session_id p = sid" for p
    using inv_add_participant [OF Cons.prems, of p "nk t"] assms(2,3) that by simp
  then show ?case using Cons by simp
qed simp

lemma inv_create_session:
  assumes "ma_inv db" and "sid \<notin> ids (sessions db)" and "\<And>u. nk u \<notin> ids u"
  shows "ma_inv (snd (create_session sfk afk nk sid org coord name goal agents ctx user db))"
proof -
  have "ma_inv (db\<lparr>sessions := repo_create sid s (sessions db), participants := snd (enrol afk nk coord sid sts (participants db))\<rparr>)"
    for s sts
    using inv_enrol [where db = "db\<lparr>sessions := repo_create sid s (sessions db)\<rparr>" and t = "participants db" and sid = sid and nk = nk]
      inv_create_row [OF assms(1,2), of s] assms(3) by simp
  moreover have "ma_inv (db\<lparr>sessions := repo_create sid s (sessions db)\<rparr>)" for s
    by (rule inv_create_row [OF assms(1,2)])
  moreover have "snd (case e of (Inl e, t) \<Rightarrow> (Err e, f t) | (Inr _, t) \<Rightarrow> (Ok sid, f t)) = f (snd e)"
    for e :: "(ma_error, unit) result \<times> participant table" and f :: "participant table \<Rightarrow> 'a ma_db"
    by (auto split: prod.split sum.split)
  ultimately show ?thesis using assms(1)
    by (auto simp: create_session_def Let_def split: sum.split)
qed

lemma inv_delegate:
  assumes "ma_inv db" and "did \<notin> ids (delegations db)"
  shows "ma_inv (snd (delegate_task did org sid f t task ctx db))"
proof (cases "\<exists>d. fst (delegate_task did org sid f t task ctx db) = Ok d")
  case True
  let ?d = "build_delegation_payload sid f t task ctx (int (length (depths sid db)) + 1)"
  have num: "numbered (depths sid db)" using assms(1) by (simp add: ma_inv_def)
  from True have ok: "int (length (depths sid db)) < MAX_AGENT_DELEGATIONS"
      "t \<in> set (participant_agent_ids sid (participants db))" "f \<noteq> t"
    and db': "snd (delegate_task did org sid f t task ctx db) = db\<lparr>delegations := repo_create did ?d (delegations db)\<rparr>"
    by (auto simp: delegate_task_def validate_delegation_def depth_numbered [OF num] Let_def
        split: sum.splits if_splits)
  have "depths sid' (db\<lparr>delegations := repo_create did ?d (delegations db)\<rparr>)
      = depths sid' db @ (if sid' = sid then [int (length (depths sid db)) + 1] else [])" for sid'
    by (simp add: depths_def session_delegations_def repo_where_def repo_create_def build_delegation_payload_def)
  with assms ok show ?thesis unfolding db'
    by (auto simp: ma_inv_def numbered_snoc build_delegation_payload_def)
next
  case False
  then have "snd (delegate_task did org sid f t task ctx db) = db"
    by (auto simp: delegate_task_def Let_def split: sum.splits)
  with assms show ?thesis by simp
qed

lemma rows_update: "r \<in> rows (repo_update i q t) \<Longrightarrow> r = q \<or> r \<in> rows t"
  by (force simp: rows_def repo_update_def)

lemma where_update_map:
  assumes "table_wf t" and "repo_get t i = Some q" and "P r = P q" and "f r = f q"
  shows "map (\<lambda>x. f (snd x)) (repo_where P (repo_update i r t)) = map (\<lambda>x. f (snd x)) (repo_where P t)"
proof -
  have "\<forall>x\<in>set t. fst x = i \<longrightarrow> snd x = q"
    using assms(1,2) repo_get_in_set [OF assms(1)] by (auto)
  then show ?thesis using assms(3,4)
    by (induction t) (auto simp: repo_where_def repo_update_def split: if_splits)
qed

lemma inv_resolve:
  assumes "ma_inv db"
  shows "ma_inv (snd (resolve_delegation now org sid did status result db))"
proof (cases "\<exists>d. fst (resolve_delegation now org sid did status result db) = Ok d")
  case True
  then obtain d where d: "repo_get (delegations db) did = Some d"
    and db': "snd (resolve_delegation now org sid did status result db) = db\<lparr>delegations := repo_update did
        (d\<lparr>dg_status := status, dg_result := result, dg_resolved_at := Some now\<rparr>) (delegations db)\<rparr>"
    by (auto simp: resolve_delegation_def Let_def split: sum.splits option.splits if_splits)
  let ?d = "d\<lparr>dg_status := status, dg_result := result, dg_resolved_at := Some now\<rparr>"
  have wf: "table_wf (delegations db)" using assms by (simp add: ma_inv_def)
  have "depths s (db\<lparr>delegations := repo_update did ?d (delegations db)\<rparr>) = depths s db" for s
    using where_update_map [OF wf d, of "\<lambda>d. dg_session_id d = s" ?d dg_depth]
    by (simp add: depths_def session_delegations_def)
  moreover have "d \<in> rows (delegations db)" using d rows_iff [OF wf] by blast
  ultimately show ?thesis using assms unfolding db'
    by (auto simp: ma_inv_def dest!: rows_update)
next
  case False
  then have "snd (resolve_delegation now org sid did status result db) = db"
    by (auto simp: resolve_delegation_def Let_def split: sum.splits option.splits if_splits)
  with assms show ?thesis by simp
qed

lemma update_created: "nid \<notin> ids t \<Longrightarrow> repo_update nid r (repo_create nid q t) = repo_create nid r t"
  by (force simp: repo_update_def repo_create_def ids_def intro: map_idI)

lemma inv_send:
  assumes "ma_inv db" and "mid \<notin> ids (messages db)"
  shows "ma_inv (snd (send_message mid org sid f t kind content db))"
  using assms
  by (auto simp: send_message_def Let_def publish_def update_created ma_inv_def depths_def split: sum.split)

lemma keeps_session_change:
  "keeps_links db (snd (complete_session now org sid db))"
  "keeps_links db (snd (cancel_session now org sid db))"
  "keeps_links db (snd (update_shared_context changed org sid updates db))"
  unfolding complete_session_def cancel_session_def update_shared_context_def
  by (auto simp: Let_def split: sum.split
      intro!: keeps_links_refl keeps_put_session keeps_links_trans [OF _ keeps_clear] keeps_links_trans [OF _ keeps_publish])

lemma keeps_update_participant:
  assumes "table_wf (participants db)"
  shows "keeps_links db (snd (update_participant_status now org sid agent status result db))"
proof -
  have "(pid, pt_session_id p, pt_agent_id p) \<in> set (links (participants db))"
    if "get_by_session_and_agent sid agent (participants db) = Some (pid, p)" for pid p
    using repo_first_SomeD [OF that [unfolded get_by_session_and_agent_def]] links_mem [of pid p] by blast
  then show ?thesis unfolding update_participant_status_def
    by (cases "get_session org sid db"; cases "get_by_session_and_agent sid agent (participants db)")
      (auto simp: Let_def assms intro!: keeps_links_refl keeps_put_participant)
qed

lemma list_by_session_linked: "ip \<in> set (list_by_session sid (participants db)) \<Longrightarrow> linked db ip"
  using links_mem [of "fst ip" "snd ip" "participants db"]
  by (auto simp: list_by_session_def repo_where_def linked_def)

lemma keeps_start:
  assumes "table_wf (participants db)"
  shows "keeps_links db (snd (start_session env org sid db))"
proof -
  have "keeps_links db (fold (run_participant env org sid s') (list_by_session sid (participants db))
      (publish sid msg (put_session sid s' db)))" (is "keeps_links db (fold _ ?ips ?db)") for s' msg
  proof -
    have k: "keeps_links db ?db" by (rule keeps_links_trans [OF keeps_put_session keeps_publish])
    have "\<forall>ip\<in>set ?ips. linked ?db ip"
      using list_by_session_linked [of _ sid db] by (auto simp: linked_def put_session_def)
    from fold_run_participants [OF keeps_wf [OF k assms] this] show ?thesis using keeps_links_trans [OF k] by blast
  qed
  then show ?thesis
    by (auto simp: start_session_def Let_def put_session_def split: sum.split
        intro: keeps_links_refl keeps_links_trans [OF _ keeps_session_change(1)])
qed

section \<open>Reachable states\<close>

text \<open>One call of the service, whatever it answers; the database picks unused keys.\<close>

inductive ma_step :: "'e ma_db \<Rightarrow> 'e ma_db \<Rightarrow> bool" where
  create: "sid \<notin> ids (sessions db) \<Longrightarrow> (\<And>t. nk t \<notin> ids t) \<Longrightarrow>
    ma_step db (snd (create_session sfk afk nk sid org coord name goal agents ctx user db))"
| start: "ma_step db (snd (start_session env org sid db))"
| complete: "ma_step db (snd (complete_session now org sid db))"
| cancel: "ma_step db (snd (cancel_session now org sid db))"
| share: "ma_step db (snd (update_shared_context changed org sid updates db))"
| delegate: "did \<notin> ids (delegations db) \<Longrightarrow> ma_step db (snd (delegate_task did org sid f t task ctx db))"
| resolve: "ma_step db (snd (resolve_delegation now org sid did status result db))"
| send: "mid \<notin> ids (messages db) \<Longrightarrow> ma_step db (snd (send_message mid org sid f dest kind content db))"
| progress: "ma_step db (snd (update_participant_status now org sid agent status result db))"
| subscribe: "ma_step db (subscribe sid cb db)"
| unsubscribe: "ma_step db (unsubscribe sid cb db)"

definition ma_empty :: "'e engine_db \<Rightarrow> 'e ma_db" where
  "ma_empty ed = \<lparr>sessions = [], participants = [], messages = [], delegations = [], subscribers = [],
     deliveries = [], engine = ed\<rparr>"

lemma ma_inv_empty: "ma_inv (ma_empty ed)"
  by (simp add: ma_inv_def ma_empty_def table_wf_def rows_def depths_def session_delegations_def repo_where_def
      numbered_def MAX_AGENT_DELEGATIONS_def)

lemma ma_inv_step: "ma_step db db' \<Longrightarrow> ma_inv db \<Longrightarrow> ma_inv db'"
proof (induction rule: ma_step.induct)
  case (start db env org sid)
  then show ?case by (auto simp: ma_inv_def [of db] intro: ma_inv_keeps [OF keeps_start])
next
  case (progress db now org sid agent status result)
  then show ?case by (auto simp: ma_inv_def [of db] intro: ma_inv_keeps [OF keeps_update_participant])
qed (blast intro: inv_create_session inv_delegate inv_resolve inv_send
      ma_inv_keeps [OF keeps_session_change(1)] ma_inv_keeps [OF keeps_session_change(2)]
      ma_inv_keeps [OF keeps_session_change(3)] ma_inv_keeps [OF keeps_subscribe] ma_inv_keeps [OF keeps_unsubscribe])+

lemma ma_inv_reachable: "ma_step\<^sup>*\<^sup>* (ma_empty ed) db \<Longrightarrow> ma_inv db"
  by (induction rule: rtranclp_induct) (auto intro: ma_inv_empty ma_inv_step)

lemma delegation_limit:
  assumes "ma_inv db" and "get_session org sid db = Ok s" and "int (length (depths sid db)) = MAX_AGENT_DELEGATIONS"
  shows "delegate_task did org sid f t task ctx db = (Err (DelegationLimitExceededError 5), db)"
  using assms
  by (simp add: delegate_task_def Let_def validate_delegation_def depth_numbered ma_inv_def)
    (simp add: MAX_AGENT_DELEGATIONS_def)

text \<open>
  C22: after any sequence of service calls every participant belongs to a session
  that exists, every message was sent by a participant of its session and is
  marked delivered, every delegation goes from one agent to another who takes
  part in its session, and the delegations of a session are numbered 1, 2, ...,
  k with k at most five; when there are five, the next one is refused and
  nothing changes.
\<close>

theorem multi_agent_integrity:
  assumes "ma_step\<^sup>*\<^sup>* (ma_empty ed) db"
  shows "(\<forall>p\<in>rows (participants db). pt_session_id p \<in> ids (sessions db))
    \<and> (\<forall>m\<in>rows (messages db). im_delivered m
          \<and> im_from_agent_id m \<in> set (participant_agent_ids (im_session_id m) (participants db)))
    \<and> (\<forall>d\<in>rows (delegations db). dg_from_agent_id d \<noteq> dg_to_agent_id d
          \<and> dg_to_agent_id d \<in> set (participant_agent_ids (dg_session_id d) (participants db)))
    \<and> (\<exists>k\<le>5. map (\<lambda>i_d. dg_depth (snd i_d)) (session_delegations sid (delegations db)) = map (\<lambda>i. int i + 1) [0..<k]
          \<and> (k = 5 \<longrightarrow> is_ok (get_session org sid db) \<longrightarrow>
               delegate_task did org sid f t task ctx db = (Err (DelegationLimitExceededError 5), db)))"
proof -
  have inv: "ma_inv db" using assms by (rule ma_inv_reachable)
  then have "numbered (depths sid db)" "int (length (depths sid db)) \<le> 5"
    by (simp_all add: ma_inv_def MAX_AGENT_DELEGATIONS_def)
  moreover have "delegate_task did org sid f t task ctx db = (Err (DelegationLimitExceededError 5), db)"
    if "length (depths sid db) = 5" "is_ok (get_session org sid db)"
    using that delegation_limit [OF inv] by (auto simp: is_ok_iff MAX_AGENT_DELEGATIONS_def)
  ultimately have "\<exists>k\<le>5. depths sid db = map (\<lambda>i. int i + 1) [0..<k]
      \<and> (k = 5 \<longrightarrow> is_ok (get_session org sid db) \<longrightarrow>
           delegate_task did org sid f t task ctx db = (Err (DelegationLimitExceededError 5), db))"
    by (intro exI [of _ "length (depths sid db)"]) (simp add: numbered_def)
  with inv show ?thesis by (simp add: ma_inv_def depths_def)
qed

definition demo_created :: "unit ma_db" where
  "demo_created = snd (create_session (\<lambda>_. True) (\<lambda>_. True) serial_id 1 7 10 ''s'' ''ship it'' [11, 10] None 2 (ma_empty sample_engine))"

definition demo_delegated :: "unit ma_db" where
  "demo_delegated = snd (delegate_task 1 7 1 10 11 ''review'' None demo_created)"

lemma demo_reachable: "ma_step\<^sup>*\<^sup>* (ma_empty sample_engine) demo_delegated"
proof -
  have "ma_step (ma_empty sample_engine) demo_created"
    unfolding demo_created_def by (rule ma_step.create) (simp_all add: ma_empty_def serial_id_fresh)
  moreover have "(1::int) \<notin> ids (delegations demo_created)" by code_simp
  then have "ma_step demo_created demo_delegated"
    unfolding demo_delegated_def by (rule ma_step.delegate)
  ultimately show ?thesis by (meson converse_rtranclp_into_rtranclp r_into_rtranclp)
qed

theorem multi_agent_integrity_witness:
  "map fst (delegations demo_delegated) = [1]
   \<and> list_all (\<lambda>(_, d). dg_from_agent_id d \<noteq> dg_to_agent_id d
          \<and> dg_to_agent_id d \<in> set (participant_agent_ids (dg_session_id d) (participants demo_delegated)))
       (delegations demo_delegated)"
proof -
  have "map fst (delegations demo_delegated) = [1]" by code_simp
  with multi_agent_integrity [OF demo_reachable] show ?thesis by (auto simp: list_all_iff rows_def)
qed

section \<open>Starting a session\<close>

lemma participants_complete [simp]: "participants (snd (complete_session now org sid db)) = participants db"
  by (simp add: complete_session_def clear_session_def publish_def put_session_def Let_def split: sum.split)

lemma get_session_iff: "get_session org sid db = Ok s \<longleftrightarrow> repo_get (sessions db) sid = Some s \<and> se_organization_id s = org"
  by (auto simp: get_session_def get_by_org_and_id_def split: option.splits)







section \<open>Shared context\<close>

lemma merge_entry_get:
  "dict_get (merge_entry (k, v) ctx) j =
     (if j = k then Some (case (v, dict_get ctx k) of (JObj d, Some (JObj c)) \<Rightarrow> JObj (dict_merge c d) | _ \<Rightarrow> v)
      else dict_get ctx j)"
  by (auto simp: merge_entry_def dict_get_set split: json.split option.split)

text \<open>
  Merging updates into the shared context sets every updated key to its new
  value, except that a dictionary merged into a dictionary keeps the old entries
  the update does not mention (one level deep); every other key keeps its value.
\<close>

theorem context_merge_lookup:
  assumes "distinct (dict_keys updates)"
  shows "dict_get (context_merge ctx updates) k =
     (case dict_get updates k of
        None \<Rightarrow> dict_get ctx k
      | Some v \<Rightarrow> Some (case (v, dict_get ctx k) of (JObj d, Some (JObj c)) \<Rightarrow> JObj (dict_merge c d) | _ \<Rightarrow> v))"
  using assms
proof (induction updates arbitrary: ctx)
  case (Cons kv updates)
  obtain j v where kv: "kv = (j, v)" by fastforce
  have "dict_get updates j = None" using Cons.prems kv by (simp add: dict_get_None_iff)
  with Cons.IH [of "merge_entry kv ctx"] Cons.prems show ?case
    by (auto simp: context_merge_def kv merge_entry_get split: option.splits)
qed (simp add: context_merge_def)

theorem context_merge_lookup_witness:
  "dict_get (context_merge [(''a'', JObj [(''x'', JInt 1)]), (''b'', JInt 2)] [(''a'', JObj [(''y'', JInt 3)]), (''c'', JNull)]) ''a''
     = Some (JObj [(''x'', JInt 1), (''y'', JInt 3)])
   \<and> dict_get (context_merge [(''a'', JObj [(''x'', JInt 1)]), (''b'', JInt 2)] [(''a'', JObj [(''y'', JInt 3)]), (''c'', JNull)]) ''b''
     = Some (JInt 2)"
  by (simp add: context_merge_lookup dict_merge_def)

text \<open>
  An update of a shared context that is not empty is lost.  The merge changes
  the loaded dictionary in place, so the copy assigned to the column equals the
  loaded value; a mapper that writes only columns whose value differs from the
  loaded one then writes nothing, and the session read back has its old context.
  On an empty context the merged updates are stored.
\<close>

theorem context_update_lost:
  assumes s: "get_session org sid db = Ok s" and mapper: "\<And>a b. changed a b \<longleftrightarrow> a \<noteq> b"
  shows "(se_shared_context s \<noteq> [] \<longrightarrow> fst (update_shared_context changed org sid updates db) = Ok s
            \<and> repo_get (sessions (snd (update_shared_context changed org sid updates db))) sid = Some s)
    \<and> (se_shared_context s = [] \<longrightarrow> (\<exists>s'. fst (update_shared_context changed org sid updates db) = Ok s'
            \<and> se_shared_context s' = context_merge [] updates
            \<and> repo_get (sessions (snd (update_shared_context changed org sid updates db))) sid = Some s'))"
proof -
  have g: "repo_get (sessions db) sid = Some s" using s by (simp add: get_session_iff)
  then have i: "sid \<in> ids (sessions db)" by (rule repo_get_SomeD)
  have e: "s\<lparr>se_shared_context := []\<rparr> = s" if "se_shared_context s = []" using that by (cases s) simp
  show ?thesis using s i e
    by (auto simp: update_shared_context_def Let_def mapper put_session_def repo_get_update)
qed

theorem context_update_lost_witness:
  "let db = snd (create_session (\<lambda>_. True) (\<lambda>_. True) serial_id 1 7 10 ''s'' ''g'' [] (Some [(''a'', JInt 1)]) 2 (ma_empty sample_engine));
       db' = snd (update_shared_context (\<lambda>a b. a \<noteq> b) 7 1 [(''a'', JInt 2)] db)
   in map_option se_shared_context (repo_get (sessions db') 1) = Some [(''a'', JInt 1)]"
proof -
  define db where "db = snd (create_session (\<lambda>_. True) (\<lambda>_. True) serial_id 1 7 10 ''s'' ''g'' [] (Some [(''a'', JInt 1)]) 2
      (ma_empty sample_engine))"
  have "(case get_session 7 1 db of Inl _ \<Rightarrow> False | Inr s \<Rightarrow> se_shared_context s = [(''a'', JInt 1)])"
    unfolding db_def by code_simp
  then obtain s where s: "get_session 7 1 db = Ok s" "se_shared_context s = [(''a'', JInt 1)]"
    by (auto split: sum.splits)
  from context_update_lost [OF s(1), of "\<lambda>a b. a \<noteq> b" "[(''a'', JInt 2)]"] s(2)
  show ?thesis by (simp add: Let_def db_def [symmetric])
qed

end
