(* ===== verification/Cognition.thy ===== *)
theory Cognition
  imports Prelude
begin

text \<open>
  The cognitive layer of Runtime V2 (\<open>runtime/cognitive.py\<close>): five analyzers
  that read the request text, and the engine that runs them in order, keeping
  the state from before a stage that raises.  Confidences are in hundredths.
  Identifiers and the clock are arguments; durations and the snapshots of a
  trace entry are left out.
\<close>

section \<open>State\<close>

record cog_intent =
  ci_category :: string
  ci_confidence :: int
  ci_evidence :: "string option"

record cog_complexity =
  cx_reasoning :: string
  cx_execution :: string
  cx_dependency :: string
  cx_external :: string
  cx_planning :: string
  cx_confidence :: int

record cog_metadata =
  cp_runtime_version :: string
  cp_analysis_version :: string
  cp_request_id :: string
  cp_trace_id :: string
  cp_created_at :: string

record cog_trace_entry =
  ct_stage_name :: string
  ct_summary :: string
  ct_confidence :: int
  ct_errors :: "string list"
  ct_status :: string

record cog_state =
  cs_normalized_goal :: "string option"
  cs_intents :: "cog_intent list"
  cs_constraints :: "string list"
  cs_capabilities :: "string list"
  cs_complexity :: "cog_complexity option"
  cs_confidence :: "(string, int) dict"
  cs_metadata :: "cog_metadata option"
  cs_trace :: "cog_trace_entry list"
  cs_raw_request :: string

section \<open>Text\<close>

text \<open>\<open>re.sub(r"\s+", " ", s)\<close>: every run of white space becomes one blank.\<close>

fun collapse_ws :: "bool \<Rightarrow> string \<Rightarrow> string" where
  "collapse_ws in_run [] = []"
| "collapse_ws in_run (c # cs) =
     (if is_space c then (if in_run then collapse_ws True cs else CHR '' '' # collapse_ws True cs)
      else c # collapse_ws False cs)"

definition normalize_text :: "string \<Rightarrow> string" where
  "normalize_text s = collapse_ws False (py_lower (py_strip s))"

definition extract_primary_objective :: "string \<Rightarrow> string option" where
  "extract_primary_objective t =
     (if t = [] then None
      else if list_ex (\<lambda>prefix. py_in prefix t)
                [''my request is'', ''i need'', ''please'', ''build'', ''create'', ''implement'']
      then Some t else Some t)"

definition confidence_from_text :: "string \<Rightarrow> int" where
  "confidence_from_text t =
     (if length (split_ws t) > 40 then 80 else if length (split_ws t) > 10 then 65 else 40)"

section \<open>Analyzers\<close>

definition set_confidence :: "string \<Rightarrow> int \<Rightarrow> cog_state \<Rightarrow> cog_state" where
  "set_confidence k v s = s\<lparr>cs_confidence := dict_set (cs_confidence s) k v\<rparr>"

definition goal_understanding :: "cog_state \<Rightarrow> cog_state" where
  "goal_understanding s =
     (let t = normalize_text (cs_raw_request s)
      in set_confidence ''goal'' (confidence_from_text t)
           (s\<lparr>cs_normalized_goal := Some (or_str (extract_primary_objective t) (take 120 t))\<rparr>))"

definition intent_keywords :: "(string \<times> string list) list" where
  "intent_keywords =
     [(''research'', [''research'', ''find'', ''look up'', ''investigate'']),
      (''coding'', [''code'', ''implement'', ''fix'', ''build'', ''write'']),
      (''writing'', [''write'', ''draft'', ''compose'', ''summarize'']),
      (''planning'', [''plan'', ''strategy'', ''roadmap'']),
      (''workflow'', [''workflow'', ''pipeline'', ''process'']),
      (''tool usage'', [''tool'', ''tooling'', ''execute'']),
      (''automation'', [''automate'', ''automation'', ''scheduler'']),
      (''explanation'', [''explain'', ''how does'', ''what is'']),
      (''summarization'', [''summarize'', ''summary'', ''brief''])]"

definition intents_of :: "string \<Rightarrow> cog_intent list" where
  "intents_of t =
     (let found = [\<lparr>ci_category = category, ci_confidence = 65, ci_evidence = Some needle\<rparr>.
            (category, needles) \<leftarrow> intent_keywords, Some needle \<leftarrow> [find (\<lambda>n. py_in n t) needles]]
      in if found = [] then [\<lparr>ci_category = ''explanation'', ci_confidence = 35, ci_evidence = None\<rparr>] else found)"

definition max_confidence :: "cog_intent list \<Rightarrow> int" where
  "max_confidence is = fold max (map ci_confidence is) 0"

definition intent_analysis :: "cog_state \<Rightarrow> cog_state" where
  "intent_analysis s =
     (let is = intents_of (normalize_text (cs_raw_request s))
      in set_confidence ''intent'' (max_confidence is) (s\<lparr>cs_intents := is\<rparr>))"

definition constraint_tokens :: "string list" where
  "constraint_tokens = [''python'', ''fastapi'', ''sqlite'', ''postgres'', ''security'', ''organization'',
     ''compliance'', ''streaming'', ''frontend'']"

definition constraints_of :: "string \<Rightarrow> string list" where
  "constraints_of t =
     (let found = filter (\<lambda>tok. py_in tok t) constraint_tokens @
            (if py_in ''without changing'' t \<or> py_in ''do not'' t then [''explicit_restrictions''] else [])
      in if found = [] then [''unknown''] else found)"

definition constraint_analysis :: "cog_state \<Rightarrow> cog_state" where
  "constraint_analysis s =
     (let cs = constraints_of (normalize_text (cs_raw_request s))
      in set_confidence ''constraints'' (if cs \<noteq> [] then 60 else 20) (s\<lparr>cs_constraints := cs\<rparr>))"

definition capability_keywords :: "(string \<times> string list) list" where
  "capability_keywords =
     [(''Memory'', [''memory'']), (''Knowledge'', [''knowledge'']), (''RAG'', [''rag'', ''retrieval'']),
      (''Workflow'', [''workflow'']), (''Tool Runtime'', [''tool'']), (''Multi-Agent'', [''multi-agent'', ''collaborative'']),
      (''Provider'', [''provider'', ''model'']), (''Streaming'', [''stream'', ''sse''])]"

definition capabilities_of :: "string \<Rightarrow> string list" where
  "capabilities_of t =
     (let caps = map fst (filter (\<lambda>(label, needles). list_ex (\<lambda>n. py_in n t) needles) capability_keywords)
      in if caps = [] then [''Provider''] else caps)"

definition capability_analysis :: "cog_state \<Rightarrow> cog_state" where
  "capability_analysis s =
     set_confidence ''capabilities'' 70 (s\<lparr>cs_capabilities := capabilities_of (normalize_text (cs_raw_request s))\<rparr>)"

definition mentions :: "string list \<Rightarrow> string \<Rightarrow> bool" where
  "mentions needles t = list_ex (\<lambda>n. py_in n t) needles"

definition complexity_of :: "string \<Rightarrow> cog_complexity" where
  "complexity_of t =
     \<lparr>cx_reasoning = (if mentions [''architecture'', ''integration''] t then ''high''
                      else if length (split_ws t) > 20 then ''medium'' else ''low''),
      cx_execution = (if mentions [''backend'', ''frontend'', ''runtime'', ''observatory''] t then ''high'' else ''medium''),
      cx_dependency = (if mentions [''database'', ''provider'', ''streaming'', ''multi-agent''] t then ''high'' else ''low''),
      cx_external = (if mentions [''frontend'', ''database'', ''provider''] t then ''high'' else ''medium''),
      cx_planning = (if mentions [''phase'', ''architecture''] t then ''high'' else ''medium''),
      cx_confidence = 66\<rparr>"

definition complexity_analysis :: "cog_state \<Rightarrow> cog_state" where
  "complexity_analysis s =
     (let c = complexity_of (normalize_text (cs_raw_request s))
      in set_confidence ''complexity'' (cx_confidence c) (s\<lparr>cs_complexity := Some c\<rparr>))"

section \<open>Engine\<close>

type_synonym analyzer = "string \<times> (cog_state \<Rightarrow> (string, cog_state) result)"

definition default_analyzers :: "analyzer list" where
  "default_analyzers =
     [(''Goal Understanding'', Ok \<circ> goal_understanding), (''Intent Analysis'', Ok \<circ> intent_analysis),
      (''Constraint Analysis'', Ok \<circ> constraint_analysis), (''Capability Analysis'', Ok \<circ> capability_analysis),
      (''Complexity Analysis'', Ok \<circ> complexity_analysis)]"

definition summarize_state :: "string \<Rightarrow> cog_state \<Rightarrow> string" where
  "summarize_state stage s =
     (if stage = ''Goal Understanding'' then or_str (cs_normalized_goal s) ''No goal identified.''
      else if stage = ''Intent Analysis'' then py_join '', '' (map ci_category (cs_intents s))
      else if stage = ''Constraint Analysis'' then py_join '', '' (cs_constraints s)
      else if stage = ''Capability Analysis'' then py_join '', '' (cs_capabilities s)
      else if stage = ''Complexity Analysis''
        then (case cs_complexity s of None \<Rightarrow> ''No assessment.'' | Some c \<Rightarrow> cx_reasoning c @ ''/'' @ cx_execution c)
      else ''Completed.'')"

definition stage_confidence :: "string \<Rightarrow> cog_state \<Rightarrow> int" where
  "stage_confidence stage s =
     (case split_ws (py_lower stage) of [] \<Rightarrow> 50 | w # _ \<Rightarrow> dict_get_or (cs_confidence s) w 50)"

definition run_analyzer :: "analyzer \<Rightarrow> cog_state \<times> cog_trace_entry list \<Rightarrow> cog_state \<times> cog_trace_entry list" where
  "run_analyzer a st =
     (let (s, trace) = st; (stage, f) = a in
      case f s of
        Inl exc \<Rightarrow> (s, trace @ [\<lparr>ct_stage_name = stage, ct_summary = exc, ct_confidence = 0, ct_errors = [exc], ct_status = ''FAILED''\<rparr>])
      | Inr s' \<Rightarrow> (s', trace @ [\<lparr>ct_stage_name = stage, ct_summary = summarize_state stage s',
                     ct_confidence = stage_confidence stage s', ct_errors = [], ct_status = ''COMPLETED''\<rparr>]))"

definition initial_state :: "string \<Rightarrow> cog_metadata \<Rightarrow> cog_state" where
  "initial_state request meta =
     \<lparr>cs_normalized_goal = None, cs_intents = [], cs_constraints = [], cs_capabilities = [], cs_complexity = None,
      cs_confidence = [], cs_metadata = Some meta, cs_trace = [], cs_raw_request = request\<rparr>"

definition analyze_with :: "analyzer list \<Rightarrow> string \<Rightarrow> cog_metadata \<Rightarrow> cog_state" where
  "analyze_with analyzers request meta =
     (let (s, trace) = fold run_analyzer analyzers (initial_state request meta, []) in s\<lparr>cs_trace := trace\<rparr>)"

definition analyze :: "string \<Rightarrow> cog_metadata \<Rightarrow> cog_state" where
  "analyze request meta = analyze_with default_analyzers request meta"

section \<open>Normalised text is the words of the request\<close>

lemma is_space_lower [simp]: "is_space (lower_char c) = is_space c"
  by (auto simp: is_space_def lower_char_def Let_def)

lemma lower_strip: "py_lower (py_strip s) = py_strip (py_lower s)"
  by (simp add: py_lower_def py_strip_def rev_map dropWhile_map comp_def)

lemma split_aux_empty: "split_ws_aux acc t = [] \<longleftrightarrow> acc = [] \<and> list_all is_space t"
  by (induction acc t rule: split_ws_aux.induct) auto

lemma split_aux_trailing: "list_all is_space sp \<Longrightarrow> split_ws_aux acc (t @ sp) = split_ws_aux acc t"
proof (induction acc t rule: split_ws_aux.induct)
  case (1 acc)
  then show ?case by (cases sp) (auto simp: split_aux_empty)
qed auto

lemma split_aux_leading: "split_ws_aux [] (dropWhile is_space t) = split_ws_aux [] t"
  by (induction t) auto

lemma split_ws_strip: "split_ws (py_strip s) = split_ws s"
proof -
  let ?t = "dropWhile is_space s"
  have "?t = py_strip s @ rev (takeWhile is_space (rev ?t))"
    unfolding py_strip_def by (metis rev_append rev_rev_ident takeWhile_dropWhile_id)
  moreover have "list_all is_space (rev (takeWhile is_space (rev ?t)))"
    by (auto simp: list_all_iff dest: set_takeWhileD)
  ultimately have "split_ws_aux [] ?t = split_ws_aux [] (py_strip s)" by (metis split_aux_trailing)
  then show ?thesis by (simp add: split_ws_def split_aux_leading)
qed

lemma collapse_words:
  assumes "t \<noteq> [] \<Longrightarrow> \<not> is_space (last t)"
  shows "acc \<noteq> [] \<Longrightarrow> rev acc @ collapse_ws False t = py_join '' '' (split_ws_aux acc t)"
    and "collapse_ws True t = py_join '' '' (split_ws_aux [] t)"
  using assms
proof (induction t arbitrary: acc)
  case Nil
  { case 1 then show ?case by simp next case 2 then show ?case by simp }
next
  case (Cons c cs)
  have nt: "cs \<noteq> [] \<Longrightarrow> \<not> is_space (last cs)" if "c # cs \<noteq> [] \<Longrightarrow> \<not> is_space (last (c # cs))"
    using that by (cases cs) auto
  have ne: "split_ws_aux [] cs \<noteq> []" if "is_space c" "c # cs \<noteq> [] \<Longrightarrow> \<not> is_space (last (c # cs))"
    using that by (cases cs) (auto simp: split_aux_empty list_all_iff split: if_splits)
  {
    case 1
    show ?case
    proof (cases "is_space c")
      case True
      then obtain w ws where "split_ws_aux [] cs = w # ws" using ne 1 by (cases "split_ws_aux [] cs") auto
      then show ?thesis using True 1 Cons.IH(2) nt by (auto split: if_splits)
    next
      case False
      then show ?thesis using 1 Cons.IH(1) [of "c # acc"] nt by (auto split: if_splits)
    qed
  next
    case 2
    then show ?case using Cons.IH(1) [of "[c]"] Cons.IH(2) nt by (cases "is_space c") (auto split: if_splits)
  }
qed

lemma strip_ends:
  assumes "py_strip s \<noteq> []"
  shows "\<not> is_space (last (py_strip s)) \<and> \<not> is_space (hd (py_strip s))"
proof
  let ?t = "dropWhile is_space s"
  have ne: "dropWhile is_space (rev ?t) \<noteq> []" using assms by (simp add: py_strip_def)
  then show "\<not> is_space (last (py_strip s))" unfolding py_strip_def last_rev by (rule hd_dropWhile)
  have pre: "?t = py_strip s @ rev (takeWhile is_space (rev ?t))"
    unfolding py_strip_def by (metis rev_append rev_rev_ident takeWhile_dropWhile_id)
  then have "hd ?t = hd (py_strip s)" using assms by (metis hd_append2)
  moreover have "?t \<noteq> []" using pre assms by (metis append_is_Nil_conv)
  ultimately show "\<not> is_space (hd (py_strip s))" using hd_dropWhile [of is_space s] by simp
qed

lemma normalize_words: "normalize_text s = py_join '' '' (split_ws (py_lower s))"
proof -
  let ?t = "py_strip (py_lower s)"
  have "collapse_ws False ?t = collapse_ws True ?t"
    using strip_ends [of "py_lower s"] by (cases ?t) auto
  also have "\<dots> = py_join '' '' (split_ws_aux [] ?t)" using strip_ends by (intro collapse_words(2)) blast
  also have "\<dots> = py_join '' '' (split_ws (py_lower s))"
    using split_ws_strip [of "py_lower s"] by (simp add: split_ws_def)
  finally show ?thesis by (simp add: normalize_text_def lower_strip)
qed

lemma split_aux_word: "list_all (\<lambda>c. \<not> is_space c) w \<Longrightarrow> split_ws_aux acc (w @ t) = split_ws_aux (rev w @ acc) t"
  by (induction w arbitrary: acc) auto

lemma split_join_words:
  "list_all (\<lambda>w. w \<noteq> [] \<and> list_all (\<lambda>c. \<not> is_space c) w) ws \<Longrightarrow> split_ws (py_join '' '' ws) = ws"
proof (induction ws)
  case (Cons w ws)
  have sp: "is_space CHR '' ''" by code_simp
  show ?case
  proof (cases ws)
    case Nil
    then show ?thesis using Cons.prems split_aux_word [of w "[]" "[]"] by (simp add: split_ws_def)
  next
    case (Cons v vs)
    with \<open>list_all _ (w # ws)\<close> Cons.IH sp show ?thesis
      using split_aux_word [of w "[]" "'' '' @ py_join '' '' (v # vs)"] by (simp add: split_ws_def)
  qed
qed (simp add: split_ws_def)

lemma set_collapse: "c \<in> set (collapse_ws b t) \<Longrightarrow> c \<in> set t \<or> c = CHR '' ''"
  by (induction b t rule: collapse_ws.induct) (auto split: if_splits)

lemma lower_normalize: "py_lower (normalize_text s) = normalize_text s"
proof -
  have "lower_char c = c" if "c \<in> set (normalize_text s)" for c
  proof -
    from that have "c \<in> set (py_lower (py_strip s)) \<or> c = CHR '' ''" unfolding normalize_text_def by (rule set_collapse)
    moreover have "lower_char CHR '' '' = CHR '' ''" by code_simp
    moreover have "lower_char d = d" if "d \<in> set (py_lower u)" for d u
      using that py_lower_idem [of u] unfolding py_lower_def by (metis in_set_conv_nth length_map nth_map)
    ultimately show ?thesis by blast
  qed
  then show ?thesis by (simp add: py_lower_def map_idI)
qed

lemma normalize_idem: "normalize_text (normalize_text s) = normalize_text s"
proof -
  have "normalize_text (normalize_text s) = py_join '' '' (split_ws (normalize_text s))"
    by (simp add: normalize_words [of "normalize_text s"] lower_normalize)
  also have "split_ws (normalize_text s) = split_ws (py_lower s)"
    unfolding normalize_words by (rule split_join_words) (auto simp: list_all_iff dest: split_ws_word)
  finally show ?thesis by (simp add: normalize_words)
qed

section \<open>The analysis\<close>

definition analyzer_effect :: "analyzer \<Rightarrow> cog_state \<Rightarrow> cog_state" where
  "analyzer_effect a s = (case snd a s of Inl _ \<Rightarrow> s | Inr s' \<Rightarrow> s')"

lemma run_analyzers:
  "fst (fold run_analyzer as (s, tr)) = fold analyzer_effect as s
   \<and> map ct_stage_name (snd (fold run_analyzer as (s, tr))) = map ct_stage_name tr @ map fst as"
proof (induction as arbitrary: s tr)
  case (Cons a as)
  obtain s' e where "run_analyzer a (s, tr) = (s', tr @ [e])" "s' = analyzer_effect a s" "ct_stage_name e = fst a"
    by (cases a; cases "snd a s") (auto simp: run_analyzer_def analyzer_effect_def)
  with Cons show ?case by simp
qed simp

lemma analyze_fields:
  "cs_normalized_goal (analyze r m) = Some (or_str (extract_primary_objective (normalize_text r)) (take 120 (normalize_text r)))"
  "cs_intents (analyze r m) = intents_of (normalize_text r)"
  "cs_constraints (analyze r m) = constraints_of (normalize_text r)"
  "cs_capabilities (analyze r m) = capabilities_of (normalize_text r)"
  "cs_complexity (analyze r m) = Some (complexity_of (normalize_text r))"
  "cs_raw_request (analyze r m) = r"
  "cs_metadata (analyze r m) = Some m"
  using run_analyzers [of default_analyzers "initial_state r m" "[]"]
  by (simp_all add: analyze_def analyze_with_def split_beta default_analyzers_def analyzer_effect_def comp_def
      goal_understanding_def intent_analysis_def constraint_analysis_def capability_analysis_def complexity_analysis_def
      set_confidence_def Let_def initial_state_def)

lemma goal_is_text: "or_str (extract_primary_objective t) (take 120 t) = t"
  by (cases t) (simp_all add: extract_primary_objective_def or_str_def)

lemma stage_keys:
  "split_ws (py_lower ''Goal Understanding'') = [''goal'', ''understanding'']"
  "split_ws (py_lower ''Intent Analysis'') = [''intent'', ''analysis'']"
  "split_ws (py_lower ''Constraint Analysis'') = [''constraint'', ''analysis'']"
  "split_ws (py_lower ''Capability Analysis'') = [''capability'', ''analysis'']"
  "split_ws (py_lower ''Complexity Analysis'') = [''complexity'', ''analysis'']"
  by code_simp+

lemma analyze_trace:
  "map (\<lambda>e. (ct_status e, ct_errors e)) (cs_trace (analyze r m)) = replicate 5 (''COMPLETED'', [])"
  "map ct_confidence (cs_trace (analyze r m)) =
     [confidence_from_text (normalize_text r), max_confidence (intents_of (normalize_text r)), 50, 50, 66]"
  by (simp_all add: analyze_def analyze_with_def split_beta default_analyzers_def run_analyzer_def stage_confidence_def
      stage_keys comp_def goal_understanding_def intent_analysis_def constraint_analysis_def capability_analysis_def
      complexity_analysis_def set_confidence_def Let_def initial_state_def dict_get_or_def dict_get_set complexity_of_def
      numeral_eq_Suc)

lemma capabilities_known: "capabilities_of t \<noteq> [] \<and> set (capabilities_of t) \<subseteq> set (map fst capability_keywords)"
proof -
  have "''Provider'' \<in> set (map fst capability_keywords)" by (simp add: capability_keywords_def)
  then show ?thesis by (auto simp: capabilities_of_def Let_def)
qed

lemma capabilities_distinct: "distinct (capabilities_of t)"
proof -
  have "distinct (map fst capability_keywords)" by (simp add: capability_keywords_def)
  then show ?thesis by (simp add: capabilities_of_def Let_def distinct_map_filter)
qed

text \<open>
  The analysis of a request depends only on its words in lower case: requests
  that differ in case and white space get the same goal, intents, constraints,
  capabilities and complexity, and the goal is those words separated by single
  blanks.  The capabilities are a non-empty selection of the eight known ones,
  every stage is traced as completed, in order, and the engine keeps one trace
  entry per analyzer and the state from before a stage that raises, whatever the
  analyzers.  The confidences traced for the constraint and the capability stage
  are the default 0.5: the stage's first word is not the key they are stored under.
\<close>

theorem analysis_of_words:
  assumes "split_ws (py_lower r) = split_ws (py_lower r')"
  shows "cs_normalized_goal (analyze r m) = Some (py_join '' '' (split_ws (py_lower r)))
    \<and> cs_normalized_goal (analyze r' m') = cs_normalized_goal (analyze r m)
    \<and> cs_intents (analyze r' m') = cs_intents (analyze r m) \<and> cs_constraints (analyze r' m') = cs_constraints (analyze r m)
    \<and> cs_capabilities (analyze r' m') = cs_capabilities (analyze r m) \<and> cs_complexity (analyze r' m') = cs_complexity (analyze r m)
    \<and> cs_capabilities (analyze r m) \<noteq> [] \<and> distinct (cs_capabilities (analyze r m))
    \<and> set (cs_capabilities (analyze r m)) \<subseteq> set (map fst capability_keywords)
    \<and> map ct_status (cs_trace (analyze r m)) = replicate 5 ''COMPLETED''
    \<and> map ct_confidence (cs_trace (analyze r m)) =
        [confidence_from_text (normalize_text r), max_confidence (cs_intents (analyze r m)), 50, 50, 66]
    \<and> map ct_stage_name (cs_trace (analyze_with as r m)) = map fst as
    \<and> cs_capabilities (analyze_with as r m) = cs_capabilities (fold analyzer_effect as (initial_state r m))"
proof -
  have n: "normalize_text r' = normalize_text r" using assms by (simp add: normalize_words)
  have "map ct_status (cs_trace (analyze r m)) = replicate 5 ''COMPLETED''"
    using arg_cong [OF analyze_trace(1) [of r m], of "map fst"] by (simp add: comp_def)
  then show ?thesis
    using run_analyzers [of as "initial_state r m" "[]"] capabilities_known capabilities_distinct
    by (simp add: analyze_fields n analyze_trace goal_is_text analyze_with_def split_beta) (simp add: normalize_words)
qed

definition demo_meta :: cog_metadata where
  "demo_meta = \<lparr>cp_runtime_version = ''AgentCorp V2'', cp_analysis_version = ''1.0'', cp_request_id = ''r'',
     cp_trace_id = ''t'', cp_created_at = ''now''\<rparr>"

theorem analysis_of_words_witness:
  "cs_capabilities (analyze ''  Use MEMORY  and a tool'' demo_meta) = [''Memory'', ''Tool Runtime'']
   \<and> cs_capabilities (analyze ''use memory and a tool'' demo_meta) = cs_capabilities (analyze ''  Use MEMORY  and a tool'' demo_meta)"
proof -
  have "split_ws (py_lower ''  Use MEMORY  and a tool'') = split_ws (py_lower ''use memory and a tool'')" by code_simp
  from analysis_of_words [OF this, where m = demo_meta and m' = demo_meta]
  have "cs_capabilities (analyze ''use memory and a tool'' demo_meta) = cs_capabilities (analyze ''  Use MEMORY  and a tool'' demo_meta)"
    by blast
  moreover have "capabilities_of (normalize_text ''  Use MEMORY  and a tool'') = [''Memory'', ''Tool Runtime'']" by code_simp
  ultimately show ?thesis by (simp add: analyze_fields)
qed

end
