(* ===== verification/Planning.thy ===== *)
theory Planning
  imports Cognition
begin

text \<open>
  The planning engine of Runtime V2 (\<open>runtime/planning.py\<close>): seven stages that
  fill an execution blueprint from the cognitive state, and the engine that runs
  them in order, keeping the blueprint from before a stage that raises.
  Confidences are in hundredths; identifiers and the clock are arguments;
  durations and snapshots are left out.
\<close>

section \<open>Blueprint\<close>

record planning_metadata =
  pm_runtime_version :: string
  pm_planning_version :: string
  pm_request_id :: string
  pm_trace_id :: string
  pm_created_at :: string

record execution_objective =
  eo_primary :: string
  eo_secondary :: "string list"
  eo_deliverables :: "string list"
  eo_completion_criteria :: "string list"
  eo_unknown_objectives :: "string list"

record planned_task =
  pk_identifier :: string
  pk_title :: string
  pk_description :: string
  pk_required_capabilities :: "string list"
  pk_expected_output :: string
  pk_estimated_complexity :: string
  pk_estimated_confidence :: int

record dependency_edge =
  de_source :: string
  de_target :: string
  de_type :: string

record planned_milestone =
  mi_identifier :: string
  mi_objective :: string
  mi_tasks :: "string list"
  mi_completion_conditions :: "string list"
  mi_expected_outputs :: "string list"

record risk_item =
  ri_type :: string
  ri_likelihood :: string
  ri_impact :: string
  ri_confidence :: int
  ri_summary :: string

record planning_trace_entry =
  pe_stage_name :: string
  pe_status :: string
  pe_summary :: string
  pe_confidence :: int

record blueprint =
  bp_metadata :: "planning_metadata option"
  bp_objective :: "execution_objective option"
  bp_milestones :: "planned_milestone list"
  bp_execution_stages :: "string list"
  bp_task_graph :: "planned_task list"
  bp_dependency_graph :: "dependency_edge list"
  bp_priority_ordering :: "string list"
  bp_risks :: "risk_item list"
  bp_deliverables :: "string list"
  bp_capabilities :: "string list"
  bp_assumptions :: "string list"
  bp_confidence :: int
  bp_trace :: "planning_trace_entry list"
  bp_cognitive_state :: "cog_state option"

definition empty_blueprint :: "planning_metadata \<Rightarrow> cog_state \<Rightarrow> blueprint" where
  "empty_blueprint meta cs =
     \<lparr>bp_metadata = Some meta, bp_objective = None, bp_milestones = [], bp_execution_stages = [], bp_task_graph = [],
      bp_dependency_graph = [], bp_priority_ordering = [], bp_risks = [], bp_deliverables = [], bp_capabilities = [],
      bp_assumptions = [], bp_confidence = 0, bp_trace = [], bp_cognitive_state = Some cs\<rparr>"

section \<open>Stages\<close>

type_synonym stage = "string \<times> (blueprint \<Rightarrow> cog_state \<Rightarrow> (string, blueprint) result)"

definition secondary_objectives :: "cog_intent list \<Rightarrow> string list" where
  "secondary_objectives is = take 3 (filter (\<lambda>c. c \<noteq> ''explanation'') (map ci_category is))"

definition deliverables_from_goal :: "string \<Rightarrow> string list" where
  "deliverables_from_goal goal = [''Structured plan for '' @ goal, ''Execution blueprint'']"

definition completion_criteria :: "string \<Rightarrow> string list \<Rightarrow> string list" where
  "completion_criteria goal deliverables =
     (''Goal captured: '' @ goal) # map (\<lambda>d. ''Deliverable ready: '' @ d) deliverables"

text \<open>
  The parenthesised conditional of the source is a string, not a tuple, so the
  comprehension over it yields its letters.
\<close>

definition objective_planner :: "blueprint \<Rightarrow> cog_state \<Rightarrow> (string, blueprint) result" where
  "objective_planner b cs =
     (let goal = or_str (cs_normalized_goal cs) ''Unknown objective'';
          ds = deliverables_from_goal goal;
          unknown = (if goal = ''Unknown objective'' then ''unknown'' else [])
      in Ok (b\<lparr>bp_objective := Some \<lparr>eo_primary = goal, eo_secondary = secondary_objectives (cs_intents cs),
                 eo_deliverables = ds, eo_completion_criteria = completion_criteria goal ds,
                 eo_unknown_objectives = map (\<lambda>c. [c]) unknown\<rparr>,
               bp_deliverables := ds\<rparr>))"

definition objective_text :: "blueprint \<Rightarrow> cog_state \<Rightarrow> string" where
  "objective_text b cs =
     (case bp_objective b of Some eo \<Rightarrow> eo_primary eo | None \<Rightarrow> or_str (cs_normalized_goal cs) ''Unknown objective'')"

definition task_decomposer :: "blueprint \<Rightarrow> cog_state \<Rightarrow> (string, blueprint) result" where
  "task_decomposer b cs =
     Ok (b\<lparr>bp_task_graph :=
        [\<lparr>pk_identifier = ''task_1'', pk_title = ''Prepare request context'',
          pk_description = ''Review the request and normalize the objective: '' @ objective_text b cs,
          pk_required_capabilities = [''analysis''], pk_expected_output = ''Structured request summary'',
          pk_estimated_complexity = ''low'', pk_estimated_confidence = 86\<rparr>,
         \<lparr>pk_identifier = ''task_2'', pk_title = ''Identify implementation scope'',
          pk_description = ''Determine the bounded runtime work implied by the request.'',
          pk_required_capabilities = [''analysis''], pk_expected_output = ''Scope summary'',
          pk_estimated_complexity = ''medium'', pk_estimated_confidence = 80\<rparr>,
         \<lparr>pk_identifier = ''task_3'', pk_title = ''Assemble blueprint'',
          pk_description = ''Compose a structured execution blueprint for later execution phases.'',
          pk_required_capabilities = [''planning''], pk_expected_output = ''Execution blueprint'',
          pk_estimated_complexity = ''medium'', pk_estimated_confidence = 78\<rparr>],
        bp_execution_stages := [''objective_planning'', ''task_decomposition'', ''dependency_graph'',
          ''milestone_planning'', ''priority_planning'', ''risk_assessment'', ''blueprint_assembly'']\<rparr>)"

definition sequential :: "planned_task \<Rightarrow> planned_task \<Rightarrow> dependency_edge" where
  "sequential a b = \<lparr>de_source = pk_identifier a, de_target = pk_identifier b, de_type = ''sequential''\<rparr>"

definition dependency_builder :: "blueprint \<Rightarrow> cog_state \<Rightarrow> (string, blueprint) result" where
  "dependency_builder b cs =
     (let ts = bp_task_graph b
      in Ok (b\<lparr>bp_dependency_graph :=
           (if length ts \<ge> 2 then [sequential (ts ! 0) (ts ! 1)] else []) @
           (if length ts \<ge> 3 then [sequential (ts ! 1) (ts ! 2)] else [])\<rparr>))"

definition milestone_builder :: "blueprint \<Rightarrow> cog_state \<Rightarrow> (string, blueprint) result" where
  "milestone_builder b cs =
     Ok (b\<lparr>bp_milestones := [\<lparr>mi_identifier = ''milestone_1'', mi_objective = objective_text b cs,
            mi_tasks = map pk_identifier (bp_task_graph b),
            mi_completion_conditions = [''Blueprint approved'', ''All task groups identified''],
            mi_expected_outputs = bp_deliverables b\<rparr>]\<rparr>)"

definition priority_planner :: "blueprint \<Rightarrow> cog_state \<Rightarrow> (string, blueprint) result" where
  "priority_planner b cs = Ok (b\<lparr>bp_priority_ordering := map pk_identifier (bp_task_graph b)\<rparr>)"

definition risk_assessment :: "blueprint \<Rightarrow> cog_state \<Rightarrow> (string, blueprint) result" where
  "risk_assessment b cs =
     (case bp_objective b of
        None \<Rightarrow> Err ([CHR 0x27] @ ''NoneType'' @ [CHR 0x27] @ '' object has no attribute '' @ [CHR 0x27] @
                    ''primary_objective'' @ [CHR 0x27])
      | Some eo \<Rightarrow>
          (let text = py_lower (cs_raw_request cs);
               risks =
                 (if py_in ''unknown'' (py_lower (eo_primary eo))
                  then [\<lparr>ri_type = ''missing_information'', ri_likelihood = ''high'', ri_impact = ''medium'', ri_confidence = 80,
                         ri_summary = ''Primary objective is not fully known.''\<rparr>] else []) @
                 (if mentions [''database'', ''provider'', ''streaming'', ''frontend''] text
                  then [\<lparr>ri_type = ''external_dependency'', ri_likelihood = ''medium'', ri_impact = ''high'', ri_confidence = 70,
                         ri_summary = ''Request references external integration boundaries.''\<rparr>] else []) @
                 (if (case cs_complexity cs of None \<Rightarrow> False | Some c \<Rightarrow> cx_reasoning c = ''high'')
                  then [\<lparr>ri_type = ''high_complexity'', ri_likelihood = ''medium'', ri_impact = ''medium'', ri_confidence = 75,
                         ri_summary = ''Cognitive assessment indicates high reasoning complexity.''\<rparr>] else [])
           in Ok (b\<lparr>bp_risks := (if risks = []
                then [\<lparr>ri_type = ''unknown'', ri_likelihood = ''unknown'', ri_impact = ''unknown'', ri_confidence = 40,
                       ri_summary = ''No concrete risk could be inferred.''\<rparr>]
                else risks)\<rparr>)))"

definition assembly_confidence :: "cog_state \<Rightarrow> int" where
  "assembly_confidence cs =
     (if cs_intents cs \<noteq> [] \<or> cs_complexity cs \<noteq> None
      then fold min (map ci_confidence (cs_intents cs)) (case cs_complexity cs of Some c \<Rightarrow> cx_confidence c | None \<Rightarrow> 50)
      else 50)"

definition blueprint_assembler :: "blueprint \<Rightarrow> cog_state \<Rightarrow> (string, blueprint) result" where
  "blueprint_assembler b cs =
     Ok (b\<lparr>bp_capabilities := cs_capabilities cs,
           bp_assumptions := [''Planning artifacts remain request-scoped.'', ''Execution remains delegated to Runtime V1.''],
           bp_confidence := assembly_confidence cs\<rparr>)"

section \<open>Engine\<close>

definition default_stages :: "stage list" where
  "default_stages =
     [(''Objective Planning'', objective_planner), (''Task Decomposition'', task_decomposer),
      (''Dependency Graph'', dependency_builder), (''Milestone Planning'', milestone_builder),
      (''Priority Planning'', priority_planner), (''Risk Assessment'', risk_assessment),
      (''Blueprint Assembly'', blueprint_assembler)]"

text \<open>Python's text of a number of hundredths.\<close>

definition show_hundredths :: "int \<Rightarrow> string" where
  "show_hundredths n =
     show_int (n div 100) @ ''.'' @
     (if n mod 10 = 0 then show_int (n mod 100 div 10)
      else show_int (n mod 100 div 10) @ show_int (n mod 10))"

definition summarize_stage :: "string \<Rightarrow> blueprint \<Rightarrow> string" where
  "summarize_stage stage b =
     (if stage = ''Objective Planning'' \<and> bp_objective b \<noteq> None
        then or_str (map_option eo_primary (bp_objective b)) ''Unknown objective''
      else if stage = ''Task Decomposition'' then show_nat (length (bp_task_graph b)) @ '' tasks''
      else if stage = ''Dependency Graph'' then show_nat (length (bp_dependency_graph b)) @ '' dependencies''
      else if stage = ''Milestone Planning'' then show_nat (length (bp_milestones b)) @ '' milestones''
      else if stage = ''Priority Planning'' then py_join '', '' (bp_priority_ordering b)
      else if stage = ''Risk Assessment'' then py_join '', '' (map ri_type (bp_risks b))
      else if stage = ''Blueprint Assembly'' then ''confidence='' @ show_hundredths (bp_confidence b)
      else ''Completed.'')"

definition run_stage :: "cog_state \<Rightarrow> stage \<Rightarrow> blueprint \<times> planning_trace_entry list \<Rightarrow> blueprint \<times> planning_trace_entry list" where
  "run_stage cs st bt =
     (let (b, trace) = bt; (name, f) = st in
      case f b cs of
        Inl exc \<Rightarrow> (b, trace @ [\<lparr>pe_stage_name = name, pe_status = ''FAILED'', pe_summary = exc, pe_confidence = 0\<rparr>])
      | Inr b' \<Rightarrow> (b', trace @ [\<lparr>pe_stage_name = name, pe_status = ''COMPLETED'', pe_summary = summarize_stage name b',
                      pe_confidence = (if bp_confidence b' = 0 then 50 else bp_confidence b')\<rparr>]))"

definition plan_with :: "stage list \<Rightarrow> planning_metadata \<Rightarrow> cog_state \<Rightarrow> blueprint" where
  "plan_with stages meta cs =
     (let (b, trace) = fold (run_stage cs) stages (empty_blueprint meta cs, [])
      in b\<lparr>bp_metadata := Some meta, bp_trace := trace\<rparr>)"

definition plan :: "planning_metadata \<Rightarrow> cog_state \<Rightarrow> blueprint" where
  "plan meta cs = plan_with default_stages meta cs"

section \<open>The blueprint\<close>

definition stage_effect :: "cog_state \<Rightarrow> stage \<Rightarrow> blueprint \<Rightarrow> blueprint" where
  "stage_effect cs st b = (case snd st b cs of Inl _ \<Rightarrow> b | Inr b' \<Rightarrow> b')"

lemma run_stages:
  "fst (fold (run_stage cs) sts (b, tr)) = fold (stage_effect cs) sts b
   \<and> map pe_stage_name (snd (fold (run_stage cs) sts (b, tr))) = map pe_stage_name tr @ map fst sts"
proof (induction sts arbitrary: b tr)
  case (Cons st sts)
  obtain b' e where "run_stage cs st (b, tr) = (b', tr @ [e])" "b' = stage_effect cs st b" "pe_stage_name e = fst st"
    by (cases st; cases "snd st b cs") (auto simp: run_stage_def stage_effect_def)
  with Cons show ?case by simp
qed simp

lemmas stage_defs =
  objective_planner_def task_decomposer_def dependency_builder_def milestone_builder_def priority_planner_def
  risk_assessment_def blueprint_assembler_def

lemma plan_fold:
  "\<exists>tr. plan m cs = (fold (stage_effect cs) default_stages (empty_blueprint m cs))\<lparr>bp_metadata := Some m, bp_trace := tr\<rparr>"
  using run_stages [of cs default_stages "empty_blueprint m cs" "[]"]
  by (auto simp: plan_def plan_with_def split_beta)

lemma risk_assessment_ok:
  assumes "map_option eo_primary (bp_objective b) = Some g"
  shows "\<exists>rs. risk_assessment b cs = Ok (b\<lparr>bp_risks := rs\<rparr>) \<and> rs \<noteq> []"
proof -
  from assms obtain eo where eo: "bp_objective b = Some eo" by auto
  show ?thesis unfolding risk_assessment_def Let_def eo option.case by (rule exI, rule conjI, rule refl) simp
qed

text \<open>The seven stages of the engine all succeed; each sets its own fields and keeps the others.\<close>

lemma stage_chain:
  obtains b1 b2 b3 b4 b5 b6 b7 where
    "objective_planner (empty_blueprint m cs) cs = Ok b1" "task_decomposer b1 cs = Ok b2" "dependency_builder b2 cs = Ok b3"
    "milestone_builder b3 cs = Ok b4" "priority_planner b4 cs = Ok b5" "risk_assessment b5 cs = Ok b6" "blueprint_assembler b6 cs = Ok b7"
    "map pk_identifier (bp_task_graph b7) = [''task_1'', ''task_2'', ''task_3'']"
    "map (\<lambda>e. (de_source e, de_target e)) (bp_dependency_graph b7) = [(''task_1'', ''task_2''), (''task_2'', ''task_3'')]"
    "bp_priority_ordering b7 = [''task_1'', ''task_2'', ''task_3'']"
    "map mi_tasks (bp_milestones b7) = [[''task_1'', ''task_2'', ''task_3'']]"
    "bp_capabilities b7 = cs_capabilities cs" "bp_confidence b7 = assembly_confidence cs"
    "map_option eo_primary (bp_objective b7) = Some (or_str (cs_normalized_goal cs) ''Unknown objective'')"
    "map_option eo_unknown_objectives (bp_objective b7) =
       Some (if or_str (cs_normalized_goal cs) ''Unknown objective'' = ''Unknown objective''
             then [''u'', ''n'', ''k'', ''n'', ''o'', ''w'', ''n''] else [])"
    "bp_risks b7 \<noteq> []"
proof -
  let ?goal = "or_str (cs_normalized_goal cs) ''Unknown objective''"
  obtain b1 where b1: "objective_planner (empty_blueprint m cs) cs = Ok b1"
      "map_option eo_primary (bp_objective b1) = Some ?goal"
      "map_option eo_unknown_objectives (bp_objective b1) =
         Some (if ?goal = ''Unknown objective'' then [''u'', ''n'', ''k'', ''n'', ''o'', ''w'', ''n''] else [])"
    by (simp add: objective_planner_def Let_def)
  obtain b2 where b2: "task_decomposer b1 cs = Ok b2" "bp_objective b2 = bp_objective b1"
      "map pk_identifier (bp_task_graph b2) = [''task_1'', ''task_2'', ''task_3'']"
    by (simp add: task_decomposer_def Let_def)
  obtain t1 t2 t3 where ts: "bp_task_graph b2 = [t1, t2, t3]" "pk_identifier t1 = ''task_1''" "pk_identifier t2 = ''task_2''" "pk_identifier t3 = ''task_3''"
    using b2(3) by (auto simp: map_eq_Cons_conv)
  obtain b3 where b3: "dependency_builder b2 cs = Ok b3" "bp_objective b3 = bp_objective b2" "bp_task_graph b3 = bp_task_graph b2"
      "map (\<lambda>e. (de_source e, de_target e)) (bp_dependency_graph b3) = [(''task_1'', ''task_2''), (''task_2'', ''task_3'')]"
    using ts by (simp add: dependency_builder_def sequential_def Let_def)
  obtain b4 where b4: "milestone_builder b3 cs = Ok b4" "bp_objective b4 = bp_objective b3" "bp_task_graph b4 = bp_task_graph b3"
      "bp_dependency_graph b4 = bp_dependency_graph b3" "map mi_tasks (bp_milestones b4) = [[''task_1'', ''task_2'', ''task_3'']]"
    using ts b3(3) by (simp add: milestone_builder_def Let_def)
  obtain b5 where b5: "priority_planner b4 cs = Ok b5" "bp_objective b5 = bp_objective b4" "bp_task_graph b5 = bp_task_graph b4"
      "bp_dependency_graph b5 = bp_dependency_graph b4" "bp_milestones b5 = bp_milestones b4"
      "bp_priority_ordering b5 = [''task_1'', ''task_2'', ''task_3'']"
    using ts b3(3) b4(3) by (simp add: priority_planner_def Let_def)
  obtain b6 where b6: "risk_assessment b5 cs = Ok b6" "bp_objective b6 = bp_objective b5" "bp_task_graph b6 = bp_task_graph b5"
      "bp_dependency_graph b6 = bp_dependency_graph b5" "bp_milestones b6 = bp_milestones b5"
      "bp_priority_ordering b6 = bp_priority_ordering b5" "bp_risks b6 \<noteq> []"
    using risk_assessment_ok [of b5 ?goal cs] b1(2) b2(2) b3(2) b4(2) b5(2) by auto
  obtain b7 where b7: "blueprint_assembler b6 cs = Ok b7" "bp_objective b7 = bp_objective b6" "bp_task_graph b7 = bp_task_graph b6"
      "bp_dependency_graph b7 = bp_dependency_graph b6" "bp_milestones b7 = bp_milestones b6" "bp_risks b7 = bp_risks b6"
      "bp_priority_ordering b7 = bp_priority_ordering b6" "bp_capabilities b7 = cs_capabilities cs" "bp_confidence b7 = assembly_confidence cs"
    by (simp add: blueprint_assembler_def)
  show thesis
    by (rule that [OF b1(1) b2(1) b3(1) b4(1) b5(1) b6(1) b7(1)])
      (use b1(2,3) b2(2,3) b3(2-) b4(2-) b5(2-) b6(2-) b7(2-) in simp_all)
qed

lemma plan_fields:
  "map pk_identifier (bp_task_graph (plan m cs)) = [''task_1'', ''task_2'', ''task_3'']"
  "map (\<lambda>e. (de_source e, de_target e)) (bp_dependency_graph (plan m cs)) = [(''task_1'', ''task_2''), (''task_2'', ''task_3'')]"
  "bp_priority_ordering (plan m cs) = [''task_1'', ''task_2'', ''task_3'']"
  "map mi_tasks (bp_milestones (plan m cs)) = [[''task_1'', ''task_2'', ''task_3'']]"
  "bp_capabilities (plan m cs) = cs_capabilities cs"
  "bp_confidence (plan m cs) = assembly_confidence cs"
  "map_option eo_primary (bp_objective (plan m cs)) = Some (or_str (cs_normalized_goal cs) ''Unknown objective'')"
  "map_option eo_unknown_objectives (bp_objective (plan m cs)) =
     Some (if or_str (cs_normalized_goal cs) ''Unknown objective'' = ''Unknown objective''
           then [''u'', ''n'', ''k'', ''n'', ''o'', ''w'', ''n''] else [])"
  "bp_risks (plan m cs) \<noteq> []"
proof -
  obtain tr where p: "plan m cs = (fold (stage_effect cs) default_stages (empty_blueprint m cs))\<lparr>bp_metadata := Some m, bp_trace := tr\<rparr>"
    using plan_fold by blast
  obtain b1 b2 b3 b4 b5 b6 b7 where b: "objective_planner (empty_blueprint m cs) cs = Ok b1" "task_decomposer b1 cs = Ok b2"
    "dependency_builder b2 cs = Ok b3" "milestone_builder b3 cs = Ok b4" "priority_planner b4 cs = Ok b5"
    "risk_assessment b5 cs = Ok b6" "blueprint_assembler b6 cs = Ok b7"
    and fl: "map pk_identifier (bp_task_graph b7) = [''task_1'', ''task_2'', ''task_3'']"
    "map (\<lambda>e. (de_source e, de_target e)) (bp_dependency_graph b7) = [(''task_1'', ''task_2''), (''task_2'', ''task_3'')]"
    "bp_priority_ordering b7 = [''task_1'', ''task_2'', ''task_3'']"
    "map mi_tasks (bp_milestones b7) = [[''task_1'', ''task_2'', ''task_3'']]"
    "bp_capabilities b7 = cs_capabilities cs" "bp_confidence b7 = assembly_confidence cs"
    "map_option eo_primary (bp_objective b7) = Some (or_str (cs_normalized_goal cs) ''Unknown objective'')"
    "map_option eo_unknown_objectives (bp_objective b7) =
       Some (if or_str (cs_normalized_goal cs) ''Unknown objective'' = ''Unknown objective''
             then [''u'', ''n'', ''k'', ''n'', ''o'', ''w'', ''n''] else [])"
    "bp_risks b7 \<noteq> []" by (rule stage_chain [of m cs]) 
  have "fold (stage_effect cs) default_stages (empty_blueprint m cs) = b7"
    by (simp add: default_stages_def stage_effect_def b)
  then have "plan m cs = b7\<lparr>bp_metadata := Some m, bp_trace := tr\<rparr>" using p by simp
  then show "map pk_identifier (bp_task_graph (plan m cs)) = [''task_1'', ''task_2'', ''task_3'']"
    "map (\<lambda>e. (de_source e, de_target e)) (bp_dependency_graph (plan m cs)) = [(''task_1'', ''task_2''), (''task_2'', ''task_3'')]"
    "bp_priority_ordering (plan m cs) = [''task_1'', ''task_2'', ''task_3'']"
    "map mi_tasks (bp_milestones (plan m cs)) = [[''task_1'', ''task_2'', ''task_3'']]"
    "bp_capabilities (plan m cs) = cs_capabilities cs"
    "bp_confidence (plan m cs) = assembly_confidence cs"
    "map_option eo_primary (bp_objective (plan m cs)) = Some (or_str (cs_normalized_goal cs) ''Unknown objective'')"
    "map_option eo_unknown_objectives (bp_objective (plan m cs)) =
       Some (if or_str (cs_normalized_goal cs) ''Unknown objective'' = ''Unknown objective''
             then [''u'', ''n'', ''k'', ''n'', ''o'', ''w'', ''n''] else [])"
    "bp_risks (plan m cs) \<noteq> []"
    using fl by simp_all
qed

lemma plan_trace: "map pe_status (bp_trace (plan m cs)) = replicate 7 ''COMPLETED''"
proof -
  obtain b1 b2 b3 b4 b5 b6 b7 where b: "objective_planner (empty_blueprint m cs) cs = Ok b1" "task_decomposer b1 cs = Ok b2"
    "dependency_builder b2 cs = Ok b3" "milestone_builder b3 cs = Ok b4" "priority_planner b4 cs = Ok b5"
    "risk_assessment b5 cs = Ok b6" "blueprint_assembler b6 cs = Ok b7" by (rule stage_chain [of m cs])
  show ?thesis
    by (simp add: plan_def plan_with_def split_beta default_stages_def run_stage_def b numeral_eq_Suc)
qed

lemma intents_confidence: "i \<in> set (intents_of t) \<Longrightarrow> ci_confidence i = 65 \<or> intents_of t = [i] \<and> ci_confidence i = 35"
  by (auto simp: intents_of_def Let_def split: if_splits option.splits)

lemma fold_min_const:
  assumes "set xs \<subseteq> {c}" and "xs \<noteq> []" and "c \<le> d"
  shows "fold min xs d = (c :: int)"
proof -
  have "xs = replicate (length xs) c" using assms(1) by (intro replicate_length_same [symmetric]) auto
  moreover have "fold min (replicate (Suc n) c) d = c" if "c \<le> d" for n d
    using that by (induction n arbitrary: d) (simp_all add: min_def)
  ultimately show ?thesis using assms(2,3) by (metis Suc_pred length_greater_0_conv)
qed

lemma analyzed_confidence: "assembly_confidence (analyze r m) \<in> {35, 65}"
proof -
  let ?is = "intents_of (normalize_text r)"
  have ne: "?is \<noteq> []" by (simp add: intents_of_def Let_def)
  have cx: "cx_confidence (complexity_of t) = 66" for t by (simp add: complexity_of_def)
  show ?thesis
  proof (cases "\<exists>i\<in>set ?is. ci_confidence i = 35")
    case True
    then obtain i where "?is = [i]" "ci_confidence i = 35" using intents_confidence by fastforce
    then show ?thesis by (simp add: assembly_confidence_def analyze_fields cx)
  next
    case False
    then have "set (map ci_confidence ?is) \<subseteq> {65}" using intents_confidence by fastforce
    then have "fold min (map ci_confidence ?is) 66 = 65" using ne by (intro fold_min_const) auto
    then show ?thesis by (simp add: assembly_confidence_def analyze_fields cx)
  qed
qed

text \<open>
  The blueprint planned for any cognitive state is consistent: its tasks have
  distinct identifiers, the dependencies link each task to the next, the priority
  ordering lists every task after those it depends on, the milestone covers all
  tasks, the required capabilities are those of the analysis, there is a risk
  entry, and all seven stages complete.  For an analysed request the confidence
  is 0.35 or 0.65.  A missing goal is recorded as seven unknown objectives, the
  letters of the word.  With other stages the engine keeps one trace entry per
  stage and the blueprint from before a stage that raises.
\<close>

theorem blueprint_consistent:
  "let b = plan meta cs; ids = map pk_identifier (bp_task_graph b) in
   distinct ids \<and> bp_priority_ordering b = ids \<and> map mi_tasks (bp_milestones b) = [ids]
   \<and> map (\<lambda>e. (de_source e, de_target e)) (bp_dependency_graph b) = zip ids (tl ids)
   \<and> bp_capabilities b = cs_capabilities cs \<and> bp_risks b \<noteq> []
   \<and> map pe_status (bp_trace b) = replicate 7 ''COMPLETED''
   \<and> bp_confidence (plan meta (analyze r m)) \<in> {35, 65}
   \<and> map_option eo_unknown_objectives (bp_objective b) =
        Some (if or_str (cs_normalized_goal cs) ''Unknown objective'' = ''Unknown objective''
              then [''u'', ''n'', ''k'', ''n'', ''o'', ''w'', ''n''] else [])
   \<and> map pe_stage_name (bp_trace (plan_with sts meta cs)) = map fst sts
   \<and> bp_task_graph (plan_with sts meta cs) = bp_task_graph (fold (stage_effect cs) sts (empty_blueprint meta cs))"
  using run_stages [of cs sts "empty_blueprint meta cs" "[]"] analyzed_confidence [of r m] plan_fields(9) [of meta cs]
  unfolding Let_def plan_fields plan_trace plan_with_def split_beta by simp

end
