(* ===== verification/Governance.thy ===== *)
theory Governance
  imports Prelude
begin

text \<open>
  The governance layer of Runtime V2 (\<open>runtime/governance.py\<close>): policy, approval,
  compliance and guard checks over a chat payload, combined into one decision,
  and the call that enforces it (\<open>enforce_governance\<close> in \<open>runtime/runtimes.py\<close>).
  Temperatures are in hundredths.  The audit log and the diagnostics registry
  receive the report and are left out, as are time stamps.
\<close>

section \<open>Requests\<close>

text \<open>One record for the five request schemas; a field the schema lacks is read with its default.\<close>

datatype payload_kind = ChatCreate | ChatContinue | ChatRegenerate | ChatRetry | ChatStream

record chat_payload =
  pl_kind :: payload_kind
  pl_message :: string
  pl_provider :: "string option"
  pl_model :: "string option"
  pl_temperature :: "int option"
  pl_top_p :: "int option"
  pl_max_tokens :: "int option"
  pl_runtime_version :: string
  pl_tool_choice :: "string option"
  pl_agent_id :: "int option"

record gov_user =
  gu_id :: int
  gu_is_active :: bool
  gu_is_superuser :: bool

record gov_organization =
  gv_id :: int
  gv_is_active :: bool
  gv_requires_approval :: bool

section \<open>Results\<close>

datatype approval_state = AUTO | MANUAL | CONDITIONAL | ORGANIZATION

definition approval_value :: "approval_state \<Rightarrow> string" where
  "approval_value s = (case s of AUTO \<Rightarrow> ''auto'' | MANUAL \<Rightarrow> ''manual'' | CONDITIONAL \<Rightarrow> ''conditional''
     | ORGANIZATION \<Rightarrow> ''organization'')"

record policy_result =
  po_allowed :: bool
  po_reason :: string
  po_policy_name :: string
  po_policy_type :: string

record approval_result =
  ap_state :: approval_state
  ap_approved :: bool
  ap_reason :: string
  ap_approver :: string

record compliance_result =
  cm_compliant :: bool
  cm_reason :: string
  cm_checks :: "string list"

record guard_result =
  gd_allowed :: bool
  gd_reason :: string
  gd_blocked :: "string list"
  gd_warnings :: "string list"

record governance_report =
  gr_policy :: policy_result
  gr_approval :: approval_result
  gr_compliance :: compliance_result
  gr_guard :: guard_result
  gr_allowed :: bool
  gr_reason :: string
  gr_trace :: "(string \<times> string \<times> string) list"

section \<open>Checks\<close>

record policy_config =
  pf_allowed_providers :: "string list"
  pf_allowed_tools :: "string list"
  pf_cost_limit :: "int option"
  pf_execution_limit :: "int option"

definition default_config :: policy_config where
  "default_config = \<lparr>pf_allowed_providers = [], pf_allowed_tools = [], pf_cost_limit = None, pf_execution_limit = None\<rparr>"

definition restricted :: "string list \<Rightarrow> string option \<Rightarrow> bool" where
  "restricted allowed choice =
     (allowed \<noteq> [] \<and> (case choice of None \<Rightarrow> False | Some c \<Rightarrow> c \<noteq> [] \<and> c \<notin> set allowed))"

definition over_limit :: "int option \<Rightarrow> chat_payload \<Rightarrow> bool" where
  "over_limit lmt p = (case lmt of None \<Rightarrow> False | Some l \<Rightarrow> or_int (pl_max_tokens p) 0 > l)"

definition in_quotes :: "string option \<Rightarrow> string" where
  "in_quotes s = [CHR 0x27] @ or_str s [] @ [CHR 0x27]"

definition policy_evaluate :: "policy_config \<Rightarrow> chat_payload \<Rightarrow> policy_result" where
  "policy_evaluate cfg p =
     (if restricted (pf_allowed_providers cfg) (pl_provider p)
      then \<lparr>po_allowed = False, po_reason = ''Provider '' @ in_quotes (pl_provider p) @ '' is restricted.'',
            po_policy_name = ''provider_restriction'', po_policy_type = ''provider''\<rparr>
      else if restricted (pf_allowed_tools cfg) (pl_tool_choice p)
      then \<lparr>po_allowed = False, po_reason = ''Tool '' @ in_quotes (pl_tool_choice p) @ '' is restricted.'',
            po_policy_name = ''tool_restriction'', po_policy_type = ''tool''\<rparr>
      else if over_limit (pf_cost_limit cfg) p
      then \<lparr>po_allowed = False, po_reason = ''Requested execution exceeds configured cost limit.'',
            po_policy_name = ''cost_limit'', po_policy_type = ''cost''\<rparr>
      else if over_limit (pf_execution_limit cfg) p
      then \<lparr>po_allowed = False, po_reason = ''Requested execution exceeds configured execution limit.'',
            po_policy_name = ''execution_limit'', po_policy_type = ''execution''\<rparr>
      else \<lparr>po_allowed = True, po_reason = ''Policy evaluation passed.'',
            po_policy_name = ''default_allow'', po_policy_type = ''default''\<rparr>)"

definition approval_decide :: "policy_result \<Rightarrow> gov_user \<Rightarrow> gov_organization option \<Rightarrow> chat_payload \<Rightarrow> approval_result" where
  "approval_decide pol u org p =
     (if \<not> po_allowed pol
      then \<lparr>ap_state = MANUAL, ap_approved = False, ap_reason = po_reason pol, ap_approver = ''governance''\<rparr>
      else if gu_is_superuser u
      then \<lparr>ap_state = AUTO, ap_approved = True, ap_reason = ''Superuser auto-approved.'', ap_approver = ''system''\<rparr>
      else if (case org of None \<Rightarrow> False | Some g \<Rightarrow> gv_requires_approval g)
      then \<lparr>ap_state = ORGANIZATION, ap_approved = True, ap_reason = ''Organization approval granted by policy.'',
            ap_approver = ''organization''\<rparr>
      else if (case pl_temperature p of None \<Rightarrow> False | Some t \<Rightarrow> t > 150)
      then \<lparr>ap_state = CONDITIONAL, ap_approved = False, ap_reason = ''High-risk request requires manual approval.'',
            ap_approver = ''governance''\<rparr>
      else \<lparr>ap_state = AUTO, ap_approved = True, ap_reason = ''Approved automatically.'', ap_approver = ''system''\<rparr>)"

definition compliance_validate :: "gov_user \<Rightarrow> gov_organization option \<Rightarrow> chat_payload \<Rightarrow> compliance_result" where
  "compliance_validate u org p =
     (if \<not> gu_is_active u
      then \<lparr>cm_compliant = False, cm_reason = ''Inactive users cannot execute runtime requests.'', cm_checks = []\<rparr>
      else case org of
        None \<Rightarrow> \<lparr>cm_compliant = False, cm_reason = ''Organization context is required.'', cm_checks = [''active_user'']\<rparr>
      | Some g \<Rightarrow>
          if \<not> gv_is_active g
          then \<lparr>cm_compliant = False, cm_reason = ''Organization is inactive.'',
                cm_checks = [''active_user'', ''organization_context'']\<rparr>
          else if pl_runtime_version p = ''AgentCorp V1''
          then \<lparr>cm_compliant = True, cm_reason = ''V1 requests are allowed and bypass V2 governance.'',
                cm_checks = [''active_user'', ''organization_context'', ''active_organization'']\<rparr>
          else \<lparr>cm_compliant = True, cm_reason = ''Compliance validation passed.'',
                cm_checks = [''active_user'', ''organization_context'', ''active_organization'', ''runtime_version'']\<rparr>)"

definition forbidden_choice :: "string option \<Rightarrow> bool" where
  "forbidden_choice c = (c = Some ''forbidden'' \<or> c = Some ''blocked'')"

definition guard_validate :: "policy_result \<Rightarrow> approval_result \<Rightarrow> compliance_result \<Rightarrow> chat_payload \<Rightarrow> guard_result" where
  "guard_validate pol appr cmpl p =
     (let blocked =
        (if po_allowed pol then [] else [''policy'']) @ (if ap_approved appr then [] else [''approval'']) @
        (if cm_compliant cmpl then [] else [''compliance'']) @
        (if forbidden_choice (pl_provider p) then [''provider''] else []) @
        (if forbidden_choice (pl_tool_choice p) then [''tool''] else []) @
        (if pl_runtime_version p \<in> {''AgentCorp V1'', ''AgentCorp V2''} then [] else [''runtime_version''])
      in \<lparr>gd_allowed = (blocked = []),
          gd_reason = (if blocked = [] then ''Execution guard passed.'' else ''Execution blocked by governance guard.''),
          gd_blocked = blocked, gd_warnings = []\<rparr>)"

definition govern :: "policy_config \<Rightarrow> gov_user \<Rightarrow> gov_organization option \<Rightarrow> chat_payload \<Rightarrow> governance_report" where
  "govern cfg u org p =
     (let pol = policy_evaluate cfg p;
          appr = approval_decide pol u org p;
          cmpl = compliance_validate u org p;
          grd = guard_validate pol appr cmpl p;
          ok = po_allowed pol \<and> ap_approved appr \<and> cm_compliant cmpl \<and> gd_allowed grd;
          reason = (if ok then ''Governance approved execution.'' else ''Governance blocked execution.'')
      in \<lparr>gr_policy = pol, gr_approval = appr, gr_compliance = cmpl, gr_guard = grd, gr_allowed = ok, gr_reason = reason,
          gr_trace = [(''Governance Started'', ''COMPLETED'', ''Governance analysis started.''),
                      (''Policy Validation'', ''COMPLETED'', po_reason pol),
                      (''Approval Validation'', ''COMPLETED'', ap_reason appr),
                      (''Compliance Validation'', ''COMPLETED'', cm_reason cmpl),
                      (''Execution Guard'', ''COMPLETED'', gd_reason grd),
                      (''Governance Completed'', ''COMPLETED'', reason)]\<rparr>)"

text \<open>The runtime governs with the default policy and an organization it makes up: active, no approval required.\<close>

definition enforce_governance :: "gov_user \<Rightarrow> int \<Rightarrow> chat_payload \<Rightarrow> (string, governance_report) result" where
  "enforce_governance u organization_id p =
     (let rep = govern default_config u
            (Some \<lparr>gv_id = organization_id, gv_is_active = True, gv_requires_approval = False\<rparr>) p
      in if gr_allowed rep then Ok rep else Err (gr_reason rep))"

section \<open>What the decision means\<close>

lemma policy_allowed_iff:
  "po_allowed (policy_evaluate cfg p) \<longleftrightarrow>
   \<not> restricted (pf_allowed_providers cfg) (pl_provider p) \<and> \<not> restricted (pf_allowed_tools cfg) (pl_tool_choice p)
   \<and> \<not> over_limit (pf_cost_limit cfg) p \<and> \<not> over_limit (pf_execution_limit cfg) p"
  by (simp add: policy_evaluate_def)

lemma approved_iff:
  "ap_approved (approval_decide pol u org p) \<longleftrightarrow>
   po_allowed pol \<and> (gu_is_superuser u \<or> (\<exists>g. org = Some g \<and> gv_requires_approval g)
     \<or> (\<forall>t. pl_temperature p = Some t \<longrightarrow> t \<le> 150))"
  by (cases org; cases "pl_temperature p") (auto simp: approval_decide_def)

lemma compliant_iff:
  "cm_compliant (compliance_validate u org p) \<longleftrightarrow> gu_is_active u \<and> (\<exists>g. org = Some g \<and> gv_is_active g)"
  by (cases org) (auto simp: compliance_validate_def)

lemma guard_allowed_iff:
  "gd_allowed (guard_validate pol appr cmpl p) \<longleftrightarrow>
   po_allowed pol \<and> ap_approved appr \<and> cm_compliant cmpl \<and> \<not> forbidden_choice (pl_provider p)
   \<and> \<not> forbidden_choice (pl_tool_choice p) \<and> pl_runtime_version p \<in> {''AgentCorp V1'', ''AgentCorp V2''}"
  by (simp add: guard_validate_def Let_def)

lemma govern_sel:
  "gr_policy (govern cfg u org p) = policy_evaluate cfg p"
  "gr_allowed (govern cfg u org p) = gd_allowed (gr_guard (govern cfg u org p))"
  "gr_guard (govern cfg u org p) = guard_validate (policy_evaluate cfg p) (approval_decide (policy_evaluate cfg p) u org p)
      (compliance_validate u org p) p"
  "map fst (gr_trace (govern cfg u org p)) = [''Governance Started'', ''Policy Validation'', ''Approval Validation'',
      ''Compliance Validation'', ''Execution Guard'', ''Governance Completed'']"
  using guard_allowed_iff by (auto simp: govern_def Let_def)

text \<open>
  C30: the governance decision, exactly: a request is allowed when neither its
  provider nor its tool is outside a configured list, it stays within the token
  limits, the user is active, the organization exists and is active, the
  temperature is at most 1.5 unless the user is a superuser or the organization
  requires approval, provider and tool are not the forbidden names, and the
  runtime version is one of the two.  The runtime's own call allows exactly the
  active users' requests of that kind: it governs with an empty configuration
  and an organization that is always active.
\<close>

theorem governance_decision_exact:
  "(gr_allowed (govern cfg u org p) \<longleftrightarrow>
      \<not> restricted (pf_allowed_providers cfg) (pl_provider p) \<and> \<not> restricted (pf_allowed_tools cfg) (pl_tool_choice p)
      \<and> \<not> over_limit (pf_cost_limit cfg) p \<and> \<not> over_limit (pf_execution_limit cfg) p
      \<and> gu_is_active u \<and> (\<exists>g. org = Some g \<and> gv_is_active g
          \<and> (gu_is_superuser u \<or> gv_requires_approval g \<or> pl_temperature p = None \<or> the (pl_temperature p) \<le> 150))
      \<and> \<not> forbidden_choice (pl_provider p) \<and> \<not> forbidden_choice (pl_tool_choice p)
      \<and> pl_runtime_version p \<in> {''AgentCorp V1'', ''AgentCorp V2''})
   \<and> (is_ok (enforce_governance u organization_id p) \<longleftrightarrow>
      gu_is_active u \<and> (gu_is_superuser u \<or> pl_temperature p = None \<or> the (pl_temperature p) \<le> 150)
      \<and> \<not> forbidden_choice (pl_provider p) \<and> \<not> forbidden_choice (pl_tool_choice p)
      \<and> pl_runtime_version p \<in> {''AgentCorp V1'', ''AgentCorp V2''})"
proof -
  have gov: "gr_allowed (govern cfg u org p) \<longleftrightarrow>
      \<not> restricted (pf_allowed_providers cfg) (pl_provider p) \<and> \<not> restricted (pf_allowed_tools cfg) (pl_tool_choice p)
      \<and> \<not> over_limit (pf_cost_limit cfg) p \<and> \<not> over_limit (pf_execution_limit cfg) p
      \<and> gu_is_active u \<and> (\<exists>g. org = Some g \<and> gv_is_active g
          \<and> (gu_is_superuser u \<or> gv_requires_approval g \<or> pl_temperature p = None \<or> the (pl_temperature p) \<le> 150))
      \<and> \<not> forbidden_choice (pl_provider p) \<and> \<not> forbidden_choice (pl_tool_choice p)
      \<and> pl_runtime_version p \<in> {''AgentCorp V1'', ''AgentCorp V2''}" for cfg org
    unfolding govern_sel(2,3) guard_allowed_iff policy_allowed_iff approved_iff compliant_iff
    by (cases org; cases "pl_temperature p") auto
  have "is_ok (enforce_governance u organization_id p) \<longleftrightarrow> gr_allowed (govern default_config u
      (Some \<lparr>gv_id = organization_id, gv_is_active = True, gv_requires_approval = False\<rparr>) p)"
    by (simp add: enforce_governance_def Let_def)
  with gov show ?thesis by (simp add: default_config_def restricted_def over_limit_def)
qed

end
