(* ===== verification/Providers.thy ===== *)
theory Providers
  imports Prelude
begin

text \<open>
  AI providers: the registry of provider classes (\<open>providers/registry.py\<close>), the
  manager that caches instances and orders them for failover
  (\<open>providers/manager.py\<close>), and the service that tries one after the other
  (\<open>services/provider_service.py\<close>).

  A provider class is its name and its capability flags; an instance is its
  class.  What the remote provider answers is a parameter, a function of the
  class, the request and a state \<open>'e\<close> of the outside world; it answers or raises
  with a text.  Temperatures and top-p values are in hundredths.
\<close>

section \<open>Registry\<close>

record provider_class =
  pc_class_name :: string
  pc_supports_tools :: bool
  pc_supports_streaming :: bool
  pc_supports_embeddings :: bool

record provider_settings =
  GROQ_API_KEY :: string
  GEMINI_API_KEY :: string
  OPENAI_API_KEY :: string
  ANTHROPIC_API_KEY :: string
  OPENROUTER_API_KEY :: string
  OLLAMA_BASE_URL :: string

record 'e provider_state =
  pr_registry :: "(string, provider_class) dict"
  pr_instances :: "(string, provider_class) dict"
  pr_settings :: provider_settings
  pr_world :: 'e

datatype provider_error =
    ProviderNotFoundError string
  | ProviderConfigurationError string
  | ProviderError string

fun error_text :: "provider_error \<Rightarrow> string" where
  "error_text (ProviderNotFoundError m) = m"
| "error_text (ProviderConfigurationError m) = m"
| "error_text (ProviderError m) = m"

definition quoted :: "string \<Rightarrow> string" where
  "quoted s = [CHR 0x27] @ s @ [CHR 0x27]"

definition register_provider :: "string \<Rightarrow> provider_class \<Rightarrow> 'e provider_state \<Rightarrow> 'e provider_state" where
  "register_provider name cls st = st\<lparr>pr_registry := dict_set (pr_registry st) (py_lower name) cls\<rparr>"

definition registry_get :: "string \<Rightarrow> 'e provider_state \<Rightarrow> (provider_error, provider_class) result" where
  "registry_get name st =
     (case dict_get (pr_registry st) (py_lower name) of
        None \<Rightarrow> Err (ProviderNotFoundError (''AI Provider '' @ quoted name @ '' is not registered or supported.''))
      | Some cls \<Rightarrow> Ok cls)"

definition registry_exists :: "string \<Rightarrow> 'e provider_state \<Rightarrow> bool" where
  "registry_exists name st = (dict_get (pr_registry st) (py_lower name) \<noteq> None)"

definition unregister_provider :: "string \<Rightarrow> 'e provider_state \<Rightarrow> 'e provider_state" where
  "unregister_provider name st = st\<lparr>pr_registry := dict_del (pr_registry st) (py_lower name)\<rparr>"

definition list_registered :: "'e provider_state \<Rightarrow> string list" where
  "list_registered st = dict_keys (pr_registry st)"

section \<open>Manager\<close>

definition priority_order :: "string list" where
  "priority_order = [''groq'', ''gemini'', ''openrouter'', ''openai'', ''anthropic'', ''ollama'']"

definition is_configured :: "string \<Rightarrow> 'e provider_state \<Rightarrow> bool" where
  "is_configured name st =
     (let n = py_lower name; s = pr_settings st in
      if n = ''groq'' then GROQ_API_KEY s \<noteq> []
      else if n = ''gemini'' then GEMINI_API_KEY s \<noteq> []
      else if n = ''openai'' then OPENAI_API_KEY s \<noteq> []
      else if n = ''anthropic'' then ANTHROPIC_API_KEY s \<noteq> []
      else if n = ''openrouter'' then OPENROUTER_API_KEY s \<noteq> []
      else if n = ''ollama'' then OLLAMA_BASE_URL s \<noteq> []
      else False)"

definition get_provider :: "string \<Rightarrow> 'e provider_state \<Rightarrow> (provider_error, provider_class) result \<times> 'e provider_state" where
  "get_provider name st =
     (let n = py_lower name in
      if \<not> registry_exists n st
        then (Err (ProviderNotFoundError (''AI Provider '' @ quoted name @ '' is not registered.'')), st)
      else if \<not> is_configured n st
        then (Err (ProviderConfigurationError (''AI Provider '' @ quoted name @ '' is not configured (missing credentials).'')), st)
      else
        (case dict_get (pr_instances st) n of
           Some p \<Rightarrow> (Ok p, st)
         | None \<Rightarrow>
             (case registry_get n st of
                Inl e \<Rightarrow> (Err e, st)
              | Inr cls \<Rightarrow> (Ok cls, st\<lparr>pr_instances := dict_set (pr_instances st) n cls\<rparr>))))"

definition get_configured_providers :: "'e provider_state \<Rightarrow> string list" where
  "get_configured_providers st = filter (\<lambda>n. is_configured n st) (list_registered st)"

definition append_new :: "(string \<Rightarrow> bool) \<Rightarrow> string list \<Rightarrow> string list \<Rightarrow> string list" where
  "append_new P names order = fold (\<lambda>n ord. if P n \<and> n \<notin> set ord then ord @ [n] else ord) names order"

definition get_failover_order :: "string option \<Rightarrow> 'e provider_state \<Rightarrow> string list" where
  "get_failover_order preferred st =
     (let configured = get_configured_providers st in
      if configured = [] then []
      else
        (let first = (case preferred of
               Some p \<Rightarrow> if p \<noteq> [] \<and> py_lower p \<in> set configured then [py_lower p] else [] | None \<Rightarrow> [])
         in append_new (\<lambda>_. True) configured (append_new (\<lambda>n. n \<in> set configured) priority_order first)))"

text \<open>Closing never fails: an exception of one provider is logged and the others are closed.\<close>

definition close_all :: "(provider_class \<Rightarrow> 'e \<Rightarrow> (string, unit) result \<times> 'e) \<Rightarrow> 'e provider_state \<Rightarrow> 'e provider_state" where
  "close_all close st =
     st\<lparr>pr_world := fold (\<lambda>(_, p) e. snd (close p e)) (pr_instances st) (pr_world st), pr_instances := []\<rparr>"

section \<open>Service\<close>

record chat_message =
  mg_role :: string
  mg_content :: string
  mg_name :: "string option"
  mg_tool_call_id :: "string option"

record tool_param =
  tp_type :: string
  tp_description :: "string option"
  tp_enum :: "string list option"

record tool_definition =
  tf_name :: string
  tf_description :: string
  tf_parameters :: "(string, tool_param) dict"
  tf_required :: "string list"

record chat_request =
  cq_model :: string
  cq_messages :: "chat_message list"
  cq_temperature :: int
  cq_max_tokens :: "int option"
  cq_top_p :: "int option"
  cq_tools :: "tool_definition list"

type_synonym ('e, 'q, 'r) remote = "provider_class \<Rightarrow> 'q \<Rightarrow> 'e \<Rightarrow> (string, 'r) result \<times> 'e"

definition call_remote :: "('e, 'q, 'r) remote \<Rightarrow> provider_class \<Rightarrow> 'q \<Rightarrow> 'e provider_state \<Rightarrow> (string, 'r) result \<times> 'e provider_state" where
  "call_remote remote p q st = (let (r, e) = remote p q (pr_world st) in (r, st\<lparr>pr_world := e\<rparr>))"

fun chat_loop ::
  "('e, chat_request, 'r) remote \<Rightarrow> chat_request \<Rightarrow> string list \<Rightarrow> string list \<Rightarrow> 'e provider_state
   \<Rightarrow> (string list, 'r) result \<times> 'e provider_state" where
  "chat_loop remote q [] errors st = (Err errors, st)"
| "chat_loop remote q (n # ns) errors st =
     (case get_provider n st of
        (Inl e, st1) \<Rightarrow> chat_loop remote q ns (errors @ [n @ '': '' @ error_text e]) st1
      | (Inr p, st1) \<Rightarrow>
          if cq_tools q \<noteq> [] \<and> \<not> pc_supports_tools p then chat_loop remote q ns errors st1
          else
            (case call_remote remote p q st1 of
               (Inr r, st2) \<Rightarrow> (Ok r, st2)
             | (Inl exc, st2) \<Rightarrow> chat_loop remote q ns (errors @ [n @ '': '' @ exc]) st2))"

fun embeddings_loop ::
  "('e, 'q, 'r) remote \<Rightarrow> 'q \<Rightarrow> string list \<Rightarrow> string list \<Rightarrow> 'e provider_state
   \<Rightarrow> (string list, 'r) result \<times> 'e provider_state" where
  "embeddings_loop remote q [] errors st = (Err errors, st)"
| "embeddings_loop remote q (n # ns) errors st =
     (case get_provider n st of
        (Inl e, st1) \<Rightarrow> embeddings_loop remote q ns (errors @ [n @ '': '' @ error_text e]) st1
      | (Inr p, st1) \<Rightarrow>
          if \<not> pc_supports_embeddings p then embeddings_loop remote q ns errors st1
          else
            (case call_remote remote p q st1 of
               (Inr r, st2) \<Rightarrow> (Ok r, st2)
             | (Inl exc, st2) \<Rightarrow> embeddings_loop remote q ns (errors @ [n @ '': '' @ exc]) st2))"

definition call_manual :: "('e, 'q, 'r) remote \<Rightarrow> 'q \<Rightarrow> string \<Rightarrow> 'e provider_state \<Rightarrow> (provider_error, 'r) result \<times> 'e provider_state" where
  "call_manual remote q name st =
     (case get_provider name st of
        (Inl e, st1) \<Rightarrow> (Err e, st1)
      | (Inr p, st1) \<Rightarrow>
          (case call_remote remote p q st1 of
             (Inl exc, st2) \<Rightarrow> (Err (ProviderError exc), st2)
           | (Inr r, st2) \<Rightarrow> (Ok r, st2)))"

definition none_configured :: provider_error where
  "none_configured = ProviderConfigurationError ''No AI Providers are configured and available in the system.''"

definition all_failed :: "string \<Rightarrow> string list \<Rightarrow> provider_error" where
  "all_failed what errors =
     ProviderError (''All configured providers failed to execute '' @ what @ '' request. Errors: '' @ py_join ''; '' errors)"

definition chat ::
  "('e, chat_request, 'r) remote \<Rightarrow> string \<Rightarrow> chat_request \<Rightarrow> string option \<Rightarrow> string \<Rightarrow> 'e provider_state
   \<Rightarrow> (provider_error, 'r) result \<times> 'e provider_state" where
  "chat remote default_provider q provider_name mode st =
     (let preferred = or_str provider_name default_provider in
      if mode = ''MANUAL'' then call_manual remote q preferred st
      else
        (let names = get_failover_order (Some preferred) st in
         if names = [] then (Err none_configured, st)
         else
           (case chat_loop remote q names [] st of
              (Inr r, st') \<Rightarrow> (Ok r, st')
            | (Inl errors, st') \<Rightarrow>
                (Err (all_failed ''chat'' errors), st'))))"

definition embeddings ::
  "('e, 'q, 'r) remote \<Rightarrow> string \<Rightarrow> 'q \<Rightarrow> string option \<Rightarrow> string \<Rightarrow> 'e provider_state
   \<Rightarrow> (provider_error, 'r) result \<times> 'e provider_state" where
  "embeddings remote default_provider q provider_name mode st =
     (let preferred = or_str provider_name default_provider in
      if mode = ''MANUAL'' then call_manual remote q preferred st
      else
        (let names = get_failover_order (Some preferred) st in
         if names = [] then (Err none_configured, st)
         else
           (case embeddings_loop remote q names [] st of
              (Inr r, st') \<Rightarrow> (Ok r, st')
            | (Inl errors, st') \<Rightarrow>
                (Err (all_failed ''embeddings'' errors), st'))))"

definition health_check :: "(provider_class \<Rightarrow> 'e \<Rightarrow> (string, bool) result \<times> 'e) \<Rightarrow> string \<Rightarrow> string option \<Rightarrow> 'e provider_state
    \<Rightarrow> bool \<times> 'e provider_state" where
  "health_check probe default_provider provider_name st =
     (case get_provider (or_str provider_name default_provider) st of
        (Inl _, st1) \<Rightarrow> (False, st1)
      | (Inr p, st1) \<Rightarrow>
          (case probe p (pr_world st1) of
             (Inl _, e) \<Rightarrow> (False, st1\<lparr>pr_world := e\<rparr>)
           | (Inr ok, e) \<Rightarrow> (ok, st1\<lparr>pr_world := e\<rparr>)))"

definition list_models :: "(provider_class \<Rightarrow> 'e \<Rightarrow> (string, string list) result \<times> 'e) \<Rightarrow> string \<Rightarrow> string option \<Rightarrow> 'e provider_state
    \<Rightarrow> (provider_error, string list) result \<times> 'e provider_state" where
  "list_models models default_provider provider_name st =
     call_manual (\<lambda>p _. models p) () (or_str provider_name default_provider) st"

text \<open>Streaming resolves its provider once; the chunks it then yields are the provider's own.\<close>

definition stream_chat :: "('e, chat_request, 'r) remote \<Rightarrow> string \<Rightarrow> chat_request \<Rightarrow> string option \<Rightarrow> 'e provider_state
    \<Rightarrow> (provider_error, 'r) result \<times> 'e provider_state" where
  "stream_chat remote default_provider q provider_name st =
     (let resolved = or_str provider_name default_provider in
      if get_configured_providers st = [] then (Err none_configured, st)
      else
        (case get_provider resolved st of
           (Inl e, st1) \<Rightarrow> (Err e, st1)
         | (Inr p, st1) \<Rightarrow>
             if \<not> pc_supports_streaming p
             then (Err (ProviderConfigurationError (''Provider '' @ quoted resolved @ '' does not support streaming.'')), st1)
             else call_manual remote q resolved st1))"

section \<open>The failover order\<close>

definition registry_wf :: "'e provider_state \<Rightarrow> bool" where
  "registry_wf st = (distinct (list_registered st) \<and> list_all (\<lambda>n. py_lower n = n) (list_registered st))"

lemma registry_wf_register: "registry_wf st \<Longrightarrow> registry_wf (register_provider name cls st)"
  and registry_wf_unregister: "registry_wf st \<Longrightarrow> registry_wf (unregister_provider name st)"
  by (auto simp: registry_wf_def list_registered_def register_provider_def unregister_provider_def list_all_iff
      dict_keys_set dict_keys_del)

lemma append_new_filter:
  "distinct names \<Longrightarrow> append_new P names order = order @ filter (\<lambda>n. P n \<and> n \<notin> set order) names"
proof (induction names arbitrary: order)
  case (Cons n names)
  have "append_new P (n # names) order = append_new P names (if P n \<and> n \<notin> set order then order @ [n] else order)"
    by (simp add: append_new_def)
  also have "\<dots> = order @ filter (\<lambda>n. P n \<and> n \<notin> set order) (n # names)"
    using Cons by (auto intro: filter_cong)
  finally show ?case .
qed (simp add: append_new_def)

lemma configured_priority: "is_configured n st \<Longrightarrow> py_lower n \<in> set priority_order"
  by (auto simp: is_configured_def priority_order_def Let_def split: if_splits)

lemma configured_subset:
  assumes "registry_wf st" shows "set (get_configured_providers st) \<subseteq> set priority_order"
proof
  fix n assume "n \<in> set (get_configured_providers st)"
  then have "py_lower n = n" "is_configured n st"
    using assms by (auto simp: get_configured_providers_def registry_wf_def list_all_iff)
  then show "n \<in> set priority_order" using configured_priority [of n st] by simp
qed

lemma configured_resolves:
  assumes "registry_wf st" and "n \<in> set (get_configured_providers st)"
  shows "is_ok (fst (get_provider n st))"
proof -
  have n: "py_lower n = n" "is_configured n st" "n \<in> fst ` set (pr_registry st)"
    using assms by (auto simp: get_configured_providers_def registry_wf_def list_all_iff list_registered_def)
  then have "dict_get (pr_registry st) n \<noteq> None" by (simp add: dict_get_None_iff)
  with n show ?thesis
    by (auto simp: get_provider_def registry_exists_def registry_get_def Let_def split: option.split)
qed

text \<open>
  The failover order is the preferred provider, when it is registered and
  configured, followed by the other registered and configured providers in
  priority order; nothing is repeated or left out, and each of them can be
  instantiated.  Registering and unregistering keep the registry's keys unique
  and in lower case, which this rests on.
\<close>

theorem failover_order_exact:
  assumes wf: "registry_wf st"
  shows "let order = get_failover_order p st; configured = set (get_configured_providers st);
       first = (case p of Some n \<Rightarrow> if n \<noteq> [] \<and> py_lower n \<in> configured then [py_lower n] else [] | None \<Rightarrow> [])
     in order = first @ filter (\<lambda>n. n \<in> configured \<and> n \<notin> set first) priority_order
      \<and> distinct order \<and> set order = configured \<and> list_all (\<lambda>n. is_ok (fst (get_provider n st))) order
      \<and> registry_wf (register_provider name cls st) \<and> registry_wf (unregister_provider name st)"
proof -
  let ?c = "get_configured_providers st"
  define first where "first = (case p of Some n \<Rightarrow> if n \<noteq> [] \<and> py_lower n \<in> set ?c then [py_lower n] else [] | None \<Rightarrow> [])"
  have f: "distinct first" "set first \<subseteq> set ?c" by (auto simp: first_def split: option.split)
  have d: "distinct ?c" "distinct priority_order"
    using wf by (simp_all add: get_configured_providers_def registry_wf_def priority_order_def)
  let ?o = "first @ filter (\<lambda>n. n \<in> set ?c \<and> n \<notin> set first) priority_order"
  have all: "set ?o = set ?c" using configured_subset [OF wf] f by auto
  have "get_failover_order p st = ?o"
  proof (cases "?c = []")
    case True
    with f show ?thesis by (simp add: get_failover_order_def)
  next
    case False
    have "append_new (\<lambda>_. True) ?c ?o = ?o"
      using all by (simp only: append_new_filter [OF d(1)]) simp
    with False show ?thesis
      by (simp add: get_failover_order_def Let_def first_def [symmetric] append_new_filter [OF d(2)])
  qed
  moreover have "distinct ?o" using f d by auto
  moreover have "list_all (\<lambda>n. is_ok (fst (get_provider n st))) ?o"
    unfolding list_all_iff all using configured_resolves [OF wf] by blast
  ultimately show ?thesis unfolding Let_def first_def [symmetric]
    using all registry_wf_register [OF wf] registry_wf_unregister [OF wf] by (simp only: simp_thms)
qed

definition demo_providers :: "nat provider_state" where
  "demo_providers =
     \<lparr>pr_registry = [(''groq'', \<lparr>pc_class_name = ''GroqProvider'', pc_supports_tools = True, pc_supports_streaming = True, pc_supports_embeddings = False\<rparr>),
                     (''openai'', \<lparr>pc_class_name = ''OpenAIProvider'', pc_supports_tools = True, pc_supports_streaming = True, pc_supports_embeddings = True\<rparr>),
                     (''ollama'', \<lparr>pc_class_name = ''OllamaProvider'', pc_supports_tools = False, pc_supports_streaming = True, pc_supports_embeddings = True\<rparr>)],
      pr_instances = [],
      pr_settings = \<lparr>GROQ_API_KEY = ''k'', GEMINI_API_KEY = [], OPENAI_API_KEY = [], ANTHROPIC_API_KEY = [],
        OPENROUTER_API_KEY = [], OLLAMA_BASE_URL = ''u''\<rparr>,
      pr_world = 0\<rparr>"

theorem failover_order_exact_witness:
  "get_failover_order (Some ''Ollama'') demo_providers = [''ollama'', ''groq'']
   \<and> list_all (\<lambda>n. is_ok (fst (get_provider n demo_providers))) [''ollama'', ''groq'']"
proof -
  have "registry_wf demo_providers" by code_simp
  from failover_order_exact [OF this, of "Some ''Ollama''"]
  have "list_all (\<lambda>n. is_ok (fst (get_provider n demo_providers))) (get_failover_order (Some ''Ollama'') demo_providers)"
    unfolding Let_def by blast
  moreover have "get_failover_order (Some ''Ollama'') demo_providers = [''ollama'', ''groq'']" by code_simp
  ultimately show ?thesis by simp
qed

section \<open>Failover\<close>

text \<open>
  One attempt either answers (\<open>Inr\<close>), or does not (\<open>Inl\<close>): the provider raised, with an error to
  report, or it was skipped because it lacks the needed capability.  \<open>passed\<close> makes the attempts
  one after the other as long as none answers, and gives the outcome of each.
\<close>

datatype attempt_outcome = Raised string | Skipped

definition errors_of :: "attempt_outcome list \<Rightarrow> string list" where
  "errors_of outs = concat (map (\<lambda>out. case out of Raised e \<Rightarrow> [e] | Skipped \<Rightarrow> []) outs)"

type_synonym ('s, 'r) attempt = "string \<Rightarrow> 's \<Rightarrow> (attempt_outcome, 'r) result \<times> 's"

fun passed :: "('s, 'r) attempt \<Rightarrow> string list \<Rightarrow> 's \<Rightarrow> (attempt_outcome list \<times> 's) option" where
  "passed att [] s = Some ([], s)"
| "passed att (n # ns) s =
     (case att n s of
        (Inr _, _) \<Rightarrow> None
      | (Inl x, s1) \<Rightarrow>
          (case passed att ns s1 of
             None \<Rightarrow> None
           | Some (xs, s2) \<Rightarrow> Some (x # xs, s2)))"

lemma passed_length: "passed att ns s = Some (outs, s') \<Longrightarrow> length outs = length ns"
  by (induction ns arbitrary: s outs) (auto split: prod.splits sum.splits option.splits)

lemma split_at_Cons:
  "(\<exists>pre m post. n # ns = pre @ m # post \<and> Q pre m) \<longleftrightarrow>
   Q [] n \<or> (\<exists>pre m post. ns = pre @ m # post \<and> Q (n # pre) m)"
  by (auto simp: Cons_eq_append_conv)

locale failover_loop =
  fixes att :: "('s, 'r) attempt"
    and run :: "string list \<Rightarrow> string list \<Rightarrow> 's \<Rightarrow> (string list, 'r) result \<times> 's"
  assumes run_Nil: "run [] errs s = (Inl errs, s)"
    and run_Cons: "run (n # ns) errs s =
      (case att n s of
         (Inr r, s1) \<Rightarrow> (Inr r, s1)
       | (Inl x, s1) \<Rightarrow> run ns (errs @ errors_of [x]) s1)"
begin

lemma run_error_iff: "run ns errs s = (Inl xs, s') \<longleftrightarrow> (\<exists>outs. passed att ns s = Some (outs, s') \<and> xs = errs @ errors_of outs)"
proof (induction ns arbitrary: errs s)
  case (Cons n ns)
  obtain x s1 where a: "att n s = (x, s1)" by fastforce
  then show ?case
    by (cases x) (auto simp: run_Cons Cons.IH errors_of_def split: option.splits)
qed (auto simp: run_Nil errors_of_def)

lemma run_answer_iff:
  "run ns errs s = (Inr r, s') \<longleftrightarrow>
   (\<exists>pre n post. ns = pre @ n # post \<and> (\<exists>xs s1. passed att pre s = Some (xs, s1) \<and> att n s1 = (Inr r, s')))"
proof (induction ns arbitrary: errs s)
  case (Cons n ns)
  obtain x s1 where a: "att n s = (x, s1)" by fastforce
  show ?case unfolding split_at_Cons
    by (cases x) (auto simp: run_Cons a Cons.IH split: option.splits, force+)
qed (simp add: run_Nil)

end

definition attempt_with ::
  "(provider_class \<Rightarrow> bool) \<Rightarrow> ('e, 'q, 'r) remote \<Rightarrow> 'q \<Rightarrow> ('e provider_state, 'r) attempt" where
  "attempt_with capable remote q n st =
     (case get_provider n st of
        (Inl e, st1) \<Rightarrow> (Inl (Raised (n @ '': '' @ error_text e)), st1)
      | (Inr p, st1) \<Rightarrow>
          if \<not> capable p then (Inl Skipped, st1)
          else (case call_remote remote p q st1 of
                  (Inl exc, st2) \<Rightarrow> (Inl (Raised (n @ '': '' @ exc)), st2)
                | (Inr r, st2) \<Rightarrow> (Inr r, st2)))"

interpretation ch: failover_loop "attempt_with (\<lambda>p. cq_tools q = [] \<or> pc_supports_tools p) remote q" "chat_loop remote q"
  for remote q
  by unfold_locales (auto simp: attempt_with_def errors_of_def split: prod.split sum.split)

interpretation em: failover_loop "attempt_with pc_supports_embeddings remote q" "embeddings_loop remote q"
  for remote q
  by unfold_locales (auto simp: attempt_with_def errors_of_def split: prod.split sum.split)

text \<open>Which provider a name stands for does not change while the providers are asked.\<close>

lemma resolution_depends:
  assumes "pr_registry s' = pr_registry s" and "pr_settings s' = pr_settings s"
    and "dict_get (pr_instances s') (py_lower m) = dict_get (pr_instances s) (py_lower m)
       \<or> dict_get (pr_instances s) (py_lower m) = None
         \<and> registry_get (py_lower m) s = Ok cls \<and> dict_get (pr_instances s') (py_lower m) = Some cls"
  shows "fst (get_provider m s') = fst (get_provider m s)"
proof -
  have eqs: "registry_exists (py_lower m) s' = registry_exists (py_lower m) s" "is_configured (py_lower m) s' = is_configured (py_lower m) s"
    "registry_get (py_lower m) s' = registry_get (py_lower m) s"
    using assms by (simp_all add: registry_exists_def registry_get_def is_configured_def)
  from assms(3) show ?thesis
    unfolding get_provider_def Let_def eqs by (auto split: option.split sum.split)
qed

lemma get_provider_state:
  assumes "get_provider n s = (x, s')"
  shows "s' = s \<or> (\<exists>cls. s' = s\<lparr>pr_instances := dict_set (pr_instances s) (py_lower n) cls\<rparr>
     \<and> dict_get (pr_instances s) (py_lower n) = None \<and> registry_get (py_lower n) s = Ok cls)"
  using assms by (auto simp: get_provider_def Let_def split: if_splits option.splits sum.splits)

lemma resolution_stable:
  assumes "get_provider n s = (x, s')" shows "fst (get_provider m s') = fst (get_provider m s)"
proof -
  consider "s' = s" | cls where "s' = s\<lparr>pr_instances := dict_set (pr_instances s) (py_lower n) cls\<rparr>"
     "dict_get (pr_instances s) (py_lower n) = None" "registry_get (py_lower n) s = Ok cls"
    using get_provider_state [OF assms] by blast
  then show ?thesis
  proof cases
    case 2
    show ?thesis by (rule resolution_depends [of _ _ _ cls]) (use 2 in \<open>auto simp: dict_get_set\<close>)
  qed simp
qed

lemma resolution_world: "fst (get_provider m (st\<lparr>pr_world := e\<rparr>)) = fst (get_provider m st)"
  by (rule resolution_depends) simp_all

lemma attempt_resolution:
  assumes "attempt_with capable remote q n s = (x, s')"
  shows "fst (get_provider m s') = fst (get_provider m s)"
proof -
  obtain y s1 where g: "get_provider n s = (y, s1)" by fastforce
  have "s' = s1 \<or> (\<exists>e. s' = s1\<lparr>pr_world := e\<rparr>)"
    using assms g
    by (auto simp: attempt_with_def call_remote_def split: prod.splits sum.splits if_splits)
  then show ?thesis using resolution_stable [OF g, of m] by (auto simp: resolution_world)
qed

lemma attempt_skips:
  "attempt_with capable remote q n s = (Inl Skipped, s') \<longleftrightarrow>
   (\<exists>p. get_provider n s = (Inr p, s') \<and> \<not> capable p)"
  by (auto simp: attempt_with_def split: prod.split sum.split)

lemma passed_skipped:
  "passed (attempt_with capable remote q) ns s = Some (outs, s') \<Longrightarrow> i < length ns \<Longrightarrow>
   outs ! i = Skipped \<longleftrightarrow> (\<exists>p. fst (get_provider (ns ! i) s) = Ok p \<and> \<not> capable p)"
proof (induction ns arbitrary: s outs i)
  case (Cons n ns)
  let ?att = "attempt_with capable remote q"
  obtain x s1 where a: "?att n s = (x, s1)" by fastforce
  with Cons.prems obtain y xs where x: "x = Inl y" and p: "passed ?att ns s1 = Some (xs, s')" and outs: "outs = y # xs"
    by (auto split: sum.splits option.splits)
  show ?case
  proof (cases i)
    case 0
    have "y = Skipped \<longleftrightarrow> (\<exists>p. fst (get_provider n s) = Ok p \<and> \<not> capable p)"
      using a x by (auto simp: attempt_with_def split: prod.splits sum.splits if_splits)
    with 0 outs show ?thesis by simp
  next
    case (Suc j)
    have "fst (get_provider (ns ! j) s1) = fst (get_provider (ns ! j) s)"
      by (rule attempt_resolution [OF a])
    with Cons.IH [OF p, of j] Cons.prems(2) Suc outs show ?thesis by simp
  qed
qed simp

lemma append_new_distinct: "distinct order \<Longrightarrow> distinct (append_new P names order)"
  by (induction names arbitrary: order) (simp_all add: append_new_def)

lemma failover_order_distinct: "distinct (get_failover_order p st)"
  by (auto simp: get_failover_order_def Let_def intro!: append_new_distinct split: option.split)

text \<open>
  C33: outside MANUAL mode a chat or an embedding request asks the providers of the failover order one
  after the other, no provider twice, and is answered by the first that answers: every provider
  before it was skipped or raised, none after it is asked.  The request fails exactly when no
  provider is configured, or when each of them was asked and none answered; the error then lists the
  exceptions of those that raised, in order.  A provider is skipped exactly when it lacks the capability the
  request needs (tools, or embeddings); every other one that does not answer raised.
\<close>

theorem failover_first_answer:
  assumes "mode \<noteq> ''MANUAL''"
  shows "let names = get_failover_order (Some (or_str name dflt)) st;
      capable = (\<lambda>p. cq_tools q = [] \<or> pc_supports_tools p);
      att_c = attempt_with capable remote q;
      att_e = attempt_with pc_supports_embeddings remote_e qe
    in distinct names
     \<and> (chat remote dflt q name mode st = (Ok r, st') \<longleftrightarrow>
          (\<exists>pre n post. names = pre @ n # post \<and> (\<exists>outs st1. passed att_c pre st = Some (outs, st1) \<and> att_c n st1 = (Ok r, st'))))
     \<and> (chat remote dflt q name mode st = (Err e, st') \<longleftrightarrow>
          (if names = [] then e = none_configured \<and> st' = st
           else \<exists>outs. passed att_c names st = Some (outs, st') \<and> e = all_failed ''chat'' (errors_of outs)))
     \<and> (embeddings remote_e dflt qe name mode st = (Ok re, st') \<longleftrightarrow>
          (\<exists>pre n post. names = pre @ n # post \<and> (\<exists>outs st1. passed att_e pre st = Some (outs, st1) \<and> att_e n st1 = (Ok re, st'))))
     \<and> (embeddings remote_e dflt qe name mode st = (Err e, st') \<longleftrightarrow>
          (if names = [] then e = none_configured \<and> st' = st
           else \<exists>outs. passed att_e names st = Some (outs, st') \<and> e = all_failed ''embeddings'' (errors_of outs)))
     \<and> (\<forall>ns outs st1 i. passed att_c ns st = Some (outs, st1) \<and> i < length ns \<longrightarrow>
          length outs = length ns
          \<and> (outs ! i = Skipped \<longleftrightarrow> (\<exists>p. fst (get_provider (ns ! i) st) = Ok p \<and> cq_tools q \<noteq> [] \<and> \<not> pc_supports_tools p)))
     \<and> (\<forall>ns outs st1 i. passed att_e ns st = Some (outs, st1) \<and> i < length ns \<longrightarrow>
          length outs = length ns
          \<and> (outs ! i = Skipped \<longleftrightarrow> (\<exists>p. fst (get_provider (ns ! i) st) = Ok p \<and> \<not> pc_supports_embeddings p)))"
proof -
  define names where "names = get_failover_order (Some (or_str name dflt)) st"
  let ?c = "attempt_with (\<lambda>p. cq_tools q = [] \<or> pc_supports_tools p) remote q"
  let ?e = "attempt_with pc_supports_embeddings remote_e qe"
  have d: "distinct names" by (simp add: names_def failover_order_distinct)
  have c: "chat remote dflt q name mode st = (Ok r, st') \<longleftrightarrow>
      (\<exists>pre n post. names = pre @ n # post \<and> (\<exists>outs st1. passed ?c pre st = Some (outs, st1) \<and> ?c n st1 = (Ok r, st')))"
    unfolding ch.run_answer_iff [where errs = "[]", symmetric]
    using assms by (auto simp: chat_def Let_def names_def [symmetric] split: prod.split sum.split)
  have f0: "chat remote dflt q name mode st = (Err e, st') \<longleftrightarrow>
      (if names = [] then e = none_configured \<and> st' = st
       else \<exists>xs. chat_loop remote q names [] st = (Err xs, st') \<and> e = all_failed ''chat'' xs)"
    using assms by (auto simp: chat_def Let_def names_def [symmetric] split: prod.split sum.split)
  have f: "chat remote dflt q name mode st = (Err e, st') \<longleftrightarrow>
      (if names = [] then e = none_configured \<and> st' = st
       else \<exists>outs. passed ?c names st = Some (outs, st') \<and> e = all_failed ''chat'' (errors_of outs))"
    unfolding f0 ch.run_error_iff by auto
  have m: "embeddings remote_e dflt qe name mode st = (Ok re, st') \<longleftrightarrow>
      (\<exists>pre n post. names = pre @ n # post \<and> (\<exists>outs st1. passed ?e pre st = Some (outs, st1) \<and> ?e n st1 = (Ok re, st')))"
    unfolding em.run_answer_iff [where errs = "[]", symmetric]
    using assms by (auto simp: embeddings_def Let_def names_def [symmetric] split: prod.split sum.split)
  have g0: "embeddings remote_e dflt qe name mode st = (Err e, st') \<longleftrightarrow>
      (if names = [] then e = none_configured \<and> st' = st
       else \<exists>xs. embeddings_loop remote_e qe names [] st = (Err xs, st') \<and> e = all_failed ''embeddings'' xs)"
    using assms by (auto simp: embeddings_def Let_def names_def [symmetric] split: prod.split sum.split)
  have g: "embeddings remote_e dflt qe name mode st = (Err e, st') \<longleftrightarrow>
      (if names = [] then e = none_configured \<and> st' = st
       else \<exists>outs. passed ?e names st = Some (outs, st') \<and> e = all_failed ''embeddings'' (errors_of outs))"
    unfolding g0 em.run_error_iff by auto
  have sc: "length outs = length ns
      \<and> (outs ! i = Skipped \<longleftrightarrow> (\<exists>p. fst (get_provider (ns ! i) st) = Ok p \<and> cq_tools q \<noteq> [] \<and> \<not> pc_supports_tools p))"
    if "passed ?c ns st = Some (outs, st1) \<and> i < length ns" for ns outs st1 i
    using that passed_skipped [of "\<lambda>p. cq_tools q = [] \<or> pc_supports_tools p" remote q ns st outs st1 i] by (auto dest: passed_length)
  have se: "length outs = length ns
      \<and> (outs ! i = Skipped \<longleftrightarrow> (\<exists>p. fst (get_provider (ns ! i) st) = Ok p \<and> \<not> pc_supports_embeddings p))"
    if "passed ?e ns st = Some (outs, st1) \<and> i < length ns" for ns outs st1 i
    using that passed_skipped [of pc_supports_embeddings remote_e qe ns st outs st1 i] by (auto dest: passed_length)
  show ?thesis
    unfolding Let_def names_def [symmetric]
    using sc se by (intro conjI allI impI d c f m g) blast+
qed

definition demo_remote :: "(nat, chat_request, string) remote" where
  "demo_remote p q e = (if pc_class_name p = ''GroqProvider'' then (Err ''rate limited'', e + 1) else (Ok ''hi'', e + 1))"

definition demo_request :: chat_request where
  "demo_request = \<lparr>cq_model = ''m'', cq_messages = [\<lparr>mg_role = ''user'', mg_content = ''hello'', mg_name = None, mg_tool_call_id = None\<rparr>],
     cq_temperature = 70, cq_max_tokens = None, cq_top_p = None, cq_tools = []\<rparr>"

theorem failover_first_answer_witness:
  "fst (chat demo_remote ''groq'' demo_request None ''AUTO'' demo_providers) = Ok ''hi''
   \<and> (\<exists>pre n post. get_failover_order (Some (or_str None ''groq'')) demo_providers = pre @ n # post
        \<and> (\<exists>outs st1. passed (attempt_with (\<lambda>p. cq_tools demo_request = [] \<or> pc_supports_tools p) demo_remote demo_request)
              pre demo_providers = Some (outs, st1)))"
proof -
  have ok: "fst (chat demo_remote ''groq'' demo_request None ''AUTO'' demo_providers) = Ok ''hi''" by code_simp
  then have eq: "chat demo_remote ''groq'' demo_request None ''AUTO'' demo_providers
      = (Ok ''hi'', snd (chat demo_remote ''groq'' demo_request None ''AUTO'' demo_providers))"
    by (simp add: prod_eq_iff)
  have auto: "''AUTO'' \<noteq> ''MANUAL''" by simp
  from failover_first_answer [OF auto, unfolded Let_def, THEN conjunct2, THEN conjunct1, THEN iffD1, OF eq] ok
  show ?thesis by blast
qed

end
