(* ===== verification/Execution.thy ===== *)
theory Execution
  imports Planning Governance Providers
begin

text \<open>
  Running a request under Runtime V2: the execution state machine and the tasks
  of a blueprint (\<open>runtime/execution.py\<close>), the capability registry
  (\<open>runtime/capabilities.py\<close>, \<open>runtime/native_executors.py\<close>), the dispatcher
  (\<open>runtime/dispatcher.py\<close>), the engine (\<open>runtime/engine.py\<close>), the two runtimes
  (\<open>runtime/runtimes.py\<close>) and the router (\<open>runtime/router.py\<close>).

  Identifiers and the clock are arguments; durations, snapshots and the
  diagnostics entries other than the published runs are left out.  The chat and
  streaming services of Runtime V1 and the native executors other than the
  provider's are functions on the state of the outside world.  The analysis of a
  finished chat (reflection, evaluation, learning) does not change the response
  and is left out.
\<close>

section \<open>State machine\<close>

datatype exec_state =
    E_INITIALIZED | E_READY | E_RUNNING | E_WAITING | E_COMPLETED | E_FAILED | E_CANCELLED

definition exec_value :: "exec_state \<Rightarrow> string" where
  "exec_value s = (case s of E_INITIALIZED \<Rightarrow> ''INITIALIZED'' | E_READY \<Rightarrow> ''READY'' | E_RUNNING \<Rightarrow> ''RUNNING''
     | E_WAITING \<Rightarrow> ''WAITING'' | E_COMPLETED \<Rightarrow> ''COMPLETED'' | E_FAILED \<Rightarrow> ''FAILED'' | E_CANCELLED \<Rightarrow> ''CANCELLED'')"

definition allowed_transitions :: "exec_state \<Rightarrow> exec_state list" where
  "allowed_transitions s = (case s of
      E_INITIALIZED \<Rightarrow> [E_READY, E_CANCELLED, E_FAILED]
    | E_READY \<Rightarrow> [E_RUNNING, E_CANCELLED, E_FAILED]
    | E_RUNNING \<Rightarrow> [E_WAITING, E_COMPLETED, E_FAILED, E_CANCELLED]
    | E_WAITING \<Rightarrow> [E_RUNNING, E_FAILED, E_CANCELLED]
    | E_COMPLETED \<Rightarrow> [] | E_FAILED \<Rightarrow> [] | E_CANCELLED \<Rightarrow> [])"

record exec_transition =
  xt_from :: "exec_state option"
  xt_to :: exec_state
  xt_task_id :: "string option"
  xt_summary :: string

record state_machine =
  sm_current :: exec_state
  sm_transitions :: "exec_transition list"

definition new_machine :: "exec_state \<Rightarrow> state_machine" where
  "new_machine s = \<lparr>sm_current = s,
     sm_transitions = [\<lparr>xt_from = None, xt_to = s, xt_task_id = None, xt_summary = ''Execution initialized.''\<rparr>]\<rparr>"

definition transition_to :: "exec_state \<Rightarrow> string option \<Rightarrow> string \<Rightarrow> state_machine \<Rightarrow> (string, state_machine) result" where
  "transition_to s task_id summary m =
     (if s \<notin> set (allowed_transitions (sm_current m))
      then Err (''Invalid execution state transition: '' @ exec_value (sm_current m) @ '' -> '' @ exec_value s)
      else Ok \<lparr>sm_current = s, sm_transitions = sm_transitions m @
             [\<lparr>xt_from = Some (sm_current m), xt_to = s, xt_task_id = task_id, xt_summary = summary\<rparr>]\<rparr>)"

section \<open>Tasks of a blueprint\<close>

record exec_task =
  et_task_id :: string
  et_title :: string
  et_description :: string
  et_required_capability :: string
  et_state :: exec_state
  et_dependencies :: "string list"
  et_priority :: int
  et_metadata :: metadata

definition priority_of :: "string list \<Rightarrow> string \<Rightarrow> int \<Rightarrow> int" where
  "priority_of ord task_id dflt =
     dict_get_or (rev (map (\<lambda>(i, t). (t, int i)) (enumerate 0 ord))) task_id dflt"

definition capability_task :: "blueprint \<Rightarrow> nat \<Rightarrow> string \<Rightarrow> exec_task" where
  "capability_task b index name =
     (let task_id = ''capability_'' @ show_nat (index + 1) in
      \<lparr>et_task_id = task_id, et_title = ''Execute '' @ name @ '' capability'',
       et_description = ''Invoke the '' @ name @ '' runtime executor.'', et_required_capability = py_lower name,
       et_state = E_READY, et_dependencies = (if index > 0 then [''capability_'' @ show_nat index] else []),
       et_priority = priority_of (bp_priority_ordering b) task_id (int index),
       et_metadata = [(''capability_name'', JStr name), (''source'', JStr ''required_runtime_capabilities'')]\<rparr>)"

definition provider_task :: "blueprint \<Rightarrow> exec_task list \<Rightarrow> exec_task" where
  "provider_task b ts =
     \<lparr>et_task_id = ''capability_provider'', et_title = ''Execute Provider capability'',
      et_description = ''Invoke the provider runtime executor.'', et_required_capability = ''provider'',
      et_state = E_READY, et_dependencies = (if ts = [] then [] else [et_task_id (last ts)]),
      et_priority = priority_of (bp_priority_ordering b) ''capability_provider'' (int (length ts)),
      et_metadata = [(''capability_name'', JStr ''Provider''), (''source'', JStr ''final_response'')]\<rparr>"

definition planned_exec_task :: "blueprint \<Rightarrow> nat \<Rightarrow> planned_task \<Rightarrow> exec_task" where
  "planned_exec_task b index t =
     \<lparr>et_task_id = pk_identifier t, et_title = pk_title t, et_description = pk_description t,
      et_required_capability = (case pk_required_capabilities t of [] \<Rightarrow> ''runtime_v1'' | c # _ \<Rightarrow> c),
      et_state = E_READY,
      et_dependencies = map de_source (filter (\<lambda>e. de_target e = pk_identifier t) (bp_dependency_graph b)),
      et_priority = priority_of (bp_priority_ordering b) (pk_identifier t) (int index),
      et_metadata = [(''expected_output'', JStr (pk_expected_output t)),
        (''estimated_complexity'', JStr (pk_estimated_complexity t)),
        (''estimated_confidence'', JFloat (show_hundredths (pk_estimated_confidence t)))]\<rparr>"

definition build_execution_tasks :: "blueprint \<Rightarrow> exec_task list" where
  "build_execution_tasks b =
     (if bp_capabilities b \<noteq> []
      then (let ts = map (\<lambda>(i, c). capability_task b i c) (enumerate 0 (bp_capabilities b))
            in if list_ex (\<lambda>t. et_required_capability t = ''provider'') ts then ts else ts @ [provider_task b ts])
      else sort_key et_priority (map (\<lambda>(i, t). planned_exec_task b i t) (enumerate 0 (bp_task_graph b))))"

section \<open>Capability registry and dispatcher\<close>

datatype execution_mode = NATIVE | DELEGATED

record cap_metadata =
  ca_capability_id :: string
  ca_capability_name :: string
  ca_supported_task_types :: "string list"
  ca_execution_mode :: execution_mode

type_synonym cap_registry = "(string, cap_metadata) dict"

definition register_capability :: "cap_metadata \<Rightarrow> cap_registry \<Rightarrow> cap_registry" where
  "register_capability c r = dict_set r (ca_capability_id c) c"

definition native_registry :: cap_registry where
  "native_registry = fold register_capability
     (map (\<lambda>(i, n, ts). \<lparr>ca_capability_id = i, ca_capability_name = n, ca_supported_task_types = ts, ca_execution_mode = NATIVE\<rparr>)
       [(''memory'', ''Memory Runtime Adapter'', [''memory'']), (''knowledge'', ''Knowledge Runtime Adapter'', [''knowledge'']),
        (''rag'', ''RAG Runtime Adapter'', [''rag'']), (''workflow'', ''Workflow Runtime Adapter'', [''workflow'']),
        (''tools'', ''Tool Runtime Adapter'', [''tool'', ''tools'']), (''provider'', ''Provider Runtime Adapter'', [''provider'']),
        (''streaming'', ''Streaming Runtime Adapter'', [''streaming''])]) []"

definition default_registry :: cap_registry where
  "default_registry = map (\<lambda>(i, c). (i, c\<lparr>ca_execution_mode := DELEGATED\<rparr>)) native_registry"

record exec_result =
  xr_task_id :: string
  xr_status :: exec_state
  xr_runtime :: string

type_synonym ('p, 'r, 'e) executor = "exec_task \<Rightarrow> 'p \<Rightarrow> 'e \<Rightarrow> (string, 'r) result \<times> 'e"

definition dispatch_chat ::
  "cap_registry \<Rightarrow> (string \<Rightarrow> ('p, 'r, 'e) executor) \<Rightarrow> ('p \<Rightarrow> 'e \<Rightarrow> (string, 'r) result \<times> 'e)
   \<Rightarrow> exec_task \<Rightarrow> 'p \<Rightarrow> 'e \<Rightarrow> (string, 'r \<times> exec_result) result \<times> 'e" where
  "dispatch_chat reg native v1 t p e =
     (case dict_get reg (py_lower (et_required_capability t)) of
        Some c \<Rightarrow>
          if ca_execution_mode c = NATIVE
          then (case native (ca_capability_id c) t p e of
                  (Inl x, e1) \<Rightarrow> (Err x, e1)
                | (Inr r, e1) \<Rightarrow> (Ok (r, \<lparr>xr_task_id = et_task_id t, xr_status = E_COMPLETED, xr_runtime = ca_capability_name c\<rparr>), e1))
          else (case v1 p e of
                  (Inl x, e1) \<Rightarrow> (Err x, e1)
                | (Inr r, e1) \<Rightarrow> (Ok (r, \<lparr>xr_task_id = et_task_id t, xr_status = E_COMPLETED, xr_runtime = ''RuntimeV1Adapter''\<rparr>), e1))
      | None \<Rightarrow>
          (case v1 p e of
             (Inl x, e1) \<Rightarrow> (Err x, e1)
           | (Inr r, e1) \<Rightarrow> (Ok (r, \<lparr>xr_task_id = et_task_id t, xr_status = E_COMPLETED, xr_runtime = ''RuntimeV1Adapter''\<rparr>), e1)))"

text \<open>
  A stream is the events it yields and the error it ends with, if any.  Every native
  runtime has \<open>execute_stream\<close>, which only the streaming capability implements.
\<close>

type_synonym 'v stream = "'v list \<times> string option"

definition dispatch_stream ::
  "cap_registry \<Rightarrow> ('p \<Rightarrow> 'e \<Rightarrow> 'v stream \<times> 'e) \<Rightarrow> exec_task \<Rightarrow> 'p \<Rightarrow> 'e \<Rightarrow> 'v stream \<times> 'e" where
  "dispatch_stream reg v1 t p e =
     (case dict_get reg (py_lower (et_required_capability t)) of
        Some c \<Rightarrow>
          if ca_execution_mode c = NATIVE
          then (if ca_capability_id c \<noteq> ''streaming'' then (([], Some ''NotImplementedError''), e) else v1 p e)
          else v1 p e
      | None \<Rightarrow> v1 p e)"

section \<open>Engine\<close>

record exec_run =
  er_execution_id :: string
  er_state :: exec_state
  er_run_tasks :: "exec_task list"
  er_results :: "exec_result list"
  er_transitions :: "exec_transition list"
  er_timeline :: "(string \<times> string \<times> string) list"

record 'e engine_world =
  ew_published :: "exec_run list"
  ew_outside :: 'e

definition publish_run :: "exec_run \<Rightarrow> 'e engine_world \<Rightarrow> 'e engine_world" where
  "publish_run r w = w\<lparr>ew_published := ew_published w @ [r]\<rparr>"

record exec_context =
  ec_execution_id :: string
  ec_blueprint :: blueprint
  ec_trace :: "(string \<times> string \<times> string) list"

definition initialize_run :: "exec_context \<Rightarrow> (string, exec_run) result" where
  "initialize_run ctx =
     (let ts = build_execution_tasks (ec_blueprint ctx)
      in bind_ok (transition_to E_READY None ''Execution tasks prepared.'' (new_machine E_INITIALIZED))
           (\<lambda>m. Ok \<lparr>er_execution_id = ec_execution_id ctx, er_state = E_READY, er_run_tasks = ts, er_results = [],
                    er_transitions = sm_transitions m,
                    er_timeline = ec_trace ctx @ [(''Execution Initialized'', ''READY'', show_nat (length ts) @ '' tasks ready.'')]\<rparr>))"

definition select_dispatch_task :: "exec_task list \<Rightarrow> string option \<Rightarrow> (string, exec_task) result" where
  "select_dispatch_task ts preferred =
     (case ts of
        [] \<Rightarrow> Err ''No execution tasks available.''
      | t # _ \<Rightarrow>
          (case preferred of
             None \<Rightarrow> Ok t
           | Some c \<Rightarrow> (case find (\<lambda>t. et_required_capability t = c) ts of Some t' \<Rightarrow> Ok t' | None \<Rightarrow> Ok t)))"

definition engine_execute_chat ::
  "(exec_task \<Rightarrow> 'p \<Rightarrow> 'e \<Rightarrow> (string, 'r \<times> exec_result) result \<times> 'e) \<Rightarrow> exec_context \<Rightarrow> 'p \<Rightarrow> 'e engine_world
   \<Rightarrow> (string, 'r) result \<times> 'e engine_world" where
  "engine_execute_chat dispatch ctx p w =
     (case initialize_run ctx of
        Inl x \<Rightarrow> (Err x, w)
      | Inr run \<Rightarrow>
          (let w1 = publish_run run w in
           case select_dispatch_task (er_run_tasks run) (Some ''provider'') of
             Inl x \<Rightarrow> (Err x, w1)
           | Inr t \<Rightarrow>
               (let m0 = new_machine (er_state run);
                    m1 = m0\<lparr>sm_transitions := sm_transitions m0 @ drop 1 (er_transitions run)\<rparr>
                in case transition_to E_RUNNING (Some (et_task_id t)) ''Dispatching task.'' m1 of
                     Inl x \<Rightarrow> (Err x, w1)
                   | Inr m2 \<Rightarrow>
                       (case dispatch t p (ew_outside w1) of
                          (Inl x, e) \<Rightarrow> (Err x, w1\<lparr>ew_outside := e\<rparr>)
                        | (Inr (r, result), e) \<Rightarrow>
                            (case transition_to E_COMPLETED (Some (et_task_id t)) ''Execution completed.'' m2 of
                               Inl x \<Rightarrow> (Err x, w1\<lparr>ew_outside := e\<rparr>)
                             | Inr m3 \<Rightarrow>
                                 (Ok r, publish_run
                                   (run\<lparr>er_state := E_COMPLETED,
                                        er_run_tasks := map (\<lambda>u. if et_task_id u = et_task_id t then t\<lparr>et_state := E_COMPLETED\<rparr> else u)
                                          (er_run_tasks run),
                                        er_results := [result], er_transitions := sm_transitions m3,
                                        er_timeline := er_timeline run @ [(''Capability Dispatch'', exec_value (xr_status result),
                                          ''Dispatched '' @ et_task_id t @ '' via Runtime V1 adapter.'')]\<rparr>)
                                   (w1\<lparr>ew_outside := e\<rparr>)))))))"

definition engine_execute_stream ::
  "(exec_task \<Rightarrow> 'p \<Rightarrow> 'e \<Rightarrow> 'v stream \<times> 'e) \<Rightarrow> exec_context \<Rightarrow> 'p \<Rightarrow> 'e engine_world \<Rightarrow> 'v stream \<times> 'e engine_world" where
  "engine_execute_stream dispatch ctx p w =
     (case initialize_run ctx of
        Inl x \<Rightarrow> (([], Some x), w)
      | Inr run \<Rightarrow>
          (case select_dispatch_task (er_run_tasks run) (Some ''streaming'') of
             Inl x \<Rightarrow> (([], Some x), w)
           | Inr t \<Rightarrow>
               (let w1 = publish_run run w; (evs, e) = dispatch t p (ew_outside w1)
                in (evs, w1\<lparr>ew_outside := e\<rparr>))))"

section \<open>Runtimes and router\<close>

datatype run_payload = ChatPayload chat_payload | ProviderPayload chat_request

text \<open>What the executors return: that of the provider an answer or its models, the others what their service finds.\<close>

datatype 'r chat_output =
    Response 'r
  | ModelList "string list"
  | MemoryKeys "int list"
  | KnowledgeNames "string list"
  | RetrievedContext string
  | SkippedWork string
  | WorkflowRun int string
  | ToolResults string
  | StreamedChunks nat

text \<open>The native provider executor: only a provider-layer request is sent to the model.\<close>

definition provider_exec ::
  "('e, chat_request, 'r) remote \<Rightarrow> (provider_class \<Rightarrow> 'e \<Rightarrow> (string, string list) result \<times> 'e) \<Rightarrow> string
   \<Rightarrow> (run_payload, 'r chat_output, 'e provider_state) executor" where
  "provider_exec remote models dflt t p st =
     (case p of
        ProviderPayload q \<Rightarrow> (let (r, st') = chat remote dflt q None ''AUTO'' st in (map_sum error_text Response r, st'))
      | ChatPayload c \<Rightarrow> (let (r, st') = list_models models dflt (pl_provider c) st in (map_sum error_text ModelList r, st')))"

definition native_executors ::
  "(run_payload, 'r chat_output, 'e provider_state) executor \<Rightarrow> (string \<Rightarrow> (run_payload, 'r chat_output, 'e provider_state) executor)
   \<Rightarrow> string \<Rightarrow> (run_payload, 'r chat_output, 'e provider_state) executor" where
  "native_executors provider others i = (if i = ''provider'' then provider else others i)"

record request_ids =
  rq_execution_id :: string
  rq_cognition :: cog_metadata
  rq_planning :: planning_metadata

definition payload_class :: "payload_kind \<Rightarrow> string" where
  "payload_class k = (case k of ChatCreate \<Rightarrow> ''ChatCreateRequest'' | ChatContinue \<Rightarrow> ''ChatContinueRequest''
     | ChatRegenerate \<Rightarrow> ''ChatRegenerateRequest'' | ChatRetry \<Rightarrow> ''ChatRetryRequest'' | ChatStream \<Rightarrow> ''StreamingChatRequest'')"

text \<open>Requests to regenerate or retry have no message: reading it raises.\<close>

definition payload_message :: "chat_payload \<Rightarrow> (string, string) result" where
  "payload_message p =
     (if pl_kind p = ChatRegenerate \<or> pl_kind p = ChatRetry
      then Err (in_quotes (Some (payload_class (pl_kind p))) @ '' object has no attribute '' @ in_quotes (Some ''message''))
      else Ok (pl_message p))"

definition build_execution_context :: "request_ids \<Rightarrow> chat_payload \<Rightarrow> (string, exec_context) result" where
  "build_execution_context ids p =
     bind_ok (payload_message p) (\<lambda>message. Ok
       \<lparr>ec_execution_id = rq_execution_id ids,
        ec_blueprint = plan (rq_planning ids) (analyze message (rq_cognition ids)),
        ec_trace = [(''Request Received'', ''COMPLETED'', ''Request accepted.'')]\<rparr>)"

text \<open>The context of a request: governed first when it asks for Runtime V2, with the governance trace in front.\<close>

definition prepare_context :: "request_ids \<Rightarrow> gov_user \<Rightarrow> int \<Rightarrow> chat_payload \<Rightarrow> (string, exec_context) result" where
  "prepare_context ids user org p =
     (if pl_runtime_version p = ''AgentCorp V2''
      then bind_ok (enforce_governance user org p) (\<lambda>rep.
             bind_ok (build_execution_context ids p) (\<lambda>ctx. Ok (ctx\<lparr>ec_trace := gr_trace rep @ ec_trace ctx\<rparr>)))
      else build_execution_context ids p)"

text \<open>
  A chat under Runtime V2: the engine runs it and then the finished run is analysed, which can raise; the answer
  of the engine is returned when the analysis does not.  The analysis, \<open>_record_analysis\<close>, is an argument here; it is
  the subject of \<open>Intelligence\<close>.
\<close>

type_synonym ('e, 'r) run_analyser = "exec_context \<Rightarrow> 'r \<Rightarrow> 'e engine_world \<Rightarrow> (string, unit) result \<times> 'e engine_world"

definition v2_execute_chat ::
  "(exec_task \<Rightarrow> run_payload \<Rightarrow> 'e \<Rightarrow> (string, 'r \<times> exec_result) result \<times> 'e) \<Rightarrow> ('e, 'r) run_analyser \<Rightarrow> request_ids \<Rightarrow> gov_user \<Rightarrow> int
   \<Rightarrow> chat_payload \<Rightarrow> 'e engine_world \<Rightarrow> (string, 'r) result \<times> 'e engine_world" where
  "v2_execute_chat dispatch analyse ids user org p w =
     (case prepare_context ids user org p of
        Inl x \<Rightarrow> (Err x, w)
      | Inr ctx \<Rightarrow>
          (case engine_execute_chat dispatch ctx (ChatPayload p) w of
             (Inl x, w1) \<Rightarrow> (Err x, w1)
           | (Inr r, w1) \<Rightarrow>
               (case analyse ctx r w1 of
                  (Inl x, w2) \<Rightarrow> (Err x, w2)
                | (Inr _, w2) \<Rightarrow> (Ok r, w2))))"

definition v2_execute_stream ::
  "(exec_task \<Rightarrow> run_payload \<Rightarrow> 'e \<Rightarrow> 'v stream \<times> 'e) \<Rightarrow> request_ids \<Rightarrow> gov_user \<Rightarrow> int
   \<Rightarrow> chat_payload \<Rightarrow> 'e engine_world \<Rightarrow> 'v stream \<times> 'e engine_world" where
  "v2_execute_stream dispatch ids user org p w =
     (case prepare_context ids user org p of
        Inl x \<Rightarrow> (([], Some x), w)
      | Inr ctx \<Rightarrow> engine_execute_stream dispatch ctx (ChatPayload p) w)"

text \<open>
  Runtime V1 hands the payload to the chat service; all but a new chat need a conversation.
  \<open>raised\<close> makes an error of the service of a \<open>ValueError\<close> or \<open>TypeError\<close>.
\<close>

definition v1_execute_chat ::
  "(string \<Rightarrow> 'x) \<Rightarrow> (payload_kind \<Rightarrow> int option \<Rightarrow> chat_payload \<Rightarrow> 'e \<Rightarrow> ('x, 'r) result \<times> 'e) \<Rightarrow> int option
   \<Rightarrow> chat_payload \<Rightarrow> 'e \<Rightarrow> ('x, 'r) result \<times> 'e" where
  "v1_execute_chat raised service conversation_id p e =
     (case (pl_kind p, conversation_id) of
        (ChatCreate, _) \<Rightarrow> service ChatCreate None p e
      | (ChatStream, _) \<Rightarrow> (Err (raised (''Unsupported payload type: <class '' @ in_quotes (Some ''app.schemas.streaming.StreamingChatRequest'') @ ''>'')), e)
      | (ChatContinue, None) \<Rightarrow> (Err (raised ''conversation_id is required for continue chat.''), e)
      | (ChatRegenerate, None) \<Rightarrow> (Err (raised ''conversation_id is required for regenerate chat.''), e)
      | (ChatRetry, None) \<Rightarrow> (Err (raised ''conversation_id is required for retry chat.''), e)
      | (k, Some c) \<Rightarrow> service k (Some c) p e)"

definition v1_execute_stream ::
  "(chat_payload \<Rightarrow> 'e \<Rightarrow> 'v stream \<times> 'e) \<Rightarrow> (int \<Rightarrow> chat_payload \<Rightarrow> 'e \<Rightarrow> 'v stream \<times> 'e) \<Rightarrow> int option
   \<Rightarrow> chat_payload \<Rightarrow> 'e \<Rightarrow> 'v stream \<times> 'e" where
  "v1_execute_stream new_chat continue_chat conversation_id p e =
     (case conversation_id of None \<Rightarrow> new_chat p e | Some c \<Rightarrow> continue_chat c p e)"

record diagnostics =
  dx_executions :: "(string, string) dict"
  dx_analyses :: "(string, string) dict"
  dx_plannings :: "(string, string) dict"

definition resolve_v2 :: "string option \<Rightarrow> bool" where
  "resolve_v2 version = (or_str version ''AgentCorp V1'' = ''AgentCorp V2'')"

text \<open>
  The router: it registers the execution, for Runtime V2 registers and removes an
  analysis and a planning run, calls the runtime and removes the execution
  whatever the outcome.
\<close>

definition router_execute_chat ::
  "string \<Rightarrow> string \<Rightarrow> string \<Rightarrow> ('w \<Rightarrow> ('x, 'r) result \<times> 'w) \<Rightarrow> ('w \<Rightarrow> ('x, 'r) result \<times> 'w)
   \<Rightarrow> string option \<Rightarrow> diagnostics \<times> 'w \<Rightarrow> ('x, 'r) result \<times> diagnostics \<times> 'w" where
  "router_execute_chat xid aid pid v1 v2 version dw =
     (let (d, w) = dw;
          d1 = d\<lparr>dx_executions := dict_set (dx_executions d) xid ''RUNNING''\<rparr>;
          d2 = (if resolve_v2 version
                then (let a1 = d1\<lparr>dx_analyses := dict_set (dx_analyses d1) aid ''RUNNING''\<rparr>;
                          a2 = a1\<lparr>dx_analyses := dict_set (dx_analyses a1) aid ''COMPLETED''\<rparr>;
                          a3 = a2\<lparr>dx_plannings := dict_set (dx_plannings a2) pid ''COMPLETED''\<rparr>
                      in a3\<lparr>dx_analyses := dict_del (dx_analyses a3) aid, dx_plannings := dict_del (dx_plannings a3) pid\<rparr>)
                else d1);
          (r, w') = (if resolve_v2 version then v2 w else v1 w);
          d3 = (if is_ok r then d2\<lparr>dx_executions := dict_set (dx_executions d2) xid ''COMPLETED''\<rparr> else d2)
      in (r, d3\<lparr>dx_executions := dict_del (dx_executions d3) xid\<rparr>, w'))"

definition router_execute_stream ::
  "('w \<Rightarrow> 'v stream \<times> 'w) \<Rightarrow> ('w \<Rightarrow> 'v stream \<times> 'w) \<Rightarrow> string option \<Rightarrow> 'w \<Rightarrow> 'v stream \<times> 'w" where
  "router_execute_stream v1 v2 version w = (if resolve_v2 version then v2 w else v1 w)"

section \<open>Histories of the state machine\<close>

definition exec_terminal :: "exec_state \<Rightarrow> bool" where
  "exec_terminal s = (s = E_COMPLETED \<or> s = E_FAILED \<or> s = E_CANCELLED)"

fun chained :: "exec_transition list \<Rightarrow> bool" where
  "chained [] = True"
| "chained [t] = True"
| "chained (a # b # ts) = (xt_from b = Some (xt_to a) \<and> xt_to b \<in> set (allowed_transitions (xt_to a)) \<and> chained (b # ts))"

lemma chained_snoc:
  "ts \<noteq> [] \<Longrightarrow> chained (ts @ [t]) \<longleftrightarrow> chained ts \<and> xt_from t = Some (xt_to (last ts)) \<and> xt_to t \<in> set (allowed_transitions (xt_to (last ts)))"
  by (induction ts rule: chained.induct) auto

inductive machine_history :: "state_machine \<Rightarrow> bool" where
  start: "machine_history (new_machine s)"
| step: "machine_history m \<Longrightarrow> transition_to s task summary m = Ok m' \<Longrightarrow> machine_history m'"

lemma machine_history_ok:
  "machine_history m \<Longrightarrow> sm_transitions m \<noteq> [] \<and> xt_from (hd (sm_transitions m)) = None
     \<and> xt_to (last (sm_transitions m)) = sm_current m \<and> chained (sm_transitions m)"
proof (induction rule: machine_history.induct)
  case (step m s task summary m')
  then show ?case by (auto simp: transition_to_def chained_snoc split: if_splits)
qed (simp add: new_machine_def)

lemma terminal_no_exit: "allowed_transitions s = [] \<longleftrightarrow> exec_terminal s"
  by (cases s) (simp_all add: allowed_transitions_def exec_terminal_def)

lemma terminal_only_last:
  assumes "chained ts" and "i < length ts" and "exec_terminal (xt_to (ts ! i))"
  shows "Suc i = length ts"
  using assms
proof (induction ts arbitrary: i rule: chained.induct)
  case (3 a b ts)
  show ?case
  proof (cases i)
    case 0
    with 3 terminal_no_exit [of "xt_to a"] show ?thesis by simp
  next
    case (Suc j)
    with 3 show ?thesis by simp
  qed
qed auto

text \<open>
  Every history of the execution state machine is a chain of allowed
  transitions that starts with the initial entry and ends in the current state;
  COMPLETED, FAILED and CANCELLED occur only as the last entry and from them
  every further transition is refused; a refused transition is an error and
  nothing else is.
\<close>

theorem execution_histories:
  assumes "machine_history m"
  shows "chained (sm_transitions m) \<and> xt_from (hd (sm_transitions m)) = None
    \<and> xt_to (last (sm_transitions m)) = sm_current m
    \<and> (i < length (sm_transitions m) \<and> exec_terminal (xt_to (sm_transitions m ! i)) \<longrightarrow> Suc i = length (sm_transitions m))
    \<and> (is_ok (transition_to s task summary m) \<longleftrightarrow> s \<in> set (allowed_transitions (sm_current m)))
    \<and> (exec_terminal (sm_current m) \<longrightarrow> \<not> is_ok (transition_to s task summary m))"
  using machine_history_ok [OF assms] terminal_only_last [of "sm_transitions m" i] terminal_no_exit [of "sm_current m"]
  by (auto simp: transition_to_def)

theorem execution_histories_witness:
  "\<exists>m. transition_to E_READY None ''go'' (new_machine E_INITIALIZED) = Ok m \<and> chained (sm_transitions m)
     \<and> xt_to (last (sm_transitions m)) = E_READY"
proof -
  obtain m where m: "transition_to E_READY None ''go'' (new_machine E_INITIALIZED) = Ok m" "sm_current m = E_READY"
    by (simp add: transition_to_def new_machine_def allowed_transitions_def)
  from machine_history.step [OF machine_history.start m(1)] have "machine_history m" .
  from execution_histories [OF this] m show ?thesis by auto
qed

section \<open>A chat under Runtime V2\<close>

lemma py_lower_Provider: "py_lower ''Provider'' = ''provider''" and py_lower_provider: "py_lower ''provider'' = ''provider''"
  by code_simp+

lemma tasks_capabilities:
  assumes "bp_capabilities b \<noteq> []"
  shows "map et_required_capability (build_execution_tasks b) = map py_lower (bp_capabilities b)
      @ (if ''provider'' \<in> set (map py_lower (bp_capabilities b)) then [] else [''provider''])"
proof -
  let ?ts = "map (\<lambda>(i, c). capability_task b i c) (enumerate 0 (bp_capabilities b))"
  have caps: "map et_required_capability ?ts = map py_lower (bp_capabilities b)"
    by (rule nth_equalityI) (simp_all add: nth_enumerate_eq capability_task_def Let_def)
  have ex: "list_ex (\<lambda>t. et_required_capability t = ''provider'') ts \<longleftrightarrow> ''provider'' \<in> set (map et_required_capability ts)" for ts
    by (induction ts) auto
  show ?thesis
  proof (cases "''provider'' \<in> set (map py_lower (bp_capabilities b))")
    case True
    then have "build_execution_tasks b = ?ts" unfolding build_execution_tasks_def Let_def ex caps using assms by simp
    with True caps show ?thesis by simp
  next
    case False
    then have "build_execution_tasks b = ?ts @ [provider_task b ?ts]" unfolding build_execution_tasks_def Let_def ex caps using assms by simp
    with False caps show ?thesis by (simp add: provider_task_def)
  qed
qed

lemma tasks_distinct:
  assumes "bp_capabilities b \<noteq> []"
  shows "distinct (map et_task_id (build_execution_tasks b))"
proof -
  let ?ts = "map (\<lambda>(i, c). capability_task b i c) (enumerate 0 (bp_capabilities b))"
  have ids: "map et_task_id ?ts = map (\<lambda>i. ''capability_'' @ show_nat (i + 1)) [0..<length (bp_capabilities b)]"
    by (rule nth_equalityI) (simp_all add: nth_enumerate_eq capability_task_def Let_def)
  have "distinct (map et_task_id ?ts)" unfolding ids by (simp add: distinct_map inj_on_def)
  moreover have "''provider'' \<noteq> show_nat n" for n
    using show_nat_digits [of n] by (cases "show_nat n") (auto simp: is_digit_def)
  then have "''capability_provider'' \<notin> set (map et_task_id ?ts)" unfolding ids by auto
  ultimately show ?thesis using assms by (auto simp: build_execution_tasks_def Let_def provider_task_def)
qed

lemma tasks_ready: "t \<in> set (build_execution_tasks b) \<Longrightarrow> et_state t = E_READY"
  by (auto simp: build_execution_tasks_def Let_def provider_task_def capability_task_def planned_exec_task_def split: if_splits)

lemma find_image: "f x \<in> set (map f xs) \<Longrightarrow> \<exists>y\<in>set xs. find (\<lambda>y. f y = f x) xs = Some y \<and> f y = f x"
  by (induction xs) auto

lemma select_present:
  assumes "c \<in> set (map et_required_capability ts)"
  shows "\<exists>t\<in>set ts. select_dispatch_task ts (Some c) = Ok t \<and> et_required_capability t = c"
proof -
  from assms obtain x where "x \<in> set ts" "et_required_capability x = c" by auto
  with find_image [of et_required_capability x ts] assms
  obtain t where t: "t \<in> set ts" "find (\<lambda>t. et_required_capability t = c) ts = Some t" "et_required_capability t = c" by auto
  then have "ts \<noteq> []" by auto
  with t show ?thesis by (auto simp: select_dispatch_task_def split: list.split)
qed

lemma select_absent:
  assumes "c \<notin> set (map et_required_capability ts)" and "ts \<noteq> []"
  shows "select_dispatch_task ts (Some c) = Ok (hd ts)"
proof -
  have "find (\<lambda>t. et_required_capability t = c) ts = None" using assms(1) by (auto simp: find_None_iff)
  with assms(2) show ?thesis by (auto simp: select_dispatch_task_def split: list.split)
qed

lemma select_provider:
  assumes "bp_capabilities b \<noteq> []"
  shows "\<exists>t\<in>set (build_execution_tasks b). select_dispatch_task (build_execution_tasks b) (Some ''provider'') = Ok t
    \<and> et_required_capability t = ''provider''"
  by (rule select_present) (auto simp: tasks_capabilities [OF assms])

lemma provider_native:
  "\<exists>c. dict_get native_registry ''provider'' = Some c \<and> ca_execution_mode c = NATIVE \<and> ca_capability_id c = ''provider''"
  by (simp add: native_registry_def register_capability_def dict_get_set)

lemma run_transitions:
  "transition_to E_RUNNING tk sm \<lparr>sm_current = E_READY, sm_transitions = ts\<rparr> =
     Ok \<lparr>sm_current = E_RUNNING, sm_transitions = ts @ [\<lparr>xt_from = Some E_READY, xt_to = E_RUNNING, xt_task_id = tk, xt_summary = sm\<rparr>]\<rparr>"
  "transition_to E_COMPLETED tk sm \<lparr>sm_current = E_RUNNING, sm_transitions = ts\<rparr> =
     Ok \<lparr>sm_current = E_COMPLETED, sm_transitions = ts @ [\<lparr>xt_from = Some E_RUNNING, xt_to = E_COMPLETED, xt_task_id = tk, xt_summary = sm\<rparr>]\<rparr>"
  "transition_to E_READY tk sm \<lparr>sm_current = E_INITIALIZED, sm_transitions = ts\<rparr> =
     Ok \<lparr>sm_current = E_READY, sm_transitions = ts @ [\<lparr>xt_from = Some E_INITIALIZED, xt_to = E_READY, xt_task_id = tk, xt_summary = sm\<rparr>]\<rparr>"
  by (simp_all add: transition_to_def allowed_transitions_def)

text \<open>What the engine does once a task is chosen: one published run when the dispatch raises, two when it answers.\<close>

lemma engine_run:
  assumes t: "select_dispatch_task (build_execution_tasks (ec_blueprint ctx)) (Some ''provider'') = Ok t"
  shows "\<exists>run. er_state run = E_READY \<and> er_run_tasks run = build_execution_tasks (ec_blueprint ctx) \<and>
     (case dispatch t p (ew_outside w) of
        (Inl x, e) \<Rightarrow> engine_execute_chat dispatch ctx p w = (Err x, \<lparr>ew_published = ew_published w @ [run], ew_outside = e\<rparr>)
      | (Inr (r, res), e) \<Rightarrow>
          (\<exists>fin. er_state fin = E_COMPLETED \<and> er_results fin = [res]
             \<and> er_run_tasks fin = map (\<lambda>u. if et_task_id u = et_task_id t then t\<lparr>et_state := E_COMPLETED\<rparr> else u)
                  (build_execution_tasks (ec_blueprint ctx))
             \<and> map (\<lambda>x. (xt_from x, xt_to x)) (er_transitions fin) =
                  [(None, E_READY), (Some E_INITIALIZED, E_READY), (Some E_READY, E_RUNNING), (Some E_RUNNING, E_COMPLETED)]
             \<and> engine_execute_chat dispatch ctx p w = (Ok r, \<lparr>ew_published = ew_published w @ [run, fin], ew_outside = e\<rparr>)))"
proof -
  obtain run where run: "initialize_run ctx = Ok run" "er_state run = E_READY"
      "er_run_tasks run = build_execution_tasks (ec_blueprint ctx)"
      "map (\<lambda>x. (xt_from x, xt_to x)) (er_transitions run) = [(None, E_INITIALIZED), (Some E_INITIALIZED, E_READY)]"
    by (simp add: initialize_run_def Let_def new_machine_def run_transitions)
  then have drop: "map (\<lambda>x. (xt_from x, xt_to x)) (drop (Suc 0) (er_transitions run)) = [(Some E_INITIALIZED, E_READY)]"
    by (metis drop_map drop0 drop_Suc_Cons)
  obtain d e where d: "dispatch t p (ew_outside w) = (d, e)" by fastforce
  show ?thesis
  proof (cases d)
    case (Inl x)
    with run d t show ?thesis
      by (intro exI [of _ run]) (simp add: engine_execute_chat_def Let_def publish_run_def new_machine_def run_transitions)
  next
    case (Inr rr)
    obtain r res where rr: "rr = (r, res)" by fastforce
    define trs where "trs = (\<lparr>xt_from = None, xt_to = E_READY, xt_task_id = None, xt_summary = ''Execution initialized.''\<rparr>
      # drop (Suc 0) (er_transitions run))
      @ [\<lparr>xt_from = Some E_READY, xt_to = E_RUNNING, xt_task_id = Some (et_task_id t), xt_summary = ''Dispatching task.''\<rparr>]
      @ [\<lparr>xt_from = Some E_RUNNING, xt_to = E_COMPLETED, xt_task_id = Some (et_task_id t), xt_summary = ''Execution completed.''\<rparr>]"
    define fin where "fin = run\<lparr>er_state := E_COMPLETED,
      er_run_tasks := map (\<lambda>u. if et_task_id u = et_task_id t then t\<lparr>et_state := E_COMPLETED\<rparr> else u) (er_run_tasks run),
      er_results := [res], er_transitions := trs,
      er_timeline := er_timeline run @ [(''Capability Dispatch'', exec_value (xr_status res),
        ''Dispatched '' @ et_task_id t @ '' via Runtime V1 adapter.'')]\<rparr>"
    have run_eq: "engine_execute_chat dispatch ctx p w = (Ok r, \<lparr>ew_published = ew_published w @ [run, fin], ew_outside = e\<rparr>)"
      using run(1-3) d t Inr rr
      by (simp add: engine_execute_chat_def Let_def publish_run_def new_machine_def run_transitions fin_def trs_def)
    have tr: "map (\<lambda>x. (xt_from x, xt_to x)) (er_transitions fin) =
        [(None, E_READY), (Some E_INITIALIZED, E_READY), (Some E_READY, E_RUNNING), (Some E_RUNNING, E_COMPLETED)]"
      using drop by (simp add: fin_def trs_def)
    have fin: "er_state fin = E_COMPLETED" "er_results fin = [res]"
      "er_run_tasks fin = map (\<lambda>u. if et_task_id u = et_task_id t then t\<lparr>et_state := E_COMPLETED\<rparr> else u)
         (build_execution_tasks (ec_blueprint ctx))"
      using run(3) by (simp_all add: fin_def)
    show ?thesis
      using run(2,3) d Inr rr run_eq tr fin by (intro exI [of _ run] conjI) auto
  qed
qed

end
