(* ===== verification/Runtime_V2.thy ===== *)
theory Runtime_V2
  imports Execution
begin

text \<open>
  What a request does under Runtime V2 and behind the router: which task is
  dispatched, what a chat and a stream answer, what is published to the
  diagnostics, and that the router cleans up after itself.
\<close>

section \<open>Preparing a request\<close>

lemma prepared_iff:
  "(\<exists>ctx. prepare_context ids user org p = Ok ctx) \<longleftrightarrow>
     pl_kind p \<noteq> ChatRegenerate \<and> pl_kind p \<noteq> ChatRetry
     \<and> (pl_runtime_version p = ''AgentCorp V2'' \<longrightarrow> is_ok (enforce_governance user org p))"
  by (cases "enforce_governance user org p")
    (auto simp: prepare_context_def build_execution_context_def payload_message_def)

lemma prepared_capabilities:
  assumes "prepare_context ids user org p = Ok ctx"
  shows "bp_capabilities (ec_blueprint ctx) = capabilities_of (normalize_text (pl_message p))"
proof -
  obtain c where c: "build_execution_context ids p = Ok c" "ec_blueprint ctx = ec_blueprint c"
    using assms by (auto simp: prepare_context_def bind_ok_eq_Inr split: if_splits)
  then have "ec_blueprint c = plan (rq_planning ids) (analyze (pl_message p) (rq_cognition ids))"
    by (auto simp: build_execution_context_def payload_message_def split: if_splits)
  with c show ?thesis by (simp add: plan_fields(5) analyze_fields)
qed

lemma prepared_nonempty:
  "prepare_context ids user org p = Ok ctx \<Longrightarrow> bp_capabilities (ec_blueprint ctx) \<noteq> []"
  by (simp add: prepared_capabilities capabilities_known)

section \<open>A chat under Runtime V2\<close>

text \<open>With the native registry the provider task runs the provider executor, which lists models for a chat payload.\<close>

abbreviation native_dispatch ::
  "('e, chat_request, 'r) remote \<Rightarrow> (provider_class \<Rightarrow> 'e \<Rightarrow> (string, string list) result \<times> 'e) \<Rightarrow> string
   \<Rightarrow> (string \<Rightarrow> (run_payload, 'r chat_output, 'e provider_state) executor)
   \<Rightarrow> (run_payload \<Rightarrow> 'e provider_state \<Rightarrow> (string, 'r chat_output) result \<times> 'e provider_state)
   \<Rightarrow> exec_task \<Rightarrow> run_payload \<Rightarrow> 'e provider_state \<Rightarrow> (string, 'r chat_output \<times> exec_result) result \<times> 'e provider_state" where
  "native_dispatch remote models dflt others v1 \<equiv>
     dispatch_chat native_registry (native_executors (provider_exec remote models dflt) others) v1"

lemma dispatch_provider:
  assumes "et_required_capability t = ''provider''"
    and "list_models models dflt (pl_provider p) st = (r, st')"
  shows "\<exists>res. xr_status res = E_COMPLETED \<and> xr_task_id res = et_task_id t \<and>
     native_dispatch remote models dflt others v1 t (ChatPayload p) st =
     (map_sum error_text (\<lambda>ms. (ModelList ms, res)) r, st')"
proof -
  obtain c where c: "dict_get native_registry ''provider'' = Some c" "ca_execution_mode c = NATIVE" "ca_capability_id c = ''provider''"
    using provider_native by blast
  with assms show ?thesis
    by (intro exI [of _ "\<lparr>xr_task_id = et_task_id t, xr_status = E_COMPLETED, xr_runtime = ca_capability_name c\<rparr>"])
      (cases r; simp add: dispatch_chat_def native_executors_def provider_exec_def py_lower_provider)
qed

lemma completed_tasks:
  assumes "bp_capabilities b \<noteq> []" and "t \<in> set (build_execution_tasks b)" and "u \<in> set (build_execution_tasks b)"
  shows "et_state (if et_task_id u = et_task_id t then t\<lparr>et_state := E_COMPLETED\<rparr> else u) =
     (if u = t then E_COMPLETED else E_READY)"
proof -
  have "et_task_id u = et_task_id t \<longleftrightarrow> u = t"
    using tasks_distinct [OF assms(1)] assms(2,3) by (auto simp: distinct_map dest: inj_onD)
  with tasks_ready [OF assms(3)] show ?thesis by simp
qed

text \<open>What the engine makes of a prepared request: the model list of the provider.\<close>

lemma engine_chat_run:
  assumes ctx: "prepare_context ids user org p = Ok ctx"
  shows "\<exists>run. er_state run = E_READY \<and> er_run_tasks run = build_execution_tasks (ec_blueprint ctx) \<and>
     (case list_models models dflt (pl_provider p) (ew_outside w) of
        (Inl x, st) \<Rightarrow> engine_execute_chat (native_dispatch remote models dflt others v1) ctx (ChatPayload p) w =
          (Err (error_text x), \<lparr>ew_published = ew_published w @ [run], ew_outside = st\<rparr>)
      | (Inr ms, st) \<Rightarrow> (\<exists>fin t. t \<in> set (er_run_tasks run) \<and> et_required_capability t = ''provider''
          \<and> er_state fin = E_COMPLETED \<and> map xr_task_id (er_results fin) = [et_task_id t]
          \<and> map et_state (er_run_tasks fin) = map (\<lambda>u. if u = t then E_COMPLETED else E_READY) (er_run_tasks run)
          \<and> \<not> chained (er_transitions fin)
          \<and> engine_execute_chat (native_dispatch remote models dflt others v1) ctx (ChatPayload p) w =
             (Ok (ModelList ms), \<lparr>ew_published = ew_published w @ [run, fin], ew_outside = st\<rparr>)))"
proof -
  note ne = prepared_nonempty [OF ctx]
  obtain r st where lm: "list_models models dflt (pl_provider p) (ew_outside w) = (r, st)" by fastforce
  obtain t where t: "t \<in> set (build_execution_tasks (ec_blueprint ctx))"
      "select_dispatch_task (build_execution_tasks (ec_blueprint ctx)) (Some ''provider'') = Ok t"
      "et_required_capability t = ''provider''"
    using select_provider [OF ne] by blast
  obtain res where res: "xr_task_id res = et_task_id t"
    "native_dispatch remote models dflt others v1 t (ChatPayload p) (ew_outside w) = (map_sum error_text (\<lambda>ms. (ModelList ms, res)) r, st)"
    using dispatch_provider [OF t(3) lm] by blast
  note run = engine_run [OF t(2), of "native_dispatch remote models dflt others v1" "ChatPayload p" w]
  show ?thesis
  proof (cases r)
    case (Inl x)
    with run res(2) lm show ?thesis by simp
  next
    case (Inr ms)
    obtain rn fin where f: "er_state rn = E_READY" "er_run_tasks rn = build_execution_tasks (ec_blueprint ctx)" "er_state fin = E_COMPLETED"
      "er_results fin = [res]"
      "er_run_tasks fin = map (\<lambda>u. if et_task_id u = et_task_id t then t\<lparr>et_state := E_COMPLETED\<rparr> else u) (build_execution_tasks (ec_blueprint ctx))"
      "map (\<lambda>x. (xt_from x, xt_to x)) (er_transitions fin) =
         [(None, E_READY), (Some E_INITIALIZED, E_READY), (Some E_READY, E_RUNNING), (Some E_RUNNING, E_COMPLETED)]"
      "engine_execute_chat (native_dispatch remote models dflt others v1) ctx (ChatPayload p) w =
         (Ok (ModelList ms), \<lparr>ew_published = ew_published w @ [rn, fin], ew_outside = st\<rparr>)"
      using run res(2) Inr by auto
    have "map et_state (er_run_tasks fin) = map (\<lambda>u. if u = t then E_COMPLETED else E_READY) (er_run_tasks rn)"
      unfolding f(2,5) map_map by (rule map_cong [OF refl]) (simp only: comp_def completed_tasks [OF ne t(1)])
    moreover have "\<not> chained (er_transitions fin)"
      using f(6) by (auto simp: map_eq_Cons_conv)
    ultimately show ?thesis
      using f t res(1) Inr lm by (intro exI [of _ rn]) auto
  qed
qed

lemma v2_of_engine:
  "prepare_context ids user org p = Ok ctx \<Longrightarrow> v2_execute_chat dispatch analyse ids user org p w =
     (case engine_execute_chat dispatch ctx (ChatPayload p) w of
        (Inl x, w1) \<Rightarrow> (Err x, w1)
      | (Inr r, w1) \<Rightarrow> (case analyse ctx r w1 of (Inl x, w2) \<Rightarrow> (Err x, w2) | (Inr _, w2) \<Rightarrow> (Ok r, w2)))"
  by (simp add: v2_execute_chat_def)

lemma v2_chat_run:
  assumes ctx: "prepare_context ids user org p = Ok ctx"
  shows "\<exists>run. er_state run = E_READY \<and>
     (case list_models models dflt (pl_provider p) (ew_outside w) of
        (Inl x, st) \<Rightarrow> v2_execute_chat (native_dispatch remote models dflt others v1) analyse ids user org p w =
          (Err (error_text x), \<lparr>ew_published = ew_published w @ [run], ew_outside = st\<rparr>)
      | (Inr ms, st) \<Rightarrow> (\<exists>fin t. t \<in> set (er_run_tasks run) \<and> et_required_capability t = ''provider''
          \<and> er_state fin = E_COMPLETED \<and> map xr_task_id (er_results fin) = [et_task_id t]
          \<and> map et_state (er_run_tasks fin) = map (\<lambda>u. if u = t then E_COMPLETED else E_READY) (er_run_tasks run)
          \<and> \<not> chained (er_transitions fin)
          \<and> v2_execute_chat (native_dispatch remote models dflt others v1) analyse ids user org p w =
             (case analyse ctx (ModelList ms) \<lparr>ew_published = ew_published w @ [run, fin], ew_outside = st\<rparr> of
                (Inl x, w2) \<Rightarrow> (Err x, w2)
              | (Inr _, w2) \<Rightarrow> (Ok (ModelList ms), w2))))"
proof -
  obtain r st where lm: "list_models models dflt (pl_provider p) (ew_outside w) = (r, st)" by fastforce
  show ?thesis
    using engine_chat_run [OF ctx, where models = models and dflt = dflt and w = w and remote = remote and others = others and ?v1.0 = v1]
    unfolding v2_of_engine [OF ctx] lm by (cases r) fastforce+
qed

text \<open>
  C16: a chat under Runtime V2 with the native executors, on every branch.  A request
  to regenerate or retry, and a V2 request that governance refuses, is an error
  and nothing is published or sent.  Every other request publishes one READY run
  and then asks the resolved provider for its list of models.  If that raises, the
  error is returned, no FAILED run is ever published and nothing is analysed; if it answers, the
  engine has run: only the task of the provider is completed, the tasks of all other
  required capabilities stay READY although the run it publishes says COMPLETED, and
  its history is not a chain of transitions.  Then the analysis of the run is called with the list of models:
  if it raises, its exception is what the chat ends with, although the engine has answered; otherwise the
  response of the chat is that list, never a model's answer to the message.  Nothing else is published
  or sent than by the engine and the analysis, whatever the analysis does.
\<close>

theorem v2_chat_outcome:
  "if pl_kind p = ChatRegenerate \<or> pl_kind p = ChatRetry
      \<or> pl_runtime_version p = ''AgentCorp V2'' \<and> \<not> is_ok (enforce_governance user org p)
   then (\<exists>x. v2_execute_chat (native_dispatch remote models dflt others v1) analyse ids user org p w = (Err x, w))
   else (\<exists>ctx run. prepare_context ids user org p = Ok ctx \<and> er_state run = E_READY \<and>
     (case list_models models dflt (pl_provider p) (ew_outside w) of
        (Inl x, st) \<Rightarrow> v2_execute_chat (native_dispatch remote models dflt others v1) analyse ids user org p w =
          (Err (error_text x), \<lparr>ew_published = ew_published w @ [run], ew_outside = st\<rparr>)
      | (Inr ms, st) \<Rightarrow> (\<exists>fin t. t \<in> set (er_run_tasks run) \<and> et_required_capability t = ''provider''
          \<and> er_state fin = E_COMPLETED \<and> map xr_task_id (er_results fin) = [et_task_id t]
          \<and> map et_state (er_run_tasks fin) = map (\<lambda>u. if u = t then E_COMPLETED else E_READY) (er_run_tasks run)
          \<and> \<not> chained (er_transitions fin)
          \<and> v2_execute_chat (native_dispatch remote models dflt others v1) analyse ids user org p w =
             (case analyse ctx (ModelList ms) \<lparr>ew_published = ew_published w @ [run, fin], ew_outside = st\<rparr> of
                (Inl x, w2) \<Rightarrow> (Err x, w2)
              | (Inr _, w2) \<Rightarrow> (Ok (ModelList ms), w2)))))"
proof (cases "\<exists>ctx. prepare_context ids user org p = Ok ctx")
  case True
  then obtain ctx where ctx: "prepare_context ids user org p = Ok ctx" by blast
  have ok: "\<not> (pl_kind p = ChatRegenerate \<or> pl_kind p = ChatRetry
      \<or> pl_runtime_version p = ''AgentCorp V2'' \<and> \<not> is_ok (enforce_governance user org p))"
    using True unfolding prepared_iff by blast
  show ?thesis
    unfolding if_not_P [OF ok]
    using v2_chat_run [OF ctx, where models = models and dflt = dflt and w = w and remote = remote and others = others and ?v1.0 = v1
        and analyse = analyse] ctx
    by (elim exE conjE) (intro exI conjI, assumption+)
next
  case False
  then obtain x where x: "prepare_context ids user org p = Err x" by (cases "prepare_context ids user org p") auto
  from False show ?thesis unfolding prepared_iff by (auto simp: v2_execute_chat_def x)
qed

section \<open>A stream under Runtime V2\<close>

lemma lower_caps:
  "py_lower ''Memory'' = ''memory''" "py_lower ''Knowledge'' = ''knowledge''" "py_lower ''RAG'' = ''rag''" "py_lower ''Workflow'' = ''workflow''"
  "py_lower ''Tool Runtime'' = ''tool runtime''" "py_lower ''Multi-Agent'' = ''multi-agent''" "py_lower ''Provider'' = ''provider''"
  "py_lower ''Streaming'' = ''streaming''"
  by code_simp+

lemma lower_ids:
  "py_lower ''tool runtime'' = ''tool runtime''" "py_lower ''multi-agent'' = ''multi-agent''" "py_lower ''streaming'' = ''streaming''"
  by code_simp+

lemma known_cases:
  "c \<in> set (map fst capability_keywords) \<Longrightarrow>
     c \<in> {''Memory'', ''Knowledge'', ''RAG'', ''Workflow'', ''Tool Runtime'', ''Multi-Agent'', ''Provider'', ''Streaming''}"
  by (simp add: capability_keywords_def)

lemma registered_known:
  "map (\<lambda>c. map_option ca_capability_id (dict_get native_registry c))
     [''memory'', ''knowledge'', ''rag'', ''workflow'', ''tool runtime'', ''multi-agent'', ''provider'', ''streaming'']
   = [Some ''memory'', Some ''knowledge'', Some ''rag'', Some ''workflow'', None, None, Some ''provider'', Some ''streaming'']"
  by code_simp

lemma registry_native: "dict_get native_registry c = Some m \<Longrightarrow> ca_execution_mode m = NATIVE"
  by (auto simp: native_registry_def register_capability_def dict_get_set split: if_splits)

lemma lower_streaming: "c \<in> set (map fst capability_keywords) \<Longrightarrow> py_lower c = ''streaming'' \<longleftrightarrow> c = ''Streaming''"
  by (drule known_cases, elim insertE emptyE) (simp_all add: lower_caps)

lemma stream_task:
  assumes caps: "bp_capabilities b \<noteq> []" "set (bp_capabilities b) \<subseteq> set (map fst capability_keywords)"
  shows "\<exists>t. select_dispatch_task (build_execution_tasks b) (Some ''streaming'') = Ok t
    \<and> et_required_capability t = py_lower (if ''Streaming'' \<in> set (bp_capabilities b) then ''Streaming'' else hd (bp_capabilities b))"
proof -
  note map_caps = tasks_capabilities [OF caps(1)]
  have ne: "build_execution_tasks b \<noteq> []" using map_caps caps(1) by auto
  note low = lower_caps(8)
  show ?thesis
  proof (cases "''Streaming'' \<in> set (bp_capabilities b)")
    case True
    then have "''streaming'' \<in> set (map et_required_capability (build_execution_tasks b))"
      unfolding map_caps using low by force
    from select_present [OF this] True low show ?thesis by auto
  next
    case False
    then have "py_lower c \<noteq> ''streaming''" if "c \<in> set (bp_capabilities b)" for c
      using lower_streaming [of c] caps(2) that by blast
    then have "\<forall>c\<in>set (bp_capabilities b). ''streaming'' \<noteq> py_lower c" by metis
    then have "''streaming'' \<notin> py_lower ` set (bp_capabilities b)" by (simp only: image_iff) blast
    then have "''streaming'' \<notin> set (map et_required_capability (build_execution_tasks b))"
      unfolding map_caps by (simp only: set_append set_map) simp
    from select_absent [OF this ne] have sel: "select_dispatch_task (build_execution_tasks b) (Some ''streaming'') = Ok (hd (build_execution_tasks b))" .
    have "et_required_capability (hd (build_execution_tasks b)) = hd (map et_required_capability (build_execution_tasks b))"
      using ne by (simp add: hd_map)
    also have "\<dots> = py_lower (hd (bp_capabilities b))" unfolding map_caps using caps(1) by (cases "bp_capabilities b") auto
    finally show ?thesis using sel False by auto
  qed
qed

definition streams_as_v1 :: "string list \<Rightarrow> bool" where
  "streams_as_v1 caps = (''Streaming'' \<in> set caps \<or> hd caps = ''Tool Runtime'' \<or> hd caps = ''Multi-Agent'')"

lemma dispatch_stream_known:
  assumes "c \<in> set (map fst capability_keywords)" and t: "et_required_capability t = py_lower c"
  shows "dispatch_stream native_registry v1 t p e =
     (if c = ''Streaming'' \<or> c = ''Tool Runtime'' \<or> c = ''Multi-Agent'' then v1 p e else (([], Some ''NotImplementedError''), e))"
proof -
  have get: "\<exists>m. dict_get native_registry k = Some m \<and> ca_capability_id m = k \<and> ca_execution_mode m = NATIVE"
    if "k \<in> {''memory'', ''knowledge'', ''rag'', ''workflow'', ''provider'', ''streaming''}" for k
    using that registered_known registry_native [of k] by (elim insertE emptyE) auto
  have none: "dict_get native_registry ''tool runtime'' = None" "dict_get native_registry ''multi-agent'' = None"
    using registered_known by simp_all
  have regroup: "x \<in> {x1, x2, x3, x4, x5, x6, x7, x8} \<Longrightarrow> x = x5 \<or> x = x6 \<or> x = x8 \<or> x \<in> {x1, x2, x3, x4, x7}"
    for x x1 x2 x3 x4 x5 x6 x7 x8 :: string by auto
  from regroup [OF known_cases [OF assms(1)]] show ?thesis
  proof (elim disjE)
    assume c: "c \<in> {''Memory'', ''Knowledge'', ''RAG'', ''Workflow'', ''Provider''}"
    then have "py_lower c \<in> {''memory'', ''knowledge'', ''rag'', ''workflow'', ''provider''}"
      by (elim insertE emptyE) (simp_all add: lower_caps)
    then obtain m where "dict_get native_registry (py_lower c) = Some m" "ca_capability_id m = py_lower c" "ca_execution_mode m = NATIVE"
      "py_lower c \<noteq> ''streaming''" using get [of "py_lower c"] by (elim insertE emptyE) auto
    moreover have "\<not> (c = ''Streaming'' \<or> c = ''Tool Runtime'' \<or> c = ''Multi-Agent'')" using c by (elim insertE emptyE) simp_all
    ultimately show ?thesis by (simp add: dispatch_stream_def t)
  next
    assume "c = ''Streaming''"
    with get [of "''streaming''"] show ?thesis by (auto simp: dispatch_stream_def t lower_caps lower_ids)
  qed (simp_all add: dispatch_stream_def t lower_caps lower_ids none)
qed

text \<open>
  A stream under Runtime V2.  A V2 request that governance refuses yields no
  event and ends with an error, and nothing is published.  Otherwise one READY
  run is published, and never another; the events are exactly those of the
  Runtime V1 stream when the message asks for streaming, or when the first
  capability found is one the registry does not know (tools or multi-agent);
  every other message, a plain one included, gets no event and the error of an
  executor that does not implement streaming.
\<close>

theorem v2_stream_outcome:
  assumes "pl_kind p = ChatStream"
  shows "if pl_runtime_version p = ''AgentCorp V2'' \<and> \<not> is_ok (enforce_governance user org p)
     then (\<exists>x. v2_execute_stream (dispatch_stream native_registry v1) ids user org p w = (([], Some x), w))
     else (\<exists>run. er_state run = E_READY \<and>
       v2_execute_stream (dispatch_stream native_registry v1) ids user org p w =
         (if streams_as_v1 (capabilities_of (normalize_text (pl_message p)))
          then (fst (v1 (ChatPayload p) (ew_outside w)),
                \<lparr>ew_published = ew_published w @ [run], ew_outside = snd (v1 (ChatPayload p) (ew_outside w))\<rparr>)
          else (([], Some ''NotImplementedError''), \<lparr>ew_published = ew_published w @ [run], ew_outside = ew_outside w\<rparr>)))"
proof (cases "prepare_context ids user org p")
  case (Inl x)
  then have "\<not> (\<exists>ctx. prepare_context ids user org p = Ok ctx)" by simp
  with assms show ?thesis unfolding prepared_iff by (simp add: v2_execute_stream_def Inl)
next
  case (Inr ctx)
  then have ok: "\<not> (pl_runtime_version p = ''AgentCorp V2'' \<and> \<not> is_ok (enforce_governance user org p))"
    using prepared_iff [of ids user org p] by auto
  let ?caps = "capabilities_of (normalize_text (pl_message p))"
  have caps: "bp_capabilities (ec_blueprint ctx) = ?caps" by (rule prepared_capabilities [OF Inr])
  note known = capabilities_known [of "normalize_text (pl_message p)"]
  let ?c = "if ''Streaming'' \<in> set ?caps then ''Streaming'' else hd ?caps"
  obtain t where t: "select_dispatch_task (build_execution_tasks (ec_blueprint ctx)) (Some ''streaming'') = Ok t"
    "et_required_capability t = py_lower ?c"
    using stream_task [of "ec_blueprint ctx"] known unfolding caps by blast
  have "hd ?caps \<in> set ?caps" using known by simp
  then have c: "?c \<in> set (map fst capability_keywords)" using known by auto
  have v1: "?c = ''Streaming'' \<or> ?c = ''Tool Runtime'' \<or> ?c = ''Multi-Agent'' \<longleftrightarrow> streams_as_v1 ?caps"
    using \<open>hd ?caps \<in> set ?caps\<close> by (auto simp: streams_as_v1_def)
  obtain run where run: "initialize_run ctx = Ok run" "er_state run = E_READY" "er_run_tasks run = build_execution_tasks (ec_blueprint ctx)"
    by (simp add: initialize_run_def Let_def new_machine_def run_transitions)
  have "v2_execute_stream (dispatch_stream native_registry v1) ids user org p w =
      (fst (dispatch_stream native_registry v1 t (ChatPayload p) (ew_outside w)),
       \<lparr>ew_published = ew_published w @ [run], ew_outside = snd (dispatch_stream native_registry v1 t (ChatPayload p) (ew_outside w))\<rparr>)"
    by (simp add: v2_execute_stream_def Inr engine_execute_stream_def run t publish_run_def Let_def split_beta)
  then show ?thesis
    unfolding if_not_P [OF ok] dispatch_stream_known [OF c t(2)] v1 using run(2) by (intro exI [of _ run]) auto
qed

definition demo_payload :: chat_payload where
  "demo_payload = \<lparr>pl_kind = ChatStream, pl_message = ''hi'', pl_provider = None, pl_model = None, pl_temperature = None, pl_top_p = None,
     pl_max_tokens = None, pl_runtime_version = ''AgentCorp V1'', pl_tool_choice = None, pl_agent_id = Some 1\<rparr>"

definition demo_v1_stream :: "run_payload \<Rightarrow> nat \<Rightarrow> string stream \<times> nat" where
  "demo_v1_stream p n = (([''token''], None), Suc n)"

definition demo_ids :: request_ids where
  "demo_ids = \<lparr>rq_execution_id = ''e'', rq_cognition = demo_meta,
     rq_planning = \<lparr>pm_runtime_version = ''AgentCorp V1'', pm_planning_version = ''1.0'', pm_request_id = ''r'', pm_trace_id = ''t'', pm_created_at = []\<rparr>\<rparr>"

definition demo_user :: gov_user where
  "demo_user = \<lparr>gu_id = 1, gu_is_active = True, gu_is_superuser = False\<rparr>"

text \<open>A greeting is not streamed: no token of the Runtime V1 stream is sent.\<close>

theorem v2_stream_outcome_witness:
  "\<exists>run. v2_execute_stream (dispatch_stream native_registry demo_v1_stream) demo_ids demo_user 1 demo_payload \<lparr>ew_published = [], ew_outside = 0\<rparr> =
     (([], Some ''NotImplementedError''), \<lparr>ew_published = [run], ew_outside = 0\<rparr>)"
proof -
  have "capabilities_of (normalize_text ''hi'') = [''Provider'']" by code_simp
  then have "\<not> streams_as_v1 (capabilities_of (normalize_text (pl_message demo_payload)))"
    by (simp add: streams_as_v1_def demo_payload_def)
  with v2_stream_outcome [of demo_payload demo_user 1 demo_v1_stream demo_ids "\<lparr>ew_published = [], ew_outside = 0\<rparr>"]
  show ?thesis by (auto simp: demo_payload_def)
qed

section \<open>Router\<close>

lemma resolve_v2_iff: "resolve_v2 version \<longleftrightarrow> version = Some ''AgentCorp V2''"
  by (cases version) (auto simp: resolve_v2_def or_str_def split: list.splits)

text \<open>
  The router runs exactly one of the two runtimes, Runtime V2 for its exact
  version name and Runtime V1 for every other name and for none, returns what it
  returns, and leaves the executions, analyses and planning runs of the
  diagnostics as they were, whether the runtime answers or raises, when the
  identifiers it draws are new.
\<close>

theorem router_dispatch_and_cleanup:
  assumes "dict_get (dx_executions d) xid = None" and "dict_get (dx_analyses d) aid = None" and "dict_get (dx_plannings d) pid = None"
  shows "router_execute_chat xid aid pid v1 v2 version (d, w) =
    (let (r, w') = (if version = Some ''AgentCorp V2'' then v2 w else v1 w) in (r, d, w'))"
proof -
  obtain r w' where r: "(if version = Some ''AgentCorp V2'' then v2 w else v1 w) = (r, w')" by fastforce
  show ?thesis
    using assms r
    by (cases "is_ok r"; cases "version = Some ''AgentCorp V2''")
      (simp_all add: router_execute_chat_def Let_def resolve_v2_iff delete_update_same AList.delete_idem dict_get_None_iff)
qed

theorem router_dispatch_and_cleanup_witness:
  "router_execute_chat ''x'' ''a'' ''p'' (\<lambda>n. (Ok ''v1'', n)) (\<lambda>n. (Err ''refused'', Suc n)) (Some ''AgentCorp V2'')
     (\<lparr>dx_executions = [(''y'', ''RUNNING'')], dx_analyses = [], dx_plannings = []\<rparr>, 0) =
   (Err ''refused'', \<lparr>dx_executions = [(''y'', ''RUNNING'')], dx_analyses = [], dx_plannings = []\<rparr>, 1)"
  by (subst router_dispatch_and_cleanup) simp_all

end
