(* ===== verification/Chat.thy ===== *)
theory Chat
  imports Governance Providers Tool_Engine
begin

text \<open>
  The chat engine: conversation and message repositories, the context and prompt
  builders and the chat service (\<open>services/chat_service.py\<close>).

  The database is a record of tables beside the tool registry and the state of the
  provider layer; the keys the database gives to new rows are an argument.  The
  memory, knowledge and retrieval services are functions on the state of the
  outside world, each of them optional as in the constructor.  Tools are
  discovered and run by the tool engine and answers come from the provider
  service, both as modelled.  Temperatures are in hundredths; time stamps and
  logging are left out.  The values of an incoming request are within their schema's
  bounds; those of an agent's row need not be, and building the provider's request
  from them can fail.
\<close>

section \<open>Rows\<close>

record conversation =
  cv_organization_id :: int
  cv_agent_id :: int
  cv_user_id :: int
  cv_title :: "string option"
  cv_runtime_version :: string

record message =
  ms_conversation_id :: int
  ms_role :: string
  ms_content :: string
  ms_provider :: "string option"
  ms_model_used :: "string option"
  ms_finish_reason :: "string option"
  ms_prompt_tokens :: "int option"
  ms_completion_tokens :: "int option"
  ms_total_tokens :: "int option"

record chat_agent =
  am_organization_id :: int
  am_system_prompt :: string
  am_model_name :: string
  am_temperature :: int
  am_max_tokens :: int
  am_is_active :: bool

record usage =
  ug_prompt_tokens :: int
  ug_completion_tokens :: int
  ug_total_tokens :: int

record tool_call =
  tc_id :: string
  tc_name :: string
  tc_arguments :: arguments

record ai_response =
  re_model :: string
  re_message :: chat_message
  re_finish_reason :: "string option"
  re_usage :: "usage option"
  re_tool_calls :: "tool_call list"

record 'e chat_db =
  cd_conversations :: "conversation table"
  cd_messages :: "message table"
  cd_agents :: "chat_agent table"
  cd_access :: acdb
  cd_registry :: registry
  cd_providers :: "'e provider_state"

record row_keys =
  key_conversation :: "conversation table \<Rightarrow> int"
  key_message :: "message table \<Rightarrow> int"

record 'e collaborators =
  co_memory :: "(int \<Rightarrow> int \<Rightarrow> string \<Rightarrow> 'e \<Rightarrow> (string, (string option \<times> string) list) result \<times> 'e) option"
  co_knowledge :: "(int \<Rightarrow> 'e \<Rightarrow> (string, (int \<times> string) list) result \<times> 'e) option"
  co_rag :: "(int \<Rightarrow> string \<Rightarrow> 'e \<Rightarrow> (string, string) result \<times> 'e) option"
  co_tools :: bool
  co_remote :: "('e, chat_request, ai_response) remote"
  co_default_provider :: string

datatype chat_error = ChatHttp int string | ChatRaised string

section \<open>Repositories\<close>

definition get_by_conversation :: "int \<Rightarrow> message table \<Rightarrow> message table" where
  "get_by_conversation c t = sort_key fst (repo_where (\<lambda>m. ms_conversation_id m = c) t)"

definition new_message :: "int \<Rightarrow> string \<Rightarrow> string \<Rightarrow> message" where
  "new_message c role content =
     \<lparr>ms_conversation_id = c, ms_role = role, ms_content = content, ms_provider = None, ms_model_used = None,
      ms_finish_reason = None, ms_prompt_tokens = None, ms_completion_tokens = None, ms_total_tokens = None\<rparr>"

definition add_message :: "row_keys \<Rightarrow> message \<Rightarrow> 'e chat_db \<Rightarrow> int \<times> 'e chat_db" where
  "add_message k msg db =
     (let i = key_message k (cd_messages db) in (i, db\<lparr>cd_messages := repo_create i msg (cd_messages db)\<rparr>))"

definition create_user_message :: "row_keys \<Rightarrow> int \<Rightarrow> string \<Rightarrow> 'e chat_db \<Rightarrow> int \<times> 'e chat_db" where
  "create_user_message k c content db = add_message k (new_message c ''user'' content) db"

definition create_assistant_message ::
  "row_keys \<Rightarrow> int \<Rightarrow> string \<Rightarrow> string option \<Rightarrow> string option \<Rightarrow> string option \<Rightarrow> int option \<Rightarrow> int option \<Rightarrow> int option
   \<Rightarrow> 'e chat_db \<Rightarrow> int \<times> 'e chat_db" where
  "create_assistant_message k c content prov mdl fin pt ct tt db =
     add_message k ((new_message c ''assistant'' content)\<lparr>ms_provider := prov, ms_model_used := mdl, ms_finish_reason := fin,
       ms_prompt_tokens := pt, ms_completion_tokens := ct, ms_total_tokens := tt\<rparr>) db"

definition get_last_message :: "string \<Rightarrow> int \<Rightarrow> message table \<Rightarrow> (int \<times> message) option" where
  "get_last_message role c t =
     (case sort_key (\<lambda>im. - fst im) (repo_where (\<lambda>m. ms_conversation_id m = c \<and> ms_role m = role) t) of
        [] \<Rightarrow> None | im # _ \<Rightarrow> Some im)"

definition get_last_user_message :: "int \<Rightarrow> message table \<Rightarrow> (int \<times> message) option" where
  "get_last_user_message c t = get_last_message ''user'' c t"

definition get_last_assistant_message :: "int \<Rightarrow> message table \<Rightarrow> (int \<times> message) option" where
  "get_last_assistant_message c t = get_last_message ''assistant'' c t"

definition count_by_conversation :: "int \<Rightarrow> message table \<Rightarrow> nat" where
  "count_by_conversation c t = length (repo_where (\<lambda>m. ms_conversation_id m = c) t)"

definition get_by_id_for_org :: "int \<Rightarrow> int \<Rightarrow> conversation table \<Rightarrow> conversation option" where
  "get_by_id_for_org c org t =
     map_option snd (find (\<lambda>(i, v). i = c \<and> cv_organization_id v = org) t)"

definition get_with_messages ::
  "int \<Rightarrow> int \<Rightarrow> int \<Rightarrow> int \<Rightarrow> 'e chat_db \<Rightarrow> conversation option \<times> message table \<times> nat" where
  "get_with_messages c org offset limit db =
     (case get_by_id_for_org c org (cd_conversations db) of
        None \<Rightarrow> (None, [], 0)
      | Some v \<Rightarrow> (Some v, take (nat limit) (drop (nat offset) (get_by_conversation c (cd_messages db))),
                   count_by_conversation c (cd_messages db)))"

section \<open>Context and prompt\<close>

definition plain :: "string \<Rightarrow> string \<Rightarrow> chat_message" where
  "plain role content = \<lparr>mg_role = role, mg_content = content, mg_name = None, mg_tool_call_id = None\<rparr>"

definition message_role :: "string \<Rightarrow> string" where
  "message_role r =
     (if py_lower r \<in> {''system'', ''user'', ''assistant'', ''tool''} then py_lower r else ''user'')"

definition build_context :: "message table \<Rightarrow> chat_message list" where
  "build_context t = map (\<lambda>(_, m). plain (message_role (ms_role m)) (ms_content m)) t"

definition section_of :: "string \<Rightarrow> string option \<Rightarrow> string list" where
  "section_of title text = (if or_str text [] = [] then [] else [title @ or_str text []])"

definition format_supplemental_context :: "string option \<Rightarrow> string option \<Rightarrow> string option \<Rightarrow> string" where
  "format_supplemental_context memory knowledge tool =
     py_join (CHR ''\<newline>'' # CHR ''\<newline>'' # [])
       (section_of (''Relevant memory:'' @ [CHR ''\<newline>'']) memory @
        section_of (''Retrieved knowledge:'' @ [CHR ''\<newline>'']) knowledge @
        section_of (''Available tools:'' @ [CHR ''\<newline>'']) tool)"

definition build_prompt ::
  "string \<Rightarrow> chat_message list \<Rightarrow> string \<Rightarrow> string option \<Rightarrow> string option \<Rightarrow> string option \<Rightarrow> chat_message list" where
  "build_prompt system_prompt history user_message memory knowledge tool =
     (if system_prompt = [] then [] else [plain ''system'' system_prompt]) @
     (let extra = format_supplemental_context memory knowledge tool in if extra = [] then [] else [plain ''system'' extra]) @
     history @ [plain ''user'' user_message]"

section \<open>Runtime context\<close>

record runtime_context =
  rc_memory :: "string option"
  rc_knowledge :: "string option"
  rc_tool_context :: "string option"
  rc_tools :: "tool_definition list"

definition outside :: "('e \<Rightarrow> 'x \<times> 'e) \<Rightarrow> 'e chat_db \<Rightarrow> 'x \<times> 'e chat_db" where
  "outside f db =
     (let (x, e) = f (pr_world (cd_providers db)) in (x, db\<lparr>cd_providers := (cd_providers db)\<lparr>pr_world := e\<rparr>\<rparr>))"

definition memory_line :: "string option \<times> string \<Rightarrow> string" where
  "memory_line m = (let (title, content) = m in
     if or_str title [] = [] then ''- '' @ content else ''- '' @ or_str title [] @ '': '' @ content)"

definition retrieve_memory_context :: "'e collaborators \<Rightarrow> int \<Rightarrow> int \<Rightarrow> string \<Rightarrow> 'e \<Rightarrow> string option \<times> 'e" where
  "retrieve_memory_context co org agent_id query e =
     (case co_memory co of
        None \<Rightarrow> (None, e)
      | Some f \<Rightarrow>
          (case f org agent_id query e of
             (Inl _, e1) \<Rightarrow> (None, e1)
           | (Inr ms, e1) \<Rightarrow> (if ms = [] then None else Some (py_join [CHR ''\<newline>''] (map memory_line ms)), e1)))"

fun kb_contexts :: "(int \<Rightarrow> string \<Rightarrow> 'e \<Rightarrow> (string, string) result \<times> 'e) \<Rightarrow> string \<Rightarrow> (int \<times> string) list \<Rightarrow> 'e \<Rightarrow> string list \<times> 'e" where
  "kb_contexts rag query [] e = ([], e)"
| "kb_contexts rag query ((kb, name) # kbs) e =
     (case rag kb query e of
        (Inl _, e1) \<Rightarrow> kb_contexts rag query kbs e1
      | (Inr text, e1) \<Rightarrow>
          (let (rest, e2) = kb_contexts rag query kbs e1
           in (if text = [] then rest else (''Knowledge base: '' @ name @ [CHR ''\<newline>''] @ text) # rest, e2)))"

definition retrieve_knowledge_context :: "'e collaborators \<Rightarrow> int \<Rightarrow> string \<Rightarrow> 'e \<Rightarrow> string option \<times> 'e" where
  "retrieve_knowledge_context co org query e =
     (case (co_knowledge co, co_rag co) of
        (Some kbs, Some rag) \<Rightarrow>
          (case kbs org e of
             (Inl _, e1) \<Rightarrow> (None, e1)
           | (Inr ks, e1) \<Rightarrow>
               (let (texts, e2) = kb_contexts rag query ks e1
                in (if texts = [] then None else Some (py_join [CHR ''\<newline>'', CHR ''\<newline>''] texts), e2)))
      | _ \<Rightarrow> (None, e))"

definition discover_tool_metadata :: "'e collaborators \<Rightarrow> int \<Rightarrow> 'e chat_db \<Rightarrow> tool_metadata list \<times> 'e chat_db" where
  "discover_tool_metadata co agent_id db =
     (if co_tools co
      then (let (mds, reg) = discover_agent_tools agent_id (cd_access db) (cd_registry db) in (mds, db\<lparr>cd_registry := reg\<rparr>))
      else ([], db))"

definition format_tool_context :: "tool_metadata list \<Rightarrow> string option" where
  "format_tool_context mds =
     (if mds = [] then None
      else Some (py_join [CHR ''\<newline>''] (map (\<lambda>t. ''- '' @ tmd_name t @ '': '' @ tmd_description t) mds)))"

definition to_provider_tool_definition :: "tool_metadata \<Rightarrow> tool_definition" where
  "to_provider_tool_definition t =
     \<lparr>tf_name = tmd_name t, tf_description = tmd_description t,
      tf_parameters = map (\<lambda>(n, p). (n, \<lparr>tp_type = pm_type p, tp_description = pm_description p, tp_enum = pm_enum p\<rparr>))
        (sch_properties (tmd_parameters t)),
      tf_required = sch_required (tmd_parameters t)\<rparr>"

definition build_runtime_context :: "'e collaborators \<Rightarrow> int \<Rightarrow> int \<Rightarrow> string \<Rightarrow> 'e chat_db \<Rightarrow> runtime_context \<times> 'e chat_db" where
  "build_runtime_context co org agent_id query db =
     (let (mem, db1) = outside (retrieve_memory_context co org agent_id query) db;
          (knw, db2) = outside (retrieve_knowledge_context co org query) db1;
          (mds, db3) = discover_tool_metadata co agent_id db2
      in (\<lparr>rc_memory = mem, rc_knowledge = knw, rc_tool_context = format_tool_context mds,
           rc_tools = map to_provider_tool_definition mds\<rparr>, db3))"

section \<open>Execution pipeline\<close>

record response_schema =
  rp_conversation_id :: int
  rp_runtime_version :: string
  rp_message_id :: int
  rp_content :: string
  rp_provider :: string
  rp_model :: string
  rp_usage :: usage
  rp_finish_reason :: string

definition ask_provider :: "'e collaborators \<Rightarrow> chat_request \<Rightarrow> string option \<Rightarrow> 'e chat_db \<Rightarrow> (string, ai_response) result \<times> 'e chat_db" where
  "ask_provider co q override db =
     (let (r, ps) = chat (co_remote co) (co_default_provider co) q override ''AUTO'' (cd_providers db)
      in (map_sum error_text (\<lambda>a. a) r, db\<lparr>cd_providers := ps\<rparr>))"

definition tool_request :: "tool_call \<Rightarrow> tool_call_request" where
  "tool_request c = \<lparr>rq_call_id = tc_id c, rq_tool_name = tc_name c, rq_arguments = tc_arguments c, rq_agent_id = None,
     rq_organization_id = None, rq_conversation_id = None, rq_recursion_depth = 0\<rparr>"

definition tool_message :: "tool_call_result \<Rightarrow> chat_message" where
  "tool_message r = \<lparr>mg_role = ''tool'', mg_content = rs_content r, mg_name = Some (rs_tool_name r), mg_tool_call_id = Some (rs_call_id r)\<rparr>"

definition execute_tool_loop ::
  "'e collaborators \<Rightarrow> chat_request \<Rightarrow> ai_response \<Rightarrow> int \<Rightarrow> int \<Rightarrow> int \<Rightarrow> string option \<Rightarrow> 'e chat_db
   \<Rightarrow> (string, ai_response) result \<times> 'e chat_db" where
  "execute_tool_loop co q resp org agent_id conv override db =
     (if \<not> co_tools co \<or> re_tool_calls resp = [] then (Ok resp, db)
      else (let ((results, _), reg) =
                  execute_batch agent_id org conv (cd_access db) (map tool_request (re_tool_calls resp)) (cd_registry db);
                msgs = cq_messages q @ (if mg_content (re_message resp) = [] then [] else [re_message resp]) @ map tool_message results
            in ask_provider co (q\<lparr>cq_messages := msgs\<rparr>) override (db\<lparr>cd_registry := reg\<rparr>)))"

definition provider_used :: "ai_response \<Rightarrow> string option \<Rightarrow> string" where
  "provider_used a override =
     (if py_in ''/'' (re_model a) then takeWhile (\<lambda>c. c \<noteq> CHR ''/'') (re_model a) else or_str override ''unknown'')"

definition usage_or_zero :: "usage option \<Rightarrow> usage" where
  "usage_or_zero u = (case u of None \<Rightarrow> \<lparr>ug_prompt_tokens = 0, ug_completion_tokens = 0, ug_total_tokens = 0\<rparr> | Some g \<Rightarrow> g)"

record overrides =
  ov_provider :: "string option"
  ov_model :: "string option"
  ov_temperature :: "int option"
  ov_top_p :: "int option"
  ov_max_tokens :: "int option"

definition chat_request_for :: "chat_agent \<Rightarrow> overrides \<Rightarrow> runtime_context \<Rightarrow> chat_message list \<Rightarrow> string \<Rightarrow> chat_request" where
  "chat_request_for ag ov rc history user_message =
     \<lparr>cq_model = or_str (ov_model ov) (am_model_name ag),
      cq_messages = build_prompt (am_system_prompt ag) history user_message (rc_memory rc) (rc_knowledge rc) (rc_tool_context rc),
      cq_temperature = (case ov_temperature ov of None \<Rightarrow> am_temperature ag | Some t \<Rightarrow> t),
      cq_max_tokens = Some (or_int (ov_max_tokens ov) (am_max_tokens ag)),
      cq_top_p = ov_top_p ov, cq_tools = rc_tools rc\<rparr>"

text \<open>The bounds of the provider's request; the schema raises \<open>ValidationError\<close> when one is missed.\<close>

definition request_in_bounds :: "chat_request \<Rightarrow> bool" where
  "request_in_bounds q \<longleftrightarrow> 0 \<le> cq_temperature q \<and> cq_temperature q \<le> 200
     \<and> (case cq_max_tokens q of None \<Rightarrow> True | Some n \<Rightarrow> 0 < n)
     \<and> (case cq_top_p q of None \<Rightarrow> True | Some t \<Rightarrow> 0 \<le> t \<and> t \<le> 100)"

definition persist_answer ::
  "row_keys \<Rightarrow> int \<Rightarrow> conversation \<Rightarrow> string option \<Rightarrow> ai_response \<Rightarrow> 'e chat_db \<Rightarrow> response_schema \<times> 'e chat_db" where
  "persist_answer k c v override a db =
     (let u = usage_or_zero (re_usage a);
          prov = provider_used a override;
          fin = or_str (re_finish_reason a) ''stop'';
          (i, db') = create_assistant_message k c (mg_content (re_message a)) (Some prov) (Some (re_model a)) (Some fin)
            (Some (ug_prompt_tokens u)) (Some (ug_completion_tokens u)) (Some (ug_total_tokens u)) db
      in (\<lparr>rp_conversation_id = c, rp_runtime_version = cv_runtime_version v, rp_message_id = i,
           rp_content = mg_content (re_message a), rp_provider = prov, rp_model = re_model a, rp_usage = u,
           rp_finish_reason = fin\<rparr>, db'))"

definition finish_turn ::
  "'e collaborators \<Rightarrow> row_keys \<Rightarrow> int \<Rightarrow> conversation \<Rightarrow> chat_request \<Rightarrow> string option \<Rightarrow> (string, ai_response) result \<times> 'e chat_db
   \<Rightarrow> (chat_error, response_schema) result \<times> 'e chat_db" where
  "finish_turn co k c v q override answer =
     (case answer of
        (Inl x, db3) \<Rightarrow> (Err (ChatHttp 502 (''AI provider execution failed: '' @ x)), db3)
      | (Inr a, db3) \<Rightarrow>
          (case (if re_tool_calls a \<noteq> [] \<and> co_tools co
                 then execute_tool_loop co q a (cv_organization_id v) (cv_agent_id v) c override db3
                 else (Ok a, db3)) of
             (Inl x, db4) \<Rightarrow> (Err (ChatRaised x), db4)
           | (Inr b, db4) \<Rightarrow> (let (r, db5) = persist_answer k c v override b db4 in (Ok r, db5))))"

definition ask_turn ::
  "'e collaborators \<Rightarrow> row_keys \<Rightarrow> int \<Rightarrow> conversation \<Rightarrow> chat_request \<Rightarrow> string option \<Rightarrow> 'e chat_db
   \<Rightarrow> (chat_error, response_schema) result \<times> 'e chat_db" where
  "ask_turn co k c v q override db =
     (if \<not> request_in_bounds q then (Err (ChatRaised ''ValidationError''), db)
      else finish_turn co k c v q override (ask_provider co q override db))"

definition execute_and_persist ::
  "'e collaborators \<Rightarrow> row_keys \<Rightarrow> int \<Rightarrow> conversation \<Rightarrow> chat_agent \<Rightarrow> string \<Rightarrow> overrides \<Rightarrow> bool \<Rightarrow> 'e chat_db
   \<Rightarrow> (chat_error, response_schema) result \<times> 'e chat_db" where
  "execute_and_persist co k c v ag user_message ov persist db =
     (let history = build_context (get_by_conversation c (cd_messages db));
          (rc, db1) = build_runtime_context co (cv_organization_id v) (cv_agent_id v) user_message db;
          db2 = (if persist then snd (create_user_message k c user_message db1) else db1);
          q = chat_request_for ag ov rc history user_message
      in ask_turn co k c v q (ov_provider ov) db2)"

section \<open>Service operations\<close>

definition validate_conversation :: "int \<Rightarrow> int \<Rightarrow> gov_user \<Rightarrow> 'e chat_db \<Rightarrow> (chat_error, conversation) result" where
  "validate_conversation c org user db =
     (case get_by_id_for_org c org (cd_conversations db) of
        None \<Rightarrow> Err (ChatHttp 404 ''Conversation not found.'')
      | Some v \<Rightarrow>
          if \<not> gu_is_superuser user \<and> cv_user_id v \<noteq> gu_id user
          then Err (ChatHttp 403 ''You do not have access to this conversation.'') else Ok v)"

definition validate_agent :: "int \<Rightarrow> int \<Rightarrow> 'e chat_db \<Rightarrow> (chat_error, chat_agent) result" where
  "validate_agent agent_id org db =
     (case repo_get (cd_agents db) agent_id of
        None \<Rightarrow> Err (ChatHttp 404 ''Agent not found.'')
      | Some a \<Rightarrow>
          if am_organization_id a \<noteq> org then Err (ChatHttp 403 ''Agent does not belong to your organisation.'')
          else if \<not> am_is_active a then Err (ChatHttp 422 ''Agent is disabled and cannot process requests.'') else Ok a)"

definition payload_overrides :: "chat_payload \<Rightarrow> overrides" where
  "payload_overrides p = \<lparr>ov_provider = pl_provider p, ov_model = pl_model p, ov_temperature = pl_temperature p,
     ov_top_p = pl_top_p p, ov_max_tokens = pl_max_tokens p\<rparr>"

definition create_chat ::
  "'e collaborators \<Rightarrow> chat_payload \<Rightarrow> gov_user \<Rightarrow> int \<Rightarrow> row_keys \<Rightarrow> 'e chat_db \<Rightarrow> (chat_error, response_schema) result \<times> 'e chat_db" where
  "create_chat co p user org k db =
     (case validate_agent (or_int (pl_agent_id p) 0) org db of
        Inl x \<Rightarrow> (Err x, db)
      | Inr ag \<Rightarrow>
          (let v = \<lparr>cv_organization_id = org, cv_agent_id = or_int (pl_agent_id p) 0, cv_user_id = gu_id user,
                    cv_title = Some (take 100 (pl_message p)), cv_runtime_version = pl_runtime_version p\<rparr>;
               c = key_conversation k (cd_conversations db)
           in execute_and_persist co k c v ag (pl_message p) (payload_overrides p) True
                (db\<lparr>cd_conversations := repo_create c v (cd_conversations db)\<rparr>)))"

definition with_conversation ::
  "int \<Rightarrow> gov_user \<Rightarrow> int \<Rightarrow> (conversation \<Rightarrow> chat_agent \<Rightarrow> 'e chat_db \<Rightarrow> (chat_error, 'x) result \<times> 'e chat_db)
   \<Rightarrow> 'e chat_db \<Rightarrow> (chat_error, 'x) result \<times> 'e chat_db" where
  "with_conversation c user org f db =
     (case validate_conversation c org user db of
        Inl x \<Rightarrow> (Err x, db)
      | Inr v \<Rightarrow>
          (case validate_agent (cv_agent_id v) org db of
             Inl x \<Rightarrow> (Err x, db)
           | Inr ag \<Rightarrow> f v ag db))"

definition continue_chat ::
  "'e collaborators \<Rightarrow> int \<Rightarrow> chat_payload \<Rightarrow> gov_user \<Rightarrow> int \<Rightarrow> row_keys \<Rightarrow> 'e chat_db \<Rightarrow> (chat_error, response_schema) result \<times> 'e chat_db" where
  "continue_chat co c p user org k db =
     with_conversation c user org
       (\<lambda>v ag. execute_and_persist co k c v ag (pl_message p) (payload_overrides p) True) db"

definition regenerate_response ::
  "'e collaborators \<Rightarrow> int \<Rightarrow> chat_payload \<Rightarrow> gov_user \<Rightarrow> int \<Rightarrow> row_keys \<Rightarrow> 'e chat_db \<Rightarrow> (chat_error, response_schema) result \<times> 'e chat_db" where
  "regenerate_response co c p user org k db =
     with_conversation c user org
       (\<lambda>v ag db. case get_last_user_message c (cd_messages db) of
          None \<Rightarrow> (Err (ChatHttp 422 ''No user message found in this conversation to regenerate a response for.''), db)
        | Some (_, m) \<Rightarrow> execute_and_persist co k c v ag (ms_content m) (payload_overrides p) False db) db"

definition retry_failed_message ::
  "'e collaborators \<Rightarrow> int \<Rightarrow> chat_payload \<Rightarrow> gov_user \<Rightarrow> int \<Rightarrow> row_keys \<Rightarrow> 'e chat_db \<Rightarrow> (chat_error, response_schema) result \<times> 'e chat_db" where
  "retry_failed_message co c p user org k db =
     with_conversation c user org
       (\<lambda>v ag db. case get_last_user_message c (cd_messages db) of
          None \<Rightarrow> (Err (ChatHttp 422 ''No user message found in this conversation to retry.''), db)
        | Some (_, m) \<Rightarrow> execute_and_persist co k c v ag (ms_content m)
            \<lparr>ov_provider = pl_provider p, ov_model = pl_model p, ov_temperature = None, ov_top_p = None, ov_max_tokens = None\<rparr> False db) db"

definition get_conversation ::
  "int \<Rightarrow> gov_user \<Rightarrow> int \<Rightarrow> int \<Rightarrow> int \<Rightarrow> 'e chat_db \<Rightarrow> (chat_error, conversation \<times> message table \<times> nat) result" where
  "get_conversation c user org page page_size db =
     (case get_with_messages c org ((page - 1) * page_size) page_size db of
        (None, _, _) \<Rightarrow> Err (ChatHttp 404 ''Conversation not found.'')
      | (Some v, msgs, n) \<Rightarrow>
          if \<not> gu_is_superuser user \<and> cv_user_id v \<noteq> gu_id user
          then Err (ChatHttp 403 ''You do not have access to this conversation.'')
          else Ok (v, msgs, n))"

end
