(* ===== verification/Chat_Invariant.thy ===== *)
theory Chat_Invariant
  imports Chat
begin

text \<open>
  What the chat service keeps and guarantees: every operation appends rows, the
  stored rows stay well typed and in order, a turn stores what it answers, other
  conversations and other users are left alone, and the pages of a conversation
  are its history.
\<close>

section \<open>What the pipeline leaves alone\<close>

definition same_rows :: "'e chat_db \<Rightarrow> 'e chat_db \<Rightarrow> bool" where
  "same_rows db db' \<longleftrightarrow> cd_conversations db' = cd_conversations db \<and> cd_messages db' = cd_messages db
     \<and> cd_agents db' = cd_agents db \<and> cd_access db' = cd_access db"

lemma same_rows_refl [simp, intro]: "same_rows db db"
  by (simp add: same_rows_def)

lemma same_rows_trans: "same_rows a b \<Longrightarrow> same_rows b c \<Longrightarrow> same_rows a c"
  by (simp add: same_rows_def)

lemma outside_same: "outside f db = (x, db') \<Longrightarrow> same_rows db db'"
  by (auto simp: outside_def same_rows_def split: prod.splits)

lemma discover_same: "discover_tool_metadata co a db = (x, db') \<Longrightarrow> same_rows db db'"
  by (auto simp: discover_tool_metadata_def same_rows_def split: prod.splits if_splits)

lemma runtime_context_same: "build_runtime_context co org a q db = (rc, db') \<Longrightarrow> same_rows db db'"
  by (auto simp: build_runtime_context_def split: prod.splits dest!: outside_same discover_same intro: same_rows_trans)

lemma ask_same: "ask_provider co q pr db = (r, db') \<Longrightarrow> same_rows db db'"
  by (auto simp: ask_provider_def same_rows_def split: prod.splits)

lemma tool_loop_same: "execute_tool_loop co q a org ag c pr db = (r, db') \<Longrightarrow> same_rows db db'"
proof -
  assume a: "execute_tool_loop co q a org ag c pr db = (r, db')"
  show ?thesis
  proof (cases "\<not> co_tools co \<or> re_tool_calls a = []")
    case True
    with a show ?thesis by (simp add: execute_tool_loop_def)
  next
    case False
    obtain rs ok reg where b: "execute_batch ag org c (cd_access db) (map tool_request (re_tool_calls a)) (cd_registry db) = ((rs, ok), reg)"
      by (metis prod.exhaust)
    from a False b have "same_rows (db\<lparr>cd_registry := reg\<rparr>) db'" by (auto simp: execute_tool_loop_def Let_def dest: ask_same)
    then show ?thesis by (simp add: same_rows_def)
  qed
qed

section \<open>The rows of a turn\<close>

definition answer_row :: "int \<Rightarrow> response_schema \<Rightarrow> message" where
  "answer_row c r =
     \<lparr>ms_conversation_id = c, ms_role = ''assistant'', ms_content = rp_content r, ms_provider = Some (rp_provider r),
      ms_model_used = Some (rp_model r), ms_finish_reason = Some (rp_finish_reason r),
      ms_prompt_tokens = Some (ug_prompt_tokens (rp_usage r)), ms_completion_tokens = Some (ug_completion_tokens (rp_usage r)),
      ms_total_tokens = Some (ug_total_tokens (rp_usage r))\<rparr>"

definition user_rows :: "row_keys \<Rightarrow> int \<Rightarrow> string \<Rightarrow> bool \<Rightarrow> message table \<Rightarrow> message table" where
  "user_rows k c text persist t = (if persist then [(key_message k t, new_message c ''user'' text)] else [])"

lemma persist_answer_rows:
  assumes "persist_answer k c v pr a db = (r, db')"
  shows "cd_messages db' = cd_messages db @ [(rp_message_id r, answer_row c r)] \<and> rp_message_id r = key_message k (cd_messages db)
    \<and> rp_conversation_id r = c \<and> cd_conversations db' = cd_conversations db \<and> cd_agents db' = cd_agents db \<and> cd_access db' = cd_access db"
  using assms
  by (auto simp: persist_answer_def Let_def create_assistant_message_def add_message_def new_message_def answer_row_def repo_create_def)

text \<open>The request a turn sends first.\<close>

definition turn_request :: "'e collaborators \<Rightarrow> int \<Rightarrow> conversation \<Rightarrow> chat_agent \<Rightarrow> string \<Rightarrow> overrides \<Rightarrow> 'e chat_db \<Rightarrow> chat_request" where
  "turn_request co c v ag text ov db =
     chat_request_for ag ov (fst (build_runtime_context co (cv_organization_id v) (cv_agent_id v) text db))
       (build_context (get_by_conversation c (cd_messages db))) text"

text \<open>The database it is sent from: the user's message is stored.\<close>

definition asking_db :: "'e collaborators \<Rightarrow> row_keys \<Rightarrow> int \<Rightarrow> conversation \<Rightarrow> string \<Rightarrow> 'e chat_db \<Rightarrow> 'e chat_db" where
  "asking_db co k c v text db =
     snd (create_user_message k c text (snd (build_runtime_context co (cv_organization_id v) (cv_agent_id v) text db)))"

lemma pipeline_turn:
  "execute_and_persist co k c v ag text ov True db =
     ask_turn co k c v (turn_request co c v ag text ov db) (ov_provider ov) (asking_db co k c v text db)"
  by (simp add: execute_and_persist_def turn_request_def asking_db_def Let_def split_beta)

lemma pipeline_rows:
  assumes run: "execute_and_persist co k c v ag text ov persist db = (r, db')"
  shows "cd_conversations db' = cd_conversations db \<and> cd_agents db' = cd_agents db \<and> cd_access db' = cd_access db
    \<and> (case r of
         Inl _ \<Rightarrow> cd_messages db' = cd_messages db @ user_rows k c text persist (cd_messages db)
       | Inr resp \<Rightarrow> cd_messages db' = cd_messages db @ user_rows k c text persist (cd_messages db) @ [(rp_message_id resp, answer_row c resp)]
           \<and> rp_message_id resp = key_message k (cd_messages db @ user_rows k c text persist (cd_messages db)) \<and> rp_conversation_id resp = c)"
proof -
  obtain rc db1 where rc: "build_runtime_context co (cv_organization_id v) (cv_agent_id v) text db = (rc, db1)" by fastforce
  let ?q = "chat_request_for ag ov rc (build_context (get_by_conversation c (cd_messages db))) text"
  define db2 where "db2 = (if persist then snd (create_user_message k c text db1) else db1)"
  have s1: "same_rows db db1" using rc by (rule runtime_context_same)
  then have db2: "cd_messages db2 = cd_messages db @ user_rows k c text persist (cd_messages db)"
    "cd_conversations db2 = cd_conversations db" "cd_agents db2 = cd_agents db" "cd_access db2 = cd_access db"
    by (simp_all add: db2_def same_rows_def create_user_message_def add_message_def user_rows_def repo_create_def Let_def)
  obtain x db3 where ask: "ask_provider co ?q (ov_provider ov) db2 = (x, db3)" by fastforce
  have s3: "same_rows db2 db3" using ask by (rule ask_same)
  have turn: "ask_turn co k c v ?q (ov_provider ov) db2 = (r, db')"
    using run unfolding execute_and_persist_def Let_def rc prod.case db2_def .
  show ?thesis
  proof (cases "request_in_bounds ?q")
    case False
    with turn db2 show ?thesis by (auto simp: ask_turn_def)
  next
    case True
    with turn have run': "finish_turn co k c v ?q (ov_provider ov) (ask_provider co ?q (ov_provider ov) db2) = (r, db')"
      by (simp add: ask_turn_def)
  show ?thesis
  proof (cases x)
    case (Inl e)
    with run' ask s3 db2 show ?thesis by (auto simp: finish_turn_def same_rows_def)
  next
    case (Inr a)
    obtain y db4 where t: "(if re_tool_calls a \<noteq> [] \<and> co_tools co
        then execute_tool_loop co ?q a (cv_organization_id v) (cv_agent_id v) c (ov_provider ov) db3 else (Ok a, db3)) = (y, db4)" by fastforce
    then have "same_rows db3 db4" by (auto split: if_splits dest: tool_loop_same)
    with s3 db2 have rows: "cd_messages db4 = cd_messages db @ user_rows k c text persist (cd_messages db)"
      "cd_conversations db4 = cd_conversations db" "cd_agents db4 = cd_agents db" "cd_access db4 = cd_access db" by (simp_all add: same_rows_def)
    show ?thesis
    proof (cases y)
      case (Inl e)
      with run' ask Inr t rows show ?thesis by (auto simp: finish_turn_def)
    next
      case (Inr b)
      obtain resp db5 where p: "persist_answer k c v (ov_provider ov) b db4 = (resp, db5)" by fastforce
      with run' ask \<open>x = Inr a\<close> t Inr have "r = Ok resp" "db' = db5" by (simp_all add: finish_turn_def)
      with persist_answer_rows [OF p] rows show ?thesis by simp
    qed
  qed
  qed
qed

section \<open>Well-typed rows\<close>

definition fresh_keys :: "row_keys \<Rightarrow> bool" where
  "fresh_keys k \<longleftrightarrow> (\<forall>t i. i \<in> ids t \<longrightarrow> i < key_conversation k t) \<and> (\<forall>t i. i \<in> ids t \<longrightarrow> i < key_message k t)"

definition serial_keys :: row_keys where
  "serial_keys = \<lparr>key_conversation = serial_id, key_message = serial_id\<rparr>"

lemma serial_keys_fresh: "fresh_keys serial_keys"
  by (simp add: fresh_keys_def serial_keys_def serial_id_above)

definition user_row :: "int \<Rightarrow> message \<Rightarrow> bool" where
  "user_row c m \<longleftrightarrow> m = new_message c ''user'' (ms_content m)"

definition assistant_row :: "int \<Rightarrow> message \<Rightarrow> bool" where
  "assistant_row c m \<longleftrightarrow> ms_conversation_id m = c \<and> ms_role m = ''assistant'' \<and> ms_provider m \<noteq> None \<and> ms_model_used m \<noteq> None
     \<and> ms_finish_reason m \<noteq> None \<and> (ms_prompt_tokens m = None \<longleftrightarrow> ms_total_tokens m = None)
     \<and> (ms_completion_tokens m = None \<longleftrightarrow> ms_total_tokens m = None)"

lemma row_conversation: "user_row c m \<Longrightarrow> ms_conversation_id m = c" "assistant_row c m \<Longrightarrow> ms_conversation_id m = c"
  by (metis user_row_def message.select_convs(1) new_message_def) (simp add: assistant_row_def)

definition asked :: "int \<Rightarrow> message table \<Rightarrow> bool" where
  "asked c t \<longleftrightarrow> (\<exists>m\<in>rows t. ms_conversation_id m = c \<and> ms_role m = ''user'')"

text \<open>The message table in order: keys ascend, every row is typed, and an assistant row follows a user row of its conversation.\<close>

inductive messages_wf :: "message table \<Rightarrow> bool" where
  empty: "messages_wf []"
| user: "messages_wf t \<Longrightarrow> (\<And>j. j \<in> ids t \<Longrightarrow> j < i) \<Longrightarrow> user_row c m \<Longrightarrow> messages_wf (t @ [(i, m)])"
| answer: "messages_wf t \<Longrightarrow> (\<And>j. j \<in> ids t \<Longrightarrow> j < i) \<Longrightarrow> assistant_row c m \<Longrightarrow> asked c t \<Longrightarrow> messages_wf (t @ [(i, m)])"

definition chat_wf :: "'e chat_db \<Rightarrow> bool" where
  "chat_wf db \<longleftrightarrow> sorted_wrt (<) (map fst (cd_conversations db)) \<and> messages_wf (cd_messages db)
     \<and> ms_conversation_id ` rows (cd_messages db) \<subseteq> ids (cd_conversations db)"

lemma messages_wf_sorted: "messages_wf t \<Longrightarrow> sorted_wrt (<) (map fst t)"
  by (induction rule: messages_wf.induct) (auto simp: sorted_wrt_append ids_def)

lemma history_is_filter:
  assumes "messages_wf t"
  shows "get_by_conversation c t = repo_where (\<lambda>m. ms_conversation_id m = c) t"
proof -
  have "sorted_wrt (<) (map fst (filter P t))" for P
    using messages_wf_sorted [OF assms] unfolding sorted_wrt_map by (rule sorted_wrt_filter)
  then have "sorted (map fst (repo_where (\<lambda>m. ms_conversation_id m = c) t))"
    unfolding repo_where_def by (rule strict_sorted_imp_sorted)
  then show ?thesis unfolding get_by_conversation_def by (rule sort_key_id_if_sorted)
qed

text \<open>Appending the rows of a turn, one at a time.\<close>

inductive adds :: "row_keys \<Rightarrow> int \<Rightarrow> message table \<Rightarrow> message table \<Rightarrow> bool" for k c t where
  nothing: "adds k c t t"
| user: "adds k c t t' \<Longrightarrow> user_row c m \<Longrightarrow> adds k c t (t' @ [(key_message k t', m)])"
| answer: "adds k c t t' \<Longrightarrow> assistant_row c m \<Longrightarrow> asked c t' \<Longrightarrow> adds k c t (t' @ [(key_message k t', m)])"

lemma adds_wf: "adds k c t t' \<Longrightarrow> fresh_keys k \<Longrightarrow> messages_wf t \<Longrightarrow> messages_wf t'"
  by (induction rule: adds.induct) (auto simp: fresh_keys_def intro: messages_wf.intros)

lemma adds_conversation: "adds k c t t' \<Longrightarrow> ms_conversation_id ` rows t' \<subseteq> insert c (ms_conversation_id ` rows t)"
  by (induction rule: adds.induct) (auto simp: rows_def user_row_def assistant_row_def new_message_def dest: arg_cong [where f = ms_conversation_id])

lemma adds_prefix: "adds k c t t' \<Longrightarrow> \<exists>ms. t' = t @ ms \<and> list_all (\<lambda>im. ms_conversation_id (snd im) = c) ms"
proof (induction rule: adds.induct)
  case (user t' m)
  with row_conversation(1) show ?case by auto
qed (auto simp: assistant_row_def)

lemma adds_other:
  assumes "adds k c t t'" and "c' \<noteq> c"
  shows "get_by_conversation c' t' = get_by_conversation c' t"
proof -
  from adds_prefix [OF assms(1)] obtain ms where ms: "t' = t @ ms" "list_all (\<lambda>im. ms_conversation_id (snd im) = c) ms" by blast
  from ms(2) have "filter (\<lambda>(_, m). ms_conversation_id m = c') ms = []"
    using assms(2) by (induction ms) auto
  then show ?thesis by (simp add: ms(1) get_by_conversation_def repo_where_def)
qed

section \<open>The contract of a chat operation\<close>

locale chat_operation =
  fixes operation :: "row_keys \<Rightarrow> 'e chat_db \<Rightarrow> 'x \<times> 'e chat_db"
    and target :: "row_keys \<Rightarrow> 'e chat_db \<Rightarrow> int"
  assumes appends: "operation k db = (r, db') \<Longrightarrow> adds k (target k db) (cd_messages db) (cd_messages db')"
    and conversations: "operation k db = (r, db') \<Longrightarrow> cd_conversations db' = cd_conversations db
      \<or> target k db = key_conversation k (cd_conversations db)
        \<and> (\<exists>v. cd_conversations db' = repo_create (target k db) v (cd_conversations db))"
    and known: "operation k db = (r, db') \<Longrightarrow> cd_messages db' \<noteq> cd_messages db \<Longrightarrow> target k db \<in> ids (cd_conversations db')"
    and agents: "operation k db = (r, db') \<Longrightarrow> cd_agents db' = cd_agents db \<and> cd_access db' = cd_access db"
begin

lemma preserves_wf:
  assumes "fresh_keys k" and "chat_wf db" and run: "operation k db = (r, db')"
  shows "chat_wf db'"
proof -
  have "messages_wf (cd_messages db')" using adds_wf [OF appends [OF run]] assms by (simp add: chat_wf_def)
  moreover have "sorted_wrt (<) (map fst (cd_conversations db'))" "ids (cd_conversations db) \<subseteq> ids (cd_conversations db')"
    using conversations [OF run] assms(1,2) by (auto simp: chat_wf_def repo_create_def sorted_wrt_append fresh_keys_def ids_def)
  moreover have "ms_conversation_id ` rows (cd_messages db') \<subseteq> ids (cd_conversations db')"
  proof (cases "cd_messages db' = cd_messages db")
    case True
    with assms(2) calculation(3) show ?thesis by (auto simp: chat_wf_def)
  next
    case False
    have "ms_conversation_id ` rows (cd_messages db) \<subseteq> ids (cd_conversations db')" using assms(2) calculation(3) by (auto simp: chat_wf_def)
    with adds_conversation [OF appends [OF run]] known [OF run False] show ?thesis by (meson insert_subset order_trans)
  qed
  ultimately show ?thesis by (simp add: chat_wf_def)
qed

lemma extends_history:
  "operation k db = (r, db') \<Longrightarrow> \<exists>ms cs. cd_messages db' = cd_messages db @ ms \<and> cd_conversations db' = cd_conversations db @ cs"
  using adds_prefix [OF appends] conversations unfolding repo_create_def by (metis append_Nil2)

lemma leaves_others:
  "operation k db = (r, db') \<Longrightarrow> c \<noteq> target k db \<Longrightarrow> get_by_conversation c (cd_messages db') = get_by_conversation c (cd_messages db)"
  by (rule adds_other [OF appends])

end

section \<open>The operations satisfy the contract\<close>

lemma answer_row_typed: "assistant_row c (answer_row c r)"
  by (simp add: assistant_row_def answer_row_def)

lemma new_user_row: "user_row c (new_message c ''user'' text)"
  by (simp add: user_row_def new_message_def)

lemma pipeline_adds:
  assumes run: "execute_and_persist co k c v ag text ov persist db = (r, db')" and "persist \<or> asked c (cd_messages db)"
  shows "adds k c (cd_messages db) (cd_messages db')"
proof -
  let ?t = "cd_messages db @ user_rows k c text persist (cd_messages db)"
  have t: "adds k c (cd_messages db) ?t"
    using adds.user [OF adds.nothing new_user_row, of k c "cd_messages db" "text"] adds.nothing by (simp add: user_rows_def)
  have "asked c ?t"
    using assms(2) by (auto simp: asked_def user_rows_def rows_def new_message_def)
  with t adds.answer [OF t answer_row_typed] pipeline_rows [OF run] show ?thesis by (auto split: sum.splits)
qed

lemma with_conversation_cases:
  assumes "with_conversation c user org f db = (r, db')"
  obtains x where "r = Err x" "db' = db"
  | v ag where "validate_conversation c org user db = Ok v" "validate_agent (cv_agent_id v) org db = Ok ag" "f v ag db = (r, db')"
  using assms by (auto simp: with_conversation_def split: sum.splits)

lemma find_conversation: "get_by_id_for_org c org t = Some v \<Longrightarrow> (c, v) \<in> set t \<and> cv_organization_id v = org"
  by (auto simp: get_by_id_for_org_def find_Some_iff in_set_conv_nth)

lemma validated_conversation:
  "validate_conversation c org user db = Ok v \<Longrightarrow> (c, v) \<in> set (cd_conversations db) \<and> cv_organization_id v = org
     \<and> (gu_is_superuser user \<or> cv_user_id v = gu_id user)"
  by (auto simp: validate_conversation_def dest: find_conversation split: option.splits if_splits)

lemma last_user_asked: "get_last_user_message c t = Some im \<Longrightarrow> asked c t"
proof -
  assume last: "get_last_user_message c t = Some im"
  let ?us = "repo_where (\<lambda>m. ms_conversation_id m = c \<and> ms_role m = ''user'') t"
  from last obtain rest where "sort_key (\<lambda>im. - fst im) ?us = im # rest"
    by (auto simp: get_last_user_message_def get_last_message_def split: list.splits)
  then have "im \<in> set (sort_key (\<lambda>im. - fst im) ?us)" by simp
  then have "im \<in> set ?us" by (simp only: set_sort)
  then show ?thesis by (force simp: asked_def rows_def repo_where_def)
qed

lemma pipeline_contract:
  assumes "execute_and_persist co k c v ag text ov persist db = (r, db')" and "persist \<or> asked c (cd_messages db)"
  shows "adds k c (cd_messages db) (cd_messages db') \<and> cd_conversations db' = cd_conversations db
    \<and> cd_agents db' = cd_agents db \<and> cd_access db' = cd_access db"
  using pipeline_adds [OF assms] pipeline_rows [OF assms(1)] by blast

text \<open>An operation on an existing conversation, given what it does after the checks.\<close>

lemma on_conversation_contract:
  assumes run: "with_conversation c user org f db = (r, db')"
    and body: "\<And>v ag. f v ag db = (r, db') \<Longrightarrow> adds k c (cd_messages db) (cd_messages db') \<and> cd_conversations db' = cd_conversations db
      \<and> cd_agents db' = cd_agents db \<and> cd_access db' = cd_access db"
  shows "adds k c (cd_messages db) (cd_messages db') \<and> cd_conversations db' = cd_conversations db
    \<and> cd_agents db' = cd_agents db \<and> cd_access db' = cd_access db \<and> (cd_messages db' \<noteq> cd_messages db \<longrightarrow> c \<in> ids (cd_conversations db'))"
  using run
proof (cases rule: with_conversation_cases)
  case 1
  then show ?thesis by (simp add: adds.nothing)
next
  case (2 v ag)
  from validated_conversation [OF 2(1)] have "c \<in> ids (cd_conversations db)" by (force simp: ids_def)
  with body [OF 2(3)] show ?thesis by simp
qed

lemma continue_contract:
  "continue_chat co c p user org k db = (r, db') \<Longrightarrow>
   adds k c (cd_messages db) (cd_messages db') \<and> cd_conversations db' = cd_conversations db
   \<and> cd_agents db' = cd_agents db \<and> cd_access db' = cd_access db \<and> (cd_messages db' \<noteq> cd_messages db \<longrightarrow> c \<in> ids (cd_conversations db'))"
  unfolding continue_chat_def by (erule on_conversation_contract) (rule pipeline_contract, auto)

lemma regenerate_contract:
  "regenerate_response co c p user org k db = (r, db') \<Longrightarrow>
   adds k c (cd_messages db) (cd_messages db') \<and> cd_conversations db' = cd_conversations db
   \<and> cd_agents db' = cd_agents db \<and> cd_access db' = cd_access db \<and> (cd_messages db' \<noteq> cd_messages db \<longrightarrow> c \<in> ids (cd_conversations db'))"
  unfolding regenerate_response_def
  by (erule on_conversation_contract) (auto split: option.splits dest: last_user_asked pipeline_contract intro: adds.nothing)

lemma retry_contract:
  "retry_failed_message co c p user org k db = (r, db') \<Longrightarrow>
   adds k c (cd_messages db) (cd_messages db') \<and> cd_conversations db' = cd_conversations db
   \<and> cd_agents db' = cd_agents db \<and> cd_access db' = cd_access db \<and> (cd_messages db' \<noteq> cd_messages db \<longrightarrow> c \<in> ids (cd_conversations db'))"
  unfolding retry_failed_message_def
  by (erule on_conversation_contract) (auto split: option.splits dest: last_user_asked pipeline_contract intro: adds.nothing)

lemma create_contract:
  assumes run: "create_chat co p user org k db = (r, db')"
  shows "adds k (key_conversation k (cd_conversations db)) (cd_messages db) (cd_messages db') \<and> cd_agents db' = cd_agents db \<and> cd_access db' = cd_access db
    \<and> (db' = db \<or> (\<exists>v. cd_conversations db' = repo_create (key_conversation k (cd_conversations db)) v (cd_conversations db)))"
proof (cases "validate_agent (or_int (pl_agent_id p) 0) org db")
  case (Inl x)
  with run show ?thesis by (simp add: create_chat_def adds.nothing)
next
  case (Inr ag)
  let ?c = "key_conversation k (cd_conversations db)"
  obtain v where "execute_and_persist co k ?c v ag (pl_message p) (payload_overrides p) True
      (db\<lparr>cd_conversations := repo_create ?c v (cd_conversations db)\<rparr>) = (r, db')"
    using run Inr by (auto simp: create_chat_def Let_def)
  from pipeline_contract [OF this] show ?thesis by auto
qed

interpretation continue_op: chat_operation "continue_chat co c p user org" "\<lambda>_ _. c" for co c p user org
  by unfold_locales (use continue_contract in \<open>fast+\<close>)

interpretation regenerate_op: chat_operation "regenerate_response co c p user org" "\<lambda>_ _. c" for co c p user org
  by unfold_locales (use regenerate_contract in \<open>fast+\<close>)

interpretation retry_op: chat_operation "retry_failed_message co c p user org" "\<lambda>_ _. c" for co c p user org
  by unfold_locales (use retry_contract in \<open>fast+\<close>)

interpretation create_op: chat_operation "create_chat co p user org" "\<lambda>k db. key_conversation k (cd_conversations db)" for co p user org
proof (unfold_locales, goal_cases)
  case (3 k db r db')
  with create_contract [OF 3(1)] show ?case by auto
qed (use create_contract in \<open>fast+\<close>)

section \<open>Sequences of operations\<close>

datatype chat_op =
    Create chat_payload gov_user int
  | Continue int chat_payload gov_user int
  | Regenerate int chat_payload gov_user int
  | Retry int chat_payload gov_user int

fun run_op :: "'e collaborators \<Rightarrow> chat_op \<Rightarrow> row_keys \<Rightarrow> 'e chat_db \<Rightarrow> (chat_error, response_schema) result \<times> 'e chat_db" where
  "run_op co (Create p u org) k db = create_chat co p u org k db"
| "run_op co (Continue c p u org) k db = continue_chat co c p u org k db"
| "run_op co (Regenerate c p u org) k db = regenerate_response co c p u org k db"
| "run_op co (Retry c p u org) k db = retry_failed_message co c p u org k db"

fun op_target :: "chat_op \<Rightarrow> row_keys \<Rightarrow> 'e chat_db \<Rightarrow> int" where
  "op_target (Create p u org) k db = key_conversation k (cd_conversations db)"
| "op_target (Continue c p u org) k db = c"
| "op_target (Regenerate c p u org) k db = c"
| "op_target (Retry c p u org) k db = c"

definition run_ops :: "'e collaborators \<Rightarrow> row_keys \<Rightarrow> chat_op list \<Rightarrow> 'e chat_db \<Rightarrow> 'e chat_db" where
  "run_ops co k os db = fold (\<lambda>oper db. snd (run_op co oper k db)) os db"

lemma run_op_wf: "fresh_keys k \<Longrightarrow> chat_wf db \<Longrightarrow> run_op co oper k db = (r, db') \<Longrightarrow> chat_wf db'"
  by (cases oper) (auto intro: create_op.preserves_wf continue_op.preserves_wf regenerate_op.preserves_wf retry_op.preserves_wf)

lemma run_op_history:
  "run_op co oper k db = (r, db') \<Longrightarrow> \<exists>ms cs. cd_messages db' = cd_messages db @ ms \<and> cd_conversations db' = cd_conversations db @ cs"
  by (cases oper) (auto dest: create_op.extends_history continue_op.extends_history regenerate_op.extends_history retry_op.extends_history)

lemma run_op_isolated:
  "run_op co oper k db = (r, db') \<Longrightarrow> c \<noteq> op_target oper k db \<Longrightarrow> get_by_conversation c (cd_messages db') = get_by_conversation c (cd_messages db)"
  by (cases oper) (auto dest: create_op.leaves_others continue_op.leaves_others regenerate_op.leaves_others retry_op.leaves_others)

lemma run_ops_wf:
  assumes "fresh_keys k" and "chat_wf db"
  shows "chat_wf (run_ops co k os db) \<and> (\<exists>ms cs. cd_messages (run_ops co k os db) = cd_messages db @ ms
    \<and> cd_conversations (run_ops co k os db) = cd_conversations db @ cs)"
  unfolding run_ops_def
  using assms(2)
proof (induction os arbitrary: db)
  case (Cons oper os)
  obtain r db' where run: "run_op co oper k db = (r, db')" by fastforce
  from run_op_wf [OF assms(1) Cons.prems run] Cons.IH run_op_history [OF run] run show ?case by fastforce
qed simp

definition rows_typed :: "'e chat_db \<Rightarrow> bool" where
  "rows_typed db \<longleftrightarrow> distinct (map fst (cd_messages db)) \<and> distinct (map fst (cd_conversations db))
     \<and> list_all (\<lambda>(i, m). ms_conversation_id m \<in> ids (cd_conversations db)
         \<and> (user_row (ms_conversation_id m) m \<or> assistant_row (ms_conversation_id m) m)) (cd_messages db)"

lemma messages_typed: "messages_wf t \<Longrightarrow> (i, m) \<in> set t \<Longrightarrow> user_row (ms_conversation_id m) m \<or> assistant_row (ms_conversation_id m) m"
  by (induction rule: messages_wf.induct) (auto dest: row_conversation)

lemma chat_wf_typed:
  assumes "chat_wf db"
  shows "rows_typed db"
proof -
  have "ms_conversation_id m \<in> ids (cd_conversations db)" if "(i, m) \<in> set (cd_messages db)" for i m
    using assms that by (force simp: chat_wf_def rows_def)
  with assms messages_typed [of "cd_messages db"] messages_wf_sorted [of "cd_messages db"] show ?thesis
    by (auto simp: chat_wf_def rows_typed_def list_all_iff strict_sorted_iff)
qed

text \<open>
  C39: the rows the chat service stores are well typed.  After any sequence of new
  chats, continued chats, regenerations and retries, with whatever answers and
  failures, keys are unique, every message belongs to a stored conversation and is
  either a user row without provenance or an assistant row with provider, model
  and finish reason and with all or none of its token counts, and rows stored
  before are still there, unchanged and in the same order.
\<close>

theorem chat_rows_typed:
  assumes "fresh_keys k" and "chat_wf db"
  shows "rows_typed (run_ops co k os db) \<and> take (length (cd_messages db)) (cd_messages (run_ops co k os db)) = cd_messages db
    \<and> take (length (cd_conversations db)) (cd_conversations (run_ops co k os db)) = cd_conversations db"
  using run_ops_wf [OF assms, of co os] chat_wf_typed [of "run_ops co k os db"] by auto

section \<open>A turn\<close>

definition may_chat :: "int \<Rightarrow> gov_user \<Rightarrow> int \<Rightarrow> 'e chat_db \<Rightarrow> bool" where
  "may_chat c user org db \<longleftrightarrow> is_ok (validate_conversation c org user db)
     \<and> (\<forall>v. validate_conversation c org user db = Ok v \<longrightarrow> is_ok (validate_agent (cv_agent_id v) org db))"

lemma refused_status:
  "validate_conversation c org user db = Err x \<Longrightarrow> x \<in> {ChatHttp 404 ''Conversation not found.'', ChatHttp 403 ''You do not have access to this conversation.''}"
  "validate_agent a org db = Err x \<Longrightarrow> x \<in> {ChatHttp 404 ''Agent not found.'', ChatHttp 403 ''Agent does not belong to your organisation.'',
     ChatHttp 422 ''Agent is disabled and cannot process requests.''}"
  by (auto simp: validate_conversation_def validate_agent_def split: option.splits if_splits)

lemma with_conversation_refused:
  "\<not> may_chat c user org db \<Longrightarrow> \<exists>code detail. code \<in> {403, 404, 422} \<and> with_conversation c user org f db = (Err (ChatHttp code detail), db)"
  using refused_status(1) [of c org user db] refused_status(2) [of _ org db]
  by (cases "validate_conversation c org user db") (fastforce simp: may_chat_def with_conversation_def split: sum.splits)+

lemma with_conversation_allowed:
  assumes "may_chat c user org db"
  obtains v ag where "validate_conversation c org user db = Ok v" "validate_agent (cv_agent_id v) org db = Ok ag"
proof -
  from assms obtain v where v: "validate_conversation c org user db = Ok v"
    by (cases "validate_conversation c org user db") (auto simp: may_chat_def)
  with assms obtain ag where "validate_agent (cv_agent_id v) org db = Ok ag"
    by (cases "validate_agent (cv_agent_id v) org db") (auto simp: may_chat_def)
  with v show thesis by (rule that)
qed

lemma history_append:
  assumes "messages_wf (t @ ms)" and "messages_wf t" and "list_all (\<lambda>im. ms_conversation_id (snd im) = c) ms"
  shows "get_by_conversation c (t @ ms) = get_by_conversation c t @ ms"
proof -
  have "filter (\<lambda>(_, m). ms_conversation_id m = c) ms = ms" using assms(3) by (induction ms) auto
  then show ?thesis unfolding history_is_filter [OF assms(1)] history_is_filter [OF assms(2)] by (simp add: repo_where_def)
qed

text \<open>What a turn answers, by what the provider and the tools do.\<close>

lemma persist_answer_answer:
  "rp_content (fst (persist_answer k c v pr b db)) = mg_content (re_message b) \<and> rp_model (fst (persist_answer k c v pr b db)) = re_model b"
  by (auto simp: persist_answer_def Let_def split: prod.split)

lemma ask_turn_result:
  assumes run: "ask_turn co k c v q pr db = (r, db')"
  shows "if \<not> request_in_bounds q then r = Err (ChatRaised ''ValidationError'')
    else (case ask_provider co q pr db of
        (Inl x, _) \<Rightarrow> r = Err (ChatHttp 502 (''AI provider execution failed: '' @ x))
      | (Inr a, db1) \<Rightarrow>
          (case fst (if re_tool_calls a \<noteq> [] \<and> co_tools co
                     then execute_tool_loop co q a (cv_organization_id v) (cv_agent_id v) c pr db1 else (Ok a, db1)) of
             Inl x \<Rightarrow> r = Err (ChatRaised x)
           | Inr b \<Rightarrow> (\<exists>resp. r = Ok resp \<and> rp_content resp = mg_content (re_message b) \<and> rp_model resp = re_model b)))"
proof (cases "request_in_bounds q")
  case False
  with run show ?thesis by (simp add: ask_turn_def)
next
  case True
  obtain x db1 where ask: "ask_provider co q pr db = (x, db1)" by fastforce
  with True run have fin: "finish_turn co k c v q pr (x, db1) = (r, db')" by (simp add: ask_turn_def)
  show ?thesis
  proof (cases x)
    case (Inl e)
    with True ask fin show ?thesis by (simp add: finish_turn_def)
  next
    case (Inr a)
    obtain y db2 where t: "(if re_tool_calls a \<noteq> [] \<and> co_tools co
        then execute_tool_loop co q a (cv_organization_id v) (cv_agent_id v) c pr db1 else (Ok a, db1)) = (y, db2)" by fastforce
    have "case y of Inl e \<Rightarrow> r = Err (ChatRaised e)
        | Inr b \<Rightarrow> (\<exists>resp. r = Ok resp \<and> rp_content resp = mg_content (re_message b) \<and> rp_model resp = re_model b)"
      using fin persist_answer_answer [of k c v pr _ db2] unfolding Inr finish_turn_def prod.case sum.case t
      by (cases y) (auto simp: split_beta)
    with True ask Inr t show ?thesis by simp
  qed
qed

text \<open>
  C15: continuing a chat, on every branch.  Without access to the conversation, or
  when its agent is missing, of another organisation or disabled, the answer is
  404, 403 or 422 and nothing changes.  Otherwise the user's message is stored
  behind the history whatever happens next.  A request out of the provider schema's bounds, which the
  agent's row can cause, is a raw \<open>ValidationError\<close>; when the first request to the
  providers fails the answer is a 502 with the providers' errors; when the follow-up request
  of the tool loop fails it is the raw exception of the providers, not a 502.  In none of these cases an answer is stored.
  Otherwise the answer, that of the follow-up request if there was one, is stored directly behind the user's message, and the
  response carries the key, text, provider, model, finish reason and token counts
  of that row.
\<close>

theorem chat_turn_stored:
  assumes "fresh_keys k" and "chat_wf db" and run: "continue_chat co c p user org k db = (r, db')"
  shows "if \<not> may_chat c user org db
     then db' = db \<and> (\<exists>code detail. code \<in> {403, 404, 422} \<and> r = Err (ChatHttp code detail))
     else (\<exists>i. case r of
        Inl x \<Rightarrow> get_by_conversation c (cd_messages db') =
            get_by_conversation c (cd_messages db) @ [(i, new_message c ''user'' (pl_message p))]
      | Inr resp \<Rightarrow> get_by_conversation c (cd_messages db') = get_by_conversation c (cd_messages db)
            @ [(i, new_message c ''user'' (pl_message p)), (rp_message_id resp, answer_row c resp)]
          \<and> rp_conversation_id resp = c)
      \<and> (\<exists>v ag q asking. validate_conversation c org user db = Ok v \<and> validate_agent (cv_agent_id v) org db = Ok ag
          \<and> q = turn_request co c v ag (pl_message p) (payload_overrides p) db \<and> asking = asking_db co k c v (pl_message p) db
          \<and> (if \<not> request_in_bounds q then r = Err (ChatRaised ''ValidationError'')
             else (case ask_provider co q (pl_provider p) asking of
                 (Inl x, _) \<Rightarrow> r = Err (ChatHttp 502 (''AI provider execution failed: '' @ x))
               | (Inr a, db1) \<Rightarrow>
                   (case fst (if re_tool_calls a \<noteq> [] \<and> co_tools co
                       then execute_tool_loop co q a (cv_organization_id v) (cv_agent_id v) c (pl_provider p) db1 else (Ok a, db1)) of
                      Inl x \<Rightarrow> r = Err (ChatRaised x)
                    | Inr b \<Rightarrow> (\<exists>resp. r = Ok resp \<and> rp_content resp = mg_content (re_message b) \<and> rp_model resp = re_model b)))))"
proof (cases "may_chat c user org db")
  case False
  then obtain code detail where "code \<in> {403, 404, 422}" "continue_chat co c p user org k db = (Err (ChatHttp code detail), db)"
    unfolding continue_chat_def using with_conversation_refused [OF False] by blast
  with False run show ?thesis by auto
next
  case True
  then obtain v ag where v: "validate_conversation c org user db = Ok v" "validate_agent (cv_agent_id v) org db = Ok ag"
    by (rule with_conversation_allowed)
  with run have ex: "execute_and_persist co k c v ag (pl_message p) (payload_overrides p) True db = (r, db')"
    by (simp add: continue_chat_def with_conversation_def)
  have wf: "messages_wf (cd_messages db)" "messages_wf (cd_messages db')"
    using assms(2) continue_op.preserves_wf [OF assms] by (simp_all add: chat_wf_def)
  let ?u = "(key_message k (cd_messages db), new_message c ''user'' (pl_message p))"
  have stored: "get_by_conversation c (cd_messages db') = get_by_conversation c (cd_messages db) @ ms"
    if "cd_messages db' = cd_messages db @ ms" "list_all (\<lambda>im. ms_conversation_id (snd im) = c) ms" for ms
    using history_append [OF _ wf(1) that(2)] wf(2) that(1) by simp
  have rows: "case r of Inl x \<Rightarrow> get_by_conversation c (cd_messages db') = get_by_conversation c (cd_messages db) @ [?u]
      | Inr resp \<Rightarrow> get_by_conversation c (cd_messages db') = get_by_conversation c (cd_messages db) @ [?u, (rp_message_id resp, answer_row c resp)]
          \<and> rp_conversation_id resp = c"
    using pipeline_rows [OF ex] stored [of "[?u]"] stored [of "[?u, (rp_message_id (projr r), answer_row c (projr r))]"]
    by (cases r) (simp_all add: user_rows_def new_message_def answer_row_def)
  have "ov_provider (payload_overrides p) = pl_provider p" by (simp add: payload_overrides_def)
  note turn = ask_turn_result [OF ex [unfolded pipeline_turn this]]
  have access: "(\<not> may_chat c user org db) = False" using True by simp
  show ?thesis
    unfolding access if_False
    by (rule conjI, rule exI [of _ "key_message k (cd_messages db)"], rule rows, rule exI [of _ v], rule exI [of _ ag],
        rule exI, rule exI, rule conjI [OF v(1)], rule conjI [OF v(2)], rule conjI [OF refl], rule conjI [OF refl], rule turn)
qed

section \<open>Isolation\<close>

lemma stranger_refused:
  assumes "\<And>v. (c, v) \<in> set (cd_conversations db) \<Longrightarrow> cv_organization_id v = org \<Longrightarrow> cv_user_id v \<noteq> gu_id user" and "\<not> gu_is_superuser user"
  shows "\<not> may_chat c user org db"
  using validated_conversation [of c org user db] assms
  by (cases "validate_conversation c org user db") (auto simp: may_chat_def)

lemma run_op_refused:
  assumes "\<not> may_chat c user org db" and "oper \<in> {Continue c p user org, Regenerate c p user org, Retry c p user org}"
  shows "\<exists>code detail. code \<in> {403, 404, 422} \<and> run_op co oper k db = (Err (ChatHttp code detail), db)"
  using assms(2)
  by (elim insertE emptyE) (simp_all only: run_op.simps continue_chat_def regenerate_response_def retry_failed_message_def
      with_conversation_refused [OF assms(1)])

lemma get_conversation_refused:
  "\<not> is_ok (validate_conversation c org user db) \<Longrightarrow> \<not> is_ok (get_conversation c user org page psize db)"
  by (cases "get_by_id_for_org c org (cd_conversations db)")
    (simp_all add: validate_conversation_def get_conversation_def get_with_messages_def split: if_splits)

text \<open>
  C6: isolation of conversations.  A user who is neither a superuser nor the owner
  of a conversation with this key in this organisation can neither continue,
  regenerate, retry nor read it: each call is refused and nothing is stored or
  sent.  And whatever an operation does, the history of every conversation but
  the one it is for stays as it was.
\<close>

theorem conversations_isolated:
  "(\<not> gu_is_superuser user \<and> (\<forall>v. (c, v) \<in> set (cd_conversations db) \<longrightarrow> cv_organization_id v = org \<longrightarrow> cv_user_id v \<noteq> gu_id user) \<longrightarrow>
      (\<forall>oper. oper \<in> {Continue c p user org, Regenerate c p user org, Retry c p user org} \<longrightarrow>
         (\<exists>code detail. code \<in> {403, 404, 422} \<and> run_op co oper k db = (Err (ChatHttp code detail), db)))
      \<and> \<not> is_ok (get_conversation c user org page psize db))
   \<and> (other \<noteq> op_target oper k db \<longrightarrow>
      get_by_conversation other (cd_messages (snd (run_op co oper k db))) = get_by_conversation other (cd_messages db))"
proof (intro conjI impI)
  assume "\<not> gu_is_superuser user \<and> (\<forall>v. (c, v) \<in> set (cd_conversations db) \<longrightarrow> cv_organization_id v = org \<longrightarrow> cv_user_id v \<noteq> gu_id user)"
  then have st: "\<not> gu_is_superuser user" "\<And>v. (c, v) \<in> set (cd_conversations db) \<Longrightarrow> cv_organization_id v = org \<Longrightarrow> cv_user_id v \<noteq> gu_id user"
    by blast+
  show "\<forall>oper. oper \<in> {Continue c p user org, Regenerate c p user org, Retry c p user org} \<longrightarrow>
         (\<exists>code detail. code \<in> {403, 404, 422} \<and> run_op co oper k db = (Err (ChatHttp code detail), db))"
    by (intro allI impI) (rule run_op_refused [OF stranger_refused [OF st(2,1)]])
  have "\<not> is_ok (validate_conversation c org user db)"
  proof
    assume "is_ok (validate_conversation c org user db)"
    then obtain v where "validate_conversation c org user db = Ok v" by (cases "validate_conversation c org user db") auto
    from validated_conversation [OF this] st(1) st(2) [of v] show False by blast
  qed
  then show "\<not> is_ok (get_conversation c user org page psize db)" by (rule get_conversation_refused)
next
  assume "other \<noteq> op_target oper k db"
  then show "get_by_conversation other (cd_messages (snd (run_op co oper k db))) = get_by_conversation other (cd_messages db)"
    using run_op_isolated [of co oper k db "fst (run_op co oper k db)" "snd (run_op co oper k db)"] by simp
qed

section \<open>Pages\<close>

lemma chunks_concat: "concat (map (\<lambda>n. take m (drop (n * m) xs)) [0..<N]) = take (N * m) xs"
proof (induction N)
  case (Suc N)
  have "take (N * m) xs @ take m (drop (N * m) xs) = take (N * m + m) xs" by (simp add: take_add)
  with Suc show ?case by (simp add: add.commute)
qed simp

lemma page_content:
  assumes "validate_conversation c org user db = Ok v" and "1 \<le> page" and "1 \<le> psize"
  shows "get_conversation c user org (int page) (int psize) db =
    Ok (v, take psize (drop ((page - 1) * psize) (get_by_conversation c (cd_messages db))), length (get_by_conversation c (cd_messages db)))"
proof -
  have "nat ((int page - 1) * int psize) = (page - 1) * psize"
    using assms(2) by (metis int_ops(6) nat_int of_nat_1 of_nat_mult of_nat_diff)
  with assms(1) show ?thesis
    by (auto simp: validate_conversation_def get_conversation_def get_with_messages_def count_by_conversation_def get_by_conversation_def
        split: option.splits if_splits)
qed

text \<open>
  Reading a conversation page by page gives its whole history, each message
  once and in order: the pages 1 to N concatenated are the history as soon as N
  pages can hold it, every page reports the same total, the length of the history,
  and pages beyond the end are empty.
\<close>

theorem pages_are_history:
  assumes "validate_conversation c org user db = Ok v" and "1 \<le> psize" and "length (get_by_conversation c (cd_messages db)) \<le> N * psize"
  shows "concat (map (\<lambda>page. fst (snd (projr (get_conversation c user org (int page) (int psize) db)))) [1..<N + 1]) = get_by_conversation c (cd_messages db)
    \<and> (\<forall>page\<ge>1. is_ok (get_conversation c user org (int page) (int psize) db)
        \<and> snd (snd (projr (get_conversation c user org (int page) (int psize) db))) = length (get_by_conversation c (cd_messages db)))
    \<and> (\<forall>page>N. fst (snd (projr (get_conversation c user org (int page) (int psize) db))) = [])"
proof (intro conjI)
  let ?h = "get_by_conversation c (cd_messages db)"
  have "map (\<lambda>page. fst (snd (projr (get_conversation c user org (int page) (int psize) db)))) [1..<N + 1] =
      map (\<lambda>n. take psize (drop (n * psize) ?h)) [0..<N]"
    using page_content [OF assms(1) _ assms(2), of "Suc n" for n]
    by (simp add: map_Suc_upt [symmetric] comp_def del: upt_Suc)
  then show "concat (map (\<lambda>page. fst (snd (projr (get_conversation c user org (int page) (int psize) db)))) [1..<N + 1]) = ?h"
    using assms(3) by (simp only: chunks_concat) simp
  show "\<forall>page\<ge>1. is_ok (get_conversation c user org (int page) (int psize) db)
      \<and> snd (snd (projr (get_conversation c user org (int page) (int psize) db))) = length ?h"
    using page_content [OF assms(1) _ assms(2)] by simp
  show "\<forall>page>N. fst (snd (projr (get_conversation c user org (int page) (int psize) db))) = []"
  proof (intro allI impI)
    fix page assume "page > N"
    then have "N * psize \<le> (page - 1) * psize" by (intro mult_le_mono1) simp
    with assms(3) have "length ?h \<le> (page - 1) * psize" by (rule order_trans)
    then have "drop ((page - 1) * psize) ?h = []" by (rule drop_all)
    with page_content [OF assms(1) _ assms(2), of page] \<open>page > N\<close>
    show "fst (snd (projr (get_conversation c user org (int page) (int psize) db))) = []" by simp
  qed
qed

section \<open>Regeneration\<close>

lemma sort_hd_least: "sort_key f xs = y # ys \<Longrightarrow> y \<in> set xs \<and> (\<forall>x\<in>set xs. f y \<le> f x)"
proof -
  assume s: "sort_key f xs = y # ys"
  have "set (sort_key f xs) = set xs" by simp
  then have eq: "set xs = insert y (set ys)" using s by simp
  have "sorted (map f (y # ys))" using sorted_sort_key [of f xs] s by simp
  with eq show ?thesis by auto
qed

lemma last_user_split:
  assumes wf: "messages_wf t" and last: "get_last_user_message c t = Some (i, m)"
  shows "\<exists>pre post. get_by_conversation c t = pre @ (i, m) # post \<and> ms_role m = ''user'' \<and> list_all (\<lambda>(_, n). ms_role n = ''assistant'') post"
proof -
  let ?us = "repo_where (\<lambda>m. ms_conversation_id m = c \<and> ms_role m = ''user'') t"
  from last obtain rest where "sort_key (\<lambda>im. - fst im) ?us = (i, m) # rest"
    by (auto simp: get_last_user_message_def get_last_message_def split: list.splits)
  from sort_hd_least [OF this] have im: "(i, m) \<in> set ?us" "\<And>j n. (j, n) \<in> set ?us \<Longrightarrow> j \<le> i" by force+
  let ?h = "get_by_conversation c t"
  have h: "?h = repo_where (\<lambda>m. ms_conversation_id m = c) t" by (rule history_is_filter [OF wf])
  have "(i, m) \<in> set ?h" using im(1) unfolding h by (auto simp: repo_where_def)
  then obtain pre post where split: "?h = pre @ (i, m) # post" by (meson split_list)
  have "sorted_wrt (<) (map fst ?h)"
    unfolding h repo_where_def using messages_wf_sorted [OF wf] unfolding sorted_wrt_map by (rule sorted_wrt_filter)
  then have after: "i < j" if "(j, n) \<in> set post" for j n
    using that unfolding split by (auto simp: sorted_wrt_append)
  have "ms_role n = ''assistant''" if "(j, n) \<in> set post" for j n
  proof -
    have "(j, n) \<in> set ?h" using that split by simp
    then have n: "(j, n) \<in> set t" "ms_conversation_id n = c" unfolding h by (auto simp: repo_where_def)
    have "ms_role n \<noteq> ''user''"
    proof
      assume "ms_role n = ''user''"
      with n have "(j, n) \<in> set ?us" by (auto simp: repo_where_def)
      with im(2) [OF this] after [OF that] show False by simp
    qed
    with messages_typed [OF wf n(1)] show ?thesis by (auto simp: assistant_row_def user_row_def new_message_def dest: arg_cong [where f = ms_role])
  qed
  with split im(1) show ?thesis by (auto simp: list_all_iff repo_where_def)
qed

lemma role_lower: "message_role ''user'' = ''user''" "message_role ''assistant'' = ''assistant''"
  by code_simp+

definition repeats_question :: "chat_request \<Rightarrow> string \<Rightarrow> bool" where
  "repeats_question q text \<longleftrightarrow> (\<exists>before between. cq_messages q = before @ plain ''user'' text # between @ [plain ''user'' text]
     \<and> list_all (\<lambda>g. mg_role g = ''assistant'') between)"

lemma build_prompt_ends: "\<exists>front. build_prompt s h u mem knw tool = front @ h @ [plain ''user'' u]"
  unfolding build_prompt_def by (rule exI) (rule append.assoc [symmetric])

lemma turn_request_repeats:
  assumes wf: "messages_wf (cd_messages db)" and last: "get_last_user_message c (cd_messages db) = Some (i, m)"
  shows "repeats_question (turn_request co c v ag (ms_content m) ov db) (ms_content m)"
proof -
  obtain pre post where h: "get_by_conversation c (cd_messages db) = pre @ (i, m) # post" "ms_role m = ''user''"
    "list_all (\<lambda>(_, n). ms_role n = ''assistant'') post" using last_user_split [OF assms] by blast
  have "build_context (pre @ (i, m) # post) = build_context pre @ plain ''user'' (ms_content m) # build_context post"
    by (simp add: build_context_def h(2) role_lower)
  moreover have "list_all (\<lambda>g. mg_role g = ''assistant'') (build_context post)"
    using h(3) by (induction post) (auto simp: build_context_def plain_def role_lower)
  moreover obtain front where "cq_messages (turn_request co c v ag (ms_content m) ov db) =
      front @ build_context (pre @ (i, m) # post) @ [plain ''user'' (ms_content m)]"
    using build_prompt_ends unfolding turn_request_def chat_request_for_def chat_request.select_convs h(1) by blast
  ultimately show ?thesis
    unfolding repeats_question_def by (intro exI [of _ "front @ build_context pre"] exI [of _ "build_context post"]) simp
qed

lemma pipeline_request:
  "execute_and_persist co k c v ag text ov False db =
     ask_turn co k c v (turn_request co c v ag text ov db) (ov_provider ov)
       (snd (build_runtime_context co (cv_organization_id v) (cv_agent_id v) text db))"
  by (simp add: execute_and_persist_def turn_request_def Let_def split_beta)

text \<open>
  Regenerating and retrying an answer ask the last question twice.  For an
  existing conversation with a user message both are the turn of one provider
  request in which that message appears within the history, followed by
  assistant messages only, and once more at the end.
\<close>

theorem regenerate_repeats_question:
  assumes "messages_wf (cd_messages db)" and "get_last_user_message c (cd_messages db) = Some (i, m)"
    and "validate_conversation c org user db = Ok v" and "validate_agent (cv_agent_id v) org db = Ok ag"
  shows "(\<exists>q. repeats_question q (ms_content m) \<and> regenerate_response co c p user org k db = ask_turn co k c v q (pl_provider p)
        (snd (build_runtime_context co (cv_organization_id v) (cv_agent_id v) (ms_content m) db)))
    \<and> (\<exists>q. repeats_question q (ms_content m) \<and> retry_failed_message co c p user org k db = ask_turn co k c v q (pl_provider p)
        (snd (build_runtime_context co (cv_organization_id v) (cv_agent_id v) (ms_content m) db)))"
proof (intro conjI)
  show "\<exists>q. repeats_question q (ms_content m) \<and> regenerate_response co c p user org k db = ask_turn co k c v q (pl_provider p)
        (snd (build_runtime_context co (cv_organization_id v) (cv_agent_id v) (ms_content m) db))"
    by (intro exI conjI, rule turn_request_repeats [OF assms(1,2)])
      (simp add: regenerate_response_def with_conversation_def assms pipeline_request payload_overrides_def)
  show "\<exists>q. repeats_question q (ms_content m) \<and> retry_failed_message co c p user org k db = ask_turn co k c v q (pl_provider p)
        (snd (build_runtime_context co (cv_organization_id v) (cv_agent_id v) (ms_content m) db))"
    by (intro exI conjI, rule turn_request_repeats [OF assms(1,2)])
      (simp add: retry_failed_message_def with_conversation_def assms pipeline_request)
qed

section \<open>An example\<close>

definition hello_remote :: "(nat, chat_request, ai_response) remote" where
  "hello_remote p q e = (Ok \<lparr>re_model = ''m'', re_message = plain ''assistant'' ''hello'', re_finish_reason = None, re_usage = None,
     re_tool_calls = []\<rparr>, e + 1)"

definition hello_services :: "nat collaborators" where
  "hello_services = \<lparr>co_memory = None, co_knowledge = None, co_rag = None, co_tools = False, co_remote = hello_remote,
     co_default_provider = ''groq''\<rparr>"

definition hello_db :: "nat chat_db" where
  "hello_db = \<lparr>cd_conversations = [(1, \<lparr>cv_organization_id = 1, cv_agent_id = 7, cv_user_id = 5, cv_title = None, cv_runtime_version = ''AgentCorp V1''\<rparr>)],
     cd_messages = [(1, new_message 1 ''user'' ''hi'')],
     cd_agents = [(7, \<lparr>am_organization_id = 1, am_system_prompt = ''be kind'', am_model_name = ''m'', am_temperature = 70, am_max_tokens = 10, am_is_active = True\<rparr>)],
     cd_access = echo_db, cd_registry = [], cd_providers = demo_providers\<rparr>"

definition hello_user :: gov_user where
  "hello_user = \<lparr>gu_id = 5, gu_is_active = True, gu_is_superuser = False\<rparr>"

definition hello_payload :: chat_payload where
  "hello_payload = \<lparr>pl_kind = ChatContinue, pl_message = ''again'', pl_provider = None, pl_model = None, pl_temperature = None, pl_top_p = None,
     pl_max_tokens = None, pl_runtime_version = ''AgentCorp V1'', pl_tool_choice = None, pl_agent_id = None\<rparr>"

lemma hello_wf: "chat_wf hello_db"
proof -
  have "messages_wf ([] @ [(1, new_message 1 ''user'' ''hi'')])"
    by (rule messages_wf.user [OF messages_wf.empty _ new_user_row]) simp
  then show ?thesis by (simp add: chat_wf_def hello_db_def rows_def new_message_def ids_def)
qed

lemma hello_access:
  "validate_conversation 1 1 hello_user hello_db = Ok \<lparr>cv_organization_id = 1, cv_agent_id = 7, cv_user_id = 5, cv_title = None, cv_runtime_version = ''AgentCorp V1''\<rparr>"
  "is_ok (validate_agent 7 1 hello_db)"
  by (simp_all add: validate_conversation_def get_by_id_for_org_def hello_db_def hello_user_def validate_agent_def repo_get_def)

theorem chat_rows_typed_witness:
  "rows_typed (run_ops hello_services serial_keys [Continue 1 hello_payload hello_user 1, Regenerate 1 hello_payload hello_user 1] hello_db)
   \<and> take 1 (cd_messages (run_ops hello_services serial_keys [Continue 1 hello_payload hello_user 1, Regenerate 1 hello_payload hello_user 1] hello_db))
      = [(1, new_message 1 ''user'' ''hi'')]"
  using chat_rows_typed [OF serial_keys_fresh hello_wf, of hello_services "[Continue 1 hello_payload hello_user 1, Regenerate 1 hello_payload hello_user 1]"]
  by (simp add: hello_db_def)

theorem chat_turn_stored_witness:
  "\<exists>i resp. get_by_conversation 1 (cd_messages (snd (continue_chat hello_services 1 hello_payload hello_user 1 serial_keys hello_db)))
     = [(1, new_message 1 ''user'' ''hi''), (i, new_message 1 ''user'' ''again''), (rp_message_id resp, answer_row 1 resp)]"
proof -
  obtain r db' where run: "continue_chat hello_services 1 hello_payload hello_user 1 serial_keys hello_db = (r, db')" by fastforce
  have "is_ok (fst (continue_chat hello_services 1 hello_payload hello_user 1 serial_keys hello_db))" by code_simp
  then obtain resp where r: "r = Ok resp" using run by (cases r) auto
  have "may_chat 1 hello_user 1 hello_db" using hello_access by (simp add: may_chat_def)
  moreover have "get_by_conversation 1 (cd_messages hello_db) = [(1, new_message 1 ''user'' ''hi'')]"
    by (simp add: get_by_conversation_def hello_db_def repo_where_def new_message_def)
  ultimately show ?thesis
    using chat_turn_stored [OF serial_keys_fresh hello_wf run] run r by (auto simp: hello_payload_def)
qed

theorem conversations_isolated_witness:
  "\<not> is_ok (fst (run_op hello_services (Continue 1 hello_payload (hello_user\<lparr>gu_id := 6\<rparr>) 1) serial_keys hello_db))
   \<and> \<not> is_ok (get_conversation 1 (hello_user\<lparr>gu_id := 6\<rparr>) 1 1 20 hello_db)
   \<and> get_by_conversation 1 (cd_messages (snd (run_op hello_services (Create hello_payload hello_user 1) serial_keys hello_db))) = [(1, new_message 1 ''user'' ''hi'')]"
proof -
  have t: "(1::int) \<noteq> op_target (Create hello_payload hello_user 1) serial_keys hello_db"
    by (simp add: serial_keys_def hello_db_def serial_id_def)
  have h: "get_by_conversation 1 (cd_messages hello_db) = [(1, new_message 1 ''user'' ''hi'')]"
    by (simp add: get_by_conversation_def hello_db_def repo_where_def new_message_def)
  have st: "\<not> gu_is_superuser (hello_user\<lparr>gu_id := 6\<rparr>) \<and> (\<forall>v. (1, v) \<in> set (cd_conversations hello_db) \<longrightarrow> cv_organization_id v = 1 \<longrightarrow> cv_user_id v \<noteq> gu_id (hello_user\<lparr>gu_id := 6\<rparr>))"
    by (simp add: hello_user_def hello_db_def)
  note iso = conversations_isolated [of "hello_user\<lparr>gu_id := 6\<rparr>" 1 hello_db 1 hello_payload hello_services serial_keys 1 20 1 "Create hello_payload hello_user 1"]
  have "is_ok (fst (run_op hello_services (Continue 1 hello_payload (hello_user\<lparr>gu_id := 6\<rparr>) 1) serial_keys hello_db)) = False"
    using iso [THEN conjunct1, THEN mp, OF st, THEN conjunct1, THEN spec, THEN mp, OF insertI1] by (elim exE conjE) (simp only: fst_conv is_ok.simps)
  with iso [THEN conjunct1, THEN mp, OF st, THEN conjunct2] iso [THEN conjunct2, THEN mp, OF t] h
  show ?thesis by (simp only: simp_thms)
qed

theorem pages_are_history_witness:
  "fst (snd (projr (get_conversation 1 hello_user 1 1 20 hello_db))) = [(1, new_message 1 ''user'' ''hi'')]"
proof -
  have h: "get_by_conversation 1 (cd_messages hello_db) = [(1, new_message 1 ''user'' ''hi'')]"
    by (simp add: get_by_conversation_def hello_db_def repo_where_def new_message_def)
  show ?thesis using pages_are_history [OF hello_access(1), of 20 1] h by simp
qed

theorem regenerate_repeats_question_witness:
  "\<exists>q v. repeats_question q ''hi'' \<and> regenerate_response hello_services 1 hello_payload hello_user 1 serial_keys hello_db =
     ask_turn hello_services serial_keys 1 v q None (snd (build_runtime_context hello_services 1 7 ''hi'' hello_db))"
proof -
  obtain ag where ag: "validate_agent 7 1 hello_db = Ok ag" using hello_access(2) by (cases "validate_agent 7 1 hello_db") auto
  have last: "get_last_user_message 1 (cd_messages hello_db) = Some (1, new_message 1 ''user'' ''hi'')"
    by (simp add: get_last_user_message_def get_last_message_def repo_where_def hello_db_def new_message_def)
  have wf: "messages_wf (cd_messages hello_db)" using hello_wf by (simp add: chat_wf_def)
  from regenerate_repeats_question [OF wf last hello_access(1), of ag hello_services hello_payload serial_keys] ag
  show ?thesis by (auto simp: hello_payload_def new_message_def)
qed

end
