(* ===== verification/Streaming.thy ===== *)
theory Streaming
  imports Chat_Invariant
begin

text \<open>
  The streaming engine (\<open>services/streaming_service.py\<close>, \<open>utils/stream_events.py\<close>):
  a turn of a conversation whose answer is sent token by token.

  A provider's stream is the list of the chunks it yields and the exception it
  ends with, if any.  What the client does is an argument: it stays, it closes
  the generator after a number of token events, or its task is cancelled while
  the service waits for a chunk.  Events carry the fields of the text that is
  sent; time stamps and latencies are left out.
\<close>

section \<open>Events and counters\<close>

record stream_chunk =
  ck_token :: string
  ck_index :: int
  ck_finish_reason :: "string option"
  ck_usage :: "usage option"
  ck_model :: string

datatype stream_event =
    TokenEvent string int string string
  | DoneEvent string "usage option" nat
  | ErrorEvent string string

record stream_counters =
  sc_active :: int
  sc_completed :: int
  sc_cancelled :: int
  sc_failed :: int
  sc_tokens :: int

definition increment_active :: "stream_counters \<Rightarrow> stream_counters" where
  "increment_active s = s\<lparr>sc_active := sc_active s + 1\<rparr>"

definition decrement_active :: "stream_counters \<Rightarrow> stream_counters" where
  "decrement_active s = s\<lparr>sc_active := max 0 (sc_active s - 1)\<rparr>"

definition record_completed :: "nat \<Rightarrow> stream_counters \<Rightarrow> stream_counters" where
  "record_completed tokens s = s\<lparr>sc_completed := sc_completed s + 1, sc_tokens := sc_tokens s + int tokens\<rparr>"

definition record_cancelled :: "stream_counters \<Rightarrow> stream_counters" where
  "record_cancelled s = s\<lparr>sc_cancelled := sc_cancelled s + 1\<rparr>"

definition record_failed :: "stream_counters \<Rightarrow> stream_counters" where
  "record_failed s = s\<lparr>sc_failed := sc_failed s + 1\<rparr>"

datatype client = Stays | Leaves nat | TaskCancelled nat

section \<open>Reading the provider's stream\<close>

record stream_state =
  ss_tokens :: "string list"
  ss_finish_reason :: string
  ss_usage :: "usage option"
  ss_provider :: string
  ss_model :: string

definition chunk_provider :: "stream_chunk \<Rightarrow> stream_state \<Rightarrow> stream_state" where
  "chunk_provider ck s =
     (let m = ck_model ck in
      if m = [] then s
      else s\<lparr>ss_model := m, ss_provider := (if py_in ''/'' m then takeWhile (\<lambda>c. c \<noteq> CHR ''/'') m else ss_provider s)\<rparr>)"

definition take_token :: "stream_chunk \<Rightarrow> stream_state \<Rightarrow> stream_event list \<times> stream_state" where
  "take_token ck s =
     (if ck_token ck = [] then ([], s)
      else (let s1 = chunk_provider ck (s\<lparr>ss_tokens := ss_tokens s @ [ck_token ck]\<rparr>)
            in ([TokenEvent (ck_token ck) (ck_index ck) (ss_provider s1) (ss_model s1)], s1)))"

definition take_end :: "stream_chunk \<Rightarrow> stream_state \<Rightarrow> stream_state" where
  "take_end ck s =
     s\<lparr>ss_finish_reason := or_str (ck_finish_reason ck) (ss_finish_reason s),
       ss_usage := (case ck_usage ck of None \<Rightarrow> ss_usage s | Some u \<Rightarrow> Some u)\<rparr>"

datatype stream_end = Drained | ClientLeft | WasCancelled

text \<open>One step of the loop per chunk; the client's number counts down token events, or chunks for a cancelled task.\<close>

fun consume :: "client \<Rightarrow> stream_chunk list \<Rightarrow> stream_state \<Rightarrow> stream_event list \<times> stream_state \<times> stream_end" where
  "consume (TaskCancelled 0) cks s = ([], s, WasCancelled)"
| "consume cl [] s = ([], s, Drained)"
| "consume Stays (ck # cks) s =
     (let (evs, s1) = take_token ck s; (rest, s2, e) = consume Stays cks (take_end ck s1) in (evs @ rest, s2, e))"
| "consume (Leaves n) (ck # cks) s =
     (let (evs, s1) = take_token ck s in
      if evs \<noteq> [] \<and> n \<le> 1 then (evs, s1, ClientLeft)
      else (let (rest, s2, e) = consume (Leaves (if evs = [] then n else n - 1)) cks (take_end ck s1) in (evs @ rest, s2, e)))"
| "consume (TaskCancelled (Suc n)) (ck # cks) s =
     (let (evs, s1) = take_token ck s; (rest, s2, e) = consume (TaskCancelled n) cks (take_end ck s1) in (evs @ rest, s2, e))"

section \<open>Execution pipeline\<close>

text \<open>The outcome of a stream: the events sent, the exception that leaves the generator, and the counters.\<close>

datatype stream_error = StreamFailed chat_error | CancelledError

type_synonym stream_out = "stream_event list \<times> stream_error option \<times> stream_counters"

type_synonym 'e stream_remote = "('e, chat_request, stream_chunk list \<times> string option) remote"

definition open_stream ::
  "'e stream_remote \<Rightarrow> string \<Rightarrow> chat_request \<Rightarrow> string option \<Rightarrow> 'e chat_db \<Rightarrow> (stream_chunk list \<times> string option) \<times> 'e chat_db" where
  "open_stream remote dflt q name db =
     (case stream_chat remote dflt q name (cd_providers db) of
        (Inl x, ps) \<Rightarrow> (([], Some (error_text x)), db\<lparr>cd_providers := ps\<rparr>)
      | (Inr s, ps) \<Rightarrow> (s, db\<lparr>cd_providers := ps\<rparr>))"

definition persist_stream :: "row_keys \<Rightarrow> int \<Rightarrow> stream_state \<Rightarrow> 'e chat_db \<Rightarrow> 'e chat_db" where
  "persist_stream k c s db =
     snd (create_assistant_message k c (concat (ss_tokens s)) (Some (ss_provider s)) (Some (ss_model s)) (Some (ss_finish_reason s))
       (map_option ug_prompt_tokens (ss_usage s)) (map_option ug_completion_tokens (ss_usage s)) (map_option ug_total_tokens (ss_usage s)) db)"

definition execute_stream ::
  "'e collaborators \<Rightarrow> 'e stream_remote \<Rightarrow> int \<Rightarrow> conversation \<Rightarrow> chat_agent \<Rightarrow> chat_payload \<Rightarrow> client \<Rightarrow> stream_counters
   \<Rightarrow> row_keys \<Rightarrow> 'e chat_db \<Rightarrow> stream_out \<times> 'e chat_db" where
  "execute_stream co remote c v ag p cl ctr k db =
     (let ctr1 = increment_active ctr;
          history = build_context (get_by_conversation c (cd_messages db));
          (rc, db1) = build_runtime_context co (cv_organization_id v) (cv_agent_id v) (pl_message p) db;
          db2 = snd (create_user_message k c (pl_message p) db1);
          q = chat_request_for ag (payload_overrides p) rc history (pl_message p);
          start = \<lparr>ss_tokens = [], ss_finish_reason = ''stop'', ss_usage = None, ss_provider = or_str (pl_provider p) ''auto'', ss_model = cq_model q\<rparr>
      in if \<not> request_in_bounds q
         then (([ErrorEvent ''An unexpected error occurred during streaming.'' ''internal_error''], None, decrement_active (record_failed ctr1)), db2)
         else
      (let ((chunks, broke), db3) = open_stream remote (co_default_provider co) q (pl_provider p) db2;
          (evs, s, ending) = consume cl chunks start
      in case ending of
           ClientLeft \<Rightarrow> ((evs, None, decrement_active (record_cancelled ctr1)), db3)
         | WasCancelled \<Rightarrow> ((evs, Some CancelledError, ctr1), db3)
         | Drained \<Rightarrow>
             (case broke of
                Some exc \<Rightarrow> ((evs @ [ErrorEvent exc ''provider_streaming_error''], None, decrement_active (record_failed ctr1)), db3)
              | None \<Rightarrow>
                  ((evs @ [DoneEvent (ss_finish_reason s) (ss_usage s) (length (ss_tokens s))], None,
                    decrement_active (record_completed (length (ss_tokens s)) ctr1)), persist_stream k c s db3))))"

definition stream_new_chat ::
  "'e collaborators \<Rightarrow> 'e stream_remote \<Rightarrow> chat_payload \<Rightarrow> gov_user \<Rightarrow> int \<Rightarrow> client \<Rightarrow> stream_counters \<Rightarrow> row_keys \<Rightarrow> 'e chat_db
   \<Rightarrow> stream_out \<times> 'e chat_db" where
  "stream_new_chat co remote p user org cl ctr k db =
     (case pl_agent_id p of
        None \<Rightarrow> (([], Some (StreamFailed (ChatHttp 422 ''agent_id is required when creating a new conversation stream.'')), ctr), db)
      | Some a \<Rightarrow>
          (case validate_agent a org db of
             Inl x \<Rightarrow> (([], Some (StreamFailed x), ctr), db)
           | Inr ag \<Rightarrow>
               (let v = \<lparr>cv_organization_id = org, cv_agent_id = a, cv_user_id = gu_id user, cv_title = Some (take 100 (pl_message p)),
                         cv_runtime_version = pl_runtime_version p\<rparr>;
                    c = key_conversation k (cd_conversations db)
                in execute_stream co remote c v ag p cl ctr k (db\<lparr>cd_conversations := repo_create c v (cd_conversations db)\<rparr>))))"

definition stream_continue_chat ::
  "'e collaborators \<Rightarrow> 'e stream_remote \<Rightarrow> int \<Rightarrow> chat_payload \<Rightarrow> gov_user \<Rightarrow> int \<Rightarrow> client \<Rightarrow> stream_counters \<Rightarrow> row_keys \<Rightarrow> 'e chat_db
   \<Rightarrow> stream_out \<times> 'e chat_db" where
  "stream_continue_chat co remote c p user org cl ctr k db =
     (case validate_conversation c org user db of
        Inl x \<Rightarrow> (([], Some (StreamFailed x), ctr), db)
      | Inr v \<Rightarrow>
          (case validate_agent (cv_agent_id v) org db of
             Inl x \<Rightarrow> (([], Some (StreamFailed x), ctr), db)
           | Inr ag \<Rightarrow> execute_stream co remote c v ag p cl ctr k db))"

section \<open>Endpoint\<close>

text \<open>The generator of the endpoint turns an exception into a last event; a cancellation is no \<open>Exception\<close> and passes.\<close>

definition event_generator :: "stream_out \<Rightarrow> stream_event list \<times> bool" where
  "event_generator out =
     (let (evs, err, _) = out in
      case err of
        None \<Rightarrow> (evs, True)
      | Some (StreamFailed (ChatHttp code detail)) \<Rightarrow> (evs @ [ErrorEvent detail (''http_'' @ show_int code)], True)
      | Some (StreamFailed (ChatRaised _)) \<Rightarrow> (evs @ [ErrorEvent ''An unexpected error occurred.'' ''internal_error''], True)
      | Some CancelledError \<Rightarrow> (evs, False))"

section \<open>What the loop collects\<close>

fun event_tokens :: "stream_event list \<Rightarrow> string list" where
  "event_tokens [] = []"
| "event_tokens (TokenEvent t _ _ _ # es) = t # event_tokens es"
| "event_tokens (_ # es) = event_tokens es"

fun is_token :: "stream_event \<Rightarrow> bool" where
  "is_token (TokenEvent _ _ _ _) = True"
| "is_token _ = False"

lemma event_tokens_append [simp]: "event_tokens (xs @ ys) = event_tokens xs @ event_tokens ys"
  by (induction xs rule: event_tokens.induct) auto

lemma take_token_facts:
  "take_token ck s = (evs, s1) \<Longrightarrow> list_all is_token evs \<and> ss_tokens s1 = ss_tokens s @ event_tokens evs
     \<and> event_tokens evs = filter (\<lambda>t. t \<noteq> []) [ck_token ck]"
  by (auto simp: take_token_def chunk_provider_def Let_def split: if_splits)

lemma take_end_tokens [simp]: "ss_tokens (take_end ck s) = ss_tokens s"
  by (simp add: take_end_def)

text \<open>Whether the client reads a stream of these chunks to its end.\<close>

fun reads_all :: "client \<Rightarrow> stream_chunk list \<Rightarrow> bool" where
  "reads_all Stays cks = True"
| "reads_all (Leaves n) cks = (length (filter (\<lambda>ck. ck_token ck \<noteq> []) cks) < max 1 n)"
| "reads_all (TaskCancelled n) cks = (length cks < n)"

text \<open>
  The tokens of the events sent are the tokens collected; a stream is drained exactly when the client reads all
  of it, and then sent every token of the provider.
\<close>

lemma consume_facts:
  "consume cl cks s = (evs, s', e) \<Longrightarrow> list_all is_token evs \<and> ss_tokens s' = ss_tokens s @ event_tokens evs
     \<and> (e = Drained \<longleftrightarrow> reads_all cl cks)
     \<and> (e = Drained \<longrightarrow> event_tokens evs = filter (\<lambda>t. t \<noteq> []) (map ck_token cks))
     \<and> (e = WasCancelled \<longrightarrow> (\<exists>n. cl = TaskCancelled n)) \<and> (e = ClientLeft \<longrightarrow> (\<exists>n. cl = Leaves n))"
proof (induction cl cks s arbitrary: evs s' e rule: consume.induct)
  case (3 ck cks s)
  obtain e1 s1 where t: "take_token ck s = (e1, s1)" by fastforce
  obtain e2 s2 x where c: "consume Stays cks (take_end ck s1) = (e2, s2, x)" by (metis prod.exhaust)
  from 3(1) [OF t [symmetric] refl c] 3(2) t c take_token_facts [OF t] show ?case by auto
next
  case (4 n ck cks s)
  obtain e1 s1 where t: "take_token ck s = (e1, s1)" by fastforce
  have sent: "e1 \<noteq> [] \<longleftrightarrow> ck_token ck \<noteq> []" using t by (auto simp: take_token_def Let_def split: if_splits)
  show ?case
  proof (cases "e1 \<noteq> [] \<and> n \<le> 1")
    case True
    with 4(2) t take_token_facts [OF t] sent show ?thesis by auto
  next
    case False
    obtain e2 s2 x where c: "consume (Leaves (if e1 = [] then n else n - 1)) cks (take_end ck s1) = (e2, s2, x)" by (metis prod.exhaust)
    from 4(1) [OF t [symmetric] refl False c] 4(2) t False c take_token_facts [OF t] sent show ?thesis by (auto split: if_splits)
  qed
next
  case (5 n ck cks s)
  obtain e1 s1 where t: "take_token ck s = (e1, s1)" by fastforce
  obtain e2 s2 x where c: "consume (TaskCancelled n) cks (take_end ck s1) = (e2, s2, x)" by (metis prod.exhaust)
  from 5(1) [OF t [symmetric] refl c] 5(2) t c take_token_facts [OF t] show ?case by auto
qed (auto split: client.splits)

section \<open>The ends of a stream\<close>

definition stream_row :: "int \<Rightarrow> stream_state \<Rightarrow> message" where
  "stream_row c s = (new_message c ''assistant'' (concat (ss_tokens s)))\<lparr>ms_provider := Some (ss_provider s), ms_model_used := Some (ss_model s),
     ms_finish_reason := Some (ss_finish_reason s), ms_prompt_tokens := map_option ug_prompt_tokens (ss_usage s),
     ms_completion_tokens := map_option ug_completion_tokens (ss_usage s), ms_total_tokens := map_option ug_total_tokens (ss_usage s)\<rparr>"

lemma stream_row_typed: "assistant_row c (stream_row c s)"
  by (simp add: assistant_row_def stream_row_def new_message_def)

lemma open_same: "open_stream remote dflt q n db = (x, db') \<Longrightarrow> same_rows db db'"
  by (auto simp: open_stream_def same_rows_def split: prod.splits sum.splits)

text \<open>
  How a stream ends, given whether the request is within its bounds, what the client does, the chunks of the provider's
  stream and the exception it breaks with: the events, the counters, and the message table that is left.
\<close>

inductive stream_ends ::
  "bool \<Rightarrow> client \<Rightarrow> stream_chunk list \<times> string option \<Rightarrow> int \<Rightarrow> stream_counters \<Rightarrow> row_keys \<Rightarrow> message table \<Rightarrow> stream_out \<Rightarrow> message table \<Rightarrow> bool"
  for ok cl src c ctr k t where
  invalid: "\<not> ok \<Longrightarrow>
    stream_ends ok cl src c ctr k t ([ErrorEvent ''An unexpected error occurred during streaming.'' ''internal_error''], None,
      decrement_active (record_failed (increment_active ctr))) t"
| completed: "ok \<Longrightarrow> reads_all cl (fst src) \<Longrightarrow> snd src = None \<Longrightarrow> list_all is_token toks \<Longrightarrow> ss_tokens s = event_tokens toks \<Longrightarrow>
    event_tokens toks = filter (\<lambda>t. t \<noteq> []) (map ck_token (fst src)) \<Longrightarrow>
    stream_ends ok cl src c ctr k t (toks @ [DoneEvent (ss_finish_reason s) (ss_usage s) (length (ss_tokens s))], None,
      decrement_active (record_completed (length (ss_tokens s)) (increment_active ctr))) (t @ [(key_message k t, stream_row c s)])"
| failed: "ok \<Longrightarrow> reads_all cl (fst src) \<Longrightarrow> snd src = Some exc \<Longrightarrow> list_all is_token toks \<Longrightarrow>
    event_tokens toks = filter (\<lambda>t. t \<noteq> []) (map ck_token (fst src)) \<Longrightarrow>
    stream_ends ok cl src c ctr k t (toks @ [ErrorEvent exc ''provider_streaming_error''], None, decrement_active (record_failed (increment_active ctr))) t"
| left: "ok \<Longrightarrow> \<not> reads_all cl (fst src) \<Longrightarrow> list_all is_token toks \<Longrightarrow> cl = Leaves n \<Longrightarrow>
    stream_ends ok cl src c ctr k t (toks, None, decrement_active (record_cancelled (increment_active ctr))) t"
| cancelled: "ok \<Longrightarrow> \<not> reads_all cl (fst src) \<Longrightarrow> list_all is_token toks \<Longrightarrow> cl = TaskCancelled n \<Longrightarrow>
    stream_ends ok cl src c ctr k t (toks, Some CancelledError, increment_active ctr) t"

text \<open>The stream a request opens at the provider.\<close>

definition provider_stream ::
  "'e collaborators \<Rightarrow> 'e stream_remote \<Rightarrow> int \<Rightarrow> conversation \<Rightarrow> chat_agent \<Rightarrow> chat_payload \<Rightarrow> row_keys \<Rightarrow> 'e chat_db
   \<Rightarrow> stream_chunk list \<times> string option" where
  "provider_stream co remote c v ag p k db =
     fst (open_stream remote (co_default_provider co) (turn_request co c v ag (pl_message p) (payload_overrides p) db) (pl_provider p)
       (asking_db co k c v (pl_message p) db))"

lemma persist_stream_rows:
  "cd_messages (persist_stream k c s db) = cd_messages db @ [(key_message k (cd_messages db), stream_row c s)]"
  "cd_conversations (persist_stream k c s db) = cd_conversations db" "cd_agents (persist_stream k c s db) = cd_agents db"
  "cd_access (persist_stream k c s db) = cd_access db"
  by (simp_all add: persist_stream_def create_assistant_message_def add_message_def Let_def repo_create_def stream_row_def)

lemma stream_run:
  assumes run: "execute_stream co remote c v ag p cl ctr k db = (out, db')"
  shows "stream_ends (request_in_bounds (turn_request co c v ag (pl_message p) (payload_overrides p) db)) cl
      (provider_stream co remote c v ag p k db) c ctr k
      (cd_messages db @ user_rows k c (pl_message p) True (cd_messages db)) out (cd_messages db')
    \<and> cd_conversations db' = cd_conversations db \<and> cd_agents db' = cd_agents db \<and> cd_access db' = cd_access db"
proof -
  obtain rc db1 where rc: "build_runtime_context co (cv_organization_id v) (cv_agent_id v) (pl_message p) db = (rc, db1)" by fastforce
  let ?q = "chat_request_for ag (payload_overrides p) rc (build_context (get_by_conversation c (cd_messages db))) (pl_message p)"
  let ?db2 = "snd (create_user_message k c (pl_message p) db1)"
  let ?start = "\<lparr>ss_tokens = [], ss_finish_reason = ''stop'', ss_usage = None, ss_provider = or_str (pl_provider p) ''auto'', ss_model = cq_model ?q\<rparr>"
  let ?t = "cd_messages db @ user_rows k c (pl_message p) True (cd_messages db)"
  obtain chunks broke db3 where op: "open_stream remote (co_default_provider co) ?q (pl_provider p) ?db2 = ((chunks, broke), db3)"
    by (metis prod.exhaust)
  obtain evs s ending where cs: "consume cl chunks ?start = (evs, s, ending)" by (metis prod.exhaust)
  have q: "turn_request co c v ag (pl_message p) (payload_overrides p) db = ?q" by (simp add: turn_request_def rc)
  have src: "provider_stream co remote c v ag p k db = (chunks, broke)"
    by (simp add: provider_stream_def q asking_db_def rc op)
  have db2: "cd_messages ?db2 = ?t" "cd_conversations ?db2 = cd_conversations db" "cd_agents ?db2 = cd_agents db" "cd_access ?db2 = cd_access db"
    using runtime_context_same [OF rc]
    by (simp_all add: same_rows_def create_user_message_def add_message_def user_rows_def repo_create_def Let_def)
  have db3: "cd_messages db3 = ?t" "cd_conversations db3 = cd_conversations db" "cd_agents db3 = cd_agents db" "cd_access db3 = cd_access db"
    using open_same [OF op] db2 by (simp_all add: same_rows_def)
  note facts = consume_facts [OF cs]
  have result: "(out, db') = (if \<not> request_in_bounds ?q
         then (([ErrorEvent ''An unexpected error occurred during streaming.'' ''internal_error''], None,
             decrement_active (record_failed (increment_active ctr))), ?db2)
         else case ending of
           ClientLeft \<Rightarrow> ((evs, None, decrement_active (record_cancelled (increment_active ctr))), db3)
         | WasCancelled \<Rightarrow> ((evs, Some CancelledError, increment_active ctr), db3)
         | Drained \<Rightarrow>
             (case broke of
                Some exc \<Rightarrow> ((evs @ [ErrorEvent exc ''provider_streaming_error''], None, decrement_active (record_failed (increment_active ctr))), db3)
              | None \<Rightarrow>
                  ((evs @ [DoneEvent (ss_finish_reason s) (ss_usage s) (length (ss_tokens s))], None,
                    decrement_active (record_completed (length (ss_tokens s)) (increment_active ctr))), persist_stream k c s db3)))"
    using run [symmetric] unfolding execute_stream_def Let_def rc prod.case op cs .
  show ?thesis unfolding q src
  proof (cases "request_in_bounds ?q")
    case False
    with result db2 stream_ends.invalid [of False cl "(chunks, broke)" c ctr k ?t]
    show "stream_ends (request_in_bounds ?q) cl (chunks, broke) c ctr k ?t out (cd_messages db')
      \<and> cd_conversations db' = cd_conversations db \<and> cd_agents db' = cd_agents db \<and> cd_access db' = cd_access db" by simp
  next
    case ok: True
    show "stream_ends (request_in_bounds ?q) cl (chunks, broke) c ctr k ?t out (cd_messages db')
      \<and> cd_conversations db' = cd_conversations db \<and> cd_agents db' = cd_agents db \<and> cd_access db' = cd_access db"
    proof (cases ending)
      case Drained
      show ?thesis
      proof (cases broke)
        case None
        with result ok Drained db3 have "out = (evs @ [DoneEvent (ss_finish_reason s) (ss_usage s) (length (ss_tokens s))], None,
            decrement_active (record_completed (length (ss_tokens s)) (increment_active ctr)))" "db' = persist_stream k c s db3" by simp_all
        with ok Drained None facts db3 stream_ends.completed [of True cl "(chunks, None)" evs s c ctr k ?t]
        show ?thesis by (simp add: persist_stream_rows)
      next
        case (Some exc)
        with result ok Drained facts db3 stream_ends.failed [of True cl "(chunks, broke)" exc evs c ctr k ?t] show ?thesis by simp
      qed
    next
      case ClientLeft
      with result ok facts db3 show ?thesis by (auto intro: stream_ends.left)
    next
      case WasCancelled
      with result ok facts db3 show ?thesis by (auto intro: stream_ends.cancelled)
    qed
  qed
qed

lemma stream_ends_adds:
  assumes "stream_ends ok cl src c ctr k (t @ user_rows k c text True t) out t'"
  shows "adds k c t t'"
proof -
  let ?t = "t @ user_rows k c text True t"
  have t: "adds k c t ?t" using adds.user [OF adds.nothing new_user_row] by (simp add: user_rows_def)
  have "asked c ?t" by (auto simp: asked_def user_rows_def rows_def new_message_def)
  from assms t adds.answer [OF t stream_row_typed this] show ?thesis by (cases rule: stream_ends.cases) auto
qed

lemma stream_continue_cases:
  assumes "stream_continue_chat co remote c p user org cl ctr k db = (out, db')"
  obtains x where "\<not> may_chat c user org db" "out = ([], Some (StreamFailed x), ctr)" "db' = db"
  | v ag where "may_chat c user org db" "(c, v) \<in> set (cd_conversations db)" "execute_stream co remote c v ag p cl ctr k db = (out, db')"
    "validate_conversation c org user db = Ok v" "validate_agent (cv_agent_id v) org db = Ok ag"
  using assms validated_conversation [of c org user db]
  by (cases "validate_conversation c org user db")
    (auto simp: stream_continue_chat_def may_chat_def split: sum.splits)

lemma stream_continue_contract:
  assumes "stream_continue_chat co remote c p user org cl ctr k db = (out, db')"
  shows "adds k c (cd_messages db) (cd_messages db') \<and> cd_conversations db' = cd_conversations db \<and> cd_agents db' = cd_agents db
    \<and> cd_access db' = cd_access db \<and> (cd_messages db' \<noteq> cd_messages db \<longrightarrow> c \<in> ids (cd_conversations db'))"
  using assms
proof (cases rule: stream_continue_cases)
  case (1 x)
  then show ?thesis by (simp add: adds.nothing)
next
  case (2 v ag)
  have "c \<in> ids (cd_conversations db)" using 2(2) by (force simp: ids_def)
  with stream_run [OF 2(3)] stream_ends_adds show ?thesis by fastforce
qed

lemma stream_new_contract:
  assumes run: "stream_new_chat co remote p user org cl ctr k db = (out, db')"
  shows "adds k (key_conversation k (cd_conversations db)) (cd_messages db) (cd_messages db') \<and> cd_agents db' = cd_agents db \<and> cd_access db' = cd_access db
    \<and> (db' = db \<or> (\<exists>v. cd_conversations db' = repo_create (key_conversation k (cd_conversations db)) v (cd_conversations db)))"
proof -
  let ?c = "key_conversation k (cd_conversations db)"
  consider "db' = db" | v ag where "execute_stream co remote ?c v ag p cl ctr k (db\<lparr>cd_conversations := repo_create ?c v (cd_conversations db)\<rparr>) = (out, db')"
    using run by (auto simp: stream_new_chat_def Let_def split: option.splits sum.splits)
  then show ?thesis
  proof cases
    case (2 v ag)
    from stream_run [OF this] stream_ends_adds show ?thesis by fastforce
  qed (simp add: adds.nothing)
qed

interpretation stream_continue_op: chat_operation "stream_continue_chat co remote c p user org cl ctr" "\<lambda>_ _. c" for co remote c p user org cl ctr
  by unfold_locales (use stream_continue_contract in \<open>fast+\<close>)

interpretation stream_new_op: chat_operation "stream_new_chat co remote p user org cl ctr" "\<lambda>k db. key_conversation k (cd_conversations db)"
  for co remote p user org cl ctr
proof (unfold_locales, goal_cases)
  case (3 k db r db')
  with stream_new_contract [OF 3(1)] show ?case by auto
qed (use stream_new_contract in \<open>fast+\<close>)

section \<open>What is stored, what is counted\<close>

fun is_done :: "stream_event \<Rightarrow> bool" where
  "is_done (DoneEvent _ _ _) = True"
| "is_done _ = False"

definition completed_stream :: "stream_event list \<Rightarrow> bool" where
  "completed_stream evs = list_ex is_done evs"

lemma tokens_not_done: "list_all is_token evs \<Longrightarrow> \<not> list_ex is_done evs"
  by (induction evs rule: event_tokens.induct) auto

lemma concat_filter_Nil: "concat (filter (\<lambda>t. t \<noteq> []) xs) = concat xs"
  by (induction xs) auto

text \<open>
  C28: only complete answers are stored, on every branch of a stream.  A user without access gets no event and nothing
  is stored.  Otherwise the user's message is stored.  When the provider's stream ends without an exception and
  the client reads it to its end, one assistant message is stored behind it: its text is all the provider's tokens in order,
  each sent in an event of its own, and it carries provider, model and finish reason; the final event reports the
  number of tokens.  When the request is out of its schema's bounds, the provider fails, the
  client leaves before the end or the task is cancelled, nothing but the user's message is stored
  and no final event is sent, however many tokens were sent before; a failure is told by an error event.
\<close>

theorem stream_stores_complete_answers:
  assumes "fresh_keys k" and "chat_wf db" and run: "stream_continue_chat co remote c p user org cl ctr k db = ((evs, err, ctr'), db')"
  shows "if \<not> may_chat c user org db then evs = [] \<and> err \<noteq> None \<and> ctr' = ctr \<and> db' = db
    else (\<exists>i v ag q chunks broke.
        validate_conversation c org user db = Ok v \<and> validate_agent (cv_agent_id v) org db = Ok ag
      \<and> q = turn_request co c v ag (pl_message p) (payload_overrides p) db
      \<and> provider_stream co remote c v ag p k db = (chunks, broke)
      \<and> (if request_in_bounds q \<and> broke = None \<and> reads_all cl chunks
         then (\<exists>j m toks f u. get_by_conversation c (cd_messages db') =
                get_by_conversation c (cd_messages db) @ [(i, new_message c ''user'' (pl_message p)), (j, m)]
              \<and> assistant_row c m \<and> ms_content m = concat (map ck_token chunks)
              \<and> evs = toks @ [DoneEvent f u (length (event_tokens toks))] \<and> list_all is_token toks
              \<and> event_tokens toks = filter (\<lambda>t. t \<noteq> []) (map ck_token chunks))
         else get_by_conversation c (cd_messages db') = get_by_conversation c (cd_messages db) @ [(i, new_message c ''user'' (pl_message p))]
              \<and> \<not> completed_stream evs
              \<and> (request_in_bounds q \<and> broke \<noteq> None \<and> reads_all cl chunks \<longrightarrow>
                   (\<exists>toks exc. broke = Some exc \<and> evs = toks @ [ErrorEvent exc ''provider_streaming_error''] \<and> list_all is_token toks))))"
  using run
proof (cases rule: stream_continue_cases)
  case (1 x)
  then show ?thesis by simp
next
  case (2 v ag)
  let ?t = "cd_messages db" and ?i = "key_message k (cd_messages db)" and ?u = "new_message c ''user'' (pl_message p)"
  let ?q = "turn_request co c v ag (pl_message p) (payload_overrides p) db"
  obtain chunks broke where src: "provider_stream co remote c v ag p k db = (chunks, broke)" by fastforce
  have wf: "messages_wf ?t" "messages_wf (cd_messages db')"
    using assms(2) stream_continue_op.preserves_wf [OF assms] by (simp_all add: chat_wf_def)
  have stored: "get_by_conversation c (cd_messages db') = get_by_conversation c ?t @ ms"
    if "cd_messages db' = ?t @ ms" "list_all (\<lambda>im. ms_conversation_id (snd im) = c) ms" for ms
    using history_append [OF _ wf(1) that(2)] wf(2) that(1) by simp
  have u: "ms_conversation_id ?u = c" by (simp add: new_message_def)
  have ends: "stream_ends (request_in_bounds ?q) cl (chunks, broke) c ctr k (?t @ [(?i, ?u)]) (evs, err, ctr') (cd_messages db')"
    using stream_run [OF 2(3)] by (simp add: user_rows_def src)
  have asked: "get_by_conversation c (cd_messages db') = get_by_conversation c ?t @ [(?i, ?u)]" if "cd_messages db' = ?t @ [(?i, ?u)]"
    by (rule stored [OF that]) (simp add: u)
  have branch: "if request_in_bounds ?q \<and> broke = None \<and> reads_all cl chunks
         then (\<exists>j m toks f u. get_by_conversation c (cd_messages db') = get_by_conversation c ?t @ [(?i, ?u), (j, m)]
              \<and> assistant_row c m \<and> ms_content m = concat (map ck_token chunks)
              \<and> evs = toks @ [DoneEvent f u (length (event_tokens toks))] \<and> list_all is_token toks
              \<and> event_tokens toks = filter (\<lambda>t. t \<noteq> []) (map ck_token chunks))
         else get_by_conversation c (cd_messages db') = get_by_conversation c ?t @ [(?i, ?u)] \<and> \<not> completed_stream evs
              \<and> (request_in_bounds ?q \<and> broke \<noteq> None \<and> reads_all cl chunks \<longrightarrow>
                   (\<exists>toks exc. broke = Some exc \<and> evs = toks @ [ErrorEvent exc ''provider_streaming_error''] \<and> list_all is_token toks))"
    using ends
  proof (cases rule: stream_ends.cases)
    case (completed toks s)
    have "get_by_conversation c (cd_messages db') = get_by_conversation c ?t @ [(?i, ?u), (key_message k (?t @ [(?i, ?u)]), stream_row c s)]"
      by (rule stored) (use completed u row_conversation(2) [OF stream_row_typed] in simp_all)
    moreover have "ms_content (stream_row c s) = concat (map ck_token chunks)"
      using completed concat_filter_Nil [of "map ck_token chunks"] by (simp add: stream_row_def new_message_def)
    ultimately show ?thesis using completed stream_row_typed [of c s] by auto
  qed (use asked tokens_not_done in \<open>auto simp: completed_stream_def\<close>)
  have access: "(\<not> may_chat c user org db) = False" using 2(1) by simp
  show ?thesis
    unfolding access if_False
    by (rule exI [of _ ?i], rule exI [of _ v], rule exI [of _ ag], rule exI, rule exI, rule exI,
        rule conjI [OF 2(4)], rule conjI [OF 2(5)], rule conjI [OF refl], rule conjI [OF src], rule branch)
qed

text \<open>
  The counters of the streaming engine.  Every stream that starts is counted
  exactly once as completed, failed or cancelled and is no longer active when it
  ends, with one exception: when its task is cancelled while it waits for the
  provider it stays in the count of active streams for good and is counted
  nowhere else.
\<close>

theorem stream_counters_balanced:
  assumes run: "stream_continue_chat co remote c p user org cl ctr k db = ((evs, err, ctr'), db')" and "0 \<le> sc_active ctr"
  shows "if \<not> may_chat c user org db then ctr' = ctr
    else if err = Some CancelledError
    then ctr' = ctr\<lparr>sc_active := sc_active ctr + 1\<rparr> \<and> (\<exists>n. cl = TaskCancelled n)
    else err = None \<and> sc_active ctr' = sc_active ctr
      \<and> sc_completed ctr' + sc_failed ctr' + sc_cancelled ctr' = sc_completed ctr + sc_failed ctr + sc_cancelled ctr + 1
      \<and> (sc_completed ctr' = sc_completed ctr + 1 \<longleftrightarrow> completed_stream evs)
      \<and> sc_tokens ctr' = sc_tokens ctr + (if completed_stream evs then int (length (event_tokens evs)) else 0)"
  using run
proof (cases rule: stream_continue_cases)
  case (1 x)
  then show ?thesis by simp
next
  case (2 v ag)
  note stream_run [OF 2(3), THEN conjunct1]
  then show ?thesis
    using 2(1) assms(2) tokens_not_done
    by (cases rule: stream_ends.cases)
      (auto simp: completed_stream_def decrement_active_def increment_active_def record_completed_def record_failed_def record_cancelled_def)
qed

definition two_chunks :: "nat stream_remote" where
  "two_chunks p q e = (Ok ([\<lparr>ck_token = ''he'', ck_index = 0, ck_finish_reason = None, ck_usage = None, ck_model = ''groq/m''\<rparr>,
     \<lparr>ck_token = ''llo'', ck_index = 1, ck_finish_reason = Some ''stop'', ck_usage = None, ck_model = []\<rparr>], None), e + 1)"

definition no_streams :: stream_counters where
  "no_streams = \<lparr>sc_active = 0, sc_completed = 0, sc_cancelled = 0, sc_failed = 0, sc_tokens = 0\<rparr>"

lemma hello_may_chat: "may_chat 1 hello_user 1 hello_db"
  using hello_access by (simp add: may_chat_def)

theorem stream_stores_complete_answers_witness:
  "\<exists>i j m. get_by_conversation 1 (cd_messages (snd (stream_continue_chat hello_services two_chunks 1 hello_payload hello_user 1 Stays no_streams serial_keys hello_db)))
     = get_by_conversation 1 (cd_messages hello_db) @ [(i, new_message 1 ''user'' ''again''), (j, m)] \<and> ms_content m = ''hello''"
proof -
  let ?run = "stream_continue_chat hello_services two_chunks 1 hello_payload hello_user 1 Stays no_streams serial_keys hello_db"
  have ev: "event_tokens (fst (fst ?run)) = [''he'', ''llo''] \<and> completed_stream (fst (fst ?run))" by code_simp
  obtain evs err ctr' db' where run: "?run = ((evs, err, ctr'), db')" by (metis prod.exhaust)
  have joined: "concat (map ck_token cks) = ''hello''" if "evs = toks @ [DoneEvent f u n]" "event_tokens toks = filter (\<lambda>t. t \<noteq> []) (map ck_token cks)"
    for toks f u n cks
    using that ev run concat_filter_Nil [of "map ck_token cks"] by simp
  have access: "(\<not> may_chat 1 hello_user 1 hello_db) = False" using hello_may_chat by simp
  have message: "pl_message hello_payload = ''again''" by (simp add: hello_payload_def)
  have sent: "completed_stream evs" using ev run by simp
  show ?thesis
    using stream_stores_complete_answers [OF serial_keys_fresh hello_wf run] joined sent run
    unfolding access if_False message by (elim exE conjE) (force split: if_splits)
qed

theorem stream_counters_balanced_witness:
  "sc_active (snd (snd (fst (stream_continue_chat hello_services two_chunks 1 hello_payload hello_user 1 (TaskCancelled 1) no_streams serial_keys hello_db)))) = 1
   \<and> sc_active (snd (snd (fst (stream_continue_chat hello_services two_chunks 1 hello_payload hello_user 1 (Leaves 1) no_streams serial_keys hello_db)))) = 0"
proof -
  let ?run = "\<lambda>cl. stream_continue_chat hello_services two_chunks 1 hello_payload hello_user 1 cl no_streams serial_keys hello_db"
  have err: "fst (snd (fst (?run (TaskCancelled 1)))) = Some CancelledError \<and> fst (snd (fst (?run (Leaves 1)))) = None" by code_simp
  obtain e1 x1 c1 d1 where r1: "?run (TaskCancelled 1) = ((e1, x1, c1), d1)" by (metis prod.exhaust)
  obtain e2 x2 c2 d2 where r2: "?run (Leaves 1) = ((e2, x2, c2), d2)" by (metis prod.exhaust)
  from stream_counters_balanced [OF r1] stream_counters_balanced [OF r2] err r1 r2 hello_may_chat show ?thesis
    by (simp add: no_streams_def)
qed

end
