(* ===== verification/Knowledge.thy ===== *)
theory Knowledge
  imports Complex_Main Tables Json
begin

text \<open>
  The knowledge base: documents, chunks and their embeddings
  (\<open>services/knowledge_service.py\<close>, \<open>knowledge/\<close>, \<open>services/rag_service.py\<close>, \<open>rag/\<close>).

  Bytes are strings; the UTF-8 decoder and the SHA-256 checksum of the standard
  library, the embedding service and the distance of the vector database are
  arguments.  Keys of new rows are an argument as everywhere.  The vector store
  keeps, per knowledge base, a table from chunk keys to vectors; similarities are
  rational numbers.  A statement on a vector table that was never created fails in
  the database.  Work that is not committed when an exception leaves a request is
  rolled back with the session, so that an error returns the last committed state.
\<close>

section \<open>Rows\<close>

record kb_row =
  kb_organization_id :: int
  kb_name :: string
  kb_description :: "string option"
  kb_visibility :: string
  kb_created_by :: int
  kb_is_deleted :: bool

record document =
  dc_knowledge_base_id :: int
  dc_filename :: string
  dc_original_filename :: string
  dc_mime_type :: string
  dc_file_size :: nat
  dc_checksum :: string
  dc_language :: "string option"
  dc_status :: string
  dc_processing_status :: string
  dc_metadata :: "metadata option"
  dc_uploaded_by :: int
  dc_is_deleted :: bool

record kb_chunk =
  ch_document_id :: int
  ch_index :: nat
  ch_text :: string
  ch_token_count :: nat
  ch_character_count :: nat
  ch_metadata :: metadata
  ch_embedding_status :: string
  ch_is_deleted :: bool

record 'v vector_row =
  vr_chunk_id :: int
  vr_embedding :: 'v
  vr_document_id :: int
  vr_knowledge_base_id :: int
  vr_language :: string

record 'v kb_db =
  kd_bases :: "kb_row table"
  kd_documents :: "document table"
  kd_chunks :: "kb_chunk table"
  kd_vectors :: "(int, 'v vector_row list) dict"

record kb_keys =
  key_base :: "kb_row table \<Rightarrow> int"
  key_document :: "document table \<Rightarrow> int"
  key_chunk :: "kb_chunk table \<Rightarrow> int"

datatype kb_error = UnsupportedFileTypeError string | FileValidationError string | DuplicateDocumentError string | DatabaseError | EmbeddingError string

section \<open>Chunker\<close>

definition newline :: char where "newline = CHR 0x0A"

fun split_blank :: "string \<Rightarrow> string \<Rightarrow> string list" where
  "split_blank acc [] = [rev acc]"
| "split_blank acc [c] = [rev (c # acc)]"
| "split_blank acc (c # d # cs) =
     (if c = newline \<and> d = newline then rev acc # split_blank [] cs else split_blank (c # acc) (d # cs))"

definition paragraphs :: "string \<Rightarrow> string list" where
  "paragraphs text = split_blank [] text"

text \<open>The loop over the paragraphs: the groups emitted so far, the current group and its size.\<close>

fun group_loop :: "nat \<Rightarrow> string list list \<Rightarrow> string list \<Rightarrow> nat \<Rightarrow> string list \<Rightarrow> string list list" where
  "group_loop chunk_size done_groups current sz [] = (if current = [] then done_groups else done_groups @ [current])"
| "group_loop chunk_size done_groups current sz (para # paras) =
     (if sz + length para > chunk_size \<and> current \<noteq> []
      then (let kept = (if length current > 1 then [last current] else current)
            in group_loop chunk_size (done_groups @ [current]) (kept @ [para]) (sum_list (map length kept) + length para) paras)
      else group_loop chunk_size done_groups (current @ [para]) (sz + length para) paras)"

record chunk_info =
  ci_text :: string
  ci_character_count :: nat
  ci_token_count :: nat

definition join_group :: "string list \<Rightarrow> string" where
  "join_group g = py_join [newline, newline] g"

definition chunk_of :: "string list \<Rightarrow> chunk_info" where
  "chunk_of g = \<lparr>ci_text = join_group g, ci_character_count = length (join_group g), ci_token_count = length (join_group g) div 4\<rparr>"

definition chunk_groups :: "nat \<Rightarrow> string \<Rightarrow> string list list" where
  "chunk_groups chunk_size text = group_loop chunk_size [] [] 0 (paragraphs text)"

definition chunk_text :: "nat \<Rightarrow> string \<Rightarrow> chunk_info list" where
  "chunk_text chunk_size text = map chunk_of (chunk_groups chunk_size text)"

section \<open>Processing and validation\<close>

definition supported_mime_types :: "string list" where
  "supported_mime_types = [''application/pdf'', ''text/plain'', ''text/markdown'', ''text/html'',
     ''application/vnd.openxmlformats-officedocument.wordprocessingml.document'']"

definition MAX_FILE_SIZE_BYTES :: nat where "MAX_FILE_SIZE_BYTES = 25 * 1024 * 1024"

definition validate_file :: "string \<Rightarrow> string \<Rightarrow> nat \<Rightarrow> kb_error option" where
  "validate_file filename content_type file_size =
     (if content_type \<notin> set supported_mime_types
      then Some (UnsupportedFileTypeError (''File content type '' @ [CHR 0x27] @ content_type @ [CHR 0x27] @ '' is not supported.''))
      else if file_size > MAX_FILE_SIZE_BYTES then Some (FileValidationError ''File size exceeds the limit of 25.0 MB.'')
      else if filename = [] then Some (FileValidationError ''Filename cannot be empty.'') else None)"

definition process_document :: "(string \<Rightarrow> string) \<Rightarrow> string \<Rightarrow> string \<Rightarrow> string \<times> metadata" where
  "process_document decode bytes mime_type =
     (if mime_type \<in> set [''text/plain'', ''text/markdown'', ''text/html'']
      then (let t = decode bytes in (t, [(''character_count'', JInt (int (length t))), (''encoding'', JStr ''utf-8'')]))
      else if mime_type = ''application/pdf''
      then (let t = ''[PDF CONTENT STUB]'' @ [newline] @ ''Size: '' @ show_nat (length bytes) @ '' bytes''
            in (t, [(''page_count'', JInt 1), (''character_count'', JInt (int (length t)))]))
      else (let t = decode bytes in (t, [(''character_count'', JInt (int (length t)))])))"

definition file_stem :: "string \<Rightarrow> string" where
  "file_stem f = (if CHR ''.'' \<in> set f then rev (tl (dropWhile (\<lambda>c. c \<noteq> CHR ''.'') (rev f))) else f)"

definition extract_metadata :: "string \<Rightarrow> string \<Rightarrow> metadata \<Rightarrow> metadata" where
  "extract_metadata filename text raw =
     dict_merge [(''title'', JStr (file_stem filename)), (''file_name'', JStr filename),
       (''character_count'', JInt (int (length text))), (''word_count'', JInt (int (length (split_ws text))))] raw"

section \<open>Repositories\<close>

definition list_bases_by_org :: "int \<Rightarrow> 'v kb_db \<Rightarrow> kb_row table" where
  "list_bases_by_org org db = repo_where (\<lambda>b. kb_organization_id b = org \<and> \<not> kb_is_deleted b) (kd_bases db)"

definition get_base_by_org_and_id :: "int \<Rightarrow> int \<Rightarrow> 'v kb_db \<Rightarrow> kb_row option" where
  "get_base_by_org_and_id org i db =
     map_option snd (find (\<lambda>(j, b). kb_organization_id b = org \<and> j = i \<and> \<not> kb_is_deleted b) (kd_bases db))"

definition get_by_checksum_in_kb :: "string \<Rightarrow> int \<Rightarrow> 'v kb_db \<Rightarrow> (int \<times> document) option" where
  "get_by_checksum_in_kb checksum kb db =
     repo_first (\<lambda>d. dc_knowledge_base_id d = kb \<and> dc_checksum d = checksum \<and> \<not> dc_is_deleted d) (kd_documents db)"

definition list_documents_by_kb :: "int \<Rightarrow> 'v kb_db \<Rightarrow> document table" where
  "list_documents_by_kb kb db = repo_where (\<lambda>d. dc_knowledge_base_id d = kb \<and> \<not> dc_is_deleted d) (kd_documents db)"

definition get_active_document :: "int \<Rightarrow> 'v kb_db \<Rightarrow> document option" where
  "get_active_document i db = map_option snd (find (\<lambda>(j, d). j = i \<and> \<not> dc_is_deleted d) (kd_documents db))"

definition list_chunks_by_document :: "int \<Rightarrow> 'v kb_db \<Rightarrow> kb_chunk table" where
  "list_chunks_by_document d db = repo_where (\<lambda>c. ch_document_id c = d \<and> \<not> ch_is_deleted c) (kd_chunks db)"

section \<open>Knowledge service\<close>

text \<open>Every new base needs its organization and its author in the database; \<open>owners\<close> says whether it has them.\<close>

definition create_knowledge_base ::
  "(int \<Rightarrow> int \<Rightarrow> bool) \<Rightarrow> kb_keys \<Rightarrow> string \<Rightarrow> string option \<Rightarrow> string \<Rightarrow> int \<Rightarrow> int \<Rightarrow> 'v kb_db \<Rightarrow> (kb_error, int) result \<times> 'v kb_db" where
  "create_knowledge_base owners k name descr visibility org user_id db =
     (if \<not> owners org user_id then (Err DatabaseError, db)
      else let i = key_base k (kd_bases db)
           in (Ok i, db\<lparr>kd_bases := repo_create i \<lparr>kb_organization_id = org, kb_name = name, kb_description = descr, kb_visibility = visibility,
                kb_created_by = user_id, kb_is_deleted = False\<rparr> (kd_bases db)\<rparr>))"

definition put_document :: "int \<Rightarrow> (document \<Rightarrow> document) \<Rightarrow> 'v kb_db \<Rightarrow> 'v kb_db" where
  "put_document i f db = db\<lparr>kd_documents := map (\<lambda>(j, d). (j, if j = i then f d else d)) (kd_documents db)\<rparr>"

definition put_chunk :: "int \<Rightarrow> (kb_chunk \<Rightarrow> kb_chunk) \<Rightarrow> 'v kb_db \<Rightarrow> 'v kb_db" where
  "put_chunk i f db = db\<lparr>kd_chunks := map (\<lambda>(j, c). (j, if j = i then f c else c)) (kd_chunks db)\<rparr>"

definition delete_document :: "int \<Rightarrow> 'v kb_db \<Rightarrow> 'v kb_db" where
  "delete_document i db =
     (case get_active_document i db of
        None \<Rightarrow> db
      | Some _ \<Rightarrow>
          (let db1 = put_document i (\<lambda>d. d\<lparr>dc_is_deleted := True\<rparr>) db
           in fold (\<lambda>(j, _). put_chunk j (\<lambda>c. c\<lparr>ch_is_deleted := True\<rparr>)) (list_chunks_by_document i db1) db1))"

definition new_chunk :: "string \<Rightarrow> int \<Rightarrow> nat \<Rightarrow> chunk_info \<Rightarrow> kb_chunk" where
  "new_chunk filename d idx ci = \<lparr>ch_document_id = d, ch_index = idx, ch_text = ci_text ci, ch_token_count = ci_token_count ci,
     ch_character_count = ci_character_count ci, ch_metadata = [(''source_document'', JStr filename)], ch_embedding_status = ''PENDING'', ch_is_deleted = False\<rparr>"

definition add_chunk :: "kb_keys \<Rightarrow> string \<Rightarrow> int \<Rightarrow> nat \<times> chunk_info \<Rightarrow> 'v kb_db \<Rightarrow> 'v kb_db" where
  "add_chunk k filename d ic db = db\<lparr>kd_chunks := repo_create (key_chunk k (kd_chunks db)) (new_chunk filename d (fst ic) (snd ic)) (kd_chunks db)\<rparr>"

definition make_room :: "string \<Rightarrow> (int \<times> document) option \<Rightarrow> 'v kb_db \<Rightarrow> 'v kb_db" where
  "make_room policy existing db =
     (case existing of Some (i, _) \<Rightarrow> if policy = ''replace'' then delete_document i db else db | None \<Rightarrow> db)"

definition new_document :: "int \<Rightarrow> string \<Rightarrow> string \<Rightarrow> nat \<Rightarrow> string \<Rightarrow> int \<Rightarrow> document" where
  "new_document kb filename content_type file_size checksum user_id =
     \<lparr>dc_knowledge_base_id = kb, dc_filename = filename, dc_original_filename = filename, dc_mime_type = content_type,
      dc_file_size = file_size, dc_checksum = checksum, dc_language = None, dc_status = ''active'', dc_processing_status = ''VALIDATING'',
      dc_metadata = None, dc_uploaded_by = user_id, dc_is_deleted = False\<rparr>"

text \<open>The body of the \<open>try\<close> block: processing, metadata, chunks, and the final status.\<close>

definition store_content :: "kb_keys \<Rightarrow> int \<Rightarrow> string \<Rightarrow> string \<Rightarrow> metadata \<Rightarrow> 'v kb_db \<Rightarrow> 'v kb_db" where
  "store_content k d filename text raw db =
     (let db1 = put_document d (\<lambda>r. r\<lparr>dc_processing_status := ''PROCESSING''\<rparr>) db;
          db2 = put_document d (\<lambda>r. r\<lparr>dc_processing_status := ''CHUNKING'', dc_metadata := Some (extract_metadata filename text raw)\<rparr>) db1;
          db3 = fold (add_chunk k filename d) (enumerate 0 (chunk_text 1000 text)) db2
      in put_document d (\<lambda>r. r\<lparr>dc_processing_status := ''READY''\<rparr>) db3)"

definition ingest_document ::
  "(string \<Rightarrow> string) \<Rightarrow> (string \<Rightarrow> string) \<Rightarrow> kb_keys \<Rightarrow> int \<Rightarrow> string \<Rightarrow> string \<Rightarrow> string \<Rightarrow> int \<Rightarrow> string \<Rightarrow> 'v kb_db
   \<Rightarrow> (kb_error, int) result \<times> 'v kb_db" where
  "ingest_document sha256 decode k kb filename content_type bytes user_id policy db =
     (case validate_file filename content_type (length bytes) of
        Some x \<Rightarrow> (Err x, db)
      | None \<Rightarrow>
          (let checksum = sha256 bytes; existing = get_by_checksum_in_kb checksum kb db in
           if existing \<noteq> None \<and> policy = ''reject''
           then (Err (DuplicateDocumentError ''A document with the same content already exists in this knowledge base.''), db)
           else
             (let db1 = make_room policy existing db;
                  d = key_document k (kd_documents db1);
                  db2 = db1\<lparr>kd_documents := repo_create d (new_document kb filename content_type (length bytes) checksum user_id) (kd_documents db1)\<rparr>;
                  (text, raw) = process_document decode bytes content_type
              in (Ok d, store_content k d filename text raw db2))))"

section \<open>Embeddings and retrieval\<close>

definition vector_table :: "int \<Rightarrow> 'v kb_db \<Rightarrow> 'v vector_row list" where
  "vector_table kb db = (case dict_get (kd_vectors db) kb of None \<Rightarrow> [] | Some t \<Rightarrow> t)"

definition create_index :: "int \<Rightarrow> 'v kb_db \<Rightarrow> 'v kb_db" where
  "create_index kb db = db\<lparr>kd_vectors := dict_set (kd_vectors db) kb (vector_table kb db)\<rparr>"

definition upsert :: "int \<Rightarrow> 'v vector_row \<Rightarrow> 'v kb_db \<Rightarrow> 'v kb_db" where
  "upsert kb row db =
     (let t = vector_table kb db
      in db\<lparr>kd_vectors := dict_set (kd_vectors db) kb
           (if vr_chunk_id row \<in> vr_chunk_id ` set t
            then map (\<lambda>r. if vr_chunk_id r = vr_chunk_id row then row else r) t else t @ [row])\<rparr>)"

definition embed_document :: "(string list \<Rightarrow> (string, 'v list) result) \<Rightarrow> int \<Rightarrow> document \<Rightarrow> 'v kb_db \<Rightarrow> (kb_error, unit) result \<times> 'v kb_db" where
  "embed_document embedder i d db =
     (let todo = repo_where (\<lambda>c. ch_document_id c = i \<and> ch_embedding_status c \<noteq> ''READY'') (kd_chunks db) in
      if todo = [] then (Ok (), db)
      else (case embedder (map (\<lambda>(_, c). ch_text c) todo) of
              Inl x \<Rightarrow> (Err (EmbeddingError x), db)
            | Inr vs \<Rightarrow>
                (let db1 = create_index (dc_knowledge_base_id d) db in
                 if length vs < length todo then (Err (EmbeddingError ''list index out of range''), db1)
                 else (let rows = map (\<lambda>((j, _), v). \<lparr>vr_chunk_id = j, vr_embedding = v, vr_document_id = i, vr_knowledge_base_id = dc_knowledge_base_id d, vr_language = or_str (dc_language d) ''en''\<rparr>)
                             (zip todo vs);
                           db2 = fold (\<lambda>(j, _). put_chunk j (\<lambda>c. c\<lparr>ch_embedding_status := ''READY''\<rparr>)) todo db1
                       in (Ok (), fold (upsert (dc_knowledge_base_id d)) rows db2)))))"

fun rebuild_loop :: "(string list \<Rightarrow> (string, 'v list) result) \<Rightarrow> document table \<Rightarrow> nat \<Rightarrow> 'v kb_db \<Rightarrow> (kb_error, nat) result \<times> 'v kb_db" where
  "rebuild_loop embedder [] n db = (Ok n, db)"
| "rebuild_loop embedder ((i, d) # ds) n db =
     (case embed_document embedder i d db of
        (Inl x, db1) \<Rightarrow> (Err x, db1)
      | (Inr _, db1) \<Rightarrow> rebuild_loop embedder ds (n + 1) db1)"

definition rebuild_embeddings :: "(string list \<Rightarrow> (string, 'v list) result) \<Rightarrow> int \<Rightarrow> 'v kb_db \<Rightarrow> (kb_error, nat) result \<times> 'v kb_db" where
  "rebuild_embeddings embedder kb db = rebuild_loop embedder (list_documents_by_kb kb db) 0 db"

record metadata_filters =
  mf_document_id :: "int option"
  mf_language :: "string option"

definition passes_filters :: "metadata_filters option \<Rightarrow> 'v vector_row \<Rightarrow> bool" where
  "passes_filters flt r =
     (case flt of
        None \<Rightarrow> True
      | Some f \<Rightarrow>
          (case mf_document_id f of None \<Rightarrow> True | Some i \<Rightarrow> vr_document_id r = i) \<and>
          (case mf_language f of None \<Rightarrow> True | Some l \<Rightarrow> l = [] \<or> vr_language r = l))"

definition delete_vector :: "int \<Rightarrow> int \<Rightarrow> 'v kb_db \<Rightarrow> (kb_error, 'v kb_db) result" where
  "delete_vector kb c db =
     (case dict_get (kd_vectors db) kb of
        None \<Rightarrow> Err DatabaseError
      | Some t \<Rightarrow> Ok (db\<lparr>kd_vectors := dict_set (kd_vectors db) kb (filter (\<lambda>r. vr_chunk_id r \<noteq> c) t)\<rparr>))"

definition search_vectors ::
  "('v \<Rightarrow> 'v \<Rightarrow> rat) \<Rightarrow> int \<Rightarrow> 'v \<Rightarrow> nat \<Rightarrow> metadata_filters option \<Rightarrow> 'v kb_db \<Rightarrow> (kb_error, (int \<times> rat) list) result" where
  "search_vectors distance kb q top_k flt db =
     (case dict_get (kd_vectors db) kb of
        None \<Rightarrow> Err DatabaseError
      | Some t \<Rightarrow> Ok (map (\<lambda>r. (vr_chunk_id r, 1 - distance (vr_embedding r) q))
                      (take top_k (sort_key (\<lambda>r. distance (vr_embedding r) q) (filter (passes_filters flt) t)))))"

definition rewrite_query :: "string \<Rightarrow> string" where
  "rewrite_query q = py_lower (py_strip q)"

definition rank_candidates :: "(int \<times> rat) list \<Rightarrow> (int \<times> rat) list" where
  "rank_candidates cs = sort_key_desc snd cs"

definition rerank :: "(int \<times> rat) list \<Rightarrow> (int \<times> rat) list" where
  "rerank cs = cs"

fun select_loop :: "nat \<Rightarrow> nat \<Rightarrow> (int \<times> rat) list \<Rightarrow> int list" where
  "select_loop max_tokens tokens [] = []"
| "select_loop max_tokens tokens ((c, _) # cs) =
     (if tokens + 200 > max_tokens then [] else c # select_loop max_tokens (tokens + 200) cs)"

definition select_chunks :: "(int \<times> rat) list \<Rightarrow> nat \<Rightarrow> nat \<Rightarrow> int list" where
  "select_chunks ranked max_chunks max_tokens = select_loop max_tokens 0 (take max_chunks ranked)"

definition chunk_data :: "'v kb_db \<Rightarrow> int \<Rightarrow> (string \<times> string) list" where
  "chunk_data db i =
     (case repo_get (kd_chunks db) i of
        None \<Rightarrow> []
      | Some c \<Rightarrow> [(ch_text c, case repo_get (kd_documents db) (ch_document_id c) of None \<Rightarrow> ''Unknown'' | Some d \<Rightarrow> dc_filename d)])"

definition format_context :: "(string \<times> string) list \<Rightarrow> string" where
  "format_context cs = py_join (newline # ''---'' @ [newline])
     (map (\<lambda>(t, n). ''Source Document: '' @ n @ [newline] @ ''Content: '' @ t @ [newline]) cs)"

definition retrieve_context ::
  "(string \<Rightarrow> (string, 'v) result) \<Rightarrow> ('v \<Rightarrow> 'v \<Rightarrow> rat) \<Rightarrow> int \<Rightarrow> string \<Rightarrow> nat \<Rightarrow> nat \<Rightarrow> 'v kb_db \<Rightarrow> (kb_error, string) result" where
  "retrieve_context embedder distance kb query top_k max_tokens db =
     (case embedder (rewrite_query query) of
        Inl x \<Rightarrow> Err (EmbeddingError x)
      | Inr v \<Rightarrow>
          bind_ok (search_vectors distance kb v top_k None db) (\<lambda>cs.
            Ok (format_context (concat (map (chunk_data db) (select_chunks (rerank (rank_candidates cs)) top_k max_tokens))))))"

end
