(* ===== verification/Knowledge_Invariant.thy ===== *)
theory Knowledge_Invariant
  imports Knowledge
begin

text \<open>
  What the knowledge base promises.

  First the chunker: the chunks of a document carry its whole text, each chunk
  begins with the last paragraph of the one before, and how long a chunk may
  become.  Then the document store as a state machine: the step relation of its
  operations and the invariant of every reachable store.  Last the retrieval
  pipeline: what a prompt may contain, and that deletion does not reach it.
\<close>

section \<open>The chunks of a text\<close>

lemma split_blank_nonempty: "split_blank acc s \<noteq> []"
  by (induction acc s rule: split_blank.induct) simp_all

lemma split_blank_join: "py_join [newline, newline] (split_blank acc s) = rev acc @ s"
proof (induction acc s rule: split_blank.induct)
  case (3 acc c d cs)
  obtain x xs where "split_blank [] cs = x # xs" using split_blank_nonempty by (meson list.exhaust)
  with 3 show ?case by auto
qed simp_all

lemma paragraphs_nonempty: "paragraphs s \<noteq> []"
  by (simp add: paragraphs_def split_blank_nonempty)

text \<open>Consecutive groups share the paragraph between them; \<open>unchunk\<close> drops the repetition.\<close>

fun linked :: "string list list \<Rightarrow> bool" where
  "linked (g # h # gs) = (hd h = last g \<and> linked (h # gs))"
| "linked _ = True"

definition unchunk :: "string list list \<Rightarrow> string list" where
  "unchunk gs = hd gs @ concat (map tl (tl gs))"

lemma group_loop_acc: "group_loop n gs cur sz ps = gs @ group_loop n [] cur sz ps"
proof (induction ps arbitrary: gs cur sz)
  case (Cons p ps)
  have "group_loop n (gs @ [cur]) c z ps = gs @ cur # group_loop n [] c z ps" for c z
    using Cons [of "gs @ [cur]" c z] by simp
  moreover have "group_loop n [cur] c z ps = cur # group_loop n [] c z ps" for c z
    using Cons [of "[cur]" c z] by simp
  ultimately show ?case using Cons [of gs] by (simp add: Let_def)
qed simp

lemma unchunk_Cons: "gs \<noteq> [] \<Longrightarrow> hd gs \<noteq> [] \<Longrightarrow> unchunk (g # gs) = g @ tl (unchunk gs)"
  by (cases gs) (auto simp: unchunk_def tl_append2)

lemma group_loop_shape:
  assumes "cur \<noteq> []" and "gs = group_loop n [] cur sz ps"
  shows "\<exists>t. gs \<noteq> [] \<and> hd gs = cur @ t \<and> unchunk gs = cur @ ps \<and> linked gs \<and> [] \<notin> set gs"
  using assms
proof (induction ps arbitrary: cur sz gs)
  case Nil
  then show ?case by (simp add: unchunk_def)
next
  case (Cons p ps)
  show ?case
  proof (cases "sz + length p > n")
    case True
    define kept where "kept = (if length cur > 1 then [last cur] else cur)"
    define hs where "hs = group_loop n [] (kept @ [p]) (sum_list (map length kept) + length p) ps"
    have kept: "kept = [last cur]" using Cons.prems(1) by (cases cur) (auto simp: kept_def)
    have gs: "gs = cur # hs"
      using Cons.prems True by (simp add: kept_def hs_def Let_def group_loop_acc [of n "[cur]"])
    obtain t where t: "hs \<noteq> []" "hd hs = (kept @ [p]) @ t" "unchunk hs = (kept @ [p]) @ ps" "linked hs" "[] \<notin> set hs"
      using Cons.IH [OF _ hs_def] by auto
    then have "unchunk gs = cur @ p # ps" by (simp add: gs unchunk_Cons kept)
    moreover have "linked gs" using t by (cases hs) (simp_all add: gs kept)
    ultimately show ?thesis using t(5) Cons.prems(1) by (auto simp: gs)
  next
    case False
    then have "gs = group_loop n [] (cur @ [p]) (sz + length p) ps" using Cons.prems by simp
    from Cons.IH [OF _ this] show ?thesis by auto
  qed
qed

text \<open>Only the second paragraph of a group is added without looking at the size of the group.\<close>

definition fits :: "nat \<Rightarrow> string list \<Rightarrow> bool" where
  "fits n g = (length g \<le> 2 \<or> sum_list (map length g) \<le> n)"

lemma group_loop_fits:
  "sz = sum_list (map length cur) \<Longrightarrow> fits n cur \<Longrightarrow> list_all (fits n) (group_loop n [] cur sz ps)"
proof (induction ps arbitrary: cur sz)
  case (Cons p ps)
  show ?case
  proof (cases "sz + length p > n \<and> cur \<noteq> []")
    case True
    define kept where "kept = (if length cur > 1 then [last cur] else cur)"
    have "length kept \<le> 1" using True by (auto simp: kept_def)
    then have "fits n (kept @ [p])" by (simp add: fits_def)
    then have "list_all (fits n) (group_loop n [] (kept @ [p]) (sum_list (map length kept) + length p) ps)"
      by (rule Cons.IH [rotated]) simp
    moreover have "group_loop n [] cur sz (p # ps) = cur # group_loop n [] (kept @ [p]) (sum_list (map length kept) + length p) ps"
      using True by (simp add: kept_def Let_def group_loop_acc [of n "[cur]"])
    ultimately show ?thesis using Cons.prems by simp
  next
    case False
    then have "fits n (cur @ [p])" using Cons.prems by (auto simp: fits_def)
    then have "list_all (fits n) (group_loop n [] (cur @ [p]) (sz + length p) ps)"
      by (rule Cons.IH [rotated]) (simp add: Cons.prems)
    moreover have "group_loop n [] cur sz (p # ps) = group_loop n [] (cur @ [p]) (sz + length p) ps"
      using False by auto
    ultimately show ?thesis by simp
  qed
qed (simp add: fits_def)

lemma chunk_groups_start: "\<exists>p ps. paragraphs s = p # ps \<and> chunk_groups n s = group_loop n [] [p] (length p) ps"
  using paragraphs_nonempty [of s] by (cases "paragraphs s") (simp_all add: chunk_groups_def)

text \<open>
  Chunking loses nothing of a document, whatever the chunk size: the chunks are the
  groups of paragraphs joined by blank lines, no group is empty, each group starts with
  the last paragraph of the group before it, and dropping these repeated paragraphs and
  joining the rest gives the text back.  A chunk of more than two paragraphs respects the
  chunk size (blank lines not counted).
\<close>

theorem chunking_lossless:
  "map ci_text (chunk_text n s) = map (py_join [newline, newline]) (chunk_groups n s) \<and>
   [] \<notin> set (chunk_groups n s) \<and>
   linked (chunk_groups n s) \<and>
   py_join [newline, newline] (unchunk (chunk_groups n s)) = s \<and>
   list_all (fits n) (chunk_groups n s)"
proof -
  obtain p ps where p: "paragraphs s = p # ps" and gs: "chunk_groups n s = group_loop n [] [p] (length p) ps"
    using chunk_groups_start by blast
  obtain t where t: "unchunk (chunk_groups n s) = [p] @ ps" "linked (chunk_groups n s)" "[] \<notin> set (chunk_groups n s)"
    using group_loop_shape [OF _ gs] by auto
  have "py_join [newline, newline] (p # ps) = s"
    using split_blank_join [of "[]" s] p by (simp add: paragraphs_def)
  moreover have "list_all (fits n) (chunk_groups n s)"
    using group_loop_fits [of "length p" "[p]" n ps] by (simp add: gs fits_def)
  ultimately show ?thesis using t by (simp add: chunk_text_def chunk_of_def join_group_def [abs_def] comp_def)
qed

section \<open>The document store\<close>

lemma repo_get_map:
  "repo_get (map (\<lambda>(j, r). (j, if j = i then f r else r)) t) j = map_option (\<lambda>r. if j = i then f r else r) (repo_get t j)"
  by (induction t) (auto simp: repo_get_def)

lemma ids_map: "ids (map (\<lambda>(j, r). (j, if j = i then f r else r)) t) = ids t"
  by (force simp: ids_def)

lemma table_wf_map: "table_wf t \<Longrightarrow> table_wf (map (\<lambda>(j, r). (j, if j = i then f r else r)) t)"
  by (simp add: table_wf_def comp_def split_beta)

lemma put_document_simps [simp]:
  "kd_bases (put_document i f db) = kd_bases db"
  "kd_chunks (put_document i f db) = kd_chunks db"
  "kd_vectors (put_document i f db) = kd_vectors db"
  "repo_get (kd_documents (put_document i f db)) j = map_option (\<lambda>d. if j = i then f d else d) (repo_get (kd_documents db) j)"
  "ids (kd_documents (put_document i f db)) = ids (kd_documents db)"
  "table_wf (kd_documents db) \<Longrightarrow> table_wf (kd_documents (put_document i f db))"
  by (simp_all add: put_document_def repo_get_map ids_map table_wf_map)

lemma put_chunk_simps [simp]:
  "kd_bases (put_chunk i g db) = kd_bases db"
  "kd_documents (put_chunk i g db) = kd_documents db"
  "kd_vectors (put_chunk i g db) = kd_vectors db"
  "repo_get (kd_chunks (put_chunk i g db)) j = map_option (\<lambda>c. if j = i then g c else c) (repo_get (kd_chunks db) j)"
  "ids (kd_chunks (put_chunk i g db)) = ids (kd_chunks db)"
  "table_wf (kd_chunks db) \<Longrightarrow> table_wf (kd_chunks (put_chunk i g db))"
  by (simp_all add: put_chunk_def repo_get_map ids_map table_wf_map)

text \<open>The same change of several chunks, one after the other.\<close>

definition put_chunks :: "(kb_chunk \<Rightarrow> kb_chunk) \<Rightarrow> kb_chunk table \<Rightarrow> 'v kb_db \<Rightarrow> 'v kb_db" where
  "put_chunks g cs db = fold (\<lambda>(j, _). put_chunk j g) cs db"

lemma put_chunks_simps [simp]:
  "kd_bases (put_chunks g cs db) = kd_bases db"
  "kd_documents (put_chunks g cs db) = kd_documents db"
  "kd_vectors (put_chunks g cs db) = kd_vectors db"
  "table_wf (kd_chunks db) \<Longrightarrow> table_wf (kd_chunks (put_chunks g cs db))"
  by (induction cs arbitrary: db) (auto simp: put_chunks_def)

lemma put_chunks_get:
  assumes "\<And>c. g (g c) = g c"
  shows "repo_get (kd_chunks (put_chunks g cs db)) j = map_option (\<lambda>c. if j \<in> ids cs then g c else c) (repo_get (kd_chunks db) j)"
proof (induction cs arbitrary: db)
  case (Cons x cs)
  obtain i c where x: "x = (i, c)" by (cases x)
  have "put_chunks g (x # cs) db = put_chunks g cs (put_chunk i g db)" by (simp add: put_chunks_def x)
  with Cons [of "put_chunk i g db"] show ?case
    by (cases "repo_get (kd_chunks db) j") (auto simp: x ids_def assms)
qed (simp add: put_chunks_def option.map_ident)

definition drop_chunk :: "int \<Rightarrow> kb_chunk \<Rightarrow> kb_chunk" where
  "drop_chunk d c = (if ch_document_id c = d \<and> \<not> ch_is_deleted c then c\<lparr>ch_is_deleted := True\<rparr> else c)"

lemma get_active_document_eq: "table_wf (kd_documents db) \<Longrightarrow>
  get_active_document i db = Option.bind (repo_get (kd_documents db) i) (\<lambda>d. if dc_is_deleted d then None else Some d)"
  by (simp add: get_active_document_def find_key option.map_comp comp_def option.map_ident if_distrib cong: if_cong)
    (metis (no_types, lifting))

text \<open>The invariant: keys, references from chunks to documents and from vectors to chunks, and, if \<open>u\<close>, no duplicates.\<close>

definition chunk_of_kb :: "'v kb_db \<Rightarrow> int \<Rightarrow> int \<Rightarrow> bool" where
  "chunk_of_kb db kb i = (case repo_get (kd_chunks db) i of
     None \<Rightarrow> False
   | Some c \<Rightarrow> (case repo_get (kd_documents db) (ch_document_id c) of None \<Rightarrow> False | Some d \<Rightarrow> dc_knowledge_base_id d = kb))"

definition chunk_live :: "'v kb_db \<Rightarrow> kb_chunk \<Rightarrow> bool" where
  "chunk_live db c = (case repo_get (kd_documents db) (ch_document_id c) of
     None \<Rightarrow> False | Some d \<Rightarrow> \<not> dc_is_deleted d \<or> ch_is_deleted c)"

definition same_content :: "document \<Rightarrow> document \<Rightarrow> bool" where
  "same_content d e = (\<not> dc_is_deleted d \<and> \<not> dc_is_deleted e \<and>
     dc_knowledge_base_id d = dc_knowledge_base_id e \<and> dc_checksum d = dc_checksum e)"

definition kb_wf :: "bool \<Rightarrow> 'v kb_db \<Rightarrow> bool" where
  "kb_wf u db \<longleftrightarrow> table_wf (kd_documents db) \<and> table_wf (kd_chunks db) \<and>
     (\<forall>i c. repo_get (kd_chunks db) i = Some c \<longrightarrow> chunk_live db c) \<and>
     (\<forall>kb t. dict_get (kd_vectors db) kb = Some t \<longrightarrow> (\<forall>r \<in> set t. chunk_of_kb db kb (vr_chunk_id r))) \<and>
     (u \<longrightarrow> (\<forall>i j d e. repo_get (kd_documents db) i = Some d \<longrightarrow> repo_get (kd_documents db) j = Some e \<longrightarrow> same_content d e \<longrightarrow> i = j))"

lemma kb_wfD:
  assumes "kb_wf u db"
  shows "table_wf (kd_documents db)" "table_wf (kd_chunks db)"
    "repo_get (kd_chunks db) i = Some c \<Longrightarrow> chunk_live db c"
    "dict_get (kd_vectors db) kb = Some t \<Longrightarrow> r \<in> set t \<Longrightarrow> chunk_of_kb db kb (vr_chunk_id r)"
    "u \<Longrightarrow> repo_get (kd_documents db) i = Some d \<Longrightarrow> repo_get (kd_documents db) j = Some e \<Longrightarrow> same_content d e \<Longrightarrow> i = j"
  using assms by (auto simp: kb_wf_def)

lemma kb_wfI:
  assumes "table_wf (kd_documents db)" "table_wf (kd_chunks db)"
    "\<And>i c. repo_get (kd_chunks db) i = Some c \<Longrightarrow> chunk_live db c"
    "\<And>kb t r. dict_get (kd_vectors db) kb = Some t \<Longrightarrow> r \<in> set t \<Longrightarrow> chunk_of_kb db kb (vr_chunk_id r)"
    "\<And>i j d e. u \<Longrightarrow> repo_get (kd_documents db) i = Some d \<Longrightarrow> repo_get (kd_documents db) j = Some e \<Longrightarrow> same_content d e \<Longrightarrow> i = j"
  shows "kb_wf u db"
  unfolding kb_wf_def using assms by blast

text \<open>Changes that keep what the invariant speaks of.\<close>

lemma put_document_wf:
  assumes "kb_wf u db" and "\<And>d. dc_knowledge_base_id (f d) = dc_knowledge_base_id d" and "\<And>d. dc_checksum (f d) = dc_checksum d"
    and "\<And>d. dc_is_deleted (f d) = dc_is_deleted d"
  shows "kb_wf u (put_document i f db)"
proof -
  have same: "chunk_live (put_document i f db) = chunk_live db" "chunk_of_kb (put_document i f db) = chunk_of_kb db"
    by (simp_all add: fun_eq_iff chunk_live_def chunk_of_kb_def assms(2-4) split: option.split)
  have uniq: "j = l" if u and x: "repo_get (kd_documents (put_document i f db)) j = Some x"
    and y: "repo_get (kd_documents (put_document i f db)) l = Some y" and xy: "same_content x y" for j l x y
  proof -
    from x obtain x' where x': "repo_get (kd_documents db) j = Some x'" "x = x' \<or> x = f x'" by (auto split: if_splits)
    from y obtain y' where y': "repo_get (kd_documents db) l = Some y'" "y = y' \<or> y = f y'" by (auto split: if_splits)
    have "same_content x' y'" using x'(2) y'(2) xy by (auto simp: same_content_def assms(2-4))
    with \<open>u\<close> x'(1) y'(1) show ?thesis by (rule kb_wfD(5) [OF assms(1)])
  qed
  show ?thesis
  proof (rule kb_wfI)
    show "repo_get (kd_chunks (put_document i f db)) j = Some c \<Longrightarrow> chunk_live (put_document i f db) c" for j c
      using kb_wfD(3) [OF assms(1)] by (simp only: same put_document_simps(2))
    show "dict_get (kd_vectors (put_document i f db)) kb = Some t \<Longrightarrow> r \<in> set t \<Longrightarrow> chunk_of_kb (put_document i f db) kb (vr_chunk_id r)" for kb t r
      using kb_wfD(4) [OF assms(1)] by (simp only: same put_document_simps(3))
  qed (use uniq kb_wfD(1,2) [OF assms(1)] in \<open>simp_all only: put_document_simps(2,6)\<close>)
qed

lemma create_document_wf:
  assumes wf: "kb_wf u db" and fresh: "i \<notin> ids (kd_documents db)"
    and new: "\<And>j e. u \<Longrightarrow> repo_get (kd_documents db) j = Some e \<Longrightarrow> \<not> same_content d e"
  shows "kb_wf u (db\<lparr>kd_documents := repo_create i d (kd_documents db)\<rparr>)" (is "kb_wf u ?db")
proof -
  have get: "repo_get (kd_documents ?db) j = (if j = i then Some d else repo_get (kd_documents db) j)" for j
    using fresh by (simp add: repo_get_create)
  have other [simp]: "kd_chunks ?db = kd_chunks db" "kd_vectors ?db = kd_vectors db" by simp_all
  have none: "repo_get (kd_documents db) i = None" using fresh by (simp add: repo_get_None_iff)
  have live: "chunk_live db c \<Longrightarrow> chunk_live ?db c" for c
    unfolding chunk_live_def get using none by (auto split: option.splits)
  have kb: "chunk_of_kb db kb c \<Longrightarrow> chunk_of_kb ?db kb c" for kb c
    unfolding chunk_of_kb_def get other using none by (auto split: option.splits)
  have new': "\<not> same_content e d" if u "repo_get (kd_documents db) j = Some e" for j e
    using new [OF that] by (auto simp: same_content_def)
  have "table_wf (kd_documents ?db)" using wf fresh by (auto dest: kb_wfD(1))
  moreover have "j = l" if u "repo_get (kd_documents ?db) j = Some x" "repo_get (kd_documents ?db) l = Some y" "same_content x y" for j l x y
    using that kb_wfD(5) [OF wf] new new' unfolding get by (auto split: if_splits)
  ultimately show ?thesis
    unfolding kb_wf_def other using kb_wfD(2-4) [OF wf] live kb by blast
qed

lemma add_chunk_wf:
  assumes wf: "kb_wf u db" and fresh: "key_chunk k (kd_chunks db) \<notin> ids (kd_chunks db)"
    and doc: "repo_get (kd_documents db) d = Some r"
    and live: "\<not> dc_is_deleted r"
  shows "kb_wf u (add_chunk k f d ic db)"
proof -
  let ?i = "key_chunk k (kd_chunks db)" and ?db = "add_chunk k f d ic db"
  have docs: "kd_documents ?db = kd_documents db" "kd_vectors ?db = kd_vectors db" by (simp_all add: add_chunk_def)
  have get: "repo_get (kd_chunks ?db) j = (if j = ?i then Some (new_chunk f d (fst ic) (snd ic)) else repo_get (kd_chunks db) j)" for j
    using fresh by (simp add: add_chunk_def repo_get_create)
  have none: "repo_get (kd_chunks db) ?i = None" using fresh by (simp add: repo_get_None_iff)
  have "chunk_live ?db = chunk_live db" by (simp add: fun_eq_iff chunk_live_def docs)
  moreover have "chunk_live db (new_chunk f d (fst ic) (snd ic))" by (simp add: chunk_live_def new_chunk_def doc live)
  moreover have "chunk_of_kb db kb c \<Longrightarrow> chunk_of_kb ?db kb c" for kb c
    using none by (auto simp: chunk_of_kb_def get docs split: option.splits)
  moreover have "table_wf (kd_chunks ?db)" using wf fresh by (auto simp: add_chunk_def dest: kb_wfD(2))
  ultimately show ?thesis
    unfolding kb_wf_def docs using kb_wfD [OF wf] by (auto simp: get)
qed

text \<open>Deleting a document.\<close>

lemma delete_document_missing: "get_active_document i db = None \<Longrightarrow> delete_document i db = db"
  by (simp add: delete_document_def)

lemma delete_document_active:
  assumes "get_active_document i db = Some d"
  shows "delete_document i db =
    put_chunks (\<lambda>c. c\<lparr>ch_is_deleted := True\<rparr>) (list_chunks_by_document i (put_document i (\<lambda>d. d\<lparr>dc_is_deleted := True\<rparr>) db))
      (put_document i (\<lambda>d. d\<lparr>dc_is_deleted := True\<rparr>) db)"
  using assms by (simp add: delete_document_def put_chunks_def Let_def)

lemma delete_document_get:
  assumes "table_wf (kd_chunks db)" and active: "get_active_document i db = Some d"
  shows "kd_vectors (delete_document i db) = kd_vectors db"
    and "repo_get (kd_documents (delete_document i db)) j =
      map_option (\<lambda>d. if j = i then d\<lparr>dc_is_deleted := True\<rparr> else d) (repo_get (kd_documents db) j)"
    and "ids (kd_documents (delete_document i db)) = ids (kd_documents db)"
    and "repo_get (kd_chunks (delete_document i db)) j = map_option (drop_chunk i) (repo_get (kd_chunks db) j)"
proof -
  let ?cs = "list_chunks_by_document i (put_document i (\<lambda>d. d\<lparr>dc_is_deleted := True\<rparr>) db)"
  have "j \<in> ids ?cs \<longleftrightarrow> (\<exists>c. (j, c) \<in> set (repo_where (\<lambda>c. ch_document_id c = i \<and> \<not> ch_is_deleted c) (kd_chunks db)))"
    by (force simp: ids_def list_chunks_by_document_def)
  then have "j \<in> ids ?cs \<longleftrightarrow> (\<exists>c. repo_get (kd_chunks db) j = Some c \<and> ch_document_id c = i \<and> \<not> ch_is_deleted c)"
    by (simp add: repo_where_set [OF assms(1)])
  then show "repo_get (kd_chunks (delete_document i db)) j = map_option (drop_chunk i) (repo_get (kd_chunks db) j)"
    by (cases "repo_get (kd_chunks db) j") (auto simp: delete_document_active [OF active] put_chunks_get drop_chunk_def)
qed (simp_all add: delete_document_active [OF active])

lemma delete_document_keeps_chunk_of_kb:
  assumes "kb_wf u db" and "get_active_document i db = Some d"
  shows "chunk_of_kb (delete_document i db) = chunk_of_kb db"
proof -
  note get = delete_document_get [OF kb_wfD(2) [OF assms(1)] assms(2)]
  have "ch_document_id (drop_chunk i c) = ch_document_id c" for c by (simp add: drop_chunk_def)
  then show ?thesis by (auto simp: fun_eq_iff chunk_of_kb_def get split: option.split)
qed

lemma delete_document_wf:
  assumes wf: "kb_wf u db"
  shows "kb_wf u (delete_document i db)"
proof (cases "get_active_document i db")
  case None
  then show ?thesis using wf by (simp add: delete_document_missing)
next
  case (Some d)
  note get = delete_document_get [OF kb_wfD(2) [OF wf] Some]
  let ?db = "delete_document i db"
  show ?thesis
  proof (rule kb_wfI)
    show "table_wf (kd_documents ?db)" "table_wf (kd_chunks ?db)"
      using kb_wfD(1,2) [OF wf] by (simp_all add: delete_document_active [OF Some])
    show "chunk_live ?db c" if c: "repo_get (kd_chunks ?db) j = Some c" for j c
    proof -
      from c obtain c' where c': "repo_get (kd_chunks db) j = Some c'" "c = drop_chunk i c'" by (auto simp: get)
      have "chunk_live db c'" by (rule kb_wfD(3) [OF wf c'(1)])
      then show ?thesis by (auto simp: c'(2) chunk_live_def get drop_chunk_def split: option.splits)
    qed
    show "chunk_of_kb ?db kb (vr_chunk_id r)" if "dict_get (kd_vectors ?db) kb = Some t" "r \<in> set t" for kb t r
      using kb_wfD(4) [OF wf] that by (simp add: get(1) delete_document_keeps_chunk_of_kb [OF wf Some])
    show "j = l" if u and x: "repo_get (kd_documents ?db) j = Some x" and y: "repo_get (kd_documents ?db) l = Some y" and xy: "same_content x y"
      for j l x y
    proof -
      have old: "repo_get (kd_documents db) m = Some z" if "repo_get (kd_documents ?db) m = Some z" "\<not> dc_is_deleted z" for m z
        using that by (auto simp: get split: if_splits)
      have "\<not> dc_is_deleted x" "\<not> dc_is_deleted y" using xy by (simp_all add: same_content_def)
      then show ?thesis using xy by (intro kb_wfD(5) [OF wf \<open>u\<close> old [OF x] old [OF y]])
    qed
  qed
qed

text \<open>Ingestion: the chunk loop, the row it works on, and the whole operation.\<close>

definition kb_fresh :: "kb_keys \<Rightarrow> bool" where
  "kb_fresh k \<longleftrightarrow> (\<forall>t. key_document k t \<notin> ids t) \<and> (\<forall>t. key_chunk k t \<notin> ids t)"

lemma add_chunks_frame [simp]:
  "kd_documents (fold (add_chunk k f d) ics db) = kd_documents db"
  "kd_vectors (fold (add_chunk k f d) ics db) = kd_vectors db"
  "kd_bases (fold (add_chunk k f d) ics db) = kd_bases db"
  by (induction ics arbitrary: db) (simp_all add: add_chunk_def)

lemma add_chunks_wf:
  assumes "kb_wf u db" "kb_fresh k" "repo_get (kd_documents db) d = Some r" "\<not> dc_is_deleted r"
  shows "kb_wf u (fold (add_chunk k f d) ics db)"
  using assms
proof (induction ics arbitrary: db)
  case (Cons ic ics)
  have "kb_wf u (add_chunk k f d ic db)" by (rule add_chunk_wf) (use Cons.prems in \<open>auto simp: kb_fresh_def\<close>)
  moreover have "kd_documents (add_chunk k f d ic db) = kd_documents db" by (simp add: add_chunk_def)
  ultimately show ?case using Cons by simp
qed simp

lemma store_content_wf:
  assumes "kb_wf u db" "kb_fresh k" "repo_get (kd_documents db) d = Some r" "\<not> dc_is_deleted r"
  shows "kb_wf u (store_content k d f s raw db)"
  unfolding store_content_def Let_def
  by (rule put_document_wf, rule add_chunks_wf, rule put_document_wf, rule put_document_wf) (simp add: assms)+

lemma store_content_document:
  "repo_get (kd_documents (store_content k d f s raw db)) j = map_option (\<lambda>r. if j = d
     then r\<lparr>dc_processing_status := ''READY'', dc_metadata := Some (extract_metadata f s raw)\<rparr> else r) (repo_get (kd_documents db) j)"
  by (cases "repo_get (kd_documents db) j") (simp_all add: store_content_def Let_def)

lemma add_chunks_rows:
  "map snd (repo_where Q (kd_chunks (fold (add_chunk k f d) ics db))) =
   map snd (repo_where Q (kd_chunks db)) @ filter Q (map (\<lambda>(i, ci). new_chunk f d i ci) ics)"
proof (induction ics arbitrary: db)
  case (Cons ic ics)
  show ?case
    by (simp only: fold_simps Cons) (cases ic; simp add: add_chunk_def repo_where_def repo_create_def)
qed simp

lemma make_room_wf: "kb_wf u db \<Longrightarrow> kb_wf u (make_room policy existing db)"
  by (auto simp: make_room_def delete_document_wf split: option.split)

lemma get_by_checksum_found:
  "kb_wf u db \<Longrightarrow> get_by_checksum_in_kb cs kb db = Some (i, d) \<Longrightarrow>
    repo_get (kd_documents db) i = Some d \<and> dc_knowledge_base_id d = kb \<and> dc_checksum d = cs \<and> \<not> dc_is_deleted d"
  unfolding get_by_checksum_in_kb_def by (drule repo_first_SomeD) (simp add: repo_get_in_set [OF kb_wfD(1)])

lemma get_by_checksum_iff:
  assumes "kb_wf True db"
  shows "get_by_checksum_in_kb cs kb db = Some (i, d) \<longleftrightarrow>
    repo_get (kd_documents db) i = Some d \<and> dc_knowledge_base_id d = kb \<and> dc_checksum d = cs \<and> \<not> dc_is_deleted d"
    (is "_ \<longleftrightarrow> ?found i d")
proof
  show "?found i d" if "get_by_checksum_in_kb cs kb db = Some (i, d)"
    using get_by_checksum_found [OF assms that] .
  show "get_by_checksum_in_kb cs kb db = Some (i, d)" if f: "?found i d"
  proof (cases "get_by_checksum_in_kb cs kb db")
    case None
    have "d \<in> rows (kd_documents db)" using f by (auto simp: rows_iff [OF kb_wfD(1) [OF assms]])
    with None f show ?thesis by (auto simp: get_by_checksum_in_kb_def repo_first_None_iff)
  next
    case (Some x)
    obtain j e where x: "x = (j, e)" by (cases x)
    have e: "?found j e"
      using get_by_checksum_found [OF assms Some [unfolded x]] .
    have "i = j" by (rule kb_wfD(5) [OF assms TrueI, of i d j e]) (use f e in \<open>simp_all add: same_content_def\<close>)
    with e f Some x show ?thesis by simp
  qed
qed

lemma delete_document_documents:
  assumes "table_wf (kd_documents db)"
  shows "repo_get (kd_documents (delete_document i db)) j =
    map_option (\<lambda>d. if j = i then d\<lparr>dc_is_deleted := True\<rparr> else d) (repo_get (kd_documents db) j)"
proof (cases "get_active_document i db")
  case None
  have "d\<lparr>dc_is_deleted := True\<rparr> = d" if "repo_get (kd_documents db) i = Some d" for d
    using None that by (cases d) (auto simp: get_active_document_eq [OF assms] split: if_splits)
  then show ?thesis
    by (cases "repo_get (kd_documents db) j") (auto simp: delete_document_missing [OF None])
next
  case (Some d)
  then show ?thesis by (simp add: delete_document_active)
qed

lemma make_room_documents:
  assumes "kb_wf True db"
  shows "repo_get (kd_documents (make_room policy (get_by_checksum_in_kb cs kb db) db)) j = map_option
    (\<lambda>d. if policy = ''replace'' \<and> dc_knowledge_base_id d = kb \<and> dc_checksum d = cs \<and> \<not> dc_is_deleted d
         then d\<lparr>dc_is_deleted := True\<rparr> else d) (repo_get (kd_documents db) j)"
proof (cases "get_by_checksum_in_kb cs kb db")
  case None
  have "\<not> (dc_knowledge_base_id d = kb \<and> dc_checksum d = cs \<and> \<not> dc_is_deleted d)" if "repo_get (kd_documents db) j = Some d" for d
    using get_by_checksum_iff [OF assms, of cs kb j d] that by (simp add: None)
  then show ?thesis by (cases "repo_get (kd_documents db) j") (auto simp: make_room_def None)
next
  case (Some x)
  obtain i e where x: "x = (i, e)" by (cases x)
  note found = get_by_checksum_iff [OF assms, of cs kb]
  have i: "j = i \<longleftrightarrow> dc_knowledge_base_id d = kb \<and> dc_checksum d = cs \<and> \<not> dc_is_deleted d"
    if "repo_get (kd_documents db) j = Some d" for d
    using found [of i e] found [of j d] Some that by (auto simp: x)
  show ?thesis
    by (cases "repo_get (kd_documents db) j")
      (use i in \<open>auto simp: make_room_def Some x delete_document_documents [OF kb_wfD(1) [OF assms]]\<close>)
qed

lemma make_room_ids: "ids (kd_documents (make_room policy existing db)) = ids (kd_documents db)"
proof -
  have "ids (kd_documents (delete_document i db)) = ids (kd_documents db)" for i
    by (cases "get_active_document i db") (simp_all add: delete_document_missing delete_document_active)
  then show ?thesis by (simp add: make_room_def split: option.split)
qed

text \<open>The store a successful ingestion starts from: duplicates gone, the new row in place.\<close>

definition ingest_start :: "kb_keys \<Rightarrow> int \<Rightarrow> string \<Rightarrow> string \<Rightarrow> nat \<Rightarrow> string \<Rightarrow> int \<Rightarrow> string \<Rightarrow> 'v kb_db \<Rightarrow> int \<times> 'v kb_db" where
  "ingest_start k kb f ct n cs user_id policy db =
     (let db1 = make_room policy (get_by_checksum_in_kb cs kb db) db; d = key_document k (kd_documents db1)
      in (d, db1\<lparr>kd_documents := repo_create d (new_document kb f ct n cs user_id) (kd_documents db1)\<rparr>))"

lemma ingest_start_wf:
  assumes wf: "kb_wf u db" and fresh: "kb_fresh k" and ok: "u \<Longrightarrow> get_by_checksum_in_kb cs kb db = None \<or> policy = ''replace''"
    and start: "ingest_start k kb f ct n cs user_id policy db = (d, db2)"
  shows "kb_wf u db2" "d \<notin> ids (kd_documents db)" "repo_get (kd_documents db2) d = Some (new_document kb f ct n cs user_id)"
    "j \<noteq> d \<Longrightarrow> repo_get (kd_documents db2) j = repo_get (kd_documents (make_room policy (get_by_checksum_in_kb cs kb db) db)) j"
    "kd_chunks db2 = kd_chunks (make_room policy (get_by_checksum_in_kb cs kb db) db)"
proof -
  let ?db1 = "make_room policy (get_by_checksum_in_kb cs kb db) db"
  have d: "d = key_document k (kd_documents ?db1)"
    and db2: "db2 = ?db1\<lparr>kd_documents := repo_create d (new_document kb f ct n cs user_id) (kd_documents ?db1)\<rparr>"
    using start by (auto simp: ingest_start_def Let_def)
  have new: "d \<notin> ids (kd_documents ?db1)" using fresh by (simp add: d kb_fresh_def)
  show "d \<notin> ids (kd_documents db)" using new by (simp add: make_room_ids)
  show "repo_get (kd_documents db2) d = Some (new_document kb f ct n cs user_id)"
    "j \<noteq> d \<Longrightarrow> repo_get (kd_documents db2) j = repo_get (kd_documents ?db1) j" "kd_chunks db2 = kd_chunks ?db1"
    using new by (simp_all add: db2 repo_get_create)
  have "\<not> same_content (new_document kb f ct n cs user_id) e" if u and e: "repo_get (kd_documents ?db1) j = Some e" for j e
  proof -
    have wf': "kb_wf True db" using wf \<open>u\<close> by simp
    obtain e' where e': "repo_get (kd_documents db) j = Some e'"
      and room: "e = (if policy = ''replace'' \<and> dc_knowledge_base_id e' = kb \<and> dc_checksum e' = cs \<and> \<not> dc_is_deleted e'
                     then e'\<lparr>dc_is_deleted := True\<rparr> else e')"
      using e by (auto simp: make_room_documents [OF wf'])
    have "policy = ''replace'' \<or> \<not> (dc_knowledge_base_id e' = kb \<and> dc_checksum e' = cs \<and> \<not> dc_is_deleted e')"
      using ok [OF \<open>u\<close>] get_by_checksum_iff [OF wf', of cs kb j e'] e' by auto
    then have "dc_is_deleted e \<or> dc_knowledge_base_id e \<noteq> kb \<or> dc_checksum e \<noteq> cs"
      unfolding room by (simp split: if_splits) blast
    then show ?thesis by (auto simp: same_content_def new_document_def)
  qed
  then show "kb_wf u db2" unfolding db2 by (intro create_document_wf make_room_wf wf new)
qed

lemma ingest_cases:
  "ingest_document sha256 decode k kb f ct bytes user_id policy db =
    (case validate_file f ct (length bytes) of
       Some x \<Rightarrow> (Err x, db)
     | None \<Rightarrow>
         if get_by_checksum_in_kb (sha256 bytes) kb db \<noteq> None \<and> policy = ''reject''
         then (Err (DuplicateDocumentError ''A document with the same content already exists in this knowledge base.''), db)
         else (case ingest_start k kb f ct (length bytes) (sha256 bytes) user_id policy db of (d, db2) \<Rightarrow>
                 (Ok d, store_content k d f (fst (process_document decode bytes ct)) (snd (process_document decode bytes ct)) db2)))"
  by (simp add: ingest_document_def ingest_start_def Let_def split_beta split: option.split)

text \<open>The duplicate policies the interface documents; it accepts any other string, too.\<close>

definition documented_policies :: "string set" where
  "documented_policies = {''reject'', ''replace''}"

lemma ingest_wf:
  assumes "kb_wf u db" and "kb_fresh k" and "u \<Longrightarrow> policy \<in> documented_policies"
  shows "kb_wf u (snd (ingest_document sha256 decode k kb f ct bytes user_id policy db))"
proof -
  obtain d db2 where start: "ingest_start k kb f ct (length bytes) (sha256 bytes) user_id policy db = (d, db2)" by fastforce
  have "kb_wf u (store_content k d f s raw db2)" if "u \<Longrightarrow> get_by_checksum_in_kb (sha256 bytes) kb db = None \<or> policy = ''replace''" for s raw
    by (rule store_content_wf [OF ingest_start_wf(1) [OF assms(1,2) that start] assms(2) ingest_start_wf(3) [OF assms(1,2) that start]])
      (simp_all add: new_document_def)
  with assms(1,3) show ?thesis by (auto simp: ingest_cases start documented_policies_def split: option.split)
qed

text \<open>Embeddings: the vector tables, the status of the chunks, the loop over the documents.\<close>

lemma vector_update_same [simp]:
  "chunk_of_kb (db\<lparr>kd_vectors := v\<rparr>) = chunk_of_kb db" "chunk_live (db\<lparr>kd_vectors := v\<rparr>) = chunk_live db"
  by (simp_all add: fun_eq_iff chunk_of_kb_def chunk_live_def split: option.split)

lemma set_vectors_wf:
  assumes wf: "kb_wf u db" and new: "\<And>r. r \<in> set t \<Longrightarrow> chunk_of_kb db kb (vr_chunk_id r)"
  shows "kb_wf u (db\<lparr>kd_vectors := dict_set (kd_vectors db) kb t\<rparr>)" (is "kb_wf u ?db")
proof (rule kb_wfI)
  show "chunk_of_kb ?db kb' (vr_chunk_id r)" if "dict_get (kd_vectors ?db) kb' = Some t'" "r \<in> set t'" for kb' t' r
    using that new kb_wfD(4) [OF wf] by (auto simp: dict_get_set split: if_splits)
  show "i = j" if u "repo_get (kd_documents ?db) i = Some d" "repo_get (kd_documents ?db) j = Some e" "same_content d e" for i j d e
    using kb_wfD(5) [OF wf] that by simp
qed (use kb_wfD(1-3) [OF wf] in \<open>simp_all\<close>)

lemma vector_table_wf: "kb_wf u db \<Longrightarrow> r \<in> set (vector_table kb db) \<Longrightarrow> chunk_of_kb db kb (vr_chunk_id r)"
  by (cases "dict_get (kd_vectors db) kb") (auto simp: vector_table_def dest: kb_wfD(4))

lemma create_index_wf: "kb_wf u db \<Longrightarrow> kb_wf u (create_index kb db)"
  unfolding create_index_def by (rule set_vectors_wf) (auto dest: vector_table_wf)

lemma upsert_wf: "kb_wf u db \<Longrightarrow> chunk_of_kb db kb (vr_chunk_id row) \<Longrightarrow> kb_wf u (upsert kb row db)"
  unfolding upsert_def Let_def by (rule set_vectors_wf) (auto dest: vector_table_wf split: if_splits)

lemma upsert_frame [simp]:
  "kd_documents (upsert kb row db) = kd_documents db" "kd_chunks (upsert kb row db) = kd_chunks db" "chunk_of_kb (upsert kb row db) = chunk_of_kb db"
  by (simp_all add: upsert_def Let_def)

lemma create_index_frame [simp]:
  "kd_documents (create_index kb db) = kd_documents db" "kd_chunks (create_index kb db) = kd_chunks db" "chunk_of_kb (create_index kb db) = chunk_of_kb db"
  by (simp_all add: create_index_def)

lemma upserts_wf:
  "kb_wf u db \<Longrightarrow> list_all (\<lambda>r. chunk_of_kb db kb (vr_chunk_id r)) rs \<Longrightarrow> kb_wf u (fold (upsert kb) rs db) \<and> kd_documents (fold (upsert kb) rs db) = kd_documents db"
  by (induction rs arbitrary: db) (simp_all add: upsert_wf)

lemma put_chunks_wf:
  assumes wf: "kb_wf u db" and idem: "\<And>c. g (g c) = g c"
    and keep: "\<And>c. ch_document_id (g c) = ch_document_id c" "\<And>c. ch_is_deleted (g c) = ch_is_deleted c"
  shows "kb_wf u (put_chunks g cs db) \<and> chunk_of_kb (put_chunks g cs db) = chunk_of_kb db"
proof
  let ?db = "put_chunks g cs db"
  show kb: "chunk_of_kb ?db = chunk_of_kb db"
    by (simp add: fun_eq_iff chunk_of_kb_def put_chunks_get [OF idem] keep split: option.split)
  show "kb_wf u ?db"
  proof (rule kb_wfI)
    show "chunk_live ?db c" if c: "repo_get (kd_chunks ?db) i = Some c" for i c
    proof -
      from c obtain c' where c': "repo_get (kd_chunks db) i = Some c'" "c = c' \<or> c = g c'" by (auto simp: put_chunks_get [OF idem] split: if_splits)
      from c'(2) kb_wfD(3) [OF wf c'(1)] show ?thesis by (auto simp: chunk_live_def keep split: option.splits)
    qed
    show "i = j" if u "repo_get (kd_documents ?db) i = Some d" "repo_get (kd_documents ?db) j = Some e" "same_content d e" for i j d e
      using kb_wfD(5) [OF wf] that by simp
    show "chunk_of_kb ?db kb (vr_chunk_id r)" if "dict_get (kd_vectors ?db) kb = Some t" "r \<in> set t" for kb t r
      using kb_wfD(4) [OF wf] that by (simp add: kb)
  qed (use kb_wfD(1,2) [OF wf] in \<open>simp_all\<close>)
qed

lemma embed_document_wf:
  assumes wf: "kb_wf u db" and doc: "repo_get (kd_documents db) i = Some d" and run: "embed_document embedder i d db = (r, db')"
  shows "kb_wf u db' \<and> kd_documents db' = kd_documents db"
proof -
  define todo where "todo = repo_where (\<lambda>c. ch_document_id c = i \<and> ch_embedding_status c \<noteq> ''READY'') (kd_chunks db)"
  define db1 where "db1 = create_index (dc_knowledge_base_id d) db"
  define db2 where "db2 = put_chunks (\<lambda>c. c\<lparr>ch_embedding_status := ''READY''\<rparr>) todo db1"
  define vrow where "vrow = (\<lambda>((j :: int, c :: kb_chunk), v :: 'a). \<lparr>vr_chunk_id = j, vr_embedding = v, vr_document_id = i,
    vr_knowledge_base_id = dc_knowledge_base_id d, vr_language = or_str (dc_language d) ''en''\<rparr>)"
  have "chunk_of_kb db (dc_knowledge_base_id d) j" if "(j, c) \<in> set todo" for j c
    using that by (simp add: todo_def repo_where_set [OF kb_wfD(2) [OF wf]] chunk_of_kb_def doc)
  then have all: "list_all (\<lambda>r. chunk_of_kb db (dc_knowledge_base_id d) (vr_chunk_id r)) (map vrow (zip todo vs))" for vs
    by (auto simp: list_all_iff vrow_def dest!: set_zip_leftD split: prod.split)
  have db1: "kb_wf u db1" by (simp add: db1_def create_index_wf wf)
  have db2: "kb_wf u db2" "chunk_of_kb db2 = chunk_of_kb db" "kd_documents db2 = kd_documents db"
    using put_chunks_wf [OF db1, of "\<lambda>c. c\<lparr>ch_embedding_status := ''READY''\<rparr>" todo] by (simp_all add: db2_def) (simp_all add: db1_def)
  have fin: "kb_wf u (fold (upsert (dc_knowledge_base_id d)) (map vrow (zip todo vs)) db2) \<and>
      kd_documents (fold (upsert (dc_knowledge_base_id d)) (map vrow (zip todo vs)) db2) = kd_documents db" for vs
    using upserts_wf [OF db2(1), of "dc_knowledge_base_id d" "map vrow (zip todo vs)"] all [of vs] by (simp add: db2(2,3))
  have "(r, db') = (if todo = [] then (Ok (), db) else case embedder (map (\<lambda>(_, c). ch_text c) todo) of
      Inl x \<Rightarrow> (Err (EmbeddingError x), db)
    | Inr vs \<Rightarrow> if length vs < length todo then (Err (EmbeddingError ''list index out of range''), db1)
               else (Ok (), fold (upsert (dc_knowledge_base_id d)) (map vrow (zip todo vs)) db2))"
    unfolding run [symmetric] embed_document_def Let_def todo_def db1_def db2_def put_chunks_def vrow_def by (rule refl)
  then have "db' = db \<or> db' = db1 \<or> (\<exists>vs. db' = fold (upsert (dc_knowledge_base_id d)) (map vrow (zip todo vs)) db2)"
    by (auto split: if_splits sum.splits)
  then show ?thesis using wf db1 fin by (auto simp: db1_def)
qed

lemma rebuild_loop_wf:
  "kb_wf u db \<Longrightarrow> list_all (\<lambda>(i, d). repo_get (kd_documents db) i = Some d) ds \<Longrightarrow>
   rebuild_loop embedder ds n db = (r, db') \<Longrightarrow> kb_wf u db'"
proof (induction ds arbitrary: n db)
  case (Cons x ds)
  obtain i d where x: "x = (i, d)" by (cases x)
  obtain r1 db1 where e: "embed_document embedder i d db = (r1, db1)" by fastforce
  have "kb_wf u db1 \<and> kd_documents db1 = kd_documents db"
    by (rule embed_document_wf [OF Cons.prems(1) _ e]) (use Cons.prems(2) x in simp)
  with Cons e show ?case by (cases r1) (auto simp: x)
qed simp

lemma rebuild_wf:
  assumes "kb_wf u db" and "rebuild_embeddings embedder kb db = (r, db')"
  shows "kb_wf u db'"
proof (rule rebuild_loop_wf [OF assms(1)])
  show "list_all (\<lambda>(i, d). repo_get (kd_documents db) i = Some d) (list_documents_by_kb kb db)"
    by (auto simp: list_all_iff list_documents_by_kb_def repo_where_set [OF kb_wfD(1) [OF assms(1)]])
qed (use assms(2) in \<open>simp add: rebuild_embeddings_def\<close>)

text \<open>
  The knowledge base as a state machine: the operations the interface offers.  The duplicate policy
  of an upload is any of \<open>policies\<close>; the organizations and users in the database may be others at every step.
\<close>

inductive kb_step ::
  "string set \<Rightarrow> (string \<Rightarrow> string) \<Rightarrow> (string \<Rightarrow> string) \<Rightarrow> kb_keys \<Rightarrow> (string list \<Rightarrow> (string, 'v list) result) \<Rightarrow> 'v kb_db \<Rightarrow> 'v kb_db \<Rightarrow> bool"
  for policies sha256 decode k embedder where
  create: "kb_step policies sha256 decode k embedder db (snd (create_knowledge_base owners k name descr vis org user_id db))"
| ingest: "policy \<in> policies \<Longrightarrow>
    kb_step policies sha256 decode k embedder db (snd (ingest_document sha256 decode k kb f ct bytes user_id policy db))"
| delete: "kb_step policies sha256 decode k embedder db (delete_document i db)"
| rebuild: "kb_step policies sha256 decode k embedder db (snd (rebuild_embeddings embedder kb db))"

definition kb_empty :: "'v kb_db" where
  "kb_empty = \<lparr>kd_bases = [], kd_documents = [], kd_chunks = [], kd_vectors = []\<rparr>"

definition serial_kb_keys :: kb_keys where
  "serial_kb_keys = \<lparr>key_base = serial_id, key_document = serial_id, key_chunk = serial_id\<rparr>"

lemma serial_kb_keys_fresh: "kb_fresh serial_kb_keys"
  by (simp add: kb_fresh_def serial_kb_keys_def serial_id_fresh)

lemma kb_empty_wf: "kb_wf u kb_empty"
  by (rule kb_wfI) (simp_all add: kb_empty_def table_wf_def repo_get_def)

lemma base_update_same [simp]:
  "chunk_of_kb (db\<lparr>kd_bases := b\<rparr>) = chunk_of_kb db" "chunk_live (db\<lparr>kd_bases := b\<rparr>) = chunk_live db"
  by (simp_all add: fun_eq_iff chunk_of_kb_def chunk_live_def split: option.split)

lemma create_base_wf: "kb_wf u db \<Longrightarrow> kb_wf u (snd (create_knowledge_base owners k name descr vis org user_id db))"
  by (simp add: create_knowledge_base_def Let_def kb_wf_def)

lemma kb_step_wf:
  "kb_step policies sha256 decode k embedder db db' \<Longrightarrow> kb_fresh k \<Longrightarrow> (u \<Longrightarrow> policies \<subseteq> documented_policies) \<Longrightarrow> kb_wf u db \<Longrightarrow> kb_wf u db'"
  by (induction rule: kb_step.induct) (blast intro: create_base_wf ingest_wf delete_document_wf rebuild_wf surjective_pairing)+

lemma kb_steps_wf:
  "(kb_step policies sha256 decode k embedder)\<^sup>*\<^sup>* db db' \<Longrightarrow> kb_fresh k \<Longrightarrow> (u \<Longrightarrow> policies \<subseteq> documented_policies) \<Longrightarrow> kb_wf u db \<Longrightarrow> kb_wf u db'"
  by (induction rule: rtranclp_induct) (auto intro: kb_step_wf)

text \<open>
  C25: Whatever sequence of operations runs on an empty knowledge base (creating bases,
  ingesting with any duplicate policies, deleting documents, rebuilding
  embeddings, each succeeding or failing): every chunk belongs to a stored document and a
  deleted document has only deleted chunks, and every vector of a base belongs to a chunk
  of a document of that base.  As long as the policies of the uploads are the documented ones,
  \<open>reject\<close> and \<open>replace\<close>, no two live documents of one base have the same checksum either.
\<close>

theorem knowledge_base_integrity:
  assumes "kb_fresh k" and "(kb_step policies sha256 decode k embedder)\<^sup>*\<^sup>* kb_empty db"
  shows "(\<forall>i c. repo_get (kd_chunks db) i = Some c \<longrightarrow>
            (\<exists>d. repo_get (kd_documents db) (ch_document_id c) = Some d \<and> (dc_is_deleted d \<longrightarrow> ch_is_deleted c))) \<and>
         (\<forall>kb t r. dict_get (kd_vectors db) kb = Some t \<longrightarrow> r \<in> set t \<longrightarrow>
            (\<exists>c d. repo_get (kd_chunks db) (vr_chunk_id r) = Some c \<and> repo_get (kd_documents db) (ch_document_id c) = Some d \<and>
              dc_knowledge_base_id d = kb)) \<and>
         (policies \<subseteq> {''reject'', ''replace''} \<longrightarrow>
         (\<forall>i j d e. repo_get (kd_documents db) i = Some d \<longrightarrow> repo_get (kd_documents db) j = Some e \<longrightarrow>
            \<not> dc_is_deleted d \<longrightarrow> \<not> dc_is_deleted e \<longrightarrow> dc_knowledge_base_id d = dc_knowledge_base_id e \<longrightarrow>
            dc_checksum d = dc_checksum e \<longrightarrow> i = j))"
proof -
  have wf: "kb_wf False db" by (rule kb_steps_wf [OF assms(2,1) _ kb_empty_wf]) simp
  have wf': "kb_wf True db" if "policies \<subseteq> {''reject'', ''replace''}"
    by (rule kb_steps_wf [OF assms(2,1) _ kb_empty_wf]) (simp add: documented_policies_def that)
  have "\<exists>d. repo_get (kd_documents db) (ch_document_id c) = Some d \<and> (dc_is_deleted d \<longrightarrow> ch_is_deleted c)"
    if "repo_get (kd_chunks db) i = Some c" for i c
    using kb_wfD(3) [OF wf that] by (auto simp: chunk_live_def split: option.splits)
  moreover have "\<exists>c d. repo_get (kd_chunks db) (vr_chunk_id r) = Some c \<and> repo_get (kd_documents db) (ch_document_id c) = Some d \<and>
      dc_knowledge_base_id d = kb" if "dict_get (kd_vectors db) kb = Some t" "r \<in> set t" for kb t r
    using kb_wfD(4) [OF wf that] by (auto simp: chunk_of_kb_def split: option.splits)
  moreover have "i = j" if "policies \<subseteq> {''reject'', ''replace''}" "repo_get (kd_documents db) i = Some d" "repo_get (kd_documents db) j = Some e"
    "\<not> dc_is_deleted d" "\<not> dc_is_deleted e" "dc_knowledge_base_id d = dc_knowledge_base_id e" "dc_checksum d = dc_checksum e" for i j d e
    by (rule kb_wfD(5) [OF wf' [OF that(1)] TrueI that(2,3)]) (simp add: same_content_def that)
  ultimately show ?thesis by blast
qed

text \<open>
  An upload that passes validation and whose content is new to the base, or replaces it,
  always succeeds: it stores one new document, ready, with the upload's name, type, size and
  checksum, whose live chunks are exactly the chunks of the extracted text, numbered from
  zero in order; earlier documents with the same content are deleted, all others are unchanged.
\<close>

theorem ingest_stores_document:
  assumes wf: "kb_wf True db" and fresh: "kb_fresh k" and valid: "validate_file f ct (length bytes) = None"
    and dup: "get_by_checksum_in_kb (sha256 bytes) kb db = None \<or> policy = ''replace''"
  shows "\<exists>d row db'. ingest_document sha256 decode k kb f ct bytes user_id policy db = (Ok d, db') \<and>
    d \<notin> ids (kd_documents db) \<and> repo_get (kd_documents db') d = Some row \<and>
    dc_processing_status row = ''READY'' \<and> dc_knowledge_base_id row = kb \<and> dc_filename row = f \<and> dc_mime_type row = ct \<and>
    dc_file_size row = length bytes \<and> dc_checksum row = sha256 bytes \<and> \<not> dc_is_deleted row \<and>
    map snd (list_chunks_by_document d db') =
      map (\<lambda>(i, ci). new_chunk f d i ci) (enumerate 0 (chunk_text 1000 (fst (process_document decode bytes ct)))) \<and>
    (\<forall>j. j \<noteq> d \<longrightarrow> repo_get (kd_documents db') j = map_option
       (\<lambda>e. if policy = ''replace'' \<and> dc_knowledge_base_id e = kb \<and> dc_checksum e = sha256 bytes \<and> \<not> dc_is_deleted e
            then e\<lparr>dc_is_deleted := True\<rparr> else e) (repo_get (kd_documents db) j))"
proof -
  define db1 where "db1 = make_room policy (get_by_checksum_in_kb (sha256 bytes) kb db) db"
  define s where "s = fst (process_document decode bytes ct)"
  define raw where "raw = snd (process_document decode bytes ct)"
  obtain d db2 where start: "ingest_start k kb f ct (length bytes) (sha256 bytes) user_id policy db = (d, db2)" by fastforce
  note st = ingest_start_wf [OF wf fresh _ start, folded db1_def, OF dup]
  let ?db' = "store_content k d f s raw db2"
  let ?Q = "\<lambda>c. ch_document_id c = d \<and> \<not> ch_is_deleted c"
  have run: "ingest_document sha256 decode k kb f ct bytes user_id policy db = (Ok d, ?db')"
    using dup by (auto simp: ingest_cases valid start s_def raw_def)
  have wf1: "kb_wf True db1" by (simp add: db1_def make_room_wf wf)
  have new1: "repo_get (kd_documents db1) d = None"
    using st(2) by (simp add: repo_get_None_iff db1_def make_room_ids)
  have "ch_document_id c \<noteq> d" if "(i, c) \<in> set (kd_chunks db1)" for i c
    using kb_wfD(3) [OF wf1, of i c] that new1 by (auto simp: repo_get_in_set [OF kb_wfD(2) [OF wf1]] chunk_live_def)
  then have none: "repo_where ?Q (kd_chunks db2) = []" by (auto simp: repo_where_def filter_empty_conv st(5))
  have "map snd (list_chunks_by_document d ?db') = filter ?Q (map (\<lambda>(i, ci). new_chunk f d i ci) (enumerate 0 (chunk_text 1000 s)))"
    by (simp add: list_chunks_by_document_def store_content_def Let_def add_chunks_rows none)
  also have "\<dots> = map (\<lambda>(i, ci). new_chunk f d i ci) (enumerate 0 (chunk_text 1000 s))"
    by (auto simp: filter_id_conv new_chunk_def)
  finally have rows: "map snd (list_chunks_by_document d ?db') = map (\<lambda>(i, ci). new_chunk f d i ci) (enumerate 0 (chunk_text 1000 s))" .
  have others: "repo_get (kd_documents ?db') j = repo_get (kd_documents db1) j" if "j \<noteq> d" for j
    using that st(4) by (simp add: store_content_document option.map_ident)
  have row: "repo_get (kd_documents ?db') d = Some ((new_document kb f ct (length bytes) (sha256 bytes) user_id)
      \<lparr>dc_processing_status := ''READY'', dc_metadata := Some (extract_metadata f s raw)\<rparr>)"
    by (simp add: store_content_document st(3))
  show ?thesis
  proof (intro exI conjI)
    show "ingest_document sha256 decode k kb f ct bytes user_id policy db = (Ok d, ?db')" by (rule run)
    show "d \<notin> ids (kd_documents db)" by (rule st(2))
    show "repo_get (kd_documents ?db') d = Some ((new_document kb f ct (length bytes) (sha256 bytes) user_id)
      \<lparr>dc_processing_status := ''READY'', dc_metadata := Some (extract_metadata f s raw)\<rparr>)" by (rule row)
    show "map snd (list_chunks_by_document d ?db') =
      map (\<lambda>(i, ci). new_chunk f d i ci) (enumerate 0 (chunk_text 1000 (fst (process_document decode bytes ct))))"
      unfolding s_def [symmetric] by (rule rows)
  qed (simp_all add: new_document_def others db1_def make_room_documents [OF wf])
qed

section \<open>Retrieval\<close>

lemma select_loop_bounds:
  "set (select_loop m n cs) \<subseteq> fst ` set cs \<and> length (select_loop m n cs) \<le> length cs \<and>
   (select_loop m n cs = [] \<or> n + 200 * length (select_loop m n cs) \<le> m)"
proof (induction m n cs rule: select_loop.induct)
  case (2 m n c s cs)
  then show ?case by (cases "n + 200 > m") auto
qed simp

lemma select_chunks_bounds:
  "set (select_chunks cs n m) \<subseteq> fst ` set cs \<and> length (select_chunks cs n m) \<le> n \<and> 200 * length (select_chunks cs n m) \<le> m"
proof -
  have "fst ` set (take n cs) \<subseteq> fst ` set cs" by (intro image_mono set_take_subset)
  then show ?thesis using select_loop_bounds [of m 0 "take n cs"] by (auto simp: select_chunks_def)
qed

lemma search_vectors_from_table:
  assumes "search_vectors distance kb q n flt db = Ok cs" and "(i, x) \<in> set cs"
  shows "\<exists>t r. dict_get (kd_vectors db) kb = Some t \<and> r \<in> set t \<and> vr_chunk_id r = i"
  using assms by (fastforce simp: search_vectors_def dest!: in_set_takeD split: option.splits)

text \<open>
  The context retrieved for a base is built only from that base: it is the formatted
  list of the texts of at most \<open>top_k\<close> chunks, each the chunk of a document stored in the
  base, shown under that document's file name, and at 200 tokens each they fit the token budget.
\<close>

theorem retrieval_stays_in_base:
  assumes "kb_wf u db" and "retrieve_context embedder distance kb query top_k max_tokens db = Ok s"
  shows "\<exists>cds. s = format_context (map (\<lambda>(c, d). (ch_text c, dc_filename d)) cds) \<and>
    list_all (\<lambda>(c, d). (\<exists>i. repo_get (kd_chunks db) i = Some c) \<and>
      repo_get (kd_documents db) (ch_document_id c) = Some d \<and> dc_knowledge_base_id d = kb) cds \<and>
    length cds \<le> top_k \<and> 200 * length cds \<le> max_tokens"
proof -
  obtain v cs where cs: "search_vectors distance kb v top_k None db = Ok cs"
    and s: "s = format_context (concat (map (chunk_data db) (select_chunks (rerank (rank_candidates cs)) top_k max_tokens)))"
    using assms(2) by (auto simp: retrieve_context_def run_simps split: sum.splits)
  define sel where "sel = select_chunks (rerank (rank_candidates cs)) top_k max_tokens"
  have sub: "set sel \<subseteq> fst ` set cs" and bounds: "length sel \<le> top_k" "200 * length sel \<le> max_tokens"
    using select_chunks_bounds [of "rerank (rank_candidates cs)" top_k max_tokens]
    by (simp_all add: sel_def rerank_def rank_candidates_def)
  have kb: "chunk_of_kb db kb i" if "i \<in> set sel" for i
    using that sub search_vectors_from_table [OF cs] kb_wfD(4) [OF assms(1)] by fastforce
  define cd where "cd i = (the (repo_get (kd_chunks db) i), the (repo_get (kd_documents db) (ch_document_id (the (repo_get (kd_chunks db) i)))))" for i
  have "chunk_data db i = [(\<lambda>(c, d). (ch_text c, dc_filename d)) (cd i)]" if "chunk_of_kb db kb i" for i
    using that by (auto simp: chunk_data_def cd_def chunk_of_kb_def split: option.splits)
  then have "s = format_context (map (\<lambda>(c, d). (ch_text c, dc_filename d)) (map cd sel))"
    unfolding s sel_def [symmetric] using kb by (simp add: comp_def concat_map_singleton cong: map_cong)
  moreover have "list_all (\<lambda>(c, d). (\<exists>i. repo_get (kd_chunks db) i = Some c) \<and>
      repo_get (kd_documents db) (ch_document_id c) = Some d \<and> dc_knowledge_base_id d = kb) (map cd sel)"
    using kb by (force simp: list_all_iff cd_def chunk_of_kb_def split: option.splits)
  ultimately show ?thesis using bounds by (intro exI [of _ "map cd sel"]) simp
qed

text \<open>
  Deleting a document has no effect on retrieval: for every base, query and budget the
  context is the same before and after, deleted text included, because the pipeline reads
  chunks and documents by key without looking at their deletion mark, and the vectors stay.
\<close>

theorem deleted_document_still_retrieved:
  "retrieve_context embedder distance kb query top_k max_tokens (delete_document i db) =
   retrieve_context embedder distance kb query top_k max_tokens db"
proof -
  have data: "chunk_data (delete_document i db) j = chunk_data db j" for j
    by (cases "get_active_document i db")
      (auto simp: delete_document_missing delete_document_active chunk_data_def put_chunks_get split: option.split)
  have "kd_vectors (delete_document i db) = kd_vectors db"
    by (cases "get_active_document i db") (simp_all add: delete_document_missing delete_document_active)
  then have "search_vectors distance kb v n flt (delete_document i db) = search_vectors distance kb v n flt db" for v n flt
    by (simp add: search_vectors_def)
  moreover have "chunk_data (delete_document i db) = chunk_data db" by (rule ext) (rule data)
  ultimately show ?thesis by (simp add: retrieve_context_def split: sum.split)
qed

section \<open>A small knowledge base\<close>

text \<open>
  A store where the checksum is the content itself, the decoder keeps the bytes, and every text
  has the same vector; one text document in one base, then its vectors.
\<close>

definition note_embed :: "string list \<Rightarrow> (string, unit list) result" where
  "note_embed ts = Ok (map (\<lambda>_. ()) ts)"

definition note_upload :: "unit kb_db \<Rightarrow> (kb_error, int) result \<times> unit kb_db" where
  "note_upload db = ingest_document (\<lambda>s. s) (\<lambda>s. s) serial_kb_keys 1 ''n.txt'' ''text/plain'' ''hi'' 1 ''reject'' db"

definition note_db :: "unit kb_db" where
  "note_db = snd (rebuild_embeddings note_embed 1 (snd (note_upload kb_empty)))"

lemma note_reachable: "(kb_step {''reject'', ''replace''} (\<lambda>s. s) (\<lambda>s. s) serial_kb_keys note_embed)\<^sup>*\<^sup>* kb_empty note_db"
proof -
  let ?step = "kb_step {''reject'', ''replace''} (\<lambda>s. s) (\<lambda>s. s) serial_kb_keys note_embed"
  have "?step kb_empty (snd (note_upload kb_empty))" unfolding note_upload_def by (rule kb_step.ingest) simp
  moreover have "?step (snd (note_upload kb_empty)) note_db" unfolding note_db_def by (rule kb_step.rebuild)
  ultimately show ?thesis by (simp add: converse_rtranclp_into_rtranclp)
qed

lemma note_db_wf: "kb_wf u note_db"
  by (rule kb_steps_wf [OF note_reachable serial_kb_keys_fresh _ kb_empty_wf]) (simp add: documented_policies_def)

definition note_text :: string where "note_text = ''hi''"

definition note_meta :: metadata where
  "note_meta = extract_metadata ''n.txt'' note_text (snd (process_document (\<lambda>s. s) note_text ''text/plain''))"

lemma note_valid: "validate_file ''n.txt'' ''text/plain'' (length ''hi'') = None"
  by (simp add: validate_file_def supported_mime_types_def MAX_FILE_SIZE_BYTES_def)

lemma note_chunks: "chunk_text 1000 ''hi'' = [\<lparr>ci_text = ''hi'', ci_character_count = 2, ci_token_count = 0\<rparr>]"
  by (simp add: chunk_text_def chunk_groups_def paragraphs_def newline_def chunk_of_def join_group_def)

lemma note_process: "fst (process_document (\<lambda>s. s) s ''text/plain'') = s"
  by (simp add: process_document_def Let_def)

lemma note_uploaded:
  "snd (note_upload kb_empty) = \<lparr>kd_bases = [],
     kd_documents = [(1, (new_document 1 ''n.txt'' ''text/plain'' 2 ''hi'' 1)\<lparr>dc_processing_status := ''READY'', dc_metadata := Some note_meta\<rparr>)],
     kd_chunks = [(1, new_chunk ''n.txt'' 1 0 \<lparr>ci_text = ''hi'', ci_character_count = 2, ci_token_count = 0\<rparr>)], kd_vectors = []\<rparr>"
  unfolding note_upload_def ingest_cases note_valid
  by (simp add: ingest_start_def make_room_def serial_kb_keys_def store_content_def note_process note_chunks
        note_meta_def note_text_def Let_def kb_empty_def put_document_def add_chunk_def repo_create_def serial_id_def
        get_by_checksum_in_kb_def repo_first_def new_document_def numeral_2_eq_2)

lemma note_rows:
  "repo_get (kd_documents note_db) 1 \<noteq> None \<and> repo_get (kd_chunks note_db) 1 \<noteq> None \<and>
   dict_get (kd_vectors note_db) 1 = Some [\<lparr>vr_chunk_id = 1, vr_embedding = (), vr_document_id = 1, vr_knowledge_base_id = 1, vr_language = ''en''\<rparr>]"
  unfolding note_db_def note_uploaded rebuild_embeddings_def
  by (simp add: list_documents_by_kb_def repo_where_def new_document_def embed_document_def new_chunk_def note_embed_def
      create_index_def vector_table_def upsert_def put_chunk_def Let_def or_str_def repo_get_def dict_get_set)

theorem knowledge_base_integrity_witness:
  "\<exists>c d. repo_get (kd_chunks note_db) 1 = Some c \<and> repo_get (kd_documents note_db) (ch_document_id c) = Some d \<and> dc_knowledge_base_id d = 1"
proof -
  obtain t r where t: "dict_get (kd_vectors note_db) 1 = Some t" "r \<in> set t" "vr_chunk_id r = 1" using note_rows by force
  then show ?thesis using knowledge_base_integrity [OF serial_kb_keys_fresh note_reachable] by metis
qed

theorem ingest_stores_document_witness:
  "\<exists>d row db'. note_upload kb_empty = (Ok d, db') \<and> repo_get (kd_documents db') d = Some row \<and> dc_processing_status row = ''READY'' \<and>
     map ch_text (map snd (list_chunks_by_document d db')) = [''hi'']"
proof -
  have none: "get_by_checksum_in_kb ''hi'' 1 (kb_empty :: unit kb_db) = None \<or> ''reject'' = ''replace''"
    by (simp add: get_by_checksum_in_kb_def repo_first_def kb_empty_def)
  show ?thesis
    using ingest_stores_document [of kb_empty serial_kb_keys "''n.txt''" "''text/plain''" "''hi''" "\<lambda>s. s" 1 "''reject''" "\<lambda>s. s" 1,
        OF kb_empty_wf serial_kb_keys_fresh note_valid none]
    unfolding note_upload_def note_process note_chunks by (auto simp: new_chunk_def)
qed

theorem retrieval_stays_in_base_witness:
  "\<exists>cds :: (kb_chunk \<times> document) list. retrieve_context (\<lambda>_. Ok ()) (\<lambda>_ _. 0) 1 ''hi?'' 5 2000 note_db = Ok (format_context (map (\<lambda>(c, d). (ch_text c, dc_filename d)) cds)) \<and>
     length cds \<le> 5 \<and> list_all (\<lambda>(c, d). dc_knowledge_base_id d = 1) cds"
proof -
  obtain s where s: "retrieve_context (\<lambda>_. Ok ()) (\<lambda>_ _. 0) 1 ''hi?'' 5 2000 note_db = Ok s"
    using note_rows by (simp add: retrieve_context_def search_vectors_def)
  obtain cds where "s = format_context (map (\<lambda>(c, d). (ch_text c, dc_filename d)) cds)" "length cds \<le> 5"
    and "list_all (\<lambda>(c, d). (\<exists>i. repo_get (kd_chunks note_db) i = Some c) \<and>
      repo_get (kd_documents note_db) (ch_document_id c) = Some d \<and> dc_knowledge_base_id d = 1) cds"
    using retrieval_stays_in_base [OF note_db_wf s] by blast
  then show ?thesis unfolding s by - (rule exI [of _ cds], auto simp: list_all_iff)
qed

end
