(* ===== verification/Memory.thy ===== *)
theory Memory
  imports Complex_Main Chat
begin

text \<open>
  The memory engine: the memory repository and service
  (\<open>repositories/memory_repository.py\<close>, \<open>services/memory_service.py\<close>) and its
  strategies (\<open>memory/\<close>: scoring, forgetting, extraction, consolidation and
  summaries).

  Scores are rational numbers in place of floats, and the clock is an argument;
  times are in seconds.  The contract every edit of a memory keeps is the locale
  \<open>memory_edit\<close>, interpreted for update, archive and delete.
\<close>

section \<open>Rows and repository\<close>

record memory =
  me_organization_id :: int
  me_agent_id :: int
  me_conversation_id :: "int option"
  me_memory_type :: string
  me_title :: string
  me_content :: string
  me_summary :: "string option"
  me_importance_score :: rat
  me_confidence_score :: rat
  me_source :: string
  me_created_by :: int
  me_expires_at :: "int option"
  me_archived :: bool
  me_is_deleted :: bool

datatype memory_error = MemoryNotFoundError string

definition get_memory_by_org_and_id :: "int \<Rightarrow> int \<Rightarrow> memory table \<Rightarrow> memory option" where
  "get_memory_by_org_and_id org i t =
     map_option snd (find (\<lambda>(j, m). me_organization_id m = org \<and> j = i \<and> \<not> me_is_deleted m) t)"

definition list_active :: "int \<Rightarrow> int option \<Rightarrow> string option \<Rightarrow> memory table \<Rightarrow> memory table" where
  "list_active org agent_id memory_type t =
     repo_where (\<lambda>m. me_organization_id m = org \<and> \<not> me_is_deleted m \<and>
       (case agent_id of None \<Rightarrow> True | Some a \<Rightarrow> me_agent_id m = a) \<and>
       (case memory_type of None \<Rightarrow> True | Some ty \<Rightarrow> me_memory_type m = ty)) t"

section \<open>Strategies\<close>

definition score_memory :: "rat \<Rightarrow> rat \<Rightarrow> rat \<Rightarrow> rat" where
  "score_memory importance confidence recency_factor = importance * (4/10) + confidence * (3/10) + recency_factor * (3/10)"

definition should_prune :: "rat \<Rightarrow> rat \<Rightarrow> bool" where
  "should_prune importance confidence = (importance < 2/10 \<and> confidence < 3/10)"

definition is_expired :: "int \<Rightarrow> int option \<Rightarrow> bool" where
  "is_expired now expires_at = (case expires_at of None \<Rightarrow> False | Some t \<Rightarrow> t < now)"

definition summarize :: "string \<Rightarrow> string" where
  "summarize text = (let words = split_ws text
     in ''Summary of conversation: '' @ py_join '' '' (take (min (length words) 50) words) @ ''...'')"

text \<open>Sentences end at a terminator; \<open>words_of\<close> are the maximal runs of word characters.\<close>

fun split_where :: "(char \<Rightarrow> bool) \<Rightarrow> string \<Rightarrow> string \<Rightarrow> string list" where
  "split_where p acc [] = [rev acc]"
| "split_where p acc (c # cs) = (if p c then rev acc # split_where p [] cs else split_where p (c # acc) cs)"

definition is_terminator :: "char \<Rightarrow> bool" where
  "is_terminator c = (c = CHR ''.'' \<or> c = CHR ''!'' \<or> c = CHR ''?'')"

definition is_word_char :: "char \<Rightarrow> bool" where
  "is_word_char c = (let n = (of_char c :: nat) in (48 \<le> n \<and> n \<le> 57) \<or> (65 \<le> n \<and> n \<le> 90) \<or> (97 \<le> n \<and> n \<le> 122) \<or> n = 95)"

definition words_of :: "string \<Rightarrow> string list" where
  "words_of s = filter (\<lambda>w. w \<noteq> []) (split_where (\<lambda>c. \<not> is_word_char c) [] s)"

definition states_preference :: "string \<Rightarrow> bool" where
  "states_preference s = list_ex (\<lambda>w. w = ''prefer'' \<or> w = ''like'') (map py_lower (words_of s))"

record memory_fact =
  mf_title :: string
  mf_content :: string
  mf_importance_score :: rat
  mf_confidence_score :: rat
  mf_memory_type :: string

definition extract_memories :: "string \<Rightarrow> memory_fact list" where
  "extract_memories history =
     map (\<lambda>s. \<lparr>mf_title = ''User preference'', mf_content = s @ ''.'', mf_importance_score = 6/10, mf_confidence_score = 8/10,
                mf_memory_type = ''semantic''\<rparr>)
       (filter states_preference (filter (\<lambda>s. s \<noteq> []) (map py_strip (split_where is_terminator [] history))))"

fun consolidate_loop :: "memory_fact list \<Rightarrow> (string, memory_fact) dict \<Rightarrow> (string, memory_fact) dict" where
  "consolidate_loop [] seen = seen"
| "consolidate_loop (m # ms) seen =
     (case dict_get seen (mf_title m) of
        None \<Rightarrow> consolidate_loop ms (dict_set seen (mf_title m) m)
      | Some old \<Rightarrow>
          if mf_confidence_score m > mf_confidence_score old then consolidate_loop ms (dict_set seen (mf_title m) m)
          else consolidate_loop ms seen)"

definition consolidate :: "memory_fact list \<Rightarrow> memory_fact list" where
  "consolidate ms = map snd (consolidate_loop ms [])"

section \<open>Service\<close>

definition get_memory :: "int \<Rightarrow> int \<Rightarrow> memory table \<Rightarrow> (memory_error, memory) result" where
  "get_memory org i t =
     (case get_memory_by_org_and_id org i t of
        None \<Rightarrow> Err (MemoryNotFoundError ''Memory not found.'')
      | Some m \<Rightarrow> Ok m)"

text \<open>
  A new row refers to an organization, an agent and a user; \<open>owners\<close> tells whether these rows exist, and the
  database refuses the insert when one does not.
\<close>

definition create_memory ::
  "(int \<Rightarrow> int \<Rightarrow> int \<Rightarrow> bool) \<Rightarrow> int \<Rightarrow> int \<Rightarrow> int \<Rightarrow> string \<Rightarrow> string \<Rightarrow> string \<Rightarrow> rat \<Rightarrow> rat \<Rightarrow> int \<Rightarrow> memory table
   \<Rightarrow> (string, memory table) result" where
  "create_memory owners nid org agent_id title content memory_type importance confidence user_id t =
     (if \<not> owners org agent_id user_id then Err ''IntegrityError''
      else Ok (repo_create nid \<lparr>me_organization_id = org, me_agent_id = agent_id, me_conversation_id = None, me_memory_type = memory_type,
       me_title = title, me_content = content, me_summary = None, me_importance_score = importance, me_confidence_score = confidence,
       me_source = ''extraction'', me_created_by = user_id, me_expires_at = None, me_archived = False, me_is_deleted = False\<rparr> t))"

definition apply_update :: "string option \<Rightarrow> string option \<Rightarrow> rat option \<Rightarrow> rat option \<Rightarrow> memory \<Rightarrow> memory" where
  "apply_update title content importance confidence m =
     (let m1 = (case title of None \<Rightarrow> m | Some x \<Rightarrow> m\<lparr>me_title := x\<rparr>);
          m2 = (case content of None \<Rightarrow> m1 | Some x \<Rightarrow> m1\<lparr>me_content := x\<rparr>);
          m3 = (case importance of None \<Rightarrow> m2 | Some x \<Rightarrow> m2\<lparr>me_importance_score := x\<rparr>)
      in (case confidence of None \<Rightarrow> m3 | Some x \<Rightarrow> m3\<lparr>me_confidence_score := x\<rparr>))"

definition update_memory ::
  "string option \<Rightarrow> string option \<Rightarrow> rat option \<Rightarrow> rat option \<Rightarrow> int \<Rightarrow> int \<Rightarrow> memory table \<Rightarrow> (memory_error, memory) result \<times> memory table" where
  "update_memory title content importance confidence org i t =
     (case get_memory org i t of
        Inl x \<Rightarrow> (Err x, t)
      | Inr m \<Rightarrow> (let m' = apply_update title content importance confidence m in (Ok m', repo_update i m' t)))"

definition archive_memory :: "int \<Rightarrow> int \<Rightarrow> memory table \<Rightarrow> (memory_error, memory) result \<times> memory table" where
  "archive_memory org i t =
     (case get_memory org i t of
        Inl x \<Rightarrow> (Err x, t)
      | Inr m \<Rightarrow> (let m' = m\<lparr>me_archived := True\<rparr> in (Ok m', repo_update i m' t)))"

definition delete_memory :: "int \<Rightarrow> int \<Rightarrow> memory table \<Rightarrow> (memory_error, memory) result \<times> memory table" where
  "delete_memory org i t =
     (case get_memory org i t of
        Inl x \<Rightarrow> (Err x, t)
      | Inr m \<Rightarrow> (let m' = m\<lparr>me_is_deleted := True\<rparr> in (Ok m', repo_update i m' t)))"

definition rebuild_summary :: "int \<Rightarrow> message table \<Rightarrow> string" where
  "rebuild_summary c t =
     summarize (py_join [CHR ''\<newline>''] (map (\<lambda>(_, m). ms_role m @ '': '' @ ms_content m) (get_by_conversation c t)))"

definition recallable :: "int \<Rightarrow> memory \<Rightarrow> bool" where
  "recallable now m = (\<not> (is_expired now (me_expires_at m) \<or> should_prune (me_importance_score m) (me_confidence_score m)))"

definition memory_score :: "memory \<Rightarrow> rat" where
  "memory_score m = score_memory (me_importance_score m) (me_confidence_score m) 1"

definition retrieve_memories :: "int \<Rightarrow> int \<Rightarrow> int \<Rightarrow> string \<Rightarrow> nat \<Rightarrow> memory table \<Rightarrow> memory table" where
  "retrieve_memories now org agent_id query top_k t =
     (let scored = map (\<lambda>im. (im, memory_score (snd im))) (filter (\<lambda>(_, m). recallable now m) (list_active org (Some agent_id) None t))
      in map fst (take top_k (sort_key_desc snd scored)))"

lemma get_memory_iff:
  assumes "table_wf t"
  shows "get_memory org i t = Inr m \<longleftrightarrow> repo_get t i = Some m \<and> me_organization_id m = org \<and> \<not> me_is_deleted m"
proof -
  have "get_memory_by_org_and_id org i t = map_option snd (find (\<lambda>(j, m). j = i \<and> (me_organization_id m = org \<and> \<not> me_is_deleted m)) t)"
    unfolding get_memory_by_org_and_id_def by (simp only: conj_left_commute)
  then show ?thesis
    by (cases "repo_get t i") (auto simp: get_memory_def find_key [OF assms])
qed

section \<open>The contract of an edit\<close>

text \<open>
  An edit finds the live memory of the organisation by its key, or fails and changes
  nothing; it replaces that row by one of the same organisation and agent.
\<close>

locale memory_edit =
  fixes edit :: "int \<Rightarrow> int \<Rightarrow> memory table \<Rightarrow> (memory_error, memory) result \<times> memory table"
    and change :: "memory \<Rightarrow> memory"
  assumes edit_missing: "get_memory org i t = Inl x \<Longrightarrow> edit org i t = (Err x, t)"
    and edit_found: "get_memory org i t = Inr m \<Longrightarrow> edit org i t = (Ok (change m), repo_update i (change m) t)"
    and change_org: "me_organization_id (change m) = me_organization_id m"
    and change_agent: "me_agent_id (change m) = me_agent_id m"
begin

lemma leaves_other_rows:
  assumes "edit org i t = (r, t')" and "j \<noteq> i"
  shows "repo_get t' j = repo_get t j"
  using assms by (cases "get_memory org i t") (auto simp: edit_missing edit_found repo_get_update)

lemma keeps_table: "edit org i t = (r, t') \<Longrightarrow> table_wf t \<Longrightarrow> table_wf t'"
  by (cases "get_memory org i t") (auto simp: edit_missing edit_found)

lemma stays_in_organisation:
  assumes "table_wf t" and run: "edit org i t = (r, t')" and "repo_get t j = Some m" and "me_organization_id m \<noteq> org"
  shows "repo_get t' j = Some m"
proof (cases "get_memory org i t")
  case (Inl x)
  then show ?thesis using run assms(3) by (simp add: edit_missing)
next
  case (Inr m')
  then have "j \<noteq> i" using assms(3,4) by (auto simp: get_memory_iff [OF assms(1)])
  then show ?thesis using leaves_other_rows [OF run] assms(3) by simp
qed

lemma fails_without_trace: "edit org i t = (Inl x, t') \<Longrightarrow> t' = t"
  by (cases "get_memory org i t") (auto simp: edit_missing edit_found)

end

interpretation update_op: memory_edit "update_memory title content importance confidence" "apply_update title content importance confidence"
  by unfold_locales (auto simp: update_memory_def apply_update_def Let_def split: option.splits)

interpretation archive_op: memory_edit archive_memory "\<lambda>m. m\<lparr>me_archived := True\<rparr>"
  by unfold_locales (auto simp: archive_memory_def Let_def)

interpretation delete_op: memory_edit delete_memory "\<lambda>m. m\<lparr>me_is_deleted := True\<rparr>"
  by unfold_locales (auto simp: delete_memory_def Let_def)

section \<open>Recall\<close>

text \<open>The specification of recall: which memories count, and for how much.\<close>

definition eligible :: "int \<Rightarrow> int \<Rightarrow> int \<Rightarrow> memory \<Rightarrow> bool" where
  "eligible now org agent_id m \<longleftrightarrow>
     me_organization_id m = org \<and> me_agent_id m = agent_id \<and> \<not> me_is_deleted m \<and>
     (case me_expires_at m of None \<Rightarrow> True | Some t \<Rightarrow> now \<le> t) \<and>
     (1/5 \<le> me_importance_score m \<or> 3/10 \<le> me_confidence_score m)"

definition utility :: "memory \<Rightarrow> rat" where
  "utility m = (4 * me_importance_score m + 3 * me_confidence_score m + 3) / 10"

lemma memory_score_utility: "memory_score = utility"
  by (simp add: fun_eq_iff memory_score_def score_memory_def utility_def add_divide_distrib)

lemma recallable_iff: "recallable now m \<longleftrightarrow> (case me_expires_at m of None \<Rightarrow> True | Some t \<Rightarrow> now \<le> t) \<and>
    (1/5 \<le> me_importance_score m \<or> 3/10 \<le> me_confidence_score m)"
  by (auto simp: recallable_def is_expired_def should_prune_def split: option.split)

lemma map_sort_key: "map g (sort_key (\<lambda>x. f (g x)) xs) = sort_key f (map g xs)"
proof (rule properties_for_sort_key [symmetric])
  show "mset (map g (sort_key (\<lambda>x. f (g x)) xs)) = mset (map g xs)" by simp
  show "sorted (map f (map g (sort_key (\<lambda>x. f (g x)) xs)))"
    using sorted_sort_key [of "\<lambda>x. f (g x)" xs] by (simp add: comp_def)
  show "filter (\<lambda>y. f k = f y) (map g (sort_key (\<lambda>x. f (g x)) xs)) = filter (\<lambda>y. f k = f y) (map g xs)" if "k \<in> set (map g (sort_key (\<lambda>x. f (g x)) xs))" for k
    using sort_key_stable [of "\<lambda>x. f (g x)" "f k" xs] by (simp add: filter_map comp_def eq_commute [of "f k"])
qed

lemma sort_key_congruent:
  assumes "\<And>x. x \<in> set xs \<Longrightarrow> f x = g x"
  shows "sort_key f xs = sort_key g xs"
proof (rule properties_for_sort_key)
  show "filter (\<lambda>x. f k = f x) (sort_key g xs) = filter (\<lambda>x. f k = f x) xs" if "k \<in> set (sort_key g xs)" for k
  proof -
    have "filter (\<lambda>x. f k = f x) ys = filter (\<lambda>x. g x = g k) ys" if "set ys = set xs" for ys
      using assms \<open>k \<in> _\<close> that by (intro filter_cong) auto
    then show ?thesis using sort_key_stable [of g "g k" xs] by simp
  qed
  have "map f (sort_key g xs) = map g (sort_key g xs)" using assms by simp
  then show "sorted (map f (sort_key g xs))" by (metis sorted_sort_key)
qed simp

lemma map_sort_key_desc: "map g (sort_key_desc (\<lambda>x. f (g x)) xs) = sort_key_desc f (map g xs)"
  using map_sort_key [of g f "rev xs"] by (simp add: sort_key_desc_def rev_map [symmetric])

lemma retrieve_memories_eq:
  "retrieve_memories now org agent_id query k t =
     take k (sort_key_desc (\<lambda>im. utility (snd im)) (repo_where (eligible now org agent_id) t))"
proof -
  have "sort_key_desc snd (map (\<lambda>im. (im, utility (snd im))) xs) =
      map (\<lambda>im. (im, utility (snd im))) (sort_key_desc (\<lambda>im. utility (snd im)) xs)" for xs :: "memory table"
    by (subst map_sort_key_desc [of "\<lambda>im. (im, utility (snd im))" snd, symmetric]) simp
  moreover have "filter (\<lambda>(_, m). recallable now m) (list_active org (Some agent_id) None t) = repo_where (eligible now org agent_id) t"
    by (auto simp: list_active_def repo_where_def eligible_def recallable_iff intro!: filter_cong)
  ultimately show ?thesis by (simp add: retrieve_memories_def Let_def take_map comp_def memory_score_utility)
qed

lemma sorted_take_best:
  assumes "sorted_wrt (\<ge>) (map f xs)" and "x \<in> set (take k xs)" and "y \<in> set (drop k xs)"
  shows "f y \<le> f x"
proof -
  have "sorted_wrt (\<ge>) (map f (take k xs) @ map f (drop k xs))"
    using assms(1) by (simp add: map_append [symmetric] del: map_append)
  then show ?thesis using assms(2,3) by (auto simp: sorted_wrt_append)
qed

text \<open>
  Recall is exact.  The memories returned are memories of the given organisation and agent,
  neither deleted nor expired nor unimportant and doubtful at once, in descending order of
  score; there are as many as asked for, or all there are; and every eligible memory left
  out scores no more than any that is returned.  The query has no influence.
\<close>

theorem recall_exact:
  "let ms = retrieve_memories now org agent_id query k t; all = repo_where (eligible now org agent_id) t in
     sorted_wrt (\<ge>) (map (\<lambda>im. utility (snd im)) ms) \<and> length ms = min k (length all) \<and>
     (\<exists>rest. mset all = mset ms + mset rest \<and>
        (\<forall>x y. x \<in> set ms \<longrightarrow> y \<in> set rest \<longrightarrow> utility (snd y) \<le> utility (snd x))) \<and>
     retrieve_memories now org agent_id query' k t = ms"
proof -
  let ?score = "\<lambda>im :: int \<times> memory. utility (snd im)"
  define srt where "srt = sort_key_desc ?score (repo_where (eligible now org agent_id) t)"
  have sorted: "sorted_wrt (\<ge>) (map ?score srt)" unfolding srt_def by (rule sort_key_desc_sorted)
  then have "sorted_wrt (\<ge>) (map ?score (take k srt))" by (simp add: take_map [symmetric] sorted_wrt_take)
  moreover have "mset (repo_where (eligible now org agent_id) t) = mset (take k srt) + mset (drop k srt)"
    unfolding mset_append [symmetric] append_take_drop_id by (simp add: srt_def)
  moreover have "length (take k srt) = min k (length (repo_where (eligible now org agent_id) t))"
    by (simp add: srt_def min.commute)
  ultimately show ?thesis
    unfolding Let_def retrieve_memories_eq srt_def [symmetric] using sorted_take_best [OF sorted] by blast
qed

text \<open>Rows changed in place, without touching what recall looks at.\<close>

lemma repo_update_as_map: "repo_update i r t = map (\<lambda>(j, m). (j, if j = i then r else m)) t"
  by (auto simp: repo_update_def)

lemma recall_map:
  assumes "\<And>j m. (j, m) \<in> set t \<Longrightarrow> eligible now org agent_id (f j m) = eligible now org agent_id m \<and> utility (f j m) = utility m"
  shows "retrieve_memories now org agent_id query k (map (\<lambda>(j, m). (j, f j m)) t) =
    map (\<lambda>(j, m). (j, f j m)) (retrieve_memories now org agent_id query k t)"
proof -
  let ?g = "\<lambda>(j, m). (j, f j m)" and ?score = "\<lambda>im :: int \<times> memory. utility (snd im)"
  let ?all = "repo_where (eligible now org agent_id) t"
  have "repo_where (eligible now org agent_id) (map ?g t) = map ?g ?all"
    using assms by (induction t) (auto simp: repo_where_def)
  moreover have "sort_key_desc ?score (map ?g ?all) = map ?g (sort_key_desc (\<lambda>x. ?score (?g x)) ?all)"
    by (rule map_sort_key_desc [symmetric])
  moreover have "sort_key_desc (\<lambda>x. ?score (?g x)) ?all = sort_key_desc ?score ?all"
    unfolding sort_key_desc_def
    by (intro arg_cong [where f = rev] sort_key_congruent) (use assms in \<open>auto simp: repo_where_def\<close>)
  ultimately show ?thesis by (simp add: retrieve_memories_eq take_map)
qed

text \<open>
  Archiving a memory changes nothing that is ever read: the memory is still listed, and
  recalled as before, with the same keys in the same order, for every agent, query and time.
\<close>

theorem archived_still_recalled:
  assumes "table_wf t"
  shows "map fst (retrieve_memories now org' agent_id query k (snd (archive_memory org i t))) = map fst (retrieve_memories now org' agent_id query k t) \<and>
    map fst (list_active org' agent' memory_type (snd (archive_memory org i t))) = map fst (list_active org' agent' memory_type t)"
proof (cases "get_memory org i t")
  case (Inl x)
  then show ?thesis by (simp add: archive_op.edit_missing)
next
  case (Inr m)
  let ?g = "\<lambda>(j, q). (j, if j = i then m\<lparr>me_archived := True\<rparr> else q)"
  have row: "q = m" if "(i, q) \<in> set t" for q
    using that Inr by (auto simp: get_memory_iff [OF assms] repo_get_in_set [OF assms])
  let ?Q = "\<lambda>m. me_organization_id m = org' \<and> \<not> me_is_deleted m \<and>
       (case agent' of None \<Rightarrow> True | Some a \<Rightarrow> me_agent_id m = a) \<and>
       (case memory_type of None \<Rightarrow> True | Some ty \<Rightarrow> me_memory_type m = ty)"
  have t': "snd (archive_memory org i t) = map ?g t"
    by (simp add: archive_op.edit_found [OF Inr] repo_update_def)
  have "retrieve_memories now org' agent_id query k (map ?g t) = map ?g (retrieve_memories now org' agent_id query k t)"
    by (rule recall_map) (use row in \<open>auto simp: eligible_def utility_def\<close>)
  moreover have "list_active org' agent' memory_type (map ?g t) = map ?g (list_active org' agent' memory_type t)"
    unfolding list_active_def repo_where_def filter_map
  proof (intro arg_cong [where f = "map ?g"] filter_cong refl)
    fix x
    assume "x \<in> set t"
    moreover obtain j q where "x = (j, q)" by (cases x)
    ultimately show "((\<lambda>(_, r). ?Q r) \<circ> ?g) x = (case x of (_, r) \<Rightarrow> ?Q r)"
      by (cases "j = i") (use row [of q] in \<open>simp_all split: option.split\<close>)
  qed
  ultimately show ?thesis by (simp add: t' comp_def split_beta)
qed

section \<open>Consolidation\<close>

fun best :: "memory_fact option \<Rightarrow> memory_fact list \<Rightarrow> memory_fact option" where
  "best b [] = b"
| "best None (m # ms) = best (Some m) ms"
| "best (Some b) (m # ms) = best (Some (if mf_confidence_score m > mf_confidence_score b then m else b)) ms"

lemma best_max:
  "best b ms = Some m \<Longrightarrow> (b = Some m \<or> m \<in> set ms) \<and>
     (\<forall>m'. m' \<in> set ms \<or> b = Some m' \<longrightarrow> mf_confidence_score m' \<le> mf_confidence_score m)"
  by (induction b ms rule: best.induct) (force split: if_splits)+

lemma best_None_iff: "best b ms = None \<longleftrightarrow> b = None \<and> ms = []"
  by (induction b ms rule: best.induct) auto

lemma consolidate_loop_get:
  "dict_get (consolidate_loop ms seen) k = best (dict_get seen k) (filter (\<lambda>m. mf_title m = k) ms)"
  by (induction ms seen rule: consolidate_loop.induct) (auto simp: dict_get_set split: option.splits)

definition titled :: "(string, memory_fact) dict \<Rightarrow> bool" where
  "titled seen \<longleftrightarrow> distinct (map fst seen) \<and> list_all (\<lambda>(k, m). mf_title m = k) seen"

lemma list_all_update: "list_all Q d \<Longrightarrow> Q (k, v) \<Longrightarrow> list_all Q (dict_set d k v)"
  by (induction d) auto

lemma titled_set: "titled seen \<Longrightarrow> titled (dict_set seen (mf_title m) m)"
  by (simp add: titled_def list_all_update distinct_update)

lemma consolidate_loop_titled: "titled seen \<Longrightarrow> titled (consolidate_loop ms seen)"
  by (induction ms seen rule: consolidate_loop.induct) (auto simp: titled_set split: option.splits)

lemma consolidate_loop_distinct:
  "distinct (map mf_title ms) \<Longrightarrow> fst ` set seen \<inter> mf_title ` set ms = {} \<Longrightarrow>
   consolidate_loop ms seen = seen @ map (\<lambda>m. (mf_title m, m)) ms"
proof (induction ms arbitrary: seen)
  case (Cons m ms)
  then have "dict_get seen (mf_title m) = None" by (auto simp: dict_get_None_iff)
  moreover from this have "dict_set seen (mf_title m) m = seen @ [(mf_title m, m)]" by (simp add: dict_get_None_iff dict_set_fresh)
  ultimately show ?case using Cons by auto
qed simp

text \<open>
  Consolidation keeps, for every title, exactly one fact, one of the given facts with that
  title and the highest confidence among them; no title is lost or invented, and consolidating
  again changes nothing.
\<close>

theorem consolidate_keeps_best:
  "distinct (map mf_title (consolidate ms)) \<and> mf_title ` set (consolidate ms) = mf_title ` set ms \<and> set (consolidate ms) \<subseteq> set ms \<and>
   (\<forall>m m'. m \<in> set (consolidate ms) \<longrightarrow> m' \<in> set ms \<longrightarrow> mf_title m' = mf_title m \<longrightarrow> mf_confidence_score m' \<le> mf_confidence_score m) \<and>
   consolidate (consolidate ms) = consolidate ms"
proof -
  let ?d = "consolidate_loop ms []"
  have t: "titled ?d" by (rule consolidate_loop_titled) (simp add: titled_def)
  then have titles: "map mf_title (consolidate ms) = map fst ?d" and dist: "distinct (map fst ?d)"
    by (auto simp: titled_def consolidate_def list_all_iff)
  have get: "dict_get ?d k = best None (filter (\<lambda>m. mf_title m = k) ms)" for k by (simp add: consolidate_loop_get)
  have kept: "best None (filter (\<lambda>x. mf_title x = mf_title m) ms) = Some m" if "m \<in> set (consolidate ms)" for m
  proof -
    from that obtain k where k: "(k, m) \<in> set ?d" by (auto simp: consolidate_def)
    then have "mf_title m = k" using t by (auto simp: titled_def list_all_iff)
    with k dist get [of k] show ?thesis by (simp add: map_of_is_SomeI)
  qed
  have "m \<in> set ms" if "m \<in> set (consolidate ms)" for m
    using best_max [OF kept [OF that]] by auto
  moreover have "mf_confidence_score m' \<le> mf_confidence_score m"
    if "m \<in> set (consolidate ms)" "m' \<in> set ms" "mf_title m' = mf_title m" for m m'
    using best_max [OF kept [OF that(1)]] that(2,3) by auto
  moreover have "mf_title m \<in> mf_title ` set (consolidate ms)" if "m \<in> set ms" for m
  proof -
    have "dict_get ?d (mf_title m) \<noteq> None" using that by (auto simp: get best_None_iff filter_empty_conv)
    then have "mf_title m \<in> set (map fst ?d)" by (simp add: dict_get_None_iff)
    then show ?thesis by (simp only: titles [symmetric] set_map)
  qed
  moreover have "consolidate (consolidate ms) = consolidate ms"
    using dist by (simp add: titles [symmetric] consolidate_def [of "consolidate ms"] consolidate_loop_distinct comp_def)
  ultimately show ?thesis using dist by (auto simp: titles)
qed

section \<open>A small memory\<close>

definition jot :: "int \<Rightarrow> rat \<Rightarrow> memory table \<Rightarrow> memory table" where
  "jot i importance t = projr (create_memory (\<lambda>_ _ _. True) i 1 7 ''t'' ''c'' ''semantic'' importance (5/10) 1 t)"

definition jottings :: "memory table" where
  "jottings = jot 2 (9/10) (jot 1 (1/10) [])"

lemma jottings_recalled: "map fst (retrieve_memories 0 1 7 ''anything'' 1 jottings) = [2]"
  by (simp add: retrieve_memories_eq jottings_def jot_def create_memory_def repo_create_def repo_where_def eligible_def utility_def
      sort_key_desc_def)

theorem recall_exact_witness:
  "map fst (retrieve_memories 0 1 7 ''anything'' 1 jottings) = [2] \<and> map fst (retrieve_memories 0 1 7 ''else'' 1 jottings) = [2]"
  using recall_exact [of 0 1 7 "''anything''" 1 jottings "''else''"] jottings_recalled by (simp add: Let_def)

theorem archived_still_recalled_witness:
  "map fst (retrieve_memories 0 1 7 ''anything'' 1 (snd (archive_memory 1 2 jottings))) = [2]"
proof -
  have "table_wf jottings" by (simp add: jottings_def jot_def create_memory_def repo_create_def table_wf_def)
  from archived_still_recalled [OF this, of 0 1 7 "''anything''" 1 1 2] jottings_recalled show ?thesis by simp
qed

definition fact_of :: "string \<Rightarrow> rat \<Rightarrow> memory_fact" where
  "fact_of title confidence = \<lparr>mf_title = title, mf_content = [], mf_importance_score = 1, mf_confidence_score = confidence, mf_memory_type = ''semantic''\<rparr>"

theorem consolidate_keeps_best_witness:
  "consolidate [fact_of ''a'' 1, fact_of ''b'' 1, fact_of ''a'' 2] = [fact_of ''a'' 2, fact_of ''b'' 1] \<and>
   mf_confidence_score (fact_of ''a'' 1) \<le> mf_confidence_score (fact_of ''a'' 2)"
proof -
  have c: "consolidate [fact_of ''a'' 1, fact_of ''b'' 1, fact_of ''a'' 2] = [fact_of ''a'' 2, fact_of ''b'' 1]"
    by (simp add: consolidate_def fact_of_def)
  have "mf_confidence_score (fact_of ''a'' 1) \<le> mf_confidence_score (fact_of ''a'' 2)"
    using consolidate_keeps_best [of "[fact_of ''a'' 1, fact_of ''b'' 1, fact_of ''a'' 2]"] unfolding c by (simp add: fact_of_def)
  with c show ?thesis by blast
qed

end
