(* ===== verification/Endpoint.thy ===== *)
theory Endpoint
  imports Authorization
begin

text \<open>
  What all REST endpoints share: the dependencies FastAPI resolves before the body of an
  endpoint runs (\<open>dependencies/auth.py\<close>, \<open>dependencies/permissions.py\<close>,
  \<open>dependencies/security.py\<close>), the membership check, and the translation of the
  exceptions of a service into HTTP answers.

  A dependency reads the database and gives the current user or refuses; the endpoint
  runs only if it does not refuse.  \<open>HTTPBearer\<close>, which reads the header, is the
  argument \<open>credentials\<close>: the token, or the error it raises.
\<close>

section \<open>Dependencies\<close>

type_synonym ('s, 'a) handler = "'s \<Rightarrow> (service_error, 'a) result \<times> 's"

record auth_env =
  au_hash :: "string \<Rightarrow> string"
  au_verify :: "string \<Rightarrow> string \<Rightarrow> bool"
  au_encode :: "string \<Rightarrow> int \<Rightarrow> string"
  au_decode :: "int \<Rightarrow> string \<Rightarrow> string option"
  au_now :: int

type_synonym credentials = "(service_error, string) result"

definition current_user :: "auth_env \<Rightarrow> credentials \<Rightarrow> acdb \<Rightarrow> (service_error, int \<times> user_row) result" where
  "current_user ev cr db = bind_ok cr (\<lambda>token. get_current_user (au_decode ev) (au_now ev) token db)"

definition active_user :: "auth_env \<Rightarrow> credentials \<Rightarrow> acdb \<Rightarrow> (service_error, int \<times> user_row) result" where
  "active_user ev cr db = get_current_active_user (current_user ev cr db)"

definition superuser :: "auth_env \<Rightarrow> credentials \<Rightarrow> acdb \<Rightarrow> (service_error, int \<times> user_row) result" where
  "superuser ev cr db = get_current_superuser (current_user ev cr db)"

definition permitted_user :: "string \<Rightarrow> auth_env \<Rightarrow> credentials \<Rightarrow> acdb \<Rightarrow> (service_error, int \<times> user_row) result" where
  "permitted_user permission ev cr db = bind_ok (active_user ev cr db) (\<lambda>cu. RequirePermission permission cu db)"

definition security_user :: "string \<Rightarrow> auth_env \<Rightarrow> credentials \<Rightarrow> acdb \<Rightarrow> (service_error, int \<times> user_row) result" where
  "security_user permission ev cr db = bind_ok (active_user ev cr db) (\<lambda>cu. require_permission permission cu db)"

definition depends ::
  "('s \<Rightarrow> (service_error, int \<times> user_row) result) \<Rightarrow> (int \<times> user_row \<Rightarrow> ('s, 'a) handler) \<Rightarrow> ('s, 'a) handler" where
  "depends dep body s = (case dep s of Inl x \<Rightarrow> (Err x, s) | Inr u \<Rightarrow> body u s)"

section \<open>Errors and membership\<close>

definition internal_error :: service_error where
  "internal_error = HttpError 500 ''Internal Server Error''"

text \<open>
  An endpoint turns the \<open>ValueError\<close> of a service into an HTTP error with a status of its
  own; an \<open>IntegrityError\<close> reaches the handler for all exceptions.
\<close>

fun http_error :: "int \<Rightarrow> service_error \<Rightarrow> service_error" where
  "http_error status (ValueError s) = HttpError status s"
| "http_error status IntegrityError = internal_error"
| "http_error status (HttpError c s) = HttpError c s"

definition answered :: "int \<Rightarrow> ('x \<Rightarrow> 'a) \<Rightarrow> ('s \<Rightarrow> (service_error, 'x) result \<times> 's) \<Rightarrow> ('s, 'a) handler" where
  "answered status f operation s = (case operation s of (Inl x, s') \<Rightarrow> (Err (http_error status x), s') | (Inr y, s') \<Rightarrow> (Ok (f y), s'))"

definition is_member :: "int \<Rightarrow> int \<Rightarrow> acdb \<Rightarrow> bool" where
  "is_member org user_id db = list_ex (\<lambda>(_, o', u). o' = org \<and> u = user_id) (organization_members db)"

definition verify_organization_membership :: "int \<Rightarrow> int \<times> user_row \<Rightarrow> acdb \<Rightarrow> service_error option" where
  "verify_organization_membership org cu db =
     (if u_is_superuser (snd cu) \<or> is_member org (fst cu) db then None
      else Some (HttpError 403 ''You do not have access to this organization.''))"

definition as_member :: "int \<Rightarrow> int \<times> user_row \<Rightarrow> (acdb, 'a) handler \<Rightarrow> (acdb, 'a) handler" where
  "as_member org cu body db =
     (case verify_organization_membership org cu db of Some x \<Rightarrow> (Err x, db) | None \<Rightarrow> body db)"

lemma answered_snd [simp]: "snd (answered status f operation s) = snd (operation s)"
  by (simp add: answered_def split: prod.split sum.split)

lemma answered_fst: "fst (answered status f operation s) =
    (case fst (operation s) of Inl x \<Rightarrow> Err (http_error status x) | Inr y \<Rightarrow> Ok (f y))"
  by (simp add: answered_def split: prod.split sum.split)

lemma as_member_preserves:
  "P db \<Longrightarrow> (u_is_superuser (snd cu) \<or> is_member org (fst cu) db \<Longrightarrow> P (snd (body db))) \<Longrightarrow> P (snd (as_member org cu body db))"
  by (simp add: as_member_def verify_organization_membership_def)

section \<open>The contract of a dependency\<close>

text \<open>
  A dependency that lets a user through has established what the endpoint relies on;
  one that refuses ends the request with its error and without an effect.
\<close>

locale dependency =
  fixes dep :: "'s \<Rightarrow> (service_error, int \<times> user_row) result"
    and established :: "'s \<Rightarrow> int \<times> user_row \<Rightarrow> bool"
  assumes grants: "dep s = Inr u \<Longrightarrow> established s u"
begin

lemma refused: "dep s = Inl x \<Longrightarrow> depends dep body s = (Err x, s)"
  by (simp add: depends_def)

lemma let_through: "dep s = Inr u \<Longrightarrow> depends dep body s = body u s"
  by (simp add: depends_def)

lemma effect_cases:
  "snd (depends dep body s) = s \<or> (\<exists>u. dep s = Inr u \<and> established s u \<and> snd (depends dep body s) = snd (body u s))"
  by (cases "dep s") (auto simp: depends_def grants)

lemma effect_by:
  assumes "snd (depends dep body s) \<noteq> s"
  obtains u where "established s u" and "dep s = Inr u" and "snd (depends dep body s) = snd (body u s)"
  using effect_cases [of body s] assms by blast

lemma preserves:
  assumes "P s" and "\<And>u. dep s = Inr u \<Longrightarrow> established s u \<Longrightarrow> P (snd (body u s))"
  shows "P (snd (depends dep body s))"
  using effect_cases [of body s] assms by auto

text \<open>A dependency that reads a part of the state is one on the whole state.\<close>

lemma on_part: "dependency (\<lambda>t. dep (part t)) (\<lambda>t. established (part t))"
  by unfold_locales (rule grants)

end

definition is_active_user :: "acdb \<Rightarrow> int \<times> user_row \<Rightarrow> bool" where
  "is_active_user db cu \<longleftrightarrow> repo_get (users db) (fst cu) = Some (snd cu) \<and> u_is_active (snd cu)"

definition may :: "string \<Rightarrow> acdb \<Rightarrow> int \<times> user_row \<Rightarrow> bool" where
  "may permission db cu \<longleftrightarrow> is_active_user db cu \<and> (u_is_superuser (snd cu) \<or> holds_permission (fst cu) permission db)"

lemma get_current_user_ok: "get_current_user decode now token db = Inr cu \<Longrightarrow> repo_get (users db) (fst cu) = Some (snd cu)"
  unfolding get_current_user_def
  by (cases "decode_access_token decode now token"; simp; cases "py_int (the (decode_access_token decode now token))"; simp split: option.splits)
    auto

lemma active_user_ok: "active_user ev cr db = Inr cu \<Longrightarrow> is_active_user db cu"
  by (auto simp: active_user_def current_user_def get_current_active_user_def is_active_user_def bind_ok_eq_Inr
      split: if_splits dest: get_current_user_ok)

interpretation active: dependency "active_user ev cr" is_active_user for ev cr
  by unfold_locales (rule active_user_ok)

interpretation super: dependency "superuser ev cr" "\<lambda>db cu. is_active_user db cu \<and> u_is_superuser (snd cu)" for ev cr
proof unfold_locales
  fix db and u :: "int \<times> user_row"
  assume "superuser ev cr db = Inr u"
  then have "active_user ev cr db = Inr u \<and> u_is_superuser (snd u)"
    by (cases u) (auto simp: superuser_def get_current_superuser_def active_user_def bind_ok_eq_Inr split: if_splits)
  then show "is_active_user db u \<and> u_is_superuser (snd u)" using active_user_ok by blast
qed

interpretation permitted: dependency "permitted_user p ev cr" "may p" for p ev cr
  by unfold_locales
    (auto simp: permitted_user_def may_def bind_ok_eq_Inr RequirePermission_def permission_query_empty
      split: if_splits dest: active_user_ok)

interpretation secured: dependency "security_user p ev cr" "may p" for p ev cr
  by unfold_locales
    (auto simp: security_user_def may_def bind_ok_eq_Inr require_permission_def permission_query_empty
      split: if_splits dest: active_user_ok)

lemma unauthenticated:
  assumes "active_user ev cr db = Inl x"
  shows "permitted_user p ev cr db = Inl x" and "security_user p ev cr db = Inl x" and "superuser ev cr db = Inl x"
  using assms by (simp_all add: permitted_user_def security_user_def superuser_def get_current_superuser_def active_user_def)

section \<open>Endpoints of an organization\<close>

text \<open>
  Most endpoints take the organization from the request: they ask for a permission and then
  that the user is a member (\<open>_assert_org\<close>).  \<open>acc\<close> is the part of the state with the accounts.
\<close>

definition assert_org :: "service_error \<Rightarrow> int \<times> user_row \<Rightarrow> int \<Rightarrow> acdb \<Rightarrow> service_error option" where
  "assert_org refusal cu org db = (if u_is_superuser (snd cu) \<or> is_member org (fst cu) db then None else Some refusal)"

definition within :: "('s \<Rightarrow> acdb) \<Rightarrow> service_error \<Rightarrow> string \<Rightarrow> auth_env \<Rightarrow> credentials \<Rightarrow> int
    \<Rightarrow> (int \<times> user_row \<Rightarrow> ('s, 'a) handler) \<Rightarrow> ('s, 'a) handler" where
  "within acc refusal permission ev cr org body =
     depends (\<lambda>s. permitted_user permission ev cr (acc s))
       (\<lambda>cu s. case assert_org refusal cu org (acc s) of Some x \<Rightarrow> (Err x, s) | None \<Rightarrow> body cu s)"

definition valid_payload :: "bool \<Rightarrow> ('s, 'a) handler \<Rightarrow> ('s, 'a) handler" where
  "valid_payload ok body s = (if ok then body s else (Err (HttpError 422 ''Unprocessable Entity''), s))"

definition entitled :: "string \<Rightarrow> int \<Rightarrow> acdb \<Rightarrow> int \<times> user_row \<Rightarrow> bool" where
  "entitled p org db cu \<longleftrightarrow> may p db cu \<and> (u_is_superuser (snd cu) \<or> is_member org (fst cu) db)"

text \<open>Either the request fails without an effect, or its caller is entitled to it.\<close>

definition admitted :: "string \<Rightarrow> auth_env \<Rightarrow> credentials \<Rightarrow> int \<Rightarrow> acdb \<Rightarrow> 's \<Rightarrow> (service_error, 'a) result \<times> 's \<Rightarrow> bool" where
  "admitted p ev cr org db s res \<longleftrightarrow>
     (\<not> is_ok (fst res) \<and> snd res = s) \<or> (\<exists>cu. active_user ev cr db = Inr cu \<and> entitled p org db cu)"

lemma within_admitted: "admitted p ev cr org (acc s) s (within acc refusal p ev cr org body s)"
proof (cases "permitted_user p ev cr (acc s)")
  case (Inr cu)
  then have "may p (acc s) cu" by (rule permitted.grants)
  moreover have "active_user ev cr (acc s) = Inr cu"
    using Inr by (auto simp: permitted_user_def bind_ok_eq_Inr RequirePermission_def split: if_splits)
  ultimately show ?thesis using Inr
    by (auto simp: admitted_def within_def depends_def assert_org_def entitled_def split: if_splits)
qed (simp add: admitted_def within_def depends_def)

lemma within_entitled:
  assumes "permitted_user p ev cr (acc s) = Inr cu" and "u_is_superuser (snd cu) \<or> is_member org (fst cu) (acc s)"
  shows "within acc refusal p ev cr org body s = body cu s"
  using assms by (simp add: within_def depends_def assert_org_def)

text \<open>What holds of refusals and of every answer of the body holds of the endpoint.\<close>

lemma within_preserves:
  "(\<And>x. P (Err x, s)) \<Longrightarrow> (\<And>cu. P (body cu s)) \<Longrightarrow> P (within acc refusal p ev cr org body s)"
  by (simp add: within_def depends_def split: sum.split option.split)

lemma valid_payload_preserves: "(\<And>x. P (Err x, s)) \<Longrightarrow> P (body s) \<Longrightarrow> P (valid_payload ok body s)"
  by (simp add: valid_payload_def)

end
