(* ===== verification/Content_Api.thy ===== *)
theory Content_Api
  imports Knowledge_Invariant Memory Endpoint
begin

text \<open>
  The REST endpoints of the memory engine, the knowledge base and the retrieval
  engine (\<open>api/v1/memory.py\<close>, \<open>api/v1/knowledge.py\<close>, \<open>api/v1/rag.py\<close>).

  An endpoint runs for a user the authentication dependency has found, behind the
  permission dependency of \<open>Authorization\<close> and the membership check, and
  calls the services of \<open>Memory\<close>, \<open>Knowledge\<close> and \<open>Chat\<close>.  Its answer is
  a value or an HTTP error; an exception nobody catches is answered with status 500.
  What the database, the checksum, the decoder and the embedding service do is the
  argument \<open>content_env\<close>.
\<close>

section \<open>State and guards\<close>

record 'v content_db =
  ct_access :: acdb
  ct_knowledge :: "'v kb_db"
  ct_memories :: "memory table"
  ct_conversations :: "conversation table"
  ct_messages :: "message table"

record 'v content_env =
  ev_sha256 :: "string \<Rightarrow> string"
  ev_decode :: "string \<Rightarrow> string"
  ev_keys :: kb_keys
  ev_memory_key :: "memory table \<Rightarrow> int"
  ev_embed :: "string list \<Rightarrow> (string, 'v list) result"
  ev_embed_query :: "string \<Rightarrow> (string, 'v) result"
  ev_distance :: "'v \<Rightarrow> 'v \<Rightarrow> rat"

datatype content_answer =
    Memory_Answer memory
  | Memories_Answer "memory table"
  | Summary_Answer int string
  | Base_Answer int
  | Document_Answer int document
  | Documents_Answer "document table"
  | Rebuilt_Answer nat
  | Status_Answer int nat nat string
  | Search_Answer "(int \<times> rat \<times> string) list"
  | No_Content

type_synonym 'v endpoint = "'v content_db \<Rightarrow> (service_error, content_answer) result \<times> 'v content_db"

definition assert_org_membership :: "int \<times> user_row \<Rightarrow> int \<Rightarrow> acdb \<Rightarrow> service_error option" where
  "assert_org_membership cu org db =
     (if u_is_superuser (snd cu) \<or> is_member org (fst cu) db then None
      else Some (HttpError 403 ''You are not a member of the specified organization.''))"

definition guarded :: "string \<Rightarrow> int \<times> user_row \<Rightarrow> int \<Rightarrow> 'v endpoint \<Rightarrow> 'v endpoint" where
  "guarded permission cu org body db =
     (case RequirePermission permission cu (ct_access db) of
        Inl x \<Rightarrow> (Err x, db)
      | Inr _ \<Rightarrow> (case assert_org_membership cu org (ct_access db) of Some x \<Rightarrow> (Err x, db) | None \<Rightarrow> body db))"

section \<open>Memory endpoints\<close>

fun memory_detail :: "memory_error \<Rightarrow> string" where
  "memory_detail (MemoryNotFoundError s) = s"

definition answer_memory :: "int \<Rightarrow> ('a \<Rightarrow> content_answer) \<Rightarrow> (memory_error, 'a) result \<times> memory table \<Rightarrow> 'v endpoint" where
  "answer_memory status answer run db =
     (case fst run of
        Inl x \<Rightarrow> (Err (HttpError status (memory_detail x)), db)
      | Inr y \<Rightarrow> (Ok (answer y), db\<lparr>ct_memories := snd run\<rparr>))"

text \<open>The rows a new memory and a new base refer to.\<close>

definition memory_rows :: "acdb \<Rightarrow> int \<Rightarrow> int \<Rightarrow> int \<Rightarrow> bool" where
  "memory_rows ac org agent_id user_id \<longleftrightarrow> org \<in> ids (organizations ac) \<and> agent_id \<in> ids (agents ac) \<and> user_id \<in> ids (users ac)"

definition base_rows :: "acdb \<Rightarrow> int \<Rightarrow> int \<Rightarrow> bool" where
  "base_rows ac org user_id \<longleftrightarrow> org \<in> ids (organizations ac) \<and> user_id \<in> ids (users ac)"

definition post_memory ::
  "'v content_env \<Rightarrow> int \<times> user_row \<Rightarrow> int \<Rightarrow> int \<Rightarrow> string \<Rightarrow> string \<Rightarrow> string \<Rightarrow> rat \<Rightarrow> rat \<Rightarrow> 'v endpoint" where
  "post_memory ev cu org agent_id title content memory_type importance confidence =
     guarded ''memory:write'' cu org (\<lambda>db.
       (let i = ev_memory_key ev (ct_memories db) in
        case create_memory (memory_rows (ct_access db)) i org agent_id title content memory_type importance confidence (fst cu) (ct_memories db) of
          Inl _ \<Rightarrow> (Err internal_error, db)
        | Inr t \<Rightarrow> (case repo_get t i of None \<Rightarrow> Err internal_error | Some m \<Rightarrow> Ok (Memory_Answer m), db\<lparr>ct_memories := t\<rparr>)))"

definition get_memories :: "int \<times> user_row \<Rightarrow> int \<Rightarrow> int option \<Rightarrow> string option \<Rightarrow> 'v endpoint" where
  "get_memories cu org agent_id memory_type =
     guarded ''memory:read'' cu org (\<lambda>db. (Ok (Memories_Answer (list_active org agent_id memory_type (ct_memories db))), db))"

definition get_memory_by_id :: "int \<times> user_row \<Rightarrow> int \<Rightarrow> int \<Rightarrow> 'v endpoint" where
  "get_memory_by_id cu org i =
     guarded ''memory:read'' cu org (\<lambda>db. answer_memory 404 Memory_Answer (get_memory org i (ct_memories db), ct_memories db) db)"

definition put_memory ::
  "int \<times> user_row \<Rightarrow> int \<Rightarrow> int \<Rightarrow> string option \<Rightarrow> string option \<Rightarrow> rat option \<Rightarrow> rat option \<Rightarrow> 'v endpoint" where
  "put_memory cu org i title content importance confidence =
     guarded ''memory:write'' cu org
       (\<lambda>db. answer_memory 400 Memory_Answer (update_memory title content importance confidence org i (ct_memories db)) db)"

definition post_archive :: "int \<times> user_row \<Rightarrow> int \<Rightarrow> int \<Rightarrow> 'v endpoint" where
  "post_archive cu org i =
     guarded ''memory:write'' cu org (\<lambda>db. answer_memory 400 Memory_Answer (archive_memory org i (ct_memories db)) db)"

definition delete_memory_by_id :: "int \<times> user_row \<Rightarrow> int \<Rightarrow> int \<Rightarrow> 'v endpoint" where
  "delete_memory_by_id cu org i =
     guarded ''memory:write'' cu org (\<lambda>db. answer_memory 400 (\<lambda>_. No_Content) (delete_memory org i (ct_memories db)) db)"

definition post_summary :: "int \<times> user_row \<Rightarrow> int \<Rightarrow> int \<Rightarrow> 'v endpoint" where
  "post_summary cu org c =
     guarded ''memory:write'' cu org (\<lambda>db.
       (case repo_get (ct_conversations db) c of
          None \<Rightarrow> (Err (HttpError 403 ''Access denied.''), db)
        | Some cv \<Rightarrow>
            if cv_organization_id cv \<noteq> org then (Err (HttpError 403 ''Access denied.''), db)
            else (Ok (Summary_Answer c (rebuild_summary c (ct_messages db))), db)))"

section \<open>Knowledge endpoints\<close>

fun kb_detail :: "kb_error \<Rightarrow> string" where
  "kb_detail (UnsupportedFileTypeError s) = s"
| "kb_detail (FileValidationError s) = s"
| "kb_detail (DuplicateDocumentError s) = s"
| "kb_detail (EmbeddingError s) = s"
| "kb_detail DatabaseError = ''database error''"

definition with_base :: "int \<Rightarrow> int \<Rightarrow> 'v endpoint \<Rightarrow> 'v endpoint" where
  "with_base org kb body db =
     (if get_base_by_org_and_id org kb (ct_knowledge db) = None then (Err (HttpError 404 ''Knowledge base not found.''), db) else body db)"

definition with_document :: "int \<Rightarrow> int \<Rightarrow> string \<Rightarrow> (document \<Rightarrow> 'v endpoint) \<Rightarrow> 'v endpoint" where
  "with_document org i denied body db =
     (case get_active_document i (ct_knowledge db) of
        None \<Rightarrow> (Err (HttpError 404 ''Document not found.''), db)
      | Some d \<Rightarrow>
          if get_base_by_org_and_id org (dc_knowledge_base_id d) (ct_knowledge db) = None then (Err (HttpError 403 denied), db)
          else body d db)"

definition post_base :: "'v content_env \<Rightarrow> int \<times> user_row \<Rightarrow> int \<Rightarrow> string \<Rightarrow> string option \<Rightarrow> string \<Rightarrow> 'v endpoint" where
  "post_base ev cu org name descr visibility =
     guarded ''knowledge:write'' cu org (\<lambda>db.
       (case create_knowledge_base (base_rows (ct_access db)) (ev_keys ev) name descr visibility org (fst cu) (ct_knowledge db) of
          (Inl _, _) \<Rightarrow> (Err internal_error, db)
        | (Inr i, kdb) \<Rightarrow> (Ok (Base_Answer i), db\<lparr>ct_knowledge := kdb\<rparr>)))"

definition upload_document ::
  "'v content_env \<Rightarrow> int \<times> user_row \<Rightarrow> int \<Rightarrow> int \<Rightarrow> string option \<Rightarrow> string option \<Rightarrow> string \<Rightarrow> string \<Rightarrow> 'v endpoint" where
  "upload_document ev cu org kb filename content_type bytes policy =
     guarded ''knowledge:write'' cu org (with_base org kb (\<lambda>db.
       (case ingest_document (ev_sha256 ev) (ev_decode ev) (ev_keys ev) kb (or_str filename ''unknown'')
               (or_str content_type ''text/plain'') bytes (fst cu) policy (ct_knowledge db) of
          (Inl x, kdb) \<Rightarrow> (Err (HttpError 400 (kb_detail x)), db\<lparr>ct_knowledge := kdb\<rparr>)
        | (Inr d, kdb) \<Rightarrow>
            (case repo_get (kd_documents kdb) d of None \<Rightarrow> Err internal_error | Some r \<Rightarrow> Ok (Document_Answer d r), db\<lparr>ct_knowledge := kdb\<rparr>))))"

definition get_documents :: "int \<times> user_row \<Rightarrow> int \<Rightarrow> int \<Rightarrow> 'v endpoint" where
  "get_documents cu org kb =
     guarded ''knowledge:read'' cu org (with_base org kb (\<lambda>db. (Ok (Documents_Answer (list_documents_by_kb kb (ct_knowledge db))), db)))"

definition get_document_by_id :: "int \<times> user_row \<Rightarrow> int \<Rightarrow> int \<Rightarrow> 'v endpoint" where
  "get_document_by_id cu org i =
     guarded ''knowledge:read'' cu org (with_document org i ''Access denied to document.'' (\<lambda>d db. (Ok (Document_Answer i d), db)))"

definition delete_document_by_id :: "int \<times> user_row \<Rightarrow> int \<Rightarrow> int \<Rightarrow> 'v endpoint" where
  "delete_document_by_id cu org i =
     guarded ''knowledge:write'' cu org (with_document org i ''Access denied to document.''
       (\<lambda>_ db. (Ok No_Content, db\<lparr>ct_knowledge := delete_document i (ct_knowledge db)\<rparr>)))"

section \<open>Retrieval endpoints\<close>

definition post_rebuild :: "'v content_env \<Rightarrow> int \<times> user_row \<Rightarrow> int \<Rightarrow> int \<Rightarrow> 'v endpoint" where
  "post_rebuild ev cu org kb =
     guarded ''knowledge:write'' cu org (with_base org kb (\<lambda>db.
       (case rebuild_embeddings (ev_embed ev) kb (ct_knowledge db) of
          (Inl _, kdb) \<Rightarrow> (Err internal_error, db\<lparr>ct_knowledge := kdb\<rparr>)
        | (Inr n, kdb) \<Rightarrow> (Ok (Rebuilt_Answer n), db\<lparr>ct_knowledge := kdb\<rparr>))))"

definition get_embedding_status :: "int \<times> user_row \<Rightarrow> int \<Rightarrow> int \<Rightarrow> 'v endpoint" where
  "get_embedding_status cu org i =
     guarded ''knowledge:read'' cu org (with_document org i ''Access denied.'' (\<lambda>_ db.
       (let cs = list_chunks_by_document i (ct_knowledge db);
            n = length (filter (\<lambda>(_, c). ch_embedding_status c = ''READY'') cs)
        in (Ok (Status_Answer i (length cs) n (if length cs > 0 \<and> n = length cs then ''READY'' else ''PENDING'')), db))))"

definition search_item :: "'v kb_db \<Rightarrow> int \<times> rat \<Rightarrow> (int \<times> rat \<times> string) list" where
  "search_item db cand = (case repo_get (kd_chunks db) (fst cand) of None \<Rightarrow> [] | Some c \<Rightarrow> [(fst cand, snd cand, ch_text c)])"

definition search_knowledge :: "'v content_env \<Rightarrow> int \<times> user_row \<Rightarrow> int \<Rightarrow> int \<Rightarrow> string \<Rightarrow> nat \<Rightarrow> 'v endpoint" where
  "search_knowledge ev cu org kb query top_k =
     guarded ''knowledge:read'' cu org (with_base org kb (\<lambda>db.
       (case ev_embed_query ev query of
          Inl _ \<Rightarrow> (Err internal_error, db)
        | Inr v \<Rightarrow>
            (case search_vectors (ev_distance ev) kb v top_k None (ct_knowledge db) of
               Inl _ \<Rightarrow> (Err internal_error, db)
             | Inr cs \<Rightarrow> (Ok (Search_Answer (concat (map (search_item (ct_knowledge db)) cs))), db)))))"

section \<open>All requests\<close>

datatype content_request =
    Post_Memory int string string string rat rat
  | Get_Memories "int option" "string option"
  | Get_Memory int
  | Put_Memory int "string option" "string option" "rat option" "rat option"
  | Post_Archive int
  | Delete_Memory int
  | Post_Summary int
  | Post_Base string "string option" string
  | Upload_Document int "string option" "string option" string string
  | Get_Documents int
  | Get_Document int
  | Delete_Document int
  | Post_Rebuild int
  | Get_Embedding_Status int
  | Search_Knowledge int string nat

fun serve :: "'v content_env \<Rightarrow> int \<times> user_row \<Rightarrow> int \<Rightarrow> content_request \<Rightarrow> 'v endpoint" where
  "serve ev cu org (Post_Memory a title content ty imp conf) = post_memory ev cu org a title content ty imp conf"
| "serve ev cu org (Get_Memories a ty) = get_memories cu org a ty"
| "serve ev cu org (Get_Memory i) = get_memory_by_id cu org i"
| "serve ev cu org (Put_Memory i title content imp conf) = put_memory cu org i title content imp conf"
| "serve ev cu org (Post_Archive i) = post_archive cu org i"
| "serve ev cu org (Delete_Memory i) = delete_memory_by_id cu org i"
| "serve ev cu org (Post_Summary c) = post_summary cu org c"
| "serve ev cu org (Post_Base name descr vis) = post_base ev cu org name descr vis"
| "serve ev cu org (Upload_Document kb f ct bytes policy) = upload_document ev cu org kb f ct bytes policy"
| "serve ev cu org (Get_Documents kb) = get_documents cu org kb"
| "serve ev cu org (Get_Document i) = get_document_by_id cu org i"
| "serve ev cu org (Delete_Document i) = delete_document_by_id cu org i"
| "serve ev cu org (Post_Rebuild kb) = post_rebuild ev cu org kb"
| "serve ev cu org (Get_Embedding_Status i) = get_embedding_status cu org i"
| "serve ev cu org (Search_Knowledge kb query k) = search_knowledge ev cu org kb query k"

section \<open>Operations confined to one base\<close>

text \<open>
  What an operation on a knowledge base leaves alone: the bases, the documents of other
  bases, the chunks of these documents and the other vector tables.  Both the contract and
  its consequences for the interface are stated for any such operation.
\<close>

definition kb_confined :: "int \<Rightarrow> 'v kb_db \<Rightarrow> 'v kb_db \<Rightarrow> bool" where
  "kb_confined kb db db' \<longleftrightarrow>
     kd_bases db' = kd_bases db \<and>
     (\<forall>i d. repo_get (kd_documents db) i = Some d \<longrightarrow> dc_knowledge_base_id d \<noteq> kb \<longrightarrow> repo_get (kd_documents db') i = Some d) \<and>
     (\<forall>i c d. repo_get (kd_chunks db) i = Some c \<longrightarrow> repo_get (kd_documents db) (ch_document_id c) = Some d \<longrightarrow>
        dc_knowledge_base_id d \<noteq> kb \<longrightarrow> repo_get (kd_chunks db') i = Some c) \<and>
     (\<forall>kb'. kb' \<noteq> kb \<longrightarrow> dict_get (kd_vectors db') kb' = dict_get (kd_vectors db) kb')"

lemma kb_confined_refl [simp]: "kb_confined kb db db"
  by (simp add: kb_confined_def)

lemma kb_confined_trans: "kb_confined kb db db1 \<Longrightarrow> kb_confined kb db1 db2 \<Longrightarrow> kb_confined kb db db2"
  unfolding kb_confined_def by (elim conjE, intro conjI) (simp, blast, blast, simp)

lemma put_document_confined:
  assumes "\<And>d. repo_get (kd_documents db) i = Some d \<Longrightarrow> dc_knowledge_base_id d = kb"
  shows "kb_confined kb db (put_document i f db)"
  using assms by (auto simp: kb_confined_def)

lemma create_document_confined:
  "i \<notin> ids (kd_documents db) \<Longrightarrow> kb_confined kb db (db\<lparr>kd_documents := repo_create i d (kd_documents db)\<rparr>)"
  by (auto simp: kb_confined_def repo_get_create ids_iff)

lemma add_chunk_confined:
  "key_chunk k (kd_chunks db) \<notin> ids (kd_chunks db) \<Longrightarrow> kb_confined kb db (add_chunk k f d ic db)"
  by (auto simp: kb_confined_def add_chunk_def repo_get_create ids_iff)

lemma add_chunks_confined: "kb_fresh k \<Longrightarrow> kb_confined kb db (fold (add_chunk k f d) ics db)"
proof (induction ics arbitrary: db)
  case (Cons ic ics)
  have "kb_confined kb db (add_chunk k f d ic db)" using Cons.prems by (intro add_chunk_confined) (simp add: kb_fresh_def)
  then show ?case using Cons by (auto intro: kb_confined_trans)
qed simp

lemma store_content_confined:
  assumes "kb_fresh k" and doc: "repo_get (kd_documents db) d = Some r" and "dc_knowledge_base_id r = kb"
  shows "kb_confined kb db (store_content k d f s raw db)"
  unfolding store_content_def Let_def
  by (intro kb_confined_trans [OF put_document_confined kb_confined_trans [OF put_document_confined
        kb_confined_trans [OF add_chunks_confined put_document_confined]]]) (auto simp: assms)

lemma delete_document_confined:
  assumes wf: "kb_wf u db" and doc: "\<And>d. get_active_document i db = Some d \<Longrightarrow> dc_knowledge_base_id d = kb"
  shows "kb_confined kb db (delete_document i db)"
proof (cases "get_active_document i db")
  case None
  then show ?thesis by (simp add: delete_document_missing)
next
  case (Some d)
  note get = delete_document_get [OF kb_wfD(2) [OF wf] Some]
  have d: "repo_get (kd_documents db) i = Some d" "dc_knowledge_base_id d = kb"
    using Some doc by (auto simp: get_active_document_eq [OF kb_wfD(1) [OF wf]] split: if_splits bind_splits)
  have "kd_bases (delete_document i db) = kd_bases db" by (simp add: delete_document_active [OF Some])
  then show ?thesis using d by (auto simp: kb_confined_def get drop_chunk_def)
qed

lemma make_room_confined:
  assumes "kb_wf u db"
  shows "kb_confined kb db (make_room policy (get_by_checksum_in_kb cs kb db) db)"
proof (cases "get_by_checksum_in_kb cs kb db")
  case (Some x)
  obtain i d where x: "x = (i, d)" by (cases x)
  have "dc_knowledge_base_id e = kb" if "get_active_document i db = Some e" for e
    using that get_by_checksum_found [OF assms, of cs kb i d] Some
    by (auto simp: x get_active_document_eq [OF kb_wfD(1) [OF assms]] split: if_splits bind_splits)
  then show ?thesis by (simp add: make_room_def Some x delete_document_confined [OF assms])
qed (simp add: make_room_def)

lemma ingest_confined:
  assumes wf: "kb_wf u db" and fresh: "kb_fresh k"
  shows "kb_confined kb db (snd (ingest_document sha256 decode k kb f ct bytes user_id policy db))"
proof -
  define db1 where "db1 = make_room policy (get_by_checksum_in_kb (sha256 bytes) kb db) db"
  define d where "d = key_document k (kd_documents db1)"
  define db2 where "db2 = db1\<lparr>kd_documents := repo_create d (new_document kb f ct (length bytes) (sha256 bytes) user_id) (kd_documents db1)\<rparr>"
  have new: "d \<notin> ids (kd_documents db1)" using fresh by (simp add: d_def kb_fresh_def)
  have "kb_confined kb db db1" unfolding db1_def by (rule make_room_confined [OF wf])
  moreover have "kb_confined kb db1 db2" unfolding db2_def by (rule create_document_confined [OF new])
  moreover have "kb_confined kb db2 (store_content k d f s raw db2)" for s raw
    by (rule store_content_confined [OF fresh]) (simp add: db2_def repo_get_create [OF new] new_document_def)+
  ultimately have "kb_confined kb db (store_content k d f s raw db2)" for s raw by (blast intro: kb_confined_trans)
  moreover have "ingest_start k kb f ct (length bytes) (sha256 bytes) user_id policy db = (d, db2)"
    by (simp add: ingest_start_def Let_def db1_def [symmetric] d_def db2_def)
  ultimately show ?thesis by (simp add: ingest_cases split: option.split)
qed

lemma vectors_confined: "kb_confined kb db (db\<lparr>kd_vectors := dict_set (kd_vectors db) kb t\<rparr>)"
  by (simp add: kb_confined_def dict_get_set)

lemma upserts_confined: "kb_confined kb db (fold (upsert kb) rs db)"
proof (induction rs arbitrary: db)
  case (Cons r rs)
  have "kb_confined kb db (upsert kb r db)" by (simp add: upsert_def Let_def vectors_confined)
  then show ?case using Cons [of "upsert kb r db"] by (auto intro: kb_confined_trans)
qed simp

lemma put_chunks_confined:
  assumes idem: "\<And>c. g (g c) = g c"
    and own: "\<And>j c d. j \<in> ids cs \<Longrightarrow> repo_get (kd_chunks db) j = Some c \<Longrightarrow> repo_get (kd_documents db) (ch_document_id c) = Some d \<Longrightarrow>
      dc_knowledge_base_id d = kb"
  shows "kb_confined kb db (put_chunks g cs db)"
  using own by (auto simp: kb_confined_def put_chunks_get [OF idem])

lemma embed_document_confined:
  assumes wf: "kb_wf u db" and doc: "repo_get (kd_documents db) i = Some d" and run: "embed_document embedder i d db = (r, db')"
  shows "kb_confined (dc_knowledge_base_id d) db db'"
proof -
  let ?kb = "dc_knowledge_base_id d"
  define todo where "todo = repo_where (\<lambda>c. ch_document_id c = i \<and> ch_embedding_status c \<noteq> ''READY'') (kd_chunks db)"
  define db1 where "db1 = create_index ?kb db"
  have db1: "kb_confined ?kb db db1" by (simp add: db1_def create_index_def vectors_confined)
  have own: "ch_document_id c = i" if "j \<in> ids todo" "repo_get (kd_chunks db) j = Some c" for j c
    using that by (auto simp: ids_def todo_def repo_where_set [OF kb_wfD(2) [OF wf]])
  have "kb_confined ?kb db1 (put_chunks (\<lambda>c. c\<lparr>ch_embedding_status := ''READY''\<rparr>) todo db1)"
    by (rule put_chunks_confined) (use own doc in \<open>auto simp: db1_def\<close>)
  then have "kb_confined ?kb db (fold (upsert ?kb) rows (put_chunks (\<lambda>c. c\<lparr>ch_embedding_status := ''READY''\<rparr>) todo db1))" for rows
    using db1 upserts_confined by (blast intro: kb_confined_trans)
  then have "kb_confined ?kb db (snd (embed_document embedder i d db))"
    unfolding embed_document_def Let_def todo_def [symmetric] db1_def [symmetric] put_chunks_def [symmetric]
    using db1 by (simp split: sum.split)
  then show ?thesis by (simp add: run)
qed

lemma rebuild_loop_confined:
  "kb_wf u db \<Longrightarrow> list_all (\<lambda>(i, d). repo_get (kd_documents db) i = Some d \<and> dc_knowledge_base_id d = kb) ds \<Longrightarrow>
   kb_confined kb db (snd (rebuild_loop embedder ds n db))"
proof (induction ds arbitrary: n db)
  case (Cons x ds)
  obtain i d where x: "x = (i, d)" by (cases x)
  obtain r1 db1 where e: "embed_document embedder i d db = (r1, db1)" by fastforce
  have doc: "repo_get (kd_documents db) i = Some d" "dc_knowledge_base_id d = kb" using Cons.prems(2) by (simp_all add: x)
  have db1: "kb_wf u db1" "kd_documents db1 = kd_documents db" using embed_document_wf [OF Cons.prems(1) doc(1) e] by simp_all
  have step: "kb_confined kb db db1" using embed_document_confined [OF Cons.prems(1) doc(1) e] by (simp add: doc(2))
  have "kb_confined kb db1 (snd (rebuild_loop embedder ds (n + 1) db1))"
    using Cons.IH [OF db1(1)] Cons.prems(2) by (simp add: db1(2))
  then show ?case using step by (cases r1) (auto simp: x e intro: kb_confined_trans)
qed simp

lemma rebuild_confined: "kb_wf u db \<Longrightarrow> kb_confined kb db (snd (rebuild_embeddings embedder kb db))"
  unfolding rebuild_embeddings_def
  by (rule rebuild_loop_confined) (auto simp: list_all_iff list_documents_by_kb_def repo_where_set dest: kb_wfD(1))

section \<open>Tenant isolation\<close>

definition content_wf :: "'v content_db \<Rightarrow> bool" where
  "content_wf db \<longleftrightarrow> kb_wf False (ct_knowledge db) \<and> table_wf (kd_bases (ct_knowledge db)) \<and> table_wf (ct_memories db)"

definition env_fresh :: "'v content_env \<Rightarrow> bool" where
  "env_fresh ev \<longleftrightarrow> kb_fresh (ev_keys ev) \<and> (\<forall>t. key_base (ev_keys ev) t \<notin> ids t) \<and> (\<forall>t. ev_memory_key ev t \<notin> ids t)"

text \<open>A base belongs to an organisation if its row says so; deleted bases keep their owner.\<close>

definition owned :: "int \<Rightarrow> 'v kb_db \<Rightarrow> int \<Rightarrow> bool" where
  "owned org db kb = (case repo_get (kd_bases db) kb of None \<Rightarrow> False | Some b \<Rightarrow> kb_organization_id b = org)"

lemma base_owned: "table_wf (kd_bases db) \<Longrightarrow> get_base_by_org_and_id org kb db \<noteq> None \<Longrightarrow> owned org db kb"
proof -
  assume "table_wf (kd_bases db)" and found: "get_base_by_org_and_id org kb db \<noteq> None"
  moreover have "get_base_by_org_and_id org kb db =
      map_option snd (find (\<lambda>(j, b). j = kb \<and> (kb_organization_id b = org \<and> \<not> kb_is_deleted b)) (kd_bases db))"
    unfolding get_base_by_org_and_id_def by (simp only: conj_left_commute)
  ultimately show ?thesis by (cases "repo_get (kd_bases db) kb") (auto simp: owned_def find_key split: if_splits)
qed

text \<open>What a request on behalf of one organisation leaves of the data of all others.\<close>

definition others_kept :: "int \<Rightarrow> 'v content_db \<Rightarrow> 'v content_db \<Rightarrow> bool" where
  "others_kept org db db' \<longleftrightarrow>
     ct_access db' = ct_access db \<and> ct_conversations db' = ct_conversations db \<and> ct_messages db' = ct_messages db \<and>
     (\<forall>i m. repo_get (ct_memories db) i = Some m \<longrightarrow> me_organization_id m \<noteq> org \<longrightarrow> repo_get (ct_memories db') i = Some m) \<and>
     (let k = ct_knowledge db; k' = ct_knowledge db' in
        (\<forall>i b. repo_get (kd_bases k) i = Some b \<longrightarrow> repo_get (kd_bases k') i = Some b) \<and>
        (\<forall>i d. repo_get (kd_documents k) i = Some d \<longrightarrow> \<not> owned org k (dc_knowledge_base_id d) \<longrightarrow> repo_get (kd_documents k') i = Some d) \<and>
        (\<forall>i c d. repo_get (kd_chunks k) i = Some c \<longrightarrow> repo_get (kd_documents k) (ch_document_id c) = Some d \<longrightarrow>
           \<not> owned org k (dc_knowledge_base_id d) \<longrightarrow> repo_get (kd_chunks k') i = Some c) \<and>
        (\<forall>kb. \<not> owned org k kb \<longrightarrow> dict_get (kd_vectors k') kb = dict_get (kd_vectors k) kb))"

lemma others_kept_refl [simp]: "others_kept org db db"
  by (simp add: others_kept_def)

lemma confined_others_kept:
  assumes "owned org (ct_knowledge db) kb" and "kb_confined kb (ct_knowledge db) k'"
  shows "others_kept org db (db\<lparr>ct_knowledge := k'\<rparr>)"
proof -
  have "kb' \<noteq> kb" if "\<not> owned org (ct_knowledge db) kb'" for kb' using that assms(1) by blast
  then show ?thesis using assms(2) unfolding others_kept_def kb_confined_def Let_def by simp
qed

lemma memories_others_kept:
  "(\<And>i m. repo_get (ct_memories db) i = Some m \<Longrightarrow> me_organization_id m \<noteq> org \<Longrightarrow> repo_get t i = Some m) \<Longrightarrow>
   others_kept org db (db\<lparr>ct_memories := t\<rparr>)"
  by (simp add: others_kept_def)

text \<open>An answer that speaks only of the organisation's data.\<close>

fun own_answer :: "int \<Rightarrow> 'v content_db \<Rightarrow> content_answer \<Rightarrow> bool" where
  "own_answer org db (Memory_Answer m) = (me_organization_id m = org)"
| "own_answer org db (Memories_Answer t) = list_all (\<lambda>(_, m). me_organization_id m = org) t"
| "own_answer org db (Summary_Answer c _) =
     (case repo_get (ct_conversations db) c of None \<Rightarrow> False | Some cv \<Rightarrow> cv_organization_id cv = org)"
| "own_answer org db (Base_Answer i) = owned org (ct_knowledge db) i"
| "own_answer org db (Document_Answer _ d) = owned org (ct_knowledge db) (dc_knowledge_base_id d)"
| "own_answer org db (Documents_Answer t) = list_all (\<lambda>(_, d). owned org (ct_knowledge db) (dc_knowledge_base_id d)) t"
| "own_answer org db (Rebuilt_Answer _) = True"
| "own_answer org db (Status_Answer i _ _ _) =
     (case repo_get (kd_documents (ct_knowledge db)) i of None \<Rightarrow> False | Some d \<Rightarrow> owned org (ct_knowledge db) (dc_knowledge_base_id d))"
| "own_answer org db (Search_Answer rs) =
     list_all (\<lambda>(i, _, txt). \<exists>c d. repo_get (kd_chunks (ct_knowledge db)) i = Some c \<and> txt = ch_text c \<and>
       repo_get (kd_documents (ct_knowledge db)) (ch_document_id c) = Some d \<and> owned org (ct_knowledge db) (dc_knowledge_base_id d)) rs"
| "own_answer org db No_Content = True"

definition tenant_safe :: "int \<Rightarrow> 'v content_db \<Rightarrow> (service_error, content_answer) result \<times> 'v content_db \<Rightarrow> bool" where
  "tenant_safe org db run \<longleftrightarrow> others_kept org db (snd run) \<and> (\<forall>a. fst run = Inr a \<longrightarrow> own_answer org (snd run) a)"

lemma tenant_safe_error [simp]: "tenant_safe org db (Inl x, db') \<longleftrightarrow> others_kept org db db'"
  by (simp add: tenant_safe_def)

lemma tenant_safe_ok [simp]: "tenant_safe org db (Inr a, db') \<longleftrightarrow> others_kept org db db' \<and> own_answer org db' a"
  by (simp add: tenant_safe_def)

lemma guarded_safe: "tenant_safe org db (body db) \<Longrightarrow> tenant_safe org db (guarded p cu org body db)"
  by (simp add: guarded_def split: sum.split option.split)

lemma with_base_safe:
  assumes "content_wf db" and "owned org (ct_knowledge db) kb \<Longrightarrow> tenant_safe org db (body db)"
  shows "tenant_safe org db (with_base org kb body db)"
  using assms base_owned [of "ct_knowledge db" org kb] by (simp add: with_base_def content_wf_def)

lemma with_document_safe:
  assumes "content_wf db"
    and "\<And>d. get_active_document i (ct_knowledge db) = Some d \<Longrightarrow> repo_get (kd_documents (ct_knowledge db)) i = Some d \<Longrightarrow>
      owned org (ct_knowledge db) (dc_knowledge_base_id d) \<Longrightarrow> tenant_safe org db (body d db)"
  shows "tenant_safe org db (with_document org i denied body db)"
proof (cases "get_active_document i (ct_knowledge db)")
  case (Some d)
  have "repo_get (kd_documents (ct_knowledge db)) i = Some d"
    using Some assms(1) by (auto simp: content_wf_def get_active_document_eq [OF kb_wfD(1)] split: if_splits bind_splits)
  with Some assms base_owned [of "ct_knowledge db" org "dc_knowledge_base_id d"] show ?thesis by (simp add: with_document_def content_wf_def)
qed (simp add: with_document_def)

lemma edit_safe:
  assumes edit: "memory_edit edit change" and "content_wf db"
    and ans: "\<And>m. me_organization_id m = org \<Longrightarrow> own_answer org (db\<lparr>ct_memories := snd (edit org i (ct_memories db))\<rparr>) (answer m)"
  shows "tenant_safe org db (answer_memory status answer (edit org i (ct_memories db)) db)"
proof (cases "get_memory org i (ct_memories db)")
  case (Inl x)
  then show ?thesis by (simp add: answer_memory_def memory_edit.edit_missing [OF edit])
next
  case (Inr m)
  have wf: "table_wf (ct_memories db)" using assms(2) by (simp add: content_wf_def)
  have "me_organization_id m = org" using Inr by (simp add: get_memory_iff [OF wf])
  then have "own_answer org (db\<lparr>ct_memories := snd (edit org i (ct_memories db))\<rparr>) (answer (change m))"
    by (intro ans) (simp add: memory_edit.change_org [OF edit])
  moreover have "others_kept org db (db\<lparr>ct_memories := snd (edit org i (ct_memories db))\<rparr>)"
    by (rule memories_others_kept) (rule memory_edit.stays_in_organisation [OF edit wf surjective_pairing])
  ultimately show ?thesis by (simp add: answer_memory_def memory_edit.edit_found [OF edit Inr])
qed

lemma memory_endpoints_safe:
  assumes wf: "content_wf db" and fresh: "env_fresh ev"
  shows "tenant_safe org db (post_memory ev cu org a title content ty imp conf db)"
    "tenant_safe org db (get_memories cu org a' ty' db)"
    "tenant_safe org db (get_memory_by_id cu org i db)"
    "tenant_safe org db (put_memory cu org i title' content' imp' conf' db)"
    "tenant_safe org db (post_archive cu org i db)"
    "tenant_safe org db (delete_memory_by_id cu org i db)"
    "tenant_safe org db (post_summary cu org c db)"
proof -
  have t: "table_wf (ct_memories db)" using wf by (simp add: content_wf_def)
  have new: "ev_memory_key ev (ct_memories db) \<notin> ids (ct_memories db)" using fresh by (simp add: env_fresh_def)
  show "tenant_safe org db (post_memory ev cu org a title content ty imp conf db)"
    unfolding post_memory_def Let_def
    by (rule guarded_safe)
      (use new in \<open>auto simp: create_memory_def repo_get_create ids_iff intro!: memories_others_kept\<close>)
  show "tenant_safe org db (get_memories cu org a' ty' db)"
    unfolding get_memories_def by (rule guarded_safe) (auto simp: list_active_def repo_where_def list_all_iff)
  show "tenant_safe org db (get_memory_by_id cu org i db)"
    unfolding get_memory_by_id_def
    by (rule guarded_safe) (auto simp: answer_memory_def get_memory_iff [OF t] split: sum.split)
  show "tenant_safe org db (put_memory cu org i title' content' imp' conf' db)"
    unfolding put_memory_def by (rule guarded_safe, rule edit_safe [OF update_op.memory_edit_axioms wf]) simp
  show "tenant_safe org db (post_archive cu org i db)"
    unfolding post_archive_def by (rule guarded_safe, rule edit_safe [OF archive_op.memory_edit_axioms wf]) simp
  show "tenant_safe org db (delete_memory_by_id cu org i db)"
    unfolding delete_memory_by_id_def by (rule guarded_safe, rule edit_safe [OF delete_op.memory_edit_axioms wf]) simp
  show "tenant_safe org db (post_summary cu org c db)"
    unfolding post_summary_def by (rule guarded_safe) (simp split: option.split)
qed

lemma confined_owned: "kb_confined kb db db' \<Longrightarrow> owned org db' = owned org db"
  by (simp add: fun_eq_iff kb_confined_def owned_def)

lemma ingest_document_base:
  assumes "kb_wf u db" and "kb_fresh k" and "ingest_document sha256 decode k kb f ct bytes user_id policy db = (Inr d, db')"
    and "repo_get (kd_documents db') d = Some r"
  shows "dc_knowledge_base_id r = kb"
proof -
  define db1 where "db1 = make_room policy (get_by_checksum_in_kb (sha256 bytes) kb db) db"
  have "key_document k (kd_documents db1) \<notin> ids (kd_documents db1)" using assms(2) by (simp add: kb_fresh_def)
  then show ?thesis
    using assms(3,4)
    by (auto simp: ingest_cases ingest_start_def Let_def db1_def [symmetric] store_content_document repo_get_create new_document_def
        split: option.splits if_splits)
qed

lemma search_item_own:
  assumes "chunk_of_kb db kb i" and "owned org db kb" and "(j, y, txt) \<in> set (search_item db (i, x))"
  shows "\<exists>c d. repo_get (kd_chunks db) j = Some c \<and> txt = ch_text c \<and>
    repo_get (kd_documents db) (ch_document_id c) = Some d \<and> owned org db (dc_knowledge_base_id d)"
proof -
  obtain c d where c: "repo_get (kd_chunks db) i = Some c" "repo_get (kd_documents db) (ch_document_id c) = Some d" "dc_knowledge_base_id d = kb"
    using assms(1) by (auto simp: chunk_of_kb_def split: option.splits)
  with assms(2,3) show ?thesis by (auto simp: search_item_def)
qed

lemma search_answer_own:
  assumes wf: "kb_wf False (ct_knowledge db)" and own: "owned org (ct_knowledge db) kb"
    and found: "search_vectors distance kb v n flt (ct_knowledge db) = Ok cs"
  shows "own_answer org db (Search_Answer (concat (map (search_item (ct_knowledge db)) cs)))"
proof -
  have "chunk_of_kb (ct_knowledge db) kb i" if "(i, x) \<in> set cs" for i x
    using search_vectors_from_table [OF found that] kb_wfD(4) [OF wf] by blast
  then show ?thesis using search_item_own [OF _ own] by (fastforce simp: list_all_iff)
qed

lemma knowledge_endpoints_safe:
  assumes wf: "content_wf db" and fresh: "env_fresh ev"
  shows "tenant_safe org db (post_base ev cu org name descr vis db)"
    "tenant_safe org db (upload_document ev cu org kb f ct bytes policy db)"
    "tenant_safe org db (get_documents cu org kb db)"
    "tenant_safe org db (get_document_by_id cu org i db)"
    "tenant_safe org db (delete_document_by_id cu org i db)"
proof -
  note w = wf [unfolded content_wf_def]
  have keys: "kb_fresh (ev_keys ev)" and new: "key_base (ev_keys ev) t \<notin> ids t" for t using fresh by (simp_all add: env_fresh_def)
  show "tenant_safe org db (post_base ev cu org name descr vis db)"
    unfolding post_base_def
    by (rule guarded_safe)
      (use new [of "kd_bases (ct_knowledge db)"] in
        \<open>auto simp: create_knowledge_base_def Let_def others_kept_def owned_def repo_get_create ids_iff\<close>)
  show "tenant_safe org db (upload_document ev cu org kb f ct bytes policy db)"
    unfolding upload_document_def
  proof (rule guarded_safe, rule with_base_safe [OF wf])
    assume own: "owned org (ct_knowledge db) kb"
    obtain r k' where run: "ingest_document (ev_sha256 ev) (ev_decode ev) (ev_keys ev) kb (or_str f ''unknown'')
        (or_str ct ''text/plain'') bytes (fst cu) policy (ct_knowledge db) = (r, k')" by fastforce
    have conf: "kb_confined kb (ct_knowledge db) k'"
      using ingest_confined [of False "ct_knowledge db" "ev_keys ev" kb] w keys run by (metis snd_conv)
    note kept = confined_others_kept [OF own conf]
    have "own_answer org (db\<lparr>ct_knowledge := k'\<rparr>) (Document_Answer d row)" if "r = Inr d" "repo_get (kd_documents k') d = Some row" for d row
      using ingest_document_base [of False "ct_knowledge db" "ev_keys ev"] w keys run that own confined_owned [OF conf, of org] by fastforce
    then show "tenant_safe org db (case ingest_document (ev_sha256 ev) (ev_decode ev) (ev_keys ev) kb (or_str f ''unknown'')
        (or_str ct ''text/plain'') bytes (fst cu) policy (ct_knowledge db) of
          (Inl x, kdb) \<Rightarrow> (Err (HttpError 400 (kb_detail x)), db\<lparr>ct_knowledge := kdb\<rparr>)
        | (Inr d, kdb) \<Rightarrow>
            (case repo_get (kd_documents kdb) d of None \<Rightarrow> Err internal_error | Some r \<Rightarrow> Ok (Document_Answer d r), db\<lparr>ct_knowledge := kdb\<rparr>))"
      unfolding run using kept by (simp split: sum.split option.split)
  qed
  show "tenant_safe org db (get_documents cu org kb db)"
    unfolding get_documents_def
    by (rule guarded_safe, rule with_base_safe [OF wf]) (auto simp: list_documents_by_kb_def repo_where_def list_all_iff)
  show "tenant_safe org db (get_document_by_id cu org i db)"
    unfolding get_document_by_id_def by (rule guarded_safe, rule with_document_safe [OF wf]) simp
  show "tenant_safe org db (delete_document_by_id cu org i db)"
    unfolding delete_document_by_id_def
    by (rule guarded_safe, rule with_document_safe [OF wf])
      (use w in \<open>auto intro!: confined_others_kept delete_document_confined\<close>)
qed

lemma retrieval_endpoints_safe:
  assumes wf: "content_wf db"
  shows "tenant_safe org db (post_rebuild ev cu org kb db)"
    "tenant_safe org db (get_embedding_status cu org i db)"
    "tenant_safe org db (search_knowledge ev cu org kb query n db)"
proof -
  note w = wf [unfolded content_wf_def]
  show "tenant_safe org db (post_rebuild ev cu org kb db)"
    unfolding post_rebuild_def
  proof (rule guarded_safe, rule with_base_safe [OF wf])
    assume own: "owned org (ct_knowledge db) kb"
    obtain r k' where run: "rebuild_embeddings (ev_embed ev) kb (ct_knowledge db) = (r, k')" by fastforce
    then have "kb_confined kb (ct_knowledge db) k'" using rebuild_confined [of False "ct_knowledge db" kb "ev_embed ev"] w by simp
    from confined_others_kept [OF own this]
    show "tenant_safe org db (case rebuild_embeddings (ev_embed ev) kb (ct_knowledge db) of
          (Inl _, kdb) \<Rightarrow> (Err internal_error, db\<lparr>ct_knowledge := kdb\<rparr>)
        | (Inr n, kdb) \<Rightarrow> (Ok (Rebuilt_Answer n), db\<lparr>ct_knowledge := kdb\<rparr>))"
      unfolding run by (simp split: sum.split)
  qed
  show "tenant_safe org db (get_embedding_status cu org i db)"
    unfolding get_embedding_status_def Let_def by (rule guarded_safe, rule with_document_safe [OF wf]) simp
  show "tenant_safe org db (search_knowledge ev cu org kb query n db)"
    unfolding search_knowledge_def
    by (rule guarded_safe, rule with_base_safe [OF wf])
      (use search_answer_own w in \<open>auto simp del: own_answer.simps split: sum.split\<close>)
qed

lemma serve_safe: "content_wf db \<Longrightarrow> env_fresh ev \<Longrightarrow> tenant_safe org db (serve ev cu org req db)"
  by (cases req) (simp_all only: serve.simps memory_endpoints_safe knowledge_endpoints_safe retrieval_endpoints_safe)

text \<open>Who may send a request: the permission each endpoint requires, and membership.\<close>

fun required :: "content_request \<Rightarrow> string" where
  "required (Get_Memories _ _) = ''memory:read''"
| "required (Get_Memory _) = ''memory:read''"
| "required (Post_Memory _ _ _ _ _ _) = ''memory:write''"
| "required (Put_Memory _ _ _ _ _) = ''memory:write''"
| "required (Post_Archive _) = ''memory:write''"
| "required (Delete_Memory _) = ''memory:write''"
| "required (Post_Summary _) = ''memory:write''"
| "required (Post_Base _ _ _) = ''knowledge:write''"
| "required (Upload_Document _ _ _ _ _) = ''knowledge:write''"
| "required (Delete_Document _) = ''knowledge:write''"
| "required (Post_Rebuild _) = ''knowledge:write''"
| "required (Get_Documents _) = ''knowledge:read''"
| "required (Get_Document _) = ''knowledge:read''"
| "required (Get_Embedding_Status _) = ''knowledge:read''"
| "required (Search_Knowledge _ _ _) = ''knowledge:read''"

definition may_send :: "int \<times> user_row \<Rightarrow> int \<Rightarrow> content_request \<Rightarrow> acdb \<Rightarrow> bool" where
  "may_send cu org req db \<longleftrightarrow>
     u_is_superuser (snd cu) \<or> holds_permission (fst cu) (required req) db \<and> is_member org (fst cu) db"

definition denied :: "(service_error, content_answer) result \<times> 'v content_db \<Rightarrow> 'v content_db \<Rightarrow> bool" where
  "denied run db \<longleftrightarrow> (\<exists>detail. run = (Err (HttpError 403 detail), db))"

lemma guarded_denied:
  assumes "\<not> (u_is_superuser (snd cu) \<or> holds_permission (fst cu) p (ct_access db) \<and> is_member org (fst cu) (ct_access db))"
  shows "denied (guarded p cu org body db) db"
  using assms
  by (auto simp: denied_def guarded_def RequirePermission_def permission_query_empty assert_org_membership_def)

lemma serve_denied: "\<not> may_send cu org req (ct_access db) \<Longrightarrow> denied (serve ev cu org req db) db"
  by (cases req) (simp_all add: may_send_def post_memory_def get_memories_def get_memory_by_id_def put_memory_def post_archive_def
      delete_memory_by_id_def post_summary_def post_base_def upload_document_def get_documents_def get_document_by_id_def
      delete_document_by_id_def post_rebuild_def get_embedding_status_def search_knowledge_def guarded_denied del: de_Morgan_disj de_Morgan_conj)

section \<open>The invariant of the interface\<close>

lemma guarded_wf: "content_wf db \<Longrightarrow> content_wf (snd (body db)) \<Longrightarrow> content_wf (snd (guarded p cu org body db))"
  by (simp add: guarded_def split: sum.split option.split)

lemma with_base_wf: "content_wf db \<Longrightarrow> content_wf (snd (body db)) \<Longrightarrow> content_wf (snd (with_base org kb body db))"
  by (simp add: with_base_def)

lemma with_document_wf: "content_wf db \<Longrightarrow> (\<And>d. content_wf (snd (body d db))) \<Longrightarrow> content_wf (snd (with_document org i msg body db))"
  by (simp add: with_document_def split: option.split)

lemma knowledge_wf:
  "content_wf db \<Longrightarrow> kb_wf False k' \<Longrightarrow> table_wf (kd_bases k') \<Longrightarrow> content_wf (db\<lparr>ct_knowledge := k'\<rparr>)"
  by (simp add: content_wf_def)

lemma confined_wf: "content_wf db \<Longrightarrow> kb_wf False k' \<Longrightarrow> kb_confined kb (ct_knowledge db) k' \<Longrightarrow> content_wf (db\<lparr>ct_knowledge := k'\<rparr>)"
  by (simp add: content_wf_def kb_confined_def)

lemma edit_wf: "memory_edit edit change \<Longrightarrow> content_wf db \<Longrightarrow> content_wf (snd (answer_memory st answer (edit org i (ct_memories db)) db))"
  using memory_edit.keeps_table [of edit change org i "ct_memories db"]
  by (auto simp: answer_memory_def content_wf_def prod_eq_iff split: sum.split)

lemma upload_wf:
  assumes "content_wf db" and "env_fresh ev"
  shows "content_wf (snd (upload_document ev cu org kb f ct bytes policy db))"
  unfolding upload_document_def
proof (rule guarded_wf [OF assms(1)], rule with_base_wf [OF assms(1)])
  let ?run = "ingest_document (ev_sha256 ev) (ev_decode ev) (ev_keys ev) kb (or_str f ''unknown'')
        (or_str ct ''text/plain'') bytes (fst cu) policy (ct_knowledge db)"
  have w: "kb_wf False (ct_knowledge db)" "kb_fresh (ev_keys ev)" using assms(1,2) by (simp_all add: content_wf_def env_fresh_def)
  have "content_wf (db\<lparr>ct_knowledge := snd ?run\<rparr>)"
    by (rule confined_wf [OF assms(1) ingest_wf [OF w] ingest_confined [OF w]]) simp
  then show "content_wf (snd (case ?run of
          (Inl x, kdb) \<Rightarrow> (Err (HttpError 400 (kb_detail x)), db\<lparr>ct_knowledge := kdb\<rparr>)
        | (Inr d, kdb) \<Rightarrow>
            (case repo_get (kd_documents kdb) d of None \<Rightarrow> Err internal_error | Some r \<Rightarrow> Ok (Document_Answer d r), db\<lparr>ct_knowledge := kdb\<rparr>)))"
    by (cases ?run) (simp split: sum.split)
qed

lemma rebuild_endpoint_wf:
  assumes "content_wf db"
  shows "content_wf (snd (post_rebuild ev cu org kb db))"
  unfolding post_rebuild_def
proof (rule guarded_wf [OF assms], rule with_base_wf [OF assms])
  have w: "kb_wf False (ct_knowledge db)" using assms by (simp add: content_wf_def)
  have "content_wf (db\<lparr>ct_knowledge := snd (rebuild_embeddings (ev_embed ev) kb (ct_knowledge db))\<rparr>)"
    by (rule confined_wf [OF assms rebuild_wf [OF w surjective_pairing] rebuild_confined [OF w]])
  then show "content_wf (snd (case rebuild_embeddings (ev_embed ev) kb (ct_knowledge db) of
          (Inl _, kdb) \<Rightarrow> (Err internal_error, db\<lparr>ct_knowledge := kdb\<rparr>)
        | (Inr n, kdb) \<Rightarrow> (Ok (Rebuilt_Answer n), db\<lparr>ct_knowledge := kdb\<rparr>)))"
    by (cases "rebuild_embeddings (ev_embed ev) kb (ct_knowledge db)") (simp split: sum.split)
qed

lemma post_base_wf:
  assumes "content_wf db" and "env_fresh ev"
  shows "content_wf (snd (post_base ev cu org name descr vis db))"
  unfolding post_base_def
proof (rule guarded_wf [OF assms(1)])
  have "kb_wf False (snd (create_knowledge_base (base_rows (ct_access db)) (ev_keys ev) name descr vis org (fst cu) (ct_knowledge db)))"
    using assms(1) by (intro create_base_wf) (simp add: content_wf_def)
  then show "content_wf (snd (case create_knowledge_base (base_rows (ct_access db)) (ev_keys ev) name descr vis org (fst cu) (ct_knowledge db) of
          (Inl _, _) \<Rightarrow> (Err internal_error, db)
        | (Inr i, kdb) \<Rightarrow> (Ok (Base_Answer i), db\<lparr>ct_knowledge := kdb\<rparr>)))"
    using assms by (auto simp: create_knowledge_base_def Let_def content_wf_def env_fresh_def)
qed

lemma serve_wf:
  assumes "content_wf db" and "env_fresh ev"
  shows "content_wf (snd (serve ev cu org req db))"
proof (cases req)
  case (Post_Memory a title content ty imp conf)
  then show ?thesis
    unfolding Post_Memory serve.simps post_memory_def Let_def
    by (intro guarded_wf assms(1)) (use assms in \<open>auto simp: create_memory_def content_wf_def env_fresh_def\<close>)
next
  case (Put_Memory i title content imp conf)
  then show ?thesis using assms(1) by (simp add: put_memory_def guarded_wf edit_wf [OF update_op.memory_edit_axioms])
next
  case (Post_Archive i)
  then show ?thesis using assms(1) by (simp add: post_archive_def guarded_wf edit_wf [OF archive_op.memory_edit_axioms])
next
  case (Delete_Memory i)
  then show ?thesis using assms(1) by (simp add: delete_memory_by_id_def guarded_wf edit_wf [OF delete_op.memory_edit_axioms])
next
  case (Delete_Document i)
  have "kd_bases (delete_document i k) = kd_bases k" for k :: "'a kb_db"
    by (cases "get_active_document i k") (simp_all add: delete_document_missing delete_document_active)
  then show ?thesis
    using assms(1) unfolding Delete_Document serve.simps delete_document_by_id_def
    by (intro guarded_wf with_document_wf) (auto simp: content_wf_def delete_document_wf)
qed (use assms in \<open>auto simp: get_memories_def get_memory_by_id_def answer_memory_def post_summary_def post_base_wf upload_wf get_documents_def
      get_document_by_id_def rebuild_endpoint_wf get_embedding_status_def search_knowledge_def Let_def
      intro!: guarded_wf with_base_wf with_document_wf split: sum.split option.split\<close>)

inductive content_step :: "'v content_env \<Rightarrow> 'v content_db \<Rightarrow> 'v content_db \<Rightarrow> bool" for ev where
  request: "content_step ev db (snd (serve ev cu org req db))"

definition content_start :: "acdb \<Rightarrow> conversation table \<Rightarrow> message table \<Rightarrow> 'v content_db" where
  "content_start ac cvs msgs = \<lparr>ct_access = ac, ct_knowledge = kb_empty, ct_memories = [], ct_conversations = cvs, ct_messages = msgs\<rparr>"

lemma content_start_wf: "content_wf (content_start ac cvs msgs)"
  by (simp add: content_wf_def content_start_def kb_empty_wf) (simp add: kb_empty_def table_wf_def)

lemma content_reachable_wf:
  assumes "env_fresh ev" and "(content_step ev)\<^sup>*\<^sup>* (content_start ac cvs msgs) db"
  shows "content_wf db"
  using assms(2)
proof (induction rule: rtranclp_induct)
  case base
  show ?case by (rule content_start_wf)
next
  case (step db db')
  then show ?case using serve_wf [OF _ assms(1)] by (auto elim: content_step.cases)
qed

text \<open>
  C2: Tenant isolation of the memory, knowledge and retrieval interface.  In every state that
  requests lead to from empty tables, any request made for an organisation, by anybody and
  whatever its outcome, leaves the memories, bases, documents, chunks and vectors of all other
  organisations as they were, and a successful answer contains only memories, documents and
  chunk texts of that organisation.  A user who is not a superuser and lacks the permission of
  the endpoint or is not a member of the organisation gets status 403, and nothing changes.
\<close>

theorem tenant_isolation:
  assumes "env_fresh ev" and "(content_step ev)\<^sup>*\<^sup>* (content_start ac cvs msgs) db" and "serve ev cu org req db = (r, db')"
  shows "others_kept org db db' \<and> (\<forall>a. r = Ok a \<longrightarrow> own_answer org db' a) \<and>
    (may_send cu org req (ct_access db) \<or> (\<exists>detail. r = Err (HttpError 403 detail)) \<and> db' = db)"
proof -
  have "tenant_safe org db (r, db')"
    using serve_safe [OF content_reachable_wf [OF assms(1,2)] assms(1), of org cu req] by (simp only: assms(3))
  moreover have "denied (r, db') db" if "\<not> may_send cu org req (ct_access db)"
    using serve_denied [OF that, of ev] by (simp only: assms(3))
  ultimately show ?thesis by (auto simp: tenant_safe_def denied_def)
qed

text \<open>A first request: a superuser stores a memory for organisation 1.\<close>

definition sample_env :: "unit content_env" where
  "sample_env = \<lparr>ev_sha256 = (\<lambda>s. s), ev_decode = (\<lambda>s. s), ev_keys = serial_kb_keys, ev_memory_key = serial_id,
     ev_embed = note_embed, ev_embed_query = (\<lambda>_. Ok ()), ev_distance = (\<lambda>_ _. 0)\<rparr>"

definition sample_user :: "bool \<Rightarrow> int \<times> user_row" where
  "sample_user super = (5, \<lparr>u_full_name = ''A'', u_email = ''a@b'', u_password_hash = [], u_is_active = True, u_is_superuser = super\<rparr>)"

definition sample_access :: acdb where
  "sample_access = \<lparr>users = [sample_user True], roles = [], permissions = [], user_roles = [], role_permissions = [],
     organizations = [(1, \<lparr>o_name = ''A'', o_slug = ''a'', o_description = None, o_is_active = True\<rparr>)],
     organization_members = [], teams = [], team_members = [], tools = [], agents = [(7, \<lparr>a_organization_id = 1, a_team_id = None, a_name = ''B''\<rparr>)], agent_tools = []\<rparr>"

definition sample_content :: "unit content_db" where
  "sample_content = snd (serve sample_env (sample_user True) 1 (Post_Memory 7 ''t'' ''c'' ''semantic'' 1 1) (content_start sample_access [] []))"

lemma sample_env_fresh: "env_fresh sample_env"
  using serial_kb_keys_fresh by (simp add: env_fresh_def sample_env_def serial_id_fresh) (simp add: serial_kb_keys_def serial_id_fresh)

lemma sample_reachable: "(content_step sample_env)\<^sup>*\<^sup>* (content_start sample_access [] []) sample_content"
  unfolding sample_content_def by (rule r_into_rtranclp, rule content_step.request)

lemma sample_rows: "memory_rows sample_access 1 7 5"
  by (simp add: memory_rows_def sample_access_def sample_user_def ids_def)

lemma sample_memory: "\<exists>m. repo_get (ct_memories sample_content) 1 = Some m \<and> me_organization_id m = 1"
  using sample_rows
  by (simp add: sample_content_def post_memory_def guarded_def RequirePermission_def sample_user_def assert_org_membership_def Let_def
      sample_env_def content_start_def serial_id_def create_memory_def repo_create_def repo_get_def)

theorem tenant_isolation_witness:
  "\<exists>m. repo_get (ct_memories (snd (serve sample_env (sample_user True) 2 (Delete_Memory 1) sample_content))) 1 = Some m \<and>
     me_organization_id m = 1 \<and> \<not> is_ok (fst (serve sample_env (sample_user False) 1 (Get_Memory 1) sample_content))"
proof -
  obtain m where m: "repo_get (ct_memories sample_content) 1 = Some m" "me_organization_id m = 1" using sample_memory by blast
  obtain r db' where del: "serve sample_env (sample_user True) 2 (Delete_Memory 1) sample_content = (r, db')" by fastforce
  have "others_kept 2 sample_content db'" using tenant_isolation [OF sample_env_fresh sample_reachable del] by blast
  then have "repo_get (ct_memories db') 1 = Some m" using m by (simp add: others_kept_def)
  moreover obtain r2 db2 where get: "serve sample_env (sample_user False) 1 (Get_Memory 1) sample_content = (r2, db2)" by fastforce
  have "ct_access sample_content = sample_access"
    using serve_safe [OF content_start_wf sample_env_fresh, of 1 sample_access "[]" "[]" "sample_user True" "Post_Memory 7 ''t'' ''c'' ''semantic'' 1 1"]
    by (simp add: sample_content_def tenant_safe_def others_kept_def content_start_def del: serve.simps)
  then have "\<not> may_send (sample_user False) 1 (Get_Memory 1) (ct_access sample_content)"
    by (simp add: may_send_def sample_user_def is_member_def sample_access_def)
  with tenant_isolation [OF sample_env_fresh sample_reachable get] have "\<not> is_ok r2" by auto
  ultimately show ?thesis unfolding del get using m(2) by simp
qed

end
