(* ===== verification/Regex.thy ===== *)
theory Regex
  imports Prelude
begin

text \<open>
  The part of Python's \<open>re\<close> module that the security utilities use: character
  classes, sequences, alternatives, repetition (greedy or lazy) and word boundaries, with
  \<open>search\<close>, \<open>finditer\<close> and \<open>sub\<close>.

  \<open>rx_ends\<close> gives the ends of the matches at a position in the order a
  backtracking matcher tries them, so that the first one is the match Python
  reports; \<open>rx_lang\<close> is the meaning of an expression as a set of spans.  The
  two agree for expressions whose repeated parts consume something, which all
  patterns of the program are.  Texts are ASCII.
\<close>

section \<open>Expressions and the matcher\<close>

datatype rx =
    RxEps
  | RxChar "char \<Rightarrow> bool"
  | RxBound
  | RxSeq rx rx
  | RxAlt rx rx
  | RxRep bool nat "nat option" rx

definition word_char :: "char \<Rightarrow> bool" where
  "word_char c = (let n = (of_char c :: nat) in (48 \<le> n \<and> n \<le> 57) \<or> (65 \<le> n \<and> n \<le> 90) \<or> (97 \<le> n \<and> n \<le> 122) \<or> n = 95)"

definition word_at :: "string \<Rightarrow> nat \<Rightarrow> bool" where
  "word_at s i = (i < length s \<and> word_char (s ! i))"

definition at_boundary :: "string \<Rightarrow> nat \<Rightarrow> bool" where
  "at_boundary s i = ((0 < i \<and> word_at s (i - 1)) \<noteq> word_at s i)"

fun rep_ends :: "bool \<Rightarrow> (nat \<Rightarrow> nat list) \<Rightarrow> nat \<Rightarrow> nat \<Rightarrow> nat \<Rightarrow> nat list" where
  "rep_ends g f 0 lo i = (if lo = 0 then [i] else [])"
| "rep_ends g f (Suc n) lo i =
     (let further = concat (map (rep_ends g f n (lo - 1)) (filter (\<lambda>j. i < j) (f i)));
          stop = (if lo = 0 then [i] else [])
      in if g then further @ stop else stop @ further)"

fun rx_ends :: "string \<Rightarrow> rx \<Rightarrow> nat \<Rightarrow> nat list" where
  "rx_ends s RxEps i = [i]"
| "rx_ends s (RxChar P) i = (if i < length s \<and> P (s ! i) then [Suc i] else [])"
| "rx_ends s RxBound i = (if at_boundary s i then [i] else [])"
| "rx_ends s (RxSeq a b) i = concat (map (rx_ends s b) (rx_ends s a i))"
| "rx_ends s (RxAlt a b) i = rx_ends s a i @ rx_ends s b i"
| "rx_ends s (RxRep g lo hi a) i = rep_ends g (rx_ends s a) (case hi of Some h \<Rightarrow> h | None \<Rightarrow> length s - i) lo i"

definition rx_search :: "rx \<Rightarrow> string \<Rightarrow> bool" where
  "rx_search r s = list_ex (\<lambda>i. rx_ends s r i \<noteq> []) [0..<Suc (length s)]"

function rx_finditer :: "rx \<Rightarrow> string \<Rightarrow> nat \<Rightarrow> (nat \<times> nat) list" where
  "rx_finditer r s i =
     (if length s < i then []
      else case rx_ends s r i of
             [] \<Rightarrow> rx_finditer r s (Suc i)
           | j # _ \<Rightarrow> (i, j) # rx_finditer r s (if i < j then j else Suc i))"
  by pat_completeness auto
termination by (relation "measure (\<lambda>(r, s, i). Suc (length s) - i)") auto

declare rx_finditer.simps [simp del]

definition slice :: "nat \<Rightarrow> nat \<Rightarrow> string \<Rightarrow> string" where
  "slice a b s = take (b - a) (drop a s)"

fun splice_spans :: "(string \<Rightarrow> string) \<Rightarrow> string \<Rightarrow> nat \<Rightarrow> (nat \<times> nat) list \<Rightarrow> string" where
  "splice_spans f s i [] = drop i s"
| "splice_spans f s i ((a, b) # spans) = slice i a s @ f (slice a b s) @ splice_spans f s b spans"

definition rx_sub :: "rx \<Rightarrow> (string \<Rightarrow> string) \<Rightarrow> string \<Rightarrow> string" where
  "rx_sub r f s = splice_spans f s 0 (rx_finditer r s 0)"

section \<open>Meaning\<close>

fun rx_lang :: "string \<Rightarrow> rx \<Rightarrow> (nat \<times> nat) set" where
  "rx_lang s RxEps = {(i, i) | i. i \<le> length s}"
| "rx_lang s (RxChar P) = {(i, Suc i) | i. i < length s \<and> P (s ! i)}"
| "rx_lang s RxBound = {(i, i) | i. i \<le> length s \<and> at_boundary s i}"
| "rx_lang s (RxSeq a b) = rx_lang s a O rx_lang s b"
| "rx_lang s (RxAlt a b) = rx_lang s a \<union> rx_lang s b"
| "rx_lang s (RxRep g lo hi a) =
     {(i, j). i \<le> length s \<and> (\<exists>n. lo \<le> n \<and> (case hi of None \<Rightarrow> True | Some h \<Rightarrow> n \<le> h) \<and> (i, j) \<in> rx_lang s a ^^ n)}"

fun min_len :: "rx \<Rightarrow> nat" where
  "min_len RxEps = 0"
| "min_len (RxChar P) = 1"
| "min_len RxBound = 0"
| "min_len (RxSeq a b) = min_len a + min_len b"
| "min_len (RxAlt a b) = min (min_len a) (min_len b)"
| "min_len (RxRep g lo hi a) = lo * min_len a"

fun proper :: "rx \<Rightarrow> bool" where
  "proper (RxSeq a b) = (proper a \<and> proper b)"
| "proper (RxAlt a b) = (proper a \<and> proper b)"
| "proper (RxRep g lo hi a) = (0 < min_len a \<and> proper a)"
| "proper _ = True"

lemma relpow_grows:
  assumes "\<And>a b. (a, b) \<in> R \<Longrightarrow> a + k \<le> (b :: nat) \<and> b \<le> m"
  shows "(i, j) \<in> R ^^ n \<Longrightarrow> i + n * k \<le> j \<and> (i \<le> m \<longrightarrow> j \<le> m)"
proof (induction n arbitrary: j)
  case (Suc n)
  then obtain l where "(i, l) \<in> R ^^ n" "(l, j) \<in> R" by auto
  with Suc.IH [of l] assms show ?case by fastforce
qed simp

lemma rx_lang_grows: "(i, j) \<in> rx_lang s r \<Longrightarrow> i + min_len r \<le> j \<and> j \<le> length s"
proof (induction r arbitrary: i j)
  case (RxSeq a b)
  then show ?case by fastforce
next
  case (RxAlt a b)
  from RxAlt.prems have "(i, j) \<in> rx_lang s a \<or> (i, j) \<in> rx_lang s b" by simp
  then show ?case using RxAlt.IH [of i j] by (auto simp: min_def)
next
  case (RxRep g lo hi a)
  then obtain n where n: "lo \<le> n" "(i, j) \<in> rx_lang s a ^^ n" "i \<le> length s" by auto
  have "i + n * min_len a \<le> j \<and> (i \<le> length s \<longrightarrow> j \<le> length s)"
    by (rule relpow_grows [OF _ n(2)]) (use RxRep.IH in auto)
  moreover have "lo * min_len a \<le> n * min_len a" by (rule mult_le_mono1 [OF n(1)])
  ultimately show ?case using n(3) unfolding min_len.simps by linarith
qed auto

lemma rep_ends_relpow:
  assumes "R = {(a, b). b \<in> set (f a) \<and> a < b}"
  shows "j \<in> set (rep_ends g f n lo i) \<longleftrightarrow> (\<exists>m. lo \<le> m \<and> m \<le> n \<and> (i, j) \<in> R ^^ m)"
proof (induction n arbitrary: lo i)
  case (Suc n)
  have step: "(i, j) \<in> R ^^ Suc m \<longleftrightarrow> (\<exists>k. (i, k) \<in> R \<and> (k, j) \<in> R ^^ m)" for m
    by (metis relpow_Suc_D2 relpow_Suc_I2)
  have "(\<exists>m. lo \<le> m \<and> m \<le> Suc n \<and> (i, j) \<in> R ^^ m) \<longleftrightarrow>
      (lo = 0 \<and> i = j) \<or> (\<exists>m. lo \<le> Suc m \<and> m \<le> n \<and> (i, j) \<in> R ^^ Suc m)"
    (is "?L \<longleftrightarrow> ?R")
  proof
    assume ?L
    then obtain m where "lo \<le> m" "m \<le> Suc n" "(i, j) \<in> R ^^ m" by blast
    then show ?R by (cases m) auto
  next
    assume ?R
    then show ?L by (metis Suc_le_mono le0 pair_in_Id_conv relpow.simps(1))
  qed
  also have "(\<exists>m. lo \<le> Suc m \<and> m \<le> n \<and> (i, j) \<in> R ^^ Suc m) \<longleftrightarrow> (\<exists>k. (i, k) \<in> R \<and> (\<exists>m. lo - 1 \<le> m \<and> m \<le> n \<and> (k, j) \<in> R ^^ m))"
    unfolding step le_diff_conv by auto
  also have "\<dots> \<longleftrightarrow> (\<exists>k. (i, k) \<in> R \<and> j \<in> set (rep_ends g f n (lo - 1) k))"
    unfolding Suc.IH by (rule refl)
  finally show ?case by (auto simp: assms Let_def)
qed auto

text \<open>The matcher computes the meaning.\<close>

lemma relpow_bounded:
  assumes "(i, j) \<in> rx_lang s a ^^ m" and "0 < min_len a" and "i \<le> length s"
  shows "m \<le> length s - i"
proof -
  have "i + m * min_len a \<le> j \<and> (i \<le> length s \<longrightarrow> j \<le> length s)"
    by (rule relpow_grows [OF _ assms(1)]) (use rx_lang_grows in blast)
  moreover have "m \<le> m * min_len a" using assms(2) by simp
  ultimately show ?thesis using assms(3) by linarith
qed

lemma rx_ends_lang:
  assumes "proper r"
  shows "i \<le> length s \<Longrightarrow> j \<in> set (rx_ends s r i) \<longleftrightarrow> (i, j) \<in> rx_lang s r"
  using assms
proof (induction r arbitrary: i j)
  case (RxSeq a b)
  have "j \<in> set (rx_ends s (RxSeq a b) i) \<longleftrightarrow> (\<exists>k. k \<in> set (rx_ends s a i) \<and> j \<in> set (rx_ends s b k))" by auto
  also have "\<dots> \<longleftrightarrow> (\<exists>k. (i, k) \<in> rx_lang s a \<and> (k, j) \<in> rx_lang s b)"
    using RxSeq rx_lang_grows [of i _ s a] by (metis proper.simps(1))
  finally show ?case by auto
next
  case (RxRep g lo hi a)
  then have a: "0 < min_len a" "proper a" by simp_all
  define R where "R = {(x, y). y \<in> set (rx_ends s a x) \<and> x < y}"
  have eq: "(x, y) \<in> R \<longleftrightarrow> (x, y) \<in> rx_lang s a" if "x \<le> length s" for x y
    using RxRep.IH [OF that a(2), of y] rx_lang_grows [of x y s a] a(1) by (auto simp: R_def)
  have pow: "(i, j) \<in> R ^^ m \<longleftrightarrow> (i, j) \<in> rx_lang s a ^^ m" for m
  proof (induction m arbitrary: j)
    case (Suc m)
    have "l \<le> length s" if "(i, l) \<in> rx_lang s a ^^ m" for l
      using relpow_grows [of "rx_lang s a" 0 "length s", OF _ that] rx_lang_grows RxRep.prems(1) by force
    then show ?case using Suc.IH eq by (auto simp: relcomp_unfold)
  qed simp
  have "j \<in> set (rx_ends s (RxRep g lo hi a) i) \<longleftrightarrow>
      (\<exists>m. lo \<le> m \<and> m \<le> (case hi of Some h \<Rightarrow> h | None \<Rightarrow> length s - i) \<and> (i, j) \<in> rx_lang s a ^^ m)"
    by (simp add: rep_ends_relpow [OF R_def] pow)
  also have "\<dots> \<longleftrightarrow> (i, j) \<in> rx_lang s (RxRep g lo hi a)"
    using RxRep.prems(1) relpow_bounded [OF _ a(1) RxRep.prems(1), of j] by (auto split: option.split)
  finally show ?case .
qed auto

lemma rx_search_lang:
  assumes "proper r"
  shows "rx_search r s \<longleftrightarrow> (\<exists>i j. (i, j) \<in> rx_lang s r)"
proof -
  have ne: "xs \<noteq> [] \<longleftrightarrow> (\<exists>j. j \<in> set xs)" for xs :: "nat list" by (cases xs) auto
  have "rx_search r s \<longleftrightarrow> (\<exists>i. i \<le> length s \<and> rx_ends s r i \<noteq> [])"
    by (auto simp: rx_search_def list_ex_iff less_Suc_eq_le simp del: upt_Suc)
  also have "\<dots> \<longleftrightarrow> (\<exists>i j. i \<le> length s \<and> j \<in> set (rx_ends s r i))" unfolding ne by blast
  also have "\<dots> \<longleftrightarrow> (\<exists>i j. (i, j) \<in> rx_lang s r)"
    using rx_ends_lang [OF assms, of _ s] rx_lang_grows [of _ _ s r] by (meson add_leD1 le_trans)
  finally show ?thesis .
qed

section \<open>The spans found\<close>

definition spans_ok :: "rx \<Rightarrow> string \<Rightarrow> nat \<Rightarrow> (nat \<times> nat) list \<Rightarrow> bool" where
  "spans_ok r s i spans \<longleftrightarrow> list_all (\<lambda>(a, b). i \<le> a \<and> a < b \<and> b \<le> length s \<and> (a, b) \<in> rx_lang s r) spans \<and>
     sorted_wrt (\<lambda>(_, b) (a', _). b \<le> a') spans"

lemma spans_ok_mono: "spans_ok r s j spans \<Longrightarrow> i \<le> j \<Longrightarrow> spans_ok r s i spans"
  by (auto simp: spans_ok_def list_all_iff)

lemma spans_ok_Cons: "spans_ok r s b spans \<Longrightarrow> a < b \<Longrightarrow> b \<le> length s \<Longrightarrow> (a, b) \<in> rx_lang s r \<Longrightarrow> spans_ok r s a ((a, b) # spans)"
  by (auto simp: spans_ok_def list_all_iff)

lemma finditer_spans:
  assumes "proper r" and "0 < min_len r"
  shows "spans_ok r s i (rx_finditer r s i)"
proof (induction "Suc (length s) - i" arbitrary: i rule: less_induct)
  case less
  show ?case
  proof (cases "length s < i")
    case True
    then show ?thesis by (simp add: rx_finditer.simps [of r s i] spans_ok_def)
  next
    case False
    show ?thesis
    proof (cases "rx_ends s r i")
      case Nil
      have "spans_ok r s (Suc i) (rx_finditer r s (Suc i))" using False by (intro less) simp
      then show ?thesis using False Nil by (auto simp: rx_finditer.simps [of r s i] intro: spans_ok_mono)
    next
      case (Cons j js)
      have ij: "(i, j) \<in> rx_lang s r" using rx_ends_lang [OF assms(1), of i s j] False Cons by simp
      with rx_lang_grows [OF this] assms(2) have j: "i < j" "j \<le> length s" by simp_all
      then have "spans_ok r s j (rx_finditer r s j)" by (intro less) simp
      then show ?thesis using spans_ok_Cons [OF _ j ij] False Cons j by (simp add: rx_finditer.simps [of r s i])
    qed
  qed
qed

lemma finditer_complete:
  assumes "proper r" and "0 < min_len r" and "(a, b) \<in> rx_lang s r"
  shows "i \<le> a \<Longrightarrow> \<exists>c d. (c, d) \<in> set (rx_finditer r s i) \<and> c \<le> a \<and> a < d"
proof (induction "Suc (length s) - i" arbitrary: i rule: less_induct)
  case less
  have a: "a \<le> length s" using rx_lang_grows [OF assms(3)] by simp
  show ?case
  proof (cases "rx_ends s r i")
    case Nil
    have "i \<noteq> a" using rx_ends_lang [OF assms(1) a, of b] assms(3) Nil by auto
    then have "Suc (length s) - Suc i < Suc (length s) - i" "Suc i \<le> a" using less.prems a by linarith+
    then obtain c d where "(c, d) \<in> set (rx_finditer r s (Suc i))" "c \<le> a" "a < d" using less.hyps by blast
    then show ?thesis using Nil less.prems a by (auto simp: rx_finditer.simps [of r s i])
  next
    case (Cons j js)
    have "(i, j) \<in> rx_lang s r" using rx_ends_lang [OF assms(1), of i s j] less.prems a Cons by simp
    from rx_lang_grows [OF this] assms(2) have j: "i < j" "j \<le> length s" by simp_all
    have it: "rx_finditer r s i = (i, j) # rx_finditer r s j" using Cons less.prems a j by (simp add: rx_finditer.simps [of r s i])
    show ?thesis
    proof (cases "a < j")
      case True
      then show ?thesis using it less.prems by auto
    next
      case False
      then have "Suc (length s) - j < Suc (length s) - i" "j \<le> a" using j by linarith+
      then obtain c d where "(c, d) \<in> set (rx_finditer r s j)" "c \<le> a" "a < d" using less.hyps by blast
      then show ?thesis using it by auto
    qed
  qed
qed

section \<open>Substitution that keeps the length\<close>

lemma slice_full: "slice i (length s) s = drop i s"
  by (simp add: slice_def)

lemma length_slice: "b \<le> length s \<Longrightarrow> length (slice a b s) = b - a"
  by (simp add: slice_def)

definition covered :: "(nat \<times> nat) list \<Rightarrow> nat \<Rightarrow> bool" where
  "covered spans p = list_ex (\<lambda>(a, b). a \<le> p \<and> p < b) spans"

lemma splice_mask:
  assumes "spans_ok r s i spans" and "i \<le> length s"
  shows "splice_spans (\<lambda>m. replicate (length m) c) s i spans = map (\<lambda>p. if covered spans p then c else s ! p) [i..<length s]"
  using assms
proof (induction spans arbitrary: i)
  case Nil
  then show ?case by (intro nth_equalityI) (simp_all add: covered_def)
next
  case (Cons x spans)
  obtain a b where x: "x = (a, b)" by (cases x)
  from Cons.prems(1) have ab: "i \<le> a" "a < b" "b \<le> length s" and rest: "spans_ok r s b spans"
    by (auto simp: x spans_ok_def list_all_iff)
  have later: "\<not> covered spans p" if "p < b" for p using rest that by (auto simp: spans_ok_def covered_def list_all_iff list_ex_iff)
  let ?g = "\<lambda>p. if covered (x # spans) p then c else s ! p"
  have "slice i a s = map ?g [i..<a]"
    using ab later by (intro nth_equalityI) (auto simp: slice_def covered_def x)
  moreover have "replicate (length (slice a b s)) c = map ?g [a..<b]"
    using ab by (intro nth_equalityI) (auto simp: length_slice covered_def x)
  moreover have "map (\<lambda>p. if covered spans p then c else s ! p) [b..<length s] = map ?g [b..<length s]"
    by (auto simp: covered_def x)
  moreover have "[i..<length s] = [i..<a] @ [a..<b] @ [b..<length s]"
    using ab by (metis le_trans less_imp_le upt_add_eq_append le_add_diff_inverse)
  ultimately show ?case using Cons.IH [OF rest ab(3)] by (simp add: x)
qed

lemma rx_sub_mask:
  assumes "proper r" and "0 < min_len r"
  shows "rx_sub r (\<lambda>m. replicate (length m) c) s = map (\<lambda>p. if covered (rx_finditer r s 0) p then c else s ! p) [0..<length s]"
  unfolding rx_sub_def by (rule splice_mask [OF finditer_spans [OF assms]]) simp

section \<open>Changing the text around a match\<close>

text \<open>
  Three ways in which the meaning of an expression moves from one text to another:
  into a longer text, back from a text in which characters were masked, and between
  texts that differ in case only.
\<close>

fun boundary_free :: "rx \<Rightarrow> bool" where
  "boundary_free RxBound = False"
| "boundary_free (RxSeq a b) = (boundary_free a \<and> boundary_free b)"
| "boundary_free (RxAlt a b) = (boundary_free a \<and> boundary_free b)"
| "boundary_free (RxRep g lo hi a) = boundary_free a"
| "boundary_free _ = True"

fun all_chars :: "((char \<Rightarrow> bool) \<Rightarrow> bool) \<Rightarrow> rx \<Rightarrow> bool" where
  "all_chars Q (RxChar P) = Q P"
| "all_chars Q (RxSeq a b) = (all_chars Q a \<and> all_chars Q b)"
| "all_chars Q (RxAlt a b) = (all_chars Q a \<and> all_chars Q b)"
| "all_chars Q (RxRep g lo hi a) = all_chars Q a"
| "all_chars Q _ = True"

lemma relpow_map:
  assumes "\<And>a b. (a, b) \<in> R \<Longrightarrow> (f a, f b) \<in> S"
  shows "(i, j) \<in> R ^^ n \<Longrightarrow> (f i, f j) \<in> S ^^ n"
proof (induction n arbitrary: j)
  case (Suc n)
  then obtain k where "(i, k) \<in> R ^^ n" "(k, j) \<in> R" by auto
  then have "(f i, f k) \<in> S ^^ n" "(f k, f j) \<in> S" using Suc.IH assms by blast+
  then show ?case by auto
qed simp

lemma lang_embed:
  assumes "boundary_free r"
  shows "(i, j) \<in> rx_lang t r \<Longrightarrow> (length u + i, length u + j) \<in> rx_lang (u @ t @ v) r"
  using assms
proof (induction r arbitrary: i j)
  case (RxChar P)
  then show ?case by (auto simp: nth_append)
next
  case (RxSeq a b)
  then obtain k where "(i, k) \<in> rx_lang t a" "(k, j) \<in> rx_lang t b" by auto
  then have "(length u + i, length u + k) \<in> rx_lang (u @ t @ v) a" "(length u + k, length u + j) \<in> rx_lang (u @ t @ v) b"
    using RxSeq by simp_all
  then show ?case by auto
next
  case (RxRep g lo hi a)
  then obtain n where n: "i \<le> length t" "lo \<le> n" "case hi of None \<Rightarrow> True | Some h \<Rightarrow> n \<le> h" "(i, j) \<in> rx_lang t a ^^ n" by auto
  have "(length u + i, length u + j) \<in> rx_lang (u @ t @ v) a ^^ n"
    by (rule relpow_map [OF _ n(4)]) (use RxRep in auto)
  then show ?case using n(1-3) by auto
qed auto

lemma relpow_transfer:
  assumes "\<And>a b. (a, b) \<in> R \<Longrightarrow> (a, b) \<in> S \<and> a \<le> b \<and> (\<forall>p. a \<le> p \<and> p < b \<longrightarrow> Q p)"
  shows "(i :: nat, j) \<in> R ^^ n \<Longrightarrow> (i, j) \<in> S ^^ n \<and> i \<le> j \<and> (\<forall>p. i \<le> p \<and> p < j \<longrightarrow> Q p)"
proof (induction n arbitrary: j)
  case (Suc n)
  then obtain k where k: "(i, k) \<in> R ^^ n" "(k, j) \<in> R" by auto
  have ik: "(i, k) \<in> S ^^ n" "i \<le> k" "\<And>p. i \<le> p \<Longrightarrow> p < k \<Longrightarrow> Q p" using Suc.IH [OF k(1)] by blast+
  have kj: "(k, j) \<in> S" "k \<le> j" "\<And>p. k \<le> p \<Longrightarrow> p < j \<Longrightarrow> Q p" using assms [OF k(2)] by blast+
  have "Q p" if "i \<le> p" "p < j" for p using ik(3) [of p] kj(3) [of p] that by (cases "p < k") auto
  then show ?case using ik kj by auto
qed auto

text \<open>\<open>t'\<close> is \<open>t\<close> with some characters replaced by \<open>c\<close>, which the expression does not match.\<close>

lemma lang_unmask:
  assumes "boundary_free r" and "all_chars (\<lambda>P. \<not> P c) r"
    and t': "length t' = length t" "\<And>p. p < length t \<Longrightarrow> t' ! p = t ! p \<or> t' ! p = c"
  shows "(i, j) \<in> rx_lang t' r \<Longrightarrow> (i, j) \<in> rx_lang t r \<and> i \<le> j \<and> (\<forall>p. i \<le> p \<and> p < j \<longrightarrow> t' ! p \<noteq> c)"
  using assms(1,2)
proof (induction r arbitrary: i j)
  case (RxChar P)
  then have "j = Suc i" "i < length t" "P (t' ! i)" "\<not> P c" by (auto simp: t'(1))
  then show ?case using t'(2) [of i] by (auto simp: less_Suc_eq_le le_antisym)
next
  case (RxSeq a b)
  then obtain k where k: "(i, k) \<in> rx_lang t' a" "(k, j) \<in> rx_lang t' b" by auto
  have ik: "(i, k) \<in> rx_lang t a" "i \<le> k" "\<And>p. i \<le> p \<Longrightarrow> p < k \<Longrightarrow> t' ! p \<noteq> c" using RxSeq.IH(1) [OF k(1)] RxSeq.prems by auto
  have kj: "(k, j) \<in> rx_lang t b" "k \<le> j" "\<And>p. k \<le> p \<Longrightarrow> p < j \<Longrightarrow> t' ! p \<noteq> c" using RxSeq.IH(2) [OF k(2)] RxSeq.prems by auto
  have "t' ! p \<noteq> c" if "i \<le> p" "p < j" for p using ik(3) [of p] kj(3) [of p] that by (cases "p < k") auto
  then show ?case using ik kj by auto
next
  case (RxAlt a b)
  from RxAlt.prems(1) have "(i, j) \<in> rx_lang t' a \<or> (i, j) \<in> rx_lang t' b" by simp
  then show ?case
  proof
    assume "(i, j) \<in> rx_lang t' a"
    from RxAlt.IH(1) [OF this] RxAlt.prems show ?case by simp
  next
    assume "(i, j) \<in> rx_lang t' b"
    from RxAlt.IH(2) [OF this] RxAlt.prems show ?case by simp
  qed
next
  case (RxRep g lo hi a)
  then obtain n where n: "i \<le> length t" "lo \<le> n" "case hi of None \<Rightarrow> True | Some h \<Rightarrow> n \<le> h" "(i, j) \<in> rx_lang t' a ^^ n"
    by (auto simp: t'(1))
  have "(i, j) \<in> rx_lang t a ^^ n \<and> i \<le> j \<and> (\<forall>p. i \<le> p \<and> p < j \<longrightarrow> t' ! p \<noteq> c)"
    by (rule relpow_transfer [OF _ n(4)]) (use RxRep in auto)
  then show ?case using n(1-3) by auto
qed (auto simp: t'(1))

lemma boundary_cong: "map word_char s = map word_char t \<Longrightarrow> at_boundary s i = at_boundary t i"
proof -
  assume eq: "map word_char s = map word_char t"
  then have "length s = length t" by (rule map_eq_imp_length_eq)
  moreover have "word_char (s ! p) = word_char (t ! p)" if "p < length s" for p
    using that eq by (metis length_map nth_map)
  ultimately show ?thesis by (auto simp: at_boundary_def word_at_def)
qed

lemma lang_same_classes:
  assumes "map word_char s = map word_char t" and "all_chars (\<lambda>P. map P s = map P t) r"
  shows "rx_lang s r = rx_lang t r"
  using assms(2)
proof (induction r)
  case (RxChar P)
  then have "length s = length t" by (auto intro: map_eq_imp_length_eq)
  moreover have "P (s ! p) = P (t ! p)" if "p < length s" for p
    using that RxChar by simp (metis length_map nth_map)
  ultimately show ?case by auto
qed (use map_eq_imp_length_eq [OF assms(1)] boundary_cong [OF assms(1)] in auto)

end
