(* ===== verification/Content_Safety.thy ===== *)
theory Content_Safety
  imports Regex
begin

text \<open>
  Detection, masking and redaction of personal data (\<open>security/pii.py\<close>) and the
  scanners for prompt injection and dangerous tool calls
  (\<open>security/validator.py\<close>), with the patterns of the source as expressions of
  \<open>Regex\<close>.

  Patterns are compiled with \<open>IGNORECASE\<close>: a literal letter matches both cases.
  The replacement text of a redaction is taken literally, which Python does for
  texts without a backslash.
\<close>

section \<open>Building blocks of the patterns\<close>

definition rx_seq :: "rx list \<Rightarrow> rx" where "rx_seq rs = foldr RxSeq rs RxEps"

fun rx_alts :: "rx list \<Rightarrow> rx" where
  "rx_alts [] = RxEps"
| "rx_alts [r] = r"
| "rx_alts (r # r' # rs) = RxAlt r (rx_alts (r' # rs))"

definition rx_lit :: "string \<Rightarrow> rx" where
  "rx_lit w = rx_seq (map (\<lambda>c. RxChar (\<lambda>x. lower_char x = lower_char c)) w)"

definition rx_words :: "string list \<Rightarrow> rx" where "rx_words ws = rx_alts (map rx_lit ws)"
definition rx_opt :: "rx \<Rightarrow> rx" where "rx_opt r = RxRep True 0 (Some 1) r"
definition rx_star :: "rx \<Rightarrow> rx" where "rx_star r = RxRep True 0 None r"
definition rx_plus :: "rx \<Rightarrow> rx" where "rx_plus r = RxRep True 1 None r"

definition rx_class :: "string \<Rightarrow> rx" where "rx_class cs = RxChar (\<lambda>c. c \<in> set cs)"
definition rx_digit :: rx where "rx_digit = RxChar is_digit"
definition rx_space :: rx where "rx_space = RxChar is_space"
definition rx_word :: rx where "rx_word = RxChar word_char"
definition rx_any :: rx where "rx_any = RxChar (\<lambda>_. True)"

definition alnum :: "char \<Rightarrow> bool" where "alnum c = (word_char c \<and> c \<noteq> CHR ''_'')"
definition rx_alnum_or :: "string \<Rightarrow> rx" where "rx_alnum_or cs = RxChar (\<lambda>c. alnum c \<or> c \<in> set cs)"

section \<open>Personal data\<close>

definition email_rx :: rx where
  "email_rx = rx_seq [rx_plus (rx_alnum_or ''_.+-''), rx_class ''@'', rx_plus (rx_alnum_or ''-''), rx_class ''.'', rx_plus (rx_alnum_or ''-.'')]"

definition phone_rx :: rx where
  "phone_rx = rx_seq [rx_opt (rx_class ''+''), RxRep True 7 (Some 15) (RxChar (\<lambda>c. is_digit c \<or> is_space c \<or> c \<in> set ''-().'')), rx_digit]"

definition credit_card_rx :: rx where
  "credit_card_rx = rx_seq [RxBound, RxRep True 13 (Some 16) (rx_seq [rx_digit, rx_opt (rx_class '' -'')]), RxBound]"

definition ssn_rx :: rx where
  "ssn_rx = rx_seq [RxBound, RxRep True 3 (Some 3) rx_digit, rx_class ''-'', RxRep True 2 (Some 2) rx_digit, rx_class ''-'', RxRep True 4 (Some 4) rx_digit, RxBound]"

definition ip_address_rx :: rx where
  "ip_address_rx = rx_seq [RxBound, RxRep True 3 (Some 3) (rx_seq [RxRep True 1 (Some 3) rx_digit, rx_class ''.'']), RxRep True 1 (Some 3) rx_digit, RxBound]"

definition date_of_birth_rx :: rx where
  "date_of_birth_rx =
     (let sep = rx_class ''/-''; d12 = RxRep True 1 (Some 2) rx_digit in
      rx_seq [RxBound, RxAlt (rx_seq [d12, sep, d12, sep, RxRep True 2 (Some 4) rx_digit])
                             (rx_seq [RxRep True 4 (Some 4) rx_digit, sep, d12, sep, d12]), RxBound])"

definition street_address_rx :: rx where
  "street_address_rx =
     rx_seq [rx_plus rx_digit, rx_plus rx_space, rx_plus (rx_alnum_or ''''),
       rx_star (rx_seq [rx_plus rx_space, rx_plus (rx_alnum_or '''')]), rx_plus rx_space,
       rx_words [''Street'', ''St'', ''Avenue'', ''Ave'', ''Road'', ''Rd'', ''Boulevard'', ''Blvd'', ''Lane'', ''Ln'', ''Drive'', ''Dr'', ''Court'', ''Ct'']]"

definition pii_patterns :: "(string \<times> rx) list" where
  "pii_patterns = [(''email'', email_rx), (''phone'', phone_rx), (''credit_card'', credit_card_rx), (''ssn'', ssn_rx),
     (''ip_address'', ip_address_rx), (''date_of_birth'', date_of_birth_rx), (''street_address'', street_address_rx)]"

record detection =
  pd_type :: string
  pd_value :: string
  pd_start :: nat
  pd_end :: nat

definition detections_of :: "string \<Rightarrow> string \<times> rx \<Rightarrow> detection list" where
  "detections_of text p =
     map (\<lambda>(a, b). \<lparr>pd_type = fst p, pd_value = slice a b text, pd_start = a, pd_end = b\<rparr>) (rx_finditer (snd p) text 0)"

definition detect_pii :: "string \<Rightarrow> detection list" where
  "detect_pii text = concat (map (detections_of text) pii_patterns)"

definition wanted :: "string list option \<Rightarrow> string \<Rightarrow> bool" where
  "wanted pii_types ty = (case pii_types of None \<Rightarrow> True | Some ts \<Rightarrow> ts = [] \<or> ty \<in> set ts)"

definition sub_pii :: "string list option \<Rightarrow> (string \<Rightarrow> string) \<Rightarrow> string \<Rightarrow> string" where
  "sub_pii pii_types f text = fold (\<lambda>(ty, r) t. if wanted pii_types ty then rx_sub r f t else t) pii_patterns text"

definition mask_pii :: "string \<Rightarrow> string list option \<Rightarrow> string \<Rightarrow> string" where
  "mask_pii text pii_types mask_char = sub_pii pii_types (\<lambda>m. concat (replicate (length m) mask_char)) text"

definition redact_pii :: "string \<Rightarrow> string list option \<Rightarrow> string \<Rightarrow> string" where
  "redact_pii text pii_types replacement = sub_pii pii_types (\<lambda>_. replacement) text"

definition contains_pii :: "string \<Rightarrow> bool" where
  "contains_pii text = (detect_pii text \<noteq> [])"

section \<open>Scanners\<close>

definition sp1 :: rx where "sp1 = rx_plus rx_space"
definition sp0 :: rx where "sp0 = rx_star rx_space"

definition injection_rx :: rx where
  "injection_rx = rx_alts
     [rx_seq [rx_lit ''ignore'', sp1, rx_words [''previous'', ''all'', ''above''], sp1, rx_lit ''instructions''],
      rx_seq [rx_lit ''disregard'', sp1, rx_words [''all'', ''previous'', ''your''], sp1, rx_lit ''instructions''],
      rx_seq [rx_lit ''you'', sp1, rx_lit ''are'', sp1, rx_lit ''now'', sp1, rx_words [''a'', ''an'', ''the''], sp1, rx_plus rx_word],
      rx_seq [rx_lit ''forget'', sp1, rx_words [''everything'', ''all''], sp1,
        RxAlt (rx_seq [rx_lit ''you'', sp1, rx_lit ''know'']) (rx_lit ''previously'')],
      rx_lit ''jailbreak'',
      rx_seq [rx_lit ''dan'', sp1, rx_lit ''mode''],
      rx_seq [rx_lit ''do'', sp1, rx_lit ''anything'', sp1, rx_lit ''now''],
      rx_seq [rx_lit ''act'', sp1, rx_lit ''as'', sp1,
        RxAlt (rx_seq [rx_lit ''if'', sp1, rx_lit ''you'', sp1, rx_lit ''have'', sp1, rx_lit ''no'', sp1, rx_lit ''restrictions'']) (rx_lit ''root'')],
      rx_seq [rx_lit ''system'', sp0, rx_lit '':'', sp0, rx_words [''ignore'', ''override'', ''bypass'']],
      rx_seq [rx_lit ''<'', sp0, rx_lit ''system'', sp0, rx_lit ''>'']]"

definition tool_rx :: rx where
  "tool_rx = rx_alts
     [rx_seq [RxBound, rx_lit ''rm'', sp1, rx_lit ''-rf'', RxBound],
      rx_seq [RxBound, rx_lit ''sudo'', RxBound],
      rx_seq [RxBound, rx_lit ''chmod'', sp1, rx_lit ''777'', RxBound],
      rx_seq [RxBound, rx_words [''curl'', ''wget''], sp1, rx_star rx_any, sp0, rx_lit ''|'', sp0, rx_words [''sh'', ''bash''], RxBound],
      rx_seq [RxBound, rx_lit ''eval'', sp0, rx_lit ''(''],
      rx_seq [RxBound, rx_lit ''os.system'', RxBound],
      rx_seq [RxBound, rx_lit ''subprocess.'', rx_words [''call'', ''run'', ''Popen''], RxBound]]"

datatype scan_error = ScanValueError string

definition ensure_max_length :: "string \<Rightarrow> nat \<Rightarrow> string \<Rightarrow> scan_error option" where
  "ensure_max_length v max_length field_name =
     (if length v > max_length
      then Some (ScanValueError ([CHR 0x27] @ field_name @ [CHR 0x27] @ '' exceeds maximum length of '' @ show_nat max_length
             @ '' characters (got '' @ show_nat (length v) @ '').''))
      else None)"

definition detect_prompt_injection :: "string \<Rightarrow> bool" where
  "detect_prompt_injection text = rx_search injection_rx text"

definition assert_no_prompt_injection :: "string \<Rightarrow> string \<Rightarrow> scan_error option" where
  "assert_no_prompt_injection text field_name =
     (if detect_prompt_injection text
      then Some (ScanValueError (''Potential prompt injection detected in '' @ [CHR 0x27] @ field_name @ [CHR 0x27] @ ''.'')) else None)"

definition detect_dangerous_tool_call :: "string \<Rightarrow> bool" where
  "detect_dangerous_tool_call text = rx_search tool_rx text"

definition assert_safe_tool_call :: "string \<Rightarrow> string \<Rightarrow> scan_error option" where
  "assert_safe_tool_call text field_name =
     (if detect_dangerous_tool_call text
      then Some (ScanValueError (''Dangerous tool call pattern detected in '' @ [CHR 0x27] @ field_name @ [CHR 0x27] @ ''.'')) else None)"

section \<open>The patterns are well formed\<close>

lemmas pattern_defs = email_rx_def phone_rx_def credit_card_rx_def ssn_rx_def ip_address_rx_def date_of_birth_rx_def street_address_rx_def
  rx_seq_def rx_lit_def rx_words_def rx_opt_def rx_star_def rx_plus_def rx_class_def rx_digit_def rx_space_def rx_word_def rx_any_def
  rx_alnum_or_def sp1_def sp0_def

lemma pii_patterns_proper: "list_all (\<lambda>(_, r). proper r \<and> 0 < min_len r) pii_patterns"
  by (simp add: pii_patterns_def pattern_defs Let_def)

lemma scanners_proper: "proper injection_rx" "proper tool_rx"
  by (simp_all add: injection_rx_def tool_rx_def pattern_defs)

section \<open>Detection\<close>

lemma pattern_proper: "(ty, r) \<in> set pii_patterns \<Longrightarrow> proper r \<and> 0 < min_len r"
  using pii_patterns_proper by (auto simp: list_all_iff)

lemma detect_pii_iff:
  "d \<in> set (detect_pii text) \<longleftrightarrow> (\<exists>r. (pd_type d, r) \<in> set pii_patterns \<and> (pd_start d, pd_end d) \<in> set (rx_finditer r text 0) \<and>
     pd_value d = slice (pd_start d) (pd_end d) text)"
proof -
  have "d \<in> set (detections_of text (ty, r)) \<longleftrightarrow> pd_type d = ty \<and> (pd_start d, pd_end d) \<in> set (rx_finditer r text 0) \<and>
      pd_value d = slice (pd_start d) (pd_end d) text" for ty r
    by (cases d) (auto simp: detections_of_def)
  moreover have "d \<in> set (detect_pii text) \<longleftrightarrow> (\<exists>ty r. (ty, r) \<in> set pii_patterns \<and> d \<in> set (detections_of text (ty, r)))"
    by (simp add: detect_pii_def Bex_def split_paired_Ex)
  ultimately show ?thesis by (simp only: simp_thms ex_simps) blast
qed

text \<open>
  Detection is exact.  Every reported element is a non-empty piece of the text at the reported
  offsets that matches the pattern of its kind; every match of every pattern anywhere in the
  text overlaps a reported element of that kind; and elements of one kind do not overlap.
\<close>

theorem detection_exact:
  "(\<forall>d. d \<in> set (detect_pii text) \<longrightarrow> pd_start d < pd_end d \<and> pd_end d \<le> length text \<and> pd_value d = slice (pd_start d) (pd_end d) text \<and>
      (\<exists>r. (pd_type d, r) \<in> set pii_patterns \<and> (pd_start d, pd_end d) \<in> rx_lang text r)) \<and>
   (\<forall>ty r a b. (ty, r) \<in> set pii_patterns \<longrightarrow> (a, b) \<in> rx_lang text r \<longrightarrow>
      (\<exists>d. d \<in> set (detect_pii text) \<and> pd_type d = ty \<and> pd_start d \<le> a \<and> a < pd_end d)) \<and>
   (\<forall>p. p \<in> set pii_patterns \<longrightarrow> sorted_wrt (\<lambda>d e. pd_end d \<le> pd_start e) (detections_of text p))"
proof (intro conjI allI impI)
  fix d
  assume "d \<in> set (detect_pii text)"
  then obtain r where r: "(pd_type d, r) \<in> set pii_patterns" "(pd_start d, pd_end d) \<in> set (rx_finditer r text 0)"
    and v: "pd_value d = slice (pd_start d) (pd_end d) text" by (auto simp: detect_pii_iff)
  from finditer_spans [of r "text" 0] pattern_proper [OF r(1)] r(2)
  have "pd_start d < pd_end d" "pd_end d \<le> length text" "(pd_start d, pd_end d) \<in> rx_lang text r"
    by (auto simp: spans_ok_def list_all_iff)
  with r(1) v show "pd_start d < pd_end d" "pd_end d \<le> length text" "pd_value d = slice (pd_start d) (pd_end d) text"
    "\<exists>r. (pd_type d, r) \<in> set pii_patterns \<and> (pd_start d, pd_end d) \<in> rx_lang text r" by blast+
next
  fix ty r a b
  assume r: "(ty, r) \<in> set pii_patterns" and ab: "(a, b) \<in> rx_lang text r"
  then obtain c e where "(c, e) \<in> set (rx_finditer r text 0)" "c \<le> a" "a < e"
    using finditer_complete [OF _ _ ab, of 0] pattern_proper [OF r] by auto
  with r show "\<exists>d. d \<in> set (detect_pii text) \<and> pd_type d = ty \<and> pd_start d \<le> a \<and> a < pd_end d"
    by (intro exI [of _ "\<lparr>pd_type = ty, pd_value = slice c e text, pd_start = c, pd_end = e\<rparr>"]) (auto simp: detect_pii_iff)
next
  fix p
  assume "p \<in> set pii_patterns"
  then have "spans_ok (snd p) text 0 (rx_finditer (snd p) text 0)"
    using pattern_proper [of "fst p" "snd p"] by (intro finditer_spans) auto
  then show "sorted_wrt (\<lambda>d e. pd_end d \<le> pd_start e) (detections_of text p)"
    by (simp add: detections_of_def sorted_wrt_map spans_ok_def case_prod_unfold)
qed

section \<open>Masking\<close>

text \<open>\<open>masked c t t'\<close>: \<open>t'\<close> is \<open>t\<close> with some characters replaced by \<open>c\<close>.\<close>

definition masked :: "char \<Rightarrow> string \<Rightarrow> string \<Rightarrow> bool" where
  "masked c t t' \<longleftrightarrow> length t' = length t \<and> (\<forall>p. p < length t \<longrightarrow> t' ! p = t ! p \<or> t' ! p = c)"

lemma masked_refl [simp]: "masked c t t"
  by (simp add: masked_def)

lemma masked_trans: "masked c t t' \<Longrightarrow> masked c t' t'' \<Longrightarrow> masked c t t''"
  by (auto simp: masked_def) metis

lemma concat_singletons: "concat (replicate n [c]) = replicate n c"
  by (induction n) simp_all

definition mask_step :: "string list option \<Rightarrow> char \<Rightarrow> string \<times> rx \<Rightarrow> string \<Rightarrow> string" where
  "mask_step types c p t = (if wanted types (fst p) then rx_sub (snd p) (\<lambda>m. replicate (length m) c) t else t)"

lemma mask_pii_steps: "mask_pii text types [c] = fold (mask_step types c) pii_patterns text"
  unfolding mask_pii_def sub_pii_def concat_singletons
  by (rule arg_cong [where f = "\<lambda>g. fold g pii_patterns text"]) (auto simp: fun_eq_iff mask_step_def)

lemma mask_step_masked: "p \<in> set pii_patterns \<Longrightarrow> masked c t (mask_step types c p t)"
  using pattern_proper [of "fst p" "snd p"] by (auto simp: mask_step_def masked_def rx_sub_mask)

lemma mask_steps_masked: "set ps \<subseteq> set pii_patterns \<Longrightarrow> masked c t (fold (mask_step types c) ps t)"
proof (induction ps arbitrary: t)
  case (Cons p ps)
  then have "masked c t (mask_step types c p t)" "masked c (mask_step types c p t) (fold (mask_step types c) ps (mask_step types c p t))"
    by (auto intro: mask_step_masked)
  then show ?case by (auto intro: masked_trans)
qed simp

lemma masked_no_match:
  assumes "boundary_free r" and "all_chars (\<lambda>P. \<not> P c) r" and "masked c t t'" and "\<nexists>i j. (i, j) \<in> rx_lang t r"
  shows "\<nexists>i j. (i, j) \<in> rx_lang t' r"
  using lang_unmask [OF assms(1,2), of t' t] assms(3,4) by (auto simp: masked_def)

lemma mask_step_clears:
  assumes "boundary_free r" and "all_chars (\<lambda>P. \<not> P c) r" and "proper r" and "0 < min_len r" and "wanted types ty"
  shows "\<nexists>i j. (i, j) \<in> rx_lang (mask_step types c (ty, r) t) r"
proof clarify
  fix i j
  let ?t' = "mask_step types c (ty, r) t"
  assume ij: "(i, j) \<in> rx_lang ?t' r"
  have t': "?t' = map (\<lambda>p. if covered (rx_finditer r t 0) p then c else t ! p) [0..<length t]"
    by (simp add: mask_step_def assms(5) rx_sub_mask [OF assms(3,4)])
  have "(i, j) \<in> rx_lang t r \<and> i \<le> j \<and> (\<forall>p. i \<le> p \<and> p < j \<longrightarrow> ?t' ! p \<noteq> c)"
    by (rule lang_unmask [OF assms(1,2) _ _ ij]) (simp_all add: t')
  then have old: "(i, j) \<in> rx_lang t r" and clean: "\<And>p. i \<le> p \<Longrightarrow> p < j \<Longrightarrow> ?t' ! p \<noteq> c" by auto
  have "i < j" "j \<le> length t" using rx_lang_grows [OF old] assms(4) by auto
  obtain a b where "(a, b) \<in> set (rx_finditer r t 0)" "a \<le> i" "i < b"
    using finditer_complete [OF assms(3,4) old, of 0] by auto
  then have "covered (rx_finditer r t 0) i" by (auto simp: covered_def list_ex_iff)
  then have "?t' ! i = c" using \<open>i < j\<close> \<open>j \<le> length t\<close> by (simp add: t')
  then show False using clean [of i] \<open>i < j\<close> by simp
qed

lemma masked_search:
  assumes "(ty, r) \<in> set pii_patterns" and "boundary_free r" and "all_chars (\<lambda>P. \<not> P c) r" and "wanted types ty"
  shows "\<nexists>i j. (i, j) \<in> rx_lang (mask_pii text types [c]) r"
proof -
  obtain ps qs where ps: "pii_patterns = ps @ (ty, r) # qs" using assms(1) by (meson split_list)
  define t where "t = fold (mask_step types c) ps text"
  have "mask_pii text types [c] = fold (mask_step types c) qs (mask_step types c (ty, r) t)"
    by (simp add: mask_pii_steps ps t_def)
  moreover have "masked c (mask_step types c (ty, r) t) (fold (mask_step types c) qs (mask_step types c (ty, r) t))"
    by (rule mask_steps_masked) (auto simp: ps)
  moreover have "\<nexists>i j. (i, j) \<in> rx_lang (mask_step types c (ty, r) t) r"
    using pattern_proper [OF assms(1)] by (intro mask_step_clears assms(2-4)) auto
  ultimately show ?thesis using masked_no_match [OF assms(2,3)] by simp
qed

lemma unbounded_kinds:
  "list_all (\<lambda>(ty, r). ty \<in> {''email'', ''phone'', ''street_address''} \<longrightarrow> boundary_free r \<and> all_chars (\<lambda>P. \<not> P CHR ''*'') r) pii_patterns"
proof -
  have "list_all (\<lambda>c. lower_char CHR ''*'' \<noteq> lower_char c) ''StreetAvenueRoadBoulevardLaneDriveCourt''" by code_simp
  moreover have "\<not> is_digit CHR ''*''" "\<not> is_space CHR ''*''" "\<not> alnum CHR ''*''" by code_simp+
  ultimately show ?thesis by (simp add: pii_patterns_def pattern_defs Let_def)
qed

text \<open>
  Masking keeps the length of the text and changes nothing but the masked characters, and what it
  masks is gone: after masking everything, no e-mail address, phone number or street address is
  detected any more.
\<close>

theorem masking_removes_contact_data:
  "length (mask_pii text types [c]) = length text \<and>
   list_all (\<lambda>p. mask_pii text types [c] ! p = text ! p \<or> mask_pii text types [c] ! p = c) [0..<length text] \<and>
   list_all (\<lambda>d. pd_type d \<notin> {''email'', ''phone'', ''street_address''}) (detect_pii (mask_pii text None ''*''))"
proof -
  have "masked c text (mask_pii text types [c])" unfolding mask_pii_steps by (rule mask_steps_masked) simp
  then have "length (mask_pii text types [c]) = length text"
    "list_all (\<lambda>p. mask_pii text types [c] ! p = text ! p \<or> mask_pii text types [c] ! p = c) [0..<length text]"
    by (auto simp: masked_def list_all_iff)
  moreover have "pd_type d \<notin> {''email'', ''phone'', ''street_address''}" if found: "d \<in> set (detect_pii (mask_pii text None ''*''))" for d
  proof
    assume kind: "pd_type d \<in> {''email'', ''phone'', ''street_address''}"
    obtain r where r: "(pd_type d, r) \<in> set pii_patterns" "(pd_start d, pd_end d) \<in> set (rx_finditer r (mask_pii text None ''*'') 0)"
      using found detect_pii_iff [of d "mask_pii text None ''*''"] by blast
    have "(pd_start d, pd_end d) \<in> rx_lang (mask_pii text None ''*'') r"
      using finditer_spans [of r "mask_pii text None ''*''" 0] pattern_proper [OF r(1)] r(2) by (auto simp: spans_ok_def list_all_iff)
    moreover have "boundary_free r" "all_chars (\<lambda>P. \<not> P CHR ''*'') r"
      using unbounded_kinds r(1) kind by (auto simp only: list_all_iff split: prod.splits)
    ultimately show False using masked_search [OF r(1), of "CHR ''*''" None "text"] by (auto simp: wanted_def)
  qed
  ultimately show ?thesis by (auto simp: list_all_iff)
qed

section \<open>Prompt injection\<close>

lemma injection_boundary_free: "boundary_free injection_rx"
  by (simp add: injection_rx_def pattern_defs)

lemma lower_upper_class:
  "lower_char (lower_char c) = lower_char c" "is_space (lower_char c) = is_space c" "word_char (lower_char c) = word_char c"
  by (auto simp: lower_char_def is_space_def word_char_def Let_def)

lemma injection_case_blind: "all_chars (\<lambda>P. map P (py_lower s) = map P s) injection_rx"
  by (simp add: injection_rx_def pattern_defs py_lower_def comp_def lower_upper_class)

text \<open>
  The injection scanner reports a text exactly if some piece of it has the form of one of the
  patterns; it cannot be escaped by writing in other letter case or by putting text before or
  after the injection; and the assertion raises exactly for the texts it reports.
\<close>

theorem injection_scan_robust:
  "(detect_prompt_injection s \<longleftrightarrow> (\<exists>i j. (i, j) \<in> rx_lang s injection_rx)) \<and>
   detect_prompt_injection (py_lower s) = detect_prompt_injection s \<and>
   (detect_prompt_injection s \<longrightarrow> detect_prompt_injection (u @ s @ v)) \<and>
   (assert_no_prompt_injection s f = None \<longleftrightarrow> \<not> detect_prompt_injection s)"
proof -
  note iff = rx_search_lang [OF scanners_proper(1)]
  have "map word_char (py_lower s) = map word_char s" by (simp add: py_lower_def lower_upper_class)
  then have "rx_lang (py_lower s) injection_rx = rx_lang s injection_rx" by (rule lang_same_classes [OF _ injection_case_blind])
  moreover have "(\<exists>i j. (i, j) \<in> rx_lang s injection_rx) \<Longrightarrow> (\<exists>i j. (i, j) \<in> rx_lang (u @ s @ v) injection_rx)"
    using lang_embed [OF injection_boundary_free, of _ _ s u v] by blast
  ultimately show ?thesis by (simp add: detect_prompt_injection_def assert_no_prompt_injection_def iff)
qed

section \<open>A small text\<close>

definition contact :: string where "contact = ''hi a@b.c''"

lemma contact_span: "rx_finditer email_rx contact 0 = [(3, 8)]"
  by code_simp

theorem detection_exact_witness:
  "\<exists>d. d \<in> set (detect_pii contact) \<and> pd_type d = ''email'' \<and> pd_value d = slice (pd_start d) (pd_end d) contact"
proof -
  have "(''email'', email_rx) \<in> set pii_patterns" by (simp add: pii_patterns_def)
  moreover have "(3, 8) \<in> rx_lang contact email_rx"
    using finditer_spans [of email_rx contact 0] pattern_proper [OF calculation] by (simp add: contact_span spans_ok_def)
  ultimately obtain d where "d \<in> set (detect_pii contact)" "pd_type d = ''email''"
    using detection_exact [of contact] by blast
  then show ?thesis using detection_exact [of contact] by blast
qed

theorem injection_scan_robust_witness:
  "detect_prompt_injection ''please: JailBreak!''"
proof -
  have "detect_prompt_injection (py_lower ''JailBreak'')" by code_simp
  then have "detect_prompt_injection ''JailBreak''" using injection_scan_robust [of "''JailBreak''"] by blast
  then show ?thesis using injection_scan_robust [of "''JailBreak''" "''please: ''" "''!''"] by simp
qed

end
