(* ===== verification/Compliance.thy ===== *)
theory Compliance
  imports Content_Safety Chat Authorization
begin

text \<open>
  Data governance (\<open>security/governance.py\<close>) and the compliance service
  (\<open>compliance.py\<close>): classification, retention, soft deletion, the purge job, and
  the export and erasure of a user's data.

  The functions work on attributes of objects they know nothing about.  An object
  is its row, the values of the mapped columns, beside the attributes that Python
  code has set on the instance; a commit writes the row and nothing else.  Times are
  in seconds; the time stamps in the details of an event are left out.
\<close>

section \<open>Objects and rows\<close>

record 'r instance_of =
  in_row :: 'r
  in_attributes :: "(string, json) dict"

definition load_instance :: "'r \<Rightarrow> 'r instance_of" where
  "load_instance r = \<lparr>in_row = r, in_attributes = []\<rparr>"

definition set_attribute :: "string \<Rightarrow> json \<Rightarrow> 'r instance_of \<Rightarrow> 'r instance_of" where
  "set_attribute name v obj = obj\<lparr>in_attributes := dict_set (in_attributes obj) name v\<rparr>"

definition commit_instance :: "int \<Rightarrow> 'r instance_of \<Rightarrow> 'r table \<Rightarrow> 'r table" where
  "commit_instance i obj t = repo_update i (in_row obj) t"

datatype governance_error = GovValueError string | InvalidRequestError string string | GovAttributeError string

section \<open>Governance\<close>

definition CLASSIFICATION_LEVELS :: "string list" where
  "CLASSIFICATION_LEVELS = [''public'', ''internal'', ''confidential'', ''restricted'']"

definition classify_data :: "string \<Rightarrow> 'r instance_of \<Rightarrow> (governance_error, 'r instance_of) result" where
  "classify_data level obj =
     (if level \<notin> set CLASSIFICATION_LEVELS
      then Err (GovValueError (''Invalid classification level '' @ [CHR 0x27] @ level @ [CHR 0x27] @ ''. Must be one of ('' @
             py_join '', '' (map (\<lambda>l. [CHR 0x27] @ l @ [CHR 0x27]) CLASSIFICATION_LEVELS) @ '').''))
      else Ok (set_attribute ''_classification'' (JStr level) obj))"

definition should_retire :: "int \<Rightarrow> int option \<Rightarrow> int \<Rightarrow> bool" where
  "should_retire now created retention_days =
     (case created of None \<Rightarrow> False | Some c \<Rightarrow> now > c + retention_days * 86400)"

definition soft_delete :: "int \<Rightarrow> 'r instance_of \<Rightarrow> 'r instance_of" where
  "soft_delete now obj = set_attribute ''deleted_at'' (JInt now) obj"

definition is_deleted :: "'r instance_of \<Rightarrow> bool" where
  "is_deleted obj = (case dict_get (in_attributes obj) ''deleted_at'' of None \<Rightarrow> False | Some v \<Rightarrow> v \<noteq> JNull)"

text \<open>The purge works on models with a \<open>deleted_at\<close> column; none of the program's models has one.\<close>

definition purge_deleted_records ::
  "('r \<Rightarrow> int option) option \<Rightarrow> int \<Rightarrow> int \<Rightarrow> 'r table \<Rightarrow> (governance_error, nat) result \<times> 'r table" where
  "purge_deleted_records column now grace_days t =
     (case column of
        None \<Rightarrow> (Err (GovAttributeError ''deleted_at''), t)
      | Some deleted_at \<Rightarrow>
          (let gone = (\<lambda>(_, r). case deleted_at r of None \<Rightarrow> False | Some d \<Rightarrow> d < now - grace_days * 86400)
           in (Ok (length (filter gone t)), filter (\<lambda>x. \<not> gone x) t)))"

record security_event =
  sv_event_type :: string
  sv_user_id :: "int option"
  sv_organization_id :: "int option"
  sv_details :: metadata
  sv_timestamp :: int

record gov_db =
  gv_access :: acdb
  gv_conversations :: "conversation table"
  gv_messages :: "message table"
  gv_events :: "security_event table"

definition log_governance_event :: "int \<Rightarrow> int \<Rightarrow> string \<Rightarrow> int option \<Rightarrow> metadata option \<Rightarrow> gov_db \<Rightarrow> gov_db" where
  "log_governance_event nid now event_type user_id details db =
     db\<lparr>gv_events := repo_create nid \<lparr>sv_event_type = event_type, sv_user_id = user_id, sv_organization_id = None,
        sv_details = (case details of None \<Rightarrow> [] | Some d \<Rightarrow> d), sv_timestamp = now\<rparr> (gv_events db)\<rparr>"

text \<open>\<open>filter_by\<close> on a name that is no column of the model raises before any row is read.\<close>

definition filter_by :: "string \<Rightarrow> string list \<Rightarrow> string \<Rightarrow> ('r \<Rightarrow> bool) \<Rightarrow> 'r table \<Rightarrow> (governance_error, 'r table) result" where
  "filter_by entity columns name P t = (if name \<in> set columns then Ok (repo_where P t) else Err (InvalidRequestError entity name))"

definition conversation_columns :: "string list" where
  "conversation_columns = [''id'', ''created_at'', ''updated_at'', ''title'', ''organization_id'', ''agent_id'', ''user_id'', ''runtime_version'']"

definition memory_columns :: "string list" where
  "memory_columns = [''id'', ''created_at'', ''updated_at'', ''organization_id'', ''agent_id'', ''conversation_id'', ''memory_type'', ''title'',
     ''content'', ''summary'', ''importance_score'', ''confidence_score'', ''source'', ''created_by'', ''expires_at'', ''archived'', ''is_deleted'']"

definition audit_log_columns :: "string list" where
  "audit_log_columns = [''id'', ''created_at'', ''updated_at'', ''action'', ''resource'', ''resource_id'', ''actor_id'', ''organization_id'', ''status'',
     ''ip_address'', ''extra_metadata'']"

record exported =
  ex_user :: "user_row list"
  ex_conversations :: "conversation table"
  ex_messages :: "message table"

definition export_entity_data :: "int \<Rightarrow> gov_db \<Rightarrow> (governance_error, exported) result" where
  "export_entity_data user_id db =
     (let user = (case repo_get (users (gv_access db)) user_id of None \<Rightarrow> [] | Some u \<Rightarrow> [u]) in
      bind_ok (filter_by ''conversations'' conversation_columns ''user_id'' (\<lambda>c. cv_user_id c = user_id) (gv_conversations db)) (\<lambda>cs.
      let ms = repo_where (\<lambda>m. case repo_get (gv_conversations db) (ms_conversation_id m) of None \<Rightarrow> False | Some c \<Rightarrow> cv_user_id c = user_id)
                 (gv_messages db) in
      bind_ok (filter_by ''memories'' memory_columns ''user_id'' (\<lambda>_. True) ([] :: unit table)) (\<lambda>_.
      bind_ok (filter_by ''audit_logs'' audit_log_columns ''user_id'' (\<lambda>_. True) ([] :: unit table)) (\<lambda>_.
      Ok \<lparr>ex_user = user, ex_conversations = cs, ex_messages = ms\<rparr>))))"

section \<open>Compliance service\<close>

definition export_user_data :: "int \<Rightarrow> int \<Rightarrow> int \<Rightarrow> gov_db \<Rightarrow> (governance_error, exported) result \<times> gov_db" where
  "export_user_data nid now user_id db =
     (case export_entity_data user_id db of
        Inl x \<Rightarrow> (Err x, db)
      | Inr d \<Rightarrow> (Ok d, log_governance_event nid now ''data_export'' (Some user_id)
          (Some [(''tables'', JList (map JStr [''user'', ''conversations'', ''messages'', ''memories'', ''audit_logs'']))]) db))"

definition delete_user_data :: "int \<Rightarrow> int \<Rightarrow> int \<Rightarrow> gov_db \<Rightarrow> gov_db" where
  "delete_user_data nid now user_id db =
     (let db1 = (case repo_get (users (gv_access db)) user_id of
                   None \<Rightarrow> db
                 | Some u \<Rightarrow>
                     (let obj = soft_delete now (load_instance u)
                      in db\<lparr>gv_access := (gv_access db)\<lparr>users := commit_instance user_id obj (users (gv_access db))\<rparr>\<rparr>))
      in log_governance_event nid now ''user_data_deletion'' (Some user_id) (Some [(''action'', JStr ''soft_delete'')]) db1)"

definition scan_for_pii :: "string \<Rightarrow> detection list" where "scan_for_pii text = detect_pii text"

definition sanitize_for_storage :: "string \<Rightarrow> string" where
  "sanitize_for_storage text = redact_pii text None ''[REDACTED]''"

definition log_compliance_event :: "int \<Rightarrow> int \<Rightarrow> string \<Rightarrow> metadata \<Rightarrow> gov_db \<Rightarrow> gov_db" where
  "log_compliance_event nid now event_type details db =
     log_governance_event nid now event_type
       (case dict_get details ''user_id'' of Some (JInt i) \<Rightarrow> Some i | _ \<Rightarrow> None) (Some details) db"

section \<open>What becomes of the rights of a data subject\<close>

lemma commit_soft_delete:
  "repo_get t i = Some r \<Longrightarrow> table_wf t \<Longrightarrow> commit_instance i (soft_delete now (load_instance r)) t = t"
  unfolding commit_instance_def soft_delete_def set_attribute_def load_instance_def repo_update_def
  by (rule map_idI) (auto simp: repo_get_in_set [symmetric] table_wf_def dest: eq_key_imp_eq_value)

text \<open>
  Erasure erases nothing.  Deleting a user's data leaves every row of the user, its roles,
  memberships, conversations and messages as they were, and only adds an event that reports
  the deletion: the user can still log in, and the account read back is not marked as deleted.
  Exporting a user's data always fails, because memories and audit logs have no user column.
\<close>

theorem erasure_without_effect:
  assumes "table_wf (users (gv_access db))"
  shows "gv_access (delete_user_data nid now user_id db) = gv_access db \<and>
    gv_conversations (delete_user_data nid now user_id db) = gv_conversations db \<and>
    gv_messages (delete_user_data nid now user_id db) = gv_messages db \<and>
    map sv_event_type (map snd (gv_events (delete_user_data nid now user_id db))) = map sv_event_type (map snd (gv_events db)) @ [''user_data_deletion''] \<and>
    login verify encode time email password (gv_access (delete_user_data nid now user_id db)) = login verify encode time email password (gv_access db) \<and>
    (case repo_get (users (gv_access (delete_user_data nid now user_id db))) user_id of None \<Rightarrow> True | Some u \<Rightarrow> \<not> is_deleted (load_instance u)) \<and>
    export_user_data nid now user_id db = (Err (InvalidRequestError ''memories'' ''user_id''), db)"
proof -
  have "commit_instance user_id (soft_delete now (load_instance u)) (users (gv_access db)) = users (gv_access db)"
    if "repo_get (users (gv_access db)) user_id = Some u" for u
    using commit_soft_delete [OF that assms] .
  then have access: "gv_access (delete_user_data nid now user_id db) = gv_access db"
    by (simp add: delete_user_data_def log_governance_event_def Let_def split: option.split)
  have rest: "gv_conversations (delete_user_data nid now user_id db) = gv_conversations db"
    "gv_messages (delete_user_data nid now user_id db) = gv_messages db"
    "map sv_event_type (map snd (gv_events (delete_user_data nid now user_id db))) = map sv_event_type (map snd (gv_events db)) @ [''user_data_deletion'']"
    by (simp_all add: delete_user_data_def log_governance_event_def Let_def repo_create_def split: option.split)
  have "export_user_data nid now user_id db = (Err (InvalidRequestError ''memories'' ''user_id''), db)"
    by (simp add: export_user_data_def export_entity_data_def filter_by_def conversation_columns_def memory_columns_def Let_def)
  then show ?thesis by (simp add: access rest is_deleted_def load_instance_def del: map_map split: option.split)
qed

definition subject_db :: gov_db where
  "subject_db = \<lparr>gv_access = \<lparr>users = [(5, \<lparr>u_full_name = ''A'', u_email = ''a@b'', u_password_hash = [], u_is_active = True, u_is_superuser = False\<rparr>)],
     roles = [], permissions = [], user_roles = [], role_permissions = [], organizations = [],
     organization_members = [], teams = [], team_members = [], tools = [], agents = [], agent_tools = []\<rparr>,
     gv_conversations = [], gv_messages = [], gv_events = []\<rparr>"

theorem erasure_without_effect_witness:
  "repo_get (users (gv_access (delete_user_data 1 0 5 subject_db))) 5 \<noteq> None"
proof -
  have "table_wf (users (gv_access subject_db))" by (simp add: subject_db_def table_wf_def)
  from erasure_without_effect [OF this, of 1 0 5] show ?thesis by (simp add: subject_db_def repo_get_def)
qed

end
