(* ===== verification/Directory_Api.thy ===== *)
theory Directory_Api
  imports Endpoint
begin

text \<open>
  The REST endpoints of accounts, roles, permissions, organizations, teams and tools
  (\<open>api/endpoints/*.py\<close>): each endpoint as its dependencies around the service it
  calls, and \<open>serve_directory\<close>, which dispatches a request as the router does.

  A new row takes the key the database gives it (\<open>nid\<close>).  Organizations are listed
  newest first, which is the reverse of the order of insertion.
\<close>

section \<open>Requests and answers\<close>

record user_response =
  ur_id :: int
  ur_full_name :: string
  ur_email :: string
  ur_is_active :: bool
  ur_is_superuser :: bool

definition user_response_of :: "int \<times> user_row \<Rightarrow> user_response" where
  "user_response_of iu = \<lparr>ur_id = fst iu, ur_full_name = u_full_name (snd iu), ur_email = u_email (snd iu),
     ur_is_active = u_is_active (snd iu), ur_is_superuser = u_is_superuser (snd iu)\<rparr>"

datatype directory_answer =
    User_Answer user_response
  | Users_Answer "user_response list"
  | Token_Answer string
  | Named_Answer int named_row
  | Named_List_Answer "(int \<times> named_row) list"
  | Pair_Answer int int int
  | Pair_List_Answer "(int \<times> int \<times> int) list"
  | Org_Answer int org_row
  | Org_List_Answer "(int \<times> org_row) list"
  | Team_Answer int team_row
  | Team_List_Answer "(int \<times> team_row) list"
  | Tool_Answer int tool_row
  | Tool_List_Answer "(int \<times> tool_row) list"
  | Message_Answer string
  | Empty_Answer

type_synonym directory_handler = "(acdb, directory_answer) handler"

section \<open>Accounts\<close>

definition post_register :: "auth_env \<Rightarrow> int \<Rightarrow> string \<Rightarrow> string \<Rightarrow> string \<Rightarrow> directory_handler" where
  "post_register ev nid full_name email password =
     answered 400 (\<lambda>i. User_Answer \<lparr>ur_id = i, ur_full_name = full_name, ur_email = email_normalized email, ur_is_active = True, ur_is_superuser = False\<rparr>)
       (register (au_hash ev) nid full_name email password)"

definition post_login :: "auth_env \<Rightarrow> string \<Rightarrow> string \<Rightarrow> directory_handler" where
  "post_login ev email password db =
     (case login (au_verify ev) (au_encode ev) (au_now ev) email password db of
        Inl x \<Rightarrow> (Err x, db)
      | Inr token \<Rightarrow> (Ok (Token_Answer token), db))"

definition get_user :: "int \<Rightarrow> directory_handler" where
  "get_user user_id db =
     (case repo_get (users db) user_id of
        None \<Rightarrow> (Err (HttpError 404 ''User not found.''), db)
      | Some u \<Rightarrow> (Ok (User_Answer (user_response_of (user_id, u))), db))"

definition get_users :: directory_handler where
  "get_users db = (Ok (Users_Answer (map user_response_of (repo_get_all (users db)))), db)"

definition post_user :: "auth_env \<Rightarrow> int \<Rightarrow> string \<Rightarrow> string \<Rightarrow> string \<Rightarrow> directory_handler" where
  "post_user ev nid full_name email password db =
     (if get_by_email email db \<noteq> None then (Err (HttpError 409 ''Email already exists.''), db)
      else (let u = \<lparr>u_full_name = full_name, u_email = email, u_password_hash = au_hash ev password, u_is_active = True, u_is_superuser = False\<rparr>
            in answered 500 (\<lambda>i. User_Answer (user_response_of (i, u))) (create_user nid u) db))"

definition get_dashboard :: "auth_env \<Rightarrow> credentials \<Rightarrow> directory_handler" where
  "get_dashboard ev cr = depends (superuser ev cr) (\<lambda>cu db. (Ok (Message_Answer (''Welcome Admin '' @ u_full_name (snd cu))), db))"

section \<open>Roles and permissions\<close>

definition get_roles :: "auth_env \<Rightarrow> credentials \<Rightarrow> directory_handler" where
  "get_roles ev cr = depends (permitted_user ''role:read'' ev cr) (\<lambda>_ db. (Ok (Named_List_Answer (repo_get_all (roles db))), db))"

definition get_role :: "auth_env \<Rightarrow> credentials \<Rightarrow> int \<Rightarrow> directory_handler" where
  "get_role ev cr role_id = depends (permitted_user ''role:read'' ev cr) (\<lambda>_ db.
     (case repo_get (roles db) role_id of
        None \<Rightarrow> (Err (HttpError 404 ''Role not found.''), db)
      | Some r \<Rightarrow> (Ok (Named_Answer role_id r), db)))"

definition post_role :: "auth_env \<Rightarrow> credentials \<Rightarrow> int \<Rightarrow> string \<Rightarrow> string option \<Rightarrow> directory_handler" where
  "post_role ev cr nid name descr = depends (permitted_user ''role:create'' ev cr) (\<lambda>_.
     answered 400 (\<lambda>i. Named_Answer i \<lparr>n_name = name, n_description = descr\<rparr>) (create_role nid name descr))"

definition put_role :: "auth_env \<Rightarrow> credentials \<Rightarrow> int \<Rightarrow> string option \<Rightarrow> string option \<Rightarrow> directory_handler" where
  "put_role ev cr role_id name descr = depends (permitted_user ''role:update'' ev cr) (\<lambda>_.
     answered 404 (Named_Answer role_id) (update_role role_id name descr))"

definition delete_role_by_id :: "auth_env \<Rightarrow> credentials \<Rightarrow> int \<Rightarrow> directory_handler" where
  "delete_role_by_id ev cr role_id = depends (permitted_user ''role:delete'' ev cr) (\<lambda>_.
     answered 404 (\<lambda>_. Empty_Answer) (delete_role role_id))"

definition get_permissions :: "auth_env \<Rightarrow> credentials \<Rightarrow> directory_handler" where
  "get_permissions ev cr = depends (permitted_user ''permission:read'' ev cr) (\<lambda>_ db. (Ok (Named_List_Answer (repo_get_all (permissions db))), db))"

definition post_permission :: "auth_env \<Rightarrow> credentials \<Rightarrow> int \<Rightarrow> string \<Rightarrow> string option \<Rightarrow> directory_handler" where
  "post_permission ev cr nid name descr = depends (permitted_user ''permission:create'' ev cr) (\<lambda>_.
     answered 400 (\<lambda>i. Named_Answer i \<lparr>n_name = name, n_description = descr\<rparr>) (create_permission nid name descr))"

definition put_permission :: "auth_env \<Rightarrow> credentials \<Rightarrow> int \<Rightarrow> string option \<Rightarrow> string option \<Rightarrow> directory_handler" where
  "put_permission ev cr permission_id name descr = depends (permitted_user ''permission:update'' ev cr) (\<lambda>_.
     answered 404 (Named_Answer permission_id) (update_permission permission_id name descr))"

definition delete_permission_by_id :: "auth_env \<Rightarrow> credentials \<Rightarrow> int \<Rightarrow> directory_handler" where
  "delete_permission_by_id ev cr permission_id = depends (permitted_user ''permission:delete'' ev cr) (\<lambda>_.
     answered 404 (\<lambda>_. Empty_Answer) (delete_permission permission_id))"

definition post_role_permission :: "auth_env \<Rightarrow> credentials \<Rightarrow> int \<Rightarrow> int \<Rightarrow> int \<Rightarrow> directory_handler" where
  "post_role_permission ev cr nid role_id permission_id = depends (permitted_user ''permission:assign'' ev cr) (\<lambda>_.
     answered 400 (\<lambda>i. Pair_Answer i role_id permission_id) (assign_permission nid role_id permission_id))"

definition delete_role_permission :: "auth_env \<Rightarrow> credentials \<Rightarrow> int \<Rightarrow> int \<Rightarrow> directory_handler" where
  "delete_role_permission ev cr role_id permission_id = depends (permitted_user ''permission:assign'' ev cr) (\<lambda>_.
     answered 404 (\<lambda>_. Message_Answer ''Permission removed successfully.'') (remove_permission role_id permission_id))"

definition post_user_role :: "auth_env \<Rightarrow> credentials \<Rightarrow> int \<Rightarrow> int \<Rightarrow> int \<Rightarrow> directory_handler" where
  "post_user_role ev cr nid user_id role_id = depends (permitted_user ''role:assign'' ev cr) (\<lambda>_.
     answered 400 (\<lambda>i. Pair_Answer i user_id role_id) (assign_role nid user_id role_id))"

definition delete_user_role :: "auth_env \<Rightarrow> credentials \<Rightarrow> int \<Rightarrow> int \<Rightarrow> directory_handler" where
  "delete_user_role ev cr user_id role_id = depends (permitted_user ''role:assign'' ev cr) (\<lambda>_.
     answered 404 (\<lambda>_. Message_Answer ''Role removed successfully.'') (remove_role user_id role_id))"

section \<open>Organizations\<close>

definition with_organization :: "int \<Rightarrow> (org_row \<Rightarrow> directory_handler) \<Rightarrow> directory_handler" where
  "with_organization org body db =
     (case repo_get (organizations db) org of None \<Rightarrow> (Err (HttpError 404 ''Organization not found.''), db) | Some r \<Rightarrow> body r db)"

definition post_organization :: "auth_env \<Rightarrow> credentials \<Rightarrow> int \<Rightarrow> string \<Rightarrow> string \<Rightarrow> string option \<Rightarrow> directory_handler" where
  "post_organization ev cr nid name slug descr = depends (active_user ev cr) (\<lambda>_.
     answered 400 (\<lambda>i. Org_Answer i \<lparr>o_name = name, o_slug = slug, o_description = descr, o_is_active = True\<rparr>)
       (create_organization nid name slug descr))"

definition get_organizations :: "auth_env \<Rightarrow> credentials \<Rightarrow> directory_handler" where
  "get_organizations ev cr = depends (permitted_user ''organization:read'' ev cr)
     (\<lambda>_ db. (Ok (Org_List_Answer (rev (repo_get_all (organizations db)))), db))"

definition get_organization :: "auth_env \<Rightarrow> credentials \<Rightarrow> int \<Rightarrow> directory_handler" where
  "get_organization ev cr org = depends (active_user ev cr) (\<lambda>cu.
     as_member org cu (with_organization org (\<lambda>r db. (Ok (Org_Answer org r), db))))"

definition put_organization :: "auth_env \<Rightarrow> credentials \<Rightarrow> int \<Rightarrow> org_update \<Rightarrow> directory_handler" where
  "put_organization ev cr org upd = depends (permitted_user ''organization:update'' ev cr) (\<lambda>cu.
     as_member org cu (with_organization org (\<lambda>r. answered 500 (Org_Answer org) (update_organization org r upd))))"

definition delete_organization_by_id :: "auth_env \<Rightarrow> credentials \<Rightarrow> int \<Rightarrow> directory_handler" where
  "delete_organization_by_id ev cr org = depends (permitted_user ''organization:delete'' ev cr) (\<lambda>cu.
     as_member org cu (with_organization org (\<lambda>_ db. (Ok Empty_Answer, delete_organization org db))))"

definition post_member :: "auth_env \<Rightarrow> credentials \<Rightarrow> int \<Rightarrow> int \<Rightarrow> int \<Rightarrow> directory_handler" where
  "post_member ev cr nid org user_id = depends (permitted_user ''organization:update'' ev cr) (\<lambda>cu.
     as_member org cu (answered 400 (\<lambda>i. Pair_Answer i org user_id) (add_organization_member nid org user_id)))"

definition get_members :: "auth_env \<Rightarrow> credentials \<Rightarrow> int \<Rightarrow> directory_handler" where
  "get_members ev cr org = depends (active_user ev cr) (\<lambda>cu.
     as_member org cu (\<lambda>db. (Ok (Pair_List_Answer (get_organization_members org db)), db)))"

definition get_memberships :: "auth_env \<Rightarrow> credentials \<Rightarrow> int \<Rightarrow> directory_handler" where
  "get_memberships ev cr user_id = depends (active_user ev cr) (\<lambda>cu db.
     (if \<not> u_is_superuser (snd cu) \<and> fst cu \<noteq> user_id
      then (Err (HttpError 403 ''You can only list your own memberships.''), db)
      else (Ok (Pair_List_Answer (get_user_organizations user_id db)), db)))"

definition delete_member :: "auth_env \<Rightarrow> credentials \<Rightarrow> int \<Rightarrow> int \<Rightarrow> directory_handler" where
  "delete_member ev cr org user_id = depends (permitted_user ''organization:update'' ev cr) (\<lambda>cu.
     as_member org cu (answered 404 (\<lambda>_. Empty_Answer) (remove_organization_member org user_id)))"

section \<open>Teams\<close>

text \<open>The team endpoints have no dependency but the database.\<close>

definition with_team :: "int \<Rightarrow> (team_row \<Rightarrow> directory_handler) \<Rightarrow> directory_handler" where
  "with_team i body db =
     (case repo_get (teams db) i of None \<Rightarrow> (Err (HttpError 404 ''Team not found.''), db) | Some r \<Rightarrow> body r db)"

definition post_team :: "int \<Rightarrow> int \<Rightarrow> string \<Rightarrow> string option \<Rightarrow> directory_handler" where
  "post_team nid org name descr =
     answered 400 (\<lambda>i. Team_Answer i \<lparr>t_organization_id = org, t_name = name, t_description = descr\<rparr>) (create_team nid org name descr)"

definition get_teams :: "int \<Rightarrow> directory_handler" where
  "get_teams org db = (Ok (Team_List_Answer (list_teams org db)), db)"

definition get_team :: "int \<Rightarrow> directory_handler" where
  "get_team i = with_team i (\<lambda>r db. (Ok (Team_Answer i r), db))"

definition put_team :: "int \<Rightarrow> string option field \<Rightarrow> string option field \<Rightarrow> directory_handler" where
  "put_team i name descr = with_team i (\<lambda>r. answered 500 (Team_Answer i) (update_team i r name descr))"

definition delete_team_by_id :: "int \<Rightarrow> directory_handler" where
  "delete_team_by_id i = with_team i (\<lambda>_ db. (Ok Empty_Answer, delete_team i db))"

definition post_team_member :: "int \<Rightarrow> int \<Rightarrow> int \<Rightarrow> directory_handler" where
  "post_team_member nid team_id user_id = answered 400 (\<lambda>i. Pair_Answer i team_id user_id) (add_team_member nid team_id user_id)"

definition list_team_members :: "int \<Rightarrow> directory_handler" where
  "list_team_members team_id db = (Ok (Pair_List_Answer (get_team_members team_id db)), db)"

definition delete_team_member :: "int \<Rightarrow> int \<Rightarrow> directory_handler" where
  "delete_team_member team_id user_id = answered 404 (\<lambda>_. Empty_Answer) (remove_team_member team_id user_id)"

section \<open>Tools\<close>

definition with_tool :: "int \<Rightarrow> (tool_row \<Rightarrow> directory_handler) \<Rightarrow> directory_handler" where
  "with_tool i body db =
     (case repo_get (tools db) i of None \<Rightarrow> (Err (HttpError 404 ''Tool not found.''), db) | Some r \<Rightarrow> body r db)"

definition post_tool :: "auth_env \<Rightarrow> credentials \<Rightarrow> int \<Rightarrow> string \<Rightarrow> string \<Rightarrow> directory_handler" where
  "post_tool ev cr nid name descr = depends (permitted_user ''tool:create'' ev cr) (\<lambda>_.
     answered 400 (\<lambda>i. Tool_Answer i \<lparr>tl_name = name, tl_description = descr\<rparr>) (create_tool nid name descr))"

definition get_tools :: "auth_env \<Rightarrow> credentials \<Rightarrow> directory_handler" where
  "get_tools ev cr = depends (active_user ev cr) (\<lambda>_ db. (Ok (Tool_List_Answer (repo_get_all (tools db))), db))"

definition get_tool :: "auth_env \<Rightarrow> credentials \<Rightarrow> int \<Rightarrow> directory_handler" where
  "get_tool ev cr i = depends (active_user ev cr) (\<lambda>_. with_tool i (\<lambda>r db. (Ok (Tool_Answer i r), db)))"

definition put_tool :: "auth_env \<Rightarrow> credentials \<Rightarrow> int \<Rightarrow> string option field \<Rightarrow> string option field \<Rightarrow> directory_handler" where
  "put_tool ev cr i name descr = depends (permitted_user ''tool:update'' ev cr) (\<lambda>_.
     with_tool i (\<lambda>r. answered 500 (Tool_Answer i) (update_tool i r name descr)))"

definition delete_tool_by_id :: "auth_env \<Rightarrow> credentials \<Rightarrow> int \<Rightarrow> directory_handler" where
  "delete_tool_by_id ev cr i = depends (permitted_user ''tool:delete'' ev cr) (\<lambda>_.
     with_tool i (\<lambda>_ db. (Ok Empty_Answer, delete_tool i db)))"

definition post_agent_tool :: "auth_env \<Rightarrow> credentials \<Rightarrow> int \<Rightarrow> int \<Rightarrow> int \<Rightarrow> directory_handler" where
  "post_agent_tool ev cr nid agent_id tool_id = depends (permitted_user ''agent:update'' ev cr) (\<lambda>_.
     answered 400 (\<lambda>i. Pair_Answer i agent_id tool_id) (assign_tool nid agent_id tool_id))"

definition get_agent_tools :: "auth_env \<Rightarrow> credentials \<Rightarrow> int \<Rightarrow> directory_handler" where
  "get_agent_tools ev cr agent_id = depends (active_user ev cr) (\<lambda>_ db. (Ok (Pair_List_Answer (list_agent_tools agent_id db)), db))"

definition delete_agent_tool :: "auth_env \<Rightarrow> credentials \<Rightarrow> int \<Rightarrow> int \<Rightarrow> directory_handler" where
  "delete_agent_tool ev cr agent_id tool_id = depends (permitted_user ''agent:update'' ev cr) (\<lambda>_.
     answered 404 (\<lambda>_. Empty_Answer) (remove_tool agent_id tool_id))"

section \<open>The router\<close>

datatype account_request =
    Register string string string
  | Login string string
  | Get_User int
  | Get_Users
  | Post_User string string string
  | Get_Dashboard

datatype rbac_request =
    Get_Roles
  | Get_Role int
  | Post_Role string "string option"
  | Put_Role int "string option" "string option"
  | Delete_Role int
  | Get_Permissions
  | Post_Permission string "string option"
  | Put_Permission int "string option" "string option"
  | Delete_Permission int
  | Post_Role_Permission int int
  | Delete_Role_Permission int int
  | Post_User_Role int int
  | Delete_User_Role int int

datatype organization_request =
    Post_Organization string string "string option"
  | Get_Organizations
  | Get_Organization int
  | Put_Organization int org_update
  | Delete_Organization int
  | Post_Member int int
  | Get_Members int
  | Get_Memberships int
  | Delete_Member int int

datatype team_request =
    Post_Team int string "string option"
  | Get_Teams int
  | Get_Team int
  | Put_Team int "string option field" "string option field"
  | Delete_Team int
  | Post_Team_Member int int
  | Get_Team_Members int
  | Delete_Team_Member int int

datatype toolbox_request =
    Post_Tool string string
  | Get_Tools
  | Get_Tool int
  | Put_Tool int "string option field" "string option field"
  | Delete_Tool int
  | Post_Agent_Tool int int
  | Get_Agent_Tools int
  | Delete_Agent_Tool int int

datatype directory_request =
    Account_Request account_request
  | Rbac_Request rbac_request
  | Organization_Request organization_request
  | Team_Request team_request
  | Tool_Request toolbox_request

primrec serve_account :: "auth_env \<Rightarrow> credentials \<Rightarrow> int \<Rightarrow> account_request \<Rightarrow> directory_handler" where
  "serve_account ev cr nid (Register n e p) = post_register ev nid n e p"
| "serve_account ev cr nid (Login e p) = post_login ev e p"
| "serve_account ev cr nid (Get_User i) = get_user i"
| "serve_account ev cr nid Get_Users = get_users"
| "serve_account ev cr nid (Post_User n e p) = post_user ev nid n e p"
| "serve_account ev cr nid Get_Dashboard = get_dashboard ev cr"

primrec serve_rbac :: "auth_env \<Rightarrow> credentials \<Rightarrow> int \<Rightarrow> rbac_request \<Rightarrow> directory_handler" where
  "serve_rbac ev cr nid Get_Roles = get_roles ev cr"
| "serve_rbac ev cr nid (Get_Role i) = get_role ev cr i"
| "serve_rbac ev cr nid (Post_Role n d) = post_role ev cr nid n d"
| "serve_rbac ev cr nid (Put_Role i n d) = put_role ev cr i n d"
| "serve_rbac ev cr nid (Delete_Role i) = delete_role_by_id ev cr i"
| "serve_rbac ev cr nid Get_Permissions = get_permissions ev cr"
| "serve_rbac ev cr nid (Post_Permission n d) = post_permission ev cr nid n d"
| "serve_rbac ev cr nid (Put_Permission i n d) = put_permission ev cr i n d"
| "serve_rbac ev cr nid (Delete_Permission i) = delete_permission_by_id ev cr i"
| "serve_rbac ev cr nid (Post_Role_Permission r p) = post_role_permission ev cr nid r p"
| "serve_rbac ev cr nid (Delete_Role_Permission r p) = delete_role_permission ev cr r p"
| "serve_rbac ev cr nid (Post_User_Role u r) = post_user_role ev cr nid u r"
| "serve_rbac ev cr nid (Delete_User_Role u r) = delete_user_role ev cr u r"

primrec serve_organization :: "auth_env \<Rightarrow> credentials \<Rightarrow> int \<Rightarrow> organization_request \<Rightarrow> directory_handler" where
  "serve_organization ev cr nid (Post_Organization n s d) = post_organization ev cr nid n s d"
| "serve_organization ev cr nid Get_Organizations = get_organizations ev cr"
| "serve_organization ev cr nid (Get_Organization g) = get_organization ev cr g"
| "serve_organization ev cr nid (Put_Organization g upd) = put_organization ev cr g upd"
| "serve_organization ev cr nid (Delete_Organization g) = delete_organization_by_id ev cr g"
| "serve_organization ev cr nid (Post_Member g u) = post_member ev cr nid g u"
| "serve_organization ev cr nid (Get_Members g) = get_members ev cr g"
| "serve_organization ev cr nid (Get_Memberships u) = get_memberships ev cr u"
| "serve_organization ev cr nid (Delete_Member g u) = delete_member ev cr g u"

primrec serve_team :: "auth_env \<Rightarrow> credentials \<Rightarrow> int \<Rightarrow> team_request \<Rightarrow> directory_handler" where
  "serve_team ev cr nid (Post_Team g n d) = post_team nid g n d"
| "serve_team ev cr nid (Get_Teams g) = get_teams g"
| "serve_team ev cr nid (Get_Team i) = get_team i"
| "serve_team ev cr nid (Put_Team i n d) = put_team i n d"
| "serve_team ev cr nid (Delete_Team i) = delete_team_by_id i"
| "serve_team ev cr nid (Post_Team_Member t u) = post_team_member nid t u"
| "serve_team ev cr nid (Get_Team_Members t) = list_team_members t"
| "serve_team ev cr nid (Delete_Team_Member t u) = delete_team_member t u"

primrec serve_tool :: "auth_env \<Rightarrow> credentials \<Rightarrow> int \<Rightarrow> toolbox_request \<Rightarrow> directory_handler" where
  "serve_tool ev cr nid (Post_Tool n d) = post_tool ev cr nid n d"
| "serve_tool ev cr nid Get_Tools = get_tools ev cr"
| "serve_tool ev cr nid (Get_Tool i) = get_tool ev cr i"
| "serve_tool ev cr nid (Put_Tool i n d) = put_tool ev cr i n d"
| "serve_tool ev cr nid (Delete_Tool i) = delete_tool_by_id ev cr i"
| "serve_tool ev cr nid (Post_Agent_Tool a t) = post_agent_tool ev cr nid a t"
| "serve_tool ev cr nid (Get_Agent_Tools a) = get_agent_tools ev cr a"
| "serve_tool ev cr nid (Delete_Agent_Tool a t) = delete_agent_tool ev cr a t"

primrec serve_directory :: "auth_env \<Rightarrow> credentials \<Rightarrow> int \<Rightarrow> directory_request \<Rightarrow> directory_handler" where
  "serve_directory ev cr nid (Account_Request req) = serve_account ev cr nid req"
| "serve_directory ev cr nid (Rbac_Request req) = serve_rbac ev cr nid req"
| "serve_directory ev cr nid (Organization_Request req) = serve_organization ev cr nid req"
| "serve_directory ev cr nid (Team_Request req) = serve_team ev cr nid req"
| "serve_directory ev cr nid (Tool_Request req) = serve_tool ev cr nid req"

end
