(* ===== verification/Directory_Security.thy ===== *)
theory Directory_Security
  imports Directory_Api
begin

text \<open>
  What the directory endpoints guarantee: every request performs at most one service
  operation, so that the integrity of \<open>Access_Invariant\<close> is kept; which requests work
  without authentication; who can change privileges; who can change an organization; and
  which accounts can never log in.
\<close>

section \<open>One request, one operation\<close>

text \<open>The table a request adds a row to, if any; the key of the new row is one that this table does not have yet.\<close>

datatype row_kind =
    No_Row
  | User_Row
  | Role_Row
  | Permission_Row
  | User_Role_Row
  | Role_Permission_Row
  | Organization_Row
  | Member_Row
  | Team_Row
  | Team_Member_Row
  | Tool_Row
  | Agent_Tool_Row

fun keys_of :: "row_kind \<Rightarrow> acdb \<Rightarrow> int set" where
  "keys_of No_Row db = {}"
| "keys_of User_Row db = ids (users db)"
| "keys_of Role_Row db = ids (roles db)"
| "keys_of Permission_Row db = ids (permissions db)"
| "keys_of User_Role_Row db = ids (user_roles db)"
| "keys_of Role_Permission_Row db = ids (role_permissions db)"
| "keys_of Organization_Row db = ids (organizations db)"
| "keys_of Member_Row db = ids (organization_members db)"
| "keys_of Team_Row db = ids (teams db)"
| "keys_of Team_Member_Row db = ids (team_members db)"
| "keys_of Tool_Row db = ids (tools db)"
| "keys_of Agent_Tool_Row db = ids (agent_tools db)"

fun new_row :: "directory_request \<Rightarrow> row_kind" where
  "new_row (Account_Request (Register _ _ _)) = User_Row"
| "new_row (Account_Request (Post_User _ _ _)) = User_Row"
| "new_row (Rbac_Request (Post_Role _ _)) = Role_Row"
| "new_row (Rbac_Request (Post_Permission _ _)) = Permission_Row"
| "new_row (Rbac_Request (Post_Role_Permission _ _)) = Role_Permission_Row"
| "new_row (Rbac_Request (Post_User_Role _ _)) = User_Role_Row"
| "new_row (Organization_Request (Post_Organization _ _ _)) = Organization_Row"
| "new_row (Organization_Request (Post_Member _ _)) = Member_Row"
| "new_row (Team_Request (Post_Team _ _ _)) = Team_Row"
| "new_row (Team_Request (Post_Team_Member _ _)) = Team_Member_Row"
| "new_row (Tool_Request (Post_Tool _ _)) = Tool_Row"
| "new_row (Tool_Request (Post_Agent_Tool _ _)) = Agent_Tool_Row"
| "new_row _ = No_Row"

definition fresh_key :: "int \<Rightarrow> row_kind \<Rightarrow> acdb \<Rightarrow> bool" where
  "fresh_key n k db \<longleftrightarrow> n \<notin> keys_of k db"

definition belongs :: "int \<Rightarrow> acdb \<Rightarrow> int \<times> user_row \<Rightarrow> bool" where
  "belongs org db cu \<longleftrightarrow> u_is_superuser (snd cu) \<or> is_member org (fst cu) db"

text \<open>
  The access matrix: which service operations a request may perform, and what the
  caller has to be.  \<open>who\<close> is the authenticated caller, if there is one.
\<close>

inductive change :: "int \<Rightarrow> row_kind \<Rightarrow> acdb \<Rightarrow> (int \<times> user_row) option \<Rightarrow> acdb \<Rightarrow> bool" for nid k db who where
  new_user: "k = User_Row \<Longrightarrow> \<not> u_is_superuser u \<Longrightarrow> change nid k db who (snd (create_user nid u db))"
| new_role: "k = Role_Row \<Longrightarrow> who = Some cu \<Longrightarrow> may ''role:create'' db cu \<Longrightarrow> change nid k db who (snd (create_role nid nm d db))"
| edit_role: "who = Some cu \<Longrightarrow> may ''role:update'' db cu \<Longrightarrow> change nid k db who (snd (update_role i nm' d db))"
| drop_role: "who = Some cu \<Longrightarrow> may ''role:delete'' db cu \<Longrightarrow> change nid k db who (snd (delete_role i db))"
| new_permission: "k = Permission_Row \<Longrightarrow> who = Some cu \<Longrightarrow> may ''permission:create'' db cu \<Longrightarrow> change nid k db who (snd (create_permission nid nm d db))"
| edit_permission: "who = Some cu \<Longrightarrow> may ''permission:update'' db cu \<Longrightarrow> change nid k db who (snd (update_permission i nm' d db))"
| drop_permission: "who = Some cu \<Longrightarrow> may ''permission:delete'' db cu \<Longrightarrow> change nid k db who (snd (delete_permission i db))"
| grant_permission: "k = Role_Permission_Row \<Longrightarrow> who = Some cu \<Longrightarrow> may ''permission:assign'' db cu \<Longrightarrow> change nid k db who (snd (assign_permission nid r p db))"
| revoke_permission: "who = Some cu \<Longrightarrow> may ''permission:assign'' db cu \<Longrightarrow> change nid k db who (snd (remove_permission r p db))"
| grant_role: "k = User_Role_Row \<Longrightarrow> who = Some cu \<Longrightarrow> may ''role:assign'' db cu \<Longrightarrow> change nid k db who (snd (assign_role nid u' r db))"
| revoke_role: "who = Some cu \<Longrightarrow> may ''role:assign'' db cu \<Longrightarrow> change nid k db who (snd (remove_role u' r db))"
| new_organization: "k = Organization_Row \<Longrightarrow> who = Some cu \<Longrightarrow> is_active_user db cu \<Longrightarrow> change nid k db who (snd (create_organization nid nm sl d db))"
| edit_organization: "who = Some cu \<Longrightarrow> may ''organization:update'' db cu \<Longrightarrow> belongs g db cu \<Longrightarrow>
    change nid k db who (snd (update_organization g row upd db))"
| drop_organization: "who = Some cu \<Longrightarrow> may ''organization:delete'' db cu \<Longrightarrow> belongs g db cu \<Longrightarrow>
    change nid k db who (delete_organization g db)"
| new_member: "k = Member_Row \<Longrightarrow> who = Some cu \<Longrightarrow> may ''organization:update'' db cu \<Longrightarrow> belongs g db cu \<Longrightarrow>
    change nid k db who (snd (add_organization_member nid g u' db))"
| drop_member: "who = Some cu \<Longrightarrow> may ''organization:update'' db cu \<Longrightarrow> belongs g db cu \<Longrightarrow>
    change nid k db who (snd (remove_organization_member g u' db))"
| new_team: "k = Team_Row \<Longrightarrow> change nid k db who (snd (create_team nid g nm d db))"
| edit_team: "repo_get (teams db) i = Some team \<Longrightarrow> change nid k db who (snd (update_team i team nf df db))"
| drop_team: "change nid k db who (delete_team i db)"
| new_team_member: "k = Team_Member_Row \<Longrightarrow> change nid k db who (snd (add_team_member nid i u' db))"
| drop_team_member: "change nid k db who (snd (remove_team_member i u' db))"
| new_tool: "k = Tool_Row \<Longrightarrow> who = Some cu \<Longrightarrow> may ''tool:create'' db cu \<Longrightarrow> change nid k db who (snd (create_tool nid nm ds db))"
| edit_tool: "who = Some cu \<Longrightarrow> may ''tool:update'' db cu \<Longrightarrow> change nid k db who (snd (update_tool i tool nf df db))"
| drop_tool: "who = Some cu \<Longrightarrow> may ''tool:delete'' db cu \<Longrightarrow> change nid k db who (delete_tool i db)"
| grant_tool: "k = Agent_Tool_Row \<Longrightarrow> who = Some cu \<Longrightarrow> may ''agent:update'' db cu \<Longrightarrow> change nid k db who (snd (assign_tool nid a t db))"
| revoke_tool: "who = Some cu \<Longrightarrow> may ''agent:update'' db cu \<Longrightarrow> change nid k db who (snd (remove_tool a t db))"

definition caller :: "auth_env \<Rightarrow> credentials \<Rightarrow> acdb \<Rightarrow> (int \<times> user_row) option" where
  "caller ev cr db = (case active_user ev cr db of Inl _ \<Rightarrow> None | Inr cu \<Rightarrow> Some cu)"

definition lawful :: "int \<Rightarrow> row_kind \<Rightarrow> acdb \<Rightarrow> (int \<times> user_row) option \<Rightarrow> acdb \<Rightarrow> bool" where
  "lawful nid k db who db' \<longleftrightarrow> db' = db \<or> change nid k db who db'"

lemma lawful_same [simp]: "lawful nid k db who db"
  by (simp add: lawful_def)

lemma lawful_change: "change nid k db who db' \<Longrightarrow> lawful nid k db who db'"
  by (simp add: lawful_def)

lemma caller_permitted: "permitted_user p ev cr db = Inr cu \<Longrightarrow> caller ev cr db = Some cu"
  by (auto simp: permitted_user_def caller_def bind_ok_eq_Inr RequirePermission_def split: if_splits)

lemma lawful_active:
  "(\<And>cu. caller ev cr db = Some cu \<Longrightarrow> is_active_user db cu \<Longrightarrow> lawful nid k db (caller ev cr db) (snd (body cu db))) \<Longrightarrow>
   lawful nid k db (caller ev cr db) (snd (depends (active_user ev cr) body db))"
  by (rule active.preserves) (simp_all add: caller_def)

lemma lawful_super:
  "(\<And>cu. snd (body cu db) = db) \<Longrightarrow> lawful nid k db who (snd (depends (superuser ev cr) body db))"
  by (rule super.preserves) simp_all

lemma lawful_permitted:
  "(\<And>cu. caller ev cr db = Some cu \<Longrightarrow> may p db cu \<Longrightarrow> lawful nid k db (caller ev cr db) (snd (body cu db))) \<Longrightarrow>
   lawful nid k db (caller ev cr db) (snd (depends (permitted_user p ev cr) body db))"
  by (rule permitted.preserves) (simp_all add: caller_permitted)

lemma lawful_member:
  "(belongs org db cu \<Longrightarrow> lawful nid k db who (snd (body db))) \<Longrightarrow> lawful nid k db who (snd (as_member org cu body db))"
  by (rule as_member_preserves) (simp_all add: belongs_def)

lemma lawful_row:
  "(\<And>r. repo_get (organizations db) i = Some r \<Longrightarrow> lawful nid k db who (snd (body r db))) \<Longrightarrow> lawful nid k db who (snd (with_organization i body db))"
  "(\<And>q. repo_get (teams db) i = Some q \<Longrightarrow> lawful nid k db who (snd (body' q db))) \<Longrightarrow> lawful nid k db who (snd (with_team i body' db))"
  "(\<And>t. repo_get (tools db) i = Some t \<Longrightarrow> lawful nid k db who (snd (body'' t db))) \<Longrightarrow> lawful nid k db who (snd (with_tool i body'' db))"
  by (simp_all add: with_organization_def with_team_def with_tool_def split: option.split)

lemmas lawful_intros = lawful_active lawful_super lawful_permitted lawful_member lawful_row
lemmas change_rules = change.intros [THEN lawful_change]

lemmas rbac_endpoint_defs = get_roles_def get_role_def post_role_def put_role_def delete_role_by_id_def get_permissions_def post_permission_def
  put_permission_def delete_permission_by_id_def post_role_permission_def delete_role_permission_def post_user_role_def delete_user_role_def
lemmas organization_endpoint_defs = post_organization_def get_organizations_def get_organization_def put_organization_def
  delete_organization_by_id_def post_member_def get_members_def get_memberships_def delete_member_def
lemmas team_endpoint_defs = post_team_def get_teams_def get_team_def put_team_def delete_team_by_id_def post_team_member_def
  list_team_members_def delete_team_member_def
lemmas tool_endpoint_defs = post_tool_def get_tools_def get_tool_def put_tool_def delete_tool_by_id_def post_agent_tool_def
  get_agent_tools_def delete_agent_tool_def

lemma lawful_register: "lawful nid User_Row db who (snd (register h nid nm e p db))"
  by (simp add: register_def change_rules(1))

lemma account_lawful: "lawful nid (new_row (Account_Request req)) db (caller ev cr db) (snd (serve_account ev cr nid req db))"
  by (cases req)
    (auto simp: post_register_def post_login_def get_user_def get_users_def post_user_def get_dashboard_def Let_def
      intro!: lawful_super lawful_register change_rules(1) split: sum.split option.split)

lemma rbac_lawful: "lawful nid (new_row (Rbac_Request req)) db (caller ev cr db) (snd (serve_rbac ev cr nid req db))"
  by (cases req)
    (auto simp: rbac_endpoint_defs intro!: lawful_intros intro: change_rules split: option.split)

lemma organization_lawful: "lawful nid (new_row (Organization_Request req)) db (caller ev cr db) (snd (serve_organization ev cr nid req db))"
  by (cases req)
    (auto simp: organization_endpoint_defs intro!: lawful_intros intro: change_rules)

lemma team_lawful: "lawful nid (new_row (Team_Request req)) db (caller ev cr db) (snd (serve_team ev cr nid req db))"
  by (cases req)
    (auto simp: team_endpoint_defs intro!: lawful_intros intro: change_rules)

lemma tool_lawful: "lawful nid (new_row (Tool_Request req)) db (caller ev cr db) (snd (serve_tool ev cr nid req db))"
  by (cases req)
    (auto simp: tool_endpoint_defs intro!: lawful_intros intro: change_rules)

lemma serve_lawful: "lawful nid (new_row req) db (caller ev cr db) (snd (serve_directory ev cr nid req db))"
  by (cases req) (simp_all add: account_lawful rbac_lawful organization_lawful team_lawful tool_lawful)

lemma change_ac_step: "change n k db who db' \<Longrightarrow> fresh_key n k db \<Longrightarrow> ac_step db db'"
  by (induction rule: change.induct) (auto simp: fresh_key_def intro: ac_step.intros)

lemma serve_ac_step: "fresh_key nid (new_row req) db \<Longrightarrow> ac_step\<^sup>=\<^sup>= db (snd (serve_directory ev cr nid req db))"
  using serve_lawful [of nid req db ev cr] by (auto simp: lawful_def dest: change_ac_step)

text \<open>Histories: requests one after the other, each with its own token, clock and new key.\<close>

inductive directory_run :: "acdb \<Rightarrow> acdb \<Rightarrow> bool" where
  idle: "directory_run db db"
| request: "directory_run db db' \<Longrightarrow> fresh_key nid (new_row req) db' \<Longrightarrow> directory_run db (snd (serve_directory ev cr nid req db'))"

lemma directory_run_steps: "directory_run db db' \<Longrightarrow> ac_step\<^sup>*\<^sup>* db db'"
proof (induction rule: directory_run.induct)
  case (request db db' nid req ev cr)
  with serve_ac_step [of nid req db' ev cr] show ?case by auto
qed simp

lemma ac_steps_wf: "ac_step\<^sup>*\<^sup>* db db' \<Longrightarrow> acdb_wf db \<Longrightarrow> acdb_wf db'"
  by (induction rule: rtranclp_induct) (auto intro: ac_step_wf)

lemma directory_run_wf: "directory_run db db' \<Longrightarrow> acdb_wf db \<Longrightarrow> acdb_wf db'"
  using directory_run_steps ac_steps_wf by blast

section \<open>Authentication\<close>

definition open_endpoint :: "directory_request \<Rightarrow> bool" where
  "open_endpoint req = (case req of Account_Request r \<Rightarrow> r \<noteq> Get_Dashboard | Team_Request _ \<Rightarrow> True | _ \<Rightarrow> False)"

lemma open_endpoint_same:
  "r \<noteq> Get_Dashboard \<Longrightarrow> serve_account ev cr nid r = serve_account ev cr' nid r"
  "serve_team ev cr nid t = serve_team ev cr' nid t"
  by (cases r; simp) (cases t; simp)

lemma closed_refused:
  assumes "active_user ev cr db = Inl x"
  shows "serve_account ev cr nid Get_Dashboard db = (Err x, db)" and "serve_rbac ev cr nid r db = (Err x, db)"
    and "serve_organization ev cr nid g db = (Err x, db)" and "serve_tool ev cr nid t db = (Err x, db)"
proof -
  note refuse = depends_def assms unauthenticated [OF assms]
  show "serve_account ev cr nid Get_Dashboard db = (Err x, db)" by (simp add: get_dashboard_def refuse)
  show "serve_rbac ev cr nid r db = (Err x, db)" by (cases r) (simp_all add: rbac_endpoint_defs refuse)
  show "serve_organization ev cr nid g db = (Err x, db)" by (cases g) (simp_all add: organization_endpoint_defs refuse)
  show "serve_tool ev cr nid t db = (Err x, db)" by (cases t) (simp_all add: tool_endpoint_defs refuse)
qed

text \<open>
  C7: The authentication boundary.  The requests to the user, team and team member endpoints and
  the two of registration and login behave the same whatever token they carry, none included;
  every other request without the token of an active user is refused with the error of the
  authentication and changes nothing.
\<close>

theorem authentication_boundary:
  "(open_endpoint req \<longrightarrow> serve_directory ev cr nid req db = serve_directory ev cr' nid req db) \<and>
   (\<not> open_endpoint req \<longrightarrow> active_user ev cr db = Err x \<longrightarrow> serve_directory ev cr nid req db = (Err x, db))"
proof (cases req)
  case (Account_Request r)
  then show ?thesis using open_endpoint_same(1) [of r ev cr nid cr'] closed_refused(1) by (auto simp: open_endpoint_def)
next
  case (Team_Request t)
  then show ?thesis using open_endpoint_same(2) [of ev cr nid t cr'] by (simp add: open_endpoint_def)
qed (simp_all add: open_endpoint_def closed_refused)

section \<open>Privileges\<close>

lemma holds_frame [simp]:
  "holds_permission u nm (db\<lparr>users := a\<rparr>) = holds_permission u nm db" "holds_permission u nm (db\<lparr>roles := b\<rparr>) = holds_permission u nm db"
  "holds_permission u nm (db\<lparr>organizations := c\<rparr>) = holds_permission u nm db"
  "holds_permission u nm (db\<lparr>organization_members := d\<rparr>) = holds_permission u nm db"
  "holds_permission u nm (db\<lparr>teams := e\<rparr>) = holds_permission u nm db" "holds_permission u nm (db\<lparr>team_members := f\<rparr>) = holds_permission u nm db"
  "holds_permission u nm (db\<lparr>tools := g\<rparr>) = holds_permission u nm db" "holds_permission u nm (db\<lparr>agents := h\<rparr>) = holds_permission u nm db"
  "holds_permission u nm (db\<lparr>agent_tools := k\<rparr>) = holds_permission u nm db"
  by (simp_all add: holds_permission_def)

lemma holds_new_permission:
  assumes "acdb_wf db" and "n \<notin> ids (permissions db)"
  shows "holds_permission u name (snd (create_permission n nm d db)) = holds_permission u name db"
proof -
  have "(r, n) \<notin> rows (role_permissions db)" for r
    using assms by (auto simp: wf_defs refs_iff pair_rows_iff)
  then show ?thesis
    by (auto simp: holds_permission_def create_permission_def set_repo_create)
qed

definition privileged :: "acdb \<Rightarrow> (int \<times> user_row) option \<Rightarrow> bool" where
  "privileged db who = (case who of None \<Rightarrow> False | Some cu \<Rightarrow> u_is_superuser (snd cu) \<or> list_ex (\<lambda>p. holds_permission (fst cu) p db)
     [''role:assign'', ''role:delete'', ''permission:assign'', ''permission:update'', ''permission:delete''])"

lemmas service_defs = create_user_def create_role_def update_role_def delete_role_def create_permission_def update_permission_def
  delete_permission_def assign_permission_def remove_permission_def assign_role_def remove_role_def create_organization_def
  update_organization_def add_organization_member_def remove_organization_member_def create_team_def update_team_def
  delete_team_def add_team_member_def remove_team_member_def create_tool_def update_tool_def delete_tool_def assign_tool_def remove_tool_def

lemma change_privileges:
  "change n k db who db' \<Longrightarrow> acdb_wf db \<Longrightarrow> fresh_key n k db \<Longrightarrow>
   privileged db who \<or> holds_permission u name db' = holds_permission u name db"
proof (induction rule: change.induct)
  case (new_permission cu nm d)
  then show ?case by (simp add: holds_new_permission fresh_key_def)
qed (auto simp: privileged_def may_def service_defs delete_organization_def Let_def split: option.split)

lemma change_users:
  "change n k db who db' \<Longrightarrow> users db' = users db \<or> (\<exists>u. \<not> u_is_superuser u \<and> users db' = repo_create n u (users db))"
  by (induction rule: change.induct)
    (auto simp: service_defs delete_organization_def Let_def split: option.split)

text \<open>
  C3: No privilege without authority.  A request changes what some user is permitted to do only if it
  comes from an active user that is a superuser or holds a permission to assign or delete roles
  or to assign, rename or delete permissions; and no request makes anybody a superuser.
\<close>

theorem privileges_need_authority:
  assumes "acdb_wf db" and "fresh_key nid (new_row req) db"
  shows "let db' = snd (serve_directory ev cr nid req db) in
    (holds_permission u name db' \<noteq> holds_permission u name db \<longrightarrow>
      (\<exists>i r. active_user ev cr db = Ok (i, r) \<and> (u_is_superuser r \<or> list_ex (\<lambda>p. holds_permission i p db)
         [''role:assign'', ''role:delete'', ''permission:assign'', ''permission:update'', ''permission:delete'']))) \<and>
    (\<forall>i r. (i, r) \<in> set (users db') \<and> u_is_superuser r \<longrightarrow> (i, r) \<in> set (users db))"
proof -
  define db' where "db' = snd (serve_directory ev cr nid req db)"
  have law: "lawful nid (new_row req) db (caller ev cr db) db'" unfolding db'_def by (rule serve_lawful)
  have "privileged db (caller ev cr db)" if "holds_permission u name db' \<noteq> holds_permission u name db"
    using law that change_privileges [OF _ assms(1,2), of "caller ev cr db" db'] by (auto simp: lawful_def)
  moreover have "users db' = users db \<or> (\<exists>u. \<not> u_is_superuser u \<and> users db' = repo_create nid u (users db))"
    using law change_users [of nid "new_row req" db "caller ev cr db" db'] by (auto simp: lawful_def)
  ultimately show ?thesis unfolding db'_def [symmetric] Let_def
    by (auto simp: privileged_def caller_def set_repo_create split: option.splits sum.splits)
qed

section \<open>Organizations\<close>

definition same_organization :: "int \<Rightarrow> acdb \<Rightarrow> acdb \<Rightarrow> bool" where
  "same_organization g db db' \<longleftrightarrow> repo_get (organizations db') g = repo_get (organizations db) g \<and>
     get_organization_members g db' = get_organization_members g db"

lemma same_organization_frame [simp]:
  "same_organization g db (db'\<lparr>users := a\<rparr>) = same_organization g db db'" "same_organization g db (db'\<lparr>roles := b\<rparr>) = same_organization g db db'"
  "same_organization g db (db'\<lparr>permissions := c\<rparr>) = same_organization g db db'"
  "same_organization g db (db'\<lparr>user_roles := d\<rparr>) = same_organization g db db'"
  "same_organization g db (db'\<lparr>role_permissions := d\<rparr>) = same_organization g db db'"
  "same_organization g db (db'\<lparr>teams := e\<rparr>) = same_organization g db db'" "same_organization g db (db'\<lparr>team_members := f\<rparr>) = same_organization g db db'"
  "same_organization g db (db'\<lparr>tools := t\<rparr>) = same_organization g db db'" "same_organization g db (db'\<lparr>agents := h\<rparr>) = same_organization g db db'"
  "same_organization g db (db'\<lparr>agent_tools := k\<rparr>) = same_organization g db db'" "same_organization g db db"
  by (simp_all add: same_organization_def get_organization_members_def)

lemma members_of_others:
  "(g', u) = p \<Longrightarrow> g' \<noteq> g \<Longrightarrow> repo_where (\<lambda>(x, _). x = g) (repo_create n p t) = repo_where (\<lambda>(x, _). x = g) t"
  "g' \<noteq> g \<Longrightarrow> repo_where (\<lambda>(x, _). x = g) (drop_left g' t) = repo_where (\<lambda>(x, _). x = g) t"
  by (auto simp: repo_where_def repo_create_def drop_left_def intro!: filter_cong)

lemma members_delete:
  assumes "table_wf t" and "(i, g', u) \<in> set t" and "g' \<noteq> g"
  shows "repo_where (\<lambda>(x, _). x = g) (repo_delete i t) = repo_where (\<lambda>(x, _). x = g) t"
proof -
  have "j \<noteq> i" if "(j, g, v) \<in> set t" for j v
    using that assms by (auto simp: repo_get_in_set)
  then show ?thesis by (force simp: repo_where_def repo_delete_def intro!: filter_cong)
qed

lemma same_other_organization:
  assumes "table_wf (organizations db)" and "table_wf (organization_members db)" and "g' \<noteq> g"
  shows "same_organization g db (snd (update_organization g' row upd db))" and "same_organization g db (delete_organization g' db)"
    and "same_organization g db (snd (add_organization_member n g' u db))" and "same_organization g db (snd (remove_organization_member g' u db))"
    and "n \<noteq> g \<Longrightarrow> same_organization g db (snd (create_organization n nm sl d db))"
proof -
  show "same_organization g db (snd (update_organization g' row upd db))"
    using assms by (simp add: update_organization_def Let_def same_organization_def get_organization_members_def repo_get_update split: option.split)
  show "same_organization g db (delete_organization g' db)"
    using assms by (simp add: delete_organization_def Let_def) (simp add: same_organization_def get_organization_members_def members_of_others repo_get_delete)
  show "same_organization g db (snd (add_organization_member n g' u db))"
    using assms by (simp add: add_organization_member_def same_organization_def get_organization_members_def members_of_others)
  show "same_organization g db (snd (remove_organization_member g' u db))"
  proof (cases "get_pair (organization_members db) g' u")
    case (Some x)
    obtain i q where x: "x = (i, q)" by (cases x)
    with Some have "(i, g', u) \<in> set (organization_members db)"
      by (auto simp: get_pair_def lookup_by_def dest!: repo_first_SomeD)
    then show ?thesis using Some x assms
      by (simp add: remove_organization_member_def same_organization_def get_organization_members_def members_delete)
  qed (simp add: remove_organization_member_def)
  show "n \<noteq> g \<Longrightarrow> same_organization g db (snd (create_organization n nm sl d db))"
    using assms by (simp add: create_organization_def same_organization_def get_organization_members_def repo_get_def repo_create_def map_add_def split: option.split)
qed

definition governs :: "int \<Rightarrow> acdb \<Rightarrow> (int \<times> user_row) option \<Rightarrow> bool" where
  "governs g db who = (case who of None \<Rightarrow> False | Some cu \<Rightarrow> u_is_superuser (snd cu) \<or>
     is_member g (fst cu) db \<and> list_ex (\<lambda>p. holds_permission (fst cu) p db) [''organization:update'', ''organization:delete''])"

lemma change_organization:
  assumes "change n k db who db'" and "table_wf (organizations db)" and "table_wf (organization_members db)" and "k = Organization_Row \<longrightarrow> g \<noteq> n"
  shows "governs g db who \<or> same_organization g db db'"
  using assms
proof (induction rule: change.induct)
  case (edit_organization cu g' row upd)
  then show ?case using same_other_organization(1) [of db g' g row upd] by (cases "g' = g") (auto simp: governs_def belongs_def may_def)
next
  case (drop_organization cu g')
  then show ?case using same_other_organization(2) [of db g' g] by (cases "g' = g") (auto simp: governs_def belongs_def may_def)
next
  case (new_member cu g' u')
  then show ?case using same_other_organization(3) [of db g' g n u'] by (cases "g' = g") (auto simp: governs_def belongs_def may_def)
next
  case (drop_member cu g' u')
  then show ?case using same_other_organization(4) [of db g' g u'] by (cases "g' = g") (auto simp: governs_def belongs_def may_def)
next
  case (new_organization cu nm sl d)
  then show ?case using same_other_organization(5) [of db n g n nm sl d] by auto
qed (auto simp: service_defs Let_def split: option.split)

text \<open>
  C17: The row and the member list of an organization change only by a request of an active user that is
  a superuser, or is itself a member and holds the permission to update or delete organizations.
\<close>

theorem organization_changes_need_membership:
  assumes "acdb_wf db" and "new_row req = Organization_Row \<longrightarrow> g \<noteq> nid"
    and "repo_get (organizations (snd (serve_directory ev cr nid req db))) g \<noteq> repo_get (organizations db) g \<or>
      get_organization_members g (snd (serve_directory ev cr nid req db)) \<noteq> get_organization_members g db"
  shows "\<exists>i r. active_user ev cr db = Ok (i, r) \<and> repo_get (users db) i = Some r \<and> u_is_active r \<and>
    (u_is_superuser r \<or> is_member g i db \<and> list_ex (\<lambda>p. holds_permission i p db) [''organization:update'', ''organization:delete''])"
proof -
  have wf: "table_wf (organizations db)" "table_wf (organization_members db)"
    using assms(1) by (auto simp: wf_defs dest: unique_by_wf)
  have "\<not> same_organization g db (snd (serve_directory ev cr nid req db))" using assms(3) by (auto simp: same_organization_def)
  then have "governs g db (caller ev cr db)"
    using serve_lawful [of nid req db ev cr] change_organization [OF _ wf assms(2)] by (auto simp: lawful_def)
  then obtain cu where cu: "active_user ev cr db = Inr cu" "governs g db (Some cu)"
    by (auto simp: governs_def caller_def split: option.splits sum.splits)
  moreover have "is_active_user db cu" using cu(1) by (rule active_user_ok)
  ultimately show ?thesis by (cases cu) (auto simp: governs_def is_active_user_def)
qed

section \<open>Accounts that cannot be used\<close>

lemma lower_space: "is_space (lower_char c) = is_space c"
  by (auto simp: lower_char_def is_space_def Let_def)

lemma strip_lower: "py_strip (py_lower s) = py_lower (py_strip s)"
  by (simp add: py_strip_def py_lower_def dropWhile_map rev_map comp_def lower_space)

lemma lower_lower: "py_lower (py_lower s) = py_lower s"
  by (auto simp: py_lower_def lower_char_def Let_def)

lemma dropWhile_idem: "dropWhile P (dropWhile P xs) = dropWhile P xs"
  by (induction xs) auto

lemma strip_strip: "py_strip (py_strip s) = py_strip s"
proof -
  define a where "a = dropWhile is_space s"
  have "dropWhile is_space (rev (dropWhile is_space (rev a))) = rev (dropWhile is_space (rev a))"
  proof (cases "rev (dropWhile is_space (rev a))")
    case (Cons c cs)
    have "rev (dropWhile is_space (rev a)) @ rev (takeWhile is_space (rev a)) = a"
      by (metis rev_append rev_rev_ident takeWhile_dropWhile_id)
    then have "a = c # cs @ rev (takeWhile is_space (rev a))" using Cons by simp
    then have "hd a = c" "a \<noteq> []" by (metis list.sel(1), auto)
    then have "\<not> is_space c" using hd_dropWhile [of is_space s] by (auto simp: a_def)
    then show ?thesis using Cons by simp
  qed (simp only: dropWhile.simps)
  then show ?thesis by (simp add: py_strip_def a_def dropWhile_idem)
qed

lemma email_normalized_idem: "email_normalized (email_normalized e) = email_normalized e"
  by (simp add: email_normalized_def strip_lower lower_lower strip_strip)

lemma lookup_by_new: "key r \<noteq> k \<Longrightarrow> lookup_by key (repo_create n r t) k = lookup_by key t k"
  by (induction t) (auto simp: lookup_by_def repo_first_def repo_create_def)

text \<open>
  An account created through the user endpoint under an address with capital letters or outer
  space is stored as it is written, while login looks addresses up in normal form: creating it
  succeeds, and every login attempt by anybody ends as it did before.
\<close>

theorem unnormalized_account_unusable:
  assumes "email_normalized e \<noteq> e" and "get_by_email e db = None"
  shows "is_ok (fst (serve_directory ev cr nid (Account_Request (Post_User nm e pw)) db)) \<and>
    repo_get (users (snd (serve_directory ev cr nid (Account_Request (Post_User nm e pw)) db))) nid \<noteq> None \<and>
    login verify encode now e' pw' (snd (serve_directory ev cr nid (Account_Request (Post_User nm e pw)) db)) = login verify encode now e' pw' db"
proof -
  let ?u = "\<lparr>u_full_name = nm, u_email = e, u_password_hash = au_hash ev pw, u_is_active = True, u_is_superuser = False\<rparr>"
  have db': "snd (serve_directory ev cr nid (Account_Request (Post_User nm e pw)) db) = db\<lparr>users := repo_create nid ?u (users db)\<rparr>"
    using assms(2) by (simp add: post_user_def Let_def create_user_def)
  have "e \<noteq> email_normalized e'" using assms(1) email_normalized_idem [of e'] by auto
  then have "get_by_email (email_normalized e') (db\<lparr>users := repo_create nid ?u (users db)\<rparr>) = get_by_email (email_normalized e') db"
    by (simp add: get_by_email_def lookup_by_new)
  moreover have "repo_get (repo_create nid ?u (users db)) nid \<noteq> None" by (simp add: repo_get_None_iff)
  moreover have "is_ok (fst (serve_directory ev cr nid (Account_Request (Post_User nm e pw)) db))"
    using assms(2) by (simp add: post_user_def Let_def answered_fst create_user_def)
  ultimately show ?thesis unfolding db' by (simp add: login_def)
qed

section \<open>Examples\<close>

text \<open>
  User 7 is an organizer of organization 3: a member whose role 2 carries the permissions to
  assign roles and to update organizations.
\<close>

definition sample_user :: user_row where
  "sample_user = \<lparr>u_full_name = ''A'', u_email = ''a@x'', u_password_hash = [], u_is_active = True, u_is_superuser = False\<rparr>"

definition sample_directory :: acdb where
  "sample_directory = (empty_acdb [])\<lparr>users := [(7, sample_user)], roles := [(2, \<lparr>n_name = ''organizer'', n_description = None\<rparr>)],
     permissions := [(4, \<lparr>n_name = ''role:assign'', n_description = None\<rparr>), (5, \<lparr>n_name = ''organization:update'', n_description = None\<rparr>)],
     user_roles := [(1, 7, 2)], role_permissions := [(1, 2, 4), (2, 2, 5)],
     organizations := [(3, \<lparr>o_name = ''O'', o_slug = ''o'', o_description = None, o_is_active = True\<rparr>)],
     organization_members := [(1, 3, 7)]\<rparr>"

definition sample_auth :: auth_env where
  "sample_auth = \<lparr>au_hash = (\<lambda>p. p), au_verify = (=), au_encode = plain_encode, au_decode = plain_decode, au_now = 0\<rparr>"

lemma sample_directory_wf: "acdb_wf sample_directory"
  by (simp add: wf_defs sample_directory_def empty_acdb_def unique_by_def table_wf_def refs_def agent_refs_def ends_exist_def ids_def sample_user_def)

lemma sample_fresh: "fresh_key 9 k sample_directory"
  by (cases k) (simp_all add: fresh_key_def sample_directory_def empty_acdb_def ids_def)

theorem authentication_boundary_witness:
  "fst (serve_directory sample_auth (Err (HttpError 403 ''Not authenticated'')) 9 (Team_Request (Post_Team 3 ''T'' None)) sample_directory) =
     fst (serve_directory sample_auth (Ok (plain_encode ''7'' 60)) 9 (Team_Request (Post_Team 3 ''T'' None)) sample_directory) \<and>
   serve_directory sample_auth (Err (HttpError 403 ''Not authenticated'')) 9 (Rbac_Request (Delete_Role 2)) sample_directory =
     (Err (HttpError 403 ''Not authenticated''), sample_directory)"
proof -
  have "active_user sample_auth (Err x) sample_directory = Err x" for x
    by (simp add: active_user_def current_user_def get_current_active_user_def)
  then show ?thesis
    using authentication_boundary [of "Team_Request (Post_Team 3 ''T'' None)" sample_auth "Err (HttpError 403 ''Not authenticated'')" 9
        sample_directory "Ok (plain_encode ''7'' 60)"]
      authentication_boundary [of "Rbac_Request (Delete_Role 2)" sample_auth "Err (HttpError 403 ''Not authenticated'')" 9 sample_directory]
    by (simp add: open_endpoint_def)
qed

definition sample_token :: credentials where
  "sample_token = Ok (plain_encode ''7'' 60)"

lemma sample_active: "active_user sample_auth sample_token sample_directory = Ok (7, sample_user)"
  by (simp add: active_user_def current_user_def sample_token_def sample_auth_def get_current_user_def decode_access_token_def plain_jwt
      get_current_active_user_def sample_directory_def empty_acdb_def repo_get_def sample_user_def) code_simp

lemma sample_holds: "holds_permission 7 ''role:assign'' sample_directory" "holds_permission 7 ''organization:update'' sample_directory"
  by (auto simp: holds_permission_def sample_directory_def empty_acdb_def rows_def)

lemma sample_permitted:
  "holds_permission 7 p sample_directory \<Longrightarrow> permitted_user p sample_auth sample_token sample_directory = Ok (7, sample_user)"
  by (simp add: permitted_user_def sample_active RequirePermission_def permission_query_empty sample_user_def)

lemma sample_revoked:
  "snd (serve_directory sample_auth sample_token 9 (Rbac_Request (Delete_User_Role 7 2)) sample_directory) = sample_directory\<lparr>user_roles := []\<rparr>"
  by (simp add: delete_user_role_def permitted.let_through [OF sample_permitted [OF sample_holds(1)]])
    (simp add: remove_role_def get_pair_def lookup_by_def repo_first_def repo_delete_def sample_directory_def empty_acdb_def)

theorem privileges_need_authority_witness:
  "\<not> holds_permission 7 ''role:assign'' (snd (serve_directory sample_auth sample_token 9 (Rbac_Request (Delete_User_Role 7 2)) sample_directory)) \<and>
   (\<exists>i r. active_user sample_auth sample_token sample_directory = Ok (i, r))"
proof -
  have gone: "\<not> holds_permission 7 ''role:assign'' (sample_directory\<lparr>user_roles := []\<rparr>)" by (simp add: holds_permission_def rows_def)
  have "\<exists>i r. active_user sample_auth sample_token sample_directory = Ok (i, r)"
    using privileges_need_authority [OF sample_directory_wf sample_fresh,
        where req = "Rbac_Request (Delete_User_Role 7 2)" and ev = sample_auth and cr = sample_token and u = 7 and name = "''role:assign''"]
      gone sample_holds(1) unfolding sample_revoked Let_def by blast
  with gone show ?thesis unfolding sample_revoked by blast
qed

lemma sample_left:
  "snd (serve_directory sample_auth sample_token 9 (Organization_Request (Delete_Member 3 7)) sample_directory) = sample_directory\<lparr>organization_members := []\<rparr>"
  by (simp add: delete_member_def permitted.let_through [OF sample_permitted [OF sample_holds(2)]])
    (simp add: as_member_def verify_organization_membership_def is_member_def answered_def remove_organization_member_def get_pair_def
      lookup_by_def repo_first_def repo_delete_def sample_directory_def empty_acdb_def)

theorem organization_changes_need_membership_witness:
  "get_organization_members 3 (snd (serve_directory sample_auth sample_token 9 (Organization_Request (Delete_Member 3 7)) sample_directory)) = [] \<and>
   (\<exists>i r. active_user sample_auth sample_token sample_directory = Ok (i, r) \<and> u_is_active r)"
proof -
  have "get_organization_members 3 sample_directory \<noteq> []"
    by (simp add: get_organization_members_def repo_where_def sample_directory_def)
  moreover have gone: "get_organization_members 3 (sample_directory\<lparr>organization_members := []\<rparr>) = []"
    by (simp add: get_organization_members_def repo_where_def)
  ultimately have "\<exists>i r. active_user sample_auth sample_token sample_directory = Ok (i, r) \<and> u_is_active r"
    using organization_changes_need_membership [OF sample_directory_wf, of "Organization_Request (Delete_Member 3 7)" 3 9 sample_auth sample_token]
    unfolding sample_left by auto
  then show ?thesis unfolding sample_left gone by blast
qed

theorem unnormalized_account_unusable_witness:
  "is_ok (fst (serve_directory sample_auth sample_token 9 (Account_Request (Post_User ''B'' ''B@x'' ''secret'')) sample_directory)) \<and>
   login (=) plain_encode 0 ''B@x'' ''secret'' (snd (serve_directory sample_auth sample_token 9 (Account_Request (Post_User ''B'' ''B@x'' ''secret'')) sample_directory)) =
     Err (HttpError 401 ''Invalid credentials.'')"
proof -
  have "email_normalized ''B@x'' \<noteq> ''B@x''" by code_simp
  moreover have "get_by_email ''B@x'' sample_directory = None" "get_by_email (email_normalized ''B@x'') sample_directory = None" by code_simp+
  ultimately show ?thesis
    using unnormalized_account_unusable [of "''B@x''" sample_directory sample_auth sample_token 9 "''B''" "''secret''" "(=)" plain_encode 0 "''B@x''" "''secret''"]
    by (simp add: login_def)
qed

end
