(* ===== verification/Analysis.thy ===== *)
theory Analysis
  imports Runtime_V2 Memory
begin

text \<open>
  What Runtime V2 does after a chat has been answered: reflection, evaluation, learning and
  adaptive planning (\<open>runtime/reflection.py\<close>, \<open>runtime/evaluation.py\<close>,
  \<open>runtime/learning.py\<close>, \<open>runtime/adaptive_planning.py\<close>).

  Scores are whole hundredths, as in \<open>Planning\<close>.  They come out of Python's
  \<open>round(x, 2)\<close>, an argument \<open>rnd\<close> here that is given the unrounded value in
  hundredths: which way a tie goes depends on the binary representation of the
  number, and the theorems hold whichever way it goes.  Identifiers, time stamps and
  snapshots of the reports are left out.
\<close>

section \<open>Rounding\<close>

type_synonym rounding = "rat \<Rightarrow> int"

locale nearest =
  fixes rnd :: rounding
  assumes near: "\<bar>of_int (rnd x) - x\<bar> \<le> 1 / 2"
begin

lemma at_least: "of_int a \<le> x \<Longrightarrow> a \<le> rnd x"
proof -
  assume "of_int a \<le> x"
  then have "of_int a - 1 < (of_int (rnd x) :: rat)" using near [of x] by linarith
  then show ?thesis by linarith
qed

lemma at_most: "x \<le> of_int b \<Longrightarrow> rnd x \<le> b"
proof -
  assume "x \<le> of_int b"
  then have "(of_int (rnd x) :: rat) < of_int b + 1" using near [of x] by linarith
  then show ?thesis by linarith
qed

lemma exact: "rnd (of_int k) = k"
  using at_least [of k "of_int k"] at_most [of "of_int k" k] by simp

lemma unique: "of_int k - 1 / 2 < x \<Longrightarrow> x < of_int k + 1 / 2 \<Longrightarrow> rnd x = k"
proof -
  assume "of_int k - 1 / 2 < x" "x < of_int k + 1 / 2"
  then have "of_int k - 1 < (of_int (rnd x) :: rat)" "(of_int (rnd x) :: rat) < of_int k + 1" using near [of x] by linarith+
  then show ?thesis by linarith
qed

lemma tie: "rnd (of_int k + 1 / 2) = k \<or> rnd (of_int k + 1 / 2) = k + 1"
  using at_least [of k "of_int k + 1 / 2"] at_most [of "of_int k + 1 / 2" "k + 1"] by auto

lemma mono: "x \<le> y \<Longrightarrow> x = y \<or> rnd x \<le> rnd y"
proof -
  assume "x \<le> y"
  then have "x = y \<or> (of_int (rnd x) :: rat) < of_int (rnd y) + 1" using near [of x] near [of y] by linarith
  then show ?thesis by linarith
qed

end

text \<open>Ties to the even neighbour, as \<open>round\<close> does for numbers that are represented exactly.\<close>

definition py_round :: rounding where
  "py_round x =
     (let k = \<lfloor>x\<rfloor>; f = x - of_int k
      in if f < 1 / 2 then k else if f > 1 / 2 then k + 1 else if even k then k else k + 1)"

interpretation even_ties: nearest py_round
proof unfold_locales
  fix x :: rat
  have "of_int \<lfloor>x\<rfloor> \<le> x" "x < of_int \<lfloor>x\<rfloor> + 1" by linarith+
  then show "\<bar>of_int (py_round x) - x\<bar> \<le> 1 / 2" by (auto simp: py_round_def Let_def)
qed

definition show_hundredths :: "int \<Rightarrow> string" where
  "show_hundredths n = show_int (n div 100) @ ''.'' @ show_int (n mod 100 div 10) @ show_int (n mod 10)"

definition py_unique :: "'a list \<Rightarrow> 'a list" where
  "py_unique xs = rev (remdups (rev xs))"

section \<open>What is analysed\<close>

type_synonym lifecycle_entry = "string \<times> string \<times> string"

record run_result =
  rs_task_id :: string
  rs_status :: exec_state
  rs_outputs :: metadata
  rs_errors :: "string list"
  rs_duration :: rat
  rs_required_capability :: string

record run_context =
  rc_message :: string
  rc_blueprint :: "blueprint option"

section \<open>Reflection\<close>

record observation =
  ob_category :: string
  ob_summary :: string
  ob_detail :: "string option"

record reflection_report =
  rf_execution_summary :: string
  rf_observations :: "observation list"
  rf_strengths :: "string list"
  rf_weaknesses :: "string list"
  rf_missing_information :: "string list"
  rf_improvement_opportunities :: "string list"
  rf_warnings :: "string list"
  rf_confidence :: int

definition reflection_confidence :: "rounding \<Rightarrow> run_result \<Rightarrow> lifecycle_entry list \<Rightarrow> int" where
  "reflection_confidence rnd res tr =
     rnd (min (50 + (if rs_status res = E_COMPLETED then 20 else 0) + (if rs_errors res = [] then 10 else 0)
       + (if tr \<noteq> [] then 10 else 0) + (if rs_duration res > 0 then 10 else 0)) 99)"

definition reflection_summary :: "run_result \<Rightarrow> lifecycle_entry list \<Rightarrow> string" where
  "reflection_summary res tr =
     rs_task_id res @ '' finished with '' @ exec_value (rs_status res) @ ''. '' @
     (if tr = [] then ''No execution trace was available.'' else snd (snd (last tr)))"

definition reflect :: "rounding \<Rightarrow> run_context \<Rightarrow> run_result \<Rightarrow> lifecycle_entry list \<Rightarrow> reflection_report" where
  "reflect rnd ctx res tr =
     \<lparr>rf_execution_summary = reflection_summary res tr,
      rf_observations =
        (if rs_required_capability res \<noteq> []
         then [\<lparr>ob_category = ''capability_usage'', ob_summary = ''Used capability '' @ rs_required_capability res @ ''.'', ob_detail = None\<rparr>] else []) @
        (if tr \<noteq> []
         then [\<lparr>ob_category = ''trace'', ob_summary = ''Observed '' @ show_nat (length tr) @ '' lifecycle entries.'', ob_detail = Some (fst (last tr))\<rparr>] else []),
      rf_strengths = (if rs_status res = E_COMPLETED then [''Execution completed successfully.''] else []),
      rf_weaknesses =
        (if rs_status res = E_COMPLETED then [] else [''Execution finished with status '' @ exec_value (rs_status res) @ ''.'']) @ rs_errors res,
      rf_missing_information =
        (if rs_required_capability res \<noteq> [] then [] else [''Required capability metadata was absent.'']) @
        (if tr \<noteq> [] then [] else [''No execution trace entries were provided.'']) @
        (if rc_blueprint ctx = None then [''Execution blueprint was not attached to the context.''] else []),
      rf_improvement_opportunities = py_unique
        ((if rs_duration res \<le> 0 then [''Capture more precise execution timing.''] else []) @
         (case rc_blueprint ctx of None \<Rightarrow> []
          | Some b \<Rightarrow> if length (bp_capabilities b) > 1 then [''Separate capability work from final-response capability selection.''] else [])),
      rf_warnings = py_unique (rs_errors res @ (if rs_duration res \<le> 0 then [''Execution duration was non-positive.''] else [])),
      rf_confidence = reflection_confidence rnd res tr\<rparr>"

section \<open>Evaluation\<close>

record evaluation_report =
  ev_success :: bool
  ev_confidence :: int
  ev_completeness :: int
  ev_consistency :: int
  ev_efficiency :: int
  ev_quality :: int
  ev_capability_utilization :: "string list"
  ev_summary :: string

definition completeness_score :: "rounding \<Rightarrow> run_context \<Rightarrow> run_result \<Rightarrow> reflection_report \<Rightarrow> int" where
  "completeness_score rnd ctx res rfl =
     rnd (min (40 + (if rc_blueprint ctx \<noteq> None then 20 else 0) + (if rs_outputs res \<noteq> [] then 20 else 0)
       + (if rf_observations rfl \<noteq> [] then 20 else 0)) 100)"

definition consistency_score :: "rounding \<Rightarrow> run_result \<Rightarrow> reflection_report \<Rightarrow> int" where
  "consistency_score rnd res rfl =
     rnd (max (min (50 + (if rs_status res = E_COMPLETED \<and> rf_weaknesses rfl = [] then 30 else 0)
       - (if rf_warnings rfl \<noteq> [] then 10 else 0)) 100) 0)"

definition efficiency_score :: "run_result \<Rightarrow> int" where
  "efficiency_score res =
     (if rs_duration res \<le> 0 then 20 else if rs_duration res < 1 then 90 else if rs_duration res < 5 then 75 else 60)"

definition evaluate :: "rounding \<Rightarrow> run_context \<Rightarrow> run_result \<Rightarrow> reflection_report \<Rightarrow> evaluation_report" where
  "evaluate rnd ctx res rfl =
     (let completeness = completeness_score rnd ctx res rfl; consistency = consistency_score rnd res rfl; efficiency = efficiency_score res;
          quality = rnd (of_int (completeness + consistency + efficiency) / 3);
          confidence = rnd (min 99 (of_int (rf_confidence rfl + quality) / 2));
          success = (rs_status res = E_COMPLETED \<and> quality \<ge> 60)
      in \<lparr>ev_success = success, ev_confidence = confidence, ev_completeness = completeness, ev_consistency = consistency,
          ev_efficiency = efficiency, ev_quality = quality,
          ev_capability_utilization = (if rs_required_capability res \<noteq> [] then [rs_required_capability res] else []),
          ev_summary = ''Evaluation '' @ (if success then ''successful'' else ''needs review'') @ '' with quality '' @ show_hundredths quality
            @ ''. '' @ rf_execution_summary rfl\<rparr>)"

section \<open>Learning\<close>

datatype learning_decision = PERSIST | IGNORE | MERGE | UPDATE | DEFER

record learning_artifact =
  la_category :: string
  la_title :: string
  la_summary :: string
  la_confidence :: int

record learning_report =
  lr_observations :: "learning_artifact list"
  lr_preferences :: "learning_artifact list"
  lr_execution_patterns :: "learning_artifact list"
  lr_capability_patterns :: "learning_artifact list"
  lr_workflow_patterns :: "learning_artifact list"
  lr_confidence :: int
  lr_priority :: int
  lr_recommendation :: learning_decision
  lr_summary :: string

record policy_decision =
  pd_decision :: learning_decision
  pd_reason :: string
  pd_persist_memory :: bool
  pd_memory_type :: "string option"
  pd_importance :: int

definition policy_decide :: "learning_report \<Rightarrow> policy_decision" where
  "policy_decide r =
     (let no = (\<lambda>d reason. \<lparr>pd_decision = d, pd_reason = reason, pd_persist_memory = False, pd_memory_type = None, pd_importance = 0\<rparr>);
          yes = (\<lambda>d reason ty. \<lparr>pd_decision = d, pd_reason = reason, pd_persist_memory = True, pd_memory_type = Some ty, pd_importance = lr_confidence r\<rparr>)
      in if lr_confidence r < 45 then no IGNORE ''Confidence too low for persistence.''
         else case lr_recommendation r of
           DEFER \<Rightarrow> no DEFER ''Analysis is useful but should be deferred.''
         | UPDATE \<Rightarrow> yes UPDATE ''Existing experience should be updated.'' ''semantic''
         | MERGE \<Rightarrow> yes MERGE ''Artifacts should be merged with existing experience.'' ''semantic''
         | PERSIST \<Rightarrow> yes PERSIST ''Analysis is strong enough to persist.'' ''episodic''
         | IGNORE \<Rightarrow> no IGNORE ''No reusable experience identified.'')"

definition artifact :: "string \<Rightarrow> string \<Rightarrow> string \<Rightarrow> int \<Rightarrow> learning_artifact" where
  "artifact category title summary confidence = \<lparr>la_category = category, la_title = title, la_summary = summary, la_confidence = confidence\<rparr>"

definition extract_observations :: "reflection_report \<Rightarrow> learning_artifact list" where
  "extract_observations rfl =
     map (\<lambda>obs. artifact ''observation'' (ob_category obs) (ob_summary obs) (rf_confidence rfl)) (rf_observations rfl) @
     map (\<lambda>s. artifact ''observation'' ''strength'' s (rf_confidence rfl)) (rf_strengths rfl)"

definition mentions_any :: "string \<Rightarrow> string list \<Rightarrow> bool" where
  "mentions_any text tokens = list_ex (\<lambda>w. py_in w text) tokens"

definition extract_preferences :: "run_context \<Rightarrow> evaluation_report \<Rightarrow> learning_artifact list" where
  "extract_preferences ctx ev =
     (let text = py_lower (rc_message ctx); pref = (\<lambda>title summary. artifact ''preference'' title summary (ev_confidence ev))
      in (if mentions_any text [''concise'', ''brief'', ''short''] then [pref ''communication'' ''Prefers concise responses.''] else []) @
         (if mentions_any text [''bullet'', ''list'', ''structured''] then [pref ''formatting'' ''Prefers structured formatting.''] else []) @
         (if mentions_any text [''english'', ''spanish'', ''french''] then [pref ''language'' ''Language preference detected from request.''] else []) @
         (if mentions_any text [''workflow'', ''tool''] then [pref ''workflow'' ''Workflow-oriented request.''] else []))"

definition extract_execution_patterns :: "reflection_report \<Rightarrow> evaluation_report \<Rightarrow> lifecycle_entry list \<Rightarrow> learning_artifact list" where
  "extract_execution_patterns rfl ev tr =
     (if tr \<noteq> [] then [artifact ''execution_pattern'' ''lifecycle_sequence'' (py_join '' -> '' (map fst (drop (length tr - 4) tr)))
        (min (rf_confidence rfl) (ev_confidence ev))] else []) @
     (if ev_success ev then [artifact ''execution_pattern'' ''successful_execution'' ''Completed execution with a successful evaluation.'' (ev_confidence ev)] else [])"

definition extract_capability_patterns :: "run_context \<Rightarrow> evaluation_report \<Rightarrow> learning_artifact list" where
  "extract_capability_patterns ctx ev =
     map (\<lambda>c. artifact ''capability_pattern'' c (''Capability '' @ c @ '' was used successfully.'') (ev_confidence ev)) (ev_capability_utilization ev) @
     (case rc_blueprint ctx of None \<Rightarrow> []
      | Some b \<Rightarrow> if length (bp_capabilities b) > 1
          then [artifact ''capability_pattern'' ''multi_capability_request'' ''Request required more than one runtime capability.'' (ev_confidence ev)] else [])"

definition extract_workflow_patterns :: "run_context \<Rightarrow> lifecycle_entry list \<Rightarrow> learning_artifact list" where
  "extract_workflow_patterns ctx tr =
     (case rc_blueprint ctx of None \<Rightarrow> []
      | Some b \<Rightarrow>
          [artifact ''workflow_pattern'' ''planning_sequence''
             (if bp_execution_stages b \<noteq> [] then py_join '' -> '' (bp_execution_stages b) else ''No staged workflow was present.'') 50,
           artifact ''workflow_pattern'' ''trace_depth'' (show_nat (length tr) @ '' trace entries captured.'') 50])"

definition recommend_persistence :: "int \<Rightarrow> 'a list \<Rightarrow> 'a list \<Rightarrow> 'a list \<Rightarrow> 'a list \<Rightarrow> learning_decision" where
  "recommend_persistence confidence prefs execs caps flows =
     (if confidence \<ge> 85 \<and> (prefs \<noteq> [] \<or> execs \<noteq> []) then PERSIST
      else if confidence \<ge> 72 \<and> caps \<noteq> [] then MERGE
      else if confidence \<ge> 60 \<and> flows \<noteq> [] then UPDATE
      else if confidence \<ge> 50 then DEFER
      else IGNORE)"

definition priority_from_scores :: "int \<Rightarrow> int \<Rightarrow> int" where
  "priority_from_scores confidence quality = (if confidence \<ge> 85 \<or> quality \<ge> 85 then 3 else if confidence \<ge> 70 then 2 else 1)"

definition learning_confidence :: "rounding \<Rightarrow> reflection_report \<Rightarrow> evaluation_report \<Rightarrow> 'a list \<Rightarrow> 'a list \<Rightarrow> int" where
  "learning_confidence rnd rfl ev obs prefs =
     rnd (min (of_int (rf_confidence rfl + ev_confidence ev + ev_quality ev) / 3 + (if obs \<noteq> [] then 5 else 0) + (if prefs \<noteq> [] then 5 else 0)) 99)"

definition learn :: "rounding \<Rightarrow> run_context \<Rightarrow> reflection_report \<Rightarrow> evaluation_report \<Rightarrow> lifecycle_entry list \<Rightarrow> learning_report" where
  "learn rnd ctx rfl ev tr =
     (let obs = extract_observations rfl; prefs = extract_preferences ctx ev; execs = extract_execution_patterns rfl ev tr;
          caps = extract_capability_patterns ctx ev; flows = extract_workflow_patterns ctx tr;
          confidence = learning_confidence rnd rfl ev obs prefs
      in \<lparr>lr_observations = obs, lr_preferences = prefs, lr_execution_patterns = execs, lr_capability_patterns = caps, lr_workflow_patterns = flows,
          lr_confidence = confidence, lr_priority = priority_from_scores confidence (ev_quality ev),
          lr_recommendation = recommend_persistence confidence prefs execs caps flows,
          lr_summary = ''Learned '' @ show_nat (length obs) @ '' observations, '' @ show_nat (length prefs) @ '' preferences, and ''
            @ show_nat (length execs) @ '' execution patterns.''\<rparr>)"

section \<open>Adaptive planning\<close>

record revision_entry =
  re_revision_number :: int
  re_task_ids :: "string list"
  re_confidence :: int
  re_rationale :: "string option"

text \<open>A blueprint with the fields a revision fills in.\<close>

record revised_plan =
  pl_blueprint :: blueprint
  pl_revision_number :: int
  pl_history :: "revision_entry list"
  pl_superseded :: "string list"
  pl_inserted :: "string list"
  pl_removed :: "string list"
  pl_rationale :: "string option"

definition first_plan :: "blueprint \<Rightarrow> revised_plan" where
  "first_plan b = \<lparr>pl_blueprint = b, pl_revision_number = 0, pl_history = [], pl_superseded = [], pl_inserted = [], pl_removed = [], pl_rationale = None\<rparr>"

record adaptive_report =
  ad_previous :: revised_plan
  ad_revised :: revised_plan
  ad_added :: "planned_task list"
  ad_removed :: "planned_task list"
  ad_reordered :: "string list"
  ad_required :: bool
  ad_reason :: string
  ad_revision_number :: int
  ad_confidence :: int
  ad_trace :: "lifecycle_entry list"

definition replanning_reasons :: "reflection_report \<Rightarrow> evaluation_report \<Rightarrow> learning_report \<Rightarrow> string option \<Rightarrow> string list" where
  "replanning_reasons rfl ev lr goal_status =
     (if list_ex (\<lambda>w. w \<noteq> []) (rf_weaknesses rfl) then [''reflection_signals_degradation''] else []) @
     (if rf_missing_information rfl \<noteq> [] then [''missing_information''] else []) @
     (if \<not> ev_success ev \<or> ev_quality ev < 70 then [''evaluation_below_threshold''] else []) @
     (if lr_confidence lr < 65 then [''learning_confidence_degraded''] else []) @
     (if goal_status \<notin> {None, Some ''COMPLETED''} then [''goal_incomplete''] else [])"

definition should_replan ::
  "rounding \<Rightarrow> reflection_report \<Rightarrow> evaluation_report \<Rightarrow> learning_report \<Rightarrow> string option \<Rightarrow> bool \<times> string \<times> int" where
  "should_replan rnd rfl ev lr goal_status =
     (let reasons = replanning_reasons rfl ev lr goal_status
      in (reasons \<noteq> [],
          (if reasons = [] then ''no_replanning_needed'' else py_join '', '' (py_unique reasons)),
          rnd (max 0 (min 99 (of_int (ev_confidence ev + rf_confidence rfl + lr_confidence lr) / 3)))))"

definition trace_entry :: "string \<Rightarrow> string \<Rightarrow> int \<Rightarrow> planning_trace_entry" where
  "trace_entry status summary confidence = \<lparr>pe_stage_name = ''Adaptive Planning'', pe_status = status, pe_summary = summary, pe_confidence = confidence\<rparr>"

definition revision_blueprint :: "revised_plan \<Rightarrow> int \<Rightarrow> string \<Rightarrow> revised_plan" where
  "revision_blueprint p revision_number rationale =
     (case bp_metadata (pl_blueprint p) of
        None \<Rightarrow> p
      | Some md \<Rightarrow> p\<lparr>pl_blueprint := (pl_blueprint p)\<lparr>bp_metadata := Some (md\<lparr>pm_planning_version := show_int revision_number\<rparr>),
          bp_trace := bp_trace (pl_blueprint p) @ [trace_entry ''SKIPPED'' rationale 0]\<rparr>\<rparr>)"

definition preserved_task :: "planned_task \<Rightarrow> bool" where
  "preserved_task t = (pk_estimated_confidence t \<ge> 75 \<and> pk_identifier t \<notin> {''task_2'', ''task_3''})"

definition adaptive_task :: planned_task where
  "adaptive_task = \<lparr>pk_identifier = ''adaptive_1'', pk_title = ''Adaptive follow-up 1'',
     pk_description = ''Inserted to resolve execution drift or missing information.'', pk_required_capabilities = [''planning''],
     pk_expected_output = ''Revised execution step'', pk_estimated_complexity = ''medium'', pk_estimated_confidence = 72\<rparr>"

definition revise_blueprint ::
  "rounding \<Rightarrow> string option \<Rightarrow> revised_plan \<Rightarrow> reflection_report \<Rightarrow> evaluation_report \<Rightarrow> learning_report \<Rightarrow> adaptive_report" where
  "revise_blueprint rnd goal_status prev rfl ev lr =
     (case should_replan rnd rfl ev lr goal_status of (required, reason, confidence) \<Rightarrow>
      if \<not> required
      then \<lparr>ad_previous = prev, ad_revised = revision_blueprint prev 0 reason, ad_added = [], ad_removed = [], ad_reordered = [],
            ad_required = False, ad_reason = reason, ad_revision_number = 0, ad_confidence = confidence,
            ad_trace = [(''Replanning Started'', ''SKIPPED'', ''Policy did not require replanning.''),
              (''Policy Evaluation'', ''COMPLETED'', reason), (''Replanning Completed'', ''COMPLETED'', ''No revision applied.'')]\<rparr>
      else (let b = pl_blueprint prev; graph = bp_task_graph b;
                preserved = filter preserved_task graph; inserted = [adaptive_task]; revised = preserved @ inserted;
                removed = filter (\<lambda>t. t \<notin> set preserved) graph;
                n = (if pl_revision_number prev = 0 then 1 else pl_revision_number prev);
                b' = b\<lparr>bp_task_graph := revised, bp_confidence := confidence,
                  bp_metadata := map_option (\<lambda>md. md\<lparr>pm_planning_version := show_int (n + 1)\<rparr>) (bp_metadata b),
                  bp_trace := bp_trace b @ [trace_entry ''COMPLETED'' reason confidence]\<rparr>
            in \<lparr>ad_previous = prev,
                ad_revised = \<lparr>pl_blueprint = b', pl_revision_number = n + 1,
                  pl_history = pl_history prev @ [\<lparr>re_revision_number = pl_revision_number prev, re_task_ids = map pk_identifier graph,
                    re_confidence = bp_confidence b, re_rationale = pl_rationale prev\<rparr>],
                  pl_superseded = map pk_identifier removed, pl_inserted = map pk_identifier inserted, pl_removed = map pk_identifier removed,
                  pl_rationale = Some reason\<rparr>,
                ad_added = inserted, ad_removed = removed, ad_reordered = map pk_identifier revised,
                ad_required = True, ad_reason = reason, ad_revision_number = n + 1, ad_confidence = confidence,
                ad_trace = [(''Replanning Started'', ''COMPLETED'', ''Adaptive planning started.''), (''Policy Evaluation'', ''COMPLETED'', reason),
                  (''Blueprint Revision'', ''COMPLETED'', ''Revision '' @ show_int (n + 1) @ '' prepared.''),
                  (''Queue Update'', ''COMPLETED'', ''Task queue updated.''), (''Replanning Completed'', ''COMPLETED'', ''Adaptive planning completed.'')]\<rparr>))"

section \<open>Scores stay in their range\<close>

context nearest
begin

lemma reflection_confidence_range: "50 \<le> reflection_confidence rnd res tr" "reflection_confidence rnd res tr \<le> 99"
  unfolding reflection_confidence_def by (rule at_least; simp) (rule at_most; simp)

lemma completeness_range: "40 \<le> completeness_score rnd ctx res rfl" "completeness_score rnd ctx res rfl \<le> 100"
  unfolding completeness_score_def by (rule at_least; simp) (rule at_most; simp)

lemma consistency_range: "40 \<le> consistency_score rnd res rfl" "consistency_score rnd res rfl \<le> 80"
  unfolding consistency_score_def by (rule at_least; simp) (rule at_most; simp)

lemma efficiency_range: "20 \<le> efficiency_score res" "efficiency_score res \<le> 90"
  by (simp_all add: efficiency_score_def)

lemma evaluation_range:
  assumes "0 \<le> rf_confidence rfl"
  shows "0 \<le> ev_quality (evaluate rnd ctx res rfl)" "ev_quality (evaluate rnd ctx res rfl) \<le> 90"
    "0 \<le> ev_confidence (evaluate rnd ctx res rfl)" "ev_confidence (evaluate rnd ctx res rfl) \<le> 99"
proof -
  define q where "q = rnd (of_int (completeness_score rnd ctx res rfl + consistency_score rnd res rfl + efficiency_score res) / 3)"
  have sum: "0 \<le> completeness_score rnd ctx res rfl + consistency_score rnd res rfl + efficiency_score res"
    "completeness_score rnd ctx res rfl + consistency_score rnd res rfl + efficiency_score res \<le> 270"
    using completeness_range [of ctx res rfl] consistency_range [of res rfl] efficiency_range [of res] by linarith+
  have q: "0 \<le> q" "q \<le> 90" unfolding q_def using sum by - (rule at_least, simp, rule at_most, simp)
  have "0 \<le> rnd (min 99 (of_int (rf_confidence rfl + q) / 2))" "rnd (min 99 (of_int (rf_confidence rfl + q) / 2)) \<le> 99"
    using q assms by - (rule at_least, simp, rule at_most, simp)
  with q show "0 \<le> ev_quality (evaluate rnd ctx res rfl)" "ev_quality (evaluate rnd ctx res rfl) \<le> 90"
    "0 \<le> ev_confidence (evaluate rnd ctx res rfl)" "ev_confidence (evaluate rnd ctx res rfl) \<le> 99"
    by (simp_all add: evaluate_def Let_def q_def)
qed

lemma learning_range:
  assumes "0 \<le> rf_confidence rfl + ev_confidence ev + ev_quality ev"
  shows "0 \<le> lr_confidence (learn rnd ctx rfl ev tr)" "lr_confidence (learn rnd ctx rfl ev tr) \<le> 99"
proof -
  have "0 \<le> learning_confidence rnd rfl ev obs prefs" "learning_confidence rnd rfl ev obs prefs \<le> 99" for obs prefs :: "'a list"
    unfolding learning_confidence_def using assms by - (rule at_least, simp add: add_nonneg_nonneg, rule at_most, simp)
  then show "0 \<le> lr_confidence (learn rnd ctx rfl ev tr)" "lr_confidence (learn rnd ctx rfl ev tr) \<le> 99"
    by (simp_all add: learn_def Let_def)
qed

lemma planning_range:
  "0 \<le> ad_confidence (revise_blueprint rnd gs prev rfl ev lr)" "ad_confidence (revise_blueprint rnd gs prev rfl ev lr) \<le> 99"
proof -
  have "0 \<le> rnd (max 0 (min 99 x))" "rnd (max 0 (min 99 x)) \<le> 99" for x
    by (rule at_least, simp) (rule at_most, simp)
  then show "0 \<le> ad_confidence (revise_blueprint rnd gs prev rfl ev lr)" "ad_confidence (revise_blueprint rnd gs prev rfl ev lr) \<le> 99"
    by (simp_all add: revise_blueprint_def should_replan_def Let_def)
qed

end

text \<open>
  Whatever run is analysed, all scores stay in their range: the confidence of a reflection between
  0.50 and 0.99, the quality between 0 and 0.90, and the confidence of the evaluation, of what is
  learned and of the plan between 0 and 0.99.
\<close>

theorem analysis_scores_bounded:
  assumes near: "\<And>x. \<bar>of_int (rnd x) - x\<bar> \<le> 1 / 2"
  shows "let rfl = reflect rnd ctx res tr; ev = evaluate rnd ctx res rfl; lr = learn rnd ctx rfl ev tr'; ad = revise_blueprint rnd gs p rfl ev lr in
    50 \<le> rf_confidence rfl \<and> rf_confidence rfl \<le> 99 \<and> 0 \<le> ev_quality ev \<and> ev_quality ev \<le> 90 \<and> 0 \<le> ev_confidence ev \<and> ev_confidence ev \<le> 99 \<and>
    0 \<le> lr_confidence lr \<and> lr_confidence lr \<le> 99 \<and> 0 \<le> ad_confidence ad \<and> ad_confidence ad \<le> 99"
proof -
  have near': "nearest rnd" using near by unfold_locales
  define rfl where "rfl = reflect rnd ctx res tr"
  define ev where "ev = evaluate rnd ctx res rfl"
  define lr where "lr = learn rnd ctx rfl ev tr'"
  have rf: "50 \<le> rf_confidence rfl" "rf_confidence rfl \<le> 99"
    using nearest.reflection_confidence_range [OF near', of res tr] by (simp_all add: rfl_def reflect_def)
  then have ev: "0 \<le> ev_quality ev" "ev_quality ev \<le> 90" "0 \<le> ev_confidence ev" "ev_confidence ev \<le> 99"
    using nearest.evaluation_range [OF near', of rfl ctx res] by (simp_all add: ev_def)
  then have "0 \<le> lr_confidence lr" "lr_confidence lr \<le> 99"
    using rf nearest.learning_range [OF near', of rfl ev ctx tr'] by (simp_all add: lr_def)
  then show ?thesis unfolding Let_def rfl_def [symmetric] ev_def [symmetric] lr_def [symmetric]
    using rf ev nearest.planning_range [OF near'] by simp
qed

theorem analysis_scores_bounded_witness:
  "rf_confidence (reflect py_round \<lparr>rc_message = [], rc_blueprint = None\<rparr>
     \<lparr>rs_task_id = ''t'', rs_status = E_FAILED, rs_outputs = [], rs_errors = [''boom''], rs_duration = 1, rs_required_capability = []\<rparr> []) \<le> 99"
  using analysis_scores_bounded [OF even_ties.near, of "\<lparr>rc_message = [], rc_blueprint = None\<rparr>"
      "\<lparr>rs_task_id = ''t'', rs_status = E_FAILED, rs_outputs = [], rs_errors = [''boom''], rs_duration = 1, rs_required_capability = []\<rparr>" "[]" "[]" None]
  by (simp add: Let_def)

section \<open>Revisions\<close>

lemma adaptive_not_preserved: "\<not> preserved_task adaptive_task"
  by (simp add: preserved_task_def adaptive_task_def)

text \<open>
  What a revision does to a plan.  If the policy requires it, exactly the tasks of low confidence and
  the tasks numbered two and three are removed, the others stay in order, one follow-up task is
  appended, and the previous state is added to the history; a second revision leaves the task graph
  as it is and only counts on.  Dependencies are not touched, so that they keep naming removed tasks.
  If it is not required, the tasks, the revision number and the history stay as they are.
\<close>

theorem revision_effect:
  "let r = revise_blueprint rnd gs p rfl ev lr; p' = ad_revised r;
       r2 = revise_blueprint rnd gs' p' rfl' ev' lr'; graph = bp_task_graph (pl_blueprint p) in
   bp_dependency_graph (pl_blueprint p') = bp_dependency_graph (pl_blueprint p) \<and>
   (if ad_required r
    then bp_task_graph (pl_blueprint p') =
        filter (\<lambda>t. 75 \<le> pk_estimated_confidence t \<and> pk_identifier t \<noteq> ''task_2'' \<and> pk_identifier t \<noteq> ''task_3'') graph @ [adaptive_task] \<and>
      ad_removed r = filter (\<lambda>t. pk_estimated_confidence t < 75 \<or> pk_identifier t = ''task_2'' \<or> pk_identifier t = ''task_3'') graph \<and>
      map re_task_ids (pl_history p') = map re_task_ids (pl_history p) @ [map pk_identifier graph] \<and>
      pl_revision_number p' = (if pl_revision_number p = 0 then 2 else pl_revision_number p + 1) \<and>
      bp_task_graph (pl_blueprint (ad_revised r2)) = bp_task_graph (pl_blueprint p')
    else bp_task_graph (pl_blueprint p') = graph \<and> pl_revision_number p' = pl_revision_number p \<and> pl_history p' = pl_history p)"
proof -
  have skipped: "bp_task_graph (pl_blueprint (revision_blueprint q n s)) = bp_task_graph (pl_blueprint q)"
    "bp_dependency_graph (pl_blueprint (revision_blueprint q n s)) = bp_dependency_graph (pl_blueprint q)"
    "pl_revision_number (revision_blueprint q n s) = pl_revision_number q" "pl_history (revision_blueprint q n s) = pl_history q" for q n s
    by (simp_all add: revision_blueprint_def split: option.split)
  have graph: "bp_task_graph (pl_blueprint (ad_revised (revise_blueprint rnd g q f e l))) =
      (if fst (should_replan rnd f e l g) then filter preserved_task (bp_task_graph (pl_blueprint q)) @ [adaptive_task] else bp_task_graph (pl_blueprint q))" for g q f e l
    by (simp add: revise_blueprint_def Let_def skipped split: prod.split)
  show ?thesis
  proof (cases "fst (should_replan rnd rfl ev lr gs)")
    case True
    then obtain reason c where "should_replan rnd rfl ev lr gs = (True, reason, c)" by (cases "should_replan rnd rfl ev lr gs") auto
    moreover have "filter preserved_task (filter preserved_task xs @ [adaptive_task]) = filter preserved_task xs" for xs
      by (simp add: adaptive_not_preserved)
    moreover have "filter preserved_task xs =
        filter (\<lambda>t. 75 \<le> pk_estimated_confidence t \<and> pk_identifier t \<noteq> ''task_2'' \<and> pk_identifier t \<noteq> ''task_3'') xs" for xs
      by (rule filter_cong) (auto simp: preserved_task_def)
    moreover have "filter (\<lambda>t. t \<notin> set (filter preserved_task xs)) xs =
        filter (\<lambda>t. pk_estimated_confidence t < 75 \<or> pk_identifier t = ''task_2'' \<or> pk_identifier t = ''task_3'') xs" for xs
      by (rule filter_cong) (auto simp: preserved_task_def)
    ultimately show ?thesis unfolding Let_def graph
      by (simp add: revise_blueprint_def Let_def del: set_filter filter_append)
  next
    case False
    then obtain reason c where "should_replan rnd rfl ev lr gs = (False, reason, c)" by (cases "should_replan rnd rfl ev lr gs") auto
    then show ?thesis unfolding Let_def graph by (simp add: revise_blueprint_def skipped)
  qed
qed

end
