(* ===== verification/Intelligence.thy ===== *)
theory Intelligence
  imports Analysis "HOL-Library.Product_Lexorder"
begin

text \<open>
  Long-term intelligence and optimisation (\<open>runtime/long_term_intelligence.py\<close>,
  \<open>runtime/optimization.py\<close>), and the analysis Runtime V2 runs after every chat
  (\<open>_record_analysis\<close> and its helpers in \<open>runtime/runtimes.py\<close>).

  Scores of memories and statistics are rational numbers; rounding is the argument of
  \<open>Analysis\<close>.  The effect of the analysis is on the table of memories, where the database can refuse
  a row, and on the published runs; the other registrations for diagnostics are left out.
\<close>

section \<open>Long-term intelligence\<close>

text \<open>
  A memory as a dictionary: its columns with the time stamps, and the key
  \<open>provenance\<close> that consolidation adds.
\<close>

record memory_dict =
  md_memory :: memory
  md_created_at :: "int option"
  md_updated_at :: "int option"
  md_provenance :: "string list"

definition to_hundredths :: "rounding \<Rightarrow> rat \<Rightarrow> rat" where
  "to_hundredths rnd x = of_int (rnd (100 * x)) / 100"

definition title_key :: "memory_dict \<Rightarrow> string" where
  "title_key d = py_lower (py_strip (me_title (md_memory d)))"

definition merge_memory :: "rounding \<Rightarrow> memory_dict \<Rightarrow> memory_dict \<Rightarrow> memory_dict" where
  "merge_memory rnd current d =
     current\<lparr>md_memory := (md_memory current)\<lparr>
         me_confidence_score := to_hundredths rnd (max (me_confidence_score (md_memory current)) (me_confidence_score (md_memory d))),
         me_importance_score := to_hundredths rnd (max (me_importance_score (md_memory current)) (me_importance_score (md_memory d)))\<rparr>,
       md_updated_at := (if md_updated_at d \<noteq> None then md_updated_at d else md_updated_at current),
       md_provenance := md_provenance current @ [me_source (md_memory d)]\<rparr>"

fun consolidate_memories ::
  "rounding \<Rightarrow> memory_dict list \<Rightarrow> (string, memory_dict) dict \<Rightarrow> memory_dict list \<Rightarrow> (string, memory_dict) dict \<times> memory_dict list" where
  "consolidate_memories rnd [] merged forgotten = (merged, forgotten)"
| "consolidate_memories rnd (d # ds) merged forgotten =
     (if title_key d = [] then consolidate_memories rnd ds merged forgotten
      else case dict_get merged (title_key d) of
        None \<Rightarrow> consolidate_memories rnd ds (dict_set merged (title_key d) d) forgotten
      | Some current \<Rightarrow>
          consolidate_memories rnd ds (dict_set merged (title_key d) (merge_memory rnd current d))
            (if me_confidence_score (md_memory d) < 25/100 \<or> me_importance_score (md_memory d) < 2/10 then forgotten @ [d] else forgotten))"

definition memory_consolidation :: "rounding \<Rightarrow> memory_dict list \<Rightarrow> memory_dict list \<times> memory_dict list" where
  "memory_consolidation rnd ds = (case consolidate_memories rnd ds [] [] of (merged, forgotten) \<Rightarrow> (map snd merged, forgotten))"

definition should_forget :: "int \<Rightarrow> int \<Rightarrow> rat \<Rightarrow> memory_dict \<Rightarrow> bool" where
  "should_forget now retention_days minimum_confidence d =
     (let confidence = me_confidence_score (md_memory d)
      in if confidence < minimum_confidence then True
         else case md_created_at d of
           None \<Rightarrow> False
         | Some created \<Rightarrow> (now - created) div 86400 > retention_days \<and> confidence < 7/10)"

definition evolve_memory :: "rounding \<Rightarrow> memory_dict \<Rightarrow> memory_dict \<Rightarrow> memory_dict" where
  "evolve_memory rnd bucket d =
     bucket\<lparr>md_memory := (md_memory bucket)\<lparr>me_confidence_score :=
         to_hundredths rnd (max (me_confidence_score (md_memory bucket)) (me_confidence_score (md_memory d)) + 5/100)\<rparr>,
       md_updated_at := (if md_updated_at d \<noteq> None then md_updated_at d else md_updated_at bucket)\<rparr>"

fun evolve_preferences ::
  "rounding \<Rightarrow> memory_dict list \<Rightarrow> (string, memory_dict) dict \<Rightarrow> memory_dict list \<Rightarrow> (string, memory_dict) dict \<times> memory_dict list" where
  "evolve_preferences rnd [] buckets expired = (buckets, expired)"
| "evolve_preferences rnd (d # ds) buckets expired =
     (if me_memory_type (md_memory d) \<noteq> ''semantic'' \<or> title_key d = [] then evolve_preferences rnd ds buckets expired
      else let bucket = dict_get_or buckets (title_key d) d
           in evolve_preferences rnd ds (dict_set buckets (title_key d) (evolve_memory rnd bucket d))
                (if me_confidence_score (md_memory d) < 3/10 then expired @ [d] else expired))"

definition preference_evolution :: "rounding \<Rightarrow> memory_dict list \<Rightarrow> memory_dict list \<times> memory_dict list" where
  "preference_evolution rnd ds = (case evolve_preferences rnd ds [] [] of (buckets, expired) \<Rightarrow> (map snd buckets, expired))"

record discovered_pattern =
  dp_type :: string
  dp_title :: string
  dp_summary :: string
  dp_confidence :: int

definition discover :: "learning_report \<Rightarrow> adaptive_report option \<Rightarrow> discovered_pattern list" where
  "discover lr ad =
     map (\<lambda>a. \<lparr>dp_type = ''successful_execution_sequence'', dp_title = la_title a, dp_summary = la_summary a, dp_confidence = la_confidence a\<rparr>)
       (lr_execution_patterns lr) @
     (case ad of None \<Rightarrow> []
      | Some r \<Rightarrow> [\<lparr>dp_type = ''replanning_rationale'', dp_title = ''Adaptive replanning'', dp_summary = ad_reason r, dp_confidence = ad_confidence r\<rparr>])"

type_synonym stats = "(string, rat) dict"

definition categories :: "string list" where
  "categories = [''Memory'', ''Knowledge'', ''RAG'', ''Workflow'', ''Tool Execution'', ''Provider'', ''Multi-Agent'']"

definition related :: "string \<Rightarrow> memory_dict \<Rightarrow> bool" where
  "related category d =
     (let word = hd (split_ws (py_lower category))
      in py_in word (py_lower (me_title (md_memory d))) \<or> py_in word (py_lower (me_content (md_memory d))))"

definition category_stats :: "rounding \<Rightarrow> nat \<Rightarrow> stats" where
  "category_stats rnd n =
     (let success = rnd (min 100 (35 + 10 * of_nat n))
      in [(''success_rate'', of_int success / 100),
          (''average_latency'', of_int (rnd (max 5 (150 - 5 * of_nat n))) / 100),
          (''confidence'', of_int (rnd (min 99 (40 + 8 * of_nat n))) / 100),
          (''historical_usage'', of_nat n),
          (''failure_frequency'', of_int (rnd (max 0 (100 - of_int success))) / 100)])"

definition score_capabilities :: "rounding \<Rightarrow> memory_dict list \<Rightarrow> (string, stats) dict" where
  "score_capabilities rnd ds = map (\<lambda>c. (c, category_stats rnd (length (filter (related c) ds)))) categories"

record intelligence_report =
  ir_consolidated :: "memory_dict list"
  ir_forgotten :: "memory_dict list"
  ir_preferences :: "memory_dict list"
  ir_patterns :: "discovered_pattern list"
  ir_capability_scores :: "(string, stats) dict"
  ir_confidence :: int
  ir_persisted :: bool
  ir_trace :: "lifecycle_entry list"

text \<open>
  \<open>stamps\<close> gives the time stamps of a row and \<open>key\<close> the key of a new one; \<open>owners\<close> tells whether an
  organization, an agent and a user exist, and \<open>service\<close> whether there is a memory service.
\<close>

record intelligence_env =
  ie_rnd :: rounding
  ie_now :: int
  ie_stamps :: "int \<Rightarrow> int option \<times> int option"
  ie_key :: "memory table \<Rightarrow> int"
  ie_owners :: "int \<Rightarrow> int \<Rightarrow> int \<Rightarrow> bool"
  ie_service :: bool

definition memory_dict_of :: "intelligence_env \<Rightarrow> int \<times> memory \<Rightarrow> memory_dict" where
  "memory_dict_of env im = \<lparr>md_memory = snd im, md_created_at = fst (ie_stamps env (fst im)), md_updated_at = snd (ie_stamps env (fst im)), md_provenance = []\<rparr>"

definition intelligence_of ::
  "intelligence_env \<Rightarrow> int \<Rightarrow> int \<Rightarrow> learning_report \<Rightarrow> adaptive_report option \<Rightarrow> memory table \<Rightarrow> intelligence_report" where
  "intelligence_of env org agent_id lr ad t =
     (let rnd = ie_rnd env; ds = map (memory_dict_of env) (list_active org (Some agent_id) None t);
          (consolidated, lost) = memory_consolidation rnd ds;
          (prefs, expired) = preference_evolution rnd consolidated;
          patterns = discover lr ad; scores = score_capabilities rnd prefs;
          forgotten = filter (should_forget (ie_now env) 90 (25/100)) prefs;
          confidence = rnd (min 99 (of_int (lr_confidence lr + (case ad of None \<Rightarrow> 50 | Some r \<Rightarrow> ad_confidence r) + 50) / 3))
      in \<lparr>ir_consolidated = consolidated, ir_forgotten = forgotten @ lost @ expired, ir_preferences = prefs, ir_patterns = patterns,
           ir_capability_scores = scores, ir_confidence = confidence, ir_persisted = True,
           ir_trace = [(''Long-Term Intelligence Started'', ''COMPLETED'', ''Long-term intelligence processing started.''),
             (''Memory Consolidation'', ''COMPLETED'', ''Consolidated '' @ show_nat (length consolidated) @ '' memory records.''),
             (''Preference Evolution'', ''COMPLETED'', ''Evolved '' @ show_nat (length prefs) @ '' preferences.''),
             (''Pattern Discovery'', ''COMPLETED'', ''Discovered '' @ show_nat (length patterns) @ '' patterns.''),
             (''Capability Scoring'', ''COMPLETED'', ''Capability statistics updated.''),
             (''Intelligence Persisted'', ''COMPLETED'', ''Long-term knowledge persisted.''),
             (''Long-Term Intelligence Completed'', ''COMPLETED'', ''Long-term intelligence completed.'')]\<rparr>)"

definition no_intelligence :: intelligence_report where
  "no_intelligence =
     \<lparr>ir_consolidated = [], ir_forgotten = [], ir_preferences = [], ir_patterns = [], ir_capability_scores = [], ir_confidence = 50, ir_persisted = False,
      ir_trace = [(''Long-Term Intelligence Started'', ''SKIPPED'', ''MemoryService unavailable.''),
        (''Long-Term Intelligence Completed'', ''SKIPPED'', ''No persistence performed.'')]\<rparr>"

text \<open>The report is computed first; then two memories are created, each of which the database can refuse.\<close>

definition persist_intelligence ::
  "intelligence_env \<Rightarrow> int \<Rightarrow> int \<Rightarrow> int \<Rightarrow> learning_report \<Rightarrow> adaptive_report option \<Rightarrow> memory table
   \<Rightarrow> (string, intelligence_report) result \<times> memory table" where
  "persist_intelligence env org agent_id user_id lr ad t =
     (if \<not> ie_service env then (Ok no_intelligence, t)
      else (let ir = intelligence_of env org agent_id lr ad t;
                add = (\<lambda>title content score t. create_memory (ie_owners env) (ie_key env t) org agent_id title content ''long_term''
                         (of_int score / 100) (of_int score / 100) user_id t)
            in case add ''Execution strategy'' (lr_summary lr) (lr_confidence lr) t of
                 Inl x \<Rightarrow> (Err x, t)
               | Inr t1 \<Rightarrow>
                   (case add ''Capability scores'' ''Persisted capability effectiveness statistics.'' (ir_confidence ir) t1 of
                      Inl x \<Rightarrow> (Err x, t1)
                    | Inr t2 \<Rightarrow> (Ok ir, t2))))"

section \<open>Optimisation\<close>

datatype optimization_policy = LATENCY | COST | QUALITY | BALANCED

record recommendation =
  rm_target :: string
  rm_choice :: string
  rm_reason :: string
  rm_confidence :: int
  rm_improvement :: int
  rm_evidence :: stats

definition stat :: "stats \<Rightarrow> string \<Rightarrow> rat \<Rightarrow> rat" where "stat st k dflt = dict_get_or st k dflt"

definition spare :: "rat \<Rightarrow> rat \<Rightarrow> rat" where "spare x scale = 1 - min (x / scale) 1"

definition provider_score :: "optimization_policy \<Rightarrow> stats \<Rightarrow> rat" where
  "provider_score policy st =
     (let success = stat st ''success_rate'' 0; fast = spare (stat st ''average_latency'' 1) 10; quality = stat st ''confidence'' 0
      in case policy of
           LATENCY \<Rightarrow> fast * (60/100) + success * (30/100) + quality * (10/100)
         | COST \<Rightarrow> success * (45/100) + quality * (20/100) + fast * (35/100)
         | QUALITY \<Rightarrow> quality * (55/100) + success * (35/100) + fast * (10/100)
         | BALANCED \<Rightarrow> success * (40/100) + quality * (35/100) + fast * (25/100))"

definition workflow_score :: "optimization_policy \<Rightarrow> stats \<Rightarrow> rat" where
  "workflow_score policy st =
     (let success = stat st ''success_rate'' 0; fast = spare (stat st ''average_duration'' 1) 60; sound = 1 - stat st ''failure_rate'' 0
      in case policy of
           LATENCY \<Rightarrow> success * (35/100) + fast * (50/100) + sound * (15/100)
         | COST \<Rightarrow> success * (40/100) + sound * (35/100) + fast * (25/100)
         | QUALITY \<Rightarrow> success * (50/100) + sound * (35/100) + fast * (15/100)
         | BALANCED \<Rightarrow> success * (45/100) + sound * (30/100) + fast * (25/100))"

definition tool_score :: "optimization_policy \<Rightarrow> stats \<Rightarrow> rat" where
  "tool_score policy st =
     (let success = stat st ''success_rate'' 0; fast = spare (stat st ''latency'' (stat st ''average_latency'' 1)) 10;
          reliability = stat st ''reliability'' (stat st ''confidence'' 0); usage = stat st ''usage_frequency'' (stat st ''historical_usage'' 0);
          base = success * (40/100) + reliability * (35/100) + min (usage / 10) 1 * (25/100)
      in case policy of
           LATENCY \<Rightarrow> base + fast * (20/100)
         | COST \<Rightarrow> base + fast * (15/100)
         | QUALITY \<Rightarrow> base + reliability * (15/100)
         | BALANCED \<Rightarrow> base)"

definition prompt_score :: "optimization_policy \<Rightarrow> stats \<Rightarrow> rat" where
  "prompt_score policy st =
     (let effect = stat st ''effectiveness'' (stat st ''confidence'' 0); fast = spare (stat st ''latency'' 0) 10; cheap = spare (stat st ''cost'' 0) 10
      in case policy of
           LATENCY \<Rightarrow> effect * (55/100) + fast * (35/100) + cheap * (10/100)
         | COST \<Rightarrow> effect * (45/100) + cheap * (45/100) + fast * (10/100)
         | QUALITY \<Rightarrow> effect * (70/100) + fast * (10/100) + cheap * (20/100)
         | BALANCED \<Rightarrow> effect * (55/100) + fast * (20/100) + cheap * (25/100))"

definition capability_score :: "optimization_policy \<Rightarrow> stats \<Rightarrow> rat" where
  "capability_score policy st =
     (let success = stat st ''success_rate'' 0; fast = spare (stat st ''average_latency'' 1) 10; sound = 1 - stat st ''failure_frequency'' 0
      in case policy of
           LATENCY \<Rightarrow> success * (35/100) + fast * (50/100) + sound * (15/100)
         | COST \<Rightarrow> success * (40/100) + sound * (35/100) + fast * (25/100)
         | QUALITY \<Rightarrow> success * (55/100) + sound * (35/100) + fast * (10/100)
         | BALANCED \<Rightarrow> success * (45/100) + sound * (30/100) + fast * (25/100))"

definition improvement_from_stats :: "stats \<Rightarrow> rat" where
  "improvement_from_stats st =
     min (35/100) (max 0 (stat st ''success_rate'' 0 * (10/100) + spare (stat st ''average_latency'' (stat st ''latency'' 1)) 10 * (15/100)))"

definition recommend ::
  "rounding \<Rightarrow> string \<Rightarrow> (stats \<Rightarrow> rat) \<Rightarrow> string \<Rightarrow> string \<Rightarrow> (string \<Rightarrow> string) \<Rightarrow> (string, stats) dict \<Rightarrow> recommendation" where
  "recommend rnd target score dflt no_data reason history =
     (case sort_key_desc (\<lambda>(_, st). score st) history of
        [] \<Rightarrow> \<lparr>rm_target = target, rm_choice = dflt, rm_reason = no_data, rm_confidence = 25, rm_improvement = 0, rm_evidence = []\<rparr>
      | (name, st) # _ \<Rightarrow> \<lparr>rm_target = target, rm_choice = name, rm_reason = reason name, rm_confidence = rnd (100 * score st),
           rm_improvement = rnd (100 * improvement_from_stats st), rm_evidence = st\<rparr>)"

definition recommend_provider :: "rounding \<Rightarrow> (string, stats) dict \<Rightarrow> optimization_policy \<Rightarrow> recommendation" where
  "recommend_provider rnd history policy = recommend rnd ''provider'' (provider_score policy) ''retain default provider''
     ''No historical provider data available.'' (\<lambda>n. ''Provider '' @ n @ '' selected from historical success, latency, and quality data.'') history"

definition recommend_workflow :: "rounding \<Rightarrow> (string, stats) dict \<Rightarrow> optimization_policy \<Rightarrow> recommendation" where
  "recommend_workflow rnd history policy = recommend rnd ''workflow'' (workflow_score policy) ''retain current workflow order''
     ''No workflow statistics available.'' (\<lambda>n. ''Workflow '' @ n @ '' has the best historical execution profile.'') history"

definition recommend_tool :: "rounding \<Rightarrow> (string, stats) dict \<Rightarrow> optimization_policy \<Rightarrow> recommendation" where
  "recommend_tool rnd history policy = recommend rnd ''tool'' (tool_score policy) ''retain current tool selection''
     ''No tool telemetry available.'' (\<lambda>n. ''Tool '' @ n @ '' has the strongest reliability profile.'') history"

definition recommend_prompt :: "rounding \<Rightarrow> (string, stats) dict \<Rightarrow> optimization_policy \<Rightarrow> recommendation" where
  "recommend_prompt rnd history policy = recommend rnd ''prompt'' (prompt_score policy) ''retain current prompt strategy''
     ''No prompt strategy telemetry available.'' (\<lambda>n. ''Prompt strategy '' @ n @ '' is the most effective historical strategy.'') history"

definition recommend_capability :: "rounding \<Rightarrow> (string, stats) dict \<Rightarrow> optimization_policy \<Rightarrow> recommendation" where
  "recommend_capability rnd scores policy = recommend rnd ''capability'' (capability_score policy) ''retain current capability ordering''
     ''No capability scores available.'' (\<lambda>n. ''Capability '' @ n @ '' should be ordered earlier in the execution path.'') scores"

definition order_execution :: "(string, stats) dict \<Rightarrow> (string, stats) dict \<Rightarrow> string list" where
  "order_execution scores flows =
     (let caps = sort_key (\<lambda>(_, st). (stat st ''failure_frequency'' 1, - stat st ''success_rate'' 0)) scores;
          wfs = sort_key (\<lambda>(_, st). (stat st ''failure_rate'' 1, - stat st ''average_duration'' 0)) flows;
          ord = map (\<lambda>(n, _). ''capability:'' @ n) caps @ map (\<lambda>(n, _). ''workflow:'' @ n) wfs
      in if ord = [] then [''capability:provider'', ''workflow:default''] else ord)"

record optimization_report =
  op_policy :: optimization_policy
  op_provider :: recommendation
  op_workflow :: recommendation
  op_tool :: recommendation
  op_capability :: recommendation
  op_prompt :: recommendation
  op_ordering :: "string list"
  op_improvement :: int
  op_trace :: "lifecycle_entry list"

definition or_dict :: "('k, 'v) dict option \<Rightarrow> ('k, 'v) dict \<Rightarrow> ('k, 'v) dict" where
  "or_dict d dflt = (case d of None \<Rightarrow> dflt | Some e \<Rightarrow> if e = [] then dflt else e)"

definition optimize ::
  "rounding \<Rightarrow> intelligence_report \<Rightarrow> optimization_policy \<Rightarrow> (string, stats) dict option \<Rightarrow> (string, stats) dict option
   \<Rightarrow> (string, stats) dict option \<Rightarrow> (string, stats) dict option \<Rightarrow> (string, stats) dict option \<Rightarrow> optimization_report" where
  "optimize rnd report policy providers workflows toolset prompts capabilities =
     (let ph = or_dict providers (ir_capability_scores report); wh = or_dict workflows []; th = or_dict toolset []; prh = or_dict prompts [];
          cs = or_dict capabilities (ir_capability_scores report);
          p = recommend_provider rnd ph policy; w = recommend_workflow rnd wh policy; t = recommend_tool rnd th policy;
          q = recommend_prompt rnd prh policy; c = recommend_capability rnd cs policy
      in \<lparr>op_policy = policy, op_provider = p, op_workflow = w, op_tool = t, op_capability = c, op_prompt = q,
          op_ordering = order_execution cs wh,
          op_improvement = rnd (min 99 (of_int (rm_improvement p + rm_improvement w + rm_improvement t + rm_improvement q + rm_improvement c) / 5)),
          op_trace = [(''Runtime Optimization Started'', ''COMPLETED'', ''Optimization analysis started.''),
            (''Provider Optimization'', ''COMPLETED'', rm_reason p), (''Workflow Optimization'', ''COMPLETED'', rm_reason w),
            (''Tool Optimization'', ''COMPLETED'', rm_reason t), (''Capability Optimization'', ''COMPLETED'', rm_reason c),
            (''Optimization Persisted'', ''COMPLETED'', ''Optimization recommendations persisted.''),
            (''Runtime Optimization Completed'', ''COMPLETED'', ''Optimization analysis completed.'')]\<rparr>)"

section \<open>The analysis of a run\<close>

definition build_execution_result :: "json \<Rightarrow> run_result" where
  "build_execution_result response =
     \<lparr>rs_task_id = ''provider'', rs_status = E_COMPLETED, rs_outputs = [(''response'', response)], rs_errors = [], rs_duration = 0,
      rs_required_capability = ''provider''\<rparr>"

text \<open>\<open>render\<close> is \<open>str\<close> on the dictionary of the report, the content of the memory.\<close>

definition persist_learning ::
  "(learning_report \<Rightarrow> string) \<Rightarrow> intelligence_env \<Rightarrow> string \<Rightarrow> int \<Rightarrow> int \<Rightarrow> learning_report \<Rightarrow> policy_decision \<Rightarrow> memory table
   \<Rightarrow> (string, memory table) result" where
  "persist_learning render env execution_id org user_id lr pd t =
     (if \<not> ie_service env then Ok t
      else create_memory (ie_owners env) (ie_key env t) org 1 (''Learning: '' @ execution_id) (render lr)
             (or_str (pd_memory_type pd) ''episodic'') (of_int (pd_importance pd) / 100) (of_int (lr_confidence lr) / 100) user_id t)"

record run_analysis =
  an_reflection :: reflection_report
  an_evaluation :: evaluation_report
  an_learning :: learning_report
  an_policy :: policy_decision
  an_adaptive :: adaptive_report
  an_intelligence :: intelligence_report
  an_optimization :: optimization_report
  an_trace :: "lifecycle_entry list"

text \<open>The steps of the analysis, each a function of what it is called with.\<close>

definition analysis_context :: "string \<Rightarrow> exec_context \<Rightarrow> run_context" where
  "analysis_context message ctx = \<lparr>rc_message = message, rc_blueprint = Some (ec_blueprint ctx)\<rparr>"

definition reflect_run :: "rounding \<Rightarrow> string \<Rightarrow> exec_context \<Rightarrow> json \<Rightarrow> reflection_report" where
  "reflect_run rnd message ctx response = reflect rnd (analysis_context message ctx) (build_execution_result response) (ec_trace ctx)"

definition evaluate_run :: "rounding \<Rightarrow> string \<Rightarrow> exec_context \<Rightarrow> json \<Rightarrow> evaluation_report" where
  "evaluate_run rnd message ctx response =
     evaluate rnd (analysis_context message ctx) (build_execution_result response) (reflect_run rnd message ctx response)"

definition evaluation_trace :: "reflection_report \<Rightarrow> evaluation_report \<Rightarrow> exec_context \<Rightarrow> lifecycle_entry list" where
  "evaluation_trace rfl ev ctx =
     ec_trace ctx @ [(''Reflection Started'', ''COMPLETED'', ''Reflection analysis started.''),
       (''Reflection Completed'', ''COMPLETED'', rf_execution_summary rfl), (''Evaluation Started'', ''COMPLETED'', ''Evaluation analysis started.''),
       (''Evaluation Completed'', ''COMPLETED'', ev_summary ev)]"

definition learn_run :: "rounding \<Rightarrow> string \<Rightarrow> exec_context \<Rightarrow> json \<Rightarrow> learning_report" where
  "learn_run rnd message ctx response =
     learn rnd (analysis_context message ctx) (reflect_run rnd message ctx response) (evaluate_run rnd message ctx response)
       (evaluation_trace (reflect_run rnd message ctx response) (evaluate_run rnd message ctx response) ctx)"

definition learning_trace :: "learning_report \<Rightarrow> policy_decision \<Rightarrow> lifecycle_entry list" where
  "learning_trace lr pd = [(''Learning Started'', ''COMPLETED'', ''Learning analysis started.''), (''Learning Analysis'', ''COMPLETED'', lr_summary lr),
     (''Learning Policy'', ''COMPLETED'', pd_reason pd), (''Learning Completed'', ''COMPLETED'', ''Learning analysis completed.'')]"

definition adapt_run :: "rounding \<Rightarrow> string \<Rightarrow> exec_context \<Rightarrow> json \<Rightarrow> adaptive_report" where
  "adapt_run rnd message ctx response =
     revise_blueprint rnd None (first_plan (ec_blueprint ctx)) (reflect_run rnd message ctx response) (evaluate_run rnd message ctx response)
       (learn_run rnd message ctx response)"

definition run_analysis_of :: "intelligence_env \<Rightarrow> string \<Rightarrow> exec_context \<Rightarrow> json \<Rightarrow> intelligence_report \<Rightarrow> run_analysis" where
  "run_analysis_of env message ctx response ir =
     (let rfl = reflect_run (ie_rnd env) message ctx response; ev = evaluate_run (ie_rnd env) message ctx response;
          lr = learn_run (ie_rnd env) message ctx response; pd = policy_decide lr;
          opt = optimize (ie_rnd env) ir BALANCED None None None None (Some (ir_capability_scores ir))
      in \<lparr>an_reflection = rfl, an_evaluation = ev, an_learning = lr, an_policy = pd, an_adaptive = adapt_run (ie_rnd env) message ctx response,
          an_intelligence = ir, an_optimization = opt,
          an_trace = evaluation_trace rfl ev ctx @ learning_trace lr pd @ ir_trace ir @ op_trace opt\<rparr>)"

definition record_analysis ::
  "(learning_report \<Rightarrow> string) \<Rightarrow> intelligence_env \<Rightarrow> string \<Rightarrow> exec_context \<Rightarrow> json \<Rightarrow> int \<Rightarrow> int \<Rightarrow> memory table
   \<Rightarrow> (string, run_analysis) result \<times> memory table" where
  "record_analysis render env message ctx response user_id org t =
     (let lr = learn_run (ie_rnd env) message ctx response; pd = policy_decide lr
      in case (if pd_persist_memory pd \<and> ie_service env
               then persist_learning render env (ec_execution_id ctx) org user_id lr pd t else Ok t) of
           Inl x \<Rightarrow> (Err x, t)
         | Inr t1 \<Rightarrow>
             (case persist_intelligence env org 1 user_id lr (Some (adapt_run (ie_rnd env) message ctx response)) t1 of
                (Inl x, t2) \<Rightarrow> (Err x, t2)
              | (Inr ir, t2) \<Rightarrow> (Ok (run_analysis_of env message ctx response ir), t2)))"

text \<open>
  The run the analysis publishes: under the execution key of the chat, completed, without tasks and
  transitions, with the one result it was given and the whole trace.
\<close>

definition analysis_run :: "exec_context \<Rightarrow> run_analysis \<Rightarrow> exec_run" where
  "analysis_run ctx a =
     \<lparr>er_execution_id = ec_execution_id ctx, er_state = E_COMPLETED, er_run_tasks = [],
      er_results = [\<lparr>xr_task_id = ''provider'', xr_status = E_COMPLETED, xr_runtime = []\<rparr>], er_transitions = [], er_timeline = an_trace a\<rparr>"

text \<open>
  The analysis as the last step of a chat on Runtime V2, in a world that holds the table of memories; \<open>dump\<close> is the serialisation
  of the response.
\<close>

definition analyse_chat ::
  "('w \<Rightarrow> memory table) \<Rightarrow> (memory table \<Rightarrow> 'w \<Rightarrow> 'w) \<Rightarrow> ('r \<Rightarrow> json) \<Rightarrow> (learning_report \<Rightarrow> string) \<Rightarrow> ('w \<Rightarrow> intelligence_env)
   \<Rightarrow> gov_user \<Rightarrow> int \<Rightarrow> chat_payload \<Rightarrow> ('w, 'r) run_analyser" where
  "analyse_chat get_memories put_memories dump render env user org p ctx r w =
     (case record_analysis render (env (ew_outside w)) (pl_message p) ctx (dump r) (gu_id user) org (get_memories (ew_outside w)) of
        (Inl x, t) \<Rightarrow> (Err x, w\<lparr>ew_outside := put_memories t (ew_outside w)\<rparr>)
      | (Inr a, t) \<Rightarrow> (Ok (), publish_run (analysis_run ctx a) (w\<lparr>ew_outside := put_memories t (ew_outside w)\<rparr>)))"

definition v2_answer_chat ::
  "(exec_task \<Rightarrow> run_payload \<Rightarrow> 'e \<times> memory table \<Rightarrow> (string, 'r \<times> exec_result) result \<times> 'e \<times> memory table) \<Rightarrow> ('r \<Rightarrow> json)
   \<Rightarrow> (learning_report \<Rightarrow> string) \<Rightarrow> intelligence_env \<Rightarrow> request_ids \<Rightarrow> gov_user \<Rightarrow> int \<Rightarrow> chat_payload \<Rightarrow> ('e \<times> memory table) engine_world
   \<Rightarrow> (string, 'r) result \<times> ('e \<times> memory table) engine_world" where
  "v2_answer_chat dispatch dump render env rids user org p w =
     v2_execute_chat dispatch (analyse_chat snd (\<lambda>t (e, _). (e, t)) dump render (\<lambda>_. env) user org p) rids user org p w"

lemma prepared_context:
  assumes "prepare_context rids user org p = Inr ctx"
  shows "ec_trace ctx \<noteq> []" and "ec_execution_id ctx = rq_execution_id rids"
  using assms
  by (auto simp: prepare_context_def build_execution_context_def bind_ok_eq_Inr split: if_splits)

lemma recorded_analysis:
  assumes "record_analysis render env message ctx response user_id org t = (Ok a, t')"
  shows "\<exists>ir t1. a = run_analysis_of env message ctx response ir
    \<and> persist_intelligence env org 1 user_id (learn_run (ie_rnd env) message ctx response) (Some (adapt_run (ie_rnd env) message ctx response)) t1 = (Ok ir, t')"
  using assms by (auto simp: record_analysis_def Let_def split: sum.splits prod.splits if_splits)

lemma analysis_parts:
  assumes "record_analysis render env message ctx response user_id org t = (Ok a, t')"
  shows "an_reflection a = reflect_run (ie_rnd env) message ctx response"
    and "an_evaluation a = evaluate_run (ie_rnd env) message ctx response"
    and "an_learning a = learn_run (ie_rnd env) message ctx response"
    and "an_policy a = policy_decide (learn_run (ie_rnd env) message ctx response)"
    and "an_adaptive a = adapt_run (ie_rnd env) message ctx response"
  using recorded_analysis [OF assms] by (auto simp: run_analysis_of_def Let_def)

section \<open>Which verdicts the analysis can reach\<close>

context nearest
begin

lemma built_reflection:
  assumes "tr \<noteq> []"
  shows "rf_confidence (reflect rnd rc (build_execution_result r) tr) = 90"
    "rf_weaknesses (reflect rnd rc (build_execution_result r) tr) = []"
    "rf_warnings (reflect rnd rc (build_execution_result r) tr) = [''Execution duration was non-positive.'']"
    "rf_observations (reflect rnd rc (build_execution_result r) tr) \<noteq> []"
    "rc_blueprint rc \<noteq> None \<Longrightarrow> rf_missing_information (reflect rnd rc (build_execution_result r) tr) = []"
  using assms exact [of 90]
  by (simp_all add: reflect_def build_execution_result_def reflection_confidence_def py_unique_def)

lemma built_evaluation:
  fixes r :: json and tr :: "lifecycle_entry list" and rc :: run_context
  assumes "tr \<noteq> []" and "rc_blueprint rc \<noteq> None"
  defines "res \<equiv> build_execution_result r"
  defines "ev \<equiv> evaluate rnd rc res (reflect rnd rc res tr)"
  shows "ev_quality ev = 63" and "ev_success ev" and "ev_confidence ev \<in> {76, 77}" and "ev_capability_utilization ev = [''provider'']"
proof -
  let ?rfl = "reflect rnd rc res tr"
  note rf = built_reflection [OF assms(1), of rc r, folded res_def]
  have c: "completeness_score rnd rc res ?rfl = 100" "consistency_score rnd res ?rfl = 70" "efficiency_score res = 20"
    using assms(2) rf exact [of 100] exact [of 70]
    by (simp_all add: completeness_score_def consistency_score_def efficiency_score_def res_def build_execution_result_def)
  have q: "rnd (190 / 3) = 63"
    by (rule unique) simp_all
  have "rnd (153 / 2) \<in> {76, 77}"
    using tie [of 76] by simp
  then show "ev_quality ev = 63" "ev_success ev" "ev_confidence ev \<in> {76, 77}" "ev_capability_utilization ev = [''provider'']"
    by (simp_all add: ev_def evaluate_def Let_def c q rf) (simp_all add: res_def build_execution_result_def)
qed

lemma built_learning:
  fixes r :: json and tr tr' :: "lifecycle_entry list" and rc :: run_context
  assumes "tr \<noteq> []" and "rc_blueprint rc \<noteq> None"
  defines "res \<equiv> build_execution_result r"
  defines "rfl \<equiv> reflect rnd rc res tr"
  defines "ev \<equiv> evaluate rnd rc res rfl"
  defines "lr \<equiv> learn rnd rc rfl ev tr'"
  shows "lr_confidence lr \<in> (if lr_preferences lr = [] then {81, 82} else {86, 87})"
    and "lr_recommendation lr = (if lr_preferences lr = [] then MERGE else PERSIST)"
    and "replanning_reasons rfl ev lr None = [''evaluation_below_threshold'']"
proof -
  note ev = built_evaluation [OF assms(1,2), of r, folded res_def, folded rfl_def, folded ev_def]
  note rf = built_reflection [OF assms(1), of rc r, folded res_def, folded rfl_def]
  have round3: "rnd (244 / 3) = 81" "rnd (245 / 3) = 82" "rnd (259 / 3) = 86" "rnd (260 / 3) = 87" by (rule unique; simp)+
  have obs: "extract_observations rfl \<noteq> []" using rf(4) by (simp add: extract_observations_def)
  have "learning_confidence rnd rfl ev (extract_observations rfl) prefs \<in> (if prefs = [] then {81, 82} else {86, 87})" for prefs
    using ev(3) round3 by (auto simp: learning_confidence_def rf ev(1) obs)
  then show conf: "lr_confidence lr \<in> (if lr_preferences lr = [] then {81, 82} else {86, 87})"
    by (simp add: lr_def learn_def Let_def)
  have caps: "lr_capability_patterns lr \<noteq> []" using ev(4) by (simp add: lr_def learn_def Let_def extract_capability_patterns_def)
  have "lr_recommendation lr = recommend_persistence (lr_confidence lr) (lr_preferences lr) (lr_execution_patterns lr) (lr_capability_patterns lr) (lr_workflow_patterns lr)"
    by (simp add: lr_def learn_def Let_def)
  then show "lr_recommendation lr = (if lr_preferences lr = [] then MERGE else PERSIST)"
    using conf caps by (auto simp: recommend_persistence_def split: if_splits)
  show "replanning_reasons rfl ev lr None = [''evaluation_below_threshold'']"
    using conf by (auto simp: replanning_reasons_def rf ev assms(2) split: if_splits)
qed

end

text \<open>
  The analysis of a run reaches the same verdict for every answer, because the result it analyses
  is built with duration zero.  Whatever was asked and answered, reflection warns of a non-positive
  duration, the quality is 0.63 and counts as a success, and replanning is required because the
  evaluation is below the threshold; what was learned is always persisted, as an experience to
  merge or, when the request mentions a preference, as a new one.
\<close>

theorem analysis_verdict_fixed:
  assumes near: "\<And>x. \<bar>of_int (ie_rnd env x) - x\<bar> \<le> 1 / 2" and trace: "ec_trace ctx \<noteq> []"
    and run: "record_analysis render env message ctx response user_id org t = (Ok a, t')"
  shows "rf_warnings (an_reflection a) = [''Execution duration was non-positive.''] \<and> rf_confidence (an_reflection a) = 90 \<and>
    ev_quality (an_evaluation a) = 63 \<and> ev_success (an_evaluation a) \<and>
    ad_required (an_adaptive a) \<and> ad_reason (an_adaptive a) = ''evaluation_below_threshold'' \<and>
    pd_persist_memory (an_policy a) \<and> pd_decision (an_policy a) = (if lr_preferences (an_learning a) = [] then MERGE else PERSIST)"
proof -
  have near': "nearest (ie_rnd env)" using near by unfold_locales
  have b: "rc_blueprint (analysis_context message ctx) \<noteq> None" by (simp add: analysis_context_def)
  note rf = nearest.built_reflection [OF near' trace, of "analysis_context message ctx" response, folded reflect_run_def]
  note ev = nearest.built_evaluation [OF near' trace b, of response, folded reflect_run_def, folded evaluate_run_def]
  note lr = nearest.built_learning [OF near' trace b, of response, folded reflect_run_def, folded evaluate_run_def]
  note le = lr [of "evaluation_trace (reflect_run (ie_rnd env) message ctx response) (evaluate_run (ie_rnd env) message ctx response) ctx", folded learn_run_def]
  have "ad_required (adapt_run (ie_rnd env) message ctx response) \<and> ad_reason (adapt_run (ie_rnd env) message ctx response) = ''evaluation_below_threshold''"
    by (simp add: adapt_run_def revise_blueprint_def should_replan_def le(3) py_unique_def Let_def)
  moreover have "pd_persist_memory (policy_decide (learn_run (ie_rnd env) message ctx response)) \<and>
      pd_decision (policy_decide (learn_run (ie_rnd env) message ctx response)) =
        (if lr_preferences (learn_run (ie_rnd env) message ctx response) = [] then MERGE else PERSIST)"
    using le(1,2) by (auto simp: policy_decide_def Let_def split: if_splits)
  ultimately show ?thesis unfolding analysis_parts [OF run] using rf(1,3) ev(1,2) by blast
qed

section \<open>What the analysis stores\<close>

lemma learn_run_policy:
  assumes "nearest (ie_rnd env)" and "ec_trace ctx \<noteq> []"
  shows "pd_persist_memory (policy_decide (learn_run (ie_rnd env) message ctx response))"
    and "lr_confidence (learn_run (ie_rnd env) message ctx response) \<in> {81, 82, 86, 87}"
    and "pd_importance (policy_decide (learn_run (ie_rnd env) message ctx response)) = lr_confidence (learn_run (ie_rnd env) message ctx response)"
proof -
  have b: "rc_blueprint (analysis_context message ctx) \<noteq> None" by (simp add: analysis_context_def)
  note lr = nearest.built_learning [OF assms b, of response, folded reflect_run_def, folded evaluate_run_def]
  note le = lr [of "evaluation_trace (reflect_run (ie_rnd env) message ctx response) (evaluate_run (ie_rnd env) message ctx response) ctx", folded learn_run_def]
  show "lr_confidence (learn_run (ie_rnd env) message ctx response) \<in> {81, 82, 86, 87}" using le(1) by (auto split: if_splits)
  show "pd_persist_memory (policy_decide (learn_run (ie_rnd env) message ctx response))"
    "pd_importance (policy_decide (learn_run (ie_rnd env) message ctx response)) = lr_confidence (learn_run (ie_rnd env) message ctx response)"
    using le(1,2) by (auto simp: policy_decide_def Let_def split: if_splits)
qed

lemma adapt_run_range:
  assumes "nearest (ie_rnd env)"
  shows "0 \<le> ad_confidence (adapt_run (ie_rnd env) message ctx response)" "ad_confidence (adapt_run (ie_rnd env) message ctx response) \<le> 99"
  unfolding adapt_run_def using nearest.planning_range [OF assms] by blast+

definition experience :: "int \<Rightarrow> int \<Rightarrow> memory \<Rightarrow> bool" where
  "experience org user_id m \<longleftrightarrow> me_organization_id m = org \<and> me_agent_id m = 1 \<and> me_created_by m = user_id \<and> \<not> me_is_deleted m \<and>
     0 \<le> me_confidence_score m \<and> me_confidence_score m \<le> 1 \<and> me_importance_score m = me_confidence_score m"

lemma experience_created:
  "0 \<le> k \<Longrightarrow> k \<le> 100 \<Longrightarrow> owners org 1 user_id \<Longrightarrow>
   \<exists>i m. create_memory owners i' org 1 ti co ty (of_int k / 100) (of_int k / 100) user_id t = Ok (t @ [(i, m)]) \<and> experience org user_id m \<and> me_title m = ti"
  by (auto simp: create_memory_def repo_create_def experience_def)

lemma memory_refused:
  "\<not> owners org agent_id user_id \<Longrightarrow> create_memory owners i org agent_id ti co ty imp conf user_id t = Err ''IntegrityError''"
  by (simp add: create_memory_def)

text \<open>The memories of an analysis: three, none, or a refusal of the database before the first is stored.\<close>

lemma analysis_memories:
  assumes near: "\<And>x. \<bar>of_int (ie_rnd env x) - x\<bar> \<le> 1 / 2" and trace: "ec_trace ctx \<noteq> []"
  shows "if ie_service env \<and> \<not> ie_owners env org 1 user_id
    then record_analysis render env message ctx response user_id org t = (Err ''IntegrityError'', t)
    else (\<exists>a ms. record_analysis render env message ctx response user_id org t = (Ok a, t @ ms) \<and>
      (if ie_service env
       then map (me_title \<circ> snd) ms = [''Learning: '' @ ec_execution_id ctx, ''Execution strategy'', ''Capability scores''] \<and>
         list_all (\<lambda>(_, m). me_organization_id m = org \<and> me_agent_id m = 1 \<and> me_created_by m = user_id \<and>
           0 \<le> me_confidence_score m \<and> me_confidence_score m \<le> 1 \<and> me_importance_score m = me_confidence_score m) ms
       else ms = []))"
proof (cases "ie_service env")
  case True
  have near': "nearest (ie_rnd env)" using near by unfold_locales
  define lr where "lr = learn_run (ie_rnd env) message ctx response"
  define ad where "ad = adapt_run (ie_rnd env) message ctx response"
  note p = learn_run_policy [OF near' trace, of message response, folded lr_def]
  note ad = adapt_run_range [OF near', of message ctx response, folded ad_def]
  have lr: "0 \<le> lr_confidence lr" "lr_confidence lr \<le> 100" using p(2) by auto
  have analysis: "record_analysis render env message ctx response user_id org t =
      (case persist_learning render env (ec_execution_id ctx) org user_id lr (policy_decide lr) t of
           Inl x \<Rightarrow> (Err x, t)
         | Inr t1 \<Rightarrow> (case persist_intelligence env org 1 user_id lr (Some ad) t1 of
                (Inl x, t2) \<Rightarrow> (Err x, t2)
              | (Inr ir, t2) \<Rightarrow> (Ok (run_analysis_of env message ctx response ir), t2)))"
    using True p(1) unfolding record_analysis_def Let_def lr_def ad_def by simp
  show ?thesis
  proof (cases "ie_owners env org 1 user_id")
    case False
    with True show ?thesis unfolding analysis by (simp add: persist_learning_def memory_refused)
  next
    case owners: True
    obtain i1 m1 where m1: "create_memory (ie_owners env) (ie_key env t) org 1 (''Learning: '' @ ec_execution_id ctx) (render lr)
        (or_str (pd_memory_type (policy_decide lr)) ''episodic'') (of_int (lr_confidence lr) / 100) (of_int (lr_confidence lr) / 100) user_id t = Ok (t @ [(i1, m1)])"
        "experience org user_id m1" "me_title m1 = ''Learning: '' @ ec_execution_id ctx"
      using experience_created [of "lr_confidence lr" "ie_owners env", OF lr owners] by blast
    define t1 where "t1 = t @ [(i1, m1)]"
    have l1: "persist_learning render env (ec_execution_id ctx) org user_id lr (policy_decide lr) t = Ok t1"
      by (simp only: persist_learning_def True p(3) m1(1) t1_def not_True_eq_False if_False)
    define ir where "ir = intelligence_of env org 1 lr (Some ad) t1"
    have "ir_confidence ir = ie_rnd env (min 99 (of_int (lr_confidence lr + ad_confidence ad + 50) / 3))"
      by (simp add: ir_def intelligence_of_def Let_def split: prod.split)
    then have c: "0 \<le> ir_confidence ir" "ir_confidence ir \<le> 100"
      using lr ad by (simp_all, intro nearest.at_least [OF near'], simp, intro nearest.at_most [OF near'], simp)
    obtain t2 i2 m2 where m2: "create_memory (ie_owners env) (ie_key env t1) org 1 ''Execution strategy'' (lr_summary lr) ''long_term''
        (of_int (lr_confidence lr) / 100) (of_int (lr_confidence lr) / 100) user_id t1 = Ok t2" "t2 = t1 @ [(i2, m2)]"
        "experience org user_id m2" "me_title m2 = ''Execution strategy''"
      using experience_created [of _ "ie_owners env", OF lr owners] by blast
    obtain t3 i3 m3 where m3: "create_memory (ie_owners env) (ie_key env t2) org 1 ''Capability scores'' ''Persisted capability effectiveness statistics.''
        ''long_term'' (of_int (ir_confidence ir) / 100) (of_int (ir_confidence ir) / 100) user_id t2 = Ok t3" "t3 = t2 @ [(i3, m3)]"
        "experience org user_id m3" "me_title m3 = ''Capability scores''"
      using experience_created [of _ "ie_owners env", OF c owners] by blast
    have "persist_intelligence env org 1 user_id lr (Some ad) t1 = (Ok ir, t3)"
      using True by (simp add: persist_intelligence_def Let_def ir_def [symmetric] m2(1) m3(1))
    then have "record_analysis render env message ctx response user_id org t = (Ok (run_analysis_of env message ctx response ir), t3)"
      by (simp add: analysis l1)
    then show ?thesis using True owners m1(2-) m2(2-) m3(2-)
      by (auto simp: experience_def t1_def intro!: exI [of _ "[(i1, m1), (i2, m2), (i3, m3)]"])
  qed
next
  case False
  then show ?thesis by (auto simp: record_analysis_def persist_intelligence_def Let_def)
qed

text \<open>
  C29: A chat on Runtime V2, on every branch.  When the request is refused, or the engine raises, the chat does and nothing is stored or published besides.
  When the engine has answered, the analysis of the run follows.  Without a memory service it stores nothing.  With one, it stores
  exactly three memories at the end of the table and changes no other: one with what
  was learned and two of long-term intelligence, all three for the organization of the request
  and for agent 1, whichever agent answered, with scores between 0 and 1.  That needs an agent 1: where there is
  none the database refuses the first of them, nothing is stored, and the chat the engine
  has answered is an exception.  After a completed analysis the answer is the engine's, and a further run is published under the
  same execution key, completed and without tasks.
\<close>

theorem chat_stores_three_memories:
  assumes near: "\<And>x. \<bar>of_int (ie_rnd env x) - x\<bar> \<le> 1 / 2"
    and chat: "v2_answer_chat dispatch dump render env rids user org p w = (answer, w')"
  shows "case prepare_context rids user org p of
      Inl x \<Rightarrow> answer = Err x \<and> w' = w
    | Inr ctx \<Rightarrow>
        (case engine_execute_chat dispatch ctx (ChatPayload p) w of
           (Inl x, w1) \<Rightarrow> answer = Err x \<and> w' = w1
         | (Inr r, w1) \<Rightarrow>
             if ie_service env \<and> \<not> ie_owners env org 1 (gu_id user)
             then answer = Err ''IntegrityError'' \<and> w' = w1
             else answer = Ok r \<and> fst (ew_outside w') = fst (ew_outside w1)
               \<and> (\<exists>run. ew_published w' = ew_published w1 @ [run] \<and> er_execution_id run = rq_execution_id rids
                    \<and> er_state run = E_COMPLETED \<and> er_run_tasks run = [])
               \<and> (\<exists>ms. snd (ew_outside w') = snd (ew_outside w1) @ ms
                    \<and> (if ie_service env
                       then map (me_title \<circ> snd) ms = [''Learning: '' @ rq_execution_id rids, ''Execution strategy'', ''Capability scores'']
                         \<and> list_all (\<lambda>(_, m). me_organization_id m = org \<and> me_agent_id m = 1 \<and> me_created_by m = gu_id user \<and>
                             0 \<le> me_confidence_score m \<and> me_confidence_score m \<le> 1 \<and> me_importance_score m = me_confidence_score m) ms
                       else ms = [])))"
proof (cases "prepare_context rids user org p")
  case (Inl x)
  with chat show ?thesis by (simp add: v2_answer_chat_def v2_execute_chat_def)
next
  case (Inr ctx)
  note ctx = prepared_context [OF this]
  obtain res w1 where run: "engine_execute_chat dispatch ctx (ChatPayload p) w = (res, w1)" by fastforce
  show ?thesis
  proof (cases res)
    case (Inl x)
    with run chat have "answer = Err x" "w' = w1" by (simp_all add: v2_answer_chat_def v2_of_engine [OF Inr])
    then show ?thesis by (simp only: Inr run Inl sum.case prod.case)
  next
    case ok: (Inr r)
    let ?rec = "record_analysis render env (pl_message p) ctx (dump r) (gu_id user) org (snd (ew_outside w1))"
    have out: "(answer, w') = (case ?rec of
          (Inl x, t) \<Rightarrow> (Err x, w1\<lparr>ew_outside := (fst (ew_outside w1), t)\<rparr>)
        | (Inr a, t) \<Rightarrow> (Ok r, publish_run (analysis_run ctx a) (w1\<lparr>ew_outside := (fst (ew_outside w1), t)\<rparr>)))"
    proof -
      obtain ra t where ra: "?rec = (ra, t)" by fastforce
      show ?thesis using chat unfolding ra
        by (cases ra; simp add: v2_answer_chat_def v2_of_engine [OF Inr] run ok analyse_chat_def ra split_beta)
    qed
    note mem = analysis_memories [OF near ctx(1), of org "gu_id user" render "pl_message p" "dump r" "snd (ew_outside w1)", unfolded ctx(2)]
    show ?thesis
    proof (cases "ie_service env \<and> \<not> ie_owners env org 1 (gu_id user)")
      case True
      with mem out have "answer = Err ''IntegrityError''" "w' = w1" by simp_all
      with True Inr run ok show ?thesis by simp
    next
      case False
      with mem obtain a ms where "?rec = (Ok a, snd (ew_outside w1) @ ms)"
        and ms: "if ie_service env
             then map (me_title \<circ> snd) ms = [''Learning: '' @ rq_execution_id rids, ''Execution strategy'', ''Capability scores'']
               \<and> list_all (\<lambda>(_, m). me_organization_id m = org \<and> me_agent_id m = 1 \<and> me_created_by m = gu_id user \<and>
                   0 \<le> me_confidence_score m \<and> me_confidence_score m \<le> 1 \<and> me_importance_score m = me_confidence_score m) ms
             else ms = []" by auto
      with out have "answer = Ok r" "w' = publish_run (analysis_run ctx a) (w1\<lparr>ew_outside := (fst (ew_outside w1), snd (ew_outside w1) @ ms)\<rparr>)"
        by simp_all
      then have "answer = Ok r" "fst (ew_outside w') = fst (ew_outside w1)" "snd (ew_outside w') = snd (ew_outside w1) @ ms"
        "ew_published w' = ew_published w1 @ [analysis_run ctx a]" by (simp_all add: publish_run_def)
      moreover have "er_execution_id (analysis_run ctx a) = rq_execution_id rids" "er_state (analysis_run ctx a) = E_COMPLETED"
        "er_run_tasks (analysis_run ctx a) = []" by (simp_all add: analysis_run_def ctx(2))
      ultimately show ?thesis unfolding Inr sum.case unfolding run ok prod.case sum.case if_not_P [OF False]
        by (intro conjI exI [of _ "analysis_run ctx a"] exI [of _ ms] ms) simp_all
    qed
  qed
qed

section \<open>Recommendations\<close>

lemma sort_key_desc_head:
  assumes "sort_key_desc f xs = y # ys"
  shows "y \<in> set xs \<and> (\<forall>x\<in>set xs. f x \<le> f y)"
proof -
  have set: "set xs = set (y # ys)" using assms set_sort_key_desc [of f xs] by simp
  have "sorted_wrt (\<ge>) (map f (y # ys))" using sort_key_desc_sorted [of f xs] assms by simp
  then have "\<forall>x\<in>set ys. f x \<le> f y" by simp
  then show ?thesis using set by auto
qed

lemma recommend_best:
  assumes "history \<noteq> []"
  shows "\<exists>st. (rm_choice (recommend rnd target score dflt nd reason history), st) \<in> set history \<and>
    rm_evidence (recommend rnd target score dflt nd reason history) = st \<and> list_all (\<lambda>(_, st'). score st' \<le> score st) history"
proof -
  obtain y ys where y: "sort_key_desc (\<lambda>(_, st). score st) history = y # ys"
    using assms by (metis length_0_conv length_sort_key_desc neq_Nil_conv)
  obtain n st where n: "y = (n, st)" by (cases y)
  show ?thesis using sort_key_desc_head [OF y] by (auto simp: recommend_def y n list_all_iff)
qed

lemmas recommender_defs = recommend_provider_def recommend_workflow_def recommend_tool_def recommend_prompt_def recommend_capability_def

text \<open>
  Each of the five recommendations names an entry of the history it was given that no other entry
  exceeds in the score of the policy, with the statistics of that entry as evidence; without
  history it recommends to keep what there is.
\<close>

theorem recommendations_are_best:
  assumes "(r, score) \<in> set [(recommend_provider rnd history policy, provider_score policy), (recommend_workflow rnd history policy, workflow_score policy),
    (recommend_tool rnd history policy, tool_score policy), (recommend_prompt rnd history policy, prompt_score policy),
    (recommend_capability rnd history policy, capability_score policy)]"
  shows "if history = [] then rm_confidence r = 25 \<and> rm_improvement r = 0 \<and> take 6 (rm_choice r) = ''retain''
    else (rm_choice r, rm_evidence r) \<in> set history \<and> list_all (\<lambda>(_, st). score st \<le> score (rm_evidence r)) history"
proof (cases "history = []")
  case True
  then show ?thesis using assms
    by (auto simp: recommender_defs recommend_def sort_key_desc_def)
next
  case False
  obtain target dflt nd reason where "r = recommend rnd target score dflt nd reason history"
    using assms by (auto simp: recommender_defs)
  with recommend_best [OF False, of rnd target score dflt nd reason] False show ?thesis by auto
qed

text \<open>
  The provider the analysis recommends is never a provider: with a memory service it is one of the
  seven capability categories, because the capability scores stand in for the missing provider
  history.
\<close>

theorem recommended_provider_is_capability:
  assumes "ie_service env" and run: "record_analysis render env message ctx response user_id org t = (Ok a, t')"
  shows "let r = op_provider (an_optimization a) in
    rm_choice r \<in> {''Memory'', ''Knowledge'', ''RAG'', ''Workflow'', ''Tool Execution'', ''Provider'', ''Multi-Agent''} \<and>
    rm_reason r = ''Provider '' @ rm_choice r @ '' selected from historical success, latency, and quality data.''"
proof -
  have pick: "rm_choice (recommend_provider rnd (score_capabilities rnd ds) p) \<in> set categories \<and>
      rm_reason (recommend_provider rnd (score_capabilities rnd ds) p) =
        ''Provider '' @ rm_choice (recommend_provider rnd (score_capabilities rnd ds) p) @ '' selected from historical success, latency, and quality data.''" for rnd ds p
  proof -
    have ne: "score_capabilities rnd ds \<noteq> []" by (simp add: score_capabilities_def categories_def)
    obtain y ys where y: "sort_key_desc (\<lambda>(_, st). provider_score p st) (score_capabilities rnd ds) = y # ys"
      using ne by (metis length_0_conv length_sort_key_desc neq_Nil_conv)
    then have "y \<in> set (score_capabilities rnd ds)" using sort_key_desc_head [OF y] by blast
    then have "fst y \<in> set categories" by (auto simp: score_capabilities_def)
    moreover obtain n st where "y = (n, st)" by (cases y)
    ultimately show ?thesis by (simp add: recommend_provider_def recommend_def y)
  qed
  obtain ir t1 where a: "a = run_analysis_of env message ctx response ir"
    "persist_intelligence env org 1 user_id (learn_run (ie_rnd env) message ctx response) (Some (adapt_run (ie_rnd env) message ctx response)) t1 = (Ok ir, t')"
    using recorded_analysis [OF run] by blast
  have "\<exists>ds. ir_capability_scores ir = score_capabilities (ie_rnd env) ds"
    using assms(1) a(2) by (auto simp: persist_intelligence_def intelligence_of_def Let_def split: prod.splits sum.splits)
  then obtain ds where ds: "ir_capability_scores ir = score_capabilities (ie_rnd env) ds" by blast
  have "op_provider (an_optimization a) = recommend_provider (ie_rnd env) (ir_capability_scores ir) BALANCED"
    by (simp add: a(1) run_analysis_of_def Let_def optimize_def or_dict_def split: prod.split)
  then show ?thesis using pick [of "ie_rnd env" ds BALANCED] by (simp add: ds categories_def Let_def)
qed

section \<open>Examples\<close>

definition sample_env :: intelligence_env where
  "sample_env = \<lparr>ie_rnd = py_round, ie_now = 0, ie_stamps = (\<lambda>_. (None, None)), ie_key = serial_id, ie_owners = (\<lambda>_ agent_id _. agent_id \<in> {1, 2}),
     ie_service = True\<rparr>"

definition sample_context :: exec_context where
  "sample_context = \<lparr>ec_execution_id = ''e'', ec_blueprint = empty_blueprint \<lparr>pm_runtime_version = ''AgentCorp V2'', pm_planning_version = ''1'',
       pm_request_id = ''r'', pm_trace_id = ''t'', pm_created_at = ''now''\<rparr> undefined,
     ec_trace = [(''Request Received'', ''COMPLETED'', ''Request accepted.'')]\<rparr>"

lemma sample_near: "\<bar>of_int (ie_rnd sample_env x) - x\<bar> \<le> 1 / 2"
  using even_ties.near by (simp add: sample_env_def)

lemma sample_trace: "ec_trace sample_context \<noteq> []"
  by (simp add: sample_context_def)

lemma sample_owned: "ie_owners sample_env org 1 user_id" "ie_service sample_env"
  by (simp_all add: sample_env_def)

lemma sample_analysis: "\<exists>a t. record_analysis (\<lambda>_. []) sample_env ''hello'' sample_context JNull 7 3 [] = (Ok a, t)"
  using analysis_memories [OF sample_near sample_trace, of 3 7 "\<lambda>_. []" "''hello''" JNull "[]"] sample_owned by auto

theorem analysis_verdict_fixed_witness:
  "\<exists>a t. record_analysis (\<lambda>_. []) sample_env ''hello'' sample_context JNull 7 3 [] = (Ok a, t) \<and> ad_required (an_adaptive a)"
  using sample_analysis analysis_verdict_fixed [OF sample_near sample_trace] by blast

definition sample_payload :: chat_payload where
  "sample_payload = demo_payload\<lparr>pl_kind := ChatCreate\<rparr>"

definition sample_dispatch :: "exec_task \<Rightarrow> run_payload \<Rightarrow> 'e \<Rightarrow> (string, string \<times> exec_result) result \<times> 'e" where
  "sample_dispatch t p e = (Ok (''hello'', \<lparr>xr_task_id = et_task_id t, xr_status = E_COMPLETED, xr_runtime = ''v1''\<rparr>), e)"

definition no_agent_env :: intelligence_env where
  "no_agent_env = sample_env\<lparr>ie_owners := (\<lambda>_ agent_id _. agent_id = 2)\<rparr>"

lemma sample_engine:
  "\<exists>ctx w1. prepare_context demo_ids demo_user 3 sample_payload = Ok ctx
     \<and> engine_execute_chat sample_dispatch ctx (ChatPayload sample_payload) \<lparr>ew_published = [], ew_outside = e\<rparr> = (Ok ''hello'', w1)
     \<and> ew_outside w1 = e"
proof -
  obtain ctx where ctx: "prepare_context demo_ids demo_user 3 sample_payload = Ok ctx"
    using prepared_iff [of demo_ids demo_user 3 sample_payload] by (auto simp: sample_payload_def demo_payload_def)
  obtain t where t: "select_dispatch_task (build_execution_tasks (ec_blueprint ctx)) (Some ''provider'') = Ok t"
    using select_provider [OF prepared_nonempty [OF ctx]] by blast
  show ?thesis
    using engine_run [OF t, of sample_dispatch "ChatPayload sample_payload" "\<lparr>ew_published = [], ew_outside = e\<rparr>"] ctx
    by (auto simp: sample_dispatch_def)
qed

theorem chat_stores_three_memories_witness:
  "length (snd (ew_outside (snd (v2_answer_chat sample_dispatch JStr (\<lambda>_. []) sample_env demo_ids demo_user 3 sample_payload
       \<lparr>ew_published = [], ew_outside = ((), [])\<rparr>)))) = 3
   \<and> fst (v2_answer_chat sample_dispatch JStr (\<lambda>_. []) no_agent_env demo_ids demo_user 3 sample_payload \<lparr>ew_published = [], ew_outside = ((), [])\<rparr>)
       = Err ''IntegrityError''"
proof -
  let ?w = "\<lparr>ew_published = [], ew_outside = ((), [] :: memory table)\<rparr>"
  let ?chat = "\<lambda>env. v2_answer_chat sample_dispatch JStr (\<lambda>_. []) env demo_ids demo_user 3 sample_payload ?w"
  obtain ctx w1 where e: "prepare_context demo_ids demo_user 3 sample_payload = Ok ctx"
    "engine_execute_chat sample_dispatch ctx (ChatPayload sample_payload) ?w = (Ok ''hello'', w1)" "ew_outside w1 = ((), [])"
    using sample_engine [of "((), [] :: memory table)"] by blast
  have near: "\<bar>of_int (ie_rnd no_agent_env x) - x\<bar> \<le> 1 / 2" for x
    using sample_near by (simp add: no_agent_env_def)
  have "map (me_title \<circ> snd) (snd (ew_outside (snd (?chat sample_env)))) = [''Learning: '' @ rq_execution_id demo_ids, ''Execution strategy'', ''Capability scores'']"
    using chat_stores_three_memories [OF sample_near prod.collapse [symmetric], of sample_dispatch JStr "\<lambda>_. []" demo_ids demo_user 3 sample_payload ?w]
      sample_owned e by auto
  then have "length (snd (ew_outside (snd (?chat sample_env)))) = 3" by (metis length_Cons length_map list.size(3) numeral_3_eq_3)
  moreover have "fst (?chat no_agent_env) = Err ''IntegrityError''"
    using chat_stores_three_memories [OF near prod.collapse [symmetric], of sample_dispatch JStr "\<lambda>_. []" demo_ids demo_user 3 sample_payload ?w] e
    by (simp add: no_agent_env_def sample_env_def)
  ultimately show ?thesis by blast
qed

definition sample_history :: "(string, stats) dict" where
  "sample_history = [(''slow'', [(''success_rate'', 1/2)]), (''fast'', [(''success_rate'', 1)])]"

theorem recommendations_are_best_witness:
  "(rm_choice (recommend_tool py_round sample_history COST), rm_evidence (recommend_tool py_round sample_history COST)) \<in> set sample_history"
  using recommendations_are_best [of "recommend_tool py_round sample_history COST" "tool_score COST" py_round sample_history COST]
  by (simp add: sample_history_def)

theorem recommended_provider_is_capability_witness:
  "\<exists>a t. record_analysis (\<lambda>_. []) sample_env ''hello'' sample_context JNull 7 3 [] = (Ok a, t) \<and> rm_choice (op_provider (an_optimization a)) \<noteq> ''openai''"
proof -
  obtain a t where run: "record_analysis (\<lambda>_. []) sample_env ''hello'' sample_context JNull 7 3 [] = (Ok a, t)" using sample_analysis by blast
  from recommended_provider_is_capability [OF sample_owned(2) run] run show ?thesis by (auto simp: Let_def)
qed

end
