(* ===== verification/Sanitizer.thy ===== *)
theory Sanitizer
  imports Content_Safety
begin

text \<open>
  The sanitizer of outputs (\<open>security/sanitizer.py\<close>): HTML escaping followed by the
  removal of dangerous patterns, on texts and on JSON payloads.  \<open>html.escape\<close>
  replaces the ampersand first, so it acts on each character by itself.
\<close>

section \<open>Escaping and removal\<close>

definition escape_html_char :: "char \<Rightarrow> string" where
  "escape_html_char c =
     (if c = CHR ''&'' then ''&amp;''
      else if c = CHR ''<'' then ''&lt;''
      else if c = CHR ''>'' then ''&gt;''
      else if c = CHR 0x22 then ''&quot;''
      else if c = CHR 0x27 then ''&#x27;''
      else [c])"

definition html_escape :: "string \<Rightarrow> string" where
  "html_escape s = concat (map escape_html_char s)"

definition rx_lazy :: "rx \<Rightarrow> rx" where "rx_lazy r = RxRep False 0 None r"

definition script_rx :: rx where
  "script_rx = rx_seq [rx_lit ''<script'', rx_lazy rx_any, rx_lit ''>'', rx_lazy rx_any, rx_lit ''</script>'']"

definition drop_table_rx :: rx where
  "drop_table_rx = rx_seq [RxBound, rx_lit ''DROP'', sp1, rx_lit ''TABLE'', RxBound]"

definition delete_from_rx :: rx where
  "delete_from_rx = rx_seq [RxBound, rx_lit ''DELETE'', sp1, rx_lit ''FROM'', RxBound]"

definition DANGEROUS_PATTERNS :: "rx list" where
  "DANGEROUS_PATTERNS = [script_rx, drop_table_rx, delete_from_rx]"

definition sanitize_text :: "string \<Rightarrow> string" where
  "sanitize_text s = fold (\<lambda>p. rx_sub p (\<lambda>_. [])) DANGEROUS_PATTERNS (html_escape s)"

fun sanitize_payload :: "json \<Rightarrow> json" where
  "sanitize_payload (JObj d) = JObj (map (\<lambda>(k, v). (k, sanitize_payload v)) d)"
| "sanitize_payload (JList xs) = JList (map sanitize_payload xs)"
| "sanitize_payload (JStr s) = JStr (sanitize_text s)"
| "sanitize_payload x = x"

section \<open>What is left\<close>

definition inert :: "string \<Rightarrow> bool" where
  "inert s = list_all (\<lambda>c. c \<notin> {CHR ''<'', CHR ''>'', CHR 0x22, CHR 0x27}) s"

fun strings_of :: "json \<Rightarrow> string list" where
  "strings_of (JObj d) = concat (map (\<lambda>(k, v). strings_of v) d)"
| "strings_of (JList xs) = concat (map strings_of xs)"
| "strings_of (JStr s) = [s]"
| "strings_of x = []"

fun keys_of :: "json \<Rightarrow> string list" where
  "keys_of (JObj d) = map fst d @ concat (map (\<lambda>(k, v). keys_of v) d)"
| "keys_of (JList xs) = concat (map keys_of xs)"
| "keys_of x = []"

lemma html_escape_inert: "inert (html_escape s)"
  by (induction s) (auto simp: inert_def html_escape_def escape_html_char_def)

lemma splice_removes: "set (splice_spans (\<lambda>_. []) s i spans) \<subseteq> set s"
  by (induction "\<lambda>_ :: string. [] :: string" s i spans rule: splice_spans.induct)
    (auto simp: slice_def dest: in_set_takeD in_set_dropD)

lemma removal_inert: "inert s \<Longrightarrow> inert (rx_sub r (\<lambda>_. []) s)"
  using splice_removes [of s 0 "rx_finditer r s 0"] by (auto simp: inert_def rx_sub_def list_all_iff)

lemma sanitize_text_inert: "inert (sanitize_text s)"
proof -
  have "inert s \<Longrightarrow> inert (fold (\<lambda>p. rx_sub p (\<lambda>_. [])) ps s)" for ps s
    by (induction ps arbitrary: s) (simp_all add: removal_inert)
  from this [OF html_escape_inert] show ?thesis by (simp add: sanitize_text_def)
qed

lemma lower_char_bracket: "lower_char CHR ''<'' = CHR ''<''"
  by code_simp

lemma script_needs_bracket: "inert s \<Longrightarrow> rx_ends s script_rx i = []"
proof -
  assume "inert s"
  then have "s ! i \<noteq> CHR ''<''" if "i < length s" using that by (simp add: inert_def list_all_length)
  moreover have "c = CHR ''<''" if "lower_char c = CHR ''<''" for c
  proof (cases "65 \<le> (of_char c :: nat) \<and> (of_char c :: nat) \<le> 90")
    case True
    then have "(of_char (lower_char c) :: nat) = of_char c + 32" by (simp add: lower_char_def Let_def)
    with that True show ?thesis by simp
  next
    case False
    with that show ?thesis by (simp add: lower_char_def Let_def del: of_char_of split: if_splits)
  qed
  ultimately have "rx_ends s (RxChar (\<lambda>x. lower_char x = lower_char CHR ''<'')) i = []"
    by (auto simp: lower_char_bracket)
  then show ?thesis
    by (simp add: script_rx_def rx_seq_def rx_lit_def del: rx_ends.simps(2))
qed

lemma finditer_none:
  assumes "\<And>i. rx_ends s r i = []"
  shows "rx_finditer r s i = []"
proof (induction "Suc (length s) - i" arbitrary: i)
  case 0
  then show ?case by (simp add: rx_finditer.simps)
next
  case (Suc n)
  then have "rx_finditer r s (Suc i) = []" by simp
  then show ?case by (simp add: rx_finditer.simps [of r s i] assms)
qed

lemma script_never_removed: "inert s \<Longrightarrow> rx_sub script_rx f s = s"
  by (simp add: rx_sub_def finditer_none script_needs_bracket)

lemma phrase_reassembled: "sanitize_text ''DROP DROP TABLE TABLE'' = ''DROP  TABLE''"
  by code_simp

lemma phrase_found: "rx_search drop_table_rx ''DROP  TABLE''"
  by code_simp

text \<open>
  Every string value of a sanitized payload is free of angle brackets and quotes, at every
  depth; the keys of its dictionaries are passed on as they were.  Since the angle bracket is
  escaped first, the pattern for script elements never removes anything.  Removal is a single
  pass: some texts still contain the statement \<open>DROP TABLE\<close> after it.
\<close>

theorem sanitized_payload_inert:
  "list_all inert (strings_of (sanitize_payload p)) \<and> keys_of (sanitize_payload p) = keys_of p \<and>
   sanitize_text s = rx_sub delete_from_rx (\<lambda>_. []) (rx_sub drop_table_rx (\<lambda>_. []) (html_escape s)) \<and>
   (\<exists>t. rx_search drop_table_rx (sanitize_text t))"
proof (intro conjI)
  show "list_all inert (strings_of (sanitize_payload p))"
    by (induction p rule: sanitize_payload.induct) (auto simp: list_all_iff sanitize_text_inert)
  show "keys_of (sanitize_payload p) = keys_of p"
    by (induction p rule: sanitize_payload.induct) (auto simp: comp_def case_prod_unfold intro!: arg_cong [where f = concat])
  show "sanitize_text s = rx_sub delete_from_rx (\<lambda>_. []) (rx_sub drop_table_rx (\<lambda>_. []) (html_escape s))"
    by (simp add: sanitize_text_def DANGEROUS_PATTERNS_def script_never_removed html_escape_inert)
  show "\<exists>t. rx_search drop_table_rx (sanitize_text t)"
    using phrase_reassembled phrase_found by metis
qed

end
