(* ===== verification/Security_Api.thy ===== *)
theory Security_Api
  imports Endpoint Policy_Engine Quota Secrets Compliance
begin

text \<open>
  The security API (\<open>api/v1/security.py\<close>) with its request and response schemas
  (\<open>schemas/security.py\<close>) and the service of security events
  (\<open>services/audit_security_service.py\<close>): policies, quotas, events, personal
  data, encryption and compliance, each behind its permission.

  The state puts the parts together: the database of accounts, conversations and
  events, the policies with their cache, the quotas, and the process environment that
  holds the keys.  FastAPI resolves the dependencies of an endpoint, then validates the
  request, runs the endpoint, and validates what it returns against the response
  schema: a row the schema does not accept is an internal error.
\<close>

section \<open>State, requests and answers\<close>

record sec_state =
  sc_gov :: gov_db
  sc_policies :: policy_state
  sc_quotas :: quota_table
  sc_environ :: environ

text \<open>\<open>se_generated\<close> and \<open>se_random\<close> are the results of the random generators of the request.\<close>

record sec_env =
  se_auth :: auth_env
  se_fernet :: fernet
  se_generated :: string
  se_random :: string

record policy_update =
  pu_name :: "string option"
  pu_resource :: "string option"
  pu_action :: "string option"
  pu_effect :: "string option"
  pu_condition :: "policy_condition option"
  pu_is_active :: "bool option"

record event_query =
  eq_user_id :: "int option"
  eq_organization_id :: "int option"
  eq_event_type :: "string option"
  eq_limit :: int
  eq_offset :: int

datatype security_request =
    List_Policies
  | Create_Policy security_policy
  | Get_Policy int
  | Update_Policy int policy_update
  | Delete_Policy int
  | Get_Quota int string
  | Reset_Quota int string
  | List_Events event_query
  | Detect_Pii string
  | Redact_Pii string "string list option" string
  | Encrypt_Value string
  | Decrypt_Token string
  | Export_User int
  | Erase_User int
  | Log_Event string metadata

datatype security_answer =
    Policies_Answer "(int \<times> security_policy) list"
  | Policy_Answer int security_policy
  | Quota_Answer int quota_usage "int option" bool
  | Events_Answer "(int \<times> security_event) list"
  | Detections_Answer "detection list" bool
  | Text_Answer string
  | Export_Answer int exported
  | Logged_Answer string
  | No_Content

type_synonym security_handler = "(sec_state, security_answer) handler"

abbreviation accounts :: "sec_state \<Rightarrow> acdb" where
  "accounts s \<equiv> gv_access (sc_gov s)"

section \<open>Schemas\<close>

definition EFFECTS :: "string list" where
  "EFFECTS = [''allow'', ''deny'', ''conditional'']"

definition policy_schema :: "security_policy \<Rightarrow> bool" where
  "policy_schema p \<longleftrightarrow> 1 \<le> length (p_name p) \<and> length (p_name p) \<le> 128 \<and> p_effect p \<in> set EFFECTS"

definition update_schema :: "policy_update \<Rightarrow> bool" where
  "update_schema u \<longleftrightarrow> (case pu_effect u of None \<Rightarrow> True | Some e \<Rightarrow> e \<in> set EFFECTS)"

definition query_schema :: "event_query \<Rightarrow> bool" where
  "query_schema q \<longleftrightarrow> 1 \<le> eq_limit q \<and> eq_limit q \<le> 1000 \<and> 0 \<le> eq_offset q"

definition unprocessable :: service_error where
  "unprocessable = HttpError 422 ''Unprocessable Entity''"

definition checked :: "bool \<Rightarrow> security_handler \<Rightarrow> security_handler" where
  "checked ok body s = (if ok then body s else (Err unprocessable, s))"

text \<open>\<open>payload.model_dump(exclude_none=True)\<close>: the fields that were given, in the order of the schema.\<close>

definition update_fields :: "policy_update \<Rightarrow> policy_field list" where
  "update_fields u =
     (case pu_name u of None \<Rightarrow> [] | Some x \<Rightarrow> [F_name x]) @ (case pu_resource u of None \<Rightarrow> [] | Some x \<Rightarrow> [F_resource x]) @
     (case pu_action u of None \<Rightarrow> [] | Some x \<Rightarrow> [F_action x]) @ (case pu_effect u of None \<Rightarrow> [] | Some x \<Rightarrow> [F_effect x]) @
     (case pu_condition u of None \<Rightarrow> [] | Some x \<Rightarrow> [F_condition (Some x)]) @ (case pu_is_active u of None \<Rightarrow> [] | Some x \<Rightarrow> [F_is_active x])"

definition policy_response :: "int \<Rightarrow> security_policy \<Rightarrow> (service_error, security_answer) result" where
  "policy_response i p = (if policy_schema p then Ok (Policy_Answer i p) else Err internal_error)"

definition quota_response :: "int \<times> quota_usage \<Rightarrow> security_answer" where
  "quota_response iu = Quota_Answer (fst iu) (snd iu) (q_remaining (snd iu)) (q_is_exceeded (snd iu))"

section \<open>Dependencies\<close>

definition secured_by :: "string \<Rightarrow> sec_env \<Rightarrow> credentials \<Rightarrow> security_handler \<Rightarrow> security_handler" where
  "secured_by permission ev cr body = depends (\<lambda>s. security_user permission (se_auth ev) cr (accounts s)) (\<lambda>_. body)"

definition for_active :: "sec_env \<Rightarrow> credentials \<Rightarrow> security_handler \<Rightarrow> security_handler" where
  "for_active ev cr body = depends (\<lambda>s. active_user (se_auth ev) cr (accounts s)) (\<lambda>_. body)"

section \<open>Policies\<close>

definition list_policies :: security_handler where
  "list_policies s =
     (if list_all (\<lambda>(_, p). policy_schema p) (ps_table (sc_policies s))
      then (Ok (Policies_Answer (repo_get_all (ps_table (sc_policies s)))), s)
      else (Err internal_error, s))"

definition post_policy :: "int \<Rightarrow> security_policy \<Rightarrow> security_handler" where
  "post_policy nid p s =
     (case create_policy nid p (sc_policies s) of
        (Inl _, ps) \<Rightarrow> (Err internal_error, s\<lparr>sc_policies := ps\<rparr>)
      | (Inr i, ps) \<Rightarrow> (policy_response i p, s\<lparr>sc_policies := ps\<rparr>))"

definition policy_not_found :: service_error where
  "policy_not_found = HttpError 404 ''Policy not found''"

definition get_policy :: "int \<Rightarrow> security_handler" where
  "get_policy i s =
     (case repo_get (ps_table (sc_policies s)) i of
        None \<Rightarrow> (Err policy_not_found, s)
      | Some p \<Rightarrow> (policy_response i p, s))"

definition put_policy :: "int \<Rightarrow> policy_update \<Rightarrow> security_handler" where
  "put_policy i u s =
     (case update_policy i (update_fields u) (sc_policies s) of
        (Inl _, ps) \<Rightarrow> (Err internal_error, s\<lparr>sc_policies := ps\<rparr>)
      | (Inr None, ps) \<Rightarrow> (Err policy_not_found, s\<lparr>sc_policies := ps\<rparr>)
      | (Inr (Some p), ps) \<Rightarrow> (policy_response i p, s\<lparr>sc_policies := ps\<rparr>))"

definition delete_policy_by_id :: "int \<Rightarrow> security_handler" where
  "delete_policy_by_id i s =
     (case delete_policy i (sc_policies s) of
        (deleted, ps) \<Rightarrow> ((if deleted then Ok No_Content else Err policy_not_found), s\<lparr>sc_policies := ps\<rparr>))"

section \<open>Quotas\<close>

definition get_quota :: "int \<Rightarrow> int \<Rightarrow> int \<Rightarrow> string \<Rightarrow> security_handler" where
  "get_quota nid now entity quota_type s =
     (case qs_get_usage nid now entity quota_type (sc_quotas s) of (iu, t) \<Rightarrow> (Ok (quota_response iu), s\<lparr>sc_quotas := t\<rparr>))"

definition post_quota_reset :: "int \<Rightarrow> int \<Rightarrow> int \<Rightarrow> string \<Rightarrow> security_handler" where
  "post_quota_reset nid now entity quota_type s =
     (case qs_reset nid now entity quota_type (sc_quotas s) of (iu, t) \<Rightarrow> (Ok (quota_response iu), s\<lparr>sc_quotas := t\<rparr>))"

section \<open>Security events\<close>

definition record_event :: "int \<Rightarrow> int \<Rightarrow> string \<Rightarrow> int option \<Rightarrow> int option \<Rightarrow> metadata option \<Rightarrow> gov_db \<Rightarrow> gov_db" where
  "record_event nid now event_type user_id organization_id details db =
     db\<lparr>gv_events := repo_create nid \<lparr>sv_event_type = event_type, sv_user_id = user_id, sv_organization_id = organization_id,
        sv_details = (case details of None \<Rightarrow> [] | Some d \<Rightarrow> d), sv_timestamp = now\<rparr> (gv_events db)\<rparr>"

text \<open>The latest first; events of the same instant stay in the order of insertion.\<close>

definition get_events :: "event_query \<Rightarrow> gov_db \<Rightarrow> (int \<times> security_event) list" where
  "get_events q db =
     (let by_user = (case eq_user_id q of None \<Rightarrow> gv_events db | Some u \<Rightarrow> repo_where (\<lambda>e. sv_user_id e = Some u) (gv_events db));
          by_org = (case eq_organization_id q of None \<Rightarrow> by_user | Some g \<Rightarrow> repo_where (\<lambda>e. sv_organization_id e = Some g) by_user);
          by_type = (case given (eq_event_type q) of None \<Rightarrow> by_org | Some ty \<Rightarrow> repo_where (\<lambda>e. sv_event_type e = ty) by_org)
      in take (nat (eq_limit q)) (drop (nat (eq_offset q)) (sort_key (\<lambda>(_, e). - sv_timestamp e) by_type)))"

definition list_audit_events :: "event_query \<Rightarrow> security_handler" where
  "list_audit_events q s = (Ok (Events_Answer (get_events q (sc_gov s))), s)"

section \<open>Personal data\<close>

definition detect_pii_endpoint :: "string \<Rightarrow> security_handler" where
  "detect_pii_endpoint t s = (Ok (Detections_Answer (detect_pii t) (detect_pii t \<noteq> [])), s)"

definition redact_pii_endpoint :: "string \<Rightarrow> string list option \<Rightarrow> string \<Rightarrow> security_handler" where
  "redact_pii_endpoint t types replacement s = (Ok (Text_Answer (redact_pii t types replacement)), s)"

section \<open>Encryption\<close>

text \<open>Loading the primary key may store a generated one in the environment, also when the call then fails.\<close>

definition key_loaded :: "string \<Rightarrow> environ \<Rightarrow> environ" where
  "key_loaded generated env = (case load_primary_key generated env of Inl _ \<Rightarrow> env | Inr (_, env') \<Rightarrow> env')"

definition encrypt_endpoint :: "sec_env \<Rightarrow> string \<Rightarrow> security_handler" where
  "encrypt_endpoint ev v s =
     ((case encrypt (se_fernet ev) (se_generated ev) (se_random ev) v (sc_environ s) of
         Inl _ \<Rightarrow> Err internal_error
       | Inr (token, _) \<Rightarrow> Ok (Text_Answer token)),
      s\<lparr>sc_environ := key_loaded (se_generated ev) (sc_environ s)\<rparr>)"

definition decrypt_endpoint :: "sec_env \<Rightarrow> string \<Rightarrow> security_handler" where
  "decrypt_endpoint ev token s =
     ((case decrypt (se_fernet ev) (se_generated ev) token (sc_environ s) of
         Inl InvalidToken \<Rightarrow> Err (HttpError 400 ''Invalid or tampered encryption token'')
       | Inl _ \<Rightarrow> Err internal_error
       | Inr (v, _) \<Rightarrow> Ok (Text_Answer v)),
      s\<lparr>sc_environ := key_loaded (se_generated ev) (sc_environ s)\<rparr>)"

section \<open>Compliance\<close>

definition get_export :: "int \<Rightarrow> int \<Rightarrow> int \<Rightarrow> security_handler" where
  "get_export nid now user_id s =
     (case export_user_data nid now user_id (sc_gov s) of
        (Inl _, db) \<Rightarrow> (Err internal_error, s\<lparr>sc_gov := db\<rparr>)
      | (Inr d, db) \<Rightarrow> (Ok (Export_Answer user_id d), s\<lparr>sc_gov := db\<rparr>))"

definition delete_subject :: "int \<Rightarrow> int \<Rightarrow> int \<Rightarrow> security_handler" where
  "delete_subject nid now user_id s = (Ok No_Content, s\<lparr>sc_gov := delete_user_data nid now user_id (sc_gov s)\<rparr>)"

definition post_compliance_event :: "int \<Rightarrow> int \<Rightarrow> string \<Rightarrow> metadata \<Rightarrow> security_handler" where
  "post_compliance_event nid now event_type details s =
     (Ok (Logged_Answer ''Compliance event logged''), s\<lparr>sc_gov := log_compliance_event nid now event_type details (sc_gov s)\<rparr>)"

section \<open>The router\<close>

fun serve_security :: "sec_env \<Rightarrow> credentials \<Rightarrow> int \<Rightarrow> security_request \<Rightarrow> security_handler" where
  "serve_security ev cr nid List_Policies = secured_by ''security:read'' ev cr list_policies"
| "serve_security ev cr nid (Create_Policy p) = secured_by ''security:write'' ev cr (checked (policy_schema p) (post_policy nid p))"
| "serve_security ev cr nid (Get_Policy i) = secured_by ''security:read'' ev cr (get_policy i)"
| "serve_security ev cr nid (Update_Policy i u) = secured_by ''security:write'' ev cr (checked (update_schema u) (put_policy i u))"
| "serve_security ev cr nid (Delete_Policy i) = secured_by ''security:delete'' ev cr (delete_policy_by_id i)"
| "serve_security ev cr nid (Get_Quota e q) = secured_by ''security:read'' ev cr (get_quota nid (au_now (se_auth ev)) e q)"
| "serve_security ev cr nid (Reset_Quota e q) = secured_by ''security:write'' ev cr (post_quota_reset nid (au_now (se_auth ev)) e q)"
| "serve_security ev cr nid (List_Events q) = secured_by ''security:audit'' ev cr (checked (query_schema q) (list_audit_events q))"
| "serve_security ev cr nid (Detect_Pii t) = for_active ev cr (detect_pii_endpoint t)"
| "serve_security ev cr nid (Redact_Pii t types r) = for_active ev cr (redact_pii_endpoint t types r)"
| "serve_security ev cr nid (Encrypt_Value v) = secured_by ''security:encrypt'' ev cr (encrypt_endpoint ev v)"
| "serve_security ev cr nid (Decrypt_Token t) = secured_by ''security:encrypt'' ev cr (decrypt_endpoint ev t)"
| "serve_security ev cr nid (Export_User u) = secured_by ''security:compliance'' ev cr (get_export nid (au_now (se_auth ev)) u)"
| "serve_security ev cr nid (Erase_User u) = secured_by ''security:compliance'' ev cr (delete_subject nid (au_now (se_auth ev)) u)"
| "serve_security ev cr nid (Log_Event ty d) = secured_by ''security:audit'' ev cr (post_compliance_event nid (au_now (se_auth ev)) ty d)"

end
