(* ===== verification/Security_Guarantees.thy ===== *)
theory Security_Guarantees
  imports Security_Api Directory_Security
begin

text \<open>
  What the security API guarantees: which permission each part of the state needs to
  change, the invariants every request keeps, the round trip of encryption through the
  API, and what a policy without a name does to the list of policies.
\<close>

section \<open>Permissions\<close>

interpretation secured_part: dependency
  "\<lambda>s. security_user p (se_auth ev) cr (accounts s)" "\<lambda>s. may p (accounts s)" for p ev cr
  by (rule secured.on_part)

interpretation active_part: dependency
  "\<lambda>s. active_user (se_auth ev) cr (accounts s)" "\<lambda>s. is_active_user (accounts s)" for ev cr
  by (rule active.on_part)

definition same_subjects :: "gov_db \<Rightarrow> gov_db \<Rightarrow> bool" where
  "same_subjects d d' \<longleftrightarrow> gv_access d' = gv_access d \<and> gv_conversations d' = gv_conversations d \<and> gv_messages d' = gv_messages d"

definition guarded :: "acdb \<Rightarrow> int \<times> user_row \<Rightarrow> sec_state \<Rightarrow> sec_state \<Rightarrow> bool" where
  "guarded db u s s' \<longleftrightarrow>
     (ps_table (sc_policies s') = ps_table (sc_policies s) \<or> may ''security:write'' db u \<or> may ''security:delete'' db u) \<and>
     (sc_quotas s' = sc_quotas s \<or> may ''security:read'' db u \<or> may ''security:write'' db u) \<and>
     (gv_events (sc_gov s') = gv_events (sc_gov s) \<or> may ''security:audit'' db u \<or> may ''security:compliance'' db u) \<and>
     (sc_environ s' = sc_environ s \<or> may ''security:encrypt'' db u)"

definition permitted_change :: "sec_env \<Rightarrow> credentials \<Rightarrow> sec_state \<Rightarrow> sec_state \<Rightarrow> bool" where
  "permitted_change ev cr s s' \<longleftrightarrow>
     s' = s \<or> (\<exists>u. active_user (se_auth ev) cr (accounts s) = Inr u \<and> guarded (accounts s) u s s')"

lemma same_subjects_simps [simp]: "same_subjects d d" "same_subjects d (log_compliance_event nid now ty details d)"
    "same_subjects d (log_governance_event nid now ty u x d)"
  by (simp_all add: same_subjects_def log_compliance_event_def log_governance_event_def)

lemma security_user_active: "security_user p ev cr db = Inr u \<Longrightarrow> active_user ev cr db = Inr u"
  by (auto simp: security_user_def bind_ok_eq_Inr require_permission_def split: if_splits)

lemma permitted_secured:
  assumes "\<And>u. may p (accounts s) u \<Longrightarrow> guarded (accounts s) u s (snd (body s))"
  shows "permitted_change ev cr s (snd (secured_by p ev cr body s))"
  unfolding secured_by_def
  by (rule secured_part.preserves) (use assms in \<open>auto simp: permitted_change_def dest: security_user_active\<close>)

lemma permitted_active: "snd (body s) = s \<Longrightarrow> permitted_change ev cr s (snd (for_active ev cr body s))"
  unfolding for_active_def by (rule active_part.preserves) (simp_all add: permitted_change_def)

lemma same_subjects_secured:
  assumes "same_subjects (sc_gov s) (sc_gov (snd (body s)))"
  shows "same_subjects (sc_gov s) (sc_gov (snd (secured_by p ev cr body s)))"
  unfolding secured_by_def by (rule secured_part.preserves) (use assms in \<open>simp_all add: same_subjects_def\<close>)

lemmas policy_endpoint_defs = list_policies_def post_policy_def get_policy_def put_policy_def delete_policy_by_id_def
lemmas security_endpoint_defs = get_quota_def post_quota_reset_def list_audit_events_def detect_pii_endpoint_def
  redact_pii_endpoint_def encrypt_endpoint_def decrypt_endpoint_def get_export_def delete_subject_def post_compliance_event_def

lemma erasure_subjects: "table_wf (users (gv_access db)) \<Longrightarrow> same_subjects db (delete_user_data nid now user_id db)"
  by (auto simp: same_subjects_def delete_user_data_def log_governance_event_def Let_def commit_soft_delete split: option.split)

lemma export_same: "snd (export_user_data nid now user_id db) = db"
  by (simp add: export_user_data_def export_entity_data_def filter_by_def conversation_columns_def memory_columns_def Let_def)

lemma serve_permitted: "permitted_change ev cr s (snd (serve_security ev cr nid req s))"
  by (cases req)
    (auto intro!: permitted_secured permitted_active
      simp: guarded_def checked_def policy_endpoint_defs security_endpoint_defs split_beta export_same
      split: option.split sum.split)

lemma serve_subjects:
  assumes "table_wf (users (accounts s))"
  shows "same_subjects (sc_gov s) (sc_gov (snd (serve_security ev cr nid req s)))"
  using assms
  by (cases req)
    (auto intro!: same_subjects_secured erasure_subjects
      simp: checked_def policy_endpoint_defs security_endpoint_defs split_beta export_same for_active_def depends_def
      split: option.split sum.split)

text \<open>
  C9: A request to the security API changes nothing unless its caller is an authenticated active
  user; the policies change only with the permission to write or delete, the keys only with the
  permission to encrypt, the events only with the permission to audit or for compliance, the quotas
  only with the permission to read or write.  Accounts, roles, conversations and messages never change.
\<close>

theorem security_changes_need_permission:
  assumes "table_wf (users (accounts s))" and "s' = snd (serve_security ev cr nid req s)"
  shows "same_subjects (sc_gov s) (sc_gov s') \<and>
    (s' = s \<or> (\<exists>u. active_user (se_auth ev) cr (accounts s) = Inr u \<and> is_active_user (accounts s) u \<and>
      (ps_table (sc_policies s') = ps_table (sc_policies s) \<or> may ''security:write'' (accounts s) u \<or> may ''security:delete'' (accounts s) u) \<and>
      (sc_quotas s' = sc_quotas s \<or> may ''security:read'' (accounts s) u \<or> may ''security:write'' (accounts s) u) \<and>
      (gv_events (sc_gov s') = gv_events (sc_gov s) \<or> may ''security:audit'' (accounts s) u \<or> may ''security:compliance'' (accounts s) u) \<and>
      (sc_environ s' = sc_environ s \<or> may ''security:encrypt'' (accounts s) u)))"
  using serve_subjects [OF assms(1), of ev cr nid req] serve_permitted [of ev cr s nid req] assms(2)
  by (auto simp: permitted_change_def guarded_def dest: active_user_ok)

section \<open>Invariants\<close>

definition sec_inv :: "sec_state \<Rightarrow> bool" where
  "sec_inv s \<longleftrightarrow> coherent (sc_policies s) \<and> unique_by p_name (ps_table (sc_policies s)) \<and> quota_wf (sc_quotas s) \<and>
     table_wf (gv_events (sc_gov s)) \<and> table_wf (users (accounts s))"

text \<open>The keys of the table a request may add a row to; the key of the new row is not among them.\<close>

fun keys_in :: "security_request \<Rightarrow> sec_state \<Rightarrow> int set" where
  "keys_in (Create_Policy _) s = ids (ps_table (sc_policies s))"
| "keys_in (Get_Quota _ _) s = ids (sc_quotas s)"
| "keys_in (Reset_Quota _ _) s = ids (sc_quotas s)"
| "keys_in (Export_User _) s = ids (gv_events (sc_gov s))"
| "keys_in (Erase_User _) s = ids (gv_events (sc_gov s))"
| "keys_in (Log_Event _ _) s = ids (gv_events (sc_gov s))"
| "keys_in _ s = {}"

definition fresh_in :: "int \<Rightarrow> security_request \<Rightarrow> sec_state \<Rightarrow> bool" where
  "fresh_in nid req s \<longleftrightarrow> nid \<notin> keys_in req s"

lemma policies_create: "unique_by p_name (ps_table ps) \<Longrightarrow> nid \<notin> ids (ps_table ps) \<Longrightarrow> unique_by p_name (ps_table (snd (create_policy nid p ps)))"
  by (auto simp: create_policy_def invalidate_policy_cache_def unique_by_create)

lemma policies_update:
  assumes "unique_by p_name (ps_table ps)"
  shows "unique_by p_name (ps_table (snd (update_policy i kw ps)))"
proof (cases "repo_get (ps_table ps) i")
  case (Some p)
  let ?p = "fold set_policy_field kw p"
  have "unique_by p_name (repo_update i ?p (ps_table ps))" if "lookup_by p_name (repo_delete i (ps_table ps)) (p_name ?p) = None"
  proof (rule unique_by_update [OF assms])
    fix j q
    assume "repo_get (ps_table ps) j = Some q" and "p_name q = p_name ?p"
    moreover have "repo_get (repo_delete i (ps_table ps)) j \<noteq> Some q"
      using that calculation unique_by_delete [OF assms, of i] by (auto simp: lookup_by_None_iff rows_iff unique_by_wf)
    ultimately show "j = i" by (simp add: repo_get_delete split: if_splits)
  qed
  then show ?thesis using assms Some
    by (auto simp: update_policy_def invalidate_policy_cache_def Let_def split: option.split)
qed (simp add: update_policy_def assms)

lemma policies_delete: "unique_by p_name (ps_table ps) \<Longrightarrow> unique_by p_name (ps_table (snd (delete_policy i ps)))"
  by (auto simp: delete_policy_def invalidate_policy_cache_def unique_by_delete split: option.split)

lemmas policy_edits_coherent = coherent_step [of _ 0 "PCreate nid p", simplified] coherent_step [of _ 0 "PUpdate i kw", simplified]
  coherent_step [of _ 0 "PDelete i", simplified] for nid p i kw

lemma quotas_read: "quota_wf t \<Longrightarrow> nid \<notin> ids t \<Longrightarrow> quota_wf (snd (get_or_create_quota nid now e q t))"
  using get_or_create_spec(1) [of t nid now e q] by (metis prod.collapse)

lemma quotas_reset: "quota_wf t \<Longrightarrow> nid \<notin> ids t \<Longrightarrow> quota_wf (snd (reset_quota nid now e q t))"
  using reset_spec(1) [of t nid now e q] by (metis prod.collapse)

lemma events_logged: "table_wf (gv_events db) \<Longrightarrow> nid \<notin> ids (gv_events db) \<Longrightarrow> table_wf (gv_events (log_governance_event nid now ty u d db))"
  by (simp add: log_governance_event_def table_wf_create)

lemma events_erasure: "table_wf (gv_events db) \<Longrightarrow> nid \<notin> ids (gv_events db) \<Longrightarrow> table_wf (gv_events (delete_user_data nid now u db))"
  by (simp add: delete_user_data_def Let_def log_governance_event_def table_wf_create split: option.split)

lemmas sec_inv_rules = policies_create policies_update policies_delete policy_edits_coherent quotas_read quotas_reset events_logged events_erasure

lemma sec_inv_secured: "sec_inv s \<Longrightarrow> sec_inv (snd (body s)) \<Longrightarrow> sec_inv (snd (secured_by p ev cr body s))"
  unfolding secured_by_def by (rule secured_part.preserves)

lemma sec_inv_gov: "sec_inv s \<Longrightarrow> table_wf (gv_events db) \<Longrightarrow> same_subjects (sc_gov s) db \<Longrightarrow> sec_inv (s\<lparr>sc_gov := db\<rparr>)"
  by (simp add: sec_inv_def same_subjects_def)

lemma sec_inv_policies: "sec_inv s \<Longrightarrow> coherent ps \<Longrightarrow> unique_by p_name (ps_table ps) \<Longrightarrow> sec_inv (s\<lparr>sc_policies := ps\<rparr>)"
  by (simp add: sec_inv_def)

lemma sec_inv_quotas: "sec_inv s \<Longrightarrow> quota_wf t \<Longrightarrow> sec_inv (s\<lparr>sc_quotas := t\<rparr>)"
  by (simp add: sec_inv_def)

lemma sec_inv_environ: "sec_inv s \<Longrightarrow> sec_inv (s\<lparr>sc_environ := env\<rparr>)"
  by (simp add: sec_inv_def)

lemma sec_invD:
  "sec_inv s \<Longrightarrow> coherent (sc_policies s)" "sec_inv s \<Longrightarrow> unique_by p_name (ps_table (sc_policies s))" "sec_inv s \<Longrightarrow> quota_wf (sc_quotas s)"
  "sec_inv s \<Longrightarrow> table_wf (gv_events (sc_gov s))" "sec_inv s \<Longrightarrow> table_wf (users (accounts s))"
  by (simp_all add: sec_inv_def)

lemma serve_sec_inv:
  assumes "sec_inv s" and "fresh_in nid req s"
  shows "sec_inv (snd (serve_security ev cr nid req s))"
  using assms
  by (cases req)
    (auto intro!: sec_inv_secured sec_inv_policies sec_inv_quotas sec_inv_environ sec_inv_gov sec_inv_rules erasure_subjects sec_invD
      simp: checked_def policy_endpoint_defs security_endpoint_defs split_beta export_same for_active_def depends_def
        qs_get_usage_def qs_reset_def fresh_in_def log_compliance_event_def
      split: option.split sum.split)

text \<open>Histories: requests to the API and evaluations of the policies, in any order.\<close>

inductive security_run :: "sec_state \<Rightarrow> sec_state \<Rightarrow> bool" where
  begun: "security_run s s"
| served: "security_run s t \<Longrightarrow> fresh_in nid req t \<Longrightarrow> security_run s (snd (serve_security ev cr nid req t))"
| evaluated: "security_run s t \<Longrightarrow> security_run s (t\<lparr>sc_policies := snd (evaluate_policies L now hm c (sc_policies t))\<rparr>)"

lemma evaluate_table: "ps_table (snd (evaluate_policies L now hm c ps)) = ps_table ps"
  by (simp add: evaluate_policies_def load_policies_def Let_def split_beta)

lemma evaluate_coherent: "coherent ps \<Longrightarrow> coherent (snd (evaluate_policies L now hm c ps))"
  using coherent_step [of ps now "PEvaluate L hm c"] by simp

lemma run_sec_inv: "security_run s t \<Longrightarrow> sec_inv s \<Longrightarrow> sec_inv t"
  by (induction rule: security_run.induct)
    (simp_all add: serve_sec_inv sec_inv_policies evaluate_table evaluate_coherent sec_invD)

text \<open>
  C35: Over every history of requests to the security API and evaluations of policies, policy names
  stay unique, there is one quota per entity and type, and an evaluation decides by the active
  policies of the moment, whatever was cached before the last edit.
\<close>

theorem security_history_sound:
  assumes "security_run s t" and "sec_inv s"
  shows "unique_by p_name (ps_table (sc_policies t)) \<and> unique_by quota_key (sc_quotas t) \<and>
    (now \<le> CACHE_TTL \<or> fst (evaluate_policies L now hm c (sc_policies t)) = evaluate_list L hm c (map snd (get_active (ps_table (sc_policies t)))))"
proof -
  have inv: "sec_inv t" by (rule run_sec_inv [OF assms])
  then have "CACHE_TTL < now \<Longrightarrow> fst (load_policies now (sc_policies t)) = map snd (get_active (ps_table (sc_policies t)))"
    by (simp add: load_coherent sec_invD)
  then show ?thesis using sec_invD [OF inv] by (cases "CACHE_TTL < now") (simp_all add: evaluate_policies_def split_beta)
qed

section \<open>Encryption through the API\<close>

lemma secured_ok:
  assumes "security_user p (se_auth ev) cr (accounts s) = Inr u"
  shows "secured_by p ev cr body s = body s"
  unfolding secured_by_def by (rule secured_part.let_through [OF assms])

lemma primary_name: "env_name ''ENCRYPTION_KEY'' = ''AGENTCORP_SECRET_ENCRYPTION_KEY''"
  by code_simp

lemma primary_key_settled:
  assumes "get_backend env = EnvBackend" and "g \<noteq> []"
  obtains k e where "load_primary_key g env = Ok (k, e)" and "\<And>g'. load_primary_key g' e = Ok (k, e)"
    and "get_backend e = EnvBackend" and "stored e (slot_name 1) = stored env (slot_name 1)"
proof (cases "\<exists>c cs. dict_get env (env_name ''ENCRYPTION_KEY'') = Some (c # cs)")
  case True
  then obtain c cs where "dict_get env (env_name ''ENCRYPTION_KEY'') = Some (c # cs)" by blast
  then show ?thesis using assms by (intro that [of "c # cs" env]) (simp_all add: load_primary_key_def get_secret_def backend_get_def)
next
  case False
  let ?e = "dict_set env (env_name ''ENCRYPTION_KEY'') g"
  have "load_primary_key g env = Ok (g, ?e)"
    using False assms by (auto simp: load_primary_key_def get_secret_def backend_get_def primary_name split: option.split list.split)
  moreover have "load_primary_key g' ?e = Ok (g, ?e)" for g'
    using assms by (cases g) (simp_all add: load_primary_key_def get_secret_def backend_get_def dict_get_set)
  moreover have "py_upper (slot_name 1) \<noteq> py_upper ''ENCRYPTION_KEY''" by (simp add: py_upper_def slot_name_def)
  ultimately show ?thesis using assms by (intro that [of g ?e]) (simp_all add: stored_def dict_get_set)
qed

text \<open>
  A value encrypted through the API is returned by the decryption of its token: with the
  environment as the backend of secrets and no rotation keys, also when the first request has to
  generate the key, which the second one then finds.
\<close>

theorem encryption_round_trip:
  assumes correct: "\<And>k r v. key_ok (se_fernet ev) k \<Longrightarrow> fdecrypt (se_fernet ev) k (fencrypt (se_fernet ev) k r v) = Some v"
    and env: "get_backend (sc_environ s) = EnvBackend" and rotation: "stored (sc_environ s) (slot_name 1) = None"
    and "se_generated ev \<noteq> []" and library: "se_fernet ev' = se_fernet ev"
    and caller: "security_user ''security:encrypt'' (se_auth ev') cr' (accounts s) = Inr u"
    and first: "serve_security ev cr nid (Encrypt_Value v) s = (Ok (Text_Answer token), s1)"
  shows "serve_security ev' cr' nid' (Decrypt_Token token) s1 = (Ok (Text_Answer v), s1)"
proof -
  obtain k e where k: "load_primary_key (se_generated ev) (sc_environ s) = Ok (k, e)" "\<And>g. load_primary_key g e = Ok (k, e)"
      "get_backend e = EnvBackend" "stored e (slot_name 1) = None"
    using primary_key_settled [OF env assms(4)] rotation by metis
  obtain w where "security_user ''security:encrypt'' (se_auth ev) cr (accounts s) = Inr w"
    using first by (cases "security_user ''security:encrypt'' (se_auth ev) cr (accounts s)") (auto simp: secured_by_def depends_def)
  then have enc: "encrypt_endpoint ev v s = (Ok (Text_Answer token), s1)" using first by (simp add: secured_ok)
  then have tok: "key_ok (se_fernet ev) k" "token = fencrypt (se_fernet ev) k (se_random ev) v" "s1 = s\<lparr>sc_environ := e\<rparr>"
    by (auto simp: encrypt_endpoint_def encrypt_def key_loaded_def k split: if_splits)
  have "get_secret (''ENCRYPTION_KEY_'' @ show_nat 1) e = Ok None"
    using k(3,4) by (simp add: get_secret_def backend_get_def stored_def slot_name_def)
  then have "rotation_keys [1..<11] e = Ok []" by (simp add: upt_conv_Cons)
  then have "load_all_keys g e = Ok ([k], e)" for g by (simp add: load_all_keys_def k(2))
  then have "decrypt (se_fernet ev) g token e = Ok (v, e)" for g by (simp add: decrypt_def tok correct)
  then show ?thesis using caller
    by (simp add: secured_ok tok(3) decrypt_endpoint_def library key_loaded_def k(2))
qed

section \<open>Policies without a name\<close>

text \<open>
  The update of a policy accepts an empty name.  The row is stored although the request is
  answered with an internal error, and from then on every request to list the policies fails.
\<close>

theorem nameless_policy_breaks_listing:
  assumes caller: "security_user ''security:write'' (se_auth ev) cr (accounts s) = Inr u"
    and row: "repo_get (ps_table (sc_policies s)) i = Some p"
    and unused: "lookup_by p_name (repo_delete i (ps_table (sc_policies s))) [] = None"
    and upd: "upd = \<lparr>pu_name = Some [], pu_resource = None, pu_action = None, pu_effect = None, pu_condition = None, pu_is_active = None\<rparr>"
    and reply: "serve_security ev cr nid (Update_Policy i upd) s = (reply, s1)"
  shows "reply = Err internal_error \<and> repo_get (ps_table (sc_policies s1)) i = Some (p\<lparr>p_name := []\<rparr>) \<and>
    (\<forall>ev' cr' nid'. \<not> is_ok (fst (serve_security ev' cr' nid' List_Policies s1)))"
proof -
  have "(reply, s1) = (Err internal_error,
      s\<lparr>sc_policies := invalidate_policy_cache ((sc_policies s)\<lparr>ps_table := repo_update i (p\<lparr>p_name := []\<rparr>) (ps_table (sc_policies s))\<rparr>)\<rparr>)"
    using reply row unused
    by (simp add: secured_ok [OF caller] checked_def update_schema_def upd put_policy_def update_policy_def update_fields_def
        policy_response_def policy_schema_def Let_def)
  then have r: "reply = Err internal_error"
    and table: "ps_table (sc_policies s1) = repo_update i (p\<lparr>p_name := []\<rparr>) (ps_table (sc_policies s))"
    by (simp_all add: invalidate_policy_cache_def)
  have get: "repo_get (ps_table (sc_policies s1)) i = Some (p\<lparr>p_name := []\<rparr>)"
    using repo_get_SomeD [OF row] by (simp add: table repo_get_update)
  have "(i, p\<lparr>p_name := []\<rparr>) \<in> set (ps_table (sc_policies s1))"
    using get by (auto simp: repo_get_def dest: map_of_SomeD)
  then have "\<not> list_all (\<lambda>(_, p). policy_schema p) (ps_table (sc_policies s1))"
    by (force simp: list_all_iff policy_schema_def)
  then have "\<not> is_ok (fst (list_policies s1))" by (auto simp: list_policies_def)
  then have "\<not> is_ok (fst (serve_security ev' cr' nid' List_Policies s1))" for ev' cr' nid'
    by (simp add: secured_by_def depends_def split: sum.split)
  with r get show ?thesis by blast
qed

section \<open>A sample state\<close>

definition administrator :: user_row where
  "administrator = \<lparr>u_full_name = ''R'', u_email = ''r@x'', u_password_hash = [], u_is_active = True, u_is_superuser = True\<rparr>"

definition sample_policy :: security_policy where
  "sample_policy = \<lparr>p_name = ''p'', p_resource = ''r'', p_action = ''a'', p_effect = ''deny'', p_condition = None, p_is_active = True\<rparr>"

definition sample_security :: sec_state where
  "sample_security = \<lparr>sc_gov = \<lparr>gv_access = (empty_acdb [])\<lparr>users := [(7, administrator)]\<rparr>, gv_conversations = [], gv_messages = [], gv_events = []\<rparr>,
     sc_policies = \<lparr>ps_table = [(1, sample_policy)], ps_cache = [], ps_loaded_at = 0\<rparr>, sc_quotas = [], sc_environ = []\<rparr>"

definition sample_sec_env :: sec_env where
  "sample_sec_env = \<lparr>se_auth = sample_auth, se_fernet = toy_fernet, se_generated = ''key'', se_random = []\<rparr>"

lemma sample_administrator: "active_user sample_auth sample_token ((empty_acdb [])\<lparr>users := [(7, administrator)]\<rparr>) = Ok (7, administrator)"
  by (simp add: active_user_def current_user_def sample_token_def sample_auth_def get_current_user_def decode_access_token_def plain_jwt
      get_current_active_user_def empty_acdb_def repo_get_def administrator_def) code_simp

lemma sample_clearance: "security_user p (se_auth sample_sec_env) sample_token (accounts sample_security) = Ok (7, administrator)"
  by (simp add: sample_sec_env_def sample_security_def security_user_def sample_administrator require_permission_def) (simp add: administrator_def)

lemma sample_accounts_wf: "table_wf (users (accounts sample_security))"
  by (simp add: sample_security_def table_wf_def)

lemma sample_sec_inv: "sec_inv sample_security"
  by (simp add: sec_inv_def sample_security_def coherent_def table_wf_def unique_by_def)

theorem security_changes_need_permission_witness:
  "same_subjects (sc_gov sample_security) (sc_gov (snd (serve_security sample_sec_env sample_token 9 (Erase_User 7) sample_security)))"
  using security_changes_need_permission [OF sample_accounts_wf refl, of sample_sec_env sample_token 9 "Erase_User 7"] by blast

theorem security_history_sound_witness:
  "\<forall>L hm c. fst (evaluate_policies L 70000000 hm c (sc_policies (snd (serve_security sample_sec_env sample_token 9 (Delete_Policy 1) sample_security)))) = Ok False"
proof (intro allI)
  fix L hm c
  have "security_run sample_security (snd (serve_security sample_sec_env sample_token 9 (Delete_Policy 1) sample_security))"
    by (intro security_run.intros) (simp add: fresh_in_def sample_security_def ids_def)
  from security_history_sound [OF this sample_sec_inv, of 70000000 L hm c]
  show "fst (evaluate_policies L 70000000 hm c (sc_policies (snd (serve_security sample_sec_env sample_token 9 (Delete_Policy 1) sample_security)))) = Ok False"
    by (simp add: CACHE_TTL_def secured_ok [OF sample_clearance] delete_policy_by_id_def delete_policy_def)
      (simp add: sample_security_def repo_get_def invalidate_policy_cache_def repo_delete_def get_active_def repo_where_def)
qed

theorem encryption_round_trip_witness:
  "let (r, s1) = serve_security sample_sec_env sample_token 9 (Encrypt_Value ''data'') sample_security
   in (case r of Inr (Text_Answer token) \<Rightarrow> serve_security sample_sec_env sample_token 9 (Decrypt_Token token) s1 = (Ok (Text_Answer ''data''), s1)
       | _ \<Rightarrow> False)"
proof -
  have env: "get_backend (sc_environ sample_security) = EnvBackend"
    by (simp add: sample_security_def get_backend_def dict_get_or_def BACKENDS_def) code_simp
  have "load_primary_key ''key'' [] = Ok (''key'', [(''AGENTCORP_SECRET_ENCRYPTION_KEY'', ''key'')])"
    by code_simp
  then obtain token s1 where first: "serve_security sample_sec_env sample_token 9 (Encrypt_Value ''data'') sample_security = (Ok (Text_Answer token), s1)"
    by (simp add: secured_ok [OF sample_clearance] encrypt_endpoint_def encrypt_def)
      (simp add: sample_sec_env_def sample_security_def toy_fernet_def)
  have "serve_security sample_sec_env sample_token 9 (Decrypt_Token token) s1 = (Ok (Text_Answer ''data''), s1)"
    by (rule encryption_round_trip [OF _ env _ _ refl sample_clearance first])
      (simp_all add: sample_sec_env_def toy_fernet_laws, simp add: sample_security_def stored_def)
  then show ?thesis unfolding first by simp
qed

theorem nameless_policy_breaks_listing_witness:
  "\<exists>req. \<not> is_ok (fst (serve_security sample_sec_env sample_token 9 List_Policies (snd (serve_security sample_sec_env sample_token 9 req sample_security))))"
proof -
  have "repo_get (ps_table (sc_policies sample_security)) 1 = Some sample_policy"
    "lookup_by p_name (repo_delete 1 (ps_table (sc_policies sample_security))) [] = None"
    by (simp_all add: sample_security_def repo_get_def repo_delete_def lookup_by_def repo_first_def)
  from nameless_policy_breaks_listing [OF sample_clearance this refl, of 9 "fst (serve_security sample_sec_env sample_token 9 (Update_Policy 1 _) sample_security)"
      "snd (serve_security sample_sec_env sample_token 9 (Update_Policy 1 _) sample_security)"]
  show ?thesis by (metis prod.collapse)
qed

end
