(* ===== verification/Session_Api.thy ===== *)
theory Session_Api
  imports Multi_Agent_Invariant Endpoint
begin

text \<open>
  The REST endpoints of multi-agent sessions (\<open>api/v1/multi_agent.py\<close>) and of the agent
  engine (\<open>api/v1/agent_engine.py\<close>), over the accounts of \<open>Access_Control\<close> and the
  sessions and engine of \<open>Multi_Agent\<close>.

  Every endpoint asks for a permission, then for membership in the organization named by
  the request, validates its payload and calls the service.  The foreign keys of new rows
  are checked against the accounts; those of conversations are an argument, as are the
  keys of new rows and the clock.
\<close>

section \<open>State and requests\<close>

record 'e session_db =
  sd_access :: acdb
  sd_ma :: "'e ma_db"

record 'e session_env =
  sn_auth :: auth_env
  sn_engine :: "'e engine_env"
  sn_session_key :: "ma_session table \<Rightarrow> int"
  sn_participant_key :: "participant table \<Rightarrow> int"
  sn_message_key :: "inter_message table \<Rightarrow> int"
  sn_delegation_key :: "delegation table \<Rightarrow> int"
  sn_created_at :: "int \<Rightarrow> string"
  sn_changed :: "metadata \<Rightarrow> metadata \<Rightarrow> bool"

datatype session_request =
    Create_Session string string int "int list" "metadata option"
  | List_Sessions "string option" nat nat
  | Get_Session int
  | Start_Session int
  | Complete_Session int
  | Cancel_Session int
  | Update_Context int metadata
  | Delegate_Task int int int string "metadata option"
  | List_Delegations int
  | Resolve_Delegation int int string "metadata option"
  | Send_Message int int "int option" string metadata
  | List_Messages int nat nat
  | Update_Participant int int string "metadata option"

datatype agent_request =
    Create_Goal string "string option" string string "string option" int "int option"
  | Execute_Goal int
  | Pause_Run int
  | Resume_Run int
  | Cancel_Run int
  | Get_Run int
  | Get_Goal int

datatype collaboration_answer =
    Session_Answer int ma_session "participant table"
  | Sessions_Answer "(int \<times> ma_session) list"
  | Delegation_Answer delegation
  | Delegations_Answer "(int \<times> delegation) list"
  | Inter_Message_Answer inter_message
  | Inter_Messages_Answer "(int \<times> inter_message) list"
  | Participant_Answer participant
  | Goal_Answer int agent_goal
  | Run_Answer int agent_execution

type_synonym 'e collaboration = "('e session_db, collaboration_answer) handler"

section \<open>Guards and errors\<close>

definition not_member :: service_error where
  "not_member = HttpError 403 ''Not a member of the specified organization.''"

definition agent_not_member :: service_error where
  "agent_not_member = HttpError 403 ''You are not a member of the specified organization.''"

definition collaborating :: "service_error \<Rightarrow> string \<Rightarrow> 'e session_env \<Rightarrow> credentials \<Rightarrow> int \<Rightarrow> (int \<times> user_row \<Rightarrow> 'e collaboration) \<Rightarrow> 'e collaboration" where
  "collaborating refusal permission env = within sd_access refusal permission (sn_auth env)"

definition ma_message :: "string \<Rightarrow> ma_error \<Rightarrow> string" where
  "ma_message integrity x =
     (case x of
        SessionNotFoundError i \<Rightarrow> ''Session '' @ show_int i @ '' not found.''
      | AgentNotParticipantError a i \<Rightarrow> ''Agent '' @ show_int a @ '' is not a participant in session '' @ show_int i @ ''.''
      | DelegationNotFoundError i \<Rightarrow> ''Delegation '' @ show_int i @ '' not found.''
      | DelegationLimitExceededError d \<Rightarrow> ''Delegation depth '' @ show_int d @ '' exceeds maximum '' @ show_int MAX_AGENT_DELEGATIONS @ ''.''
      | CoordinatorError \<Rightarrow> ''Cannot decompose goal: no participants provided.''
      | MaService (ValueError t) \<Rightarrow> t
      | MaService IntegrityError \<Rightarrow> integrity
      | MaService (HttpError _ t) \<Rightarrow> t)"

definition handle_domain_error :: "string \<Rightarrow> ma_error \<Rightarrow> service_error" where
  "handle_domain_error integrity x = HttpError
     (case x of
        SessionNotFoundError _ \<Rightarrow> 404
      | AgentNotParticipantError _ _ \<Rightarrow> 400
      | DelegationLimitExceededError _ \<Rightarrow> 400
      | DelegationNotFoundError _ \<Rightarrow> 404
      | CoordinatorError \<Rightarrow> 400
      | MaService _ \<Rightarrow> 500) (ma_message integrity x)"

definition domain :: "'e session_env \<Rightarrow> ('x \<Rightarrow> 'e session_db \<Rightarrow> collaboration_answer) \<Rightarrow> ('e ma_db \<Rightarrow> (ma_error, 'x) result \<times> 'e ma_db) \<Rightarrow> 'e collaboration" where
  "domain env answer operation s =
     (case operation (sd_ma s) of
        (Inl x, ma) \<Rightarrow> (Err (handle_domain_error (en_integrity_text (sn_engine env)) x), s\<lparr>sd_ma := ma\<rparr>)
      | (Inr y, ma) \<Rightarrow> (Ok (answer y (s\<lparr>sd_ma := ma\<rparr>)), s\<lparr>sd_ma := ma\<rparr>))"

definition session_answer :: "int \<Rightarrow> ma_session \<Rightarrow> 'e session_db \<Rightarrow> collaboration_answer" where
  "session_answer i r s = Session_Answer i r (list_by_session i (participants (sd_ma s)))"

text \<open>The row a refresh reads back after a creation.\<close>

definition created_answer :: "int \<Rightarrow> 'e session_db \<Rightarrow> collaboration_answer" where
  "created_answer i s = session_answer i (the (repo_get (sessions (sd_ma s)) i)) s"

definition reading :: "('e ma_db \<Rightarrow> (ma_error, 'x) result) \<Rightarrow> 'e ma_db \<Rightarrow> (ma_error, 'x) result \<times> 'e ma_db" where
  "reading q ma = (q ma, ma)"

section \<open>References of new rows\<close>

definition session_refs :: "acdb \<Rightarrow> ma_session \<Rightarrow> bool" where
  "session_refs db r \<longleftrightarrow> repo_exists (organizations db) (se_organization_id r) \<and> repo_exists (agents db) (se_coordinator_agent_id r) \<and>
     repo_exists (users db) (se_created_by r)"

definition goal_refs :: "acdb \<Rightarrow> agent_goal \<Rightarrow> bool" where
  "goal_refs db g \<longleftrightarrow> repo_exists (organizations db) (go_organization_id g) \<and> repo_exists (agents db) (go_agent_id g) \<and>
     repo_exists (users db) (go_created_by g)"

definition engine_for :: "'e session_env \<Rightarrow> acdb \<Rightarrow> 'e engine_env" where
  "engine_for env db = (sn_engine env)\<lparr>en_fk := (\<lambda>g. goal_refs db g \<and> en_fk (sn_engine env) g)\<rparr>"

section \<open>Multi-agent sessions\<close>

definition post_session :: "'e session_env \<Rightarrow> int \<Rightarrow> string \<Rightarrow> string \<Rightarrow> int \<Rightarrow> int list \<Rightarrow> metadata option \<Rightarrow> int \<times> user_row \<Rightarrow> 'e collaboration" where
  "post_session env org name goal coordinator agent_ids ctx cu s =
     valid_payload (name \<noteq> [] \<and> length name \<le> 255 \<and> goal \<noteq> [] \<and> agent_ids \<noteq> [])
       (domain env created_answer
         (create_session (session_refs (sd_access s)) (repo_exists (agents (sd_access s))) (sn_participant_key env)
           (sn_session_key env (sessions (sd_ma s))) org coordinator name goal agent_ids ctx (fst cu))) s"

definition get_sessions :: "'e session_env \<Rightarrow> int \<Rightarrow> string option \<Rightarrow> nat \<Rightarrow> nat \<Rightarrow> 'e collaboration" where
  "get_sessions env org status offset n =
     valid_payload (1 \<le> n \<and> n \<le> 100) (\<lambda>s. (Ok (Sessions_Answer (list_sessions (sn_created_at env) org status offset n (sd_ma s))), s))"

definition get_session_by_id :: "'e session_env \<Rightarrow> int \<Rightarrow> int \<Rightarrow> 'e collaboration" where
  "get_session_by_id env org i = domain env (session_answer i) (reading (get_session org i))"

definition post_start :: "'e session_env \<Rightarrow> int \<Rightarrow> int \<Rightarrow> 'e collaboration" where
  "post_start env org i s = domain env (session_answer i) (start_session (engine_for env (sd_access s)) org i) s"

definition post_complete :: "'e session_env \<Rightarrow> int \<Rightarrow> int \<Rightarrow> 'e collaboration" where
  "post_complete env org i = domain env (session_answer i) (complete_session (en_now (sn_engine env)) org i)"

definition post_cancel :: "'e session_env \<Rightarrow> int \<Rightarrow> int \<Rightarrow> 'e collaboration" where
  "post_cancel env org i = domain env (session_answer i) (cancel_session (en_now (sn_engine env)) org i)"

definition patch_context :: "'e session_env \<Rightarrow> int \<Rightarrow> int \<Rightarrow> metadata \<Rightarrow> 'e collaboration" where
  "patch_context env org i updates = domain env (session_answer i) (update_shared_context (sn_changed env) org i updates)"

definition post_delegation :: "'e session_env \<Rightarrow> int \<Rightarrow> int \<Rightarrow> int \<Rightarrow> int \<Rightarrow> string \<Rightarrow> metadata option \<Rightarrow> 'e collaboration" where
  "post_delegation env org i from_id to_id task ctx s =
     valid_payload (task \<noteq> [])
       (domain env (\<lambda>d _. Delegation_Answer d)
         (delegate_task (sn_delegation_key env (delegations (sd_ma s))) org i from_id to_id task ctx)) s"

definition get_delegations :: "'e session_env \<Rightarrow> int \<Rightarrow> int \<Rightarrow> 'e collaboration" where
  "get_delegations env org i = domain env (\<lambda>ds _. Delegations_Answer ds) (reading (list_delegations org i))"

definition patch_delegation :: "'e session_env \<Rightarrow> int \<Rightarrow> int \<Rightarrow> int \<Rightarrow> string \<Rightarrow> metadata option \<Rightarrow> 'e collaboration" where
  "patch_delegation env org i d status result =
     domain env (\<lambda>x _. Delegation_Answer x) (resolve_delegation (en_now (sn_engine env)) org i d status result)"

definition post_inter_message :: "'e session_env \<Rightarrow> int \<Rightarrow> int \<Rightarrow> int \<Rightarrow> int option \<Rightarrow> string \<Rightarrow> metadata \<Rightarrow> 'e collaboration" where
  "post_inter_message env org i from_id to_id kind content s =
     domain env (\<lambda>m _. Inter_Message_Answer m)
       (send_message (sn_message_key env (messages (sd_ma s))) org i from_id to_id kind content) s"

definition get_inter_messages :: "'e session_env \<Rightarrow> int \<Rightarrow> int \<Rightarrow> nat \<Rightarrow> nat \<Rightarrow> 'e collaboration" where
  "get_inter_messages env org i offset n =
     valid_payload (1 \<le> n \<and> n \<le> 200) (domain env (\<lambda>ms _. Inter_Messages_Answer ms) (reading (list_messages org i offset n)))"

definition patch_participant :: "'e session_env \<Rightarrow> int \<Rightarrow> int \<Rightarrow> int \<Rightarrow> string \<Rightarrow> metadata option \<Rightarrow> 'e collaboration" where
  "patch_participant env org i agent status result =
     domain env (\<lambda>p _. Participant_Answer p) (update_participant_status (en_now (sn_engine env)) org i agent status result)"

fun serve_session :: "'e session_env \<Rightarrow> credentials \<Rightarrow> int \<Rightarrow> session_request \<Rightarrow> 'e collaboration" where
  "serve_session env cr org (Create_Session name goal coord agent_ids ctx) =
     collaborating not_member ''multi_agent:write'' env cr org (post_session env org name goal coord agent_ids ctx)"
| "serve_session env cr org (List_Sessions status offset n) =
     collaborating not_member ''multi_agent:read'' env cr org (\<lambda>_. get_sessions env org status offset n)"
| "serve_session env cr org (Get_Session i) = collaborating not_member ''multi_agent:read'' env cr org (\<lambda>_. get_session_by_id env org i)"
| "serve_session env cr org (Start_Session i) = collaborating not_member ''multi_agent:write'' env cr org (\<lambda>_. post_start env org i)"
| "serve_session env cr org (Complete_Session i) = collaborating not_member ''multi_agent:write'' env cr org (\<lambda>_. post_complete env org i)"
| "serve_session env cr org (Cancel_Session i) = collaborating not_member ''multi_agent:write'' env cr org (\<lambda>_. post_cancel env org i)"
| "serve_session env cr org (Update_Context i u) = collaborating not_member ''multi_agent:write'' env cr org (\<lambda>_. patch_context env org i u)"
| "serve_session env cr org (Delegate_Task i f t task ctx) =
     collaborating not_member ''multi_agent:write'' env cr org (\<lambda>_. post_delegation env org i f t task ctx)"
| "serve_session env cr org (List_Delegations i) = collaborating not_member ''multi_agent:read'' env cr org (\<lambda>_. get_delegations env org i)"
| "serve_session env cr org (Resolve_Delegation i d status result) =
     collaborating not_member ''multi_agent:write'' env cr org (\<lambda>_. patch_delegation env org i d status result)"
| "serve_session env cr org (Send_Message i f t kind content) =
     collaborating not_member ''multi_agent:write'' env cr org (\<lambda>_. post_inter_message env org i f t kind content)"
| "serve_session env cr org (List_Messages i offset n) =
     collaborating not_member ''multi_agent:read'' env cr org (\<lambda>_. get_inter_messages env org i offset n)"
| "serve_session env cr org (Update_Participant i a status result) =
     collaborating not_member ''multi_agent:write'' env cr org (\<lambda>_. patch_participant env org i a status result)"

section \<open>The agent engine\<close>

text \<open>Any exception of a service is answered with status 400 and its text; outside the \<open>try\<close> it is not caught.\<close>

definition run_or_400 :: "(string, int \<times> agent_execution) result \<times> 'e engine_db \<Rightarrow> 'e collaboration" where
  "run_or_400 r s =
     (case r of
        (Inl x, ed) \<Rightarrow> (Err (HttpError 400 x), s\<lparr>sd_ma := (sd_ma s)\<lparr>engine := ed\<rparr>\<rparr>)
      | (Inr (i, x), ed) \<Rightarrow> (Ok (Run_Answer i x), s\<lparr>sd_ma := (sd_ma s)\<lparr>engine := ed\<rparr>\<rparr>))"

definition post_goal :: "'e session_env \<Rightarrow> int \<Rightarrow> string \<Rightarrow> string option \<Rightarrow> string \<Rightarrow> string \<Rightarrow> string option \<Rightarrow> int \<Rightarrow> int option
    \<Rightarrow> int \<times> user_row \<Rightarrow> 'e collaboration" where
  "post_goal env org title descr objective priority criteria agent conversation cu =
     valid_payload (length title \<le> 255) (\<lambda>s.
       (let en = engine_for env (sd_access s); ed = engine (sd_ma s)
        in case create_agent_goal (en_now en) (en_fk en) (en_task_key en) (en_goal_key en (ed_goals ed))
                  title descr objective priority criteria org agent conversation (fst cu) ed of
             (Inl _, ed') \<Rightarrow> (Err internal_error, s\<lparr>sd_ma := (sd_ma s)\<lparr>engine := ed'\<rparr>\<rparr>)
           | (Inr i, ed') \<Rightarrow> (Ok (Goal_Answer i (the (repo_get (ed_goals ed') i))), s\<lparr>sd_ma := (sd_ma s)\<lparr>engine := ed'\<rparr>\<rparr>)))"

definition post_execute :: "'e session_env \<Rightarrow> int \<Rightarrow> int \<Rightarrow> 'e collaboration" where
  "post_execute env org i s =
     (let en = sn_engine env; ed = engine (sd_ma s)
      in run_or_400 (execute_agent_goal (en_now en) (en_services en) (en_execution_key en (ed_executions ed)) i org ed) s)"

definition post_status :: "(int \<Rightarrow> int \<Rightarrow> 'e engine_db \<Rightarrow> (service_error, agent_execution) result \<times> 'e engine_db) \<Rightarrow> int \<Rightarrow> int \<Rightarrow> 'e collaboration" where
  "post_status operation org i s =
     (case operation org i (engine (sd_ma s)) of
        (Inl x, ed) \<Rightarrow> run_or_400 (Err (case x of ValueError t \<Rightarrow> t | IntegrityError \<Rightarrow> [] | HttpError _ t \<Rightarrow> t), ed) s
      | (Inr x, ed) \<Rightarrow> run_or_400 (Ok (i, x), ed) s)"

definition get_run :: "int \<Rightarrow> int \<Rightarrow> 'e collaboration" where
  "get_run org i s =
     (case get_by_org_and_id ax_organization_id org i (ed_executions (engine (sd_ma s))) of
        None \<Rightarrow> (Err (HttpError 404 ''Execution not found.''), s)
      | Some x \<Rightarrow> (Ok (Run_Answer i x), s))"

definition get_goal :: "int \<Rightarrow> int \<Rightarrow> 'e collaboration" where
  "get_goal org i s =
     (case get_by_org_and_id go_organization_id org i (ed_goals (engine (sd_ma s))) of
        None \<Rightarrow> (Err (HttpError 404 ''Goal not found.''), s)
      | Some g \<Rightarrow> (Ok (Goal_Answer i g), s))"

fun serve_agent :: "'e session_env \<Rightarrow> credentials \<Rightarrow> int \<Rightarrow> agent_request \<Rightarrow> 'e collaboration" where
  "serve_agent env cr org (Create_Goal title descr objective priority criteria agent conversation) =
     collaborating agent_not_member ''agent:write'' env cr org (post_goal env org title descr objective priority criteria agent conversation)"
| "serve_agent env cr org (Execute_Goal i) = collaborating agent_not_member ''agent:write'' env cr org (\<lambda>_. post_execute env org i)"
| "serve_agent env cr org (Pause_Run i) = collaborating agent_not_member ''agent:write'' env cr org (\<lambda>_. post_status agent_pause_execution org i)"
| "serve_agent env cr org (Resume_Run i) = collaborating agent_not_member ''agent:write'' env cr org (\<lambda>_. post_status agent_resume_execution org i)"
| "serve_agent env cr org (Cancel_Run i) =
     collaborating agent_not_member ''agent:write'' env cr org (\<lambda>_. post_status (agent_cancel_execution (en_now (sn_engine env))) org i)"
| "serve_agent env cr org (Get_Run i) = collaborating agent_not_member ''agent:read'' env cr org (\<lambda>_. get_run org i)"
| "serve_agent env cr org (Get_Goal i) = collaborating agent_not_member ''agent:read'' env cr org (\<lambda>_. get_goal org i)"

datatype collaboration_request = Session_Request session_request | Agent_Request agent_request

fun serve_collaboration :: "'e session_env \<Rightarrow> credentials \<Rightarrow> int \<Rightarrow> collaboration_request \<Rightarrow> 'e collaboration" where
  "serve_collaboration env cr org (Session_Request req) = serve_session env cr org req"
| "serve_collaboration env cr org (Agent_Request req) = serve_agent env cr org req"

end
