(* ===== verification/Session_Security.thy ===== *)
theory Session_Security
  imports Session_Api Directory_Security
begin

text \<open>
  What the endpoints of multi-agent sessions and of the agent engine guarantee: a request is
  at most one step of the session service, it needs a permission and membership, and it
  reaches no session, goal or execution of another organization.
\<close>

section \<open>Untouched sessions\<close>

definition untouched :: "int \<Rightarrow> 'e ma_db \<Rightarrow> 'e ma_db \<Rightarrow> bool" where
  "untouched sid db db' \<longleftrightarrow>
     repo_get (sessions db') sid = repo_get (sessions db) sid \<and>
     list_by_session sid (participants db') = list_by_session sid (participants db) \<and>
     repo_where (\<lambda>m. im_session_id m = sid) (messages db') = repo_where (\<lambda>m. im_session_id m = sid) (messages db) \<and>
     session_delegations sid (delegations db') = session_delegations sid (delegations db)"

lemma untouched_refl [simp]: "untouched sid db db"
  by (simp add: untouched_def)

lemma untouched_trans: "untouched sid a b \<Longrightarrow> untouched sid b c \<Longrightarrow> untouched sid a c"
  by (simp add: untouched_def)

lemma where_update_other:
  "(\<And>q. (i, q) \<in> set t \<Longrightarrow> \<not> P q) \<Longrightarrow> \<not> P r \<Longrightarrow> repo_where P (repo_update i r t) = repo_where P t"
  by (induction t) (auto simp: repo_where_def repo_update_def split: if_splits)

lemma where_create_other: "\<not> P r \<Longrightarrow> repo_where P (repo_create i r t) = repo_where P t"
  by (simp add: repo_where_def repo_create_def)

lemma untouched_simps [simp]:
  "untouched sid a (publish k m b) \<longleftrightarrow> untouched sid a b"
  "untouched sid a (clear_session k b) \<longleftrightarrow> untouched sid a b"
  "untouched sid a (b\<lparr>engine := ed\<rparr>) \<longleftrightarrow> untouched sid a b"
  by (simp_all add: untouched_def publish_def clear_session_def)

lemma untouched_put_session: "k \<noteq> sid \<Longrightarrow> untouched sid a (put_session k r b) \<longleftrightarrow> untouched sid a b"
  by (simp add: untouched_def put_session_def repo_get_update)

lemma untouched_put_participant:
  "linked b (i, p) \<Longrightarrow> table_wf (participants b) \<Longrightarrow> pt_session_id p \<noteq> sid \<Longrightarrow> untouched sid a (put_participant i p b) \<longleftrightarrow> untouched sid a b"
proof -
  assume a: "linked b (i, p)" "table_wf (participants b)" "pt_session_id p \<noteq> sid"
  have "pt_session_id q = pt_session_id p" if "(i, q) \<in> set (participants b)" for q
    using that a eq_key_imp_eq_value [of "links (participants b)" i] links_mem [of i q "participants b"]
    by (force simp: linked_def table_wf_def links_keys)
  then have "repo_where (\<lambda>p. pt_session_id p = sid) (repo_update i p (participants b)) = repo_where (\<lambda>p. pt_session_id p = sid) (participants b)"
    using a(3) by (intro where_update_other) auto
  then show ?thesis by (simp add: untouched_def put_participant_def list_by_session_def)
qed

lemma untouched_run_participant:
  assumes "linked db ip" and "table_wf (participants db)" and "pt_session_id (snd ip) \<noteq> sid"
  shows "untouched sid db (run_participant env org k s ip db)"
proof -
  obtain p' where p': "participant_outcome env (snd ip) p'" "participants (run_participant env org k s ip db) = repo_update (fst ip) p' (participants db)"
      "sessions (run_participant env org k s ip db) = sessions db" "messages (run_participant env org k s ip db) = messages db"
      "delegations (run_participant env org k s ip db) = delegations db"
    using run_participant_row [of env ip org k s db] by blast
  have "untouched sid db (put_participant (fst ip) p' db)"
    using untouched_put_participant [of db "fst ip" p' sid db] assms outcome_links [OF p'(1)] by (simp add: linked_def)
  then show ?thesis by (simp add: untouched_def put_participant_def p')
qed

lemma untouched_fold_run:
  assumes "table_wf (participants db)" and "\<forall>ip\<in>set ips. linked db ip \<and> pt_session_id (snd ip) \<noteq> sid"
  shows "untouched sid db (fold (run_participant env org k s) ips db)"
  using assms
proof (induction ips arbitrary: db)
  case (Cons ip ips)
  let ?db = "run_participant env org k s ip db"
  have keeps: "keeps_links db ?db" using Cons.prems by (intro keeps_run_participant) auto
  have "untouched sid ?db (fold (run_participant env org k s) ips ?db)"
    using Cons.prems keeps_wf [OF keeps] by (intro Cons.IH) (auto simp: linked_def intro: keeps_linked [OF keeps])
  then show ?case using untouched_run_participant [of db ip sid env org k s] Cons.prems by (auto intro: untouched_trans)
qed simp

lemma get_session_owner: "get_session org k db = Ok s \<Longrightarrow> repo_get (sessions db) k = Some s \<and> se_organization_id s = org"
  by (auto simp: get_session_def get_by_org_and_id_def split: option.splits if_splits)

definition foreign :: "int \<Rightarrow> 'e ma_db \<Rightarrow> int \<Rightarrow> bool" where
  "foreign org db sid \<longleftrightarrow> (\<exists>s. repo_get (sessions db) sid = Some s \<and> se_organization_id s \<noteq> org)"

lemma foreign_other: "foreign org db sid \<Longrightarrow> get_session org k db = Ok s \<Longrightarrow> k \<noteq> sid"
  by (auto simp: foreign_def dest: get_session_owner)

lemma untouched_complete: "foreign org db sid \<Longrightarrow> untouched sid db (snd (complete_session now org k db))"
  by (auto simp: complete_session_def Let_def untouched_put_session split: sum.split dest: foreign_other)

lemma untouched_cancel: "foreign org db sid \<Longrightarrow> untouched sid db (snd (cancel_session now org k db))"
  by (auto simp: cancel_session_def Let_def untouched_put_session split: sum.split dest: foreign_other)

lemma untouched_context: "foreign org db sid \<Longrightarrow> untouched sid db (snd (update_shared_context changed org k updates db))"
  by (auto simp: update_shared_context_def Let_def untouched_put_session split: sum.split dest: foreign_other)

lemma untouched_start:
  assumes "foreign org db sid" and "table_wf (participants db)"
  shows "untouched sid db (snd (start_session env org k db))"
proof (cases "get_session org k db")
  case (Inr s)
  then have k: "k \<noteq> sid" by (rule foreign_other [OF assms(1)])
  let ?s = "s\<lparr>se_status := ''RUNNING'', se_started_at := Some (en_now env)\<rparr>"
  let ?db1 = "publish k [(''event'', JStr ''session_started''), (''session_id'', JInt k), (''goal'', JStr (se_goal s))] (put_session k ?s db)"
  let ?db2 = "fold (run_participant env org k ?s) (list_by_session k (participants db)) ?db1"
  have "linked ?db1 ip \<and> pt_session_id (snd ip) \<noteq> sid" if "ip \<in> set (list_by_session k (participants db))" for ip
    using list_by_session_linked [OF that] that k by (auto simp: linked_def list_by_session_def repo_where_def)
  then have "untouched sid ?db1 ?db2" using assms(2) by (intro untouched_fold_run) auto
  then have u: "untouched sid db ?db2"
    by (rule untouched_trans [rotated]) (simp add: untouched_put_session [OF k])
  moreover have "untouched sid ?db2 (snd (complete_session (en_now env) org k ?db2))"
    by (cases "get_session org k ?db2") (simp_all add: complete_session_def Let_def untouched_put_session [OF k])
  ultimately show ?thesis using Inr by (auto simp: start_session_def Let_def intro: untouched_trans)
qed (simp add: start_session_def)

lemma untouched_delegate: "foreign org db sid \<Longrightarrow> untouched sid db (snd (delegate_task d org k f t task ctx db))"
  by (auto simp: delegate_task_def Let_def untouched_def session_delegations_def build_delegation_payload_def where_create_other
      split: sum.split dest: foreign_other)

lemma untouched_resolve:
  assumes "foreign org db sid" and "table_wf (delegations db)"
  shows "untouched sid db (snd (resolve_delegation now org k d status result db))"
proof (cases "get_session org k db")
  case (Inr s)
  then have k: "k \<noteq> sid" by (rule foreign_other [OF assms(1)])
  have "session_delegations sid (repo_update d r' (delegations db)) = session_delegations sid (delegations db)"
    if "repo_get (delegations db) d = Some r" "dg_session_id r = k" "dg_session_id r' = k" for r r'
    unfolding session_delegations_def
    using that k repo_get_in_set [OF assms(2)] by (intro where_update_other) auto
  then show ?thesis using Inr by (auto simp: resolve_delegation_def Let_def untouched_def split: option.split)
qed (simp add: resolve_delegation_def)

lemma untouched_send:
  assumes "foreign org db sid" and "mid \<notin> ids (messages db)"
  shows "untouched sid db (snd (send_message mid org k f t kind content db))"
  using assms
  by (auto simp: send_message_def Let_def publish_def update_created untouched_def where_create_other split: sum.split dest: foreign_other)

lemma untouched_participant:
  assumes "foreign org db sid" and "table_wf (participants db)"
  shows "untouched sid db (snd (update_participant_status now org k agent status result db))"
proof (cases "get_session org k db")
  case (Inr s)
  then have k: "k \<noteq> sid" by (rule foreign_other [OF assms(1)])
  have row: "linked db (pid, p) \<and> pt_session_id p = k" if "get_by_session_and_agent k agent (participants db) = Some (pid, p)" for pid p
    using repo_first_SomeD [OF that [unfolded get_by_session_and_agent_def]] links_mem [of pid p] by (auto simp: linked_def)
  then have "untouched sid db (put_participant pid p' db)"
    if "get_by_session_and_agent k agent (participants db) = Some (pid, p)" "pt_session_id p' = pt_session_id p" "pt_agent_id p' = pt_agent_id p"
    for pid p p'
    using untouched_put_participant [of db pid p' sid db] assms(2) that k by (auto simp: linked_def)
  then show ?thesis using Inr by (auto simp: update_participant_status_def Let_def split: option.split)
qed (simp add: update_participant_status_def)

lemma enrol_where: "k \<noteq> sid \<Longrightarrow> list_by_session sid (snd (enrol fk nk coord k sts t)) = list_by_session sid t"
  by (induction sts arbitrary: t) (auto simp: list_by_session_def where_create_other)

lemma untouched_create:
  assumes "foreign org db sid" and "k \<notin> ids (sessions db)"
  shows "untouched sid db (snd (create_session sfk afk nk k org coord name goal members ctx user db))"
proof -
  have k: "k \<noteq> sid" using assms by (auto simp: foreign_def dest: repo_get_SomeD)
  have "repo_get (repo_create k s (sessions db)) sid = repo_get (sessions db) sid" for s
    using assms(2) k by (simp add: repo_get_create)
  then show ?thesis
    using enrol_where [OF k, of afk nk coord _ "participants db"]
    by (auto simp: create_session_def Let_def untouched_def split: sum.split prod.split) (metis snd_conv)+
qed

section \<open>Goals and executions of other organizations\<close>

definition engine_wf :: "'e engine_db \<Rightarrow> bool" where
  "engine_wf ed \<longleftrightarrow> table_wf (ed_goals ed) \<and> table_wf (ed_executions ed)"

definition engine_kept :: "int \<Rightarrow> 'e engine_db \<Rightarrow> 'e engine_db \<Rightarrow> bool" where
  "engine_kept org ed ed' \<longleftrightarrow>
     repo_where (\<lambda>g. go_organization_id g \<noteq> org) (ed_goals ed') = repo_where (\<lambda>g. go_organization_id g \<noteq> org) (ed_goals ed) \<and>
     repo_where (\<lambda>x. ax_organization_id x \<noteq> org) (ed_executions ed') = repo_where (\<lambda>x. ax_organization_id x \<noteq> org) (ed_executions ed)"

text \<open>An operation of the engine for one organization keeps the tables and the rows of the others.\<close>

definition engine_safe :: "int \<Rightarrow> 'e engine_db \<Rightarrow> 'e engine_db \<Rightarrow> bool" where
  "engine_safe org ed ed' \<longleftrightarrow> (engine_wf ed \<longrightarrow> engine_wf ed' \<and> engine_kept org ed ed')"

lemma engine_safe_refl [simp]: "engine_safe org ed ed"
  by (simp add: engine_safe_def engine_kept_def)

lemma engine_safe_trans: "engine_safe org a b \<Longrightarrow> engine_safe org b c \<Longrightarrow> engine_safe org a c"
  by (simp add: engine_safe_def engine_kept_def)

lemma where_update_own: "table_wf t \<Longrightarrow> repo_get t i = Some q \<Longrightarrow> \<not> P q \<Longrightarrow> \<not> P r \<Longrightarrow> repo_where P (repo_update i r t) = repo_where P t"
  using repo_get_in_set [of t i] by (intro where_update_other) auto

lemma engine_create_goal:
  assumes "gid \<notin> ids (ed_goals ed)"
  shows "engine_safe org ed (snd (create_agent_goal now fk nk gid name descr objective priority criteria org agent conv user ed))"
  using assms by (auto simp: engine_safe_def engine_wf_def engine_kept_def create_agent_goal_def Let_def where_create_other)

lemma run_task_org: "ax_organization_id (ar_execution (snd (run_goal_task sv g xid it r))) = ax_organization_id (ar_execution r)"
  by (auto simp: run_goal_task_def Let_def split: prod.split sum.split)

lemma loop_org: "ax_organization_id (ar_execution (snd (agent_loop sv g xid i n r))) = ax_organization_id (ar_execution r)"
proof (induction n arbitrary: i r)
  case (Suc n)
  have "ax_organization_id (ar_execution r') = ax_organization_id (ar_execution r)"
    if "run_goal_task sv g xid it (set_iterations (Suc i) r) = (y, r')" for it y r'
    using run_task_org [of sv g xid it "set_iterations (Suc i) r"] unfolding that by (simp add: set_iterations_def)
  then show ?case using Suc.IH
    by (auto simp: Let_def set_iterations_def split: option.split prod.split sum.split)
qed simp

lemma execution_org:
  assumes "execute_agent_goal now sv xid gid org ed = (Ok (i, x), ed')"
  shows "ax_organization_id x = org"
proof -
  obtain g where g: "get_by_org_and_id go_organization_id org gid (ed_goals ed) = Some g"
    using assms by (cases "get_by_org_and_id go_organization_id org gid (ed_goals ed)") (auto simp: execute_agent_goal_def)
  let ?x = "new_execution gid org g (list_by_goal gid (ed_tasks ed))"
  let ?l = "agent_loop sv g xid 0 (max (length (list_by_goal gid (ed_tasks ed))) 1)
      \<lparr>ar_db = ed\<lparr>ed_executions := repo_create xid ?x (ed_executions ed)\<rparr>, ar_tasks = list_by_goal gid (ed_tasks ed), ar_execution = ?x\<rparr>"
  have "ax_organization_id (ar_execution (snd ?l)) = org" unfolding loop_org by (simp add: new_execution_def)
  then show ?thesis using assms g
    by (auto simp: execute_agent_goal_def Let_def finish_execution_def split: prod.splits sum.splits)
qed

lemma engine_execute:
  assumes "xid \<notin> ids (ed_executions ed)"
  shows "engine_safe org ed (snd (execute_agent_goal now sv xid gid org ed))"
proof (cases "get_by_org_and_id go_organization_id org gid (ed_goals ed)")
  case (Some g)
  have g: "repo_get (ed_goals ed) gid = Some g" "go_organization_id g = org"
    using Some by (auto simp: get_by_org_and_id_def split: option.splits if_splits)
  let ?x0 = "new_execution gid org g (list_by_goal gid (ed_tasks ed))"
  have x0: "ax_organization_id ?x0 = org" by (simp add: new_execution_def)
  obtain r ed' where run: "execute_agent_goal now sv xid gid org ed = (r, ed')" by fastforce
  have "(\<exists>x. ax_organization_id x = org \<and> ed_executions ed' = repo_create xid x (ed_executions ed)) \<and>
      (ed_goals ed' = ed_goals ed \<or> ed_goals ed' = repo_update gid (g\<lparr>go_status := ''COMPLETED''\<rparr>) (ed_goals ed))"
    using goal_run_meets_spec [OF Some, of now sv xid] g(2) x0 execution_org [of now sv xid gid org ed] assms
    unfolding run
    by (auto simp: goal_run_spec_def Let_def update_created split: option.splits prod.splits sum.splits)
  then show ?thesis unfolding run
    using assms g where_update_own [of "ed_goals ed" gid g "\<lambda>g. go_organization_id g \<noteq> org"]
    by (auto simp: engine_safe_def engine_wf_def engine_kept_def where_create_other)
qed (simp add: execute_agent_goal_def)

lemma engine_status: "engine_safe org ed (snd (agent_set_status status stamp org xid ed))"
proof (cases "get_by_org_and_id ax_organization_id org xid (ed_executions ed)")
  case (Some x)
  then have "repo_get (ed_executions ed) xid = Some x" "ax_organization_id x = org"
    by (auto simp: get_by_org_and_id_def split: option.splits if_splits)
  then show ?thesis using Some where_update_own [of "ed_executions ed" xid x "\<lambda>x. ax_organization_id x \<noteq> org"]
    by (auto simp: agent_set_status_def Let_def engine_safe_def engine_wf_def engine_kept_def)
qed (simp add: agent_set_status_def)

definition keys_fresh :: "'e engine_env \<Rightarrow> bool" where
  "keys_fresh en \<longleftrightarrow> (\<forall>t. en_goal_key en t \<notin> ids t) \<and> (\<forall>t. en_execution_key en t \<notin> ids t)"

lemma engine_run_agent:
  assumes "keys_fresh en"
  shows "engine_safe org ed (snd (run_agent en org s p ed))"
proof -
  let ?c = "create_agent_goal (en_now en) (en_fk en) (en_task_key en) (en_goal_key en (ed_goals ed))
      (se_name s @ '': agent '' @ show_int (pt_agent_id p)) (Some (pt_sub_task p)) (pt_sub_task p) ''medium''
      (Some (se_goal s)) org (pt_agent_id p) None (se_created_by s) ed"
  have 1: "engine_safe org ed (snd ?c)" using assms by (intro engine_create_goal) (simp add: keys_fresh_def)
  have 2: "engine_safe org ed1 (snd (execute_agent_goal (en_now en) (en_services en) (en_execution_key en (ed_executions ed1)) gid org ed1))" for ed1 gid
    using assms by (intro engine_execute) (simp add: keys_fresh_def)
  show ?thesis
    using 1 engine_safe_trans [OF 1 2]
    by (cases ?c) (auto simp: run_agent_def split_beta split: sum.split)
qed

lemma engine_simps [simp]:
  "engine (publish k m db) = engine db" "engine (put_participant i p db) = engine db" "engine (put_session k s db) = engine db"
  "engine (clear_session k db) = engine db"
  by (simp_all add: publish_def put_participant_def put_session_def clear_session_def)

lemma engine_run_participant: "keys_fresh en \<Longrightarrow> engine_safe org (engine db) (engine (run_participant en org k s ip db))"
  using engine_run_agent [of en org "engine db" s]
  by (auto simp: run_participant_def Let_def split_beta split: sum.split)

lemma engine_fold_run: "keys_fresh en \<Longrightarrow> engine_safe org (engine db) (engine (fold (run_participant en org k s) ips db))"
  by (induction ips arbitrary: db) (auto intro: engine_safe_trans engine_run_participant)

lemma engine_complete: "engine (snd (complete_session now org k db)) = engine db"
  by (simp add: complete_session_def Let_def split: sum.split)

lemma engine_start: "keys_fresh en \<Longrightarrow> engine_safe org (engine db) (engine (snd (start_session en org k db)))"
  using engine_fold_run [of en org "publish k m (put_session k s db)" for m s]
  by (auto simp: start_session_def Let_def engine_complete split: sum.split)

section \<open>One request\<close>

definition session_keys_fresh :: "'e session_env \<Rightarrow> bool" where
  "session_keys_fresh env \<longleftrightarrow> (\<forall>t. sn_session_key env t \<notin> ids t) \<and> (\<forall>t. sn_participant_key env t \<notin> ids t) \<and>
     (\<forall>t. sn_message_key env t \<notin> ids t) \<and> (\<forall>t. sn_delegation_key env t \<notin> ids t) \<and> keys_fresh (sn_engine env)"

definition session_inv :: "'e session_db \<Rightarrow> bool" where
  "session_inv s \<longleftrightarrow> ma_inv (sd_ma s) \<and> engine_wf (engine (sd_ma s))"

definition belongs_to :: "int \<Rightarrow> 'e session_db \<Rightarrow> int \<Rightarrow> bool" where
  "belongs_to org s sid \<longleftrightarrow> (\<exists>r. repo_get (sessions (sd_ma s)) sid = Some r \<and> se_organization_id r = org)"

fun own_answer :: "int \<Rightarrow> 'e session_db \<Rightarrow> collaboration_answer \<Rightarrow> bool" where
  "own_answer org s (Session_Answer i r ps) = (se_organization_id r = org \<and> list_all (\<lambda>(_, p). pt_session_id p = i) ps)"
| "own_answer org s (Sessions_Answer rs) = list_all (\<lambda>(_, r). se_organization_id r = org) rs"
| "own_answer org s (Delegation_Answer d) = belongs_to org s (dg_session_id d)"
| "own_answer org s (Delegations_Answer ds) = list_all (\<lambda>(_, d). belongs_to org s (dg_session_id d)) ds"
| "own_answer org s (Inter_Message_Answer m) = belongs_to org s (im_session_id m)"
| "own_answer org s (Inter_Messages_Answer ms) = list_all (\<lambda>(_, m). belongs_to org s (im_session_id m)) ms"
| "own_answer org s (Participant_Answer p) = belongs_to org s (pt_session_id p)"
| "own_answer org s (Goal_Answer i g) = (go_organization_id g = org)"
| "own_answer org s (Run_Answer i x) = (ax_organization_id x = org)"

text \<open>What a request made for an organization may do to the state, and what it may answer.\<close>

definition org_safe :: "int \<Rightarrow> 'e session_db \<Rightarrow> (service_error, collaboration_answer) result \<times> 'e session_db \<Rightarrow> bool" where
  "org_safe org s res \<longleftrightarrow>
     sd_access (snd res) = sd_access s \<and> session_inv (snd res) \<and>
     (\<forall>sid. foreign org (sd_ma s) sid \<longrightarrow> untouched sid (sd_ma s) (sd_ma (snd res))) \<and>
     engine_kept org (engine (sd_ma s)) (engine (sd_ma (snd res))) \<and>
     (case fst res of Inl _ \<Rightarrow> True | Inr a \<Rightarrow> own_answer org (snd res) a)"

lemma org_safe_error: "session_inv s \<Longrightarrow> org_safe org s (Err x, s)"
  by (simp add: org_safe_def engine_kept_def)

lemma org_safe_same: "session_inv s \<Longrightarrow> own_answer org s a \<Longrightarrow> org_safe org s (Ok a, s)"
  by (simp add: org_safe_def engine_kept_def)

lemma org_safe_within:
  assumes "session_inv s" and "\<And>cu. org_safe org s (body cu s)"
  shows "org_safe org s (collaborating refusal p env cr org body s)"
  unfolding collaborating_def by (rule within_preserves) (use assms org_safe_error in blast)+

lemma org_safe_payload: "session_inv s \<Longrightarrow> org_safe org s (body s) \<Longrightarrow> org_safe org s (valid_payload ok body s)"
  by (rule valid_payload_preserves) (use org_safe_error in blast)+

lemma org_safe_domain:
  assumes "session_inv s" and "ma_step (sd_ma s) (snd (operation (sd_ma s))) \<or> snd (operation (sd_ma s)) = sd_ma s"
    and "\<And>sid. foreign org (sd_ma s) sid \<Longrightarrow> untouched sid (sd_ma s) (snd (operation (sd_ma s)))"
    and "engine_safe org (engine (sd_ma s)) (engine (snd (operation (sd_ma s))))"
    and "\<And>y. fst (operation (sd_ma s)) = Ok y \<Longrightarrow>
      own_answer org (s\<lparr>sd_ma := snd (operation (sd_ma s))\<rparr>) (answer y (s\<lparr>sd_ma := snd (operation (sd_ma s))\<rparr>))"
  shows "org_safe org s (domain env answer operation s)"
proof -
  obtain y ma where run: "operation (sd_ma s) = (y, ma)" by fastforce
  have "ma_inv ma" using assms(1,2) ma_inv_step by (auto simp: run session_inv_def)
  moreover have "engine_wf (engine ma) \<and> engine_kept org (engine (sd_ma s)) (engine ma)"
    using assms(1,4) by (simp add: run session_inv_def engine_safe_def)
  ultimately show ?thesis using assms(3,5)
    by (auto simp: run org_safe_def domain_def session_inv_def split: sum.split)
qed

lemma org_safe_engine:
  assumes "session_inv s" and "engine_safe org (engine (sd_ma s)) ed" and "\<And>i x. y = Ok (i, x) \<Longrightarrow> ax_organization_id x = org"
  shows "org_safe org s (run_or_400 (y, ed) s)"
proof -
  have "ma_inv ((sd_ma s)\<lparr>engine := ed\<rparr>)"
    by (rule ma_inv_keeps [OF keeps_engine]) (use assms(1) in \<open>simp add: session_inv_def\<close>)
  then show ?thesis using assms
    by (auto simp: org_safe_def run_or_400_def session_inv_def engine_safe_def split: sum.split)
qed

lemma own_participants: "list_all (\<lambda>(_, p). pt_session_id p = i) (list_by_session i t)"
  by (auto simp: list_by_session_def repo_where_def list_all_iff)

lemma session_engine [simp]:
  "engine (snd (create_session sfk afk nk k org coord name goal members ctx user db)) = engine db"
  "engine (snd (complete_session now org k db)) = engine db"
  "engine (snd (cancel_session now org k db)) = engine db"
  "engine (snd (update_shared_context changed org k updates db)) = engine db"
  "engine (snd (delegate_task d org k f t task ctx db)) = engine db"
  "engine (snd (resolve_delegation now org k d status result db)) = engine db"
  "engine (snd (send_message mid org k f dest kind content db)) = engine db"
  "engine (snd (update_participant_status now org k agent status result db)) = engine db"
  by (auto simp: create_session_def complete_session_def cancel_session_def update_shared_context_def delegate_task_def
      resolve_delegation_def send_message_def update_participant_status_def Let_def publish_def split: sum.split prod.split option.split)

lemma created_row:
  assumes "fst (create_session sfk afk nk k org coord name goal members ctx user db) = Ok i" and "k \<notin> ids (sessions db)"
  shows "i = k \<and> (\<exists>r. repo_get (sessions (snd (create_session sfk afk nk k org coord name goal members ctx user db))) k = Some r \<and> se_organization_id r = org)"
  using assms by (auto simp: create_session_def Let_def repo_get_create split: sum.splits prod.splits if_splits)

lemma created_owner:
  assumes "fst (create_session sfk afk nk k org coord name goal members ctx user db) = Ok i" and "k \<notin> ids (sessions db)"
  shows "se_organization_id (the (repo_get (sessions (snd (create_session sfk afk nk k org coord name goal members ctx user db))) i)) = org"
  using created_row [OF assms] by auto

lemma session_rows:
  "fst (complete_session now org k db) = Ok r \<Longrightarrow> se_organization_id r = org"
  "fst (cancel_session now org k db) = Ok r \<Longrightarrow> se_organization_id r = org"
  "fst (update_shared_context changed org k updates db) = Ok r \<Longrightarrow> se_organization_id r = org"
  "get_session org k db = Ok r \<Longrightarrow> se_organization_id r = org"
  by (auto simp: complete_session_def cancel_session_def update_shared_context_def Let_def split: sum.splits if_splits
      dest: get_session_owner)

lemma started_row: "fst (start_session env org k db) = Ok r \<Longrightarrow> se_organization_id r = org"
  by (auto simp: start_session_def Let_def split: sum.splits if_splits dest: get_session_owner session_rows)

definition owned :: "int \<Rightarrow> 'e ma_db \<Rightarrow> int \<Rightarrow> bool" where
  "owned org db k \<longleftrightarrow> (\<exists>r. repo_get (sessions db) k = Some r \<and> se_organization_id r = org)"

lemma belongs_to_owned: "belongs_to org s k = owned org (sd_ma s) k"
  by (simp add: belongs_to_def owned_def)

lemma get_session_owned: "get_session org k db = Ok r \<Longrightarrow> owned org db k"
  using get_session_owner [of org k db r] by (auto simp: owned_def)

lemma linked_rows:
  "fst (delegate_task d org k f t task ctx db) = Ok x \<Longrightarrow> owned org (snd (delegate_task d org k f t task ctx db)) (dg_session_id x)"
  "fst (resolve_delegation now org k d status result db) = Ok x \<Longrightarrow> owned org (snd (resolve_delegation now org k d status result db)) (dg_session_id x)"
  "fst (send_message mid org k f dest kind content db) = Ok m \<Longrightarrow> owned org (snd (send_message mid org k f dest kind content db)) (im_session_id m)"
  by (auto simp: delegate_task_def resolve_delegation_def send_message_def Let_def build_delegation_payload_def publish_def
      owned_def dest!: get_session_owner split: sum.splits option.splits if_splits)

lemma status_row:
  assumes "fst (update_participant_status now org k agent status result db) = Ok p"
  shows "owned org (snd (update_participant_status now org k agent status result db)) (pt_session_id p)"
proof -
  obtain r where r: "get_session org k db = Ok r" using assms by (cases "get_session org k db") (auto simp: update_participant_status_def)
  obtain pid q where q: "get_by_session_and_agent k agent (participants db) = Some (pid, q)"
    using assms r by (cases "get_by_session_and_agent k agent (participants db)") (auto simp: update_participant_status_def)
  have "pt_session_id q = k" using repo_first_SomeD [OF q [unfolded get_by_session_and_agent_def]] by blast
  then show ?thesis using assms r q get_session_owner [OF r]
    by (auto simp: update_participant_status_def Let_def owned_def put_participant_def)
qed

lemma page_subset: "set (take n (drop m xs)) \<subseteq> set xs"
  by (meson order_trans set_drop_subset set_take_subset)

lemma listed_rows:
  "list_all (\<lambda>(_, r). se_organization_id r = org) (list_sessions created_at org status offset n db)"
  "list_delegations org k db = Ok ds \<Longrightarrow> list_all (\<lambda>(_, d). owned org db (dg_session_id d)) ds"
  "list_messages org k offset n db = Ok ms \<Longrightarrow> list_all (\<lambda>(_, m). owned org db (im_session_id m)) ms"
  using page_subset [of n offset]
  by (fastforce simp: list_sessions_def list_delegations_def list_messages_def repo_where_def session_delegations_def list_all_iff
      bind_ok_eq_Inr dest: get_session_owned)+

section \<open>Every endpoint is safe\<close>

lemma inv_tables: "session_inv s \<Longrightarrow> table_wf (participants (sd_ma s))" "session_inv s \<Longrightarrow> table_wf (delegations (sd_ma s))"
  by (simp_all add: session_inv_def ma_inv_def)

lemmas session_endpoint_defs = post_session_def get_sessions_def get_session_by_id_def post_start_def post_complete_def post_cancel_def
  patch_context_def post_delegation_def get_delegations_def patch_delegation_def post_inter_message_def get_inter_messages_def patch_participant_def

lemma org_safe_read:
  "session_inv s \<Longrightarrow> (\<And>y. q (sd_ma s) = Ok y \<Longrightarrow> own_answer org s (answer y s)) \<Longrightarrow> org_safe org s (domain env answer (reading q) s)"
  by (rule org_safe_domain) (simp_all add: reading_def)

lemma session_safe:
  assumes inv: "session_inv s" and fresh: "session_keys_fresh env"
  shows "org_safe org s (serve_session env cr org req s)"
proof -
  have fk: "keys_fresh (engine_for env db)" for db using fresh by (simp add: session_keys_fresh_def engine_for_def keys_fresh_def)
  note keys = fresh [unfolded session_keys_fresh_def]
  note rules = org_safe_within [OF inv] org_safe_payload [OF inv] org_safe_domain [OF inv] org_safe_read [OF inv]
  show ?thesis
  proof (cases req)
    case (Create_Session name goal coord members ctx)
    show ?thesis unfolding Create_Session serve_session.simps post_session_def
      by (intro rules) (use keys in \<open>auto intro: ma_step.create untouched_create simp: created_answer_def session_answer_def own_participants created_owner\<close>)
  next
    case (List_Sessions status offset n)
    show ?thesis using inv unfolding List_Sessions serve_session.simps get_sessions_def
      by (intro rules) (simp add: org_safe_def engine_kept_def listed_rows)
  next
    case (Get_Session i)
    show ?thesis unfolding Get_Session serve_session.simps get_session_by_id_def
      by (intro rules) (auto simp: session_answer_def own_participants dest: session_rows)
  next
    case (Start_Session i)
    show ?thesis unfolding Start_Session serve_session.simps post_start_def
      by (intro rules) (use inv_tables [OF inv] engine_start [OF fk] in
        \<open>auto intro: ma_step.start untouched_start simp: session_answer_def own_participants dest: started_row\<close>)
  next
    case (Complete_Session i)
    show ?thesis unfolding Complete_Session serve_session.simps post_complete_def
      by (intro rules) (auto intro: ma_step.complete untouched_complete simp: session_answer_def own_participants dest: session_rows)
  next
    case (Cancel_Session i)
    show ?thesis unfolding Cancel_Session serve_session.simps post_cancel_def
      by (intro rules) (auto intro: ma_step.cancel untouched_cancel simp: session_answer_def own_participants dest: session_rows)
  next
    case (Update_Context i u)
    show ?thesis unfolding Update_Context serve_session.simps patch_context_def
      by (intro rules) (auto intro: ma_step.share untouched_context simp: session_answer_def own_participants dest: session_rows)
  next
    case (Delegate_Task i f t task ctx)
    show ?thesis unfolding Delegate_Task serve_session.simps post_delegation_def
      by (intro rules) (use keys in \<open>auto intro: ma_step.delegate untouched_delegate simp: belongs_to_owned dest: linked_rows\<close>)
  next
    case (List_Delegations i)
    show ?thesis unfolding List_Delegations serve_session.simps get_delegations_def
      by (intro rules) (auto simp: belongs_to_owned dest: listed_rows(2,3))
  next
    case (Resolve_Delegation i d status result)
    show ?thesis unfolding Resolve_Delegation serve_session.simps patch_delegation_def
      by (intro rules) (use inv_tables [OF inv] in \<open>auto intro: ma_step.resolve untouched_resolve simp: belongs_to_owned dest: linked_rows\<close>)
  next
    case (Send_Message i f t kind content)
    show ?thesis unfolding Send_Message serve_session.simps post_inter_message_def
      by (intro rules) (use keys in \<open>auto intro: ma_step.send untouched_send simp: belongs_to_owned dest: linked_rows\<close>)
  next
    case (List_Messages i offset n)
    show ?thesis unfolding List_Messages serve_session.simps get_inter_messages_def
      by (intro rules) (auto simp: belongs_to_owned dest: listed_rows(2,3))
  next
    case (Update_Participant i a status result)
    show ?thesis unfolding Update_Participant serve_session.simps patch_participant_def
      by (intro rules) (use inv_tables [OF inv] in \<open>auto intro: ma_step.progress untouched_participant simp: belongs_to_owned dest: status_row\<close>)
  qed
qed

lemma goal_created:
  assumes "fst (create_agent_goal now fk nk gid name descr objective priority criteria org agent conv user ed) = Ok i" and "gid \<notin> ids (ed_goals ed)"
  shows "go_organization_id (the (repo_get (ed_goals (snd (create_agent_goal now fk nk gid name descr objective priority criteria org agent conv user ed))) i)) = org"
  using assms by (auto simp: create_agent_goal_def Let_def repo_get_create split: if_splits)

lemma org_safe_goal:
  assumes "session_inv s" and "session_keys_fresh env"
  shows "org_safe org s (post_goal env org title descr objective priority criteria agent conversation cu s)"
proof -
  let ?en = "engine_for env (sd_access s)" and ?ed = "engine (sd_ma s)"
  have key: "en_goal_key ?en (ed_goals ?ed) \<notin> ids (ed_goals ?ed)"
    using assms(2) by (simp add: session_keys_fresh_def keys_fresh_def engine_for_def)
  obtain y ed where run: "create_agent_goal (en_now ?en) (en_fk ?en) (en_task_key ?en) (en_goal_key ?en (ed_goals ?ed))
      title descr objective priority criteria org agent conversation (fst cu) ?ed = (y, ed)" by fastforce
  have "engine_safe org ?ed ed" using engine_create_goal [OF key] run by (metis snd_conv)
  moreover have "go_organization_id (the (repo_get (ed_goals ed) i)) = org" if "y = Ok i" for i
    using goal_created [OF _ key] run that by (metis fst_conv snd_conv)
  moreover have "ma_inv ((sd_ma s)\<lparr>engine := ed\<rparr>)"
    by (rule ma_inv_keeps [OF keeps_engine]) (use assms(1) in \<open>simp add: session_inv_def\<close>)
  ultimately show ?thesis using assms(1) run org_safe_error [OF assms(1)]
    by (auto simp: post_goal_def valid_payload_def Let_def org_safe_def session_inv_def engine_safe_def engine_kept_def split: sum.split)
qed

lemma status_org: "fst (agent_set_status status stamp org i ed) = Ok x \<Longrightarrow> ax_organization_id x = org"
  by (auto simp: agent_set_status_def get_by_org_and_id_def Let_def split: option.splits if_splits)

lemma org_safe_status:
  assumes "session_inv s"
  shows "org_safe org s (post_status (agent_set_status status stamp) org i s)"
proof -
  obtain y ed where run: "agent_set_status status stamp org i (engine (sd_ma s)) = (y, ed)" by fastforce
  have "engine_safe org (engine (sd_ma s)) ed" using engine_status [of org "engine (sd_ma s)" status stamp i] by (simp add: run)
  then show ?thesis using status_org [of status stamp org i "engine (sd_ma s)"]
    by (auto simp: post_status_def run intro!: org_safe_engine assms split: sum.split)
qed

lemma org_safe_reads:
  assumes "session_inv s"
  shows "org_safe org s (get_run org i s)" and "org_safe org s (get_goal org i s)"
  using assms
  by (auto simp: get_run_def get_goal_def get_by_org_and_id_def intro!: org_safe_same org_safe_error split: option.split)

lemma agent_safe:
  assumes inv: "session_inv s" and fresh: "session_keys_fresh env"
  shows "org_safe org s (serve_agent env cr org req s)"
proof (cases req)
  case (Execute_Goal i)
  let ?en = "sn_engine env"
  obtain y ed where run: "execute_agent_goal (en_now ?en) (en_services ?en) (en_execution_key ?en (ed_executions (engine (sd_ma s)))) i org
      (engine (sd_ma s)) = (y, ed)" by fastforce
  have "engine_safe org (engine (sd_ma s)) ed"
    using engine_execute [of "en_execution_key ?en (ed_executions (engine (sd_ma s)))" "engine (sd_ma s)"] fresh run
    by (metis session_keys_fresh_def keys_fresh_def snd_conv)
  moreover have "ax_organization_id x = org" if "y = Ok (j, x)" for j x using execution_org run that by metis
  ultimately show ?thesis unfolding Execute_Goal serve_agent.simps
    by (intro org_safe_within [OF inv]) (simp add: post_execute_def Let_def run org_safe_engine [OF inv])
qed (use inv fresh in \<open>auto intro!: org_safe_within org_safe_goal org_safe_status org_safe_reads
      simp: agent_pause_execution_def agent_resume_execution_def agent_cancel_execution_def\<close>)

lemma collaboration_step_safe:
  "session_inv s \<Longrightarrow> session_keys_fresh env \<Longrightarrow> org_safe org s (serve_collaboration env cr org req s)"
  by (cases req) (simp_all add: session_safe agent_safe)

text \<open>The permission a request needs.\<close>

fun needed :: "collaboration_request \<Rightarrow> string" where
  "needed (Session_Request (List_Sessions _ _ _)) = ''multi_agent:read''"
| "needed (Session_Request (Get_Session _)) = ''multi_agent:read''"
| "needed (Session_Request (List_Delegations _)) = ''multi_agent:read''"
| "needed (Session_Request (List_Messages _ _ _)) = ''multi_agent:read''"
| "needed (Session_Request _) = ''multi_agent:write''"
| "needed (Agent_Request (Get_Run _)) = ''agent:read''"
| "needed (Agent_Request (Get_Goal _)) = ''agent:read''"
| "needed (Agent_Request _) = ''agent:write''"

lemma serve_admitted: "admitted (needed req) (sn_auth env) cr org (sd_access s) s (serve_collaboration env cr org req s)"
proof (cases req)
  case (Session_Request r)
  then show ?thesis by (cases r) (simp_all add: collaborating_def within_admitted)
next
  case (Agent_Request r)
  then show ?thesis by (cases r) (simp_all add: collaborating_def within_admitted)
qed

section \<open>Histories\<close>

definition session_start :: "acdb \<Rightarrow> 'e \<Rightarrow> 'e session_db" where
  "session_start ac w = \<lparr>sd_access = ac, sd_ma = ma_empty \<lparr>ed_goals = [], ed_tasks = [], ed_executions = [], ed_world = w\<rparr>\<rparr>"

text \<open>Requests one after the other, each with its own token, clock and keys; accounts may change in between.\<close>

inductive collaboration_run :: "'e session_db \<Rightarrow> 'e session_db \<Rightarrow> bool" where
  begun: "collaboration_run s s"
| served: "collaboration_run s t \<Longrightarrow> session_keys_fresh env \<Longrightarrow> collaboration_run s (snd (serve_collaboration env cr org req t))"
| administered: "collaboration_run s t \<Longrightarrow> collaboration_run s (t\<lparr>sd_access := ac\<rparr>)"

lemma start_inv: "session_inv (session_start ac w)"
  by (simp add: session_inv_def session_start_def ma_inv_empty) (simp add: ma_empty_def engine_wf_def table_wf_def)

lemma run_inv: "collaboration_run s t \<Longrightarrow> session_inv s \<Longrightarrow> session_inv t"
proof (induction rule: collaboration_run.induct)
  case (served s t env cr org req)
  then show ?case using collaboration_step_safe [of t env org cr req] by (simp add: org_safe_def)
qed (simp_all add: session_inv_def)

text \<open>
  C8: Isolation of sessions and agents.  After any history of requests, a request made for one
  organization, by anybody and whatever its outcome, leaves the sessions of all others with their
  participants, messages and delegations as they were, and their goals and executions; what it
  answers belongs to the organization it was made for.  Without an active user who holds the
  permission of the endpoint and is a member of the organization it fails and changes nothing.
\<close>

theorem collaboration_isolated:
  assumes "collaboration_run (session_start ac w) s" and "session_keys_fresh env"
    and "serve_collaboration env cr org req s = (r, s')"
  shows "(repo_get (sessions (sd_ma s)) sid = Some row \<and> se_organization_id row \<noteq> org \<longrightarrow> untouched sid (sd_ma s) (sd_ma s')) \<and>
    engine_kept org (engine (sd_ma s)) (engine (sd_ma s')) \<and>
    (case r of Inr a \<Rightarrow> own_answer org s' a | Inl _ \<Rightarrow> True) \<and>
    (is_ok r \<or> s' \<noteq> s \<longrightarrow> (\<exists>cu. active_user (sn_auth env) cr (sd_access s) = Inr cu \<and> may (needed req) (sd_access s) cu \<and>
       (u_is_superuser (snd cu) \<or> is_member org (fst cu) (sd_access s))))"
proof -
  have "org_safe org s (r, s')"
    using collaboration_step_safe [OF run_inv [OF assms(1) start_inv] assms(2), of org cr req] by (simp only: assms(3))
  moreover have "admitted (needed req) (sn_auth env) cr org (sd_access s) s (r, s')" using serve_admitted [of req env cr org s] by (simp only: assms(3))
  ultimately show ?thesis by (auto simp: org_safe_def admitted_def entitled_def foreign_def split: sum.split)
qed

section \<open>Agents of other organizations\<close>

text \<open>
  A session takes in agents of other organizations: the service checks that an agent exists,
  not whose it is.  A member of one organization who may write sessions can enrol any agent of the
  platform as its coordinator, and the agent then takes part in the session.
\<close>

theorem foreign_agent_enrolled:
  assumes "permitted_user ''multi_agent:write'' (sn_auth env) cr (sd_access s) = Inr cu" and "is_member org (fst cu) (sd_access s)"
    and refs: "repo_exists (organizations (sd_access s)) org" "repo_exists (users (sd_access s)) (fst cu)"
    and agent: "repo_get (agents (sd_access s)) a = Some row" "a_organization_id row \<noteq> org"
    and key: "k = sn_session_key env (sessions (sd_ma s))"
    and reply: "serve_collaboration env cr org (Session_Request (Create_Session [n] [g] a [a] None)) s = (r, s')"
  shows "is_ok r \<and> participant_agent_ids k (participants (sd_ma s')) = participant_agent_ids k (participants (sd_ma s)) @ [a]"
proof -
  have "repo_exists (agents (sd_access s)) a" using agent(1) by (simp add: repo_exists_def)
  then show ?thesis
    using reply assms(2) refs
    by (simp add: collaborating_def within_entitled [where acc = sd_access, OF assms(1)] post_session_def valid_payload_def domain_def create_session_def session_refs_def
        decompose_goal_def participant_ids_create key)
      (auto simp: participant_ids_create)
qed

section \<open>Examples\<close>

definition sample_accounts :: acdb where
  "sample_accounts = (empty_acdb [(3, \<lparr>a_organization_id = 2, a_team_id = None, a_name = ''helper''\<rparr>)])\<lparr>
     users := [(7, \<lparr>u_full_name = ''R'', u_email = ''r@x'', u_password_hash = [], u_is_active = True, u_is_superuser = True\<rparr>)],
     organizations := [(1, \<lparr>o_name = ''O'', o_slug = ''o'', o_description = None, o_is_active = True\<rparr>)],
     organization_members := [(1, 1, 7)]\<rparr>"

definition sample_session_env :: "unit session_env" where
  "sample_session_env = \<lparr>sn_auth = sample_auth,
     sn_engine = \<lparr>en_now = [], en_services = idle_services, en_fk = (\<lambda>_. True), en_goal_key = serial_id, en_task_key = serial_id,
       en_execution_key = serial_id, en_integrity_text = []\<rparr>,
     sn_session_key = serial_id, sn_participant_key = serial_id, sn_message_key = serial_id, sn_delegation_key = serial_id,
     sn_created_at = (\<lambda>_. []), sn_changed = (\<noteq>)\<rparr>"

definition sample_session_db :: "unit session_db" where
  "sample_session_db = snd (serve_collaboration sample_session_env sample_token 1 (Session_Request (Create_Session ''n'' ''g'' 3 [3] None))
     (session_start sample_accounts ()))"

lemma sample_keys: "session_keys_fresh sample_session_env"
  by (simp add: session_keys_fresh_def sample_session_env_def keys_fresh_def serial_id_fresh)

lemma sample_cleared: "permitted_user p (sn_auth sample_session_env) sample_token (sd_access (session_start sample_accounts ())) =
    Inr (7, \<lparr>u_full_name = ''R'', u_email = ''r@x'', u_password_hash = [], u_is_active = True, u_is_superuser = True\<rparr>)"
proof -
  have "active_user sample_auth sample_token sample_accounts =
      Inr (7, \<lparr>u_full_name = ''R'', u_email = ''r@x'', u_password_hash = [], u_is_active = True, u_is_superuser = True\<rparr>)"
    by (simp add: active_user_def current_user_def sample_token_def sample_auth_def get_current_user_def decode_access_token_def plain_jwt
        get_current_active_user_def sample_accounts_def empty_acdb_def repo_get_def) code_simp
  then show ?thesis by (simp add: permitted_user_def session_start_def sample_session_env_def RequirePermission_def)
qed

theorem foreign_agent_enrolled_witness:
  "participant_agent_ids 1 (participants (sd_ma (snd (serve_collaboration sample_session_env sample_token 1
     (Session_Request (Create_Session ''n'' ''g'' 3 [3] None)) (session_start sample_accounts ()))))) = [3]"
proof -
  let ?s = "session_start sample_accounts ()"
  have "is_member 1 7 (sd_access ?s)" "repo_exists (organizations (sd_access ?s)) 1" "repo_exists (users (sd_access ?s)) 7"
    "repo_get (agents (sd_access ?s)) 3 = Some \<lparr>a_organization_id = 2, a_team_id = None, a_name = ''helper''\<rparr>"
    "1 = sn_session_key sample_session_env (sessions (sd_ma ?s))"
    by (simp_all add: session_start_def sample_accounts_def is_member_def repo_exists_def repo_get_def empty_acdb_def sample_session_env_def
        serial_id_def ma_empty_def)
  from foreign_agent_enrolled [OF sample_cleared, unfolded fst_conv, OF this(1-4) _ this(5) prod.collapse [symmetric]]
  show ?thesis by (simp add: session_start_def ma_empty_def participant_agent_ids_def list_by_session_def repo_where_def)
qed

theorem collaboration_isolated_witness:
  "\<exists>r. repo_get (sessions (sd_ma sample_session_db)) 1 = Some r \<and>
     repo_get (sessions (sd_ma (snd (serve_collaboration sample_session_env sample_token 2 (Session_Request (Cancel_Session 1)) sample_session_db)))) 1 = Some r"
proof -
  have run: "collaboration_run (session_start sample_accounts ()) sample_session_db"
    unfolding sample_session_db_def by (intro collaboration_run.intros sample_keys)
  obtain r where r: "repo_get (sessions (sd_ma sample_session_db)) 1 = Some r" "se_organization_id r = 1"
    by (simp add: sample_session_db_def collaborating_def within_entitled [where acc = sd_access, OF sample_cleared] post_session_def valid_payload_def domain_def)
      (auto simp: session_start_def sample_accounts_def ma_empty_def empty_acdb_def create_session_def session_refs_def repo_exists_def repo_get_def
        sample_session_env_def serial_id_def repo_create_def decompose_goal_def)
  then show ?thesis
    using collaboration_isolated [OF run sample_keys prod.collapse [symmetric], of 1 r 2 sample_token "Session_Request (Cancel_Session 1)"]
    by (simp add: untouched_def)
qed

end
