(* ===== verification/Groq.thy ===== *)
theory Groq
  imports Streaming
begin

text \<open>
  Provider adapters: the Groq client (\<open>providers/groq.py\<close>) and the five
  placeholders (\<open>providers/openai.py\<close> and its four copies).

  The vendor's SDK is not part of the repository.  What its client answers is an
  argument, a function of the arguments of the call and the state of the outside
  world; an answer is a record with the attributes the adapter reads, and an
  exception is its text and the names of the SDK's classes it is an instance of.
  \<open>json.loads\<close> is an argument too: \<open>None\<close> is its \<open>JSONDecodeError\<close>.
\<close>

section \<open>The SDK's values\<close>

record sdk_exception =
  sx_text :: string
  sx_instance_of :: "string list"

record sdk_usage =
  su_prompt_tokens :: int
  su_completion_tokens :: int
  su_total_tokens :: int

record sdk_tool_call =
  st_id :: string
  st_name :: string
  st_arguments :: string

record sdk_choice =
  sh_role :: string
  sh_content :: "string option"
  sh_tool_calls :: "sdk_tool_call list"
  sh_finish_reason :: "string option"

record sdk_response =
  sr_model :: string
  sr_choices :: "sdk_choice list"
  sr_usage :: "sdk_usage option"

record sdk_chunk =
  sd_choices :: "(string option \<times> string option) list"
  sd_usage :: "sdk_usage option"
  sd_model :: string

record sdk_call =
  sl_model :: string
  sl_messages :: "metadata list"
  sl_temperature :: int
  sl_max_tokens :: "int option"
  sl_top_p :: "int option"
  sl_tools :: "json list option"
  sl_tool_choice :: "string option"
  sl_stop :: "string list option"
  sl_stream :: bool
  sl_include_usage :: bool

record full_request = chat_request +
  cq_tool_choice :: "string option"
  cq_stop :: "string list option"

section \<open>Exceptions\<close>

datatype adapter_error =
    AuthenticationError string
  | RateLimitError string
  | TimeoutError string
  | ConnectionError string
  | NotFoundError string
  | BadRequestError string
  | GeneralError string
  | ModelNotSupportedError string
  | StreamingError string
  | Unmapped string

fun str_exc :: "adapter_error \<Rightarrow> string" where
  "str_exc (AuthenticationError m) = m"
| "str_exc (RateLimitError m) = m"
| "str_exc (TimeoutError m) = m"
| "str_exc (ConnectionError m) = m"
| "str_exc (NotFoundError m) = m"
| "str_exc (BadRequestError m) = m"
| "str_exc (GeneralError m) = m"
| "str_exc (ModelNotSupportedError m) = m"
| "str_exc (StreamingError m) = m"
| "str_exc (Unmapped m) = m"

definition map_exception :: "sdk_exception \<Rightarrow> adapter_error" where
  "map_exception exc =
     (let m = sx_text exc; cs = set (sx_instance_of exc) in
      if ''AuthenticationError'' \<in> cs then AuthenticationError m
      else if ''RateLimitError'' \<in> cs then RateLimitError m
      else if ''APITimeoutError'' \<in> cs then TimeoutError m
      else if ''APIConnectionError'' \<in> cs then ConnectionError m
      else if ''NotFoundError'' \<in> cs then NotFoundError m
      else if ''BadRequestError'' \<in> cs then BadRequestError m
      else if ''APIError'' \<in> cs then GeneralError m
      else Unmapped m)"

text \<open>An exception of the adapter's own code is of none of the SDK's classes.\<close>

definition own_exception :: "string \<Rightarrow> sdk_exception" where
  "own_exception m = \<lparr>sx_text = m, sx_instance_of = []\<rparr>"

section \<open>The request\<close>

definition nonempty_field :: "string \<Rightarrow> string option \<Rightarrow> metadata" where
  "nonempty_field k v = (case v of Some (c # cs) \<Rightarrow> [(k, JStr (c # cs))] | _ \<Rightarrow> [])"

definition build_message :: "chat_message \<Rightarrow> metadata" where
  "build_message m =
     [(''role'', JStr (mg_role m)), (''content'', JStr (mg_content m))]
     @ nonempty_field ''name'' (mg_name m) @ nonempty_field ''tool_call_id'' (mg_tool_call_id m)"

definition build_messages :: "chat_message list \<Rightarrow> metadata list" where
  "build_messages = map build_message"

definition param_schema :: "tool_param \<Rightarrow> json" where
  "param_schema p =
     JObj ([(''type'', JStr (tp_type p))] @ nonempty_field ''description'' (tp_description p)
       @ (case tp_enum p of Some (x # xs) \<Rightarrow> [(''enum'', JList (map JStr (x # xs)))] | _ \<Rightarrow> []))"

definition function_schema :: "tool_definition \<Rightarrow> json" where
  "function_schema t =
     JObj [(''type'', JStr ''function''),
           (''function'', JObj
             [(''name'', JStr (tf_name t)), (''description'', JStr (tf_description t)),
              (''parameters'', JObj
                [(''type'', JStr ''object''),
                 (''properties'', JObj (map (\<lambda>(k, p). (k, param_schema p)) (tf_parameters t))),
                 (''required'', JList (map JStr (tf_required t)))])])]"

definition build_tools :: "tool_definition list \<Rightarrow> json list option" where
  "build_tools ts = (if ts = [] then None else Some (map function_schema ts))"

definition build_kwargs :: "full_request \<Rightarrow> sdk_call" where
  "build_kwargs q =
     (let ts = build_tools (cq_tools q) in
      \<lparr>sl_model = cq_model q, sl_messages = build_messages (cq_messages q), sl_temperature = cq_temperature q,
       sl_max_tokens = (case cq_max_tokens q of Some n \<Rightarrow> if n = 0 then None else Some n | None \<Rightarrow> None),
       sl_top_p = cq_top_p q, sl_tools = ts,
       sl_tool_choice = (if ts = None \<or> or_str (cq_tool_choice q) [] = [] then None else cq_tool_choice q),
       sl_stop = (if cq_stop q = Some [] then None else cq_stop q),
       sl_stream = False, sl_include_usage = False\<rparr>)"

section \<open>The answer\<close>

definition sdk_to_usage :: "sdk_usage \<Rightarrow> usage" where
  "sdk_to_usage u = \<lparr>ug_prompt_tokens = su_prompt_tokens u, ug_completion_tokens = su_completion_tokens u, ug_total_tokens = su_total_tokens u\<rparr>"

text \<open>Arguments that are no JSON become an empty object; JSON that is no object fails the validation of \<open>ToolCall\<close>.\<close>

definition parse_tool_call :: "(string \<Rightarrow> json option) \<Rightarrow> sdk_tool_call \<Rightarrow> (sdk_exception, string \<times> string \<times> metadata) result" where
  "parse_tool_call loads tc =
     (let args = (if st_arguments tc = [] then JObj [] else case loads (st_arguments tc) of None \<Rightarrow> JObj [] | Some v \<Rightarrow> v) in
      case args of
        JObj d \<Rightarrow> Ok (st_id tc, st_name tc, d)
      | _ \<Rightarrow> Err (own_exception ''ValidationError''))"

fun parse_tool_calls :: "(string \<Rightarrow> json option) \<Rightarrow> sdk_tool_call list \<Rightarrow> (sdk_exception, (string \<times> string \<times> metadata) list) result" where
  "parse_tool_calls loads [] = Ok []"
| "parse_tool_calls loads (tc # tcs) =
     (case parse_tool_call loads tc of
        Inl e \<Rightarrow> Err e
      | Inr c \<Rightarrow> (case parse_tool_calls loads tcs of Inl e \<Rightarrow> Err e | Inr cs \<Rightarrow> Ok (c # cs)))"

record adapter_response =
  ar_model :: string
  ar_message :: chat_message
  ar_content :: string
  ar_finish_reason :: "string option"
  ar_usage :: "usage option"
  ar_tool_calls :: "(string \<times> string \<times> metadata) list"

definition message_roles :: "string list" where
  "message_roles = [''system'', ''user'', ''assistant'', ''tool'']"

definition parse_response :: "(string \<Rightarrow> json option) \<Rightarrow> sdk_response \<Rightarrow> (sdk_exception, adapter_response) result" where
  "parse_response loads r =
     (case sr_choices r of
        [] \<Rightarrow> Err (own_exception ''list index out of range'')
      | ch # _ \<Rightarrow>
          (case parse_tool_calls loads (sh_tool_calls ch) of
             Inl e \<Rightarrow> Err e
           | Inr tcs \<Rightarrow>
               if sh_role ch \<notin> set message_roles then Err (own_exception (quoted (sh_role ch) @ '' is not a valid MessageRole''))
               else
                 (let msg = \<lparr>mg_role = sh_role ch, mg_content = or_str (sh_content ch) [], mg_name = None, mg_tool_call_id = None\<rparr> in
                  Ok \<lparr>ar_model = sr_model r, ar_message = msg, ar_content = mg_content msg, ar_finish_reason = sh_finish_reason ch,
                      ar_usage = map_option sdk_to_usage (sr_usage r), ar_tool_calls = tcs\<rparr>)))"

section \<open>Operations\<close>

text \<open>The constructor refuses an empty key, first the given one and then the configured one.\<close>

definition groq_init :: "string option \<Rightarrow> string \<Rightarrow> (adapter_error, string) result" where
  "groq_init key configured =
     (let k = or_str key configured in
      if k = [] then Err (AuthenticationError ''Groq API key is missing or not configured.'') else Ok k)"

definition groq_chat ::
  "(string \<Rightarrow> json option) \<Rightarrow> (sdk_call \<Rightarrow> 'e \<Rightarrow> (sdk_exception, sdk_response) result \<times> 'e) \<Rightarrow> full_request \<Rightarrow> 'e
   \<Rightarrow> (adapter_error, adapter_response) result \<times> 'e" where
  "groq_chat loads create q e =
     (case create (build_kwargs q) e of
        (Inl x, e1) \<Rightarrow> (Err (map_exception x), e1)
      | (Inr r, e1) \<Rightarrow>
          (case parse_response loads r of
             Inl x \<Rightarrow> (Err (map_exception x), e1)
           | Inr a \<Rightarrow> (Ok a, e1)))"

text \<open>
  The loop over the chunks: \<open>broke\<close> is the exception the SDK's stream ends with;
  it is never seen once the loop has stopped.
\<close>

definition chunk_usage :: "sdk_chunk \<Rightarrow> usage option" where
  "chunk_usage ck = map_option sdk_to_usage (sd_usage ck)"

fun groq_chunks :: "string \<Rightarrow> int \<Rightarrow> sdk_chunk list \<Rightarrow> sdk_exception option \<Rightarrow> stream_chunk list \<times> sdk_exception option" where
  "groq_chunks model i [] broke = ([], broke)"
| "groq_chunks model i (ck # cks) broke =
     (case sd_choices ck of
        [] \<Rightarrow> ([\<lparr>ck_token = [], ck_index = i, ck_finish_reason = Some ''stop'', ck_usage = chunk_usage ck, ck_model = model\<rparr>], None)
      | (content, finish) # _ \<Rightarrow>
          (let c = \<lparr>ck_token = or_str content [], ck_index = i, ck_finish_reason = finish,
                    ck_usage = (if or_str finish [] = [] then None else chunk_usage ck),
                    ck_model = (if sd_model ck = [] then model else sd_model ck)\<rparr>
           in if or_str finish [] \<noteq> [] then ([c], None)
              else (let (rest, x) = groq_chunks model (i + 1) cks broke in (c # rest, x))))"

type_synonym 'e sdk_stream = "sdk_call \<Rightarrow> 'e \<Rightarrow> (sdk_exception, sdk_chunk list \<times> sdk_exception option) result \<times> 'e"

definition groq_stream_chat ::
  "'e sdk_stream \<Rightarrow> full_request \<Rightarrow> 'e \<Rightarrow> (stream_chunk list \<times> adapter_error option) \<times> 'e" where
  "groq_stream_chat create q e =
     (case create ((build_kwargs q)\<lparr>sl_stream := True, sl_include_usage := True\<rparr>) e of
        (Inl x, e1) \<Rightarrow> (([], Some (StreamingError (str_exc (map_exception x)))), e1)
      | (Inr (cks, broke), e1) \<Rightarrow>
          (let (out, x) = groq_chunks (cq_model q) 0 cks broke
           in ((out, map_option (\<lambda>x. StreamingError (str_exc (map_exception x))) x), e1)))"

definition groq_embeddings :: "'q \<Rightarrow> (adapter_error, 'r) result" where
  "groq_embeddings q = Err (ModelNotSupportedError ''Groq does not support text embeddings.'')"

definition groq_list_models :: "('e \<Rightarrow> (sdk_exception, string list) result \<times> 'e) \<Rightarrow> 'e \<Rightarrow> (adapter_error, string list) result \<times> 'e" where
  "groq_list_models models e =
     (case models e of (Inl x, e1) \<Rightarrow> (Err (map_exception x), e1) | (Inr ms, e1) \<Rightarrow> (Ok ms, e1))"

definition groq_health_check :: "('e \<Rightarrow> (sdk_exception, string list) result \<times> 'e) \<Rightarrow> 'e \<Rightarrow> bool \<times> 'e" where
  "groq_health_check models e = (case groq_list_models models e of (Inl _, e1) \<Rightarrow> (False, e1) | (Inr _, e1) \<Rightarrow> (True, e1))"

text \<open>The class, and the placeholders: every request is refused, the health check is negative, no model is listed.\<close>

definition groq_class :: provider_class where
  "groq_class = \<lparr>pc_class_name = ''GroqProvider'', pc_supports_tools = True, pc_supports_streaming = True, pc_supports_embeddings = False\<rparr>"

datatype vacant_provider = OpenAI | Anthropic | Gemini | Ollama | OpenRouter

fun placeholder_name :: "vacant_provider \<Rightarrow> string" where
  "placeholder_name OpenAI = ''OpenAI''"
| "placeholder_name Anthropic = ''Anthropic''"
| "placeholder_name Gemini = ''Gemini''"
| "placeholder_name Ollama = ''Ollama''"
| "placeholder_name OpenRouter = ''OpenRouter''"

definition placeholder_class :: "vacant_provider \<Rightarrow> provider_class" where
  "placeholder_class p =
     \<lparr>pc_class_name = placeholder_name p @ ''Provider'', pc_supports_tools = True, pc_supports_streaming = True,
      pc_supports_embeddings = (p \<noteq> Anthropic)\<rparr>"

definition placeholder_chat :: "vacant_provider \<Rightarrow> 'q \<Rightarrow> (adapter_error, 'r) result" where
  "placeholder_chat p q = Err (ModelNotSupportedError (placeholder_name p @ '' provider is not yet implemented.''))"

definition placeholder_stream_chat :: "vacant_provider \<Rightarrow> 'q \<Rightarrow> stream_chunk list \<times> adapter_error option" where
  "placeholder_stream_chat p q = ([], Some (ModelNotSupportedError (placeholder_name p @ '' streaming is not yet implemented.'')))"

definition placeholder_embeddings :: "vacant_provider \<Rightarrow> 'q \<Rightarrow> (adapter_error, 'r) result" where
  "placeholder_embeddings p q = Err (ModelNotSupportedError (placeholder_name p @ '' provider is not yet implemented.''))"

definition placeholder_health_check :: "vacant_provider \<Rightarrow> bool" where
  "placeholder_health_check p = False"

definition placeholder_list_models :: "vacant_provider \<Rightarrow> string list" where
  "placeholder_list_models p = []"

section \<open>The adapters behind the provider service\<close>

text \<open>The six classes the package registers when it is loaded (end of \<open>providers/registry.py\<close>).\<close>

definition shipped_providers :: "(string, provider_class) dict" where
  "shipped_providers =
     [(''groq'', groq_class), (''openai'', placeholder_class OpenAI), (''gemini'', placeholder_class Gemini),
      (''anthropic'', placeholder_class Anthropic), (''openrouter'', placeholder_class OpenRouter), (''ollama'', placeholder_class Ollama)]"

definition placeholder_of :: "provider_class \<Rightarrow> vacant_provider option" where
  "placeholder_of c = find (\<lambda>p. placeholder_class p = c) [OpenAI, Anthropic, Gemini, Ollama, OpenRouter]"

definition with_defaults :: "chat_request \<Rightarrow> full_request" where
  "with_defaults q = chat_request.extend q \<lparr>cq_tool_choice = None, cq_stop = None\<rparr>"

definition raised :: "(adapter_error, 'r) result \<Rightarrow> (string, 'r) result" where
  "raised r = (case r of Inl x \<Rightarrow> Err (str_exc x) | Inr y \<Rightarrow> Ok y)"

definition adapter_chat ::
  "(string \<Rightarrow> json option) \<Rightarrow> (sdk_call \<Rightarrow> 'e \<Rightarrow> (sdk_exception, sdk_response) result \<times> 'e) \<Rightarrow> ('e, chat_request, adapter_response) remote" where
  "adapter_chat loads create c q e =
     (case placeholder_of c of
        Some p \<Rightarrow> (raised (placeholder_chat p q), e)
      | None \<Rightarrow> (let (r, e1) = groq_chat loads create (with_defaults q) e in (raised r, e1)))"

text \<open>
  The service asks for a stream with \<open>async for chunk in await provider.stream_chat(request)\<close>.
  A call of an async generator function, which \<open>stream_chat\<close> is in every adapter, gives
  an async generator; only a coroutine can be awaited, and awaiting a generator raises a
  \<open>TypeError\<close> with the text \<open>not_awaitable\<close> before its body has run.
\<close>

datatype 'g called = Coroutine 'g | AsyncGenerator 'g

definition awaited :: "string \<Rightarrow> 'g called \<Rightarrow> (string, 'g) result" where
  "awaited not_awaitable x = (case x of Coroutine g \<Rightarrow> Ok g | AsyncGenerator _ \<Rightarrow> Err not_awaitable)"

definition call_stream_chat :: "'e sdk_stream \<Rightarrow> provider_class \<Rightarrow> chat_request \<Rightarrow> ('e \<Rightarrow> (stream_chunk list \<times> adapter_error option) \<times> 'e) called" where
  "call_stream_chat create c q =
     AsyncGenerator (case placeholder_of c of
        Some p \<Rightarrow> (\<lambda>e. (placeholder_stream_chat p q, e))
      | None \<Rightarrow> groq_stream_chat create (with_defaults q))"

definition adapter_stream :: "string \<Rightarrow> 'e sdk_stream \<Rightarrow> 'e stream_remote" where
  "adapter_stream not_awaitable create c q e =
     (case awaited not_awaitable (call_stream_chat create c q) of
        Inl m \<Rightarrow> (Err m, e)
      | Inr body \<Rightarrow> (let ((out, x), e1) = body e in (Ok (out, map_option str_exc x), e1)))"

section \<open>Errors\<close>

lemma map_exception_text: "str_exc (map_exception exc) = sx_text exc"
  by (simp add: map_exception_def Let_def)

section \<open>What is read of a stream\<close>

text \<open>
  A chunk after which the loop goes on has a choice without a finish reason.
  \<open>read_chunks\<close> are the chunks the loop sees: those, and the one that stops it.
\<close>

definition goes_on :: "sdk_chunk \<Rightarrow> bool" where
  "goes_on ck = (case sd_choices ck of [] \<Rightarrow> False | (_, finish) # _ \<Rightarrow> or_str finish [] = [])"

definition read_chunks :: "sdk_chunk list \<Rightarrow> sdk_chunk list" where
  "read_chunks cks = takeWhile goes_on cks @ take 1 (dropWhile goes_on cks)"

definition as_chunk :: "string \<Rightarrow> int \<times> sdk_chunk \<Rightarrow> stream_chunk" where
  "as_chunk model ick =
     (let (i, ck) = ick in
      case sd_choices ck of
        [] \<Rightarrow> \<lparr>ck_token = [], ck_index = i, ck_finish_reason = Some ''stop'', ck_usage = chunk_usage ck, ck_model = model\<rparr>
      | (content, finish) # _ \<Rightarrow>
          \<lparr>ck_token = or_str content [], ck_index = i, ck_finish_reason = finish,
           ck_usage = (if goes_on ck then None else chunk_usage ck), ck_model = (if sd_model ck = [] then model else sd_model ck)\<rparr>)"

fun counted_from :: "int \<Rightarrow> 'a list \<Rightarrow> (int \<times> 'a) list" where
  "counted_from i [] = []"
| "counted_from i (x # xs) = (i, x) # counted_from (i + 1) xs"

lemma counted_from_simps [simp]: "length (counted_from i xs) = length xs" "map snd (counted_from i xs) = xs"
  by (induction xs arbitrary: i) auto

lemma counted_from_nth: "j < length xs \<Longrightarrow> counted_from i xs ! j = (i + int j, xs ! j)"
  by (induction xs arbitrary: i j) (auto simp: nth_Cons split: nat.split)

lemma groq_chunks_exact:
  "groq_chunks model i cks broke =
     (map (as_chunk model) (counted_from i (read_chunks cks)), if list_all goes_on cks then broke else None)"
proof (induction cks arbitrary: i)
  case (Cons ck cks)
  show ?case
  proof (cases "sd_choices ck")
    case (Cons ch chs)
    then show ?thesis using Cons.IH
      by (cases ch) (simp add: read_chunks_def as_chunk_def goes_on_def)
  qed (simp add: read_chunks_def as_chunk_def goes_on_def)
qed (simp add: read_chunks_def)

definition stream_call :: "full_request \<Rightarrow> sdk_call" where
  "stream_call q = (build_kwargs q)\<lparr>sl_stream := True, sl_include_usage := True\<rparr>"

definition delta_text :: "sdk_chunk \<Rightarrow> string" where
  "delta_text ck = (case sd_choices ck of [] \<Rightarrow> [] | (content, _) # _ \<Rightarrow> or_str content [])"

lemma read_chunks_go_on: "Suc j < length (read_chunks cks) \<Longrightarrow> goes_on (read_chunks cks ! j)"
proof -
  assume "Suc j < length (read_chunks cks)"
  then have j: "j < length (takeWhile goes_on cks)" by (simp add: read_chunks_def split: if_splits)
  then have "read_chunks cks ! j = takeWhile goes_on cks ! j" by (simp add: read_chunks_def nth_append)
  with j show ?thesis by (metis nth_mem set_takeWhileD)
qed

lemma as_chunk_simps [simp]:
  "ck_index (as_chunk model (i, ck)) = i" "ck_token (as_chunk model (i, ck)) = delta_text ck"
  by (auto simp: as_chunk_def delta_text_def split: list.split)

lemma as_chunk_going_on:
  "goes_on ck \<Longrightarrow> or_str (ck_finish_reason (as_chunk model (i, ck))) [] = [] \<and> ck_usage (as_chunk model (i, ck)) = None"
  by (auto simp: as_chunk_def goes_on_def split: list.splits)

text \<open>
  C31: streaming through the Groq adapter.  When the SDK refuses the call nothing is
  yielded and a streaming error with the SDK's text is raised.  Otherwise one chunk
  is yielded per chunk of the SDK up to and including the first one with a finish
  reason or without a choice, counted_from from 0 and with the text of its delta; only
  the last one can carry a finish reason or usage.  An error of the SDK's stream is
  raised, as a streaming error with its text, exactly when no chunk stopped the loop
  before.
\<close>

theorem groq_stream_reads_to_finish:
  assumes "groq_stream_chat create q e = ((out, x), e')"
  shows "case create (stream_call q) e of
      (Inl exc, _) \<Rightarrow> out = [] \<and> x = Some (StreamingError (sx_text exc))
    | (Inr (cks, broke), _) \<Rightarrow>
        map ck_token out = map delta_text (read_chunks cks)
        \<and> list_all (\<lambda>j. ck_index (out ! j) = int j
             \<and> (Suc j < length out \<longrightarrow> or_str (ck_finish_reason (out ! j)) [] = [] \<and> ck_usage (out ! j) = None)) [0..<length out]
        \<and> x = (if list_all goes_on cks then map_option (\<lambda>b. StreamingError (sx_text b)) broke else None)"
proof (cases "create (stream_call q) e")
  case (Pair r e1)
  show ?thesis
  proof (cases r)
    case (Inr s)
    obtain cks broke where s: "s = (cks, broke)" by fastforce
    have out: "out = map (as_chunk (cq_model q)) (counted_from 0 (read_chunks cks))"
        "x = (if list_all goes_on cks then map_option (\<lambda>b. StreamingError (sx_text b)) broke else None)"
      using assms Pair Inr s by (auto simp: groq_stream_chat_def stream_call_def groq_chunks_exact map_exception_text)
    have "ck_token \<circ> as_chunk (cq_model q) = delta_text \<circ> snd" by (rule ext) auto
    then have "map ck_token out = map delta_text (map snd (counted_from 0 (read_chunks cks)))"
      unfolding out(1) map_map by simp
    with out show ?thesis unfolding Pair Inr s
      by (simp add: list_all_iff counted_from_nth) (use as_chunk_going_on read_chunks_go_on in blast)
  qed (use assms Pair in \<open>auto simp: groq_stream_chat_def stream_call_def map_exception_text\<close>)
qed


text \<open>
  The SDK's streams with \<open>include_usage\<close>: the chunk with the finish reason has no usage, which
  comes in a chunk without choices behind it.
\<close>

definition usage_comes_last :: "sdk_chunk list \<Rightarrow> bool" where
  "usage_comes_last cks =
     (\<not> list_all goes_on cks \<and> list_all (\<lambda>ck. sd_usage ck = None \<and> sd_choices ck \<noteq> []) (read_chunks cks))"

lemma unread_usage: "usage_comes_last cks \<Longrightarrow> list_all (\<lambda>ck. ck_usage ck = None) (fst (groq_chunks model i cks broke))"
proof -
  assume "usage_comes_last cks"
  then have u: "sd_usage ck = None \<and> sd_choices ck \<noteq> []" if "ck \<in> set (read_chunks cks)" for ck
    using that by (simp add: usage_comes_last_def list_all_iff)
  have "ck_usage (as_chunk model (j, ck)) = None" if "ck \<in> set (read_chunks cks)" for j ck
    using u [OF that] by (auto simp: as_chunk_def chunk_usage_def split: list.split)
  moreover have "snd y \<in> set (read_chunks cks)" if "y \<in> set (counted_from i (read_chunks cks))" for y
    using that counted_from_simps(2) [of i "read_chunks cks"] by (metis image_eqI list.set_map)
  ultimately show ?thesis by (auto simp: groq_chunks_exact list_all_iff)
qed

section \<open>Streaming through the service\<close>

lemma adapter_stream_fails [simp]: "adapter_stream not_awaitable create c q e = (Err not_awaitable, e)"
  by (simp add: adapter_stream_def awaited_def call_stream_chat_def)

lemma nothing_opened:
  assumes "open_stream (adapter_stream not_awaitable create) dflt q n db = ((cks, x), db')"
  shows "cks = [] \<and> x \<noteq> None"
proof -
  have "fst (stream_chat (adapter_stream not_awaitable create) dflt q n st) \<noteq> Inr s" for st s
    by (auto simp: stream_chat_def call_manual_def call_remote_def Let_def split: prod.split sum.split)
  with assms show ?thesis by (auto simp: open_stream_def split: prod.splits sum.splits dest: arg_cong [where f = fst])
qed

definition only_an_error :: "stream_event list \<Rightarrow> bool" where
  "only_an_error evs = (case evs of [] \<Rightarrow> True | [ErrorEvent _ _] \<Rightarrow> True | _ \<Rightarrow> False)"

lemma consume_nothing: "consume cl [] s = (evs, s', e) \<Longrightarrow> evs = []"
  by (cases "(cl, [] :: stream_chunk list, s)" rule: consume.cases) auto

lemma stream_run_fails:
  assumes run: "execute_stream co (adapter_stream not_awaitable create) c v ag p cl ctr k db = ((evs, err, ctr'), db')"
  shows "only_an_error evs"
    and "cd_messages db' = cd_messages db @ user_rows k c (pl_message p) True (cd_messages db)"
proof -
  obtain rc db1 where rc: "build_runtime_context co (cv_organization_id v) (cv_agent_id v) (pl_message p) db = (rc, db1)" by fastforce
  let ?q = "chat_request_for ag (payload_overrides p) rc (build_context (get_by_conversation c (cd_messages db))) (pl_message p)"
  let ?start = "\<lparr>ss_tokens = [], ss_finish_reason = ''stop'', ss_usage = None, ss_provider = or_str (pl_provider p) ''auto'', ss_model = cq_model ?q\<rparr>"
  obtain cks broke db3 where op: "open_stream (adapter_stream not_awaitable create) (co_default_provider co) ?q (pl_provider p)
      (snd (create_user_message k c (pl_message p) db1)) = ((cks, broke), db3)" by (metis prod.exhaust)
  obtain toks s ending where cs: "consume cl cks ?start = (toks, s, ending)" by (metis prod.exhaust)
  obtain exc where "cks = []" "broke = Some exc" using nothing_opened [OF op] by auto
  moreover from this have "toks = []" using consume_nothing cs by simp
  ultimately show e: "only_an_error evs"
    using run [unfolded execute_stream_def Let_def rc prod.case op cs]
    by (cases ending; cases "request_in_bounds ?q") (auto simp: only_an_error_def)
  have "\<not> list_ex is_done evs"
    using e by (auto simp: only_an_error_def split: list.splits stream_event.splits)
  moreover obtain ok src where "stream_ends ok cl src c ctr k (cd_messages db @ user_rows k c (pl_message p) True (cd_messages db)) (evs, err, ctr') (cd_messages db')"
    using stream_run [OF run] by blast
  ultimately show "cd_messages db' = cd_messages db @ user_rows k c (pl_message p) True (cd_messages db)"
    by (elim stream_ends.cases) auto
qed

text \<open>
  C12: with the adapters of the repository no stream ever answers.  Whatever the SDK does,
  for a new or an existing conversation, at most one event is sent and it is an error; no
  token is sent, no assistant message is stored, and the SDK is not called: its behaviour
  does not matter.
\<close>

theorem streaming_never_answers:
  assumes "stream_continue_chat co (adapter_stream not_awaitable create) c p user org cl ctr k db = ((evs, err, ctr'), db')"
    and "stream_new_chat co (adapter_stream not_awaitable create) p' user org cl ctr k db = ((evs', err', ctr''), db'')"
  shows "only_an_error evs \<and> only_an_error evs'
    \<and> (\<exists>us. cd_messages db' = cd_messages db @ us \<and> list_all (\<lambda>r. ms_role (snd r) = ''user'') us)
    \<and> (\<exists>us. cd_messages db'' = cd_messages db @ us \<and> list_all (\<lambda>r. ms_role (snd r) = ''user'') us)
    \<and> adapter_stream not_awaitable create = adapter_stream not_awaitable create'"
proof (intro conjI)
  have user: "list_all (\<lambda>r. ms_role (snd r) = ''user'') (user_rows k c t True ms)" for c t ms
    by (simp add: user_rows_def new_message_def)
  show "only_an_error evs" "\<exists>us. cd_messages db' = cd_messages db @ us \<and> list_all (\<lambda>r. ms_role (snd r) = ''user'') us"
    using assms(1) by (cases rule: stream_continue_cases; use stream_run_fails user in \<open>fastforce simp: only_an_error_def\<close>)+
  consider x where "evs' = []" "db'' = db"
    | c v ag where "execute_stream co (adapter_stream not_awaitable create) c v ag p' cl ctr k
        (db\<lparr>cd_conversations := repo_create c v (cd_conversations db)\<rparr>) = ((evs', err', ctr''), db'')"
    using assms(2) by (auto simp: stream_new_chat_def Let_def split: option.splits sum.splits)
  then show "only_an_error evs'" "\<exists>us. cd_messages db'' = cd_messages db @ us \<and> list_all (\<lambda>r. ms_role (snd r) = ''user'') us"
    by (cases; use stream_run_fails user in \<open>fastforce simp: only_an_error_def\<close>)+
qed (simp add: fun_eq_iff)

section \<open>Only Groq answers\<close>

definition known_instances :: "'e provider_state \<Rightarrow> bool" where
  "known_instances st = list_all (\<lambda>(n, c). dict_get shipped_providers n = Some c) (pr_instances st)"

definition stock :: "'e provider_state \<Rightarrow> bool" where
  "stock st = (pr_registry st = shipped_providers \<and> known_instances st)"

definition the_names :: "string list" where
  "the_names = [''groq'', ''openai'', ''gemini'', ''anthropic'', ''openrouter'', ''ollama'']"

lemma registered_names: "pr_registry st = shipped_providers \<Longrightarrow> list_registered st = the_names"
  by (simp add: list_registered_def shipped_providers_def the_names_def)

lemma the_names_facts:
  assumes "n \<in> set the_names"
  obtains c where "py_lower n = n" and "dict_get shipped_providers n = Some c" and "pc_supports_tools c"
    and "placeholder_of c = None \<longleftrightarrow> n = ''groq''"
proof -
  have "list_all (\<lambda>n. py_lower n = n \<and> (case dict_get shipped_providers n of None \<Rightarrow> False
      | Some c \<Rightarrow> pc_supports_tools c \<and> (placeholder_of c = None \<longleftrightarrow> n = ''groq''))) the_names"
    by code_simp
  then have f: "py_lower n = n \<and> (case dict_get shipped_providers n of None \<Rightarrow> False
      | Some c \<Rightarrow> pc_supports_tools c \<and> (placeholder_of c = None \<longleftrightarrow> n = ''groq''))"
    using assms unfolding list_all_iff by (rule bspec)
  show ?thesis
  proof (cases "dict_get shipped_providers n")
    case (Some c)
    with f show ?thesis by (intro that [of c]) simp_all
  qed (use f in simp)
qed

lemma stock_provider:
  assumes st: "stock st" and n: "n \<in> set the_names" "is_configured n st" and c: "dict_get shipped_providers n = Some c"
  obtains st1 where "get_provider n st = (Ok c, st1)" and "stock st1" and "pr_world st1 = pr_world st"
    and "pr_settings st1 = pr_settings st"
proof -
  have l: "py_lower n = n" using n(1) by (rule the_names_facts)
  have r: "registry_exists n st" "registry_get n st = Ok c" using st c l by (simp_all add: stock_def registry_exists_def registry_get_def)
  show ?thesis
  proof (cases "dict_get (pr_instances st) n")
    case None
    let ?st1 = "st\<lparr>pr_instances := dict_set (pr_instances st) n c\<rparr>"
    have "get_provider n st = (Ok c, ?st1)" using None l r n(2) by (simp add: get_provider_def)
    moreover have "stock ?st1"
      using st c None dict_set_fresh [of n "pr_instances st" c]
      by (simp add: stock_def known_instances_def dict_get_None_iff)
    ultimately show ?thesis using that by simp
  next
    case (Some c')
    then have "(n, c') \<in> set (pr_instances st)" by (rule map_of_SomeD)
    then have "c' = c" using st c by (auto simp: stock_def known_instances_def list_all_iff)
    with st n(2) l r that Some show ?thesis by (simp add: get_provider_def)
  qed
qed

lemma configured_cong: "pr_settings st1 = pr_settings st \<Longrightarrow> is_configured n st1 = is_configured n st"
  by (simp add: is_configured_def)

lemma loop_asks_groq:
  assumes "stock st" and "distinct names" and "set names \<subseteq> set the_names" and "list_all (\<lambda>n. is_configured n st) names"
  shows "pr_world (snd (chat_loop (adapter_chat loads create) q names errs st)) = (if ''groq'' \<in> set names then snd (groq_chat loads create (with_defaults q) (pr_world st)) else pr_world st)
    \<and> (fst (chat_loop (adapter_chat loads create) q names errs st) = Ok r \<longleftrightarrow> ''groq'' \<in> set names \<and> fst (groq_chat loads create (with_defaults q) (pr_world st)) = Ok r)"
  using assms
proof (induction names arbitrary: errs st)
  case (Cons n names)
  have n: "n \<in> set the_names" "is_configured n st" using Cons.prems by simp_all
  obtain c where c: "dict_get shipped_providers n = Some c" "pc_supports_tools c" "placeholder_of c = None \<longleftrightarrow> n = ''groq''"
    by (rule the_names_facts [OF n(1)])
  obtain st1 where st1: "get_provider n st = (Ok c, st1)" "stock st1" "pr_world st1 = pr_world st" "pr_settings st1 = pr_settings st"
    by (rule stock_provider [OF Cons.prems(1) n c(1)])
  obtain x e1 where call: "adapter_chat loads create c q (pr_world st) = (x, e1)" by fastforce
  let ?st2 = "st1\<lparr>pr_world := e1\<rparr>"
  have "stock ?st2" "list_all (\<lambda>n. is_configured n ?st2) names"
    using Cons.prems st1 by (simp_all add: stock_def known_instances_def is_configured_def)
  then have IH: "pr_world (snd (chat_loop (adapter_chat loads create) q names errs ?st2)) = (if ''groq'' \<in> set names then snd (groq_chat loads create (with_defaults q) e1) else e1)
      \<and> (fst (chat_loop (adapter_chat loads create) q names errs ?st2) = Ok r \<longleftrightarrow> ''groq'' \<in> set names \<and> fst (groq_chat loads create (with_defaults q) e1) = Ok r)" for errs
    using Cons.IH [of ?st2 errs] Cons.prems(2,3) by simp
  show ?case
  proof (cases "n = ''groq''")
    case True
    then have "placeholder_of c = None" "''groq'' \<notin> set names" using c(3) Cons.prems(2) by auto
    moreover obtain g where "groq_chat loads create (with_defaults q) (pr_world st) = (g, e1)" "x = raised g"
      using call \<open>placeholder_of c = None\<close> by (auto simp: adapter_chat_def split: prod.splits)
    ultimately show ?thesis using True call st1 c(2) IH
      by (cases g) (auto simp: call_remote_def raised_def)
  next
    case False
    then obtain pl where "placeholder_of c = Some pl" using c(3) by auto
    then have "e1 = pr_world st" "\<exists>m. x = Err m" using call by (auto simp: adapter_chat_def raised_def placeholder_chat_def)
    with False call IH st1 c(2) show ?thesis by (auto simp: call_remote_def)
  qed
qed simp

lemma append_new_facts:
  "set (append_new P names ord) = set ord \<union> {n \<in> set names. P n} \<and> (distinct ord \<longrightarrow> distinct (append_new P names ord))"
proof (induction names arbitrary: ord)
  case (Cons n names)
  have "append_new P (n # names) ord = append_new P names (if P n \<and> n \<notin> set ord then ord @ [n] else ord)"
    by (simp add: append_new_def)
  with Cons [of "if P n \<and> n \<notin> set ord then ord @ [n] else ord"] show ?case by auto
qed (simp add: append_new_def)

lemma stock_order:
  assumes "stock st"
  shows "distinct (get_failover_order p st)" and "set (get_failover_order p st) = {n \<in> set the_names. is_configured n st}"
proof -
  have c: "set (get_configured_providers st) = {n \<in> set the_names. is_configured n st}"
    using assms by (auto simp: get_configured_providers_def stock_def registered_names)
  show "distinct (get_failover_order p st)" "set (get_failover_order p st) = {n \<in> set the_names. is_configured n st}"
    unfolding get_failover_order_def Let_def
    using append_new_facts c by (auto split: option.splits)
qed

text \<open>
  A chat outside MANUAL mode over the providers the package registers asks the SDK
  of Groq exactly once, and nothing else of the outside world, when Groq has a key, and
  nothing at all otherwise.  It is answered exactly when Groq has a key and that one call
  succeeds, whichever provider is preferred: the other five refuse every request.
\<close>

theorem only_groq_answers:
  assumes "stock st" and "mode \<noteq> ''MANUAL''"
  shows "let res = chat (adapter_chat loads create) dflt q name mode st;
      call = groq_chat loads create (with_defaults q) (pr_world st);
      asked = (GROQ_API_KEY (pr_settings st) \<noteq> [])
    in pr_world (snd res) = (if asked then snd call else pr_world st) \<and> (fst res = Ok r \<longleftrightarrow> asked \<and> fst call = Ok r)"
proof -
  let ?names = "get_failover_order (Some (or_str name dflt)) st"
  have "py_lower ''groq'' = ''groq''" by code_simp
  then have g: "''groq'' \<in> set ?names \<longleftrightarrow> GROQ_API_KEY (pr_settings st) \<noteq> []"
    unfolding stock_order(2) [OF assms(1)] by (simp add: the_names_def is_configured_def)
  have "set ?names \<subseteq> set the_names" "list_all (\<lambda>n. is_configured n st) ?names"
    using stock_order(2) [OF assms(1)] by (auto simp: list_all_iff)
  note loop = loop_asks_groq [OF assms(1) stock_order(1) [OF assms(1)] this, unfolded g]
  have "fst (chat (adapter_chat loads create) dflt q name mode st) = Ok r
      \<longleftrightarrow> fst (chat_loop (adapter_chat loads create) q ?names [] st) = Ok r"
    "snd (chat (adapter_chat loads create) dflt q name mode st) = snd (chat_loop (adapter_chat loads create) q ?names [] st)"
    using assms(2) by (auto simp: chat_def Let_def split: prod.split sum.split)
  then show ?thesis unfolding Let_def using loop by simp
qed

section \<open>Examples\<close>

definition sample_reply :: sdk_response where
  "sample_reply = \<lparr>sr_model = ''m'', sr_choices = [\<lparr>sh_role = ''assistant'', sh_content = Some ''hi'', sh_tool_calls = [], sh_finish_reason = Some ''stop''\<rparr>],
     sr_usage = None\<rparr>"

definition sample_create :: "sdk_call \<Rightarrow> nat \<Rightarrow> (sdk_exception, sdk_response) result \<times> nat" where
  "sample_create call n = (Ok sample_reply, n + 1)"

definition sample_stock :: "nat provider_state" where
  "sample_stock = demo_providers\<lparr>pr_registry := shipped_providers\<rparr>"

theorem only_groq_answers_witness:
  "pr_world (snd (chat (adapter_chat (\<lambda>_. None) sample_create) ''openai'' demo_request None ''AUTO'' sample_stock)) = 1
   \<and> is_ok (fst (chat (adapter_chat (\<lambda>_. None) sample_create) ''ollama'' demo_request None ''AUTO'' sample_stock))"
proof -
  have st: "stock sample_stock" by code_simp
  have key: "GROQ_API_KEY (pr_settings sample_stock) \<noteq> []" "pr_world sample_stock = 0" by code_simp+
  have auto: "''AUTO'' \<noteq> ''MANUAL''" by simp
  obtain r where call: "groq_chat (\<lambda>_. None) sample_create (with_defaults demo_request) 0 = (Ok r, 1)"
    by (simp add: groq_chat_def sample_create_def sample_reply_def parse_response_def message_roles_def)
  from only_groq_answers [OF st auto, of "\<lambda>_. None" sample_create "''openai''" demo_request None r]
    only_groq_answers [OF st auto, of "\<lambda>_. None" sample_create "''ollama''" demo_request None r]
  show ?thesis using key call by (simp add: Let_def)
qed

definition sample_stream :: "nat sdk_stream" where
  "sample_stream call n =
     (Ok ([\<lparr>sd_choices = [(Some ''he'', None)], sd_usage = None, sd_model = ''m''\<rparr>,
           \<lparr>sd_choices = [(Some ''llo'', None)], sd_usage = None, sd_model = ''m''\<rparr>,
           \<lparr>sd_choices = [(None, Some ''stop'')], sd_usage = None, sd_model = ''m''\<rparr>,
           \<lparr>sd_choices = [], sd_usage = Some \<lparr>su_prompt_tokens = 9, su_completion_tokens = 2, su_total_tokens = 11\<rparr>, sd_model = ''m''\<rparr>], None), n + 1)"

definition streamed_sample :: "(stream_chunk list \<times> adapter_error option) \<times> nat" where
  "streamed_sample = groq_stream_chat sample_stream (with_defaults demo_request) 0"

theorem groq_stream_reads_to_finish_witness:
  "map ck_token (fst (fst streamed_sample)) = [''he'', ''llo'', []] \<and> snd (fst streamed_sample) = None"
proof -
  obtain out x e where run: "groq_stream_chat sample_stream (with_defaults demo_request) 0 = ((out, x), e)" by (metis prod.exhaust)
  from groq_stream_reads_to_finish [OF run] run show ?thesis
    by (simp add: streamed_sample_def sample_stream_def read_chunks_def goes_on_def delta_text_def or_str_def)
qed

definition streaming_db :: "nat chat_db" where
  "streaming_db = hello_db\<lparr>cd_providers := sample_stock\<rparr>"

definition await_error :: string where
  "await_error = ''object async_generator cannot be used in await expression''"

theorem streaming_never_answers_witness:
  "fst (fst (stream_continue_chat hello_services (adapter_stream await_error sample_stream) 1 hello_payload hello_user 1 Stays no_streams serial_keys streaming_db))
     = [ErrorEvent await_error ''provider_streaming_error'']
   \<and> only_an_error (fst (fst (stream_new_chat hello_services (adapter_stream await_error sample_stream) hello_payload hello_user 1 Stays no_streams serial_keys streaming_db)))"
proof -
  let ?old = "stream_continue_chat hello_services (adapter_stream await_error sample_stream) 1 hello_payload hello_user 1 Stays no_streams serial_keys streaming_db"
  let ?new = "stream_new_chat hello_services (adapter_stream await_error sample_stream) hello_payload hello_user 1 Stays no_streams serial_keys streaming_db"
  obtain evs err ctr' db' where old: "?old = ((evs, err, ctr'), db')" by (metis prod.exhaust)
  obtain evs' err' ctr'' db'' where new: "?new = ((evs', err', ctr''), db'')" by (metis prod.exhaust)
  have "fst (fst ?old) = [ErrorEvent await_error ''provider_streaming_error'']" by code_simp
  with streaming_never_answers [OF old new] new show ?thesis by simp
qed

end
