(* ===== verification/Workflow_Api.thy ===== *)
theory Workflow_Api
  imports Workflow Endpoint
begin

text \<open>
  The REST endpoints of workflows (\<open>api/v1/workflow.py\<close>) and the creation of a workflow
  from its graph (\<open>WorkflowService.create_workflow\<close>), over the accounts and the rows of
  \<open>Workflow\<close>.

  The keys of new rows, the services that nodes call and the fuel of a run are fields of
  the environment of a request.  A run that does not end within the fuel gives no answer;
  its execution is then stored as it was before the first node.  The status and the
  enabled flag of a workflow, which nothing reads, are left out, and timeouts, which are
  stored and never used, are validated only; they are in hundredths of a second.
\<close>

section \<open>State and requests\<close>

record workflow_row = workflow +
  wf_description :: "string option"
  wf_version :: string
  wf_created_by :: int

record workflow_db =
  wd_access :: acdb
  wd_workflows :: "workflow_row table"
  wd_executions :: "wf_execution table"
  wd_steps :: "(int \<times> wf_step) list"

record node_create =
  nc_name :: string
  nc_node_type :: string
  nc_configuration :: "metadata option"
  nc_timeout :: int

record edge_create =
  ec_source_index :: int
  ec_target_index :: int
  ec_transition_condition :: "string option"
  ec_priority :: int

record workflow_env =
  wv_auth :: auth_env
  wv_services :: services
  wv_fuel :: nat
  wv_workflow_key :: "workflow_row table \<Rightarrow> int"
  wv_node_key :: "workflow_row table \<Rightarrow> nat \<Rightarrow> int"
  wv_execution_key :: "wf_execution table \<Rightarrow> int"
  wv_orphan :: "string list \<Rightarrow> string"
  wv_integrity_text :: string

datatype workflow_request =
    Create_Workflow string "string option" string "node_create list" "edge_create list"
  | Execute_Workflow int int
  | Pause_Workflow int
  | Resume_Workflow int
  | Cancel_Workflow int
  | Get_Execution int

datatype workflow_answer =
    Workflow_Answer int workflow_row
  | Execution_Answer int wf_execution
  | Still_Running

type_synonym workflow_handler = "(workflow_db, workflow_answer) handler"

definition graphs :: "workflow_row table \<Rightarrow> workflow table" where
  "graphs t = map (\<lambda>(i, w). (i, workflow.truncate w)) t"

section \<open>Creation\<close>

definition build_nodes :: "(nat \<Rightarrow> int) \<Rightarrow> node_create list \<Rightarrow> wf_node list" where
  "build_nodes key ns =
     map (\<lambda>(i, n). \<lparr>wn_id = key i, wn_node_type = nc_node_type n, wn_name = nc_name n,
        wn_configuration = nc_configuration n, wn_retry_policy = None\<rparr>) (zip [0..<length ns] ns)"

text \<open>\<open>node_id_map\<close> has the positions of the nodes as its keys; any other index is a \<open>KeyError\<close>.\<close>

definition node_id_map :: "wf_node list \<Rightarrow> int \<Rightarrow> int option" where
  "node_id_map ns i = (if 0 \<le> i \<and> nat i < length ns then Some (wn_id (ns ! nat i)) else None)"

fun build_edges :: "(int \<Rightarrow> int option) \<Rightarrow> edge_create list \<Rightarrow> wf_edge list option" where
  "build_edges node_of [] = Some []"
| "build_edges node_of (e # es) =
     (case (node_of (ec_source_index e), node_of (ec_target_index e), build_edges node_of es) of
        (Some a, Some b, Some rest) \<Rightarrow>
          Some (\<lparr>we_source = a, we_target = b, we_condition = ec_transition_condition e, we_priority = ec_priority e\<rparr> # rest)
      | _ \<Rightarrow> None)"

text \<open>
  The row of the workflow is committed before its graph is built, in a transaction that is
  lost when an index is out of range.
\<close>

definition create_workflow ::
  "workflow_env \<Rightarrow> string \<Rightarrow> string option \<Rightarrow> string \<Rightarrow> int \<Rightarrow> int \<Rightarrow> node_create list \<Rightarrow> edge_create list \<Rightarrow> workflow_db
   \<Rightarrow> (service_error, int \<times> workflow_row) result \<times> workflow_db" where
  "create_workflow env name description version org user ns es s =
     (if \<not> repo_exists (organizations (wd_access s)) org \<or> \<not> repo_exists (users (wd_access s)) user then (Err IntegrityError, s)
      else
        (let t = wd_workflows s;
             k = wv_workflow_key env t;
             w = \<lparr>wf_organization_id = org, wf_name = name, wf_nodes = [], wf_edges = [],
                  wf_description = description, wf_version = version, wf_created_by = user\<rparr>;
             nodes = build_nodes (wv_node_key env t) ns
         in case build_edges (node_id_map nodes) es of
              None \<Rightarrow> (Err internal_error, s\<lparr>wd_workflows := repo_create k w t\<rparr>)
            | Some edges \<Rightarrow>
                (let w' = w\<lparr>wf_nodes := nodes, wf_edges := edges\<rparr> in (Ok (k, w'), s\<lparr>wd_workflows := repo_create k w' t\<rparr>))))"

section \<open>Execution\<close>

definition name_in_quotes :: "string \<Rightarrow> string" where
  "name_in_quotes s = [CHR 0x27] @ s @ [CHR 0x27]"

definition graph_error_text :: "workflow_env \<Rightarrow> graph_error \<Rightarrow> string" where
  "graph_error_text env x =
     (case x of
        MissingStart \<Rightarrow> ''Workflow is missing a '' @ name_in_quotes ''start'' @ '' node.''
      | DuplicateStart \<Rightarrow> ''Workflow has duplicate '' @ name_in_quotes ''start'' @ '' nodes.''
      | OrphanNode names \<Rightarrow> ''Workflow contains orphan node '' @ name_in_quotes (wv_orphan env names) @ ''.'')"

definition start_execution :: "wf_execution \<Rightarrow> wf_step list \<Rightarrow> int \<Rightarrow> workflow_db \<Rightarrow> workflow_db" where
  "start_execution x steps k s =
     s\<lparr>wd_executions := repo_create k x (wd_executions s), wd_steps := wd_steps s @ map (\<lambda>st. (k, st)) steps\<rparr>"

text \<open>
  Every exception becomes a 400 with its text: the workflow is not found, its graph is not
  valid, or the new execution breaks a foreign key.
\<close>

definition run_workflow :: "workflow_env \<Rightarrow> int \<Rightarrow> int \<Rightarrow> int \<Rightarrow> workflow_handler" where
  "run_workflow env org agent wid s =
     (let k = wv_execution_key env (wd_executions s) in
      case execute_workflow (wv_fuel env) (wv_services env) k wid org agent (graphs (wd_workflows s)) of
        Inl WorkflowNotFound \<Rightarrow> (Err (HttpError 400 ''Workflow not found.''), s)
      | Inl (InvalidGraph x) \<Rightarrow> (Err (HttpError 400 (graph_error_text env x)), s)
      | Inr run \<Rightarrow>
          if \<not> repo_exists (organizations (wd_access s)) org \<or> \<not> repo_exists (agents (wd_access s)) agent
          then (Err (HttpError 400 (wv_integrity_text env)), s)
          else
            (case run of
               None \<Rightarrow> (Ok Still_Running, start_execution (initial_execution k wid org agent) [] k s)
             | Some r \<Rightarrow> (Ok (Execution_Answer k (wr_execution r)), start_execution (wr_execution r) (wr_steps r) k s)))"

definition on_executions :: "(wf_execution table \<Rightarrow> (service_error, wf_execution) result \<times> wf_execution table)
    \<Rightarrow> workflow_db \<Rightarrow> (service_error, wf_execution) result \<times> workflow_db" where
  "on_executions operation s = (let (r, t) = operation (wd_executions s) in (r, s\<lparr>wd_executions := t\<rparr>))"

definition execution_status :: "int \<Rightarrow> int \<Rightarrow> workflow_handler" where
  "execution_status org i s =
     (case get_by_org_and_id wx_organization_id org i (wd_executions s) of
        None \<Rightarrow> (Err (HttpError 404 ''Execution not found.''), s)
      | Some x \<Rightarrow> (Ok (Execution_Answer i x), s))"

section \<open>Endpoints\<close>

definition workflow_refusal :: service_error where
  "workflow_refusal = HttpError 403 ''You are not a member of the specified organization.''"

definition workflow_fits :: "string \<Rightarrow> node_create list \<Rightarrow> bool" where
  "workflow_fits name ns = (length name \<le> 255 \<and> list_all (\<lambda>n. 100 \<le> nc_timeout n) ns)"

text \<open>An \<open>IntegrityError\<close> of a creation is not caught and reaches the handler for all exceptions.\<close>

definition post_workflow :: "workflow_env \<Rightarrow> int \<Rightarrow> string \<Rightarrow> string option \<Rightarrow> string \<Rightarrow> node_create list \<Rightarrow> edge_create list
    \<Rightarrow> int \<times> user_row \<Rightarrow> workflow_handler" where
  "post_workflow env org name description version ns es cu =
     valid_payload (workflow_fits name ns)
       (answered 500 (\<lambda>(i, w). Workflow_Answer i w) (create_workflow env name description version org (fst cu) ns es))"

definition workflow_permission :: "workflow_request \<Rightarrow> string" where
  "workflow_permission req = (case req of Get_Execution _ \<Rightarrow> ''workflow:read'' | _ \<Rightarrow> ''workflow:write'')"

definition workflow_body :: "workflow_env \<Rightarrow> int \<Rightarrow> workflow_request \<Rightarrow> int \<times> user_row \<Rightarrow> workflow_handler" where
  "workflow_body env org req cu =
     (case req of
        Create_Workflow name description version ns es \<Rightarrow> post_workflow env org name description version ns es cu
      | Execute_Workflow wid agent \<Rightarrow> run_workflow env org agent wid
      | Pause_Workflow i \<Rightarrow> answered 400 (Execution_Answer i) (on_executions (pause_execution org i))
      | Resume_Workflow i \<Rightarrow> answered 400 (Execution_Answer i) (on_executions (resume_execution org i))
      | Cancel_Workflow i \<Rightarrow> answered 400 (Execution_Answer i) (on_executions (cancel_execution org i))
      | Get_Execution i \<Rightarrow> execution_status org i)"

definition serve_workflow :: "workflow_env \<Rightarrow> credentials \<Rightarrow> int \<Rightarrow> workflow_request \<Rightarrow> workflow_handler" where
  "serve_workflow env cr org req =
     within wd_access workflow_refusal (workflow_permission req) (wv_auth env) cr org (workflow_body env org req)"

end
