(* ===== verification/Workflow_Security.thy ===== *)
theory Workflow_Security
  imports Workflow_Api Session_Security Knowledge
begin

text \<open>
  What the endpoints of workflows guarantee: they reach only workflows and executions of
  the organization of the request, a workflow is stored with the graph it was sent with,
  and an execution reads any knowledge base its nodes name.
\<close>

section \<open>Isolation\<close>

definition workflow_keys_fresh :: "workflow_env \<Rightarrow> bool" where
  "workflow_keys_fresh env \<longleftrightarrow> (\<forall>t. wv_workflow_key env t \<notin> ids t) \<and> (\<forall>t. wv_execution_key env t \<notin> ids t)
     \<and> (\<forall>t. inj (wv_node_key env t))"

definition steps_of :: "int \<Rightarrow> workflow_db \<Rightarrow> wf_step list" where
  "steps_of i s = map snd (filter (\<lambda>(j, _). j = i) (wd_steps s))"

definition wf_kept :: "int \<Rightarrow> workflow_db \<Rightarrow> workflow_db \<Rightarrow> bool" where
  "wf_kept org s s' \<longleftrightarrow> wd_access s' = wd_access s
     \<and> (\<forall>i w. wf_organization_id w \<noteq> org \<longrightarrow> (repo_get (wd_workflows s') i = Some w \<longleftrightarrow> repo_get (wd_workflows s) i = Some w))
     \<and> (\<forall>i x. wx_organization_id x \<noteq> org \<longrightarrow> (repo_get (wd_executions s') i = Some x \<longleftrightarrow> repo_get (wd_executions s) i = Some x))
     \<and> (\<forall>i x. repo_get (wd_executions s) i = Some x \<and> wx_organization_id x \<noteq> org \<longrightarrow> steps_of i s' = steps_of i s)"

definition own_workflow_answer :: "int \<Rightarrow> workflow_answer \<Rightarrow> bool" where
  "own_workflow_answer org a =
     (case a of Workflow_Answer _ w \<Rightarrow> wf_organization_id w = org | Execution_Answer _ x \<Rightarrow> wx_organization_id x = org | Still_Running \<Rightarrow> True)"

text \<open>A request that fails without an effect, or that stays within the organization.\<close>

definition wf_safe :: "int \<Rightarrow> workflow_db \<Rightarrow> (service_error, workflow_answer) result \<times> workflow_db \<Rightarrow> bool" where
  "wf_safe org s res \<longleftrightarrow> wf_kept org s (snd res) \<and> (case fst res of Inl _ \<Rightarrow> True | Inr a \<Rightarrow> own_workflow_answer org a)"

lemma wf_kept_refl [simp]: "wf_kept org s s"
  by (simp add: wf_kept_def)

lemma wf_safe_error [simp]: "wf_safe org s (Err x, s)"
  by (simp add: wf_safe_def)

lemma kept_new_workflow:
  "k \<notin> ids (wd_workflows s) \<Longrightarrow> wf_organization_id w = org \<Longrightarrow> wf_kept org s (s\<lparr>wd_workflows := repo_create k w (wd_workflows s)\<rparr>)"
  by (auto simp: wf_kept_def steps_of_def repo_get_create repo_get_None_iff [symmetric])

lemma kept_new_execution:
  assumes "k \<notin> ids (wd_executions s)" and "wx_organization_id x = org"
  shows "wf_kept org s (start_execution x steps k s)"
proof -
  have "filter (\<lambda>(j, _). j = i) (map (Pair k) steps) = []" if "repo_get (wd_executions s) i = Some y" for i y
  proof -
    have "i \<noteq> k" using that assms(1) repo_get_SomeD by metis
    then show ?thesis by (induction steps) auto
  qed
  then show ?thesis using assms
    by (auto simp: wf_kept_def start_execution_def steps_of_def repo_get_create repo_get_None_iff [symmetric])
qed

definition same_origin :: "wf_execution \<Rightarrow> wf_execution \<Rightarrow> bool" where
  "same_origin x y \<longleftrightarrow> wx_id y = wx_id x \<and> wx_organization_id y = wx_organization_id x \<and> wx_workflow_id y = wx_workflow_id x"

lemma advance_origin:
  "(advance call w n r = Finished r' \<longrightarrow> same_origin (wr_execution r) (wr_execution r'))
   \<and> (advance call w n r = Continue m r' \<longrightarrow> same_origin (wr_execution r) (wr_execution r'))"
  by (auto simp: advance_def visit_def finish_def same_origin_def Let_def split: if_splits option.splits)

lemma loop_origin: "wf_loop fuel call w n r = Some r' \<Longrightarrow> same_origin (wr_execution r) (wr_execution r')"
proof (induction fuel arbitrary: n r)
  case (Suc fuel)
  show ?case
  proof (cases "advance call w n r")
    case (Finished r1)
    then show ?thesis using Suc.prems advance_origin [of call w n r r1] by simp
  next
    case (Continue m r1)
    then show ?thesis using Suc.IH [of m r1] Suc.prems advance_origin [of call w n r r1 m] by (simp add: same_origin_def)
  qed
qed simp

lemma run_origin:
  assumes "execute_workflow fuel call nid wid org agent ws = Ok (Some r)"
  shows "wx_organization_id (wr_execution r) = org"
  using assms
  by (auto simp: execute_workflow_def initial_execution_def same_origin_def finish_def Let_def
      split: option.splits sum.splits dest: loop_origin)

lemma get_by_org_iff: "get_by_org_and_id org_of org i t = Some r \<longleftrightarrow> repo_get t i = Some r \<and> org_of r = org"
  by (auto simp: get_by_org_and_id_def split: option.split)

lemma status_safe:
  "wf_safe org s (answered 400 (Execution_Answer i) (on_executions (set_execution_status status completes org i)) s)"
proof (cases "get_by_org_and_id wx_organization_id org i (wd_executions s)")
  case (Some x)
  then have "repo_get (wd_executions s) i = Some x" "wx_organization_id x = org" by (simp_all add: get_by_org_iff)
  with Some show ?thesis
    by (auto simp: wf_safe_def answered_def on_executions_def set_execution_status_def wf_kept_def own_workflow_answer_def
        repo_get_update steps_of_def Let_def split: if_splits)
qed (simp add: answered_def on_executions_def set_execution_status_def)

lemma run_safe:
  assumes "workflow_keys_fresh env"
  shows "wf_safe org s (run_workflow env org agent wid s)"
proof -
  let ?k = "wv_execution_key env (wd_executions s)"
  have k: "?k \<notin> ids (wd_executions s)" using assms by (simp add: workflow_keys_fresh_def)
  have "wf_safe org s (Ok a, start_execution x steps ?k s)" if "wx_organization_id x = org" "own_workflow_answer org a" for a x steps
    using kept_new_execution [OF k that(1)] that(2) by (simp add: wf_safe_def)
  then show ?thesis
    using run_origin [of "wv_fuel env" "wv_services env" ?k wid org agent "graphs (wd_workflows s)"]
    by (auto simp: run_workflow_def Let_def own_workflow_answer_def initial_execution_def split: sum.split wf_error.split option.split)
qed

lemma create_safe:
  assumes "workflow_keys_fresh env"
  shows "wf_safe org s (post_workflow env org name description version ns es cu s)"
proof -
  have "wv_workflow_key env (wd_workflows s) \<notin> ids (wd_workflows s)" using assms by (simp add: workflow_keys_fresh_def)
  note kept = kept_new_workflow [OF this]
  show ?thesis
    by (auto intro!: kept simp: post_workflow_def valid_payload_def answered_def create_workflow_def wf_safe_def own_workflow_answer_def Let_def
        split: option.split)
qed

lemma execution_status_safe: "wf_safe org s (execution_status org i s)"
  by (auto simp: execution_status_def get_by_org_iff wf_safe_def own_workflow_answer_def split: option.split)

lemma workflow_body_safe: "workflow_keys_fresh env \<Longrightarrow> wf_safe org s (workflow_body env org req cu s)"
  by (cases req) (simp_all add: workflow_body_def create_safe run_safe status_safe execution_status_safe
      pause_execution_def resume_execution_def cancel_execution_def)

lemma serve_workflow_safe: "workflow_keys_fresh env \<Longrightarrow> wf_safe org s (serve_workflow env cr org req s)"
  unfolding serve_workflow_def by (rule within_preserves) (simp_all add: workflow_body_safe)

text \<open>
  C21: Isolation of workflows.  A request made for one organization, by anybody and whatever
  its outcome, leaves the workflows and executions of all others and the steps of those
  executions as they were, and what it answers belongs to the organization it was made
  for.  Without an active user who holds the permission of the endpoint and is a member of
  the organization it fails and changes nothing.
\<close>

theorem workflows_isolated:
  assumes "workflow_keys_fresh env" and "serve_workflow env cr org req s = (r, s')"
  shows "wf_kept org s s'
    \<and> (case r of Inl _ \<Rightarrow> True | Inr a \<Rightarrow> own_workflow_answer org a)
    \<and> (is_ok r \<or> s' \<noteq> s \<longrightarrow> (\<exists>cu. active_user (wv_auth env) cr (wd_access s) = Inr cu
          \<and> entitled (workflow_permission req) org (wd_access s) cu))"
proof -
  have "wf_safe org s (r, s')" using serve_workflow_safe [OF assms(1), of org s cr req] assms(2) by simp
  moreover have "admitted (workflow_permission req) (wv_auth env) cr org (wd_access s) s (r, s')"
    unfolding assms(2) [symmetric] serve_workflow_def by (rule within_admitted)
  ultimately show ?thesis by (auto simp: wf_safe_def admitted_def)
qed

section \<open>A workflow is stored as it was sent\<close>

definition payload_node :: "node_create \<Rightarrow> string \<times> string \<times> metadata option" where
  "payload_node n = (nc_name n, nc_node_type n, nc_configuration n)"

definition payload_edge :: "edge_create \<Rightarrow> int \<times> int \<times> string option \<times> int" where
  "payload_edge e = (ec_source_index e, ec_target_index e, ec_transition_condition e, ec_priority e)"

definition read_node :: "wf_node \<Rightarrow> string \<times> string \<times> metadata option" where
  "read_node n = (wn_name n, wn_node_type n, wn_configuration n)"

text \<open>An edge read back names the positions of the nodes it joins.\<close>

definition position :: "wf_node list \<Rightarrow> int \<Rightarrow> int" where
  "position ns i = int (length (takeWhile (\<lambda>n. wn_id n \<noteq> i) ns))"

definition read_edge :: "wf_node list \<Rightarrow> wf_edge \<Rightarrow> int \<times> int \<times> string option \<times> int" where
  "read_edge ns e = (position ns (we_source e), position ns (we_target e), we_condition e, we_priority e)"

definition edges_in_range :: "node_create list \<Rightarrow> edge_create list \<Rightarrow> bool" where
  "edges_in_range ns es = list_all (\<lambda>e. 0 \<le> ec_source_index e \<and> ec_source_index e < int (length ns)
     \<and> 0 \<le> ec_target_index e \<and> ec_target_index e < int (length ns)) es"

lemma build_nodes_simps [simp]:
  "length (build_nodes key ns) = length ns" "map read_node (build_nodes key ns) = map payload_node ns"
  "map wn_id (build_nodes key ns) = map key [0..<length ns]"
  by (auto simp: build_nodes_def read_node_def payload_node_def intro!: nth_equalityI)

lemma build_nodes_nth: "j < length ns \<Longrightarrow> wn_id (build_nodes key ns ! j) = key j"
  by (simp add: build_nodes_def)

lemma distinct_nodes: "inj key \<Longrightarrow> distinct (map wn_id (build_nodes key ns))"
  by (auto simp: distinct_map intro: inj_on_subset)

lemma node_id_map_iff: "node_id_map nodes i = None \<longleftrightarrow> \<not> (0 \<le> i \<and> i < int (length nodes))"
  by (auto simp: node_id_map_def nat_less_iff)

lemma position_nth:
  assumes "distinct (map wn_id ns)" and "j < length ns"
  shows "position ns (wn_id (ns ! j)) = int j"
proof -
  have "takeWhile (\<lambda>n. wn_id n \<noteq> wn_id (ns ! j)) ns = take j ns"
  proof (rule takeWhile_eq_take_P_nth)
    fix i assume i: "i < j" "i < length ns"
    then have "map wn_id ns ! i \<noteq> map wn_id ns ! j" using assms nth_eq_iff_index_eq [of "map wn_id ns" i j] by simp
    then show "wn_id (ns ! i) \<noteq> wn_id (ns ! j)" using i assms(2) by simp
  qed simp
  with assms(2) show ?thesis by (simp add: position_def)
qed

lemma position_node_id_map:
  "distinct (map wn_id ns) \<Longrightarrow> node_id_map ns i = Some a \<Longrightarrow> position ns a = i"
  using position_nth [of ns "nat i"] by (auto simp: node_id_map_def split: if_splits)

lemma build_edges_None_iff: "build_edges (node_id_map (build_nodes key ns)) es = None \<longleftrightarrow> \<not> edges_in_range ns es"
proof (induction es)
  case (Cons e es)
  let ?map = "node_id_map (build_nodes key ns)"
  show ?case
    using Cons node_id_map_iff [of "build_nodes key ns" "ec_source_index e"] node_id_map_iff [of "build_nodes key ns" "ec_target_index e"]
    by (cases "?map (ec_source_index e)"; cases "?map (ec_target_index e)"; cases "build_edges ?map es")
      (simp_all add: edges_in_range_def)
qed (simp add: edges_in_range_def)

lemma build_edges_read:
  "distinct (map wn_id ns) \<Longrightarrow> build_edges (node_id_map ns) es = Some edges \<Longrightarrow> map (read_edge ns) edges = map payload_edge es"
proof (induction es arbitrary: edges)
  case (Cons e es)
  then show ?case
    by (auto simp: read_edge_def payload_edge_def position_node_id_map split: option.splits)
qed simp

definition stored_as_sent :: "node_create list \<Rightarrow> edge_create list \<Rightarrow> workflow_row \<Rightarrow> bool" where
  "stored_as_sent ns es w \<longleftrightarrow> distinct (map wn_id (wf_nodes w)) \<and> map read_node (wf_nodes w) = map payload_node ns
     \<and> map (read_edge (wf_nodes w)) (wf_edges w) = map payload_edge es"

lemma graphs_get: "repo_get t k = Some w \<Longrightarrow> repo_get (graphs t) k = Some (workflow.truncate w)"
  unfolding repo_get_def graphs_def by (induction t) auto

lemma graph_missing: "repo_get t k = Some w \<Longrightarrow> wf_nodes w = [] \<Longrightarrow> wf_organization_id w = org \<Longrightarrow>
    execute_workflow fuel call nid k org agent (graphs t) = Err (InvalidGraph MissingStart)"
proof -
  assume w: "repo_get t k = Some w" "wf_nodes w = []" "wf_organization_id w = org"
  with graphs_get [OF w(1)] show ?thesis
    by (simp add: execute_workflow_def get_by_org_and_id_def validate_graph_def workflow.truncate_def)
qed

text \<open>
  Creating a workflow.  When every edge names positions of the nodes that were sent, the
  stored workflow, read back, has the nodes that were sent in their order with keys of
  their own, and the edges that were sent between the same positions.  Otherwise the
  request ends with an internal error after the workflow has been stored: it stays behind
  without nodes, and every execution of it is refused.
\<close>

theorem created_graph_read_back:
  assumes "workflow_keys_fresh env"
    and "permitted_user ''workflow:write'' (wv_auth env) cr (wd_access s) = Inr cu"
    and "u_is_superuser (snd cu) \<or> is_member org (fst cu) (wd_access s)"
    and "repo_exists (organizations (wd_access s)) org" and "repo_exists (users (wd_access s)) (fst cu)"
    and "workflow_fits name ns"
    and reply: "serve_workflow env cr org (Create_Workflow name description version ns es) s = (r, s')"
  shows "\<exists>k w. repo_get (wd_workflows s) k = None \<and> repo_get (wd_workflows s') k = Some w \<and> wf_name w = name
    \<and> (if edges_in_range ns es then r = Ok (Workflow_Answer k w) \<and> stored_as_sent ns es w
       else r = Err internal_error \<and> wf_nodes w = []
         \<and> run_workflow env' org agent k s' = (Err (HttpError 400 (graph_error_text env' MissingStart)), s'))"
proof -
  let ?t = "wd_workflows s"
  let ?k = "wv_workflow_key env ?t" and ?ns = "build_nodes (wv_node_key env ?t) ns"
  have k: "?k \<notin> ids ?t" and keys: "distinct (map wn_id ?ns)"
    using assms(1) distinct_nodes unfolding workflow_keys_fresh_def by blast+
  have run: "answered 500 (\<lambda>(i, w). Workflow_Answer i w) (create_workflow env name description version org (fst cu) ns es) s = (r, s')"
    using reply assms(2-6)
    by (simp add: serve_workflow_def workflow_permission_def workflow_body_def post_workflow_def valid_payload_def within_entitled)
  show ?thesis
  proof (cases "build_edges (node_id_map ?ns) es")
    case None
    let ?w = "\<lparr>wf_organization_id = org, wf_name = name, wf_nodes = [], wf_edges = [], wf_description = description,
        wf_version = version, wf_created_by = fst cu\<rparr>"
    have s': "r = Err internal_error" "s' = s\<lparr>wd_workflows := repo_create ?k ?w ?t\<rparr>"
      using run None assms(4,5) by (auto simp: answered_def create_workflow_def Let_def internal_error_def)
    then have get: "repo_get (wd_workflows s') ?k = Some ?w" using k by (simp add: repo_get_create)
    have "run_workflow env' org agent ?k s' = (Err (HttpError 400 (graph_error_text env' MissingStart)), s')"
      by (simp add: run_workflow_def graph_missing [OF get])
    with get s' None k show ?thesis by (auto simp: build_edges_None_iff repo_get_None_iff intro!: exI [of _ ?k])
  next
    case (Some edges)
    let ?w = "\<lparr>wf_organization_id = org, wf_name = name, wf_nodes = ?ns, wf_edges = edges, wf_description = description,
        wf_version = version, wf_created_by = fst cu\<rparr>"
    have s': "r = Ok (Workflow_Answer ?k ?w)" "s' = s\<lparr>wd_workflows := repo_create ?k ?w ?t\<rparr>"
      using run Some assms(4,5) by (auto simp: answered_def create_workflow_def Let_def)
    have "edges_in_range ns es" using Some build_edges_None_iff [of "wv_node_key env ?t" ns es] by simp
    with s' k keys build_edges_read [OF keys Some] show ?thesis
      by (auto simp: stored_as_sent_def repo_get_create repo_get_None_iff intro!: exI [of _ ?k])
  qed
qed

section \<open>Knowledge of other organizations\<close>

text \<open>
  The service of a knowledge node: its answer is the context that the RAG service retrieves
  from the base the node names.
\<close>

definition reads_rag :: "services \<Rightarrow> (int \<Rightarrow> string \<Rightarrow> nat \<Rightarrow> nat \<Rightarrow> (kb_error, string) result) \<Rightarrow> bool" where
  "reads_rag call retrieve \<longleftrightarrow>
     (\<forall>kb q top_k max_tokens tick attempt answer. retrieve kb q top_k max_tokens = Inr answer \<longrightarrow>
        call (RagCall (JInt kb) (JStr q) (JInt (int top_k)) (JInt (int max_tokens))) tick attempt
          = Ok [(''success'', JBool True), (''context'', JStr answer)])"

definition asking_workflow :: "int \<Rightarrow> int \<Rightarrow> int \<Rightarrow> int \<Rightarrow> string \<Rightarrow> workflow" where
  "asking_workflow org i j kb q =
     \<lparr>wf_organization_id = org, wf_name = ''ask'',
      wf_nodes = [\<lparr>wn_id = i, wn_node_type = ''start'', wn_name = ''begin'', wn_configuration = None, wn_retry_policy = None\<rparr>,
        \<lparr>wn_id = j, wn_node_type = ''rag'', wn_name = ''docs'',
         wn_configuration = Some [(''kb_id'', JInt kb), (''query'', JStr q)], wn_retry_policy = None\<rparr>],
      wf_edges = [\<lparr>we_source = i, we_target = j, we_condition = None, we_priority = 0\<rparr>]\<rparr>"

lemma asking_valid: "i \<noteq> j \<Longrightarrow> validate_graph (asking_workflow org i j kb q) = Ok ()"
proof -
  have lower: "py_lower ''start'' = ''start''" "py_lower ''rag'' = ''rag''" by code_simp+
  show "i \<noteq> j \<Longrightarrow> ?thesis" by (simp add: validate_graph_def asking_workflow_def node_type_def orphans_def lower)
qed

lemma asking_runs:
  assumes rag: "reads_rag call retrieve" and answer: "retrieve kb q 5 2000 = Inr text"
    and "i \<noteq> j" "j \<noteq> 0" "kb \<noteq> 0" "q \<noteq> []"
  shows "\<exists>r. execute_workflow (Suc (Suc fuel)) call nid wid org agent [(wid, asking_workflow org i j kb q)] = Ok (Some r)
    \<and> resolve_path ''variables.docs.context'' (wx_context (wr_execution r)) = JStr text"
proof -
  have lower: "py_lower ''start'' = ''start''" "py_lower ''rag'' = ''rag''" by code_simp+
  have path: "split_on ''.'' ''variables.docs.context'' = [''variables'', ''docs'', ''context'']" by code_simp
  have call: "call (RagCall (JInt kb) (JStr q) (JInt 5) (JInt 2000)) tick att = Ok [(''success'', JBool True), (''context'', JStr text)]" for tick att
  proof -
    have "call (RagCall (JInt kb) (JStr q) (JInt (int 5)) (JInt (int 2000))) tick att = Ok [(''success'', JBool True), (''context'', JStr text)]"
      using rag answer unfolding reads_rag_def by blast
    then show ?thesis by simp
  qed
  show ?thesis
    using assms(3-6) asking_valid [of i j org kb q]
    by (simp add: execute_workflow_def get_by_org_and_id_def repo_get_def asking_workflow_def)
      (simp add: node_type_def lower advance_def visit_def execute_node_def int_of_json_def dict_get_or_def node_body_def
        next_node_def evaluate_transition_def sort_key_desc_def edge_open_def cfg_get_def node_query_def py_or_def call
        initial_execution_def merge_execution_context_def obj_get_def finish_def resolve_path_def path Let_def)
qed

lemma execute_by_row:
  "repo_get ws wid = Some w \<Longrightarrow> execute_workflow fuel call nid wid org agent ws = execute_workflow fuel call nid wid org agent [(wid, w)]"
  by (simp add: execute_workflow_def get_by_org_and_id_def repo_get_def)

text \<open>
  C11: a workflow reads knowledge bases of other organizations.  A knowledge node names its
  base in its configuration, and neither the engine nor the RAG service asks whose it is:
  a member of one organization who may write workflows executes one whose node names a base
  of another organization, and the answer carries the text retrieved from that base.
\<close>

theorem workflow_reads_foreign_base:
  assumes rag: "reads_rag (wv_services env) (\<lambda>kb q k m. retrieve_context embedder distance kb q k m kdb)"
    and foreign: "repo_get (kd_bases kdb) kb = Some b" "kb_organization_id b \<noteq> org"
    and answer: "retrieve_context embedder distance kb q 5 2000 kdb = Inr text"
    and caller: "permitted_user ''workflow:write'' (wv_auth env) cr (wd_access s) = Inr cu" "is_member org (fst cu) (wd_access s)"
    and refs: "repo_exists (organizations (wd_access s)) org" "repo_exists (agents (wd_access s)) agent"
    and stored: "repo_get (wd_workflows s) wid = Some w" "workflow.truncate w = asking_workflow org i j kb q"
    and graph: "i \<noteq> j" "j \<noteq> 0" "kb \<noteq> 0" "q \<noteq> []" and fuel: "wv_fuel env = Suc (Suc n)"
    and reply: "serve_workflow env cr org (Execute_Workflow wid agent) s = (r, s')"
  shows "\<exists>k x. r = Ok (Execution_Answer k x) \<and> resolve_path ''variables.docs.context'' (wx_context x) = JStr text"
proof -
  let ?k = "wv_execution_key env (wd_executions s)"
  obtain run where run: "execute_workflow (wv_fuel env) (wv_services env) ?k wid org agent (graphs (wd_workflows s)) = Ok (Some run)"
      "resolve_path ''variables.docs.context'' (wx_context (wr_execution run)) = JStr text"
    using asking_runs [OF rag answer graph, of n ?k wid org agent] graphs_get [OF stored(1)] stored(2) fuel
    by (auto simp: execute_by_row)
  have "run_workflow env org agent wid s = (r, s')"
    using reply caller by (simp add: serve_workflow_def workflow_permission_def workflow_body_def within_entitled)
  with run refs show ?thesis by (auto simp: run_workflow_def Let_def)
qed

section \<open>Examples\<close>

definition their_base :: "unit kb_db" where
  "their_base =
     \<lparr>kd_bases = [(4, \<lparr>kb_organization_id = 2, kb_name = ''theirs'', kb_description = None, kb_visibility = ''private'',
        kb_created_by = 8, kb_is_deleted = False\<rparr>)],
      kd_documents = [],
      kd_chunks = [(1, \<lparr>ch_document_id = 1, ch_index = 0, ch_text = ''secret'', ch_token_count = 1, ch_character_count = 6, ch_metadata = [],
        ch_embedding_status = ''READY'', ch_is_deleted = False\<rparr>)],
      kd_vectors = [(4, [\<lparr>vr_chunk_id = 1, vr_embedding = (), vr_document_id = 1, vr_knowledge_base_id = 4, vr_language = ''en''\<rparr>])]\<rparr>"

abbreviation their_answer :: "int \<Rightarrow> string \<Rightarrow> nat \<Rightarrow> nat \<Rightarrow> (kb_error, string) result" where
  "their_answer \<equiv> (\<lambda>kb q k m. retrieve_context (\<lambda>_. Ok ()) (\<lambda>_ _. 0) kb q k m their_base)"

definition rag_services :: services where
  "rag_services call tick attempt =
     (case call of
        RagCall (JInt kb) (JStr q) (JInt k) (JInt m) \<Rightarrow>
          (case their_answer kb q (nat k) (nat m) of
             Inl _ \<Rightarrow> Err ''retrieval failed''
           | Inr answer \<Rightarrow> Ok [(''success'', JBool True), (''context'', JStr answer)])
      | _ \<Rightarrow> Err ''unavailable'')"

definition sample_workflow_env :: workflow_env where
  "sample_workflow_env =
     \<lparr>wv_auth = sample_auth, wv_services = rag_services, wv_fuel = 2, wv_workflow_key = serial_id, wv_node_key = (\<lambda>_ i. int i + 10),
      wv_execution_key = serial_id, wv_orphan = hd, wv_integrity_text = ''FOREIGN KEY constraint failed''\<rparr>"

definition asking_db :: workflow_db where
  "asking_db =
     \<lparr>wd_access = sample_accounts\<lparr>agents := [(3, \<lparr>a_organization_id = 1, a_team_id = None, a_name = ''ours''\<rparr>)]\<rparr>,
      wd_workflows = [(5, workflow.extend (asking_workflow 1 10 11 4 ''hi'')
        \<lparr>wf_description = None, wf_version = ''1.0.0'', wf_created_by = 7\<rparr>)],
      wd_executions = [], wd_steps = []\<rparr>"

lemma sample_workflow_keys: "workflow_keys_fresh sample_workflow_env"
  by (simp add: workflow_keys_fresh_def sample_workflow_env_def serial_id_fresh inj_def)

lemma sample_writer: "permitted_user p sample_auth sample_token (wd_access asking_db) =
    Inr (7, \<lparr>u_full_name = ''R'', u_email = ''r@x'', u_password_hash = [], u_is_active = True, u_is_superuser = True\<rparr>)"
proof -
  have "active_user sample_auth sample_token (wd_access asking_db) =
      Inr (7, \<lparr>u_full_name = ''R'', u_email = ''r@x'', u_password_hash = [], u_is_active = True, u_is_superuser = True\<rparr>)"
    by (simp add: active_user_def current_user_def sample_token_def sample_auth_def get_current_user_def decode_access_token_def plain_jwt
        get_current_active_user_def asking_db_def sample_accounts_def empty_acdb_def repo_get_def) code_simp
  then show ?thesis by (simp add: permitted_user_def RequirePermission_def)
qed

lemma sample_refs:
  "is_member 1 7 (wd_access asking_db)" "repo_exists (organizations (wd_access asking_db)) 1"
  "repo_exists (agents (wd_access asking_db)) 3" "repo_exists (users (wd_access asking_db)) 7"
  by (simp_all add: asking_db_def sample_accounts_def empty_acdb_def is_member_def repo_exists_def repo_get_def)

theorem workflow_reads_foreign_base_witness:
  "\<exists>k x. fst (serve_workflow sample_workflow_env sample_token 1 (Execute_Workflow 5 3) asking_db) = Ok (Execution_Answer k x)
     \<and> resolve_path ''variables.docs.context'' (wx_context x) = JStr (format_context [(''secret'', ''Unknown'')])"
proof -
  have rag: "reads_rag (wv_services sample_workflow_env) their_answer"
    by (simp add: reads_rag_def sample_workflow_env_def rag_services_def)
  have base: "repo_get (kd_bases their_base) 4 = Some \<lparr>kb_organization_id = 2, kb_name = ''theirs'', kb_description = None,
      kb_visibility = ''private'', kb_created_by = 8, kb_is_deleted = False\<rparr>"
    by (simp add: their_base_def repo_get_def)
  have answer: "their_answer 4 ''hi'' 5 2000 = Inr (format_context [(''secret'', ''Unknown'')])" by code_simp
  have row: "repo_get (wd_workflows asking_db) 5 = Some (workflow.extend (asking_workflow 1 10 11 4 ''hi'')
        \<lparr>wf_description = None, wf_version = ''1.0.0'', wf_created_by = 7\<rparr>)"
    by (simp add: asking_db_def repo_get_def)
  have env: "wv_auth sample_workflow_env = sample_auth" "wv_fuel sample_workflow_env = Suc (Suc 0)" by (simp_all add: sample_workflow_env_def)
  show ?thesis
    using workflow_reads_foreign_base [OF rag base _ answer sample_writer [folded env(1)] _ sample_refs(2,3) row _ _ _ _ _ env(2) prod.collapse [symmetric]]
      sample_refs(1)
    by (simp add: workflow.extend_def workflow.truncate_def asking_workflow_def)
qed

theorem workflows_isolated_witness:
  "repo_get (wd_workflows (snd (serve_workflow sample_workflow_env sample_token 2 (Execute_Workflow 5 3) asking_db))) 5
     = repo_get (wd_workflows asking_db) 5"
proof -
  obtain w where w: "repo_get (wd_workflows asking_db) 5 = Some w" "wf_organization_id w \<noteq> 2"
    by (simp add: asking_db_def repo_get_def workflow.extend_def asking_workflow_def)
  from workflows_isolated [where cr = sample_token and org = 2 and req = "Execute_Workflow 5 3" and s = asking_db,
      OF sample_workflow_keys prod.collapse [symmetric]] w
  show ?thesis by (simp add: wf_kept_def)
qed

theorem created_graph_read_back_witness:
  "\<exists>k w. repo_get (wd_workflows (snd (serve_workflow sample_workflow_env sample_token 1 (Create_Workflow ''n'' None ''1''
       [\<lparr>nc_name = ''a'', nc_node_type = ''start'', nc_configuration = None, nc_timeout = 6000\<rparr>]
       [\<lparr>ec_source_index = 0, ec_target_index = 0, ec_transition_condition = None, ec_priority = 0\<rparr>]) asking_db))) k = Some w
     \<and> map read_node (wf_nodes w) = [(''a'', ''start'', None)] \<and> map (read_edge (wf_nodes w)) (wf_edges w) = [(0, 0, None, 0)]"
proof -
  let ?ns = "[\<lparr>nc_name = ''a'', nc_node_type = ''start'', nc_configuration = None, nc_timeout = 6000\<rparr>]"
  let ?es = "[\<lparr>ec_source_index = 0, ec_target_index = 0, ec_transition_condition = None, ec_priority = 0\<rparr>]"
  have env: "wv_auth sample_workflow_env = sample_auth" by (simp add: sample_workflow_env_def)
  have "workflow_fits ''n'' ?ns" "edges_in_range ?ns ?es" by (simp_all add: workflow_fits_def edges_in_range_def)
  from created_graph_read_back [OF sample_workflow_keys sample_writer [folded env] _ sample_refs(2) _ this(1) prod.collapse [symmetric],
      of None "''1''" ?es sample_workflow_env 3] this(2) sample_refs(1,4)
  obtain k w where "repo_get (wd_workflows (snd (serve_workflow sample_workflow_env sample_token 1 (Create_Workflow ''n'' None ''1'' ?ns ?es) asking_db))) k = Some w"
      and "stored_as_sent ?ns ?es w"
    by auto
  then show ?thesis
    unfolding stored_as_sent_def by (intro exI [of _ k] exI [of _ w]) (simp add: payload_node_def payload_edge_def)
qed

end
