(* ===== verification/Telemetry.thy ===== *)
theory Telemetry
  imports Tables Providers "HOL-Library.List_Lexorder" "HOL-Library.Char_ord"
begin

text \<open>
  What the backend records about itself: metrics (\<open>observability/metrics.py\<close>), trace
  spans (\<open>observability/tracing.py\<close>), the logging context and the format of a log line
  (\<open>observability/logging.py\<close>), the request middleware
  (\<open>observability/middleware.py\<close>), the profiler with its alerts
  (\<open>observability/profiler.py\<close>), health checks (\<open>observability/health.py\<close>) and the audit
  log (\<open>observability/audit.py\<close>, \<open>services/audit_log_service.py\<close>).

  The values of gauges and histograms are of a type \<open>'f\<close> of their own; time stamps are
  text that is given; identifiers of spans come from a supply.  Durations are in
  milliseconds.
\<close>

section \<open>Metrics\<close>

type_synonym tags = "(string, string) dict"

record 'f metric_backend =
  mb_counters :: "(string, (string, int) dict) dict"
  mb_gauges :: "(string, (string, 'f) dict) dict"
  mb_histograms :: "(string, (string \<times> 'f \<times> tags) list) dict"

definition get_tag_string :: "tags \<Rightarrow> string" where
  "get_tag_string tags = py_join '','' (map (\<lambda>(k, v). k @ ''='' @ v) (sort_key fst tags))"

definition record_counter :: "string \<Rightarrow> int \<Rightarrow> tags \<Rightarrow> 'f metric_backend \<Rightarrow> 'f metric_backend" where
  "record_counter name v tags b =
     (let row = dict_get_or (mb_counters b) name []; t = get_tag_string tags
      in b\<lparr>mb_counters := dict_set (mb_counters b) name (dict_set row t (dict_get_or row t 0 + v))\<rparr>)"

definition record_gauge :: "string \<Rightarrow> 'f \<Rightarrow> tags \<Rightarrow> 'f metric_backend \<Rightarrow> 'f metric_backend" where
  "record_gauge name v tags b =
     b\<lparr>mb_gauges := dict_set (mb_gauges b) name (dict_set (dict_get_or (mb_gauges b) name []) (get_tag_string tags) v)\<rparr>"

definition record_histogram :: "string \<Rightarrow> string \<Rightarrow> 'f \<Rightarrow> tags \<Rightarrow> 'f metric_backend \<Rightarrow> 'f metric_backend" where
  "record_histogram now name v tags b =
     b\<lparr>mb_histograms := dict_set (mb_histograms b) name (dict_get_or (mb_histograms b) name [] @ [(now, v, tags)])\<rparr>"

text \<open>The provider view keeps the counters and histograms whose name contains \<open>provider\<close>.\<close>

definition provider_metrics :: "'f metric_backend \<Rightarrow> (string, (string, int) dict) dict \<times> (string, (string \<times> 'f \<times> tags) list) dict" where
  "provider_metrics b = (filter (\<lambda>(k, _). py_in ''provider'' k) (mb_counters b), filter (\<lambda>(k, _). py_in ''provider'' k) (mb_histograms b))"

datatype 'f metric_event =
    Counter string int tags
  | Gauge string 'f tags
  | Histogram string string 'f tags

fun record_metric :: "'f metric_event \<Rightarrow> 'f metric_backend \<Rightarrow> 'f metric_backend" where
  "record_metric (Counter n v t) b = record_counter n v t b"
| "record_metric (Gauge n v t) b = record_gauge n v t b"
| "record_metric (Histogram now n v t) b = record_histogram now n v t b"

definition counter_value :: "'f metric_backend \<Rightarrow> string \<Rightarrow> string \<Rightarrow> int" where
  "counter_value b name t = dict_get_or (dict_get_or (mb_counters b) name []) t 0"

fun counted :: "string \<Rightarrow> string \<Rightarrow> 'f metric_event \<Rightarrow> int" where
  "counted name t (Counter n v tags) = (if n = name \<and> get_tag_string tags = t then v else 0)"
| "counted name t _ = 0"

lemma counter_record: "counter_value (record_metric e b) name t = counter_value b name t + counted name t e"
  by (cases e) (simp_all add: counter_value_def record_counter_def record_gauge_def record_histogram_def dict_get_or_def dict_get_set Let_def)

lemma counter_fold: "counter_value (fold record_metric es b) name t = counter_value b name t + sum_list (map (counted name t) es)"
  by (induction es arbitrary: b) (simp_all add: counter_record)

lemma tag_order: "distinct (map fst xs) \<Longrightarrow> mset xs = mset ys \<Longrightarrow> get_tag_string xs = get_tag_string ys"
proof -
  assume d: "distinct (map fst xs)" and m: "mset xs = mset ys"
  have "sort_key fst xs = sort_key fst ys"
  proof (rule properties_for_sort_key [symmetric])
    show "mset (sort_key fst xs) = mset ys" using m by simp
    show "sorted (map fst (sort_key fst xs))" by simp
    have "inj_on fst (set xs)" using d by (simp add: distinct_map)
    fix k assume k: "k \<in> set (sort_key fst xs)"
    have "filter (\<lambda>x. fst k = fst x) zs = filter (\<lambda>x. x = k) zs" if "set zs = set xs" for zs
      using that k \<open>inj_on fst (set xs)\<close> by (intro filter_cong) (auto dest: inj_onD)
    moreover have "filter (\<lambda>x. x = k) zs = replicate (count_list zs k) k" for zs :: "(string \<times> string) list"
      by (induction zs) auto
    moreover have "set ys = set xs" using m by (metis set_mset_mset)
    moreover have "count_list (sort_key fst xs) k = count_list ys k"
      using m by (metis count_mset mset_sort)
    ultimately show "filter (\<lambda>x. fst k = fst x) (sort_key fst xs) = filter (\<lambda>x. fst k = fst x) ys"
      using m by simp
  qed
  then show ?thesis by (simp add: get_tag_string_def)
qed

text \<open>
  Counters add up.  After any sequence of metric events the value of a counter under a
  set of tags is its value before plus the increments recorded for it under those tags,
  in whatever order the tags are given; gauges and histograms do not touch it.
\<close>

theorem counters_add_up:
  assumes "distinct (map fst tags)" and "mset tags = mset tags'"
  shows "counter_value (fold record_metric es b) name (get_tag_string tags')
    = counter_value b name (get_tag_string tags) + sum_list (map (counted name (get_tag_string tags)) es)"
  using tag_order [OF assms] by (simp add: counter_fold)

theorem counters_add_up_witness:
  "counter_value (fold record_metric [Counter ''n'' 2 [(''b'', ''2''), (''a'', ''1'')], Gauge ''n'' () [], Counter ''n'' 3 [(''a'', ''1''), (''b'', ''2'')]]
      \<lparr>mb_counters = [], mb_gauges = [], mb_histograms = []\<rparr>) ''n'' ''a=1,b=2'' = 5"
proof -
  let ?es = "[Counter ''n'' 2 [(''b'', ''2''), (''a'', ''1'')], Gauge ''n'' () [], Counter ''n'' 3 [(''a'', ''1''), (''b'', ''2'')]]"
  let ?b = "\<lparr>mb_counters = [], mb_gauges = [], mb_histograms = []\<rparr> :: unit metric_backend"
  have t: "get_tag_string [(''a'', ''1''), (''b'', ''2'')] = ''a=1,b=2''" "get_tag_string [(''b'', ''2''), (''a'', ''1'')] = ''a=1,b=2''"
    by code_simp+
  have "distinct (map fst [(''a'', ''1''), (''b'', ''2'')])" "mset [(''a'', ''1''), (''b'', ''2'')] = mset [(''b'', ''2''), (''a'', ''1'')]"
    by simp_all
  from counters_add_up [OF this, of ?es ?b "''n''"] show ?thesis by (simp add: t) (simp add: counter_value_def dict_get_or_def)
qed

text \<open>
  The text of a set of tags is not unambiguous: values are not quoted, and two different
  sets can share a counter.
\<close>

theorem tag_text_ambiguous:
  "get_tag_string [(''a'', ''1,b=2'')] = get_tag_string [(''a'', ''1''), (''b'', ''2'')]"
  by code_simp

section \<open>Spans\<close>

record span =
  sn_name :: string
  sn_span_id :: string
  sn_trace_id :: string
  sn_parent_id :: "string option"
  sn_correlation_id :: string
  sn_tags :: metadata

record tracer =
  tr_finished :: "span list"
  tr_active :: "span option"
  tr_drawn :: nat

definition start_span :: "(nat \<Rightarrow> string) \<Rightarrow> string option \<Rightarrow> string \<Rightarrow> metadata \<Rightarrow> tracer \<Rightarrow> span \<times> tracer" where
  "start_span uuid correlation name tags tr =
     (let k = tr_drawn tr;
          (trace, parent, k') = (case tr_active tr of
             Some p \<Rightarrow> (sn_trace_id p, Some (sn_span_id p), k + 1)
           | None \<Rightarrow> (uuid (k + 1), None, k + 2))
      in (\<lparr>sn_name = name, sn_span_id = uuid k, sn_trace_id = trace, sn_parent_id = parent,
           sn_correlation_id = or_str correlation trace, sn_tags = tags\<rparr>, tr\<lparr>tr_drawn := k'\<rparr>))"

definition tag_error :: "(string \<times> string) option \<Rightarrow> span \<Rightarrow> span" where
  "tag_error exc sp =
     (case exc of
        None \<Rightarrow> sp
      | Some (msg, ty) \<Rightarrow> sp\<lparr>sn_tags := dict_set (dict_set (dict_set (sn_tags sp) ''error'' (JBool True)) ''error.message'' (JStr msg)) ''error.type'' (JStr ty)\<rparr>)"

definition finish_span :: "span option \<Rightarrow> span \<Rightarrow> tracer \<Rightarrow> tracer" where
  "finish_span saved sp tr = tr\<lparr>tr_active := saved, tr_finished := tr_finished tr @ [sp]\<rparr>"

text \<open>\<open>span.to_dict()\<close>, with the time stamps and the duration that are given.\<close>

definition span_dict :: "json \<Rightarrow> json \<Rightarrow> json \<Rightarrow> span \<Rightarrow> metadata" where
  "span_dict started ended duration sp =
     [(''name'', JStr (sn_name sp)), (''span_id'', JStr (sn_span_id sp)), (''trace_id'', JStr (sn_trace_id sp)),
      (''parent_id'', case sn_parent_id sp of None \<Rightarrow> JNull | Some i \<Rightarrow> JStr i), (''correlation_id'', JStr (sn_correlation_id sp)),
      (''start_time'', started), (''end_time'', ended), (''duration'', duration), (''tags'', JObj (sn_tags sp))]"

text \<open>
  A \<open>with\<close> block over a span: its name and tags, the exception it ends with, if any, as
  text and type, and the blocks nested in it, in their order.
\<close>

datatype block = Block string metadata "(string \<times> string) option" "block list"

fun run_block :: "(nat \<Rightarrow> string) \<Rightarrow> string option \<Rightarrow> block \<Rightarrow> tracer \<Rightarrow> tracer" where
  "run_block uuid correlation (Block name tags exc bs) tr =
     (let (sp, tr1) = start_span uuid correlation name tags tr;
          tr2 = fold (run_block uuid correlation) bs (tr1\<lparr>tr_active := Some sp\<rparr>)
      in finish_span (tr_active tr) (tag_error exc sp) tr2)"

fun block_spans :: "block \<Rightarrow> nat" where
  "block_spans (Block _ _ _ bs) = Suc (sum_list (map block_spans bs))"

definition child_of :: "span \<Rightarrow> span \<Rightarrow> bool" where
  "child_of p s \<longleftrightarrow> sn_parent_id s = Some (sn_span_id p) \<and> sn_trace_id s = sn_trace_id p"

definition child_of_active :: "span option \<Rightarrow> span \<Rightarrow> bool" where
  "child_of_active active s = (case active of None \<Rightarrow> sn_parent_id s = None | Some p \<Rightarrow> child_of p s)"

text \<open>Every span is a child of the active one or of one that finishes after it.\<close>

fun linked_spans :: "span option \<Rightarrow> span list \<Rightarrow> bool" where
  "linked_spans active [] = True"
| "linked_spans active (s # rest) = ((child_of_active active s \<or> list_ex (\<lambda>p. child_of p s) rest) \<and> linked_spans active rest)"

lemma linked_append: "linked_spans active xs \<Longrightarrow> linked_spans active ys \<Longrightarrow> linked_spans active (xs @ ys)"
  by (induction xs) auto

lemma linked_close:
  "linked_spans (Some p) xs \<Longrightarrow> sn_span_id q = sn_span_id p \<Longrightarrow> sn_trace_id q = sn_trace_id p \<Longrightarrow> child_of_active active q
   \<Longrightarrow> linked_spans active (xs @ [q])"
  by (induction xs) (auto simp: child_of_active_def child_of_def)

lemma start_span_facts:
  assumes "start_span uuid correlation name tags tr = (sp, tr1)"
  shows "child_of_active (tr_active tr) sp" "tr_finished tr1 = tr_finished tr" "sn_name sp = name" "sn_tags sp = tags"
  using assms by (auto simp: start_span_def child_of_active_def child_of_def Let_def split: option.splits)

lemma tag_error_simps [simp]:
  "sn_span_id (tag_error exc sp) = sn_span_id sp" "sn_trace_id (tag_error exc sp) = sn_trace_id sp"
  "sn_parent_id (tag_error exc sp) = sn_parent_id sp" "sn_name (tag_error exc sp) = sn_name sp"
  by (auto simp: tag_error_def split: option.split)

lemma tag_error_child [simp]: "child_of_active active (tag_error exc sp) = child_of_active active sp"
  by (simp add: child_of_active_def child_of_def split: option.split)

definition adds_spans :: "nat \<Rightarrow> tracer \<Rightarrow> tracer \<Rightarrow> bool" where
  "adds_spans n tr tr' \<longleftrightarrow> tr_active tr' = tr_active tr
     \<and> (\<exists>new. tr_finished tr' = tr_finished tr @ new \<and> length new = n \<and> linked_spans (tr_active tr) new)"

lemma adds_spans_trans: "adds_spans n a b \<Longrightarrow> adds_spans m b c \<Longrightarrow> adds_spans (n + m) a c"
  unfolding adds_spans_def by (metis append_assoc length_append linked_append)

lemma adds_fold: "(\<And>b tr. b \<in> set bs \<Longrightarrow> adds_spans (size_of b) tr (f b tr)) \<Longrightarrow> adds_spans (sum_list (map size_of bs)) tr (fold f bs tr)"
proof (induction bs arbitrary: tr)
  case (Cons b bs)
  from adds_spans_trans [OF Cons.prems [of b tr]] Cons.IH [of "f b tr"] Cons.prems show ?case by simp
qed (simp add: adds_spans_def)

lemma run_block_adds: "adds_spans (block_spans b) tr (run_block uuid correlation b tr)"
proof (induction b arbitrary: tr)
  case (Block name tags exc bs)
  obtain sp tr1 where st: "start_span uuid correlation name tags tr = (sp, tr1)" by fastforce
  let ?tr1 = "tr1\<lparr>tr_active := Some sp\<rparr>"
  have "adds_spans (sum_list (map block_spans bs)) ?tr1 (fold (run_block uuid correlation) bs ?tr1)"
    using Block by (intro adds_fold) auto
  then obtain new where new: "tr_finished (fold (run_block uuid correlation) bs ?tr1) = tr_finished tr @ new"
      "length new = sum_list (map block_spans bs)" "linked_spans (Some sp) new"
    using start_span_facts [OF st] by (auto simp: adds_spans_def)
  have "linked_spans (tr_active tr) (new @ [tag_error exc sp])"
    using start_span_facts(1) [OF st] by (intro linked_close [OF new(3)]) simp_all
  with new st show ?case by (simp add: adds_spans_def finish_span_def)
qed

text \<open>
  Spans form trees.  However blocks are nested and whichever of them end with an
  exception, running them leaves the active span as it was and finishes one span per
  block; the span of the outermost block finishes last, under its name and marked as an
  error exactly when the block raised; and every span is the child of the span that was
  active at the start or of one that finishes after it, with the trace id of its parent.
\<close>

theorem spans_form_trees:
  assumes "run_block uuid correlation (Block name tags exc bs) tr = tr'" and "dict_get tags ''error'' = None"
  shows "tr_active tr' = tr_active tr
    \<and> (\<exists>new sp. tr_finished tr' = tr_finished tr @ new @ [sp] \<and> length new = sum_list (map block_spans bs)
        \<and> linked_spans (tr_active tr) (new @ [sp]) \<and> sn_name sp = name
        \<and> (dict_get (sn_tags sp) ''error'' = Some (JBool True) \<longleftrightarrow> exc \<noteq> None))"
proof -
  obtain sp tr1 where st: "start_span uuid correlation name tags tr = (sp, tr1)" by fastforce
  have a: "adds_spans (Suc (sum_list (map block_spans bs))) tr tr'"
    using run_block_adds [of "Block name tags exc bs" tr uuid correlation] assms(1) by simp
  then obtain fin where f: "tr_finished tr' = tr_finished tr @ fin" "length fin = Suc (sum_list (map block_spans bs))"
      "linked_spans (tr_active tr) fin" "tr_active tr' = tr_active tr" by (auto simp: adds_spans_def)
  obtain new q where q: "fin = new @ [q]" using f(2) by (cases fin rule: rev_cases) auto
  have "last (tr_finished tr') = tag_error exc sp" using assms(1) st by (auto simp: finish_span_def)
  then have "q = tag_error exc sp" using f(1) q by simp
  moreover have "dict_get (sn_tags (tag_error exc sp)) ''error'' = Some (JBool True) \<longleftrightarrow> exc \<noteq> None"
    using assms(2) start_span_facts(4) [OF st] by (auto simp: tag_error_def dict_get_set split: option.split)
  ultimately show ?thesis using f q start_span_facts(3) [OF st] by auto
qed

theorem spans_form_trees_witness:
  "map sn_name (tr_finished (run_block show_nat None (Block ''outer'' [] None [Block ''a'' [] (Some (''boom'', ''ValueError'')) [], Block ''b'' [] None []])
      \<lparr>tr_finished = [], tr_active = None, tr_drawn = 0\<rparr>)) = [''a'', ''b'', ''outer'']
   \<and> tr_active (run_block show_nat None (Block ''outer'' [] None [Block ''a'' [] (Some (''boom'', ''ValueError'')) [], Block ''b'' [] None []])
      \<lparr>tr_finished = [], tr_active = None, tr_drawn = 0\<rparr>) = None"
proof -
  let ?run = "run_block show_nat None (Block ''outer'' [] None [Block ''a'' [] (Some (''boom'', ''ValueError'')) [], Block ''b'' [] None []])
      \<lparr>tr_finished = [], tr_active = None, tr_drawn = 0\<rparr>"
  from spans_form_trees [where tr' = ?run, OF refl] have "tr_active ?run = None" by simp
  moreover have "map sn_name (tr_finished ?run) = [''a'', ''b'', ''outer'']"
    by (simp add: start_span_def finish_span_def tag_error_def)
  ultimately show ?thesis by blast
qed

section \<open>The logging context\<close>

record log_context =
  lc_request_id :: "string option"
  lc_correlation_id :: "string option"
  lc_organization_id :: "int option"
  lc_user_id :: "int option"
  lc_agent_id :: "int option"
  lc_conversation_id :: "int option"
  lc_execution_id :: "string option"

definition no_log_context :: log_context where
  "no_log_context = \<lparr>lc_request_id = None, lc_correlation_id = None, lc_organization_id = None, lc_user_id = None,
     lc_agent_id = None, lc_conversation_id = None, lc_execution_id = None\<rparr>"

definition given_or :: "'a option \<Rightarrow> 'a option \<Rightarrow> 'a option" where
  "given_or new old = (case new of None \<Rightarrow> old | Some x \<Rightarrow> Some x)"

definition set_logging_context :: "log_context \<Rightarrow> log_context \<Rightarrow> log_context" where
  "set_logging_context new old =
     \<lparr>lc_request_id = given_or (lc_request_id new) (lc_request_id old), lc_correlation_id = given_or (lc_correlation_id new) (lc_correlation_id old),
      lc_organization_id = given_or (lc_organization_id new) (lc_organization_id old), lc_user_id = given_or (lc_user_id new) (lc_user_id old),
      lc_agent_id = given_or (lc_agent_id new) (lc_agent_id old), lc_conversation_id = given_or (lc_conversation_id new) (lc_conversation_id old),
      lc_execution_id = given_or (lc_execution_id new) (lc_execution_id old)\<rparr>"

definition clear_logging_context :: "log_context \<Rightarrow> log_context" where
  "clear_logging_context old = no_log_context"

definition str_json :: "string option \<Rightarrow> json" where
  "str_json v = (case v of None \<Rightarrow> JNull | Some s \<Rightarrow> JStr s)"

definition int_json :: "int option \<Rightarrow> json" where
  "int_json v = (case v of None \<Rightarrow> JNull | Some i \<Rightarrow> JInt i)"

definition get_logging_context :: "log_context \<Rightarrow> metadata" where
  "get_logging_context c =
     [(''request_id'', str_json (lc_request_id c)), (''correlation_id'', str_json (lc_correlation_id c)),
      (''organization_id'', int_json (lc_organization_id c)), (''user_id'', int_json (lc_user_id c)), (''agent_id'', int_json (lc_agent_id c)),
      (''conversation_id'', int_json (lc_conversation_id c)), (''execution_id'', str_json (lc_execution_id c))]"

text \<open>
  A log record carries its \<open>extra\<close> as attributes, one per key; \<open>StructuredLogger\<close> selects
  fields of it for a function it never calls, and the formatter reads the attribute
  \<open>extra_fields\<close>.
\<close>

record log_record =
  lg_level :: string
  lg_name :: string
  lg_message :: string
  lg_attributes :: metadata
  lg_exception :: "string option"

definition format_record :: "string \<Rightarrow> log_context \<Rightarrow> log_record \<Rightarrow> metadata" where
  "format_record now c r =
     (let data = dict_merge [(''timestamp'', JStr now), (''log_level'', JStr (lg_level r)), (''service'', JStr ''agentcorp-backend''),
                 (''module'', JStr (lg_name r)), (''message'', JStr (lg_message r))] (get_logging_context c);
          data = (case dict_get (lg_attributes r) ''extra_fields'' of Some (JObj d) \<Rightarrow> dict_merge data d | _ \<Rightarrow> data)
      in case lg_exception r of None \<Rightarrow> data | Some x \<Rightarrow> dict_set data ''exception'' (JStr x))"

text \<open>What is passed as \<open>extra\<close> never reaches a log line, unless under that one name.\<close>

lemma extra_lost:
  "dict_get extra ''extra_fields'' = None \<Longrightarrow> format_record now c (r\<lparr>lg_attributes := extra\<rparr>) = format_record now c (r\<lparr>lg_attributes := []\<rparr>)"
  by (simp add: format_record_def)

section \<open>The request middleware\<close>

record observed_request =
  or_method :: string
  or_path :: string
  or_x_request_id :: "string option"
  or_x_correlation_id :: "string option"
  or_correlation_id :: "string option"

record observed_response =
  os_status :: int
  os_headers :: "(string, string) dict"
  os_body :: json

type_synonym app = "observed_request \<Rightarrow> log_context \<Rightarrow> (string, observed_response) result \<times> log_context"

definition request_tags :: "observed_request \<Rightarrow> tags" where
  "request_tags q = [(''method'', or_method q), (''path'', or_path q)]"

definition count_request :: "string \<Rightarrow> observed_request \<Rightarrow> string \<Rightarrow> 'f \<Rightarrow> 'f metric_backend \<Rightarrow> 'f metric_backend" where
  "count_request now q status duration b =
     record_histogram now ''api_request_latency_seconds'' duration (request_tags q)
       (record_counter ''api_request_count'' 1 (request_tags q @ [(''status'', status)]) b)"

definition safe_answer :: observed_response where
  "safe_answer = \<lparr>os_status = 500, os_headers = [], os_body = JObj [(''detail'', JStr ''An internal server error occurred.'')]\<rparr>"

definition with_ids :: "string \<Rightarrow> string \<Rightarrow> observed_response \<Rightarrow> observed_response" where
  "with_ids rid cid r = r\<lparr>os_headers := dict_set (dict_set (os_headers r) ''X-Request-ID'' rid) ''X-Correlation-ID'' cid\<rparr>"

text \<open>
  The answer, the logging context behind the request and the metrics; \<open>u\<close> and \<open>v\<close> are the
  identifiers that are drawn when the request brings none.  An exception returns before the
  context is cleared.
\<close>

definition observe ::
  "string \<Rightarrow> string \<Rightarrow> string \<Rightarrow> 'f \<Rightarrow> app \<Rightarrow> observed_request \<Rightarrow> log_context \<Rightarrow> 'f metric_backend
   \<Rightarrow> observed_response \<times> log_context \<times> 'f metric_backend" where
  "observe now u v duration call_next q c b =
     (let rid = or_str (or_x_request_id q) u;
          cid = or_str (or_x_correlation_id q) (or_str (or_correlation_id q) v);
          c1 = set_logging_context (no_log_context\<lparr>lc_request_id := Some rid, lc_correlation_id := Some cid\<rparr>) c
      in case call_next q c1 of
           (Inl _, c2) \<Rightarrow> (with_ids rid cid safe_answer, c2, count_request now q ''500'' duration b)
         | (Inr r, c2) \<Rightarrow> (with_ids rid cid r, clear_logging_context c2, count_request now q (show_int (os_status r)) duration b))"

definition requests_with_status :: "observed_request \<Rightarrow> int \<Rightarrow> 'f metric_backend \<Rightarrow> int" where
  "requests_with_status q status b = counter_value b ''api_request_count'' (get_tag_string (request_tags q @ [(''status'', show_int status)]))"

lemma show_500: "show_int 500 = ''500''"
  by code_simp

text \<open>
  What the middleware does with a request.  The application sees the identifiers the
  answer carries: those of the request or, where it brings none, new ones.  The request is
  counted once under its method, path and the status of the answer, and an exception of the
  application becomes a 500 whose body does not depend on it.  The logging context is
  cleared, but only when the application answers: behind an exception it stays as the
  application left it.
\<close>

theorem request_observed:
  assumes "observe now u v duration call_next q c b = (r, c', b')"
  shows "\<exists>rid cid c1. c1 = set_logging_context (no_log_context\<lparr>lc_request_id := Some rid, lc_correlation_id := Some cid\<rparr>) c
    \<and> rid = or_str (or_x_request_id q) u \<and> dict_get (os_headers r) ''X-Request-ID'' = Some rid
    \<and> dict_get (os_headers r) ''X-Correlation-ID'' = Some cid
    \<and> requests_with_status q (os_status r) b' = requests_with_status q (os_status r) b + 1
    \<and> (case call_next q c1 of
         (Inl _, c2) \<Rightarrow> os_status r = 500 \<and> os_body r = os_body safe_answer \<and> c' = c2
       | (Inr a, _) \<Rightarrow> os_status r = os_status a \<and> os_body r = os_body a \<and> c' = no_log_context)"
proof -
  let ?rid = "or_str (or_x_request_id q) u"
  let ?cid = "or_str (or_x_correlation_id q) (or_str (or_correlation_id q) v)"
  let ?c1 = "set_logging_context (no_log_context\<lparr>lc_request_id := Some ?rid, lc_correlation_id := Some ?cid\<rparr>) c"
  have count: "requests_with_status q st (count_request now q (show_int st) duration b) = requests_with_status q st b + 1" for st
    by (simp add: requests_with_status_def count_request_def counter_value_def record_counter_def record_histogram_def dict_get_or_def dict_get_set Let_def)
  have ids: "dict_get (os_headers (with_ids ?rid ?cid a)) ''X-Request-ID'' = Some ?rid"
    "dict_get (os_headers (with_ids ?rid ?cid a)) ''X-Correlation-ID'' = Some ?cid" for a
    by (simp_all add: with_ids_def dict_get_set)
  obtain x c2 where call: "call_next q ?c1 = (x, c2)" by fastforce
  show ?thesis
    using assms call count [of 500] count [of "os_status r"]
    by (intro exI [of _ ?rid] exI [of _ ?cid] exI [of _ ?c1], cases x)
      (auto simp: observe_def Let_def ids show_500 safe_answer_def clear_logging_context_def, auto simp: with_ids_def)
qed

definition failing_app :: app where
  "failing_app q c = (Err ''secret detail'', c\<lparr>lc_user_id := Some 7\<rparr>)"

definition sample_observed :: observed_request where
  "sample_observed = \<lparr>or_method = ''GET'', or_path = ''/x'', or_x_request_id = None, or_x_correlation_id = Some ''c1'', or_correlation_id = None\<rparr>"

theorem request_observed_witness:
  "let (r, c, b) = observe ''now'' ''u'' ''v'' () failing_app sample_observed no_log_context \<lparr>mb_counters = [], mb_gauges = [], mb_histograms = []\<rparr>
   in os_body r = os_body safe_answer \<and> dict_get (os_headers r) ''X-Request-ID'' = Some ''u'' \<and> lc_user_id c = Some 7"
proof -
  obtain r c b where run: "observe ''now'' ''u'' ''v'' () failing_app sample_observed no_log_context \<lparr>mb_counters = [], mb_gauges = [], mb_histograms = []\<rparr> = (r, c, b)"
    by (metis prod.exhaust)
  from request_observed [OF run] run show ?thesis by (auto simp: failing_app_def sample_observed_def or_str_def)
qed

section \<open>Profiler and alerts\<close>

definition THRESHOLD_MAP :: "(string, nat) dict" where
  "THRESHOLD_MAP = [(''request'', 2000), (''database'', 500), (''provider'', 3000), (''workflow'', 5000), (''tool'', 2000), (''rag'', 1500), (''memory'', 1000)]"

record alert =
  al_title :: string
  al_severity :: string
  al_operation_type :: string
  al_operation_name :: string
  al_duration :: nat
  al_threshold :: nat

text \<open>Every backend is tried, whatever the ones before it raise.\<close>

definition trigger_alert :: "('e \<Rightarrow> alert \<Rightarrow> (string, unit) result \<times> 'e) list \<Rightarrow> alert \<Rightarrow> 'e \<Rightarrow> 'e" where
  "trigger_alert backends a e = fold (\<lambda>send e. snd (send e a)) backends e"

definition profile_exit :: "string \<Rightarrow> string \<Rightarrow> nat \<Rightarrow> (string \<times> nat \<times> tags) \<times> alert option" where
  "profile_exit operation_type name duration =
     (let threshold = dict_get_or THRESHOLD_MAP operation_type 1000
      in ((operation_type @ ''_latency_seconds'', duration, [(''name'', name)]),
          if duration > threshold
          then Some \<lparr>al_title = ''Slow operation: '' @ name, al_severity = ''warning'', al_operation_type = operation_type,
                     al_operation_name = name, al_duration = duration, al_threshold = threshold\<rparr>
          else None))"

section \<open>Health\<close>

definition check_providers :: "provider_settings \<Rightarrow> bool \<times> string list" where
  "check_providers s =
     (let configured = (if GROQ_API_KEY s \<noteq> [] then [''groq''] else []) @ (if OPENAI_API_KEY s \<noteq> [] then [''openai''] else [])
        @ (if ANTHROPIC_API_KEY s \<noteq> [] then [''anthropic''] else []) @ (if GEMINI_API_KEY s \<noteq> [] then [''gemini''] else [])
      in (configured \<noteq> [], configured))"

text \<open>A dependency that is queried is healthy or fails with a text.\<close>

definition query_health :: "string option \<Rightarrow> json" where
  "query_health failure =
     (case failure of None \<Rightarrow> JObj [(''status'', JStr ''healthy'')] | Some e \<Rightarrow> JObj [(''status'', JStr ''unhealthy''), (''error'', JStr e)])"

definition health_text :: "bool \<Rightarrow> json" where
  "health_text ok = JStr (if ok then ''healthy'' else ''unhealthy'')"

definition check_dependency_health :: "string option \<Rightarrow> string option \<Rightarrow> provider_settings \<Rightarrow> metadata" where
  "check_dependency_health db_failure vector_failure s =
     (let (providers, configured) = check_providers s
      in [(''status'', health_text (db_failure = None \<and> providers \<and> vector_failure = None)),
          (''details'', JObj [(''database'', query_health db_failure),
             (''providers'', JObj [(''status'', health_text providers), (''configured_providers'', JList (map JStr configured))]),
             (''vector_store'', query_health vector_failure),
             (''memory'', query_health None), (''workflow_engine'', query_health None), (''ai_orchestrator'', query_health None)])])"

text \<open>The health check leaves out two providers that the manager counts as configured.\<close>

lemma provider_health_configured:
  "fst (check_providers (pr_settings st)) \<longleftrightarrow> list_ex (\<lambda>n. is_configured n st) [''groq'', ''openai'', ''anthropic'', ''gemini'']"
proof -
  have "py_lower ''groq'' = ''groq''" "py_lower ''openai'' = ''openai''" "py_lower ''anthropic'' = ''anthropic''" "py_lower ''gemini'' = ''gemini''"
    by code_simp+
  then show ?thesis by (simp add: check_providers_def is_configured_def)
qed

section \<open>Audit log\<close>

record audit_event =
  ae_action :: string
  ae_resource :: string
  ae_resource_id :: "string option"
  ae_actor_id :: "int option"
  ae_organization_id :: "int option"
  ae_extra_metadata :: metadata
  ae_status :: string
  ae_ip_address :: "string option"

text \<open>The global logger keeps its handlers; each is bound to the repository of the request that registered it.\<close>

record audit_store =
  as_handlers :: nat
  as_rows :: "audit_event table"

definition or_id :: "int option \<Rightarrow> int option \<Rightarrow> int option" where
  "or_id new dflt = (case new of Some i \<Rightarrow> if i = 0 then dflt else Some i | None \<Rightarrow> dflt)"

definition complete_event :: "log_context \<Rightarrow> audit_event \<Rightarrow> audit_event" where
  "complete_event c e = e\<lparr>ae_actor_id := or_id (ae_actor_id e) (lc_user_id c), ae_organization_id := or_id (ae_organization_id e) (lc_organization_id c)\<rparr>"

definition audit_service_init :: "audit_store \<Rightarrow> audit_store" where
  "audit_service_init st = st\<lparr>as_handlers := as_handlers st + 1\<rparr>"

definition db_audit_handler :: "audit_event \<Rightarrow> audit_event table \<Rightarrow> audit_event table" where
  "db_audit_handler e t = repo_create (serial_id t) e t"

text \<open>\<open>broken\<close> are the positions of the handlers that raise; they are logged and passed over.\<close>

definition audit_log :: "nat list \<Rightarrow> log_context \<Rightarrow> audit_event \<Rightarrow> audit_store \<Rightarrow> audit_store" where
  "audit_log broken c e st =
     st\<lparr>as_rows := fold (\<lambda>i t. if i \<in> set broken then t else db_audit_handler (complete_event c e) t) [0..<as_handlers st] (as_rows st)\<rparr>"

definition get_audit_logs :: "nat \<Rightarrow> nat \<Rightarrow> int option \<Rightarrow> audit_store \<Rightarrow> (int \<times> audit_event) list" where
  "get_audit_logs skip n org st =
     take n (drop skip (rev (filter (\<lambda>(_, e). org = None \<or> ae_organization_id e = org) (as_rows st))))"

datatype audit_step = Read_Log nat nat "int option" | Emit "nat list" log_context audit_event

fun audit_run :: "audit_step \<Rightarrow> audit_store \<Rightarrow> audit_store" where
  "audit_run (Read_Log skip n org) st = audit_service_init st"
| "audit_run (Emit broken c e) st = audit_log broken c e st"

fun is_read :: "audit_step \<Rightarrow> bool" where
  "is_read (Read_Log _ _ _) = True"
| "is_read (Emit _ _ _) = False"

lemma fold_handlers:
  "map snd (fold (\<lambda>i t. if i \<in> set broken then t else db_audit_handler e t) is t)
    = map snd t @ replicate (length (filter (\<lambda>i. i \<notin> set broken) is)) e"
  by (induction "is" arbitrary: t) (simp_all add: db_audit_handler_def repo_create_def replicate_append_same [symmetric])

lemma handlers_run: "as_handlers (fold audit_run ops st) = as_handlers st + length (filter is_read ops)"
proof (induction ops arbitrary: st)
  case (Cons op ops)
  then show ?case by (cases op) (simp_all add: audit_service_init_def audit_log_def)
qed simp

text \<open>
  C27: the audit log stores an event once per request that read it before.  Reading the
  log builds a service that registers one more handler with the global logger and never
  removes it: an event is stored as often as the log has been read since the start, less
  the handlers that fail, and not at all before the first read.
\<close>

theorem audit_events_multiply:
  "map snd (as_rows (audit_run (Emit broken c e) (fold audit_run ops \<lparr>as_handlers = 0, as_rows = []\<rparr>)))
   = map snd (as_rows (fold audit_run ops \<lparr>as_handlers = 0, as_rows = []\<rparr>))
     @ replicate (length (filter (\<lambda>i. i \<notin> set broken) [0..<length (filter is_read ops)])) (complete_event c e)"
  by (simp add: audit_log_def fold_handlers handlers_run)

end
