(* ===== verification/Observatory.thy ===== *)
theory Observatory
  imports Telemetry Workflow Endpoint
begin

text \<open>
  The live registries of the runtime (\<open>observability/diagnostics.py\<close>), the observatory
  that draws graphs, a timeline and search results from them (\<open>runtime/observatory.py\<close>,
  \<open>services/observability_service.py\<close>) and its endpoints (\<open>api/v1/observability.py\<close>).

  What is registered is a JSON object.  The registries are modelled by one operation over
  the table of the module's functions: the registry and the last-value slot each of them
  writes.  The time of a snapshot is text that is given.
\<close>

section \<open>Diagnostics\<close>

record diagnostics_store =
  ds_active :: "(string, (string, metadata) dict) dict"
  ds_last :: "(string, metadata) dict"

definition empty_diagnostics :: diagnostics_store where
  "empty_diagnostics = \<lparr>ds_active = [], ds_last = []\<rparr>"

text \<open>\<open>register_<function>\<close>: the registry it adds to and the slot it sets.\<close>

definition registrations :: "(string, string option \<times> string option) dict" where
  "registrations =
     [(''execution'', Some ''active_executions'', None),
      (''stream'', Some ''active_streams'', None),
      (''session'', Some ''active_sessions'', None),
      (''workflow'', Some ''active_workflows'', None),
      (''cognitive_analysis'', Some ''active_cognitive_analyses'', Some ''last_cognitive_analysis''),
      (''planning_run'', Some ''active_planning_runs'', Some ''last_execution_blueprint''),
      (''execution_context'', None, Some ''last_execution_context''),
      (''execution_engine'', Some ''active_execution_engines'', Some ''last_execution_engine''),
      (''capability_event'', Some ''active_capability_events'', Some ''last_capability_event''),
      (''reflection_report'', Some ''active_reflection_reports'', Some ''last_reflection_report''),
      (''evaluation_report'', Some ''active_evaluation_reports'', Some ''last_evaluation_report''),
      (''learning_report'', Some ''active_learning_reports'', Some ''last_learning_report''),
      (''learning_policy'', Some ''active_learning_policies'', Some ''last_learning_policy''),
      (''adaptive_plan'', Some ''active_adaptive_plans'', Some ''last_adaptive_plan''),
      (''long_term_intelligence'', Some ''active_long_term_intelligence'', Some ''last_long_term_intelligence''),
      (''runtime_optimization'', Some ''active_runtime_optimizations'', Some ''last_runtime_optimization''),
      (''runtime_governance'', Some ''active_runtime_governance'', Some ''last_runtime_governance''),
      (''goal_report'', Some ''active_goal_reports'', Some ''last_goal_report''),
      (''goal_trace'', Some ''active_goal_traces'', Some ''last_goal_trace''),
      (''task_report'', Some ''active_task_reports'', Some ''last_task_report''),
      (''task_trace'', Some ''active_task_traces'', Some ''last_task_trace''),
      (''autonomous_execution'', Some ''active_autonomous_executions'', Some ''last_autonomous_execution''),
      (''multi_agent_orchestration'', Some ''active_multi_agent_orchestrations'', Some ''last_multi_agent_orchestration'')]"

definition unregistrations :: "(string, string) dict" where
  "unregistrations =
     [(''execution'', ''active_executions''), (''stream'', ''active_streams''), (''session'', ''active_sessions''),
      (''workflow'', ''active_workflows''), (''cognitive_analysis'', ''active_cognitive_analyses''), (''planning_run'', ''active_planning_runs'')]"

definition active_in :: "diagnostics_store \<Rightarrow> string \<Rightarrow> (string, metadata) dict" where
  "active_in st r = dict_get_or (ds_active st) r []"

definition register_entry :: "string \<Rightarrow> string \<Rightarrow> metadata \<Rightarrow> diagnostics_store \<Rightarrow> diagnostics_store" where
  "register_entry f i md st =
     (case dict_get registrations f of
        None \<Rightarrow> st
      | Some (r, slot) \<Rightarrow>
          (let st1 = (case r of None \<Rightarrow> st | Some r \<Rightarrow> st\<lparr>ds_active := dict_set (ds_active st) r (dict_set (active_in st r) i md)\<rparr>)
           in case slot of None \<Rightarrow> st1 | Some l \<Rightarrow> st1\<lparr>ds_last := dict_set (ds_last st1) l md\<rparr>))"

definition unregister_entry :: "string \<Rightarrow> string \<Rightarrow> diagnostics_store \<Rightarrow> diagnostics_store" where
  "unregister_entry f i st =
     (case dict_get unregistrations f of
        None \<Rightarrow> st
      | Some r \<Rightarrow> st\<lparr>ds_active := dict_set (ds_active st) r (dict_del (active_in st r) i)\<rparr>)"

definition last_json :: "diagnostics_store \<Rightarrow> string \<Rightarrow> json" where
  "last_json st l = (case dict_get (ds_last st) l of None \<Rightarrow> JNull | Some md \<Rightarrow> JObj md)"

definition snapshot_fields :: "diagnostics_store \<Rightarrow> string option \<Rightarrow> string option \<Rightarrow> metadata" where
  "snapshot_fields st r slot =
     (case r of None \<Rightarrow> [] | Some r \<Rightarrow>
        [(r @ ''_count'', JInt (int (length (active_in st r)))), (r, JList (map (\<lambda>(_, md). JObj md) (active_in st r)))])
     @ (case slot of None \<Rightarrow> [] | Some l \<Rightarrow> [(l, last_json st l)])"

definition get_diagnostics_snapshot :: "diagnostics_store \<Rightarrow> metadata" where
  "get_diagnostics_snapshot st = concat (map (\<lambda>(_, r, slot). snapshot_fields st r slot) registrations)"

section \<open>Graphs\<close>

definition node_dict :: "string \<Rightarrow> string \<Rightarrow> json \<Rightarrow> metadata \<Rightarrow> json" where
  "node_dict i label ref md = JObj [(''node_id'', JStr i), (''label'', JStr label), (''object_ref'', ref), (''metadata'', JObj md)]"

definition graph_node :: "string \<Rightarrow> string \<Rightarrow> json \<Rightarrow> json" where
  "graph_node i label ref = JObj [(''id'', JStr i), (''label'', JStr label), (''object'', ref)]"

definition graph_edge :: "string \<times> string \<times> string \<Rightarrow> json" where
  "graph_edge e = (let (s, t, r) = e in JObj [(''source'', JStr s), (''target'', JStr t), (''relation'', JStr r)])"

definition graph_dict :: "json list \<Rightarrow> (string \<times> string \<times> string) list \<Rightarrow> json" where
  "graph_dict nodes edges = JObj [(''nodes'', JList nodes), (''edges'', JList (map graph_edge edges))]"

definition json_len :: "json \<Rightarrow> json" where
  "json_len v = (case v of JList xs \<Rightarrow> JInt (int (length xs)) | _ \<Rightarrow> JInt 0)"

text \<open>
  \<open>getattr\<close> on what was registered, a dictionary, gives its default: dictionaries have no
  attributes of those names.  Tuples are lists here.
\<close>

definition get_attr :: "json \<Rightarrow> string \<Rightarrow> json \<Rightarrow> json" where
  "get_attr v name dflt = dflt"

definition rc_list :: "metadata \<Rightarrow> string \<Rightarrow> json" where
  "rc_list rc k = dict_get_or rc k (JList [])"

definition runtime_nodes :: "metadata \<Rightarrow> json list" where
  "runtime_nodes rc =
    [node_dict ''runtime_version'' ''Runtime Version'' (obj_get rc ''runtime_version'') [(''value'', obj_get rc ''runtime_version'')],
     node_dict ''execution_context'' ''Execution Context'' (obj_get rc ''execution_context'') [(''execution_metadata'', get_attr (obj_get rc ''execution_context'') ''execution_metadata'' JNull)],
     node_dict ''cognitive_state'' ''Cognitive State'' (obj_get rc ''cognitive_state'') [(''required_capabilities'', get_attr (obj_get rc ''cognitive_state'') ''required_runtime_capabilities'' (JList []))],
     node_dict ''execution_blueprint'' ''Execution Blueprint'' (obj_get rc ''execution_blueprint'') [(''task_graph'', get_attr (obj_get rc ''execution_blueprint'') ''task_graph'' (JList []))],
     node_dict ''goal'' ''Goal'' (obj_get rc ''goal_report'') [(''goal_id'', get_attr (obj_get rc ''goal_report'') ''goal_id'' JNull)],
     node_dict ''tasks'' ''Tasks'' (rc_list rc ''task_reports'') [(''count'', json_len (rc_list rc ''task_reports''))],
     node_dict ''reflection'' ''Reflection'' (obj_get rc ''reflection_report'') [(''confidence'', get_attr (obj_get rc ''reflection_report'') ''confidence'' JNull)],
     node_dict ''evaluation'' ''Evaluation'' (obj_get rc ''evaluation_report'') [(''confidence'', get_attr (obj_get rc ''evaluation_report'') ''confidence'' JNull)],
     node_dict ''learning'' ''Learning'' (obj_get rc ''learning_report'') [(''confidence'', get_attr (obj_get rc ''learning_report'') ''confidence'' JNull)],
     node_dict ''adaptive_planning'' ''Adaptive Planning'' (obj_get rc ''adaptive_plan'') [(''planning_confidence'', get_attr (obj_get rc ''adaptive_plan'') ''planning_confidence'' JNull)],
     node_dict ''long_term_intelligence'' ''Long-Term Intelligence'' (obj_get rc ''long_term_intelligence'') [(''intelligence_confidence'', get_attr (obj_get rc ''long_term_intelligence'') ''intelligence_confidence'' JNull)],
     node_dict ''runtime_optimization'' ''Runtime Optimization'' (obj_get rc ''runtime_optimization'') [(''estimated_improvement'', get_attr (obj_get rc ''runtime_optimization'') ''estimated_improvement'' JNull)],
     node_dict ''runtime_governance'' ''Governance'' (obj_get rc ''runtime_governance'') [(''decision'', get_attr (get_attr (obj_get rc ''runtime_governance'') ''decision'' JNull) ''allowed'' JNull)],
     node_dict ''multi_agent_orchestrator'' ''Multi-Agent Orchestrator'' (obj_get rc ''multi_agent_orchestrator'') [(''participant_count'', json_len (get_attr (obj_get rc ''multi_agent_orchestrator'') ''worker_agent_ids'' (JList [])))],
     node_dict ''memory'' ''Memory'' (obj_get rc ''memory'') [(''source'', JStr ''memory_service'')],
     node_dict ''knowledge'' ''Knowledge'' (obj_get rc ''knowledge'') [(''source'', JStr ''knowledge_service'')],
     node_dict ''rag'' ''RAG'' (obj_get rc ''rag'') [(''source'', JStr ''rag_service'')],
     node_dict ''workflow'' ''Workflow'' (obj_get rc ''workflow'') [(''source'', JStr ''workflow_service'')],
     node_dict ''tool_execution'' ''Tool Execution'' (obj_get rc ''tool_execution'') [(''source'', JStr ''tool_execution_service'')],
     node_dict ''provider'' ''Provider'' (obj_get rc ''provider'') [(''source'', JStr ''provider_service'')],
     node_dict ''prompt_builder'' ''Prompt Builder'' (obj_get rc ''prompt_builder'') [(''source'', JStr ''prompt_builder'')]]"

definition runtime_edges :: "(string \<times> string \<times> string) list" where
  "runtime_edges =
  [(''runtime_version'', ''execution_context'', ''drives''), (''execution_context'', ''cognitive_state'', ''contains''),
   (''cognitive_state'', ''execution_blueprint'', ''produces''), (''goal'', ''tasks'', ''decomposes_into''),
   (''tasks'', ''execution_blueprint'', ''informs''), (''execution_blueprint'', ''execution_context'', ''shapes''),
   (''execution_context'', ''reflection'', ''yields''), (''reflection'', ''evaluation'', ''feeds''),
   (''evaluation'', ''learning'', ''feeds''), (''learning'', ''adaptive_planning'', ''feeds''),
   (''adaptive_planning'', ''long_term_intelligence'', ''feeds''), (''long_term_intelligence'', ''runtime_optimization'', ''feeds''),
   (''runtime_optimization'', ''runtime_governance'', ''precedes''), (''runtime_governance'', ''execution_context'', ''supervises''),
   (''multi_agent_orchestrator'', ''goal'', ''supervises''), (''memory'', ''long_term_intelligence'', ''supports''),
   (''knowledge'', ''rag'', ''supports''), (''rag'', ''learning'', ''supports''),
   (''workflow'', ''tool_execution'', ''coordinates''), (''prompt_builder'', ''provider'', ''prepares''),
   (''provider'', ''execution_context'', ''responds_to'')]"

definition build_runtime_graph :: "metadata \<Rightarrow> json" where
  "build_runtime_graph rc = graph_dict (runtime_nodes rc) runtime_edges"

definition execution_nodes :: "metadata \<Rightarrow> json list" where
  "execution_nodes rc =
    [graph_node ''execution_engine'' ''Execution Engine'' (obj_get rc ''execution_engine''),
     graph_node ''capability_dispatcher'' ''Capability Dispatcher'' (obj_get rc ''capability_dispatcher''),
     graph_node ''native_executors'' ''Native Executors'' (obj_get rc ''native_executors''),
     graph_node ''business_services'' ''Business Services'' (rc_list rc ''business_services''),
     graph_node ''repositories'' ''Repositories'' (rc_list rc ''repositories''),
     graph_node ''persistence'' ''Persistence'' (obj_get rc ''persistence''),
     graph_node ''response'' ''Response'' (obj_get rc ''response'')]"

definition execution_edges :: "(string \<times> string \<times> string) list" where
  "execution_edges =
  [(''execution_engine'', ''capability_dispatcher'', ''dispatches''), (''capability_dispatcher'', ''native_executors'', ''routes_to''),
   (''native_executors'', ''business_services'', ''calls''), (''business_services'', ''repositories'', ''persists_through''),
   (''repositories'', ''persistence'', ''stores''), (''persistence'', ''response'', ''produces'')]"

definition build_execution_graph :: "metadata \<Rightarrow> json" where
  "build_execution_graph rc = graph_dict (execution_nodes rc) execution_edges"

definition memory_nodes :: "metadata \<Rightarrow> json list" where
  "memory_nodes rc =
    [graph_node ''memory'' ''Memory'' (obj_get rc ''memory''),
     graph_node ''knowledge'' ''Knowledge'' (obj_get rc ''knowledge''),
     graph_node ''rag'' ''RAG'' (obj_get rc ''rag''),
     graph_node ''learning'' ''Learning'' (obj_get rc ''learning_report''),
     graph_node ''long_term_intelligence'' ''Long-Term Intelligence'' (obj_get rc ''long_term_intelligence''),
     graph_node ''preferences'' ''Preferences'' (obj_get rc ''preferences''),
     graph_node ''capability_scores'' ''Capability Scores'' (obj_get rc ''capability_scores'')]"

definition memory_edges :: "(string \<times> string \<times> string) list" where
  "memory_edges =
  [(''memory'', ''knowledge'', ''feeds''), (''knowledge'', ''rag'', ''retrieved_by''),
   (''rag'', ''learning'', ''informs''), (''learning'', ''long_term_intelligence'', ''persists''),
   (''long_term_intelligence'', ''preferences'', ''evolves''), (''long_term_intelligence'', ''capability_scores'', ''scores'')]"

definition build_memory_graph :: "metadata \<Rightarrow> json" where
  "build_memory_graph rc = graph_dict (memory_nodes rc) memory_edges"

definition provider_nodes :: "metadata \<Rightarrow> json list" where
  "provider_nodes rc =
    [graph_node ''prompt_builder'' ''Prompt Builder'' (obj_get rc ''prompt_builder''),
     graph_node ''provider'' ''Provider'' (obj_get rc ''provider''),
     graph_node ''model'' ''Model'' (obj_get rc ''model''),
     graph_node ''tool_calls'' ''Tool Calls'' (obj_get rc ''tool_calls''),
     graph_node ''streaming'' ''Streaming'' (obj_get rc ''streaming''),
     graph_node ''response'' ''Response'' (obj_get rc ''response'')]"

definition provider_edges :: "(string \<times> string \<times> string) list" where
  "provider_edges =
  [(''prompt_builder'', ''provider'', ''prepares''), (''provider'', ''model'', ''selects''),
   (''model'', ''tool_calls'', ''emits''), (''tool_calls'', ''streaming'', ''feeds''),
   (''streaming'', ''response'', ''returns'')]"

definition build_provider_graph :: "metadata \<Rightarrow> json" where
  "build_provider_graph rc = graph_dict (provider_nodes rc) provider_edges"

definition goal_nodes :: "metadata \<Rightarrow> json list" where
  "goal_nodes rc =
    [graph_node ''goal'' ''Goal'' (obj_get rc ''goal_report''),
     graph_node ''planning'' ''Planning'' (obj_get rc ''execution_blueprint''),
     graph_node ''tasks'' ''Tasks'' (rc_list rc ''task_reports''),
     graph_node ''execution'' ''Execution'' (obj_get rc ''execution_engine''),
     graph_node ''completion'' ''Completion'' (obj_get rc ''response''),
     graph_node ''reflection'' ''Reflection'' (obj_get rc ''reflection_report''),
     graph_node ''evaluation'' ''Evaluation'' (obj_get rc ''evaluation_report''),
     graph_node ''learning'' ''Learning'' (obj_get rc ''learning_report'')]"

definition goal_edges :: "(string \<times> string \<times> string) list" where
  "goal_edges =
  [(''goal'', ''planning'', ''creates''), (''planning'', ''tasks'', ''decomposes''),
   (''tasks'', ''execution'', ''drives''), (''execution'', ''completion'', ''produces''),
   (''completion'', ''reflection'', ''evaluated_by''), (''reflection'', ''evaluation'', ''feeds''),
   (''evaluation'', ''learning'', ''feeds'')]"

definition build_goal_graph :: "metadata \<Rightarrow> json" where
  "build_goal_graph rc = graph_dict (goal_nodes rc) goal_edges"

definition multi_agent_nodes :: "metadata \<Rightarrow> json list" where
  "multi_agent_nodes rc =
    [graph_node ''supervisor'' ''Supervisor'' (obj_get rc ''supervisor_agent''),
     graph_node ''workers'' ''Workers'' (rc_list rc ''worker_agents''),
     graph_node ''delegation'' ''Delegation'' (rc_list rc ''delegated_tasks''),
     graph_node ''execution'' ''Execution'' (obj_get rc ''execution_engine''),
     graph_node ''aggregation'' ''Aggregation'' (rc_list rc ''aggregated_results''),
     graph_node ''orchestrator'' ''Multi-Agent Orchestrator'' (obj_get rc ''multi_agent_orchestrator'')]"

definition multi_agent_edges :: "(string \<times> string \<times> string) list" where
  "multi_agent_edges =
  [(''supervisor'', ''delegation'', ''assigns''), (''delegation'', ''workers'', ''routes_to''),
   (''workers'', ''execution'', ''executes''), (''execution'', ''aggregation'', ''produces''),
   (''aggregation'', ''orchestrator'', ''returns'')]"

definition build_multi_agent_graph :: "metadata \<Rightarrow> json" where
  "build_multi_agent_graph rc = graph_dict (multi_agent_nodes rc) multi_agent_edges"

definition task_nodes :: "metadata \<Rightarrow> json list" where
  "task_nodes rc =
    [graph_node ''tasks'' ''Tasks'' (rc_list rc ''active_tasks''),
     graph_node ''capabilities'' ''Capabilities'' (dict_get_or rc ''capability_scores'' (JObj [])),
     graph_node ''execution_results'' ''Execution Results'' (rc_list rc ''execution_results''),
     graph_node ''reflection'' ''Reflection'' (obj_get rc ''reflection_report''),
     graph_node ''evaluation'' ''Evaluation'' (obj_get rc ''evaluation_report''),
     graph_node ''learning'' ''Learning'' (obj_get rc ''learning_report''),
     graph_node ''adaptive_planning'' ''Adaptive Planning'' (obj_get rc ''adaptive_plan''),
     graph_node ''optimization'' ''Optimization'' (obj_get rc ''runtime_optimization''),
     graph_node ''long_term_knowledge'' ''Long-Term Knowledge'' (obj_get rc ''long_term_intelligence''),
     graph_node ''response'' ''Response'' (obj_get rc ''response'')]"

definition task_edges :: "(string \<times> string \<times> string) list" where
  "task_edges =
  [(''tasks'', ''capabilities'', ''requires''), (''capabilities'', ''execution_results'', ''produces''),
   (''execution_results'', ''reflection'', ''feeds''), (''reflection'', ''evaluation'', ''feeds''),
   (''evaluation'', ''learning'', ''feeds''), (''learning'', ''adaptive_planning'', ''feeds''),
   (''adaptive_planning'', ''optimization'', ''feeds''), (''optimization'', ''long_term_knowledge'', ''persists''),
   (''long_term_knowledge'', ''response'', ''informs'')]"

definition get_task_graph :: "metadata \<Rightarrow> json" where
  "get_task_graph rc = graph_dict (task_nodes rc) task_edges"

definition architecture_nodes :: "(string \<times> string) list" where
  "architecture_nodes =
    [(''api'', ''API''), (''dependencies'', ''Dependencies''), (''runtime_router'', ''Runtime Router''),
     (''runtime'', ''Runtime''), (''execution_context'', ''Execution Context''), (''execution_engine'', ''Execution Engine''),
     (''state_machine'', ''Execution State Machine''), (''capability_dispatcher'', ''Capability Dispatcher''), (''capability_registry'', ''Capability Registry''),
     (''capability_runtime'', ''Capability Runtime Layer''), (''runtime_v1_adapter'', ''Runtime V1 Adapter''), (''memory'', ''Memory''),
     (''knowledge'', ''Knowledge''), (''rag'', ''RAG''), (''prompt_builder'', ''Prompt Builder''),
     (''goal_management'', ''Goal Management''), (''task_management'', ''Task Management''), (''autonomous_execution'', ''Autonomous Execution''),
     (''adaptive_planning'', ''Adaptive Planning''), (''runtime_optimization'', ''Runtime Optimization''), (''runtime_governance'', ''Runtime Governance''),
     (''long_term_intelligence'', ''Long-Term Intelligence''), (''provider'', ''Provider''), (''tools'', ''Tools''),
     (''workflow'', ''Workflow''), (''agent'', ''Agent''), (''persistence'', ''Persistence'')]"

definition architecture_edges :: "(string \<times> string) list" where
  "architecture_edges =
    [(''api'', ''dependencies''), (''dependencies'', ''runtime_router''), (''runtime_router'', ''runtime''),
     (''runtime'', ''execution_context''), (''execution_context'', ''execution_engine''), (''execution_engine'', ''state_machine''),
     (''state_machine'', ''capability_dispatcher''), (''capability_dispatcher'', ''capability_registry''), (''capability_registry'', ''capability_runtime''),
     (''capability_dispatcher'', ''runtime_v1_adapter''), (''runtime_v1_adapter'', ''memory''), (''runtime'', ''memory''),
     (''runtime'', ''knowledge''), (''runtime'', ''rag''), (''runtime'', ''prompt_builder''),
     (''runtime'', ''goal_management''), (''runtime'', ''task_management''), (''runtime'', ''autonomous_execution''),
     (''runtime'', ''adaptive_planning''), (''adaptive_planning'', ''runtime_optimization''), (''runtime_optimization'', ''long_term_intelligence''),
     (''runtime'', ''runtime_governance''), (''runtime_governance'', ''execution_context''), (''runtime'', ''long_term_intelligence''),
     (''runtime'', ''provider''), (''runtime'', ''tools''), (''runtime'', ''workflow''),
     (''runtime'', ''agent''), (''runtime'', ''persistence'')]"

definition get_runtime_architecture :: json where
  "get_runtime_architecture = JObj
     [(''nodes'', JList (map (\<lambda>(i, l). JObj [(''id'', JStr i), (''label'', JStr l)]) architecture_nodes)),
      (''edges'', JList (map (\<lambda>(a, b). JList [JStr a, JStr b]) architecture_edges))]"

section \<open>Timeline\<close>

definition timeline_entry :: "metadata \<Rightarrow> metadata option \<Rightarrow> metadata option \<Rightarrow> metadata" where
  "timeline_entry item before after =
     [(''stage_name'', dict_get_or item ''stage_name'' (JStr ''unknown'')), (''started_at'', obj_get item ''started_at''),
      (''completed_at'', obj_get item ''completed_at''), (''duration_seconds'', obj_get item ''duration_seconds''),
      (''parent_stage'', case before of None \<Rightarrow> JNull | Some p \<Rightarrow> obj_get p ''stage_name''),
      (''child_stages'', case after of None \<Rightarrow> JList []
         | Some a \<Rightarrow> JList (if truthy (obj_get a ''stage_name'') then [obj_get a ''stage_name''] else [])),
      (''status'', obj_get item ''status''), (''summary'', obj_get item ''summary''), (''raw'', JObj item)]"

fun timeline_from :: "metadata option \<Rightarrow> metadata list \<Rightarrow> metadata list" where
  "timeline_from before [] = []"
| "timeline_from before (item # rest) =
     timeline_entry item before (case rest of [] \<Rightarrow> None | a # _ \<Rightarrow> Some a) # timeline_from (Some item) rest"

definition build_timeline :: "metadata list \<Rightarrow> metadata list" where
  "build_timeline trace = timeline_from None trace"

definition json_dict :: "json \<Rightarrow> metadata" where
  "json_dict v = (case v of JObj d \<Rightarrow> d | _ \<Rightarrow> [])"

definition execution_trace :: "metadata \<Rightarrow> metadata list" where
  "execution_trace rc = (case rc_list rc ''execution_trace'' of JList xs \<Rightarrow> map json_dict xs | _ \<Rightarrow> [])"

definition build_snapshot :: "string \<Rightarrow> metadata \<Rightarrow> metadata" where
  "build_snapshot now rc =
     [(''runtime_version'', obj_get rc ''runtime_version''), (''execution_context'', obj_get rc ''execution_context''),
      (''active_goals'', rc_list rc ''active_goals''), (''active_tasks'', rc_list rc ''active_tasks''),
      (''runtime_graph'', build_runtime_graph rc), (''execution_graph'', build_execution_graph rc),
      (''timeline'', JList (map JObj (build_timeline (execution_trace rc)))),
      (''observability_metadata'', JObj [(''captured_at'', JStr now), (''source'', JStr ''runtime_observatory'')])]"

section \<open>Search\<close>

definition search_space :: "metadata \<Rightarrow> json list" where
  "search_space rc = map JObj (build_timeline (execution_trace rc)) @ runtime_nodes rc @ execution_nodes rc"

definition search_candidate :: "json \<Rightarrow> json" where
  "search_candidate item = py_or (obj_get (json_dict item) ''raw'') item"

text \<open>A term that is missing or empty is no restriction; the terms are named in the order of the parameters.\<close>

definition term_matches :: "string \<times> string option \<Rightarrow> json \<Rightarrow> bool" where
  "term_matches t item = (case snd t of Some (c # cs) \<Rightarrow> py_in (c # cs) (py_str (search_candidate item)) | _ \<Rightarrow> True)"

fun search_loop :: "(string \<times> string option) list \<Rightarrow> json list \<Rightarrow> json list" where
  "search_loop terms [] = []"
| "search_loop terms (item # items) =
     (if list_ex (\<lambda>t. \<not> term_matches t item) terms then search_loop terms items else item # search_loop terms items)"

definition search_terms :: "string list" where
  "search_terms = [''request_id'', ''execution_id'', ''goal_id'', ''task_id'', ''runtime_version'', ''provider'', ''workflow'', ''capability'']"

definition search_runtime :: "string \<Rightarrow> metadata \<Rightarrow> string option list \<Rightarrow> metadata" where
  "search_runtime now rc values =
     (let terms = zip search_terms values
      in [(''query'', JObj (concat (map (\<lambda>(k, v). case v of None \<Rightarrow> [] | Some x \<Rightarrow> [(k, JStr x)]) terms))),
          (''matches'', JList (search_loop terms (search_space rc))), (''snapshot'', JObj (build_snapshot now rc))])"

section \<open>What the registries hold\<close>

datatype diagnostics_step = Registered string string metadata | Unregistered string string

fun diagnose :: "diagnostics_step \<Rightarrow> diagnostics_store \<Rightarrow> diagnostics_store" where
  "diagnose (Registered f i md) st = register_entry f i md st"
| "diagnose (Unregistered f i) st = unregister_entry f i st"

text \<open>What a step says of an identifier in a registry: that it holds a value, that it is gone, or nothing.\<close>

fun says :: "string \<Rightarrow> string \<Rightarrow> diagnostics_step \<Rightarrow> metadata option option" where
  "says r i (Registered f j md) =
     (case dict_get registrations f of Some (Some r', _) \<Rightarrow> if r' = r \<and> j = i then Some (Some md) else None | _ \<Rightarrow> None)"
| "says r i (Unregistered f j) = (if dict_get unregistrations f = Some r \<and> j = i then Some None else None)"

fun last_said :: "string \<Rightarrow> string \<Rightarrow> diagnostics_step list \<Rightarrow> metadata option" where
  "last_said r i [] = None"
| "last_said r i (s # earlier) = (case says r i s of None \<Rightarrow> last_said r i earlier | Some v \<Rightarrow> v)"

lemma active_register: "dict_get (active_in (register_entry f j md st) r) i =
    (case dict_get registrations f of Some (Some r', _) \<Rightarrow> if r' = r \<and> i = j then Some md else dict_get (active_in st r) i
     | _ \<Rightarrow> dict_get (active_in st r) i)"
  by (auto simp: register_entry_def active_in_def dict_get_or_def dict_get_set Let_def split: option.splits)

lemma active_unregister: "dict_get (active_in (unregister_entry f j st) r) i =
    (if dict_get unregistrations f = Some r \<and> i = j then None else dict_get (active_in st r) i)"
  by (auto simp: unregister_entry_def active_in_def dict_get_or_def dict_get_set dict_get_del split: option.splits)

lemma active_step: "dict_get (active_in (diagnose s st) r) i = (case says r i s of None \<Rightarrow> dict_get (active_in st r) i | Some v \<Rightarrow> v)"
  by (cases s) (auto simp: active_register active_unregister split: option.split)

lemma active_run: "dict_get (active_in (fold diagnose (rev steps) empty_diagnostics) r) i = last_said r i steps"
proof (induction steps)
  case Nil
  show ?case by (simp add: empty_diagnostics_def active_in_def dict_get_or_def)
next
  case (Cons s steps)
  then show ?case by (simp add: active_step split: option.split)
qed

definition registries_distinct :: "diagnostics_store \<Rightarrow> bool" where
  "registries_distinct st \<longleftrightarrow> (\<forall>r. distinct (map fst (active_in st r)))"

lemma distinct_step: "registries_distinct st \<Longrightarrow> registries_distinct (diagnose s st)"
proof (cases s)
  case (Registered f i md)
  assume d: "registries_distinct st"
  then have "distinct (map fst (dict_set (active_in st r) i md))" for r
    by (simp add: registries_distinct_def distinct_dict_set)
  with d Registered show ?thesis
    by (auto simp: registries_distinct_def register_entry_def active_in_def dict_get_or_def dict_get_set Let_def split: option.splits)
next
  case (Unregistered f i)
  assume d: "registries_distinct st"
  then have "distinct (map fst (dict_del (active_in st r) i))" for r
    by (simp add: registries_distinct_def distinct_dict_del)
  with d Unregistered show ?thesis
    by (auto simp: registries_distinct_def unregister_entry_def active_in_def dict_get_or_def dict_get_set split: option.splits)
qed

lemma distinct_run: "registries_distinct (fold diagnose steps empty_diagnostics)"
proof -
  have "registries_distinct st \<Longrightarrow> registries_distinct (fold diagnose steps st)" for st
    by (induction steps arbitrary: st) (simp_all add: distinct_step)
  moreover have "registries_distinct empty_diagnostics" by (simp add: registries_distinct_def empty_diagnostics_def active_in_def dict_get_or_def)
  ultimately show ?thesis by blast
qed

definition field_names :: "string option \<Rightarrow> string option \<Rightarrow> string list" where
  "field_names r slot = (case r of None \<Rightarrow> [] | Some r \<Rightarrow> [r @ ''_count'', r]) @ (case slot of None \<Rightarrow> [] | Some l \<Rightarrow> [l])"

lemma snapshot_names: "map fst (get_diagnostics_snapshot st) = concat (map (\<lambda>(_, r, slot). field_names r slot) registrations)"
proof -
  have "map fst (snapshot_fields st r slot) = field_names r slot" for r slot
    by (simp add: snapshot_fields_def field_names_def split: option.split)
  then show ?thesis by (simp add: get_diagnostics_snapshot_def map_concat comp_def case_prod_unfold)
qed

lemma snapshot_distinct: "distinct (map fst (get_diagnostics_snapshot st))"
  unfolding snapshot_names by code_simp

lemma snapshot_field:
  "(f, r, slot) \<in> set registrations \<Longrightarrow> (k, v) \<in> set (snapshot_fields st r slot) \<Longrightarrow> dict_get (get_diagnostics_snapshot st) k = Some v"
  using snapshot_distinct [of st] by (auto simp: get_diagnostics_snapshot_def)

fun registered_in :: "string \<Rightarrow> diagnostics_step list \<Rightarrow> string list" where
  "registered_in r [] = []"
| "registered_in r (Registered f i md # steps) =
     (if map_option fst (dict_get registrations f) = Some (Some r) then i # registered_in r steps else registered_in r steps)"
| "registered_in r (Unregistered f i # steps) = registered_in r steps"

lemma last_said_registered:
  "r \<notin> snd ` set unregistrations \<Longrightarrow> last_said r i steps \<noteq> None \<longleftrightarrow> i \<in> set (registered_in r steps)"
proof (induction steps)
  case (Cons s steps)
  have "dict_get unregistrations f \<noteq> Some r" for f using Cons.prems by (force dest: map_of_SomeD)
  with Cons show ?case by (cases s) (auto split: option.splits)
qed simp

lemma registered_rev: "set (registered_in r (rev steps)) = set (registered_in r steps)"
proof -
  have a: "registered_in r (xs @ ys) = registered_in r xs @ registered_in r ys" for xs ys
    by (induction xs rule: registered_in.induct) auto
  show ?thesis
  proof (induction steps)
    case (Cons s steps)
    then show ?case by (cases s) (auto simp: a)
  qed simp
qed

definition diagnosed :: "diagnostics_step list \<Rightarrow> diagnostics_store" where
  "diagnosed steps = fold diagnose steps empty_diagnostics"

text \<open>
  What the live registries hold.  After any sequence of registrations and removals a
  registry holds for an identifier what the last step about it registered, and nothing if
  that was a removal or there was none; the snapshot counts and lists exactly these.  A
  registry without a removal function, which are all but six, never shrinks: it holds every
  identifier that was ever registered in it.
\<close>

theorem registries_exact:
  assumes "(f, Some r, slot) \<in> set registrations"
  shows "dict_get (active_in (diagnosed steps) r) i = last_said r i (rev steps)
    \<and> dict_get (get_diagnostics_snapshot (diagnosed steps)) (r @ ''_count'') = Some (JInt (int (card {i. last_said r i (rev steps) \<noteq> None})))
    \<and> dict_get (get_diagnostics_snapshot (diagnosed steps)) r = Some (JList (map (\<lambda>(_, md). JObj md) (active_in (diagnosed steps) r)))
    \<and> (r \<notin> snd ` set unregistrations \<longrightarrow> {i. last_said r i (rev steps) \<noteq> None} = set (registered_in r steps))"
proof -
  have run: "dict_get (active_in (diagnosed steps) r) i = last_said r i (rev steps)" for i
    using active_run [of "rev steps" r i] by (simp add: diagnosed_def)
  have "distinct (map fst (active_in (diagnosed steps) r))" using distinct_run [of steps] by (simp add: registries_distinct_def diagnosed_def)
  then have "card (fst ` set (active_in (diagnosed steps) r)) = length (active_in (diagnosed steps) r)" by (metis distinct_card length_map list.set_map)
  moreover have "fst ` set (active_in (diagnosed steps) r) = {i. last_said r i (rev steps) \<noteq> None}"
    unfolding run [symmetric] dict_get_None_iff by auto
  ultimately have card: "int (length (active_in (diagnosed steps) r)) = int (card {i. last_said r i (rev steps) \<noteq> None})" by simp
  have "dict_get (get_diagnostics_snapshot (diagnosed steps)) (r @ ''_count'') = Some (JInt (int (length (active_in (diagnosed steps) r))))"
    "dict_get (get_diagnostics_snapshot (diagnosed steps)) r = Some (JList (map (\<lambda>(_, md). JObj md) (active_in (diagnosed steps) r)))"
    by (rule snapshot_field [OF assms(1)]; simp add: snapshot_fields_def)+
  moreover have "{i. last_said r i (rev steps) \<noteq> None} = set (registered_in r steps)" if "r \<notin> snd ` set unregistrations"
    using last_said_registered [OF that, of _ "rev steps"] registered_rev [of r steps] by blast
  ultimately show ?thesis using run card by simp
qed

theorem registries_exact_witness:
  "dict_get (get_diagnostics_snapshot (diagnosed [Registered ''goal_trace'' ''a'' [], Registered ''goal_trace'' ''b'' [], Unregistered ''execution'' ''a''])) ''active_goal_traces_count'' = Some (JInt 2)"
proof -
  let ?steps = "[Registered ''goal_trace'' ''a'' [], Registered ''goal_trace'' ''b'' [], Unregistered ''execution'' ''a'']"
  have reg: "(''goal_trace'', Some ''active_goal_traces'', Some ''last_goal_trace'') \<in> set registrations" by (simp add: registrations_def)
  have "''active_goal_traces'' \<notin> snd ` set unregistrations" by (simp add: unregistrations_def)
  with registries_exact [OF reg, of ?steps]
  have "dict_get (get_diagnostics_snapshot (diagnosed ?steps)) ''active_goal_traces_count''
      = Some (JInt (int (card (set (registered_in ''active_goal_traces'' ?steps)))))" by simp
  moreover have "set (registered_in ''active_goal_traces'' ?steps) = {''a'', ''b''}" by (simp add: registrations_def)
  ultimately show ?thesis by simp
qed

section \<open>What a search finds\<close>

lemma search_loop_filter: "search_loop terms items = filter (\<lambda>item. list_all (\<lambda>t. term_matches t item) terms) items"
  by (induction items) (auto simp: list_all_iff list_ex_iff)

text \<open>
  A search of the observatory.  The matches are, in the order of timeline, runtime graph
  and execution graph, exactly the entries whose text contains every term that is given and
  not empty: without one everything matches, and a further term only removes matches.
\<close>

theorem search_exact:
  assumes "length values = length search_terms"
  shows "dict_get (search_runtime now rc values) ''matches'' = Some (JList (filter (\<lambda>item. list_all (\<lambda>v. case v of
        Some (c # cs) \<Rightarrow> py_in (c # cs) (py_str (search_candidate item)) | _ \<Rightarrow> True) values) (search_space rc)))
    \<and> (list_all (\<lambda>v. v = None \<or> v = Some []) values \<longrightarrow> dict_get (search_runtime now rc values) ''matches'' = Some (JList (search_space rc)))"
proof -
  have "list_all (\<lambda>t. term_matches t item) (zip search_terms values) = list_all (\<lambda>v. case v of
        Some (c # cs) \<Rightarrow> py_in (c # cs) (py_str (search_candidate item)) | _ \<Rightarrow> True) values" for item
    using assms(1) by (simp add: list_all_length term_matches_def)
  then have m: "dict_get (search_runtime now rc values) ''matches'' = Some (JList (filter (\<lambda>item. list_all (\<lambda>v. case v of
        Some (c # cs) \<Rightarrow> py_in (c # cs) (py_str (search_candidate item)) | _ \<Rightarrow> True) values) (search_space rc)))"
    by (simp add: search_runtime_def search_loop_filter Let_def)
  have "list_all (\<lambda>v. case v of Some (c # cs) \<Rightarrow> py_in (c # cs) (py_str (search_candidate item)) | _ \<Rightarrow> True) values"
    if "list_all (\<lambda>v. v = None \<or> v = Some []) values" for item
    using that by (rule list.pred_mono_strong) auto
  with m show ?thesis by simp
qed

end
