(* ===== verification/Observatory_Api.thy ===== *)
theory Observatory_Api
  imports Observatory Directory_Security
begin

text \<open>
  The observability service (\<open>services/observability_service.py\<close>) and its endpoints
  (\<open>api/v1/observability.py\<close>): the context it assembles from the diagnostics, the
  observatory, and who may read what.

  A span is stored as the dictionary it is exported as.  \<open>sub_get\<close> is
  \<open>(diagnostics.get(key) or {}).get(name, default)\<close>.
\<close>

section \<open>The runtime context\<close>

definition sub_get :: "metadata \<Rightarrow> string \<Rightarrow> string \<Rightarrow> json \<Rightarrow> json" where
  "sub_get dg key name dflt = (case obj_get dg key of JObj d \<Rightarrow> dict_get_or d name dflt | _ \<Rightarrow> dflt)"

definition runtime_context_dict :: "metadata \<Rightarrow> metadata list \<Rightarrow> json \<Rightarrow> metadata" where
  "runtime_context_dict dg traces version =
    [(''runtime_version'', version), (''execution_context'', obj_get dg ''last_execution_context''),
     (''cognitive_state'', sub_get dg ''last_cognitive_analysis'' ''cognitive_state'' JNull), (''execution_blueprint'', obj_get dg ''last_execution_blueprint''),
     (''goal_report'', obj_get dg ''last_goal_report''), (''task_reports'', rc_list dg ''active_task_reports''),
     (''reflection_report'', obj_get dg ''last_reflection_report''), (''evaluation_report'', obj_get dg ''last_evaluation_report''),
     (''learning_report'', obj_get dg ''last_learning_report''), (''adaptive_plan'', obj_get dg ''last_adaptive_plan''),
     (''long_term_intelligence'', obj_get dg ''last_long_term_intelligence''), (''runtime_optimization'', obj_get dg ''last_runtime_optimization''),
     (''runtime_governance'', obj_get dg ''last_runtime_governance''), (''multi_agent_orchestrator'', obj_get dg ''last_multi_agent_orchestration''),
     (''memory'', obj_get dg ''last_long_term_intelligence''), (''knowledge'', obj_get dg ''last_long_term_intelligence''),
     (''rag'', obj_get dg ''last_learning_report''), (''workflow'', rc_list dg ''active_workflows''),
     (''tool_execution'', obj_get dg ''last_execution_engine''), (''provider'', obj_get dg ''last_execution_engine''),
     (''prompt_builder'', obj_get dg ''last_execution_context''), (''execution_engine'', obj_get dg ''last_execution_engine''),
     (''capability_dispatcher'', obj_get dg ''last_execution_engine''), (''native_executors'', rc_list dg ''active_capability_events''),
     (''business_services'', rc_list dg ''active_execution_engines''), (''repositories'', rc_list dg ''active_execution_engines''),
     (''persistence'', obj_get dg ''last_long_term_intelligence''), (''response'', obj_get dg ''last_execution_context''),
     (''active_goals'', rc_list dg ''active_goal_reports''), (''active_tasks'', rc_list dg ''active_task_reports''),
     (''execution_trace'', JList (map JObj traces)), (''provider_name'', sub_get dg ''last_execution_engine'' ''provider'' JNull),
     (''model'', sub_get dg ''last_execution_engine'' ''model'' JNull), (''streaming'', rc_list dg ''active_streams''),
     (''capability_scores'', sub_get dg ''last_long_term_intelligence'' ''capability_scores'' (JObj [])), (''preferences'', sub_get dg ''last_long_term_intelligence'' ''evolved_preferences'' (JList [])),
     (''supervisor_agent'', obj_get dg ''last_multi_agent_orchestration''), (''worker_agents'', sub_get dg ''last_multi_agent_orchestration'' ''worker_agent_ids'' (JList [])),
     (''delegated_tasks'', sub_get dg ''last_multi_agent_orchestration'' ''delegated_tasks'' (JList [])), (''aggregated_results'', sub_get dg ''last_multi_agent_orchestration'' ''aggregated_results'' (JList []))]"

text \<open>
  The runtime version is read with \<open>diagnostics.get("last_execution_context", {})\<close>: the key is
  always there, with the value \<open>None\<close> until a context is registered, and \<open>None\<close> has no \<open>get\<close>.
\<close>

definition runtime_version_of :: "metadata \<Rightarrow> (service_error, json) result" where
  "runtime_version_of dg =
     (case dict_get_or dg ''last_execution_context'' (JObj []) of
        JObj d \<Rightarrow> (case dict_get_or d ''execution_context'' (JObj []) of JObj e \<Rightarrow> Ok (obj_get e ''runtime_version'') | _ \<Rightarrow> Err internal_error)
      | _ \<Rightarrow> Err internal_error)"

definition build_runtime_context_dict :: "metadata \<Rightarrow> metadata list \<Rightarrow> (service_error, metadata) result" where
  "build_runtime_context_dict dg traces = bind_ok (runtime_version_of dg) (\<lambda>v. Ok (runtime_context_dict dg traces v))"

definition observatory_dict :: "string \<Rightarrow> metadata \<Rightarrow> metadata list \<Rightarrow> metadata \<Rightarrow> metadata" where
  "observatory_dict now dg traces rc =
    [(''request_details'', JObj [(''conversation_id'', JNull), (''user_id'', JNull), (''organization_id'', JNull), (''runtime_version'', JNull), (''provider'', JNull), (''model'', JNull), (''streaming_enabled'', JNull), (''execution_duration_ms'', JNull), (''request_status'', JStr ''unknown'')]),
     (''live_pipeline'', JObj dg), (''cognitive_analysis'', obj_get dg ''last_cognitive_analysis''),
     (''execution_blueprint'', obj_get dg ''last_execution_blueprint''), (''execution_engine'', obj_get dg ''last_execution_engine''),
     (''execution_initialized'', sub_get dg ''last_execution_engine'' ''execution_initialized'' (JBool False)), (''execution_state'', sub_get dg ''last_execution_engine'' ''execution_state'' JNull),
     (''current_task'', sub_get dg ''last_execution_engine'' ''current_task'' JNull), (''completed_tasks'', sub_get dg ''last_execution_engine'' ''completed_tasks'' (JList [])),
     (''pending_tasks'', sub_get dg ''last_execution_engine'' ''pending_tasks'' (JList [])), (''execution_timeline'', sub_get dg ''last_execution_engine'' ''execution_timeline'' (JList [])),
     (''execution_results'', sub_get dg ''last_execution_engine'' ''execution_results'' (JList [])), (''capability_resolution'', obj_get dg ''last_capability_event''),
     (''capability_events'', rc_list dg ''active_capability_events''), (''reflection_report'', obj_get dg ''last_reflection_report''),
     (''reflection_reports'', rc_list dg ''active_reflection_reports''), (''evaluation_report'', obj_get dg ''last_evaluation_report''),
     (''evaluation_reports'', rc_list dg ''active_evaluation_reports''), (''learning_report'', obj_get dg ''last_learning_report''),
     (''learning_reports'', rc_list dg ''active_learning_reports''), (''learning_policy'', obj_get dg ''last_learning_policy''),
     (''learning_policies'', rc_list dg ''active_learning_policies''), (''adaptive_plan'', obj_get dg ''last_adaptive_plan''),
     (''adaptive_plans'', rc_list dg ''active_adaptive_plans''), (''long_term_intelligence'', obj_get dg ''last_long_term_intelligence''),
     (''long_term_intelligences'', rc_list dg ''active_long_term_intelligence''), (''runtime_optimization'', obj_get dg ''last_runtime_optimization''),
     (''runtime_optimizations'', rc_list dg ''active_runtime_optimizations''), (''runtime_governance'', obj_get dg ''last_runtime_governance''),
     (''runtime_governances'', rc_list dg ''active_runtime_governance''), (''goal_report'', obj_get dg ''last_goal_report''),
     (''goal_reports'', rc_list dg ''active_goal_reports''), (''goal_trace'', obj_get dg ''last_goal_trace''),
     (''goal_traces'', rc_list dg ''active_goal_traces''), (''task_report'', obj_get dg ''last_task_report''),
     (''task_reports'', rc_list dg ''active_task_reports''), (''task_trace'', obj_get dg ''last_task_trace''),
     (''task_traces'', rc_list dg ''active_task_traces''), (''task_queue_state'', obj_get dg ''last_task_report''),
     (''autonomous_execution'', obj_get dg ''last_autonomous_execution''), (''autonomous_executions'', rc_list dg ''active_autonomous_executions''),
     (''timeline'', JList (map JObj traces)), (''runtime_graph'', build_runtime_graph rc),
     (''execution_graph'', build_execution_graph rc), (''goal_graph'', build_goal_graph rc),
     (''task_graph'', get_task_graph rc), (''memory_graph'', build_memory_graph rc),
     (''provider_graph'', build_provider_graph rc), (''multi_agent_graph'', build_multi_agent_graph rc),
     (''runtime_snapshot'', JObj (build_snapshot now rc)), (''architecture'', get_runtime_architecture)]"

section \<open>Endpoints\<close>

record 'f telemetry_db =
  te_access :: acdb
  te_metrics :: "'f metric_backend"
  te_diagnostics :: diagnostics_store
  te_traces :: "metadata list"
  te_audit :: audit_store

datatype operations_request =
    Get_Metrics
  | Get_Provider_Metrics
  | Get_Executions
  | Get_Streams
  | Get_Workflows
  | Get_Multi_Agent
  | Get_Audit int int "int option"
  | Get_Observatory
  | Get_Architecture
  | Search_Runtime "string option list"

datatype 'f operations_answer =
    Metrics_Answer "'f metric_backend"
  | Provider_Answer "(string, (string, int) dict) dict" "(string, (string \<times> 'f \<times> tags) list) dict"
  | Json_Answer metadata
  | Audit_Answer "(int \<times> audit_event) list"

definition select_fields :: "string list \<Rightarrow> metadata \<Rightarrow> metadata" where
  "select_fields ks d = map (\<lambda>k. (k, obj_get d k)) ks"

definition executions_response :: "string list" where
  "executions_response = [''active_executions_count'', ''active_executions'', ''active_streams_count'', ''active_streams'',
     ''active_sessions_count'', ''active_sessions'', ''active_workflows_count'', ''active_workflows'']"

definition get_runtime_observatory :: "string \<Rightarrow> 'f telemetry_db \<Rightarrow> (service_error, metadata) result" where
  "get_runtime_observatory now s =
     (let dg = get_diagnostics_snapshot (te_diagnostics s) in
      bind_ok (build_runtime_context_dict dg (te_traces s)) (\<lambda>rc. Ok (observatory_dict now dg (te_traces s) rc)))"

definition search_runtime_observability :: "string \<Rightarrow> string option list \<Rightarrow> 'f telemetry_db \<Rightarrow> (service_error, metadata) result" where
  "search_runtime_observability now terms s =
     bind_ok (build_runtime_context_dict (get_diagnostics_snapshot (te_diagnostics s)) (te_traces s)) (\<lambda>rc. Ok (search_runtime now rc terms))"

text \<open>The service of the audit log is built before the parameters of the request are checked.\<close>

definition read_audit :: "int \<Rightarrow> int \<Rightarrow> int option \<Rightarrow> ('f telemetry_db, 'f operations_answer) handler" where
  "read_audit skip n org s =
     (let s1 = s\<lparr>te_audit := audit_service_init (te_audit s)\<rparr> in
      if 0 \<le> skip \<and> 1 \<le> n \<and> n \<le> 1000 then (Ok (Audit_Answer (get_audit_logs (nat skip) (nat n) org (te_audit s1))), s1)
      else (Err (HttpError 422 ''Unprocessable Entity''), s1))"

definition operations_permission :: "operations_request \<Rightarrow> string" where
  "operations_permission req = (case req of Get_Audit _ _ _ \<Rightarrow> ''audit:read'' | _ \<Rightarrow> ''operations:read'')"

definition json_answer :: "(service_error, metadata) result \<Rightarrow> (service_error, 'f operations_answer) result" where
  "json_answer r = bind_ok r (\<lambda>d. Ok (Json_Answer d))"

definition operations_body :: "string \<Rightarrow> operations_request \<Rightarrow> ('f telemetry_db, 'f operations_answer) handler" where
  "operations_body now req s =
     (let dg = get_diagnostics_snapshot (te_diagnostics s) in
      case req of
        Get_Metrics \<Rightarrow> (Ok (Metrics_Answer (te_metrics s)), s)
      | Get_Provider_Metrics \<Rightarrow> (let (c, h) = provider_metrics (te_metrics s) in (Ok (Provider_Answer c h), s))
      | Get_Executions \<Rightarrow> (Ok (Json_Answer (select_fields executions_response dg)), s)
      | Get_Streams \<Rightarrow> (Ok (Json_Answer (select_fields [''active_streams_count'', ''active_streams''] dg)), s)
      | Get_Workflows \<Rightarrow> (Ok (Json_Answer (select_fields [''active_workflows_count'', ''active_workflows''] dg)), s)
      | Get_Multi_Agent \<Rightarrow> (Ok (Json_Answer (select_fields [''active_sessions_count'', ''active_sessions''] dg)), s)
      | Get_Audit skip n org \<Rightarrow> read_audit skip n org s
      | Get_Observatory \<Rightarrow> (json_answer (get_runtime_observatory now s), s)
      | Get_Architecture \<Rightarrow> (Ok (Json_Answer (json_dict get_runtime_architecture)), s)
      | Search_Runtime terms \<Rightarrow> (json_answer (search_runtime_observability now terms s), s))"

definition serve_operations :: "string \<Rightarrow> auth_env \<Rightarrow> credentials \<Rightarrow> operations_request \<Rightarrow> ('f telemetry_db, 'f operations_answer) handler" where
  "serve_operations now ev cr req =
     depends (\<lambda>s. permitted_user (operations_permission req) ev cr (te_access s)) (\<lambda>cu. operations_body now req)"

section \<open>When the observatory answers\<close>

definition execution_registered :: "diagnostics_step list \<Rightarrow> bool" where
  "execution_registered steps = list_ex (\<lambda>s. case s of Registered f _ _ \<Rightarrow> f = ''execution_context'' | _ \<Rightarrow> False) steps"

text \<open>What the runtimes register_entry as an execution context carries a dictionary under that name, or none.\<close>

definition well_shaped :: "diagnostics_step \<Rightarrow> bool" where
  "well_shaped s =
     (case s of
        Registered f _ md \<Rightarrow> f = ''execution_context'' \<longrightarrow> (case dict_get md ''execution_context'' of None \<Rightarrow> True | Some (JObj _) \<Rightarrow> True | _ \<Rightarrow> False)
      | Unregistered _ _ \<Rightarrow> True)"

definition context_slot :: "diagnostics_store \<Rightarrow> metadata option" where
  "context_slot st = dict_get (ds_last st) ''last_execution_context''"

lemma slot_writer:
  "dict_get registrations f = Some (r, Some ''last_execution_context'') \<Longrightarrow> f = ''execution_context''"
proof -
  have "list_all (\<lambda>(f, r, slot). slot = Some ''last_execution_context'' \<longrightarrow> f = ''execution_context'') registrations" by code_simp
  then show "dict_get registrations f = Some (r, Some ''last_execution_context'') \<Longrightarrow> ?thesis"
    by (auto simp: list_all_iff dest!: map_of_SomeD)
qed

lemma slot_step: "context_slot (diagnose s st) =
    (case s of Registered f _ md \<Rightarrow> if f = ''execution_context'' then Some md else context_slot st | Unregistered _ _ \<Rightarrow> context_slot st)"
proof (cases s)
  case (Registered f i md)
  show ?thesis
  proof (cases "f = ''execution_context''")
    case True
    have "dict_get registrations ''execution_context'' = Some (None, Some ''last_execution_context'')" by code_simp
    with Registered True show ?thesis by (simp add: register_entry_def context_slot_def dict_get_set)
  next
    case False
    then have "dict_get registrations f \<noteq> Some (r, Some ''last_execution_context'')" for r using slot_writer by blast
    with Registered False show ?thesis
      by (auto simp: register_entry_def context_slot_def dict_get_set Let_def split: option.split)
  qed
qed (auto simp: unregister_entry_def context_slot_def split: option.split)

definition slot_shaped :: "diagnostics_store \<Rightarrow> bool" where
  "slot_shaped st = (case context_slot st of None \<Rightarrow> True | Some md \<Rightarrow> well_shaped (Registered ''execution_context'' [] md))"

lemma slot_run: "context_slot (fold diagnose steps st) = None \<longleftrightarrow> context_slot st = None \<and> \<not> execution_registered steps"
proof (induction steps arbitrary: st)
  case (Cons s steps)
  then show ?case by (cases s) (auto simp: slot_step execution_registered_def simp del: diagnose.simps)
qed (simp add: execution_registered_def)

lemma slot_shaped_run: "list_all well_shaped steps \<Longrightarrow> slot_shaped st \<Longrightarrow> slot_shaped (fold diagnose steps st)"
proof (induction steps arbitrary: st)
  case (Cons s steps)
  have "slot_shaped (diagnose s st)"
    using Cons.prems unfolding slot_shaped_def slot_step by (cases s) (auto simp: well_shaped_def)
  with Cons show ?case by simp
qed simp

lemma version_ok:
  "is_ok (runtime_version_of (get_diagnostics_snapshot st)) \<longleftrightarrow>
    (case context_slot st of None \<Rightarrow> False | Some md \<Rightarrow> well_shaped (Registered ''execution_context'' [] md))"
proof -
  have "(''execution_context'', None, Some ''last_execution_context'') \<in> set registrations" by (simp add: registrations_def)
  from snapshot_field [OF this, of "''last_execution_context''" "last_json st ''last_execution_context''" st]
  have "dict_get (get_diagnostics_snapshot st) ''last_execution_context'' = Some (last_json st ''last_execution_context'')"
    by (simp add: snapshot_fields_def)
  then show ?thesis
    by (auto simp: runtime_version_of_def dict_get_or_def last_json_def context_slot_def well_shaped_def split: option.split json.split)
qed

lemma version_error: "\<not> is_ok (runtime_version_of dg) \<Longrightarrow> runtime_version_of dg = Err internal_error"
  by (auto simp: runtime_version_of_def split: json.splits)

text \<open>
  The observatory and its search fail until the first execution context has been
  registered.  A user who may read operations gets an internal error from either before
  that, and an answer ever after.
\<close>

theorem observatory_needs_execution:
  assumes "permitted_user ''operations:read'' ev cr (te_access s) = Inr cu"
    and "te_diagnostics s = diagnosed steps" and "list_all well_shaped steps"
  shows "(if execution_registered steps
      then is_ok (fst (serve_operations now ev cr Get_Observatory s)) \<and> is_ok (fst (serve_operations now ev cr (Search_Runtime terms) s))
      else fst (serve_operations now ev cr Get_Observatory s) = Err internal_error
        \<and> fst (serve_operations now ev cr (Search_Runtime terms) s) = Err internal_error)
    \<and> snd (serve_operations now ev cr Get_Observatory s) = s"
proof -
  let ?v = "runtime_version_of (get_diagnostics_snapshot (te_diagnostics s))"
  have none: "context_slot empty_diagnostics = None" by (simp add: context_slot_def empty_diagnostics_def)
  then have "slot_shaped empty_diagnostics" by (simp add: slot_shaped_def)
  from slot_shaped_run [OF assms(3) this] slot_run [of steps empty_diagnostics] none
  have ok: "is_ok ?v \<longleftrightarrow> execution_registered steps"
    by (auto simp: version_ok assms(2) diagnosed_def slot_shaped_def split: option.splits)
  have serve: "serve_operations now ev cr req s = operations_body now req s" if "operations_permission req = ''operations:read''" for req
    using assms(1) that by (simp add: serve_operations_def depends_def)
  show ?thesis
  proof (cases ?v)
    case (Inl x)
    then have "?v = Err internal_error" using version_error [of "get_diagnostics_snapshot (te_diagnostics s)"] by simp
    with ok show ?thesis
      by (simp add: serve operations_permission_def operations_body_def json_answer_def get_runtime_observatory_def
          search_runtime_observability_def build_runtime_context_dict_def Let_def)
  next
    case (Inr v)
    with ok show ?thesis
      by (simp add: serve operations_permission_def operations_body_def json_answer_def get_runtime_observatory_def
          search_runtime_observability_def build_runtime_context_dict_def Let_def)
  qed
qed

text \<open>The timeline is drawn from exported spans, which have none of the fields it reads.\<close>

lemma timeline_of_spans:
  assumes "list_all (\<lambda>item. \<exists>a b c sp. item = span_dict a b c sp) trace"
  shows "list_all (\<lambda>entry. dict_get entry ''stage_name'' = Some (JStr ''unknown'') \<and> dict_get entry ''started_at'' = Some JNull
    \<and> dict_get entry ''duration_seconds'' = Some JNull \<and> dict_get entry ''parent_stage'' = Some JNull) (build_timeline trace)"
proof -
  have "\<forall>x\<in>set trace. obj_get x ''stage_name'' = JNull \<and> dict_get_or x ''stage_name'' (JStr ''unknown'') = JStr ''unknown''
      \<and> obj_get x ''started_at'' = JNull \<and> obj_get x ''duration_seconds'' = JNull"
    using assms by (auto simp: list_all_iff span_dict_def obj_get_def dict_get_or_def)
  moreover have "(case before of None \<Rightarrow> True | Some p \<Rightarrow> obj_get p ''stage_name'' = JNull) \<Longrightarrow> \<forall>x\<in>set trace. obj_get x ''stage_name'' = JNull
      \<and> dict_get_or x ''stage_name'' (JStr ''unknown'') = JStr ''unknown'' \<and> obj_get x ''started_at'' = JNull \<and> obj_get x ''duration_seconds'' = JNull
      \<Longrightarrow> list_all (\<lambda>entry. dict_get entry ''stage_name'' = Some (JStr ''unknown'') \<and> dict_get entry ''started_at'' = Some JNull
        \<and> dict_get entry ''duration_seconds'' = Some JNull \<and> dict_get entry ''parent_stage'' = Some JNull) (timeline_from before trace)" for before
  proof (induction trace arbitrary: before)
    case (Cons item trace)
    then show ?case by (cases before) (simp_all add: timeline_entry_def)
  qed simp
  ultimately show ?thesis by (simp add: build_timeline_def)
qed

text \<open>Who may read the audit log reads it for every organization: membership is not asked for.\<close>

lemma audit_of_any_organization:
  "permitted_user ''audit:read'' ev cr (te_access s) = Inr cu \<Longrightarrow> 0 \<le> skip \<Longrightarrow> 1 \<le> n \<Longrightarrow> n \<le> 1000 \<Longrightarrow>
    fst (serve_operations now ev cr (Get_Audit skip n org) s) = Ok (Audit_Answer (get_audit_logs (nat skip) (nat n) org (te_audit s)))"
  by (simp add: serve_operations_def depends_def operations_permission_def operations_body_def read_audit_def Let_def
      get_audit_logs_def audit_service_init_def)

section \<open>Examples\<close>

definition quiet_db :: "unit telemetry_db" where
  "quiet_db = \<lparr>te_access = (empty_acdb [])\<lparr>users := [(7, \<lparr>u_full_name = ''R'', u_email = ''r@x'', u_password_hash = [], u_is_active = True, u_is_superuser = True\<rparr>)]\<rparr>,
     te_metrics = \<lparr>mb_counters = [], mb_gauges = [], mb_histograms = []\<rparr>, te_diagnostics = diagnosed [], te_traces = [],
     te_audit = \<lparr>as_handlers = 0, as_rows = []\<rparr>\<rparr>"

lemma quiet_user: "permitted_user p sample_auth sample_token (te_access quiet_db) =
    Inr (7, \<lparr>u_full_name = ''R'', u_email = ''r@x'', u_password_hash = [], u_is_active = True, u_is_superuser = True\<rparr>)"
proof -
  have "active_user sample_auth sample_token (te_access quiet_db) =
      Inr (7, \<lparr>u_full_name = ''R'', u_email = ''r@x'', u_password_hash = [], u_is_active = True, u_is_superuser = True\<rparr>)"
    by (simp add: active_user_def current_user_def sample_token_def sample_auth_def get_current_user_def decode_access_token_def plain_jwt
        get_current_active_user_def quiet_db_def empty_acdb_def repo_get_def) code_simp
  then show ?thesis by (simp add: permitted_user_def RequirePermission_def)
qed

theorem observatory_needs_execution_witness:
  "fst (serve_operations ''now'' sample_auth sample_token Get_Observatory quiet_db) = Err internal_error
   \<and> is_ok (fst (serve_operations ''now'' sample_auth sample_token (Search_Runtime [])
       (quiet_db\<lparr>te_diagnostics := diagnosed [Registered ''execution_context'' ''e'' []]\<rparr>)))"
proof -
  let ?s = "quiet_db\<lparr>te_diagnostics := diagnosed [Registered ''execution_context'' ''e'' []]\<rparr>"
  have "permitted_user ''operations:read'' sample_auth sample_token (te_access ?s) =
    Inr (7, \<lparr>u_full_name = ''R'', u_email = ''r@x'', u_password_hash = [], u_is_active = True, u_is_superuser = True\<rparr>)"
    using quiet_user by simp
  from observatory_needs_execution [OF this, of "[Registered ''execution_context'' ''e'' []]" "''now''" "[]"]
    observatory_needs_execution [OF quiet_user, of "[]" "''now''" "[]"]
  show ?thesis by (simp add: execution_registered_def well_shaped_def) (simp add: quiet_db_def)
qed

end
