(* ===== verification/Native_Executors.thy ===== *)
theory Native_Executors
  imports Runtime_V2
begin

text \<open>
  The native executors of Runtime V2 beside that of the provider
  (\<open>runtime/native_executors.py\<close>): each calls one service with parameters it looks up in the
  metadata of the task.

  The services are functions on the state of the world, with the types of their methods.
  Durations and time stamps are left out; a parameter of the metadata is an integer or a string.
\<close>

section \<open>Services and parameters\<close>

record 'w native_services =
  ns_memories :: "int option \<Rightarrow> int \<Rightarrow> string \<Rightarrow> int \<Rightarrow> 'w \<Rightarrow> (string, int list) result \<times> 'w"
  ns_knowledge_bases :: "int option \<Rightarrow> 'w \<Rightarrow> (string, string list) result \<times> 'w"
  ns_documents :: "int \<Rightarrow> 'w \<Rightarrow> (string, string list) result \<times> 'w"
  ns_retrieve :: "int \<Rightarrow> string \<Rightarrow> int \<Rightarrow> int \<Rightarrow> 'w \<Rightarrow> (string, string) result \<times> 'w"
  ns_workflow :: "int \<Rightarrow> int \<Rightarrow> int option \<Rightarrow> gov_user \<Rightarrow> 'w \<Rightarrow> (string, int \<times> string) result \<times> 'w"
  ns_tools :: "json \<Rightarrow> gov_user option \<Rightarrow> int \<Rightarrow> int \<Rightarrow> int \<Rightarrow> 'w \<Rightarrow> (string, string) result \<times> 'w"
  ns_stream :: "run_payload \<Rightarrow> gov_user option \<Rightarrow> int \<Rightarrow> 'w \<Rightarrow> (string, nat) result \<times> 'w"
  ns_show :: "run_payload \<Rightarrow> string"

record native_call =
  nc_user :: "gov_user option"
  nc_organization :: "int option"
  nc_conversation :: "int option"

definition meta_int :: "exec_task \<Rightarrow> string \<Rightarrow> int option" where
  "meta_int t k = (case dict_get (et_metadata t) k of Some (JInt n) \<Rightarrow> Some n | _ \<Rightarrow> None)"

definition meta_str :: "exec_task \<Rightarrow> string \<Rightarrow> string option" where
  "meta_str t k = (case dict_get (et_metadata t) k of Some (JStr s) \<Rightarrow> Some s | _ \<Rightarrow> None)"

definition default_payload_message :: "'w native_services \<Rightarrow> run_payload \<Rightarrow> string" where
  "default_payload_message sv p =
     (case p of
        ChatPayload c \<Rightarrow> or_str (case payload_message c of Inr s \<Rightarrow> Some s | Inl _ \<Rightarrow> None) (ns_show sv p)
      | ProviderPayload _ \<Rightarrow> ns_show sv p)"

definition int_or :: "int option \<Rightarrow> int option \<Rightarrow> int option" where
  "int_or a b = (case a of Some n \<Rightarrow> if n = 0 then b else Some n | None \<Rightarrow> b)"

definition returning :: "('a \<Rightarrow> 'b) \<Rightarrow> ('x, 'a) result \<times> 'w \<Rightarrow> ('x, 'b) result \<times> 'w" where
  "returning f rw = (map_sum (\<lambda>x. x) f (fst rw), snd rw)"

section \<open>Executors\<close>

definition memory_exec :: "'w native_services \<Rightarrow> native_call \<Rightarrow> (run_payload, 'r chat_output, 'w) executor" where
  "memory_exec sv nc t p w =
     (let query = or_str (meta_str t ''query'') (default_payload_message sv p);
          org = int_or (nc_organization nc) (meta_int t ''organization_id'')
      in returning MemoryKeys
           (ns_memories sv org (or_int (meta_int t ''agent_id'') 0) query (case meta_int t ''top_k'' of None \<Rightarrow> 5 | Some k \<Rightarrow> k) w))"

definition knowledge_exec :: "'w native_services \<Rightarrow> native_call \<Rightarrow> (run_payload, 'r chat_output, 'w) executor" where
  "knowledge_exec sv nc t p w =
     (let org = (if et_metadata t = [] then nc_organization nc else int_or (nc_organization nc) (meta_int t ''organization_id''))
      in returning KnowledgeNames
           (case meta_int t ''kb_id'' of None \<Rightarrow> ns_knowledge_bases sv org w | Some kb \<Rightarrow> ns_documents sv kb w))"

definition rag_exec :: "'w native_services \<Rightarrow> native_call \<Rightarrow> (run_payload, 'r chat_output, 'w) executor" where
  "rag_exec sv nc t p w =
     returning RetrievedContext
       (ns_retrieve sv (or_int (meta_int t ''kb_id'') 0) (or_str (meta_str t ''query'') (default_payload_message sv p))
          (case meta_int t ''top_k'' of None \<Rightarrow> 5 | Some k \<Rightarrow> k)
          (case meta_int t ''max_tokens'' of None \<Rightarrow> 2000 | Some k \<Rightarrow> k) w)"

definition workflow_exec :: "'w native_services \<Rightarrow> native_call \<Rightarrow> (run_payload, 'r chat_output, 'w) executor" where
  "workflow_exec sv nc t p w =
     (case (meta_int t ''workflow_id'', nc_user nc) of
        (Some wid, Some user) \<Rightarrow>
          returning (\<lambda>(x, status). WorkflowRun x status)
            (ns_workflow sv wid (or_int (nc_organization nc) 0) (if et_metadata t = [] then Some 0 else meta_int t ''agent_id'') user w)
      | _ \<Rightarrow> (Ok (SkippedWork ''workflow_id missing''), w))"

definition tools_exec :: "'w native_services \<Rightarrow> native_call \<Rightarrow> (run_payload, 'r chat_output, 'w) executor" where
  "tools_exec sv nc t p w =
     (case dict_get (et_metadata t) ''tool_calls'' of
        Some calls \<Rightarrow>
          if \<not> truthy calls then (Ok (SkippedWork ''tool_calls missing''), w)
          else returning ToolResults
            (ns_tools sv calls (nc_user nc) (or_int (nc_organization nc) 0)
               (case meta_int t ''agent_id'' of None \<Rightarrow> 0 | Some a \<Rightarrow> a) (or_int (nc_conversation nc) 0) w)
      | None \<Rightarrow> (Ok (SkippedWork ''tool_calls missing''), w))"

definition streaming_exec :: "'w native_services \<Rightarrow> native_call \<Rightarrow> (run_payload, 'r chat_output, 'w) executor" where
  "streaming_exec sv nc t p w = returning StreamedChunks (ns_stream sv p (nc_user nc) (or_int (nc_organization nc) 0) w)"

definition service_executors :: "'w native_services \<Rightarrow> native_call \<Rightarrow> string \<Rightarrow> (run_payload, 'r chat_output, 'w) executor" where
  "service_executors sv nc i =
     (if i = ''memory'' then memory_exec sv nc
      else if i = ''knowledge'' then knowledge_exec sv nc
      else if i = ''rag'' then rag_exec sv nc
      else if i = ''workflow'' then workflow_exec sv nc
      else if i = ''tools'' then tools_exec sv nc
      else streaming_exec sv nc)"

section \<open>What the tasks carry\<close>

definition carried :: "string set" where
  "carried = {''capability_name'', ''source'', ''expected_output'', ''estimated_complexity'', ''estimated_confidence''}"

lemma task_metadata:
  assumes "t \<in> set (build_execution_tasks b)"
  shows "set (map fst (et_metadata t)) \<subseteq> carried \<and> et_metadata t \<noteq> []"
  using assms
  by (auto simp: build_execution_tasks_def capability_task_def provider_task_def planned_exec_task_def carried_def Let_def split: if_splits)

lemma metadata_lookup:
  assumes "t \<in> set (build_execution_tasks b)" and "k \<notin> carried"
  shows "dict_get (et_metadata t) k = None" and "meta_int t k = None" and "meta_str t k = None"
proof -
  show none: "dict_get (et_metadata t) k = None" using task_metadata [OF assms(1)] assms(2) by (auto simp: dict_get_None_iff)
  show "meta_int t k = None" "meta_str t k = None" by (simp_all add: meta_int_def meta_str_def none)
qed

lemma message_of_payload:
  assumes "pl_kind p \<notin> {ChatRegenerate, ChatRetry}" and "pl_message p \<noteq> []"
  shows "default_payload_message sv (ChatPayload p) = pl_message p"
  using assms by (simp add: default_payload_message_def payload_message_def or_str_def split: list.split)

text \<open>
  The executors of a planned request.  No task that is built from a blueprint carries the
  parameters its executor looks up: whatever was asked, the memories of agent 0 are searched,
  the retrieval reads knowledge base 0, the documents of a knowledge base are never listed, and the executors of workflows and
  of tools skip their work, report it as done and change nothing.
\<close>

theorem tasks_carry_no_parameters:
  assumes "t \<in> set (build_execution_tasks b)" and "nc_organization nc = Some org" and "org \<noteq> 0"
    and "pl_kind p \<notin> {ChatRegenerate, ChatRetry}" and "pl_message p \<noteq> []"
  shows "memory_exec sv nc t (ChatPayload p) w = returning MemoryKeys (ns_memories sv (Some org) 0 (pl_message p) 5 w)
   \<and> knowledge_exec sv nc t (ChatPayload p) w = returning KnowledgeNames (ns_knowledge_bases sv (Some org) w)
   \<and> rag_exec sv nc t (ChatPayload p) w = returning RetrievedContext (ns_retrieve sv 0 (pl_message p) 5 2000 w)
   \<and> workflow_exec sv nc t (ChatPayload p) w = (Ok (SkippedWork ''workflow_id missing''), w)
   \<and> tools_exec sv nc t (ChatPayload p) w = (Ok (SkippedWork ''tool_calls missing''), w)"
proof -
  have "k \<notin> carried" if "k \<in> {''query'', ''organization_id'', ''agent_id'', ''top_k'', ''kb_id'', ''max_tokens'', ''workflow_id'', ''tool_calls''}" for k
    using that by (auto simp: carried_def)
  note none = metadata_lookup [OF assms(1) this]
  show ?thesis
    using assms(2,3) task_metadata [OF assms(1)] message_of_payload [OF assms(4,5), of sv]
    by (simp add: memory_exec_def knowledge_exec_def rag_exec_def workflow_exec_def tools_exec_def none int_or_def or_int_def or_str_def Let_def)
qed

definition demo_blueprint :: blueprint where
  "demo_blueprint = plan (rq_planning demo_ids) (analyze ''hi'' (rq_cognition demo_ids))"

definition demo_call :: native_call where
  "demo_call = \<lparr>nc_user = Some demo_user, nc_organization = Some 1, nc_conversation = None\<rparr>"

theorem tasks_carry_no_parameters_witness:
  "\<exists>t. t \<in> set (build_execution_tasks demo_blueprint) \<and> (\<forall>sv w.
     workflow_exec sv demo_call t (ChatPayload demo_payload) w = (Ok (SkippedWork ''workflow_id missing'') :: (string, nat chat_output) result, w :: nat)
     \<and> rag_exec sv demo_call t (ChatPayload demo_payload) w = returning RetrievedContext (ns_retrieve sv 0 ''hi'' 5 2000 w))"
proof -
  have "bp_capabilities demo_blueprint \<noteq> []"
    using prepared_nonempty [of demo_ids demo_user 1 demo_payload]
    by (simp add: demo_blueprint_def prepare_context_def build_execution_context_def demo_payload_def payload_message_def)
  from select_provider [OF this] obtain t where t: "t \<in> set (build_execution_tasks demo_blueprint)" by blast
  have p: "nc_organization demo_call = Some 1" "(1 :: int) \<noteq> 0" "pl_kind demo_payload \<notin> {ChatRegenerate, ChatRetry}" "pl_message demo_payload \<noteq> []"
    "pl_message demo_payload = ''hi''" by (simp_all add: demo_payload_def demo_call_def)
  show ?thesis
    by (intro exI [of _ t] conjI allI t) (simp_all only: tasks_carry_no_parameters [OF t p(1-4)] p(5))
qed

end
