(* ===== verification/Chat_Api.thy ===== *)
theory Chat_Api
  imports Native_Executors Streaming Intelligence Endpoint
begin

text \<open>
  The chat and streaming endpoints (\<open>api/v1/chat.py\<close>, \<open>api/v1/streaming.py\<close>): the routes in the
  order of \<open>api/router.py\<close>, the guards of each endpoint, the runtime router with both runtimes
  (\<open>dependencies/runtime.py\<close>) and the services behind them.

  The world is the database of the chat service, the runs published to the diagnostics, the registered
  executions and the counters of the streams.  The table of memories is in the part of the database the
  collaborators work on; a pair of functions reads and writes it.  The conversion of a path parameter to an integer,
  which is the framework's, is an argument.
\<close>

section \<open>World and configuration\<close>

record 'e chat_world =
  wd_db :: "'e chat_db"
  wd_published :: "exec_run list"
  wd_diagnostics :: diagnostics
  wd_counters :: stream_counters

type_synonym runtime_answer = "(ai_response + response_schema) chat_output"

record 'e chat_site =
  si_services :: "'e collaborators"
  si_stream :: "'e stream_remote"
  si_keys :: row_keys
  si_models :: "provider_class \<Rightarrow> 'e \<Rightarrow> (string, string list) result \<times> 'e"
  si_native :: "'e chat_db native_services"
  si_memories :: "'e \<Rightarrow> memory table"
  si_put_memories :: "memory table \<Rightarrow> 'e \<Rightarrow> 'e"
  si_intelligence :: intelligence_env
  si_dump :: "runtime_answer \<Rightarrow> json"
  si_render :: "learning_report \<Rightarrow> string"
  si_path_int :: "string \<Rightarrow> int option"
  si_ids :: request_ids
  si_execution_id :: string
  si_analysis_id :: string
  si_planning_id :: string

datatype chat_api_answer =
    Chat_Answer response_schema
  | Conversation_Answer conversation "message table" nat
  | Event_Stream "stream_event list" bool
  | Counters_Answer stream_counters
  | Nothing_To_Say

type_synonym 'e chat_handler = "('e chat_world, chat_api_answer) handler"

definition acting_user :: "int \<times> user_row \<Rightarrow> gov_user" where
  "acting_user cu = \<lparr>gu_id = fst cu, gu_is_active = u_is_active (snd cu), gu_is_superuser = u_is_superuser (snd cu)\<rparr>"

text \<open>A service's HTTP error is the answer; any other exception reaches the handler for all of them.\<close>

definition chat_failure :: "chat_error \<Rightarrow> service_error" where
  "chat_failure x = (case x of ChatHttp code detail \<Rightarrow> HttpError code detail | ChatRaised _ \<Rightarrow> internal_error)"

section \<open>The runtimes behind the router\<close>

definition chat_service_call :: "'e chat_site \<Rightarrow> gov_user \<Rightarrow> int \<Rightarrow> payload_kind \<Rightarrow> int option \<Rightarrow> chat_payload \<Rightarrow> 'e chat_db
    \<Rightarrow> (chat_error, response_schema) result \<times> 'e chat_db" where
  "chat_service_call site user org kind cid p db =
     (case (kind, cid) of
        (ChatContinue, Some c) \<Rightarrow> continue_chat (si_services site) c p user org (si_keys site) db
      | (ChatRegenerate, Some c) \<Rightarrow> regenerate_response (si_services site) c p user org (si_keys site) db
      | (ChatRetry, Some c) \<Rightarrow> retry_failed_message (si_services site) c p user org (si_keys site) db
      | _ \<Rightarrow> create_chat (si_services site) p user org (si_keys site) db)"

definition v1_chat :: "'e chat_site \<Rightarrow> gov_user \<Rightarrow> int \<Rightarrow> int option \<Rightarrow> chat_payload \<Rightarrow> 'e chat_db
    \<Rightarrow> (chat_error, response_schema) result \<times> 'e chat_db" where
  "v1_chat site user org cid p db = v1_execute_chat ChatRaised (chat_service_call site user org) cid p db"

text \<open>The engine of Runtime V2 keeps the text of an exception; the provider executor works on the provider service's part of the world.\<close>

definition exception_text :: "chat_error \<Rightarrow> string" where
  "exception_text x = (case x of ChatHttp code detail \<Rightarrow> show_int code @ '': '' @ detail | ChatRaised s \<Rightarrow> s)"

definition site_provider :: "'e chat_site \<Rightarrow> (run_payload, (ai_response + response_schema) chat_output, 'e chat_db) executor" where
  "site_provider site t p db =
     (case provider_exec (co_remote (si_services site)) (si_models site) (co_default_provider (si_services site)) t p (cd_providers db) of
        (r, st) \<Rightarrow> returning (map_chat_output Inl) (r, db\<lparr>cd_providers := st\<rparr>))"

definition v1_adapter :: "'e chat_site \<Rightarrow> gov_user \<Rightarrow> int \<Rightarrow> int option \<Rightarrow> run_payload \<Rightarrow> 'e chat_db
    \<Rightarrow> (string, runtime_answer) result \<times> 'e chat_db" where
  "v1_adapter site user org cid q db =
     (case q of
        ProviderPayload _ \<Rightarrow> (Err ''Unsupported payload type'', db)
      | ChatPayload p \<Rightarrow> (case v1_chat site user org cid p db of (r, db') \<Rightarrow> (map_sum exception_text (\<lambda>a. Response (Inr a)) r, db')))"

definition site_dispatch :: "'e chat_site \<Rightarrow> gov_user \<Rightarrow> int \<Rightarrow> int option \<Rightarrow> exec_task \<Rightarrow> run_payload \<Rightarrow> 'e chat_db
    \<Rightarrow> (string, runtime_answer \<times> exec_result) result \<times> 'e chat_db" where
  "site_dispatch site user org cid =
     dispatch_chat native_registry
       (\<lambda>i. if i = ''provider'' then site_provider site
            else service_executors (si_native site) \<lparr>nc_user = Some user, nc_organization = Some org, nc_conversation = cid\<rparr> i)
       (v1_adapter site user org cid)"

text \<open>Governance raises the one exception of Runtime V2 with a handler of its own.\<close>

definition v2_raised :: "gov_user \<Rightarrow> int \<Rightarrow> chat_payload \<Rightarrow> string \<Rightarrow> chat_error" where
  "v2_raised user org p x =
     (if pl_runtime_version p = ''AgentCorp V2'' \<and> \<not> is_ok (enforce_governance user org p) then ChatHttp 403 x else ChatRaised x)"

definition v1_runtime :: "'e chat_site \<Rightarrow> gov_user \<Rightarrow> int \<Rightarrow> int option \<Rightarrow> chat_payload \<Rightarrow> 'e chat_db engine_world
    \<Rightarrow> (chat_error, runtime_answer) result \<times> 'e chat_db engine_world" where
  "v1_runtime site user org cid p w =
     (case v1_chat site user org cid p (ew_outside w) of (r, db) \<Rightarrow> (map_sum (\<lambda>x. x) (\<lambda>a. Response (Inr a)) r, w\<lparr>ew_outside := db\<rparr>))"

text \<open>
  The analysis after the engine: the memory service is configured (\<open>dependencies/runtime.py\<close>), and a memory needs its
  organization, its agent and its author in the database.\<close>

definition memory_owners :: "'e chat_db \<Rightarrow> int \<Rightarrow> int \<Rightarrow> int \<Rightarrow> bool" where
  "memory_owners db org agent_id user_id \<longleftrightarrow>
     org \<in> ids (organizations (cd_access db)) \<and> agent_id \<in> ids (cd_agents db) \<and> user_id \<in> ids (users (cd_access db))"

definition put_provider_world :: "('e \<Rightarrow> 'e) \<Rightarrow> 'e chat_db \<Rightarrow> 'e chat_db" where
  "put_provider_world f db = db\<lparr>cd_providers := (cd_providers db)\<lparr>pr_world := f (pr_world (cd_providers db))\<rparr>\<rparr>"

definition site_analysis :: "'e chat_site \<Rightarrow> gov_user \<Rightarrow> int \<Rightarrow> chat_payload \<Rightarrow> ('e chat_db, runtime_answer) run_analyser" where
  "site_analysis site user org p =
     analyse_chat (\<lambda>db. si_memories site (pr_world (cd_providers db))) (\<lambda>t. put_provider_world (si_put_memories site t))
       (si_dump site) (si_render site)
       (\<lambda>db. (si_intelligence site)\<lparr>ie_service := True, ie_owners := memory_owners db\<rparr>) user org p"

definition v2_runtime :: "'e chat_site \<Rightarrow> gov_user \<Rightarrow> int \<Rightarrow> int option \<Rightarrow> chat_payload \<Rightarrow> 'e chat_db engine_world
    \<Rightarrow> (chat_error, runtime_answer) result \<times> 'e chat_db engine_world" where
  "v2_runtime site user org cid p w =
     (case v2_execute_chat (site_dispatch site user org cid) (site_analysis site user org p) (si_ids site) user org p w of
        (r, w') \<Rightarrow> (map_sum (v2_raised user org p) (\<lambda>a. a) r, w'))"

text \<open>The framework checks the answer against the response model of the endpoint.\<close>

definition response_model :: "runtime_answer \<Rightarrow> (chat_error, response_schema) result" where
  "response_model a = (case a of Response (Inr s) \<Rightarrow> Ok s | _ \<Rightarrow> Err (ChatRaised ''ResponseValidationError''))"

definition execute_chat_request :: "'e chat_site \<Rightarrow> int option \<Rightarrow> chat_payload \<Rightarrow> int \<Rightarrow> int \<times> user_row \<Rightarrow> 'e chat_handler" where
  "execute_chat_request site cid p org cu w =
     (let user = acting_user cu;
          (r, d, e) = router_execute_chat (si_execution_id site) (si_analysis_id site) (si_planning_id site)
             (v1_runtime site user org cid p) (v2_runtime site user org cid p) (Some (pl_runtime_version p))
             (wd_diagnostics w, \<lparr>ew_published = wd_published w, ew_outside = wd_db w\<rparr>)
      in (map_sum chat_failure Chat_Answer (bind_ok r response_model),
          w\<lparr>wd_diagnostics := d, wd_published := ew_published e, wd_db := ew_outside e\<rparr>))"

section \<open>Streams behind the router\<close>

text \<open>What a runtime passes on of a stream: events and, last, the exception of the service.\<close>

datatype stream_item = Sent stream_event | Ended stream_error

definition stream_items :: "stream_out \<times> 'e chat_db \<Rightarrow> stream_item stream \<times> 'e chat_db \<times> stream_counters" where
  "stream_items r =
     (case r of ((evs, err, ctr), db) \<Rightarrow> ((map Sent evs @ (case err of None \<Rightarrow> [] | Some x \<Rightarrow> [Ended x]), None), db, ctr))"

definition v1_stream :: "'e chat_site \<Rightarrow> gov_user \<Rightarrow> int \<Rightarrow> client \<Rightarrow> int option \<Rightarrow> run_payload \<Rightarrow> 'e chat_db \<times> stream_counters
    \<Rightarrow> stream_item stream \<times> 'e chat_db \<times> stream_counters" where
  "v1_stream site user org cl cid q dc =
     (case q of
        ProviderPayload _ \<Rightarrow> (([], Some ''Unsupported payload type''), dc)
      | ChatPayload p \<Rightarrow>
          v1_execute_stream
            (\<lambda>p dc. stream_items (stream_new_chat (si_services site) (si_stream site) p user org cl (snd dc) (si_keys site) (fst dc)))
            (\<lambda>c p dc. stream_items (stream_continue_chat (si_services site) (si_stream site) c p user org cl (snd dc) (si_keys site) (fst dc)))
            cid p dc)"

definition v1_stream_runtime :: "'e chat_site \<Rightarrow> gov_user \<Rightarrow> int \<Rightarrow> client \<Rightarrow> int option \<Rightarrow> chat_payload
    \<Rightarrow> ('e chat_db \<times> stream_counters) engine_world \<Rightarrow> stream_item stream \<times> ('e chat_db \<times> stream_counters) engine_world" where
  "v1_stream_runtime site user org cl cid p w =
     (case v1_stream site user org cl cid (ChatPayload p) (ew_outside w) of (s, dc) \<Rightarrow> (s, w\<lparr>ew_outside := dc\<rparr>))"

definition v2_stream_runtime :: "'e chat_site \<Rightarrow> gov_user \<Rightarrow> int \<Rightarrow> client \<Rightarrow> int option \<Rightarrow> chat_payload
    \<Rightarrow> ('e chat_db \<times> stream_counters) engine_world \<Rightarrow> stream_item stream \<times> ('e chat_db \<times> stream_counters) engine_world" where
  "v2_stream_runtime site user org cl cid p w =
     v2_execute_stream (dispatch_stream native_registry (v1_stream site user org cl cid)) (si_ids site) user org p w"

fun sent_events :: "stream_item list \<Rightarrow> stream_event list" where
  "sent_events [] = []"
| "sent_events (Sent e # xs) = e # sent_events xs"
| "sent_events (Ended x # xs) = []"

fun stream_exception :: "stream_item list \<Rightarrow> string option \<Rightarrow> stream_error option" where
  "stream_exception [] err = map_option (\<lambda>s. StreamFailed (ChatRaised s)) err"
| "stream_exception (Sent e # xs) err = stream_exception xs err"
| "stream_exception (Ended x # xs) err = Some x"

definition execute_stream_request :: "'e chat_site \<Rightarrow> client \<Rightarrow> int option \<Rightarrow> chat_payload \<Rightarrow> int \<Rightarrow> int \<times> user_row \<Rightarrow> 'e chat_handler" where
  "execute_stream_request site cl cid p org cu w =
     (let user = acting_user cu;
          ((items, err), e) = router_execute_stream (v1_stream_runtime site user org cl cid p) (v2_stream_runtime site user org cl cid p)
             (Some (pl_runtime_version p)) \<lparr>ew_published = wd_published w, ew_outside = (wd_db w, wd_counters w)\<rparr>;
          (evs, closed) = event_generator (sent_events items, stream_exception items err, snd (ew_outside e))
      in (Ok (Event_Stream evs closed),
          w\<lparr>wd_published := ew_published e, wd_db := fst (ew_outside e), wd_counters := snd (ew_outside e)\<rparr>))"

section \<open>Bodies and guards\<close>

text \<open>The body of a request as the class of its endpoint sees it; a field that is not sent is empty or \<open>None\<close>.\<close>

definition valid_message :: "string \<Rightarrow> bool" where
  "valid_message s \<longleftrightarrow> 1 \<le> length s \<and> length s \<le> 32768"

definition valid_sampling :: "chat_payload \<Rightarrow> bool" where
  "valid_sampling p \<longleftrightarrow>
     (case pl_temperature p of None \<Rightarrow> True | Some t \<Rightarrow> 0 \<le> t \<and> t \<le> 200)
     \<and> (case pl_top_p p of None \<Rightarrow> True | Some t \<Rightarrow> 0 \<le> t \<and> t \<le> 100)
     \<and> (case pl_max_tokens p of None \<Rightarrow> True | Some n \<Rightarrow> 0 < n)"

definition valid_body :: "payload_kind \<Rightarrow> chat_payload \<Rightarrow> bool" where
  "valid_body k p =
     (case k of
        ChatCreate \<Rightarrow> valid_message (pl_message p) \<and> valid_sampling p \<and> pl_agent_id p \<noteq> None
      | ChatContinue \<Rightarrow> valid_message (pl_message p) \<and> valid_sampling p \<and> pl_agent_id p = None
      | ChatRegenerate \<Rightarrow> pl_message p = [] \<and> valid_sampling p \<and> pl_tool_choice p = None \<and> pl_agent_id p = None
      | ChatRetry \<Rightarrow> pl_message p = [] \<and> pl_temperature p = None \<and> pl_top_p p = None \<and> pl_max_tokens p = None
          \<and> pl_tool_choice p = None \<and> pl_agent_id p = None
      | ChatStream \<Rightarrow> valid_message (pl_message p) \<and> valid_sampling p)"

text \<open>
  The permission is a dependency and is checked first; then the parameters are validated;
  the membership is the first statement of every endpoint.
\<close>

definition not_a_member :: service_error where
  "not_a_member = HttpError 403 ''You are not a member of the specified organisation.''"

definition chat_guard :: "string \<Rightarrow> auth_env \<Rightarrow> credentials \<Rightarrow> bool \<Rightarrow> int \<Rightarrow> (int \<times> user_row \<Rightarrow> 'e chat_handler) \<Rightarrow> 'e chat_handler" where
  "chat_guard permission ev cr ok org body =
     depends (\<lambda>w. permitted_user permission ev cr (cd_access (wd_db w)))
       (\<lambda>cu. valid_payload ok
          (\<lambda>w. case assert_org not_a_member cu org (cd_access (wd_db w)) of Some x \<Rightarrow> (Err x, w) | None \<Rightarrow> body cu w))"

section \<open>Endpoints\<close>

definition api_create_chat :: "'e chat_site \<Rightarrow> auth_env \<Rightarrow> credentials \<Rightarrow> int \<Rightarrow> chat_payload \<Rightarrow> 'e chat_handler" where
  "api_create_chat site ev cr org p =
     chat_guard ''chat:send'' ev cr (valid_body ChatCreate p) org (execute_chat_request site None (p\<lparr>pl_kind := ChatCreate\<rparr>) org)"

text \<open>An endpoint with a conversation in its path: the segment has to be an integer.\<close>

definition on_path_conversation :: "'e chat_site \<Rightarrow> string \<Rightarrow> string \<Rightarrow> auth_env \<Rightarrow> credentials \<Rightarrow> bool \<Rightarrow> int
    \<Rightarrow> (int \<Rightarrow> int \<times> user_row \<Rightarrow> 'e chat_handler) \<Rightarrow> 'e chat_handler" where
  "on_path_conversation site seg permission ev cr ok org body =
     chat_guard permission ev cr (si_path_int site seg \<noteq> None \<and> ok) org (body (case si_path_int site seg of None \<Rightarrow> 0 | Some c \<Rightarrow> c))"

definition api_continue_chat :: "'e chat_site \<Rightarrow> string \<Rightarrow> auth_env \<Rightarrow> credentials \<Rightarrow> int \<Rightarrow> chat_payload \<Rightarrow> 'e chat_handler" where
  "api_continue_chat site seg ev cr org p =
     on_path_conversation site seg ''chat:send'' ev cr (valid_body ChatContinue p) org
       (\<lambda>c. execute_chat_request site (Some c) (p\<lparr>pl_kind := ChatContinue\<rparr>) org)"

definition api_regenerate_response :: "'e chat_site \<Rightarrow> string \<Rightarrow> auth_env \<Rightarrow> credentials \<Rightarrow> int \<Rightarrow> chat_payload \<Rightarrow> 'e chat_handler" where
  "api_regenerate_response site seg ev cr org p =
     on_path_conversation site seg ''chat:send'' ev cr (valid_body ChatRegenerate p) org
       (\<lambda>c. execute_chat_request site (Some c) (p\<lparr>pl_kind := ChatRegenerate\<rparr>) org)"

definition api_retry_failed_message :: "'e chat_site \<Rightarrow> string \<Rightarrow> auth_env \<Rightarrow> credentials \<Rightarrow> int \<Rightarrow> chat_payload \<Rightarrow> 'e chat_handler" where
  "api_retry_failed_message site seg ev cr org p =
     on_path_conversation site seg ''chat:send'' ev cr (valid_body ChatRetry p) org
       (\<lambda>c. execute_chat_request site (Some c) (p\<lparr>pl_kind := ChatRetry\<rparr>) org)"

definition api_get_conversation :: "'e chat_site \<Rightarrow> string \<Rightarrow> auth_env \<Rightarrow> credentials \<Rightarrow> int \<Rightarrow> int \<Rightarrow> int \<Rightarrow> 'e chat_handler" where
  "api_get_conversation site seg ev cr org page page_size =
     on_path_conversation site seg ''chat:read'' ev cr (1 \<le> page \<and> 1 \<le> page_size \<and> page_size \<le> 200) org
       (\<lambda>c cu w. (map_sum chat_failure (\<lambda>(v, ms, n). Conversation_Answer v ms n)
           (get_conversation c (acting_user cu) org page page_size (wd_db w)), w))"

definition api_stream_chat :: "'e chat_site \<Rightarrow> auth_env \<Rightarrow> credentials \<Rightarrow> int \<Rightarrow> client \<Rightarrow> chat_payload \<Rightarrow> 'e chat_handler" where
  "api_stream_chat site ev cr org cl p =
     chat_guard ''chat:send'' ev cr (valid_body ChatStream p) org (execute_stream_request site cl None (p\<lparr>pl_kind := ChatStream\<rparr>) org)"

definition api_stream_continue_chat :: "'e chat_site \<Rightarrow> string \<Rightarrow> auth_env \<Rightarrow> credentials \<Rightarrow> int \<Rightarrow> client \<Rightarrow> chat_payload \<Rightarrow> 'e chat_handler" where
  "api_stream_continue_chat site seg ev cr org cl p =
     on_path_conversation site seg ''chat:send'' ev cr (valid_body ChatStream p) org
       (\<lambda>c. execute_stream_request site cl (Some c) (p\<lparr>pl_kind := ChatStream\<rparr>) org)"

definition api_cancel_stream :: "'e chat_site \<Rightarrow> string \<Rightarrow> auth_env \<Rightarrow> credentials \<Rightarrow> int \<Rightarrow> 'e chat_handler" where
  "api_cancel_stream site seg ev cr org =
     on_path_conversation site seg ''chat:send'' ev cr True org (\<lambda>c cu w. (Ok Nothing_To_Say, w))"

definition api_stream_metrics :: "auth_env \<Rightarrow> credentials \<Rightarrow> 'e chat_handler" where
  "api_stream_metrics ev cr =
     depends (\<lambda>w. permitted_user ''admin:read'' ev cr (cd_access (wd_db w))) (\<lambda>cu w. (Ok (Counters_Answer (wd_counters w)), w))"

section \<open>Routes\<close>

text \<open>
  The first route whose verb and path match is taken.  A path parameter matches every
  segment that is not empty; the endpoint converts it later.  Redirections of paths that end in a
  slash are left out.
\<close>

datatype http_verb = Get | Post | Delete

datatype path_segment = Fixed string | Parameter

datatype chat_route =
    R_Create
  | R_Continue
  | R_Regenerate
  | R_Retry
  | R_Read
  | R_Stream
  | R_Stream_Continue
  | R_Cancel_Stream
  | R_Stream_Metrics

fun match_path :: "path_segment list \<Rightarrow> string list \<Rightarrow> string list option" where
  "match_path [] [] = Some []"
| "match_path (Fixed s # ps) (x # xs) = (if x = s then match_path ps xs else None)"
| "match_path (Parameter # ps) (x # xs) = (if x = [] then None else map_option ((#) x) (match_path ps xs))"
| "match_path _ _ = None"

type_synonym route_table = "(http_verb \<times> path_segment list \<times> chat_route) list"

fun first_route :: "http_verb \<Rightarrow> string list \<Rightarrow> route_table \<Rightarrow> (chat_route \<times> string list) option" where
  "first_route v path [] = None"
| "first_route v path ((v', pattern, r) # rs) =
     (case match_path pattern path of
        Some params \<Rightarrow> if v' = v then Some (r, params) else first_route v path rs
      | None \<Rightarrow> first_route v path rs)"

definition chat_prefix :: "path_segment list" where
  "chat_prefix = [Fixed ''api'', Fixed ''v1'', Fixed ''chat'']"

definition chat_router :: route_table where
  "chat_router =
     [(Post, chat_prefix, R_Create),
      (Post, chat_prefix @ [Parameter], R_Continue),
      (Post, chat_prefix @ [Parameter, Fixed ''regenerate''], R_Regenerate),
      (Post, chat_prefix @ [Parameter, Fixed ''retry''], R_Retry),
      (Get, chat_prefix @ [Parameter], R_Read)]"

definition streaming_router :: route_table where
  "streaming_router =
     [(Post, chat_prefix @ [Fixed ''stream''], R_Stream),
      (Post, chat_prefix @ [Parameter, Fixed ''stream''], R_Stream_Continue),
      (Delete, chat_prefix @ [Parameter, Fixed ''stream''], R_Cancel_Stream)]"

definition metrics_router :: route_table where
  "metrics_router = [(Get, [Fixed ''api'', Fixed ''v1'', Fixed ''stream'', Fixed ''metrics''], R_Stream_Metrics)]"

text \<open>The order in which \<open>api/router.py\<close> includes them.\<close>

definition api_routes :: route_table where
  "api_routes = chat_router @ streaming_router @ metrics_router"

record chat_http =
  hq_verb :: http_verb
  hq_path :: "string list"
  hq_organization :: int
  hq_body :: chat_payload
  hq_page :: int
  hq_page_size :: int
  hq_client :: client

definition no_route :: "http_verb \<Rightarrow> string list \<Rightarrow> service_error" where
  "no_route v path =
     (if list_ex (\<lambda>(_, pattern, _). match_path pattern path \<noteq> None) api_routes then HttpError 405 ''Method Not Allowed''
      else HttpError 404 ''Not Found'')"

definition run_route :: "'e chat_site \<Rightarrow> auth_env \<Rightarrow> credentials \<Rightarrow> chat_http \<Rightarrow> chat_route \<Rightarrow> string \<Rightarrow> 'e chat_handler" where
  "run_route site ev cr q r seg =
     (let org = hq_organization q; p = hq_body q; cl = hq_client q in
      case r of
        R_Create \<Rightarrow> api_create_chat site ev cr org p
      | R_Continue \<Rightarrow> api_continue_chat site seg ev cr org p
      | R_Regenerate \<Rightarrow> api_regenerate_response site seg ev cr org p
      | R_Retry \<Rightarrow> api_retry_failed_message site seg ev cr org p
      | R_Read \<Rightarrow> api_get_conversation site seg ev cr org (hq_page q) (hq_page_size q)
      | R_Stream \<Rightarrow> api_stream_chat site ev cr org cl p
      | R_Stream_Continue \<Rightarrow> api_stream_continue_chat site seg ev cr org cl p
      | R_Cancel_Stream \<Rightarrow> api_cancel_stream site seg ev cr org
      | R_Stream_Metrics \<Rightarrow> api_stream_metrics ev cr)"

definition chat_api :: "'e chat_site \<Rightarrow> auth_env \<Rightarrow> credentials \<Rightarrow> chat_http \<Rightarrow> 'e chat_handler" where
  "chat_api site ev cr q w =
     (case first_route (hq_verb q) (hq_path q) api_routes of
        None \<Rightarrow> (Err (no_route (hq_verb q) (hq_path q)), w)
      | Some (r, params) \<Rightarrow> run_route site ev cr q r (case params of [] \<Rightarrow> [] | s # _ \<Rightarrow> s) w)"

end
