(* ===== verification/Chat_Security.thy ===== *)
theory Chat_Security
  imports Chat_Api Session_Security
begin

text \<open>
  What the chat and streaming endpoints guarantee together with the runtimes and services
  behind them: who can read or extend a conversation, what a request to either runtime does, and
  which routes can be reached.
\<close>

section \<open>Routes\<close>

lemmas route_tables = api_routes_def chat_router_def streaming_router_def metrics_router_def chat_prefix_def

lemma match_cases:
  "match_path (p # ps) path = Some params \<longleftrightarrow>
     (\<exists>x xs. path = x # xs \<and> (case p of Fixed s \<Rightarrow> x = s \<and> match_path ps xs = Some params
        | Parameter \<Rightarrow> x \<noteq> [] \<and> (\<exists>ys. match_path ps xs = Some ys \<and> params = x # ys)))"
  by (cases path; cases p) auto

lemma match_empty: "match_path [] path = Some params \<longleftrightarrow> path = [] \<and> params = []"
  by (cases path) auto

lemma first_route_cases:
  "first_route v path ((v', pattern, r') # rs) = Some (r, params) \<longleftrightarrow>
     (v' = v \<and> match_path pattern path = Some params \<and> r = r')
     \<or> (\<not> (v' = v \<and> match_path pattern path \<noteq> None) \<and> first_route v path rs = Some (r, params))"
  by (auto split: option.splits)

lemma stream_is_a_conversation:
  "first_route Post [''api'', ''v1'', ''chat'', ''stream''] api_routes = Some (R_Continue, [''stream''])"
  by (simp add: route_tables)

lemma new_stream_unreachable: "first_route v path api_routes = Some (r, params) \<Longrightarrow> r \<noteq> R_Stream"
  by (auto simp: route_tables first_route_cases match_cases match_empty simp del: first_route.simps(2) split: path_segment.splits)

section \<open>Guards\<close>

lemma permitted_is_active: "permitted_user perm ev cr db = Inr cu \<Longrightarrow> active_user ev cr db = Inr cu \<and> may perm db cu"
  using permitted.grants [of perm ev cr db cu]
  by (auto simp: permitted_user_def bind_ok_eq_Inr RequirePermission_def split: if_splits)

lemma chat_guard_cases:
  assumes "chat_guard perm ev cr ok org body w = (r, w')"
  obtains (refused) x where "r = Err x" "w' = w"
  | (entered) cu where "active_user ev cr (cd_access (wd_db w)) = Inr cu" "entitled perm org (cd_access (wd_db w)) cu" "ok" "body cu w = (r, w')"
proof (cases "permitted_user perm ev cr (cd_access (wd_db w))")
  case (Inl x)
  with assms refused [of x] show thesis by (auto simp: chat_guard_def depends_def)
next
  case (Inr cu)
  note ac = permitted_is_active [OF Inr]
  show thesis
  proof (cases "ok \<and> (u_is_superuser (snd cu) \<or> is_member org (fst cu) (cd_access (wd_db w)))")
    case True
    with assms Inr ac entered show thesis
      by (auto simp: chat_guard_def depends_def valid_payload_def assert_org_def entitled_def)
  next
    case False
    with assms Inr refused show thesis
      by (auto simp: chat_guard_def depends_def valid_payload_def assert_org_def split: if_splits)
  qed
qed

lemma chat_guard_enters:
  assumes "permitted_user perm ev cr (cd_access (wd_db w)) = Inr cu"
    and "u_is_superuser (snd cu) \<or> is_member org (fst cu) (cd_access (wd_db w))"
  shows "chat_guard perm ev cr True org body w = body cu w"
  using assms by (simp add: chat_guard_def depends_def valid_payload_def assert_org_def)

section \<open>Runtime V2\<close>

lemma site_provider_models:
  "list_models (si_models site) (co_default_provider (si_services site)) (pl_provider p) (cd_providers db) = (r, st) \<Longrightarrow>
   site_provider site t (ChatPayload p) db = (map_sum error_text ModelList r, db\<lparr>cd_providers := st\<rparr>)"
  by (cases r) (simp_all add: site_provider_def provider_exec_def returning_def)

lemma site_dispatch_provider:
  assumes "et_required_capability t = ''provider''"
    and "list_models (si_models site) (co_default_provider (si_services site)) (pl_provider p) (cd_providers db) = (r, st)"
  shows "\<exists>res. site_dispatch site user org cid t (ChatPayload p) db = (map_sum error_text (\<lambda>ms. (ModelList ms, res)) r, db\<lparr>cd_providers := st\<rparr>)"
proof -
  obtain c where "dict_get native_registry ''provider'' = Some c" "ca_execution_mode c = NATIVE" "ca_capability_id c = ''provider''"
    using provider_native by blast
  with assms(1) site_provider_models [OF assms(2), of t] show ?thesis
    by (cases r) (auto simp: site_dispatch_def dispatch_chat_def py_lower_provider)
qed

lemma site_analysis_effect:
  assumes "site_analysis site user org p ctx a w = (r, w')"
  shows "\<exists>st. ew_outside w' = (ew_outside w)\<lparr>cd_providers := st\<rparr>"
  using assms
  by (auto simp: site_analysis_def analyse_chat_def put_provider_world_def publish_run_def split: prod.splits sum.splits)

lemma v2_chat_effect:
  assumes run: "v2_execute_chat (site_dispatch site user org cid) (site_analysis site user org p) qids user org p w = (r, w')"
  shows "(\<forall>a. r = Ok a \<longrightarrow> (\<exists>ms. a = ModelList ms)) \<and> (\<exists>st. ew_outside w' = (ew_outside w)\<lparr>cd_providers := st\<rparr>)"
proof (cases "prepare_context qids user org p")
  case (Inl x)
  with run show ?thesis by (auto simp: v2_execute_chat_def intro: exI [of _ "cd_providers (ew_outside w)"])
next
  case (Inr ctx)
  obtain t where t: "select_dispatch_task (build_execution_tasks (ec_blueprint ctx)) (Some ''provider'') = Ok t"
      "et_required_capability t = ''provider''"
    using select_provider [OF prepared_nonempty [OF Inr]] by blast
  obtain ms st where ms: "list_models (si_models site) (co_default_provider (si_services site)) (pl_provider p) (cd_providers (ew_outside w)) = (ms, st)"
    by fastforce
  obtain res where d: "site_dispatch site user org cid t (ChatPayload p) (ew_outside w) =
      (map_sum error_text (\<lambda>ms. (ModelList ms, res)) ms, (ew_outside w)\<lparr>cd_providers := st\<rparr>)"
    using site_dispatch_provider [OF t(2) ms] by blast
  obtain r1 w1 where e: "engine_execute_chat (site_dispatch site user org cid) ctx (ChatPayload p) w = (r1, w1)" by fastforce
  have r1: "(\<forall>a. r1 = Ok a \<longrightarrow> (\<exists>ms. a = ModelList ms))" "ew_outside w1 = (ew_outside w)\<lparr>cd_providers := st\<rparr>"
    using engine_run [OF t(1), of "site_dispatch site user org cid" "ChatPayload p" w] d e by (cases ms; auto)+
  show ?thesis
  proof (cases r1)
    case (Inl x)
    with run Inr e r1(2) show ?thesis by (auto simp: v2_of_engine)
  next
    case ok: (Inr a)
    obtain r2 w2 where an: "site_analysis site user org p ctx a w1 = (r2, w2)" by fastforce
    obtain st2 where "ew_outside w2 = (ew_outside w1)\<lparr>cd_providers := st2\<rparr>" using site_analysis_effect [OF an] by blast
    moreover have "(r, w') = (map_sum (\<lambda>x. x) (\<lambda>_. a) r2, w2)"
      using run by (cases r2) (simp_all add: v2_of_engine [OF Inr] e ok an)
    ultimately show ?thesis using r1 ok by (cases r2) auto
  qed
qed

lemma v2_runtime_effect:
  assumes "v2_runtime site user org cid p w = (r, w')"
  shows "\<not> is_ok (bind_ok r response_model) \<and> (\<exists>st. ew_outside w' = (ew_outside w)\<lparr>cd_providers := st\<rparr>)"
proof -
  obtain r0 where run: "v2_execute_chat (site_dispatch site user org cid) (site_analysis site user org p) (si_ids site) user org p w = (r0, w')"
      and r: "r = map_sum (v2_raised user org p) (\<lambda>a. a) r0"
    using assms by (auto simp: v2_runtime_def split: prod.splits)
  from v2_chat_effect [OF run] show ?thesis
    by (cases r0) (auto simp: r response_model_def)
qed

section \<open>What a request does to the conversations\<close>

definition keeps_accounts :: "'e chat_db \<Rightarrow> 'e chat_db \<Rightarrow> bool" where
  "keeps_accounts db db' \<longleftrightarrow> cd_access db' = cd_access db \<and> cd_agents db' = cd_agents db"

text \<open>The history of an existing conversation changes only for somebody who may chat in it.\<close>

definition extends_own :: "gov_user \<Rightarrow> int \<Rightarrow> int \<Rightarrow> 'e chat_db \<Rightarrow> 'e chat_db \<Rightarrow> bool" where
  "extends_own user org c db db' \<longleftrightarrow> keeps_accounts db db' \<and>
     (get_by_conversation c (cd_messages db') \<noteq> get_by_conversation c (cd_messages db) \<longrightarrow> may_chat c user org db)"

lemma extends_own_refl [simp]: "extends_own user org c db db"
  by (simp add: extends_own_def keeps_accounts_def)

lemma extends_own_providers [simp]: "extends_own user org c db (db\<lparr>cd_providers := st\<rparr>)"
  by (simp add: extends_own_def keeps_accounts_def)

lemma new_conversation_key:
  "fresh_keys k \<Longrightarrow> c \<in> ids (cd_conversations db) \<Longrightarrow> c \<noteq> key_conversation k (cd_conversations db)"
  by (auto simp: fresh_keys_def)

lemma run_op_accounts: "run_op co oper k db = (r, db') \<Longrightarrow> keeps_accounts db db'"
  by (cases oper)
    (auto simp: keeps_accounts_def dest: create_op.agents continue_op.agents regenerate_op.agents retry_op.agents)

lemma run_op_own:
  assumes run: "run_op co oper k db = (r, db')" and k: "fresh_keys k" "c \<in> ids (cd_conversations db)"
    and oper: "oper \<in> {chat_op.Create p user org, chat_op.Continue c' p user org, chat_op.Regenerate c' p user org, chat_op.Retry c' p user org}"
  shows "extends_own user org c db db'"
proof (cases "get_by_conversation c (cd_messages db') = get_by_conversation c (cd_messages db)")
  case True
  with run_op_accounts [OF run] show ?thesis by (simp add: extends_own_def)
next
  case False
  then have "c = op_target oper k db" using run_op_isolated [OF run, of c] by blast
  then have c: "c' = c" "oper \<in> {chat_op.Continue c p user org, chat_op.Regenerate c p user org, chat_op.Retry c p user org}"
    using oper new_conversation_key [OF k] by auto
  then have "may_chat c user org db" using run_op_refused [OF _ c(2), of db co k] run False by auto
  with run_op_accounts [OF run] show ?thesis by (simp add: extends_own_def)
qed

definition chat_op_of :: "gov_user \<Rightarrow> int \<Rightarrow> int option \<Rightarrow> chat_payload \<Rightarrow> chat_op option" where
  "chat_op_of user org cid p =
     (case (pl_kind p, cid) of
        (ChatCreate, _) \<Rightarrow> Some (chat_op.Create p user org)
      | (ChatContinue, Some c) \<Rightarrow> Some (chat_op.Continue c p user org)
      | (ChatRegenerate, Some c) \<Rightarrow> Some (chat_op.Regenerate c p user org)
      | (ChatRetry, Some c) \<Rightarrow> Some (chat_op.Retry c p user org)
      | _ \<Rightarrow> None)"

lemma v1_chat_is_op:
  "v1_chat site user org cid p db = (case chat_op_of user org cid p of
       Some oper \<Rightarrow> run_op (si_services site) oper (si_keys site) db
     | None \<Rightarrow> (Err (ChatRaised (case (fst (v1_chat site user org cid p db)) of Inl (ChatRaised x) \<Rightarrow> x | _ \<Rightarrow> [])), db))"
  by (cases "pl_kind p"; cases cid) (simp_all add: v1_chat_def v1_execute_chat_def chat_service_call_def chat_op_of_def)

lemma v1_chat_own:
  assumes "v1_chat site user org cid p db = (r, db')" and k: "fresh_keys (si_keys site)" "c \<in> ids (cd_conversations db)"
  shows "extends_own user org c db db'"
proof (cases "chat_op_of user org cid p")
  case None
  with assms(1) show ?thesis by (subst (asm) v1_chat_is_op) simp
next
  case (Some oper)
  then have run: "run_op (si_services site) oper (si_keys site) db = (r, db')" using assms(1) by (simp add: v1_chat_is_op)
  have "oper \<in> {chat_op.Create p user org, chat_op.Continue (the cid) p user org, chat_op.Regenerate (the cid) p user org, chat_op.Retry (the cid) p user org}"
    using Some by (auto simp: chat_op_of_def split: payload_kind.splits option.splits)
  from run_op_own [OF run k this] show ?thesis .
qed

text \<open>The router keeps its diagnostics for identifiers that are new, and returns what the runtime returns.\<close>

definition new_identifiers :: "'e chat_site \<Rightarrow> diagnostics \<Rightarrow> bool" where
  "new_identifiers site d \<longleftrightarrow> dict_get (dx_executions d) (si_execution_id site) = None
     \<and> dict_get (dx_analyses d) (si_analysis_id site) = None \<and> dict_get (dx_plannings d) (si_planning_id site) = None"

lemma router_result:
  "\<exists>d'. router_execute_chat xid aid pid v1 v2 version (d, w) =
     (case (if version = Some ''AgentCorp V2'' then v2 w else v1 w) of (r, w') \<Rightarrow> (r, d', w'))"
  by (auto simp: router_execute_chat_def Let_def resolve_v2_iff split: prod.splits)

lemma chat_request_run:
  assumes "execute_chat_request site cid p org cu w = (r, w')"
  shows "\<exists>r0 e. (if pl_runtime_version p = ''AgentCorp V2'' then v2_runtime site (acting_user cu) org cid p else v1_runtime site (acting_user cu) org cid p)
       \<lparr>ew_published = wd_published w, ew_outside = wd_db w\<rparr> = (r0, e)
     \<and> r = map_sum chat_failure Chat_Answer (bind_ok r0 response_model) \<and> wd_db w' = ew_outside e"
proof -
  let ?v1 = "v1_runtime site (acting_user cu) org cid p" and ?v2 = "v2_runtime site (acting_user cu) org cid p"
  let ?e = "\<lparr>ew_published = wd_published w, ew_outside = wd_db w\<rparr>"
  obtain d' where d: "router_execute_chat (si_execution_id site) (si_analysis_id site) (si_planning_id site) ?v1 ?v2 (Some (pl_runtime_version p))
      (wd_diagnostics w, ?e) = (case (if Some (pl_runtime_version p) = Some ''AgentCorp V2'' then ?v2 ?e else ?v1 ?e) of (r, w') \<Rightarrow> (r, d', w'))"
    by (rule exE [OF router_result])
  obtain r0 e where "(if pl_runtime_version p = ''AgentCorp V2'' then ?v2 ?e else ?v1 ?e) = (r0, e)" by fastforce
  with d assms show ?thesis by (auto simp: execute_chat_request_def Let_def)
qed

lemma chat_request_own:
  assumes run: "execute_chat_request site cid p org cu w = (r, w')" and k: "fresh_keys (si_keys site)" "c \<in> ids (cd_conversations (wd_db w))"
  shows "extends_own (acting_user cu) org c (wd_db w) (wd_db w')"
proof -
  obtain r0 e where e: "(if pl_runtime_version p = ''AgentCorp V2'' then v2_runtime site (acting_user cu) org cid p else v1_runtime site (acting_user cu) org cid p)
       \<lparr>ew_published = wd_published w, ew_outside = wd_db w\<rparr> = (r0, e)" and w': "wd_db w' = ew_outside e"
    using chat_request_run [OF run] by blast
  show ?thesis
  proof (cases "pl_runtime_version p = ''AgentCorp V2''")
    case True
    with e v2_runtime_effect [of site "acting_user cu" org cid p] obtain st where "ew_outside e = (wd_db w)\<lparr>cd_providers := st\<rparr>" by fastforce
    with w' show ?thesis by simp
  next
    case False
    with e obtain r1 db where "v1_chat site (acting_user cu) org cid p (wd_db w) = (r1, db)" "ew_outside e = db"
      by (auto simp: v1_runtime_def split: prod.splits)
    from v1_chat_own [OF this(1) k] this(2) w' show ?thesis by simp
  qed
qed

section \<open>What a stream does to the conversations\<close>

lemma stream_items_db: "snd (stream_items r) = (snd r, snd (snd (fst r)))"
  by (simp add: stream_items_def split: prod.split)

lemma v1_stream_own:
  assumes "v1_stream site user org cl (Some c') q (db, ctr) = (s, db', ctr')"
  shows "extends_own user org c db db'"
proof (cases q)
  case (ChatPayload p)
  let ?run = "stream_continue_chat (si_services site) (si_stream site) c' p user org cl ctr (si_keys site) db"
  have "snd ?run = db'"
    using assms ChatPayload stream_items_db [of ?run] by (simp add: v1_stream_def v1_execute_stream_def)
  then have run: "?run = (fst ?run, db')" by (metis prod.collapse)
  have kept: "keeps_accounts db db'" using stream_continue_op.agents [OF run] by (simp add: keeps_accounts_def)
  show ?thesis
  proof (cases "get_by_conversation c (cd_messages db') = get_by_conversation c (cd_messages db)")
    case False
    then have "c = c'" using stream_continue_op.leaves_others [OF run, of c] by blast
    with False kept stream_continue_cases [OF run] show ?thesis by (auto simp: extends_own_def)
  qed (simp add: extends_own_def kept)
next
  case (ProviderPayload q')
  with assms show ?thesis by (simp add: v1_stream_def)
qed

lemma dispatch_stream_effect:
  "snd (dispatch_stream reg v1 t p e) = e \<or> snd (dispatch_stream reg v1 t p e) = snd (v1 p e)"
  by (auto simp: dispatch_stream_def split: option.splits)

lemma v2_stream_effect:
  "ew_outside (snd (v2_execute_stream (dispatch_stream reg v1) qids user org p w)) \<in> {ew_outside w, snd (v1 (ChatPayload p) (ew_outside w))}"
proof (cases "prepare_context qids user org p")
  case (Inr ctx)
  show ?thesis
    using dispatch_stream_effect [of reg v1 _ "ChatPayload p" "ew_outside w"]
    by (simp add: v2_execute_stream_def Inr engine_execute_stream_def Let_def publish_run_def split_beta split: sum.split)
qed (simp add: v2_execute_stream_def)

lemma stream_request_own:
  assumes "execute_stream_request site cl (Some c') p org cu w = (r, w')"
  shows "extends_own (acting_user cu) org c (wd_db w) (wd_db w') \<and> (\<exists>evs closed. r = Ok (Event_Stream evs closed))"
proof -
  let ?e = "\<lparr>ew_published = wd_published w, ew_outside = (wd_db w, wd_counters w)\<rparr>"
  let ?v1 = "v1_stream site (acting_user cu) org cl (Some c') (ChatPayload p) (wd_db w, wd_counters w)"
  have own: "extends_own (acting_user cu) org c (wd_db w) (fst (snd ?v1))"
    by (rule v1_stream_own [where s = "fst ?v1" and ctr' = "snd (snd ?v1)"]) simp
  obtain s e where run: "router_execute_stream (v1_stream_runtime site (acting_user cu) org cl (Some c') p) (v2_stream_runtime site (acting_user cu) org cl (Some c') p)
      (Some (pl_runtime_version p)) ?e = (s, e)" by fastforce
  have "ew_outside e \<in> {(wd_db w, wd_counters w), snd ?v1}"
    using run v2_stream_effect [of native_registry "v1_stream site (acting_user cu) org cl (Some c')" "si_ids site" "acting_user cu" org p ?e]
    by (auto simp: router_execute_stream_def v1_stream_runtime_def v2_stream_runtime_def split: if_splits prod.splits)
  then have "extends_own (acting_user cu) org c (wd_db w) (fst (ew_outside e))" using own by auto
  then show ?thesis using assms run by (auto simp: execute_stream_request_def Let_def split_beta)
qed

section \<open>Conversations behind the API\<close>

lemma may_chat_owner:
  assumes "may_chat c user org db"
  shows "\<exists>v. (c, v) \<in> set (cd_conversations db) \<and> cv_organization_id v = org \<and> (gu_is_superuser user \<or> cv_user_id v = gu_id user)"
  using with_conversation_allowed [OF assms] validated_conversation by metis

lemma page_rows:
  "im \<in> set (take a (drop b (get_by_conversation c t))) \<Longrightarrow> im \<in> set t \<and> ms_conversation_id (snd im) = c"
  by (drule in_set_takeD, drule in_set_dropD) (auto simp: get_by_conversation_def repo_where_def)

lemma get_conversation_own:
  "get_conversation c user org page psize db = Ok (v, ms, n) \<Longrightarrow>
     (c, v) \<in> set (cd_conversations db) \<and> cv_organization_id v = org \<and> (gu_is_superuser user \<or> cv_user_id v = gu_id user)
     \<and> (\<forall>im \<in> set ms. im \<in> set (cd_messages db) \<and> ms_conversation_id (snd im) = c)"
  by (auto simp: get_conversation_def get_with_messages_def dest: find_conversation page_rows split: option.splits if_splits)

definition own_conversation :: "string \<Rightarrow> auth_env \<Rightarrow> credentials \<Rightarrow> int \<Rightarrow> int \<Rightarrow> conversation \<Rightarrow> 'e chat_db \<Rightarrow> bool" where
  "own_conversation perm ev cr org c v db \<longleftrightarrow> (c, v) \<in> set (cd_conversations db) \<and> cv_organization_id v = org \<and>
     (\<exists>cu. active_user ev cr (cd_access db) = Inr cu \<and> entitled perm org (cd_access db) cu
        \<and> (u_is_superuser (snd cu) \<or> cv_user_id v = fst cu))"

definition sees_only_own :: "auth_env \<Rightarrow> credentials \<Rightarrow> int \<Rightarrow> 'e chat_db \<Rightarrow> (service_error, chat_api_answer) result \<Rightarrow> bool" where
  "sees_only_own ev cr org db r \<longleftrightarrow> (case r of
     Inr (Conversation_Answer v ms n) \<Rightarrow> (\<exists>c. own_conversation ''chat:read'' ev cr org c v db
       \<and> list_all (\<lambda>im. im \<in> set (cd_messages db) \<and> ms_conversation_id (snd im) = c) ms)
   | _ \<Rightarrow> True)"

definition isolates :: "auth_env \<Rightarrow> credentials \<Rightarrow> int \<Rightarrow> int \<Rightarrow> 'e chat_world \<Rightarrow> (service_error, chat_api_answer) result \<times> 'e chat_world \<Rightarrow> bool" where
  "isolates ev cr org c w res \<longleftrightarrow> keeps_accounts (wd_db w) (wd_db (snd res)) \<and> sees_only_own ev cr org (wd_db w) (fst res) \<and>
     (get_by_conversation c (cd_messages (wd_db (snd res))) \<noteq> get_by_conversation c (cd_messages (wd_db w)) \<longrightarrow>
       (\<exists>v. own_conversation ''chat:send'' ev cr org c v (wd_db w)))"

lemma isolates_refusal: "isolates ev cr org c w (Err x, w)"
  by (simp add: isolates_def keeps_accounts_def sees_only_own_def)

lemma isolates_guard:
  assumes "\<And>cu. active_user ev cr (cd_access (wd_db w)) = Inr cu \<Longrightarrow> entitled perm org (cd_access (wd_db w)) cu \<Longrightarrow> ok
      \<Longrightarrow> isolates ev cr org c w (body cu w)"
  shows "isolates ev cr org c w (chat_guard perm ev cr ok org body w)"
proof -
  obtain r w' where run: "chat_guard perm ev cr ok org body w = (r, w')" by fastforce
  from run show ?thesis
  proof (cases rule: chat_guard_cases)
    case (refused x)
    with run show ?thesis by (simp add: isolates_refusal)
  next
    case (entered cu)
    with assms run show ?thesis by metis
  qed
qed

lemma isolates_chat:
  assumes "active_user ev cr (cd_access (wd_db w)) = Inr cu" and "entitled ''chat:send'' org (cd_access (wd_db w)) cu"
    and own: "extends_own (acting_user cu) org c (wd_db w) (wd_db (snd res))"
    and res: "\<And>v ms n. fst res \<noteq> Ok (Conversation_Answer v ms n)"
  shows "isolates ev cr org c w res"
proof -
  have "sees_only_own ev cr org (wd_db w) (fst res)"
    using res by (auto simp: sees_only_own_def split: sum.splits chat_api_answer.splits)
  moreover have "\<exists>v. own_conversation ''chat:send'' ev cr org c v (wd_db w)" if "may_chat c (acting_user cu) org (wd_db w)"
    using may_chat_owner [OF that] assms(1,2) by (auto simp: own_conversation_def acting_user_def)
  ultimately show ?thesis using own by (auto simp: isolates_def extends_own_def)
qed

lemma chat_answers: "execute_chat_request site cid p org cu w = (r, w') \<Longrightarrow> r \<noteq> Ok (Conversation_Answer v ms n)"
proof
  assume "execute_chat_request site cid p org cu w = (r, w')" and r: "r = Ok (Conversation_Answer v ms n)"
  from chat_request_run [OF this(1)] obtain r0 where "r = map_sum chat_failure Chat_Answer (bind_ok r0 response_model)" by blast
  with r show False by (cases "bind_ok r0 response_model") auto
qed

lemma isolates_path:
  assumes "\<And>c' cu. active_user ev cr (cd_access (wd_db w)) = Inr cu \<Longrightarrow> entitled perm org (cd_access (wd_db w)) cu
      \<Longrightarrow> isolates ev cr org c w (body c' cu w)"
  shows "isolates ev cr org c w (on_path_conversation site seg perm ev cr ok org body w)"
  unfolding on_path_conversation_def by (rule isolates_guard) (rule assms)

lemma chat_request_isolates:
  assumes "active_user ev cr (cd_access (wd_db w)) = Inr cu" "entitled ''chat:send'' org (cd_access (wd_db w)) cu"
    and k: "fresh_keys (si_keys site)" "c \<in> ids (cd_conversations (wd_db w))"
  shows "isolates ev cr org c w (execute_chat_request site cid p org cu w)"
  using chat_request_own [OF prod.collapse [symmetric] k] chat_answers [OF prod.collapse [symmetric]]
  by (intro isolates_chat [OF assms(1,2)])

lemma stream_request_isolates:
  assumes "active_user ev cr (cd_access (wd_db w)) = Inr cu" "entitled ''chat:send'' org (cd_access (wd_db w)) cu"
  shows "isolates ev cr org c w (execute_stream_request site cl (Some c') p org cu w)"
  using stream_request_own [OF prod.collapse [symmetric], where c = c]
  by (intro isolates_chat [OF assms]) (blast, metis Inr_inject chat_api_answer.distinct(9))

lemma read_isolates:
  assumes "active_user ev cr (cd_access (wd_db w)) = Inr cu" "entitled ''chat:read'' org (cd_access (wd_db w)) cu"
  shows "isolates ev cr org c w
     (map_sum chat_failure (\<lambda>(v, ms, n). Conversation_Answer v ms n) (get_conversation c' (acting_user cu) org page psize (wd_db w)), w)"
proof (cases "get_conversation c' (acting_user cu) org page psize (wd_db w)")
  case (Inr r)
  obtain v ms n where r: "r = (v, ms, n)" by (metis prod.exhaust)
  note own = get_conversation_own [OF Inr [unfolded r]]
  then have "own_conversation ''chat:read'' ev cr org c' v (wd_db w)"
    using assms by (auto simp: own_conversation_def acting_user_def)
  with own show ?thesis by (auto simp: isolates_def keeps_accounts_def sees_only_own_def Inr r list_all_iff)
qed (simp add: isolates_refusal)

lemma metrics_isolates: "isolates ev cr org c w (api_stream_metrics ev cr w)"
  by (auto simp: api_stream_metrics_def depends_def isolates_def keeps_accounts_def sees_only_own_def split: sum.split)

lemma route_isolates:
  assumes k: "fresh_keys (si_keys site)" "c \<in> ids (cd_conversations (wd_db w))" and "r \<noteq> R_Stream"
  shows "isolates ev cr (hq_organization q) c w (run_route site ev cr q r seg w)"
proof (cases r)
  case R_Create
  then show ?thesis by (simp add: run_route_def Let_def api_create_chat_def isolates_guard chat_request_isolates k)
next
  case R_Cancel_Stream
  then show ?thesis
    by (auto simp: run_route_def api_cancel_stream_def intro!: isolates_path isolates_chat)
qed (use assms in \<open>simp_all add: run_route_def Let_def api_continue_chat_def api_regenerate_response_def api_retry_failed_message_def
    api_get_conversation_def api_stream_continue_chat_def isolates_path chat_request_isolates stream_request_isolates read_isolates metrics_isolates\<close>)

text \<open>
  C5: isolation behind the chat and streaming endpoints, for every request and whatever runtime it asks
  for.  Accounts and agents stay as they are.  The history of an existing conversation changes only if
  the caller is authenticated, may send in the organization of the request, is a member of it or a
  superuser, and the conversation is that organization's and, superusers apart, the caller's own.
  A conversation is shown only to such a user who may read, with messages of this conversation only.
\<close>

theorem chat_requests_isolated:
  assumes "fresh_keys (si_keys site)" and "c \<in> ids (cd_conversations (wd_db w))" and "chat_api site ev cr q w = (r, w')"
  shows "cd_access (wd_db w') = cd_access (wd_db w) \<and> cd_agents (wd_db w') = cd_agents (wd_db w)
   \<and> (get_by_conversation c (cd_messages (wd_db w')) \<noteq> get_by_conversation c (cd_messages (wd_db w)) \<longrightarrow>
        (\<exists>v. own_conversation ''chat:send'' ev cr (hq_organization q) c v (wd_db w)))
   \<and> (\<forall>v ms n. r = Ok (Conversation_Answer v ms n) \<longrightarrow>
        (\<exists>k. own_conversation ''chat:read'' ev cr (hq_organization q) k v (wd_db w)
           \<and> list_all (\<lambda>im. im \<in> set (cd_messages (wd_db w)) \<and> ms_conversation_id (snd im) = k) ms))"
proof -
  have "isolates ev cr (hq_organization q) c w (chat_api site ev cr q w)"
    by (auto simp: chat_api_def isolates_refusal split: option.splits intro: route_isolates [OF assms(1,2)] dest: new_stream_unreachable)
  with assms(3) show ?thesis by (auto simp: isolates_def keeps_accounts_def sees_only_own_def)
qed

section \<open>What the two runtimes answer\<close>

lemma v2_request_fails:
  assumes "execute_chat_request site cid p org cu w = (r, w')" and "pl_runtime_version p = ''AgentCorp V2''"
  shows "\<not> is_ok r \<and> same_rows (wd_db w) (wd_db w')"
proof -
  obtain r0 e where e: "v2_runtime site (acting_user cu) org cid p \<lparr>ew_published = wd_published w, ew_outside = wd_db w\<rparr> = (r0, e)"
      and r: "r = map_sum chat_failure Chat_Answer (bind_ok r0 response_model)" and w': "wd_db w' = ew_outside e"
    using chat_request_run [OF assms(1)] assms(2) by auto
  from v2_runtime_effect [OF e] w' show ?thesis
    by (cases "bind_ok r0 response_model") (auto simp: r same_rows_def)
qed

lemma guard_fails:
  assumes "\<And>cu. \<not> is_ok (fst (body cu w)) \<and> same_rows (wd_db w) (wd_db (snd (body cu w)))"
  shows "\<not> is_ok (fst (chat_guard perm ev cr ok org body w)) \<and> same_rows (wd_db w) (wd_db (snd (chat_guard perm ev cr ok org body w)))"
proof -
  obtain r w' where run: "chat_guard perm ev cr ok org body w = (r, w')" by fastforce
  then show ?thesis
  proof (cases rule: chat_guard_cases)
    case (entered cu)
    with assms [of cu] run show ?thesis by simp
  qed (use run in simp)
qed

definition posts_chat :: "chat_http \<Rightarrow> bool" where
  "posts_chat q \<longleftrightarrow> (case first_route (hq_verb q) (hq_path q) api_routes of
     Some (r, _) \<Rightarrow> r \<in> {R_Create, R_Continue, R_Regenerate, R_Retry} | None \<Rightarrow> False)"

text \<open>
  C18: no chat under Runtime V2 is ever answered.  Whoever asks, with whatever provider and
  whatever the provider says, a request that creates, continues, regenerates or retries a chat and
  names Runtime V2 is an error, and no conversation and no message is stored: the answer of the native
  executor is a list of models, which is not a chat response.
\<close>

theorem v2_chats_never_answer:
  assumes "posts_chat q" and "pl_runtime_version (hq_body q) = ''AgentCorp V2''" and "chat_api site ev cr q w = (r, w')"
  shows "\<not> is_ok r \<and> cd_conversations (wd_db w') = cd_conversations (wd_db w) \<and> cd_messages (wd_db w') = cd_messages (wd_db w)"
proof -
  obtain rt params where rt: "first_route (hq_verb q) (hq_path q) api_routes = Some (rt, params)" "rt \<in> {R_Create, R_Continue, R_Regenerate, R_Retry}"
    using assms(1) by (auto simp: posts_chat_def split: option.splits)
  have fails: "\<not> is_ok (fst (chat_guard perm ev cr ok org (execute_chat_request site cid (hq_body q\<lparr>pl_kind := k\<rparr>) org) w))
      \<and> same_rows (wd_db w) (wd_db (snd (chat_guard perm ev cr ok org (execute_chat_request site cid (hq_body q\<lparr>pl_kind := k\<rparr>) org) w)))"
    for perm ok org cid k
    by (rule guard_fails, rule v2_request_fails [OF prod.collapse [symmetric]]) (simp add: assms(2))
  have "\<not> is_ok (fst (chat_api site ev cr q w)) \<and> same_rows (wd_db w) (wd_db (snd (chat_api site ev cr q w)))"
    using rt(2) unfolding chat_api_def rt(1)
    by (elim insertE emptyE)
      (simp_all only: option.case prod.case run_route_def Let_def chat_route.case api_create_chat_def api_continue_chat_def
        api_regenerate_response_def api_retry_failed_message_def on_path_conversation_def fails simp_thms)
  with assms(3) show ?thesis by (simp add: same_rows_def)
qed

lemma v1_request_run:
  assumes "pl_runtime_version p \<noteq> ''AgentCorp V2''" and "new_identifiers site (wd_diagnostics w)"
  shows "execute_chat_request site cid p org cu w =
     (case v1_chat site (acting_user cu) org cid p (wd_db w) of (r, db) \<Rightarrow> (map_sum chat_failure Chat_Answer r, w\<lparr>wd_db := db\<rparr>))"
proof -
  obtain r db where run: "v1_chat site (acting_user cu) org cid p (wd_db w) = (r, db)" by fastforce
  show ?thesis
    using assms run
    by (cases r) (simp_all add: execute_chat_request_def router_execute_chat_def resolve_v2_iff v1_runtime_def Let_def new_identifiers_def
        response_model_def delete_update_same AList.delete_idem dict_get_None_iff)
qed

text \<open>
  C24: under Runtime V1 the endpoint is the chat service.  A valid request of a member who may
  chat is answered with what the operation of the service returns, an HTTP error of the service
  keeping its status and any other exception being a 500; the database is what the operation leaves, and the
  diagnostics are as before.
\<close>

theorem v1_chat_is_service:
  assumes "permitted_user ''chat:send'' ev cr (cd_access (wd_db w)) = Inr cu"
    and "u_is_superuser (snd cu) \<or> is_member (hq_organization q) (fst cu) (cd_access (wd_db w))"
    and "first_route (hq_verb q) (hq_path q) api_routes = Some (route, params)"
    and "(route, k) \<in> {(R_Create, ChatCreate), (R_Continue, ChatContinue), (R_Regenerate, ChatRegenerate), (R_Retry, ChatRetry)}"
    and "route \<noteq> R_Create \<longrightarrow> params = [seg] \<and> si_path_int site seg = Some c"
    and "valid_body k (hq_body q)" and "pl_runtime_version (hq_body q) \<noteq> ''AgentCorp V2''" and "new_identifiers site (wd_diagnostics w)"
  shows "chat_api site ev cr q w =
    (let p = (hq_body q)\<lparr>pl_kind := k\<rparr>; user = acting_user cu; org = hq_organization q;
         oper = (if route = R_Create then chat_op.Create p user org else if route = R_Continue then chat_op.Continue c p user org
                 else if route = R_Regenerate then chat_op.Regenerate c p user org else chat_op.Retry c p user org);
         (r, db) = run_op (si_services site) oper (si_keys site) (wd_db w)
     in (map_sum chat_failure Chat_Answer r, w\<lparr>wd_db := db\<rparr>))"
proof -
  note enter = chat_guard_enters [OF assms(1,2)] and v1 = v1_request_run [OF _ assms(8)]
  show ?thesis
    using assms(3-7)
    by (elim insertE emptyE)
      (simp_all add: chat_api_def run_route_def Let_def api_create_chat_def api_continue_chat_def api_regenerate_response_def
        api_retry_failed_message_def on_path_conversation_def enter v1 v1_chat_is_op chat_op_of_def split: list.split)
qed

section \<open>The route of a new stream\<close>

lemma match_lengths: "match_path ps xs \<noteq> None \<Longrightarrow> length xs = length ps"
  by (induction ps xs rule: match_path.induct) (auto split: if_splits)

lemma other_order:
  assumes "\<not> (v = Post \<and> path = [''api'', ''v1'', ''chat'', ''stream''])"
  shows "first_route v path (streaming_router @ chat_router @ metrics_router) = first_route v path api_routes"
proof -
  consider x y z where "path = [x, y, z]" | x y z a where "path = [x, y, z, a]" | x y z a b where "path = [x, y, z, a, b]"
    | "length path \<notin> {3, 4, 5}"
  proof (cases "length path \<in> {3, 4, 5}")
    case True
    then show thesis using that(1-3) by (auto simp: numeral_eq_Suc length_Suc_conv)
  qed (rule that(4))
  then show ?thesis
  proof cases
    case 4
    then have "match_path ps path = None" if "length ps \<in> {3, 4, 5}" for ps
      using match_lengths [of ps path] that by (cases "match_path ps path") auto
    then show ?thesis by (simp add: route_tables)
  qed (use assms in \<open>auto simp: route_tables split: if_splits\<close>)
qed

text \<open>
  C13: the endpoint that streams a new conversation cannot be reached.  The chat router comes first
  and its route of a conversation takes \<open>stream\<close> for the key of one, so a POST to
  \<open>/api/v1/chat/stream\<close> is answered with the refusal of the permission or with 422, and changes
  nothing; no verb and path lead to the streaming endpoint.  With the two routers in the other order this
  one path leads there, and every other path where it led before.
\<close>

theorem new_stream_shadowed:
  assumes "si_path_int site ''stream'' = None" and "hq_verb q = Post" and "hq_path q = [''api'', ''v1'', ''chat'', ''stream'']"
  shows "chat_api site ev cr q w =
      (Err (case permitted_user ''chat:send'' ev cr (cd_access (wd_db w)) of Inl x \<Rightarrow> x | Inr _ \<Rightarrow> HttpError 422 ''Unprocessable Entity''), w)
    \<and> first_route v path api_routes \<noteq> Some (R_Stream, params)
    \<and> first_route v path (streaming_router @ chat_router @ metrics_router) =
        (if v = Post \<and> path = hq_path q then Some (R_Stream, []) else first_route v path api_routes)"
proof (intro conjI)
  show "chat_api site ev cr q w =
      (Err (case permitted_user ''chat:send'' ev cr (cd_access (wd_db w)) of Inl x \<Rightarrow> x | Inr _ \<Rightarrow> HttpError 422 ''Unprocessable Entity''), w)"
    using assms(1)
    by (simp add: chat_api_def assms(2,3) stream_is_a_conversation run_route_def Let_def api_continue_chat_def on_path_conversation_def
        chat_guard_def depends_def valid_payload_def split: sum.split)
  show "first_route v path api_routes \<noteq> Some (R_Stream, params)" using new_stream_unreachable by blast
  show "first_route v path (streaming_router @ chat_router @ metrics_router) =
        (if v = Post \<and> path = hq_path q then Some (R_Stream, []) else first_route v path api_routes)"
    using other_order [of v path] by (auto simp: assms(3)) (simp add: route_tables)
qed

section \<open>Examples\<close>

definition hello_site :: "nat chat_site" where
  "hello_site = \<lparr>si_services = hello_services, si_stream = two_chunks, si_keys = serial_keys, si_models = (\<lambda>_ n. (Ok [''m''], Suc n)),
     si_native = \<lparr>ns_memories = (\<lambda>_ _ _ _ w. (Ok [], w)), ns_knowledge_bases = (\<lambda>_ w. (Ok [], w)), ns_documents = (\<lambda>_ w. (Ok [], w)),
       ns_retrieve = (\<lambda>_ _ _ _ w. (Ok [], w)), ns_workflow = (\<lambda>_ _ _ _ w. (Ok (1, ''COMPLETED''), w)),
       ns_tools = (\<lambda>_ _ _ _ _ w. (Ok [], w)), ns_stream = (\<lambda>_ _ _ w. (Ok 0, w)), ns_show = (\<lambda>_. [])\<rparr>,
     si_memories = (\<lambda>_. []), si_put_memories = (\<lambda>_ n. n), si_intelligence = sample_env, si_dump = (\<lambda>_. JNull), si_render = (\<lambda>_. []),
     si_path_int = py_int, si_ids = demo_ids, si_execution_id = ''x'', si_analysis_id = ''a'', si_planning_id = ''p''\<rparr>"

definition hello_world :: "nat chat_world" where
  "hello_world = \<lparr>wd_db = hello_db\<lparr>cd_access := sample_accounts\<rparr>, wd_published = [],
     wd_diagnostics = \<lparr>dx_executions = [], dx_analyses = [], dx_plannings = []\<rparr>, wd_counters = no_streams\<rparr>"

definition hello_request :: "string list \<Rightarrow> string \<Rightarrow> int \<Rightarrow> chat_http" where
  "hello_request path version org =
     \<lparr>hq_verb = Post, hq_path = [''api'', ''v1'', ''chat''] @ path, hq_organization = org,
      hq_body = hello_payload\<lparr>pl_runtime_version := version\<rparr>, hq_page = 1, hq_page_size = 20, hq_client = Stays\<rparr>"

theorem new_stream_shadowed_witness:
  "snd (chat_api hello_site sample_auth sample_token (hello_request [''stream''] ''AgentCorp V1'' 1) hello_world) = hello_world
   \<and> first_route Post [''api'', ''v1'', ''chat'', ''stream''] (streaming_router @ chat_router @ metrics_router) = Some (R_Stream, [])"
proof -
  have "si_path_int hello_site ''stream'' = None" by (simp add: hello_site_def) code_simp
  from new_stream_shadowed [OF this, of "hello_request [''stream''] ''AgentCorp V1'' 1" sample_auth sample_token hello_world Post
      "[''api'', ''v1'', ''chat'', ''stream'']"]
  show ?thesis by (simp add: hello_request_def)
qed

theorem v2_chats_never_answer_witness:
  "\<not> is_ok (fst (chat_api hello_site sample_auth sample_token (hello_request [''1''] ''AgentCorp V2'' 1) hello_world))"
proof -
  have "posts_chat (hello_request [''1''] ''AgentCorp V2'' 1)" by (simp add: posts_chat_def hello_request_def route_tables)
  from v2_chats_never_answer [OF this _ prod.collapse [symmetric], of hello_site sample_auth sample_token hello_world]
  show ?thesis by (simp add: hello_request_def)
qed

lemma hello_cleared: "permitted_user perm sample_auth sample_token (cd_access (wd_db hello_world)) =
    Inr (7, \<lparr>u_full_name = ''R'', u_email = ''r@x'', u_password_hash = [], u_is_active = True, u_is_superuser = True\<rparr>)"
  using sample_cleared [of perm] by (simp add: hello_world_def session_start_def sample_session_env_def)

theorem v1_chat_is_service_witness:
  "\<exists>r db. chat_api hello_site sample_auth sample_token (hello_request [''1''] ''AgentCorp V1'' 1) hello_world =
     (map_sum chat_failure Chat_Answer r, hello_world\<lparr>wd_db := db\<rparr>)
   \<and> continue_chat hello_services 1 hello_payload (acting_user (7, \<lparr>u_full_name = ''R'', u_email = ''r@x'', u_password_hash = [],
        u_is_active = True, u_is_superuser = True\<rparr>)) 1 serial_keys (wd_db hello_world) = (r, db)"
proof -
  have q: "first_route (hq_verb (hello_request [''1''] ''AgentCorp V1'' 1)) (hq_path (hello_request [''1''] ''AgentCorp V1'' 1)) api_routes =
      Some (R_Continue, [''1''])"
    by (simp add: hello_request_def route_tables)
  have c: "si_path_int hello_site ''1'' = Some 1" by (simp add: hello_site_def) code_simp
  have p: "valid_body ChatContinue (hq_body (hello_request [''1''] ''AgentCorp V1'' 1))" "(hq_body (hello_request [''1''] ''AgentCorp V1'' 1))\<lparr>pl_kind := ChatContinue\<rparr> = hello_payload"
    "hq_organization (hello_request [''1''] ''AgentCorp V1'' 1) = 1" "pl_runtime_version (hq_body (hello_request [''1''] ''AgentCorp V1'' 1)) \<noteq> ''AgentCorp V2''"
    by (simp_all add: hello_request_def hello_payload_def valid_body_def valid_message_def valid_sampling_def)
  have "new_identifiers hello_site (wd_diagnostics hello_world)" by (simp add: new_identifiers_def hello_world_def)
  from v1_chat_is_service [OF hello_cleared _ q _ _ p(1,4) this, where seg = "''1''" and c = 1]
  show ?thesis by (simp add: p(2,3) c split: prod.splits) (simp add: hello_site_def)
qed

theorem chat_requests_isolated_witness:
  "get_by_conversation 1 (cd_messages (wd_db (snd (chat_api hello_site sample_auth sample_token (hello_request [''1''] ''AgentCorp V1'' 2) hello_world))))
     = [(1, new_message 1 ''user'' ''hi'')]"
proof -
  have db: "cd_conversations (wd_db hello_world) = cd_conversations hello_db" "cd_messages (wd_db hello_world) = cd_messages hello_db"
    by (simp_all add: hello_world_def)
  have keys: "fresh_keys (si_keys hello_site)" by (simp add: hello_site_def serial_keys_fresh)
  have known: "1 \<in> ids (cd_conversations (wd_db hello_world))" by (simp add: db hello_db_def ids_def)
  have "\<not> own_conversation perm ev cr 2 1 v (wd_db hello_world)" for perm ev cr v
    by (auto simp: own_conversation_def db hello_db_def)
  with chat_requests_isolated [OF keys known prod.collapse [symmetric], of sample_auth sample_token "hello_request [''1''] ''AgentCorp V1'' 2"]
  have "get_by_conversation 1 (cd_messages (wd_db (snd (chat_api hello_site sample_auth sample_token (hello_request [''1''] ''AgentCorp V1'' 2) hello_world))))
      = get_by_conversation 1 (cd_messages hello_db)"
    by (simp add: hello_request_def db)
  then show ?thesis by (simp add: get_by_conversation_def hello_db_def repo_where_def new_message_def)
qed

end
