(* ===== verification/Stream_Events.thy ===== *)
theory Stream_Events
  imports Streaming
begin

text \<open>
  The wire format of a stream (\<open>utils/stream_events.py\<close>): server-sent events whose data is a
  JSON object.

  A client reads them by the rules of the standard: the text is cut into lines at line feeds and
  carriage returns, a line is a field, and a blank line ends an event.  The time stamps and the text Python
  prints for the latency are arguments.
\<close>

section \<open>Formatting\<close>

definition LF :: char where
  "LF = CHR 0x0A"

definition CR :: char where
  "CR = CHR 0x0D"

datatype sse_data = Serialised string | Payload json

definition format_sse :: "string \<Rightarrow> sse_data \<Rightarrow> string" where
  "format_sse event data =
     (let serialised = (case data of Serialised s \<Rightarrow> s | Payload j \<Rightarrow> json_dumps False j)
      in ''event: '' @ event @ [LF] @ ''data: '' @ serialised @ [LF, LF])"

definition token_payload :: "string \<Rightarrow> string \<Rightarrow> int \<Rightarrow> string \<Rightarrow> string \<Rightarrow> json" where
  "token_payload ts token index provider model =
     JObj [(''token'', JStr token), (''index'', JInt index), (''provider'', JStr provider), (''model'', JStr model), (''ts'', JStr ts)]"

definition format_token_event :: "string \<Rightarrow> string \<Rightarrow> int \<Rightarrow> string \<Rightarrow> string \<Rightarrow> string" where
  "format_token_event ts token index provider model = format_sse ''token'' (Payload (token_payload ts token index provider model))"

definition done_payload :: "string \<Rightarrow> string \<Rightarrow> usage option \<Rightarrow> nat \<Rightarrow> json" where
  "done_payload latency finish_reason u tokens_sent =
     JObj ([(''finish_reason'', JStr finish_reason), (''latency'', JFloat latency), (''tokens_sent'', JInt (int tokens_sent))]
       @ (case u of None \<Rightarrow> []
          | Some g \<Rightarrow> [(''usage'', JObj [(''prompt_tokens'', JInt (ug_prompt_tokens g)), (''completion_tokens'', JInt (ug_completion_tokens g)),
              (''total_tokens'', JInt (ug_total_tokens g))])]))"

definition format_done_event :: "string \<Rightarrow> string \<Rightarrow> usage option \<Rightarrow> nat \<Rightarrow> string" where
  "format_done_event latency finish_reason u tokens_sent = format_sse ''done'' (Payload (done_payload latency finish_reason u tokens_sent))"

definition error_payload :: "string \<Rightarrow> string \<Rightarrow> string \<Rightarrow> json" where
  "error_payload ts error code = JObj [(''error'', JStr error), (''code'', JStr code), (''ts'', JStr ts)]"

definition format_error_event :: "string \<Rightarrow> string \<Rightarrow> string \<Rightarrow> string" where
  "format_error_event ts error code = format_sse ''error'' (Payload (error_payload ts error code))"

definition format_ping_event :: "string \<Rightarrow> string" where
  "format_ping_event ts = format_sse ''ping'' (Payload (JObj [(''ts'', JStr ts)]))"

text \<open>What the service sends for an event: the time stamp, the latency and the event.\<close>

type_synonym stamped = "string \<times> string \<times> stream_event"

definition on_the_wire :: "stamped \<Rightarrow> string" where
  "on_the_wire x = (case x of (ts, latency, e) \<Rightarrow>
     (case e of
        TokenEvent token index provider model \<Rightarrow> format_token_event ts token index provider model
      | DoneEvent finish_reason u n \<Rightarrow> format_done_event latency finish_reason u n
      | ErrorEvent error code \<Rightarrow> format_error_event ts error code))"

section \<open>Reading\<close>

function split_lines :: "string \<Rightarrow> string list" where
  "split_lines [] = []"
| "split_lines (c # s) =
     (if c = LF then [] # split_lines s
      else if c = CR then [] # split_lines (if s \<noteq> [] \<and> hd s = LF then tl s else s)
      else (case split_lines s of [] \<Rightarrow> [[c]] | l # ls \<Rightarrow> (c # l) # ls))"
  by pat_completeness auto

termination split_lines
  by (relation "measure length") (auto simp: less_Suc_eq_le)

definition sse_field :: "string \<Rightarrow> string \<times> string" where
  "sse_field line =
     (let name = takeWhile (\<lambda>c. c \<noteq> CHR '':'') line; rest = drop (length name + 1) line
      in (name, if rest \<noteq> [] \<and> hd rest = CHR '' '' then tl rest else rest))"

fun read_events :: "string list \<Rightarrow> string \<Rightarrow> string list \<Rightarrow> (string \<times> string) list" where
  "read_events [] event data = []"
| "read_events (line # ls) event data =
     (if line = [] then
        (if data = [] then read_events ls [] []
         else (if event = [] then ''message'' else event, py_join [LF] data) # read_events ls [] [])
      else (case sse_field line of (name, value) \<Rightarrow>
        if name = ''event'' then read_events ls value data
        else if name = ''data'' then read_events ls event (data @ [value])
        else read_events ls event data))"

definition read_sse :: "string \<Rightarrow> (string \<times> string) list" where
  "read_sse s = read_events (split_lines s) [] []"

section \<open>One line of data\<close>

definition one_line :: "string \<Rightarrow> bool" where
  "one_line s \<longleftrightarrow> LF \<notin> set s \<and> CR \<notin> set s"

lemma one_line_append [simp]: "one_line (s @ t) \<longleftrightarrow> one_line s \<and> one_line t"
  by (auto simp: one_line_def)

lemma one_line_Nil [simp]: "one_line []"
  by (simp add: one_line_def)

lemma one_line_Cons [simp]: "one_line (c # s) \<longleftrightarrow> c \<noteq> LF \<and> c \<noteq> CR \<and> one_line s"
  by (auto simp: one_line_def)

lemma one_line_concat: "list_all one_line xs \<Longrightarrow> one_line (concat xs)"
  by (induction xs) simp_all

lemma one_line_join: "one_line sep \<Longrightarrow> list_all one_line xs \<Longrightarrow> one_line (py_join sep xs)"
  by (induction xs rule: induct_list012) simp_all

lemma line_ends: "(of_char LF :: nat) = 10" "(of_char CR :: nat) = 13"
  by (simp_all add: LF_def CR_def)

lemma hex_char_line: "d < 16 \<Longrightarrow> hex_char d \<noteq> LF \<and> hex_char d \<noteq> CR"
proof -
  assume "d < 16"
  then have "(of_char (hex_char d) :: nat) = (if d < 10 then 48 + d else 87 + d)" by (simp add: hex_char_def)
  then have "(of_char (hex_char d) :: nat) \<ge> 48" by simp
  with line_ends show ?thesis by (metis numeral_le_iff semiring_norm(68,69,70,71,72,73))
qed

lemma escape_line: "one_line (escape_char ascii c)"
proof -
  have small: "n div 16 < 16 \<and> n mod 16 < 16" if "n < 256" for n :: nat using that by auto
  have "(of_char c :: nat) < 256" by (metis nat_of_char_less_256)
  note hex = hex_char_line [OF conjunct1 [OF small [OF this]]] hex_char_line [OF conjunct2 [OF small [OF this]]]
  have c: "c = LF \<longleftrightarrow> (of_char c :: nat) = 10" "c = CR \<longleftrightarrow> (of_char c :: nat) = 13"
    using line_ends by (metis of_char_eq_iff)+
  have plain: "one_line [CHR 0x5C, x]" if "x \<in> {CHR 0x22, CHR 0x5C, CHR ''n'', CHR ''r'', CHR ''t'', CHR ''b'', CHR ''f''}" for x
    using that by (elim insertE emptyE) (simp_all add: LF_def CR_def)
  have code: "one_line [CHR 0x5C, CHR ''u'', CHR ''0'', CHR ''0'', hex_char (of_char c div 16), hex_char (of_char c mod 16)]"
    using hex by (simp add: LF_def CR_def)
  show ?thesis
    unfolding escape_char_def Let_def by (simp only: plain code insert_iff simp_thms if_True split: if_split) (simp add: c)
qed

lemma quote_line: "one_line (quote_string ascii s)"
  by (auto simp: quote_string_def LF_def CR_def intro!: one_line_concat escape_line simp: list_all_iff)

fun floats_one_line :: "json \<Rightarrow> bool" where
  "floats_one_line (JFloat s) = one_line s"
| "floats_one_line (JList xs) = list_all floats_one_line xs"
| "floats_one_line (JObj d) = list_all (\<lambda>(k, v). floats_one_line v) d"
| "floats_one_line _ = True"

lemma digits_line: "list_all is_digit s \<Longrightarrow> one_line s"
proof -
  have "\<not> is_digit LF" "\<not> is_digit CR" by (simp_all add: is_digit_def LF_def CR_def)
  then show "list_all is_digit s \<Longrightarrow> one_line s" by (auto simp: one_line_def list_all_iff)
qed

lemma int_line: "one_line (show_int i)"
  using digits_line [OF show_nat_digits] by (simp add: show_int_def LF_def CR_def)

text \<open>The JSON text of a value is one line, whatever its strings hold.\<close>

lemma json_line: "floats_one_line j \<Longrightarrow> one_line (json_dumps ascii j)"
proof (induction j rule: floats_one_line.induct)
  case (2 xs)
  then have "list_all one_line (map (json_dumps ascii) xs)" by (auto simp: list_all_iff)
  from one_line_join [OF _ this, of "'', ''"] show ?case by (simp add: LF_def CR_def)
next
  case (3 d)
  then have "list_all one_line (map (\<lambda>(k, v). quote_string ascii k @ '': '' @ json_dumps ascii v) d)"
    by (fastforce simp: list_all_iff quote_line LF_def CR_def)
  from one_line_join [OF _ this, of "'', ''"] show ?case by (simp add: LF_def CR_def)
qed (simp_all add: int_line quote_line LF_def CR_def)

section \<open>Reading what was sent\<close>

lemma split_line: "one_line l \<Longrightarrow> split_lines (l @ LF # s) = l # split_lines s"
  by (induction l) auto

lemma split_event:
  assumes "one_line event" and "one_line data"
  shows "split_lines (format_sse event (Serialised data) @ s) = (''event: '' @ event) # (''data: '' @ data) # [] # split_lines s"
proof -
  have l: "one_line (''event: '' @ event)" "one_line (''data: '' @ data)" using assms by (simp_all add: LF_def CR_def)
  have "format_sse event (Serialised data) @ s = (''event: '' @ event) @ LF # (''data: '' @ data) @ LF # [] @ LF # s"
    by (simp add: format_sse_def)
  then show ?thesis by (simp only: split_line l one_line_Nil append_Nil split_line [OF one_line_Nil, unfolded append_Nil])
qed

lemma read_fields: "sse_field (''event: '' @ v) = (''event'', v)" "sse_field (''data: '' @ v) = (''data'', v)"
  by (simp_all add: sse_field_def Let_def)

lemma read_event:
  assumes "one_line event" and "one_line data" and "event \<noteq> []"
  shows "read_sse (format_sse event (Serialised data) @ s) = (event, data) # read_sse s"
  using assms(3) by (simp add: read_sse_def split_event [OF assms(1,2)] read_fields [simplified])

lemma payload_serialised: "format_sse event (Payload j) = format_sse event (Serialised (json_dumps False j))"
  by (simp add: format_sse_def)

definition event_name :: "stream_event \<Rightarrow> string" where
  "event_name e = (case e of TokenEvent _ _ _ _ \<Rightarrow> ''token'' | DoneEvent _ _ _ \<Rightarrow> ''done'' | ErrorEvent _ _ \<Rightarrow> ''error'')"

definition event_payload :: "stamped \<Rightarrow> json" where
  "event_payload x = (case x of (ts, latency, e) \<Rightarrow>
     (case e of
        TokenEvent token index provider model \<Rightarrow> token_payload ts token index provider model
      | DoneEvent finish_reason u n \<Rightarrow> done_payload latency finish_reason u n
      | ErrorEvent error code \<Rightarrow> error_payload ts error code))"

lemma wire_text: "on_the_wire x = format_sse (event_name (snd (snd x))) (Serialised (json_dumps False (event_payload x)))"
  by (cases x; cases "snd (snd x)")
    (simp_all add: on_the_wire_def format_token_event_def format_done_event_def format_error_event_def payload_serialised event_name_def event_payload_def)

lemma payload_line: "one_line (fst (snd x)) \<Longrightarrow> floats_one_line (event_payload x)"
  by (cases x; cases "snd (snd x)")
    (auto simp: event_payload_def token_payload_def done_payload_def error_payload_def split: option.split)

lemma name_line: "one_line (event_name e)" "event_name e \<noteq> []"
  by (cases e; simp add: event_name_def LF_def CR_def)+

text \<open>
  C36: the wire format loses and invents no event.  A client that reads what was sent by the rules
  of server-sent events gets the events one by one and in order, each with its name and the JSON text
  of its payload, whatever the tokens, error texts and names of models contain, line ends, blank lines and
  texts that look like events included.
\<close>

theorem events_read_back:
  assumes "list_all (\<lambda>x. one_line (fst (snd x))) xs"
  shows "read_sse (concat (map on_the_wire xs)) = map (\<lambda>x. (event_name (snd (snd x)), json_dumps False (event_payload x))) xs"
  using assms
  by (induction xs) (simp_all add: read_sse_def [of "[]"] wire_text read_event name_line json_line payload_line)

theorem events_read_back_witness:
  "map fst (read_sse (concat (map on_the_wire
     [(''t'', ''0.4'', TokenEvent ([LF, LF] @ ''event: done'' @ [LF]) 0 ''p'' ''m''), (''t'', ''0.4'', DoneEvent ''stop'' None 1)]))) = [''token'', ''done'']"
  using events_read_back [of "[(''t'', ''0.4'', TokenEvent ([LF, LF] @ ''event: done'' @ [LF]) 0 ''p'' ''m''), (''t'', ''0.4'', DoneEvent ''stop'' None 1)]"]
  by (simp add: LF_def CR_def event_name_def)

end
