(* ===== verification/Orchestration.thy ===== *)
theory Orchestration
  imports Multi_Agent_Invariant Autonomous
begin

text \<open>
  The orchestration of a session's goal (\<open>multi_agent/orchestrator.py\<close> and
  \<open>orchestrate_goal\<close> of \<open>services/multi_agent_service.py\<close>): the coordinator of the session runs the
  goal through the autonomous engine of \<open>Autonomous\<close>.

  The runtime that executes a task, the clock and the text of a percentage are arguments; the
  runtime reads and writes the same database, here the multi-agent tables and the rest \<open>'w\<close> of it.
  The registrations with the diagnostics are returned as a list of keys and values.
\<close>

section \<open>Trace of a goal\<close>

record goal_trace_entry =
  ge_stage_name :: string
  ge_status :: string
  ge_summary :: string
  ge_goal_id :: "int option"
  ge_created_at :: string
  ge_updated_at :: string
  ge_priority :: string
  ge_dependencies :: "goal_link list"
  ge_milestones :: "milestone list"
  ge_metadata :: metadata

definition goal_trace :: "goal_report \<Rightarrow> goal_trace_entry" where
  "goal_trace g =
     (let status = state_value (g_status g) in
      \<lparr>ge_stage_name = ''Goal '' @ take 1 status @ py_lower (drop 1 status), ge_status = status,
       ge_summary = ''Goal '' @ [CHR 0x27] @ g_title g @ [CHR 0x27] @ '' is '' @ py_lower status @ '' with priority '' @ priority_value (g_priority g) @ ''.'',
       ge_goal_id = g_goal_id g, ge_created_at = g_created_at g, ge_updated_at = g_updated_at g, ge_priority = priority_value (g_priority g),
       ge_dependencies = g_dependencies g, ge_milestones = g_milestones g, ge_metadata = g_metadata g\<rparr>)"

section \<open>Aggregation\<close>

definition task_ids :: "task_report list \<Rightarrow> json" where
  "task_ids ts = JList (map (\<lambda>t. case tk_task_id t of None \<Rightarrow> JNull | Some i \<Rightarrow> JStr i) ts)"

definition goal_key_json :: "goal_report \<Rightarrow> json" where
  "goal_key_json g = (case g_goal_id g of None \<Rightarrow> JNull | Some i \<Rightarrow> JInt i)"

definition report_metadata :: "int \<Rightarrow> execution_report \<Rightarrow> metadata" where
  "report_metadata org r =
     [(''goal_id'', goal_key_json (er_goal r)), (''organization_id'', JInt org), (''task_count'', JInt (int (length (er_tasks r))))]"

definition aggregate :: "(nat \<Rightarrow> nat \<Rightarrow> string) \<Rightarrow> int \<Rightarrow> execution_report \<Rightarrow> metadata" where
  "aggregate percent org r =
     [(''goal_id'', goal_key_json (er_goal r)), (''completed_tasks'', task_ids (er_completed r)), (''failed_tasks'', task_ids (er_failed r)),
      (''blocked_tasks'', task_ids (er_blocked r)),
      (''progress_percent'', JFloat (percent (length (er_completed r)) (length (er_tasks r)))),
      (''summary'', JStr (er_summary r)), (''provenance'', JObj (report_metadata org r))]"

section \<open>Orchestrator\<close>

record orchestration_context =
  oc_goal :: goal_report
  oc_participating_agents :: "int list"
  oc_delegated_tasks :: "string list"
  oc_state :: metadata
  oc_metadata :: metadata

record orchestration_report =
  oz_supervisor_agent_id :: int
  oz_goal :: goal_report
  oz_autonomous_report :: execution_report
  oz_shared_context :: orchestration_context
  oz_aggregation_summary :: string
  oz_metadata :: metadata

type_synonym registrations = "(string \<times> metadata) list"

definition registration_key :: "goal_report \<Rightarrow> string" where
  "registration_key g = (case g_goal_id g of None \<Rightarrow> ''goal'' | Some i \<Rightarrow> if i = 0 then ''goal'' else show_int i)"

definition agent_list :: "int list \<Rightarrow> json" where
  "agent_list xs = JList (map JInt xs)"

definition run_orchestrator ::
  "('e ma_db \<times> 'w) runtime \<Rightarrow> (nat \<Rightarrow> nat \<Rightarrow> string) \<Rightarrow> string \<Rightarrow> goal_report \<Rightarrow> int \<Rightarrow> int list \<Rightarrow> int \<Rightarrow> int
   \<Rightarrow> 'e ma_db \<times> 'w \<Rightarrow> orchestration_report \<times> ('e ma_db \<times> 'w) \<times> registrations" where
  "run_orchestrator run percent now g supervisor workers org sid x =
     (let delegated = map (\<lambda>t. or_str (tk_task_id t) []) (split_goal now g);
          ctx = \<lparr>oc_goal = g, oc_participating_agents = supervisor # workers, oc_delegated_tasks = delegated,
                 oc_state = [(''status'', JStr ''running'')], oc_metadata = [(''organization_id'', JInt org)]\<rparr>;
          db1 = publish sid [(''event'', JStr ''supervisor_started''), (''goal_id'', goal_key_json g),
                  (''supervisor_agent_id'', JInt supervisor)] (fst x);
          db2 = publish sid [(''event'', JStr ''task_delegation''), (''goal_id'', goal_key_json g),
                  (''delegated_tasks'', JList (map JStr delegated))] db1;
          (r, x') = execute_goal run now g (db2, snd x);
          aggregated = aggregate percent org r;
          g' = er_goal r
      in (\<lparr>oz_supervisor_agent_id = supervisor, oz_goal = g'\<lparr>g_metadata := dict_merge (g_metadata g') [(''aggregation'', JObj aggregated)]\<rparr>,
           oz_autonomous_report = r, oz_shared_context = ctx, oz_aggregation_summary = er_summary r,
           oz_metadata = [(''organization_id'', JInt org), (''worker_agent_count'', JInt (int (length workers)))]\<rparr>,
          x',
          [(registration_key g, [(''status'', JStr ''multi_agent_completed''), (''goal_id'', goal_key_json g),
             (''supervisor_agent_id'', JInt supervisor), (''worker_agent_ids'', agent_list workers), (''aggregation_summary'', JStr (er_summary r))])]))"

section \<open>Service\<close>

definition session_goal :: "string \<Rightarrow> int \<Rightarrow> ma_session \<Rightarrow> goal_report" where
  "session_goal now sid s =
     create_goal now (se_name s) (se_goal s) (se_created_by s) (se_organization_id s) None MEDIUM None []
       (Some [(''session_id'', JInt sid), (''source'', JStr ''multi_agent'')])"

definition session_workers :: "int \<Rightarrow> ma_session \<Rightarrow> 'e ma_db \<Rightarrow> int list" where
  "session_workers sid s db = filter (\<lambda>a. a \<noteq> se_coordinator_agent_id s) (participant_agent_ids sid (participants db))"

definition orchestrate_goal ::
  "('e ma_db \<times> 'w) runtime \<Rightarrow> (nat \<Rightarrow> nat \<Rightarrow> string) \<Rightarrow> string \<Rightarrow> int \<Rightarrow> int \<Rightarrow> 'e ma_db \<times> 'w
   \<Rightarrow> (ma_error, metadata) result \<times> ('e ma_db \<times> 'w) \<times> registrations" where
  "orchestrate_goal run percent now org sid x =
     (case get_session org sid (fst x) of
        Inl e \<Rightarrow> (Err e, x, [])
      | Inr s \<Rightarrow>
          (let (report, x', regs) = run_orchestrator run percent now (session_goal now sid s) (se_coordinator_agent_id s)
                 (session_workers sid s (fst x)) org sid x
           in (Ok (dict_merge (oz_metadata report) [(''aggregation_summary'', JStr (oz_aggregation_summary report))]),
               x',
               regs @ [(show_int sid, [(''session_id'', JInt sid), (''goal_id'', goal_key_json (oz_goal report)),
                 (''aggregation_summary'', JStr (oz_aggregation_summary report)), (''supervisor_agent_id'', JInt (oz_supervisor_agent_id report)),
                 (''worker_agent_count'', JInt (int (length (oc_participating_agents (oz_shared_context report))) - 1))])])))"

section \<open>Who does the work\<close>

lemma publish_twice:
  "publish sid n (publish sid m db) =
     db\<lparr>deliveries := deliveries db @ map (\<lambda>cb. (cb, m)) (dict_get_or (subscribers db) sid [])
                     @ map (\<lambda>cb. (cb, n)) (dict_get_or (subscribers db) sid [])\<rparr>"
  by (simp add: publish_def)

lemma summary_of_goal:
  "er_summary (fst (execute_goal run now g w)) =
     (if fst (run (task_message (make_task now g 0)) w) = None
      then ''Executed 1 task(s) with 0 failure(s).'' else ''Executed 0 task(s) with 1 failure(s).'')"
proof -
  have n: "show_nat 0 = ''0''" "show_nat (Suc 0) = ''1''" by code_simp+
  show ?thesis by (simp add: execute_goal_def execute_goal_loop run_task_cases Let_def n split: option.split)
qed

text \<open>What the subscribers of a session are told before its goal is run.\<close>

definition delegation_announcements :: "string \<Rightarrow> int \<Rightarrow> ma_session \<Rightarrow> metadata list" where
  "delegation_announcements now sid s =
     [[(''event'', JStr ''supervisor_started''), (''goal_id'', JNull), (''supervisor_agent_id'', JInt (se_coordinator_agent_id s))],
      [(''event'', JStr ''task_delegation''), (''goal_id'', JNull),
       (''delegated_tasks'', JList (map (\<lambda>t. JStr (or_str (tk_task_id t) [])) (split_goal now (session_goal now sid s))))]]"

text \<open>The database with the announcements delivered and every row as it was.\<close>

definition announced :: "string \<Rightarrow> int \<Rightarrow> ma_session \<Rightarrow> 'e ma_db \<Rightarrow> 'e ma_db" where
  "announced now sid s db =
     db\<lparr>deliveries := deliveries db
          @ concat (map (\<lambda>m. map (\<lambda>cb. (cb, m)) (dict_get_or (subscribers db) sid [])) (delegation_announcements now sid s))\<rparr>"

lemma session_goal_key: "g_goal_id (session_goal now sid s) = None"
  by (simp add: session_goal_def create_goal_def)

lemma orchestrator_run:
  fixes now sid s x
  defines "g \<equiv> session_goal now sid s"
  assumes "run_orchestrator run percent now g (se_coordinator_agent_id s) workers org sid x = (report, x', regs)"
  shows "x' = snd (run (task_message (make_task now g 0)) (announced now sid s (fst x), snd x))
    \<and> oz_metadata report = [(''organization_id'', JInt org), (''worker_agent_count'', JInt (int (length workers)))]
    \<and> oz_aggregation_summary report =
        (if fst (run (task_message (make_task now g 0)) (announced now sid s (fst x), snd x)) = None
         then ''Executed 1 task(s) with 0 failure(s).'' else ''Executed 0 task(s) with 1 failure(s).'')
    \<and> map fst regs = [''goal'']"
proof -
  have db: "publish sid [(''event'', JStr ''task_delegation''), (''goal_id'', goal_key_json g),
        (''delegated_tasks'', JList (map JStr (map (\<lambda>t. or_str (tk_task_id t) []) (split_goal now g))))]
      (publish sid [(''event'', JStr ''supervisor_started''), (''goal_id'', goal_key_json g),
        (''supervisor_agent_id'', JInt (se_coordinator_agent_id s))] (fst x)) = announced now sid s (fst x)"
    unfolding publish_twice announced_def delegation_announcements_def g_def
    by (simp add: goal_key_json_def session_goal_key comp_def)
  have key: "registration_key g = ''goal''" by (simp add: g_def registration_key_def session_goal_key)
  show ?thesis
    using assms(2) unfolding run_orchestrator_def Let_def db
    by (auto simp: key split_beta summary_of_goal execute_goal_world)
qed

text \<open>
  C19: orchestrating a session's goal, on every branch.  A session of another organization, or none, is
  an error without an effect.  Otherwise the tasks that are announced as delegated are never given to anybody.
  The two announcements are delivered to the subscribers of the session and no row is written; from that state the
  runtime is run once, on the message of the first task of the session's goal, and the orchestration ends in the
  state this one run leaves: no other task is run and no agent of the session runs one.
  The agents only appear as a number in the answer, whose summary says how that run went.  The
  execution is registered under the key \<open>goal\<close> whatever the session.
\<close>

theorem orchestration_delegates_nothing:
  assumes "orchestrate_goal run percent now org sid (db, w) = (r, x', regs)"
  shows "case get_session org sid db of
      Inl x \<Rightarrow> r = Err x \<and> x' = (db, w) \<and> regs = []
    | Inr s \<Rightarrow>
       (let first = task_message (make_task now (session_goal now sid s) 0)
        in x' = snd (run first (announced now sid s db, w))
         \<and> r = Ok [(''organization_id'', JInt org),
              (''worker_agent_count'', JInt (int (length (session_workers sid s db)))),
              (''aggregation_summary'', JStr (if fst (run first (announced now sid s db, w)) = None
                 then ''Executed 1 task(s) with 0 failure(s).'' else ''Executed 0 task(s) with 1 failure(s).''))])
       \<and> map fst regs = [''goal'', show_int sid]"
proof (cases "get_session org sid db")
  case (Inl x)
  with assms show ?thesis by (simp add: orchestrate_goal_def)
next
  case (Inr s)
  obtain report y pre where run: "run_orchestrator run percent now (session_goal now sid s) (se_coordinator_agent_id s)
      (session_workers sid s db) org sid (db, w) = (report, y, pre)" by (metis prod_cases3)
  show ?thesis
    using assms orchestrator_run [OF run]
    by (auto simp: Inr orchestrate_goal_def run Let_def dict_merge_def)
qed

definition one_percent :: "nat \<Rightarrow> nat \<Rightarrow> string" where
  "one_percent done_count all_count = (if done_count = all_count then ''100.0'' else ''0.0'')"

text \<open>A runtime that answers and counts its runs.\<close>

definition counting_runtime :: "('e ma_db \<times> nat) runtime" where
  "counting_runtime message x = (None, (fst x, Suc (snd x)))"

theorem orchestration_delegates_nothing_witness:
  "\<exists>db' regs. orchestrate_goal counting_runtime one_percent ''2024'' 7 1 (demo_created, 0) =
     (Ok [(''organization_id'', JInt 7), (''worker_agent_count'', JInt 1), (''aggregation_summary'', JStr ''Executed 1 task(s) with 0 failure(s).'')], (db', 1), regs)
   \<and> delegations db' = delegations demo_created"
proof -
  obtain r x' regs where run: "orchestrate_goal counting_runtime one_percent ''2024'' 7 1 (demo_created, 0) = (r, x', regs)"
    by (metis prod_cases3)
  have "(case get_session 7 1 demo_created of Inl _ \<Rightarrow> False
      | Inr s \<Rightarrow> length (session_workers 1 s demo_created) = 1)" by code_simp
  with orchestration_delegates_nothing [OF run] run show ?thesis
    by (cases "get_session 7 1 demo_created") (auto simp: counting_runtime_def announced_def)
qed

end
