(* ===== verification/Spec2Isabelle.thy ===== *)
theory Spec2Isabelle
  imports Rate_Limiter Quota Authorization Policy_Engine Secrets Autonomous Tool_Engine Workflow Multi_Agent_Invariant Runtime_V2 Streaming Content_Api Compliance Directory_Security Intelligence Sanitizer Security_Guarantees Session_Security Groq Workflow_Security Observatory_Api Chat_Security Stream_Events Orchestration
begin

text \<open>
  Verification of the AgentCorp backend (\<open>src/apps/backend/app\<close>): a FastAPI service in which the
  members of organizations talk to AI agents, give them tools, memories and documents, and let
  them run workflows and goals.

  \<^bold>\<open>How the program is put together, and where each part is modelled.\<close>  Paths are relative to
  \<open>src/apps/backend/app\<close>.

  \<^item> \<^bold>\<open>Base.\<close>  \<open>Prelude\<close> has Python dictionaries (association lists in insertion order), strings,
    decimal printing, stable sorting and results that carry an error; \<open>Json\<close> the text form of
    JSON values; \<open>Regex\<close> the part of \<open>re\<close> the scanners use; \<open>Tables\<close> the generic repository
    (\<open>repositories/base_repository.py\<close>): a table is the list of its rows with their keys.
  \<^item> \<^bold>\<open>Access.\<close>  \<open>Access_Control\<close> (\<open>models/\<close> and the services of users, roles, permissions,
    organizations, teams, tools), \<open>Access_Invariant\<close> (keys, unique columns, references);
    \<open>Authorization\<close> (\<open>services/auth_service.py\<close>, \<open>core/jwt.py\<close>, the permission checks);
    \<open>Endpoint\<close> (the dependencies of a request), \<open>Directory_Api\<close> and \<open>Directory_Security\<close>
    (\<open>api/endpoints/\<close>: every endpoint, the router, and who may change what).
  \<^item> \<^bold>\<open>Security.\<close>  \<open>Security_Core\<close> and \<open>Rate_Limiter\<close> (\<open>security/rate_limiter.py\<close> and the
    middleware), \<open>Quota\<close>, \<open>Policy_Engine\<close>, \<open>Secrets\<close> (secret manager, encryption, rotation),
    \<open>Content_Safety\<close> (\<open>security/pii.py\<close>, \<open>security/validator.py\<close>), \<open>Sanitizer\<close>, \<open>Compliance\<close>
    (\<open>security/governance.py\<close>, \<open>compliance.py\<close>); \<open>Security_Api\<close> and \<open>Security_Guarantees\<close>
    compose them behind \<open>api/v1/security.py\<close> with the event service and the key of the environment.
  \<^item> \<^bold>\<open>Conversation.\<close>  \<open>Providers\<close> (registry, manager, failover), \<open>Tool_Engine\<close> (\<open>tools/\<close>), \<open>Chat\<close>
    and \<open>Chat_Invariant\<close> (\<open>services/chat_service.py\<close> with its builders and repositories),
    \<open>Streaming\<close> (\<open>services/streaming_service.py\<close>), \<open>Stream_Events\<close> (the wire format of
    \<open>utils/stream_events.py\<close> and a client that reads it), \<open>Groq\<close> (the adapter of \<open>providers/groq.py\<close>
    over an arbitrary SDK and the adapters that only raise).  \<open>Chat_Api\<close> and \<open>Chat_Security\<close> have the endpoints
    (\<open>api/v1/chat.py\<close>, \<open>api/v1/streaming.py\<close>) with their routes, both runtimes behind the router and the
    services behind the runtimes.
  \<^item> \<^bold>\<open>Memory and knowledge.\<close>  \<open>Memory\<close> (\<open>services/memory_service.py\<close>, \<open>memory/\<close>), \<open>Knowledge\<close>
    and \<open>Knowledge_Invariant\<close> (\<open>services/knowledge_service.py\<close>, \<open>knowledge/\<close>, \<open>rag/\<close>), and
    \<open>Content_Api\<close>, their endpoints with the ownership checks.
  \<^item> \<^bold>\<open>Agents.\<close>  \<open>Workflow\<close>, \<open>Agent_Engine\<close>, \<open>Multi_Agent\<close> and \<open>Multi_Agent_Invariant\<close>
    (the services of these names); the agent engine runs behind every participant of a session.
    \<open>Orchestration\<close> joins a session and the autonomous loop (\<open>multi_agent/orchestrator.py\<close>).
    Their endpoints are \<open>Workflow_Api\<close> with \<open>Workflow_Security\<close> and \<open>Session_Api\<close> with
    \<open>Session_Security\<close>.
  \<^item> \<^bold>\<open>Runtime V2\<close> (\<open>runtime/\<close>).  \<open>Goals\<close>, \<open>Tasks\<close> and \<open>Autonomous\<close>; \<open>Cognition\<close>, \<open>Planning\<close>,
    \<open>Governance\<close>, \<open>Execution\<close>, \<open>Native_Executors\<close> and \<open>Runtime_V2\<close> are the pipeline of a request: analyse,
    plan, govern, execute by capabilities, answer; \<open>Analysis\<close> and \<open>Intelligence\<close> are what follows the
    engine before the answer is given: reflection, evaluation, learning, long-term intelligence, optimisation.  A chat waits
    for that analysis: when the database refuses its memories, the chat fails, and a completed analysis
    publishes a run of its own.  \<open>Chat_Api\<close> puts both behind the endpoints.
  \<^item> \<^bold>\<open>Operations.\<close>  \<open>Telemetry\<close> (metrics, spans, log records, health, the audit service and the
    middleware that observes a request), \<open>Observatory\<close> (the registries of \<open>observability/diagnostics.py\<close> and
    \<open>runtime/observatory.py\<close>), \<open>Observatory_Api\<close> (\<open>api/v1/observability.py\<close>).

  \<^bold>\<open>How code becomes definitions.\<close>  A class or row is a record, an enumeration a datatype, a
  module-level or database state a record that every operation returns updated.  A raise is the
  left side of a result, an early return a branch.  Python integers are \<open>int\<close>, floats are hundredths
  or rationals as the theory says, strings are lists of ASCII characters.  What the code takes from
  outside is an argument: the clock, keys of new rows, random identifiers, the password hash, the
  token library, Fernet, the UTF-8 decoder, the embedding service, the network call of a provider, the runtime the
  autonomous loop drives.  What is called may change the world it is given and returns it changed.
  A new key is one the table of the new row does not have.
  Laws assumed of them are the documented ones and stand in the statements that use them.
  \<^item> \<^bold>\<open>Fuel.\<close>  The loop of a workflow and of the tool-calling and autonomous engines are total functions where the code
    bounds them by a counter; the run of a workflow has no bound in the code and takes fuel.  For a
    workflow without cycles as many steps as it has nodes suffice, and the run then finishes; for a
    cyclic one with conditions that stay true no amount suffices, which is proved as well.
  \<^item> \<^bold>\<open>Refusals of the database.\<close>  A row that refers to a missing row, and a user other rows refer to, are
    refused where the code lets the database decide: memories, knowledge bases, goals, executions of a workflow, deleted
    users.  Which rows exist is read from the tables of the model, or an argument where it has no such table.  A request a class of the code validates when it is
    built (the request to a provider, the bodies of the endpoints) is refused out of its bounds.
  \<^item> \<^bold>\<open>Interfaces.\<close>  The contracts between components are locales, each interpreted on the
    definitions of the component that provides it: the keyed store of a table, the priority queue of
    tasks, an edit of a memory, the dependency of an endpoint, rounding to nearest.

  \<^bold>\<open>What the lemmas show.\<close>  For each component: an invariant of its state and that every
  operation keeps it (access control, knowledge base, multi-agent sessions, conversations, policy
  cache, quotas, events); what each operation returns on every branch; that the optimised or
  incremental code computes its specification (failover order, first decisive policy, the
  regular-expression matcher and its meaning, sliding rate-limit windows); that loops end; that
  encoding and decoding, registration and login, chunking and joining, sending and reading a stream are
  inverse.  Across components: which requests work without authentication and which permission each
  change needs, that tenants do not see each other's rows, what a chat stores, and that a request behind the API does what
  the service below it does.

  \<^bold>\<open>What modelling found\<close> is stated as theorems where it can be: erasure that erases nothing,
  exports that always fail, accounts that can never log in, team endpoints without authentication,
  deleted documents that are still retrieved, role conditions no request satisfies, a policy without
  a name that breaks the listing, an analysis whose verdict is always the same, a route that cannot be
  reached, a runtime that never answers a chat, streams that never answer, workflows that read the
  documents of another organization, audit events stored several times.

  \<^bold>\<open>Not modelled.\<close>  The HTTP client of an AI vendor and its server, the database, the token and
  encryption libraries, pgvector and the web framework are third-party code and arguments of the definitions that use
  them, or documented behaviour (routing, dependencies, validation) written where it is used.  Configuration,
  start-up, database sessions, migrations and seeds are settings without a behaviour of their own;
  response schemas only copy columns; the text of log lines and durations decide nothing; the frontend is
  another language.  The serializer of tool definitions for OpenAI, the two built-in tools and the delegated
  capability runtimes that the native registry replaces are left out.  After a statement the database refuses, the code's
  session takes no further one until a rollback; the model goes on with the committed state.  The counter of
  iterations in the context of a running goal reaches its row with the next update of that row, in the code with the next commit of
  anybody on the session.  The reference of an execution to its organization and agent is checked by the endpoint's
  definition, not by the engine's.  Concurrency is modelled where the code
  relies on a lock or on the order of operations: one request is one step of a history.
\<close>

end
